(* ===== verification/Prelude.thy ===== *)
theory Prelude
  imports Complex_Main
    "HOL-Library.Word"
    "HOL-Library.AList"
    "HOL-Library.Char_ord"
    "HOL-Library.List_Lexorder"
begin

text \<open>
  Shared vocabulary of the development: results with errors as values (the \<open>?\<close> operator
  of the source), byte strings with the trimming and splitting operations the code uses,
  checked fixed-width arithmetic, keyed tables (the in-memory \<open>HashMap\<close>s) and the ordered
  sets of the standard library.

  A Rust string is its UTF-8 byte sequence, a \<^typ>\<open>string\<close>; lengths count bytes, as
  \<open>str::len\<close> does. A \<open>Uuid\<close> is the number its 128 bits spell, a \<open>DateTime<Utc>\<close> the number
  of nanoseconds since the epoch.
\<close>

named_theorems res_simps \<open>unfolding of the result monad\<close>
named_theorems norm_simps \<open>definitions of the string normalisers\<close>

type_synonym uuid = nat
type_synonym timestamp = int

section \<open>Application errors (error.rs)\<close>

record app_error =
  err_status :: nat
  err_message :: string
  execution_outcome_known :: bool
  execution_retry_safe :: bool

definition mk_error :: "nat \<Rightarrow> string \<Rightarrow> app_error" where
  "mk_error status message =
     \<lparr>err_status = status, err_message = message,
      execution_outcome_known = False, execution_retry_safe = False\<rparr>"

definition unauthorized :: "string \<Rightarrow> app_error" where
  "unauthorized message = mk_error 401 message"

definition not_found :: "string \<Rightarrow> app_error" where
  "not_found message = mk_error 404 message"

definition bad_request :: "string \<Rightarrow> app_error" where
  "bad_request message = mk_error 400 message"

definition conflict :: "string \<Rightarrow> app_error" where
  "conflict message = mk_error 409 message"

definition forbidden :: "string \<Rightarrow> app_error" where
  "forbidden message = mk_error 403 message"

definition internal_error :: "string \<Rightarrow> app_error" where
  "internal_error message = mk_error 500 ''internal server error''"

definition with_known_execution_outcome :: "app_error \<Rightarrow> app_error" where
  "with_known_execution_outcome e =
     e\<lparr>execution_outcome_known := True, execution_retry_safe := False\<rparr>"

definition with_retry_safe_execution :: "app_error \<Rightarrow> app_error" where
  "with_retry_safe_execution e =
     e\<lparr>execution_outcome_known := False, execution_retry_safe := True\<rparr>"

text \<open>The two execution flags are exclusive whichever builder ran last.\<close>

lemma execution_flags_exclusive:
  "\<not> (execution_outcome_known (with_known_execution_outcome e)
       \<and> execution_retry_safe (with_known_execution_outcome e))"
  "\<not> (execution_outcome_known (with_retry_safe_execution e)
       \<and> execution_retry_safe (with_retry_safe_execution e))"
  by (simp_all add: with_known_execution_outcome_def with_retry_safe_execution_def)

section \<open>Results\<close>

type_synonym 'a res = "app_error + 'a"

definition bindr :: "'e + 'a \<Rightarrow> ('a \<Rightarrow> 'e + 'b) \<Rightarrow> 'e + 'b" where
  "bindr m f = (case m of Inl e \<Rightarrow> Inl e | Inr x \<Rightarrow> f x)"

lemma bindr_simps [simp, res_simps]:
  "bindr (Inl e) f = Inl e"
  "bindr (Inr x) f = f x"
  by (simp_all add: bindr_def)

lemma bindr_eq_Inr: "bindr m f = Inr y \<longleftrightarrow> (\<exists>x. m = Inr x \<and> f x = Inr y)"
  by (cases m) auto

lemma bindr_eq_Inl: "bindr m f = Inl e \<longleftrightarrow> m = Inl e \<or> (\<exists>x. m = Inr x \<and> f x = Inl e)"
  by (cases m) auto

lemma bindr_cong [fundef_cong]:
  "m = m' \<Longrightarrow> (\<And>x. m' = Inr x \<Longrightarrow> f x = g x) \<Longrightarrow> bindr m f = bindr m' g"
  by (cases m') auto

text \<open>\<open>ok_or_else\<close>, and early return of an error unless a condition holds.\<close>

definition ok_or :: "'e \<Rightarrow> 'a option \<Rightarrow> 'e + 'a" where
  "ok_or e v = (case v of None \<Rightarrow> Inl e | Some x \<Rightarrow> Inr x)"

lemma ok_or_simps [simp, res_simps]:
  "ok_or e None = Inl e" "ok_or e (Some x) = Inr x"
  by (simp_all add: ok_or_def)

lemma ok_or_eq_Inr [simp]: "ok_or e v = Inr x \<longleftrightarrow> v = Some x"
  by (cases v) auto

definition guardr :: "bool \<Rightarrow> 'e \<Rightarrow> 'e + unit" where
  "guardr ok e = (if ok then Inr () else Inl e)"

lemma guardr_simps [simp, res_simps]:
  "guardr True e = Inr ()" "guardr False e = Inl e"
  by (simp_all add: guardr_def)

lemma guardr_eq_Inr [simp]: "guardr b e = Inr u \<longleftrightarrow> b"
  by (simp add: guardr_def)

text \<open>Collecting a list of results: the first error wins, as in \<open>collect::<Result<_, _>>()\<close>.\<close>

fun mapr :: "('a \<Rightarrow> 'e + 'b) \<Rightarrow> 'a list \<Rightarrow> 'e + 'b list" where
  "mapr f [] = Inr []"
| "mapr f (x # xs) = bindr (f x) (\<lambda>y. bindr (mapr f xs) (\<lambda>ys. Inr (y # ys)))"

lemma mapr_cong [fundef_cong]:
  "xs = ys \<Longrightarrow> (\<And>x. x \<in> set ys \<Longrightarrow> f x = g x) \<Longrightarrow> mapr f xs = mapr g ys"
  by (induction xs arbitrary: ys) auto

lemma mapr_eq_Inr: "mapr f xs = Inr ys \<longleftrightarrow> list_all2 (\<lambda>x y. f x = Inr y) xs ys"
  by (induction xs arbitrary: ys)
    (auto simp: bindr_eq_Inr list_all2_Cons1)

lemma mapr_total: "(\<exists>ys. mapr f xs = Inr ys) \<longleftrightarrow> (\<forall>x \<in> set xs. \<exists>y. f x = Inr y)"
  by (induction xs) (auto simp: bindr_eq_Inr)

text \<open>A loop whose body may return an error early.\<close>

fun foreachr :: "('a \<Rightarrow> 'e + unit) \<Rightarrow> 'a list \<Rightarrow> 'e + unit" where
  "foreachr f [] = Inr ()"
| "foreachr f (x # xs) = bindr (f x) (\<lambda>_. foreachr f xs)"

lemma foreachr_cong [fundef_cong]:
  "xs = ys \<Longrightarrow> (\<And>x. x \<in> set ys \<Longrightarrow> f x = g x) \<Longrightarrow> foreachr f xs = foreachr g ys"
  by (induction xs arbitrary: ys) auto

lemma foreachr_eq_Inr [simp]:
  "foreachr f xs = Inr u \<longleftrightarrow> (\<forall>x \<in> set xs. f x = Inr ())"
  by (induction xs) (auto simp: bindr_eq_Inr)

lemma is_Inr_def': "isl m = False \<longleftrightarrow> (\<exists>x. m = Inr x)"
  by (cases m) auto

section \<open>Options\<close>

text \<open>\<open>Option::or_else\<close>, \<open>filter\<close>, \<open>is_some_and\<close>, \<open>is_none_or\<close>.\<close>

definition opt_or :: "'a option \<Rightarrow> 'a option \<Rightarrow> 'a option" where
  "opt_or a b = (case a of None \<Rightarrow> b | Some x \<Rightarrow> Some x)"

definition opt_filter :: "('a \<Rightarrow> bool) \<Rightarrow> 'a option \<Rightarrow> 'a option" where
  "opt_filter p v = (case v of None \<Rightarrow> None | Some x \<Rightarrow> if p x then Some x else None)"

definition is_some_and :: "'a option \<Rightarrow> ('a \<Rightarrow> bool) \<Rightarrow> bool" where
  "is_some_and v p = (case v of None \<Rightarrow> False | Some x \<Rightarrow> p x)"

definition is_none_or :: "'a option \<Rightarrow> ('a \<Rightarrow> bool) \<Rightarrow> bool" where
  "is_none_or v p = (case v of None \<Rightarrow> True | Some x \<Rightarrow> p x)"

definition unwrap_or :: "'a option \<Rightarrow> 'a \<Rightarrow> 'a" where
  "unwrap_or v d = (case v of None \<Rightarrow> d | Some x \<Rightarrow> x)"

lemma option_simps [simp]:
  "opt_or None b = b" "opt_or (Some x) b = Some x"
  "opt_filter p None = None" "opt_filter p (Some x) = (if p x then Some x else None)"
  "is_some_and None q = False" "is_some_and (Some x) q = q x"
  "is_none_or None q = True" "is_none_or (Some x) q = q x"
  "unwrap_or None d = d" "unwrap_or (Some x) d = x"
  by (simp_all add: opt_or_def opt_filter_def is_some_and_def is_none_or_def unwrap_or_def)

lemma opt_filter_eq_Some: "opt_filter p v = Some x \<longleftrightarrow> v = Some x \<and> p x"
  by (cases v) auto

lemma opt_or_eq_Some: "opt_or a b = Some x \<longleftrightarrow> a = Some x \<or> (a = None \<and> b = Some x)"
  by (cases a) auto

lemma is_some_and_iff: "is_some_and v p \<longleftrightarrow> (\<exists>x. v = Some x \<and> p x)"
  by (cases v) auto

lemma is_none_or_iff: "is_none_or v p \<longleftrightarrow> (\<forall>x. v = Some x \<longrightarrow> p x)"
  by (cases v) auto

fun find_first :: "('a \<Rightarrow> bool) \<Rightarrow> 'a list \<Rightarrow> 'a option" where
  "find_first p [] = None"
| "find_first p (x # xs) = (if p x then Some x else find_first p xs)"

lemma find_first_SomeD: "find_first p xs = Some x \<Longrightarrow> x \<in> set xs \<and> p x"
  by (induction xs) (auto split: if_splits)

lemma find_first_eq_None: "find_first p xs = None \<longleftrightarrow> (\<forall>x \<in> set xs. \<not> p x)"
  by (induction xs) auto

fun find_map :: "('a \<Rightarrow> 'b option) \<Rightarrow> 'a list \<Rightarrow> 'b option" where
  "find_map f [] = None"
| "find_map f (x # xs) = (case f x of Some y \<Rightarrow> Some y | None \<Rightarrow> find_map f xs)"

fun filter_map :: "('a \<Rightarrow> 'b option) \<Rightarrow> 'a list \<Rightarrow> 'b list" where
  "filter_map f [] = []"
| "filter_map f (x # xs) = (case f x of Some y \<Rightarrow> y # filter_map f xs | None \<Rightarrow> filter_map f xs)"

lemma set_filter_map: "set (filter_map f xs) = {y. \<exists>x \<in> set xs. f x = Some y}"
  by (induction xs) (auto split: option.splits)

section \<open>Checked arithmetic\<close>

definition in_i32 :: "int \<Rightarrow> bool" where
  "in_i32 i \<longleftrightarrow> - (2 ^ 31) \<le> i \<and> i < 2 ^ 31"

definition in_i64 :: "int \<Rightarrow> bool" where
  "in_i64 i \<longleftrightarrow> - (2 ^ 63) \<le> i \<and> i < 2 ^ 63"

definition in_u64 :: "int \<Rightarrow> bool" where
  "in_u64 i \<longleftrightarrow> 0 \<le> i \<and> i < 2 ^ 64"

definition checked_i32 :: "int \<Rightarrow> int option" where
  "checked_i32 i = (if in_i32 i then Some i else None)"

definition checked_i64 :: "int \<Rightarrow> int option" where
  "checked_i64 i = (if in_i64 i then Some i else None)"

lemma checked_eq_Some [simp]:
  "checked_i32 i = Some j \<longleftrightarrow> j = i \<and> in_i32 i"
  "checked_i64 i = Some j \<longleftrightarrow> j = i \<and> in_i64 i"
  by (auto simp: checked_i32_def checked_i64_def)

text \<open>
  Whole seconds of a nanosecond difference, truncated towards zero
  (\<open>TimeDelta::num_seconds\<close>), and the instant some seconds later.
\<close>

definition num_seconds :: "int \<Rightarrow> int" where
  "num_seconds ns = (if ns < 0 then - ((- ns) div 1000000000) else ns div 1000000000)"

definition plus_seconds :: "timestamp \<Rightarrow> int \<Rightarrow> timestamp" where
  "plus_seconds t s = t + s * 1000000000"

section \<open>Byte strings\<close>

abbreviation byte :: "char \<Rightarrow> nat" where
  "byte c \<equiv> of_char c"

definition is_ascii_lower :: "char \<Rightarrow> bool" where
  "is_ascii_lower c \<longleftrightarrow> 97 \<le> byte c \<and> byte c \<le> 122"

definition is_ascii_upper :: "char \<Rightarrow> bool" where
  "is_ascii_upper c \<longleftrightarrow> 65 \<le> byte c \<and> byte c \<le> 90"

definition is_ascii_digit :: "char \<Rightarrow> bool" where
  "is_ascii_digit c \<longleftrightarrow> 48 \<le> byte c \<and> byte c \<le> 57"

definition is_ascii_alphanumeric :: "char \<Rightarrow> bool" where
  "is_ascii_alphanumeric c \<longleftrightarrow> is_ascii_lower c \<or> is_ascii_upper c \<or> is_ascii_digit c"

definition ascii_lower :: "char \<Rightarrow> char" where
  "ascii_lower c = (if is_ascii_upper c then char_of (byte c + 32) else c)"

definition to_ascii_lowercase :: "string \<Rightarrow> string" where
  "to_ascii_lowercase s = map ascii_lower s"

lemma ascii_lower_idem [simp]: "ascii_lower (ascii_lower c) = ascii_lower c"
  by (auto simp: ascii_lower_def is_ascii_upper_def of_char_of)

lemma to_ascii_lowercase_idem [simp]:
  "to_ascii_lowercase (to_ascii_lowercase s) = to_ascii_lowercase s"
  by (simp add: to_ascii_lowercase_def)

text \<open>
  The number of bytes of the white-space character a string starts with, 0 when it starts
  with none: the characters of the Unicode property \<open>White_Space\<close> in UTF-8, which is what
  \<open>str::trim\<close> removes at either end.
\<close>

definition ws1 :: "nat \<Rightarrow> bool" where
  "ws1 a \<longleftrightarrow> (9 \<le> a \<and> a \<le> 13) \<or> a = 32"

definition ws2 :: "nat \<Rightarrow> nat \<Rightarrow> bool" where
  "ws2 a b \<longleftrightarrow> a = 194 \<and> (b = 133 \<or> b = 160)"

definition ws3 :: "nat \<Rightarrow> nat \<Rightarrow> nat \<Rightarrow> bool" where
  "ws3 a b c \<longleftrightarrow>
     (a = 225 \<and> b = 154 \<and> c = 128)
     \<or> (a = 226 \<and> b = 128 \<and> (128 \<le> c \<and> c \<le> 138 \<or> c = 168 \<or> c = 169 \<or> c = 175))
     \<or> (a = 226 \<and> b = 129 \<and> c = 159)
     \<or> (a = 227 \<and> b = 128 \<and> c = 128)"

fun ws_len :: "nat list \<Rightarrow> nat" where
  "ws_len [] = 0"
| "ws_len [a] = (if ws1 a then 1 else 0)"
| "ws_len [a, b] = (if ws1 a then 1 else if ws2 a b then 2 else 0)"
| "ws_len (a # b # c # _) =
     (if ws1 a then 1 else if ws2 a b then 2 else if ws3 a b c then 3 else 0)"

definition ws_prefix :: "string \<Rightarrow> nat" where
  "ws_prefix s = ws_len (map byte (take 3 s))"

definition ws_suffix :: "string \<Rightarrow> nat" where
  "ws_suffix s =
     (let bs = map byte s; n = length bs in
      if 1 \<le> n \<and> ws_len (drop (n - 1) bs) = 1 then 1
      else if 2 \<le> n \<and> ws_len (drop (n - 2) bs) = 2 then 2
      else if 3 \<le> n \<and> ws_len (drop (n - 3) bs) = 3 then 3
      else 0)"

lemma ws_len_le: "ws_len bs \<le> length bs"
  by (cases bs rule: ws_len.cases) auto

lemma ws_prefix_le: "ws_prefix s \<le> length s"
  using ws_len_le [of "map byte (take 3 s)"] by (simp add: ws_prefix_def)

lemma ws_suffix_le: "ws_suffix s \<le> length s"
  by (simp add: ws_suffix_def Let_def)

function trim_start :: "string \<Rightarrow> string" where
  "trim_start s = (if ws_prefix s = 0 then s else trim_start (drop (ws_prefix s) s))"
  by pat_completeness auto
termination
proof (relation "measure length")
  fix s :: string assume "ws_prefix s \<noteq> 0"
  then show "(drop (ws_prefix s) s, s) \<in> measure length"
    using ws_prefix_le [of s] by simp
qed simp

function trim_end :: "string \<Rightarrow> string" where
  "trim_end s = (if ws_suffix s = 0 then s else trim_end (take (length s - ws_suffix s) s))"
  by pat_completeness auto
termination
proof (relation "measure length")
  fix s :: string assume "ws_suffix s \<noteq> 0"
  then show "(take (length s - ws_suffix s) s, s) \<in> measure length"
    using ws_suffix_le [of s] by simp
qed simp

declare trim_start.simps [simp del] trim_end.simps [simp del]

definition trim :: "string \<Rightarrow> string" where
  "trim s = trim_end (trim_start s)"

end
