(* ===== verification/Json.thy ===== *)
theory Json
  imports Prelude
begin

text \<open>
  JSON documents, \<open>serde_json::Value\<close>. An object is the entry list of a \<open>BTreeMap\<close>: sorted by
  key, no key twice (\<open>wf_json\<close>). A number is an integer (\<open>u64\<close> or \<open>i64\<close>) or a finite \<open>f64\<close>,
  which is represented by its value; the two kinds are never equal as documents.
  The accessors are those the code calls, the object operations those of the map.
\<close>

datatype json =
    JNull
  | JBool bool
  | JInt int
  | JFloat rat
  | JStr string
  | JArr "json list"
  | JObj "(string \<times> json) list"

section \<open>Accessors\<close>

fun jget :: "json \<Rightarrow> string \<Rightarrow> json option" where
  "jget (JObj m) k = map_of m k"
| "jget _ _ = None"

text \<open>Indexing, \<open>value[key]\<close>: \<open>Null\<close> where there is no such entry.\<close>

definition jindex :: "json \<Rightarrow> string \<Rightarrow> json" where
  "jindex v k = unwrap_or (jget v k) JNull"

fun as_str :: "json \<Rightarrow> string option" where
  "as_str (JStr s) = Some s"
| "as_str _ = None"

fun as_bool :: "json \<Rightarrow> bool option" where
  "as_bool (JBool b) = Some b"
| "as_bool _ = None"

fun as_array :: "json \<Rightarrow> json list option" where
  "as_array (JArr xs) = Some xs"
| "as_array _ = None"

fun as_object :: "json \<Rightarrow> (string \<times> json) list option" where
  "as_object (JObj m) = Some m"
| "as_object _ = None"

fun as_i64 :: "json \<Rightarrow> int option" where
  "as_i64 (JInt i) = checked_i64 i"
| "as_i64 _ = None"

fun as_u64 :: "json \<Rightarrow> int option" where
  "as_u64 (JInt i) = (if in_u64 i then Some i else None)"
| "as_u64 _ = None"

definition is_object :: "json \<Rightarrow> bool" where "is_object v \<longleftrightarrow> as_object v \<noteq> None"
definition is_array :: "json \<Rightarrow> bool" where "is_array v \<longleftrightarrow> as_array v \<noteq> None"
definition is_string :: "json \<Rightarrow> bool" where "is_string v \<longleftrightarrow> as_str v \<noteq> None"
definition is_boolean :: "json \<Rightarrow> bool" where "is_boolean v \<longleftrightarrow> as_bool v \<noteq> None"

fun is_number :: "json \<Rightarrow> bool" where
  "is_number (JInt _) = True"
| "is_number (JFloat _) = True"
| "is_number _ = False"

lemma as_eq_Some [simp]:
  "as_str v = Some s \<longleftrightarrow> v = JStr s"
  "as_bool v = Some b \<longleftrightarrow> v = JBool b"
  "as_array v = Some xs \<longleftrightarrow> v = JArr xs"
  "as_object v = Some m \<longleftrightarrow> v = JObj m"
  by (cases v; simp)+

lemma is_kind_simps [simp]:
  "is_object (JObj m)" "\<not> is_object JNull" "\<not> is_object (JBool b)" "\<not> is_object (JInt i)"
  "\<not> is_object (JFloat r)" "\<not> is_object (JStr s)" "\<not> is_object (JArr xs)"
  "is_string (JStr s)" "is_array (JArr xs)" "is_boolean (JBool b)"
  by (simp_all add: is_object_def is_string_def is_array_def is_boolean_def)

lemma is_object_iff: "is_object v \<longleftrightarrow> (\<exists>m. v = JObj m)"
  by (cases v) auto

lemma is_string_iff: "is_string v \<longleftrightarrow> (\<exists>s. v = JStr s)"
  by (cases v) (auto simp: is_string_def)

text \<open>Option-chained access, \<open>a.get(k).and_then(Value::as_str)\<close> and its kin.\<close>

definition jget_str :: "json \<Rightarrow> string \<Rightarrow> string option" where
  "jget_str v k = Option.bind (jget v k) as_str"

definition jget_array :: "json \<Rightarrow> string \<Rightarrow> json list option" where
  "jget_array v k = Option.bind (jget v k) as_array"

definition jget_bool :: "json \<Rightarrow> string \<Rightarrow> bool option" where
  "jget_bool v k = Option.bind (jget v k) as_bool"

lemma jget_str_eq_Some [simp]: "jget_str v k = Some s \<longleftrightarrow> jget v k = Some (JStr s)"
  by (auto simp: jget_str_def bind_eq_Some_conv)

lemma jget_array_eq_Some [simp]: "jget_array v k = Some xs \<longleftrightarrow> jget v k = Some (JArr xs)"
  by (auto simp: jget_array_def bind_eq_Some_conv)

lemma jget_bool_eq_Some [simp]: "jget_bool v k = Some b \<longleftrightarrow> jget v k = Some (JBool b)"
  by (auto simp: jget_bool_def bind_eq_Some_conv)

section \<open>Building objects\<close>

fun obj_insert :: "string \<Rightarrow> json \<Rightarrow> (string \<times> json) list \<Rightarrow> (string \<times> json) list" where
  "obj_insert k v [] = [(k, v)]"
| "obj_insert k v ((k', v') # m) =
     (if k < k' then (k, v) # (k', v') # m
      else if k = k' then (k, v) # m
      else (k', v') # obj_insert k v m)"

definition obj_contains :: "string \<Rightarrow> (string \<times> json) list \<Rightarrow> bool" where
  "obj_contains k m \<longleftrightarrow> map_of m k \<noteq> None"

definition mk_obj :: "(string \<times> json) list \<Rightarrow> json" where
  "mk_obj kvs = JObj (foldl (\<lambda>m kv. obj_insert (fst kv) (snd kv) m) [] kvs)"

definition empty_json_object :: json where
  "empty_json_object = mk_obj []"

definition json_opt :: "('a \<Rightarrow> json) \<Rightarrow> 'a option \<Rightarrow> json" where
  "json_opt f v = (case v of None \<Rightarrow> JNull | Some x \<Rightarrow> f x)"

definition json_strs :: "string list \<Rightarrow> json" where
  "json_strs ss = JArr (map JStr ss)"

definition json_nat :: "nat \<Rightarrow> json" where
  "json_nat n = JInt (int n)"

lemma map_of_obj_insert [simp]: "map_of (obj_insert k v m) = (map_of m)(k \<mapsto> v)"
  by (induction m) (auto simp: fun_eq_iff)

lemma fst_set_obj_insert: "fst ` set (obj_insert k v m) = insert k (fst ` set m)"
  by (simp flip: dom_map_of_conv_image_fst)

lemma keys_obj_insert [simp]: "set (map fst (obj_insert k v m)) = insert k (set (map fst m))"
  by (simp add: fst_set_obj_insert)

definition sorted_obj :: "(string \<times> json) list \<Rightarrow> bool" where
  "sorted_obj m \<longleftrightarrow> sorted_wrt (<) (map fst m)"

lemma sorted_obj_simps [simp]:
  "sorted_obj []"
  "sorted_obj ((k, v) # m) \<longleftrightarrow> (\<forall>k' \<in> fst ` set m. k < k') \<and> sorted_obj m"
  by (auto simp: sorted_obj_def)

lemma sorted_obj_insert: "sorted_obj m \<Longrightarrow> sorted_obj (obj_insert k v m)"
proof (induction m)
  case (Cons kv m)
  obtain k' v' where kv: "kv = (k', v')" by (cases kv)
  consider "k < k'" | "k = k'" | "k' < k" by (meson linorder_neqE)
  then show ?case
    using Cons kv by cases (auto simp: fst_set_obj_insert dest: order.strict_trans)
qed simp

lemma sorted_obj_foldl:
  "sorted_obj m \<Longrightarrow> sorted_obj (foldl (\<lambda>m kv. obj_insert (fst kv) (snd kv) m) m kvs)"
  by (induction kvs arbitrary: m) (auto intro: sorted_obj_insert)

lemma sorted_obj_distinct: "sorted_obj m \<Longrightarrow> distinct (map fst m)"
  by (induction m) force+

text \<open>A well-formed document: sorted objects throughout and integers in range.\<close>

fun wf_json :: "json \<Rightarrow> bool" where
  "wf_json (JInt i) \<longleftrightarrow> - (2 ^ 63) \<le> i \<and> i < 2 ^ 64"
| "wf_json (JArr xs) \<longleftrightarrow> list_all wf_json xs"
| "wf_json (JObj m) \<longleftrightarrow> sorted_obj m \<and> list_all (\<lambda>kv. wf_json (snd kv)) m"
| "wf_json _ \<longleftrightarrow> True"

lemma set_obj_insertD: "kv \<in> set (obj_insert k v m) \<Longrightarrow> kv = (k, v) \<or> kv \<in> set m"
  by (induction m) (auto split: if_splits)

lemma wf_obj_insert:
  "wf_json (JObj m) \<Longrightarrow> wf_json v \<Longrightarrow> wf_json (JObj (obj_insert k v m))"
  by (auto simp: list_all_iff sorted_obj_insert dest!: set_obj_insertD)

lemma wf_mk_obj:
  assumes "\<forall>kv \<in> set kvs. wf_json (snd kv)"
  shows "wf_json (mk_obj kvs)"
proof -
  have "wf_json (JObj m) \<Longrightarrow> \<forall>kv \<in> set kvs. wf_json (snd kv) \<Longrightarrow>
      wf_json (JObj (foldl (\<lambda>m kv. obj_insert (fst kv) (snd kv) m) m kvs))" for m
  proof (induction kvs arbitrary: m)
    case (Cons kv kvs)
    have "wf_json (JObj (obj_insert (fst kv) (snd kv) m))"
      using Cons.prems by (intro wf_obj_insert) auto
    then have "wf_json (JObj (foldl (\<lambda>m kv. obj_insert (fst kv) (snd kv) m)
        (obj_insert (fst kv) (snd kv) m) kvs))"
      using Cons.prems by (intro Cons.IH) auto
    then show ?case by simp
  qed simp
  from this [of "[]"] assms show ?thesis by (simp add: mk_obj_def)
qed

lemma map_of_foldl_insert:
  "map_of (foldl (\<lambda>m kv. obj_insert (fst kv) (snd kv) m) m kvs)
     = map_of m ++ map_of (rev kvs)"
  by (induction kvs arbitrary: m) (auto simp: fun_eq_iff map_add_def split: option.splits)

lemma jget_mk_obj: "jget (mk_obj kvs) k = map_of (rev kvs) k"
  by (simp add: mk_obj_def map_of_foldl_insert)

lemma is_object_mk_obj [simp]: "is_object (mk_obj kvs)"
  by (simp add: mk_obj_def)

lemma jget_empty [simp]: "jget empty_json_object k = None"
  by (simp add: empty_json_object_def jget_mk_obj)

section \<open>Sizes\<close>

text \<open>Entries are smaller than the document that holds them: recursion through \<open>get\<close> stops.\<close>

lemma size_jget: "jget v k = Some u \<Longrightarrow> size u < size v"
proof (cases v)
  case (JObj m)
  assume "jget v k = Some u"
  with JObj have "(k, u) \<in> set m" by (simp add: map_of_SomeD)
  then have "size u < size_list (size_prod (\<lambda>_. 0) size) m"
    by (induction m) auto
  with JObj show ?thesis by simp
qed simp_all

lemma size_mem: "x \<in> set xs \<Longrightarrow> size x < size (JArr xs)"
  by (simp add: less_Suc_eq_le size_list_estimation')

section \<open>Numbers\<close>

text \<open>
  \<open>as f64\<close>: an integer of at most 64 bits rounded to the nearest 53-bit significand, ties to
  even.
\<close>

fun bit_len :: "nat \<Rightarrow> nat" where
  "bit_len n = (if n = 0 then 0 else Suc (bit_len (n div 2)))"

declare bit_len.simps [simp del]

definition nat_as_f64 :: "nat \<Rightarrow> nat" where
  "nat_as_f64 n =
     (let k = bit_len n - 53; q = n div 2 ^ k; r = n mod 2 ^ k
      in if k = 0 then n
         else if 2 ^ (k - 1) < r \<or> (r = 2 ^ (k - 1) \<and> odd q) then (q + 1) * 2 ^ k
         else q * 2 ^ k)"

definition int_as_f64 :: "int \<Rightarrow> rat" where
  "int_as_f64 i =
     (if i < 0 then - of_nat (nat_as_f64 (nat (- i))) else of_nat (nat_as_f64 (nat i)))"

fun as_f64 :: "json \<Rightarrow> rat option" where
  "as_f64 (JInt i) = Some (int_as_f64 i)"
| "as_f64 (JFloat r) = Some r"
| "as_f64 _ = None"

end
