(* ===== verification/Model.thy ===== *)
theory Model
  imports Json
begin

text \<open>
  The data the workflow runtime works on, record for struct (types/workflow.rs,
  types/session.rs, types/agent.rs, types/audit.rs). A field \<open>f\<close> of a struct is \<open>x_f\<close> here,
  \<open>x\<close> a prefix per struct: \<open>wd\<close> workflow definition, \<open>wr\<close> workflow run, \<open>sr\<close> step run,
  \<open>wt\<close> transition, \<open>tg\<close> task grant, \<open>se\<close> session, \<open>ev\<close> session event, \<open>st\<close> session thread,
  \<open>al\<close> audit log, \<open>ag\<close> agent, \<open>av\<close> agent version.
\<close>

section \<open>Workflow data (types/workflow.rs)\<close>

record workflow_definition =
  wd_id :: uuid
  wd_pack_installation_id :: "uuid option"
  wd_pack_id :: "string option"
  wd_pack_version :: "string option"
  wd_name :: string
  wd_entrypoint :: string
  wd_trigger_type :: string
  wd_default_agent_id :: uuid
  wd_default_environment_id :: "uuid option"
  wd_input_schema_ref :: "string option"
  wd_output_schema_ref :: "string option"
  wd_step_graph :: json
  wd_handoff_rules :: json
  wd_execution_strategy :: string
  wd_runtime_adapter :: "string option"
  wd_runtime_mode :: "string option"
  wd_runtime_capability_contract :: json
  wd_event_ingestion_policy :: string
  wd_approval_policy_ref :: "string option"
  wd_eval_gate_refs :: "string list"
  wd_release_state :: string
  wd_created_at :: timestamp
  wd_updated_at :: timestamp
  wd_archived_at :: "timestamp option"

record workflow_run =
  wr_id :: uuid
  wr_workflow_definition_id :: uuid
  wr_pack_installation_id :: "uuid option"
  wr_source_event_id :: "uuid option"
  wr_source_work_item_id :: "uuid option"
  wr_source_schedule_id :: "uuid option"
  wr_status :: string
  wr_primary_session_id :: uuid
  wr_root_task_grant_id :: "uuid option"
  wr_input_payload :: json
  wr_input_digest :: string
  wr_execution_strategy :: string
  wr_runtime_adapter :: "string option"
  wr_runtime_mode :: "string option"
  wr_delegation_status :: "string option"
  wr_external_run_ref :: "string option"
  wr_runtime_event_cursor :: "string option"
  wr_runtime_envelope :: json
  wr_started_at :: "timestamp option"
  wr_completed_at :: "timestamp option"
  wr_audit_trace_id :: "uuid option"
  wr_created_at :: timestamp
  wr_updated_at :: timestamp

record workflow_step_run =
  sr_id :: uuid
  sr_workflow_run_id :: uuid
  sr_step_key :: string
  sr_step_type :: string
  sr_agent_id :: "uuid option"
  sr_agent_version_id :: "uuid option"
  sr_session_id :: "uuid option"
  sr_thread_id :: "uuid option"
  sr_handoff_id :: "uuid option"
  sr_task_grant_id :: "uuid option"
  sr_environment_id :: "uuid option"
  sr_status :: string
  sr_input_payload :: json
  sr_output_payload :: json
  sr_artifact_ids :: "uuid list"
  sr_approval_ids :: "uuid list"
  sr_tool_call_ids :: "uuid list"
  sr_claimed_by_worker :: "string option"
  sr_claim_owner_version :: int
  sr_lease_expires_at :: "timestamp option"
  sr_context_packet_id :: "uuid option"
  sr_started_at :: "timestamp option"
  sr_completed_at :: "timestamp option"
  sr_scheduled_at :: "timestamp option"
  sr_created_at :: timestamp
  sr_updated_at :: timestamp

record workflow_transition =
  wt_id :: uuid
  wt_workflow_run_id :: uuid
  wt_from_step_run_id :: "uuid option"
  wt_from_step_key :: "string option"
  wt_to_step_run_id :: "uuid option"
  wt_to_step_key :: "string option"
  wt_transition_type :: string
  wt_status :: string
  wt_condition_payload :: json
  wt_result_payload :: json
  wt_created_at :: timestamp

record workflow_transition_filter =
  wtf_transition_type :: "string option"
  wtf_status :: "string option"
  wtf_from_step_key :: "string option"
  wtf_to_step_key :: "string option"
  wtf_limit :: "nat option"

record workflow_transition_query =
  wtq_transition_type :: "string option"
  wtq_status :: "string option"
  wtq_from_step_key :: "string option"
  wtq_to_step_key :: "string option"
  wtq_limit :: "nat option"

record workflow_graph_retry_policy =
  max_attempts :: nat
  delay_seconds :: int

record workflow_graph_condition_evaluation =
  ce_condition :: json
  ce_source_step :: "workflow_step_run option"
  ce_path :: "string option"
  ce_actual :: json
  ce_expected :: json
  ce_matched :: bool

datatype numeric_comparator =
  GreaterThan | GreaterThanOrEquals | LessThan | LessThanOrEquals

fun numeric_matches :: "numeric_comparator \<Rightarrow> rat \<Rightarrow> rat \<Rightarrow> bool" where
  "numeric_matches GreaterThan actual expected = (actual > expected)"
| "numeric_matches GreaterThanOrEquals actual expected = (actual \<ge> expected)"
| "numeric_matches LessThan actual expected = (actual < expected)"
| "numeric_matches LessThanOrEquals actual expected = (actual \<le> expected)"

datatype time_comparator = After | OnOrAfter | Before | OnOrBefore

fun time_matches :: "time_comparator \<Rightarrow> timestamp \<Rightarrow> timestamp \<Rightarrow> bool" where
  "time_matches After actual expected = (actual > expected)"
| "time_matches OnOrAfter actual expected = (actual \<ge> expected)"
| "time_matches Before actual expected = (actual < expected)"
| "time_matches OnOrBefore actual expected = (actual \<le> expected)"

record workflow_graph_fan_in_readiness =
  fi_mode :: string
  fi_min_success :: nat
  fi_dependencies :: "string list"
  fi_successful_dependencies :: "string list"
  fi_failed_dependencies :: "string list"
  fi_pending_dependencies :: "string list"

record workflow_graph_ready_step =
  rs_graph_step :: json
  rs_fan_in :: workflow_graph_fan_in_readiness

record task_grant =
  tg_id :: uuid
  tg_workflow_run_id :: uuid
  tg_workflow_step_run_id :: "uuid option"
  tg_session_id :: "uuid option"
  tg_parent_grant_id :: "uuid option"
  tg_source_event_id :: "uuid option"
  tg_source_handoff_id :: "uuid option"
  tg_issuer_subject :: string
  tg_grantee_agent_id :: "uuid option"
  tg_grantee_session_id :: "uuid option"
  tg_agent_class :: "string option"
  tg_objective :: string
  tg_risk_level :: string
  tg_status :: string
  tg_expires_at :: "timestamp option"
  tg_max_turns :: "int option"
  tg_max_tool_calls :: "int option"
  tg_max_runtime_seconds :: "int option"
  tg_max_cost_usd_micros :: "int option"
  tg_turns_used :: int
  tg_tool_calls_used :: int
  tg_cost_usd_micros_used :: int
  tg_semantic_scopes :: json
  tg_memory_scope :: json
  tg_tool_scope :: json
  tg_connector_scope :: json
  tg_approval_policy :: json
  tg_external_effects :: json
  tg_context_packet_id :: "uuid option"
  tg_policy_revision_id :: "uuid option"
  tg_immutable_args_hash :: "string option"
  tg_audit_trace_id :: "uuid option"
  tg_created_at :: timestamp
  tg_updated_at :: timestamp

section \<open>Sessions (types/session.rs)\<close>

datatype session_status = Idle | Running | RequiresAction | Rescheduling | Terminated | Failed

fun session_status_as_str :: "session_status \<Rightarrow> string" where
  "session_status_as_str Idle = ''idle''"
| "session_status_as_str Running = ''running''"
| "session_status_as_str RequiresAction = ''requires_action''"
| "session_status_as_str Rescheduling = ''rescheduling''"
| "session_status_as_str Terminated = ''terminated''"
| "session_status_as_str Failed = ''failed''"

definition session_status_try_from :: "string \<Rightarrow> session_status res" where
  "session_status_try_from value =
     (if value \<in> {''idle'', ''created''} then Inr Idle
      else if value = ''running'' then Inr Running
      else if value \<in> {''requires_action'', ''waiting_approval''} then Inr RequiresAction
      else if value = ''rescheduling'' then Inr Rescheduling
      else if value \<in> {''terminated'', ''completed''} then Inr Terminated
      else if value = ''failed'' then Inr Failed
      else Inl (internal_error (''unsupported session status: '' @ value)))"

record session =
  se_id :: uuid
  se_agent_id :: uuid
  se_agent_version_id :: "uuid option"
  se_environment_id :: "uuid option"
  se_title :: string
  se_status :: session_status
  se_created_at :: timestamp
  se_updated_at :: timestamp

record create_session_input =
  cs_agent_id :: uuid
  cs_environment_id :: "uuid option"
  cs_title :: string
  cs_message :: "string option"

record session_event =
  ev_id :: uuid
  ev_session_id :: uuid
  ev_seq :: int
  ev_parent_event_id :: "uuid option"
  ev_actor_type :: string
  ev_actor_id :: "uuid option"
  ev_event_type :: string
  ev_payload :: json
  ev_created_at :: timestamp

datatype session_loop_job_status = JobQueued | JobRunning | JobCompleted | JobFailed

fun session_loop_job_status_as_str :: "session_loop_job_status \<Rightarrow> string" where
  "session_loop_job_status_as_str JobQueued = ''queued''"
| "session_loop_job_status_as_str JobRunning = ''running''"
| "session_loop_job_status_as_str JobCompleted = ''completed''"
| "session_loop_job_status_as_str JobFailed = ''failed''"

definition session_loop_job_status_try_from :: "string \<Rightarrow> session_loop_job_status res" where
  "session_loop_job_status_try_from value =
     (if value = ''queued'' then Inr JobQueued
      else if value = ''running'' then Inr JobRunning
      else if value = ''completed'' then Inr JobCompleted
      else if value = ''failed'' then Inr JobFailed
      else Inl (internal_error (''unsupported session loop job status: '' @ value)))"

record session_loop_job =
  lj_id :: uuid
  lj_session_id :: uuid
  lj_environment_id :: "uuid option"
  lj_status :: session_loop_job_status
  lj_trigger_event_id :: "uuid option"
  lj_pending_event_seq_start :: "int option"
  lj_pending_event_seq_end :: "int option"
  lj_processed_event_seq :: "int option"
  lj_reason :: string
  lj_enqueued_at :: timestamp
  lj_started_at :: "timestamp option"
  lj_completed_at :: "timestamp option"
  lj_worker_id :: "string option"
  lj_lease_expires_at :: "timestamp option"
  lj_attempt_count :: int
  lj_max_attempts :: int
  lj_last_error :: "string option"

record session_thread =
  st_id :: uuid
  st_session_id :: uuid
  st_parent_thread_id :: "uuid option"
  st_thread_kind :: string
  st_agent_id :: uuid
  st_agent_version_id :: "uuid option"
  st_environment_id :: "uuid option"
  st_source_handoff_id :: "uuid option"
  st_specialist_session_id :: "uuid option"
  st_status :: string
  st_title :: string
  st_context :: json
  st_created_at :: timestamp
  st_updated_at :: timestamp

text \<open>The status names read back to the status they came from.\<close>

lemma session_status_roundtrip:
  "session_status_try_from (session_status_as_str s) = Inr s"
  by (cases s) (simp_all add: session_status_try_from_def)

lemma session_loop_job_status_roundtrip:
  "session_loop_job_status_try_from (session_loop_job_status_as_str s) = Inr s"
  by (cases s) (simp_all add: session_loop_job_status_try_from_def)

section \<open>Audit log and agents (types/audit.rs, types/agent.rs)\<close>

record audit_log =
  al_id :: uuid
  al_session_id :: "uuid option"
  al_actor_type :: string
  al_actor_id :: "uuid option"
  al_action :: string
  al_resource_type :: string
  al_resource_id :: "uuid option"
  al_details :: json
  al_created_at :: timestamp

record agent =
  ag_id :: uuid
  ag_name :: string
  ag_kind :: string
  ag_team_id :: "uuid option"
  ag_project_id :: "uuid option"
  ag_runtime_profile_id :: "uuid option"
  ag_agent_role :: string
  ag_provider :: string
  ag_model :: string
  ag_system_prompt :: string
  ag_tools :: "string list"
  ag_tool_policy :: json
  ag_mcp_server_ids :: "uuid list"
  ag_skill_ids :: "string list"
  ag_workflow_pack_ids :: "string list"
  ag_remote_computer_profile :: json
  ag_semantic_scopes :: json
  ag_release_state :: string
  ag_created_at :: timestamp

record agent_version =
  av_id :: uuid
  av_agent_id :: uuid
  av_version :: int
  av_provider :: string
  av_model :: string
  av_system_prompt :: string
  av_tools :: "string list"
  av_tool_names :: "string list"
  av_runtime_config :: json
  av_approval_policy :: json
  av_runtime_profile_id :: "uuid option"
  av_runtime_profile_snapshot :: json
  av_mcp_server_ids :: "uuid list"
  av_skill_ids :: "string list"
  av_workflow_pack_ids :: "string list"
  av_remote_computer_profile :: json
  av_semantic_scopes :: json
  av_created_at :: timestamp

section \<open>Tool calls and approvals (types/tool_call.rs, types/approval.rs)\<close>

record tool_call =
  tc_id :: uuid
  tc_session_id :: uuid
  tc_event_id :: "uuid option"
  tc_tool_name :: string
  tc_args :: json
  tc_task_grant_id :: "uuid option"
  tc_normalized_args_hash :: "string option"
  tc_target_binding :: json
  tc_status :: string
  tc_risk_level :: string
  tc_policy_decision :: json
  tc_result :: "json option"
  tc_error :: "json option"
  tc_started_at :: "timestamp option"
  tc_completed_at :: "timestamp option"
  tc_created_at :: timestamp

record approval =
  ap_id :: uuid
  ap_session_id :: uuid
  ap_tool_call_id :: "uuid option"
  ap_action :: string
  ap_risk_level :: string
  ap_reason :: string
  ap_evidence :: json
  ap_decision_payload :: json
  ap_status :: string
  ap_expires_at :: "timestamp option"
  ap_created_at :: timestamp
  ap_decided_at :: "timestamp option"

record approval_commit_token =
  ct_id :: uuid
  ct_approval_id :: uuid
  ct_tool_call_id :: uuid
  ct_task_grant_id :: uuid
  ct_session_id :: uuid
  ct_tool_name :: string
  ct_normalized_args_hash :: string
  ct_target_binding :: json
  ct_approver_subject :: string
  ct_status :: string
  ct_expires_at :: timestamp
  ct_consumed_at :: "timestamp option"
  ct_created_at :: timestamp

record approval_commit_binding =
  cb_normalized_args_hash :: string
  cb_target_binding :: json

record approval_group =
  gp_id :: uuid
  gp_name :: string
  gp_subjects :: "string list"
  gp_status :: string
  gp_created_at :: timestamp

record approval_escalation_rule =
  er_id :: uuid
  er_name :: string
  er_risk_level :: string
  er_group_id :: uuid
  er_order_index :: int
  er_after_seconds :: int
  er_status :: string
  er_created_at :: timestamp

section \<open>Handoffs and policy revisions (types/agent_handoff.rs, types/policy.rs)\<close>

record agent_handoff_event =
  he_id :: uuid
  he_source_session_id :: uuid
  he_source_agent_id :: uuid
  he_target_agent_id :: uuid
  he_manager_plan_id :: "uuid option"
  he_intent :: string
  he_payload :: json
  he_schema_version :: string
  he_risk_level :: string
  he_approval_required :: bool
  he_semantic_scopes :: json
  he_runtime_profile_id :: "uuid option"
  he_remote_computer_required :: bool
  he_review_status :: string
  he_human_escalation_status :: string
  he_status :: string
  he_audit_trace_id :: "uuid option"
  he_created_at :: timestamp
  he_updated_at :: timestamp

record agent_handoff_assignment =
  ha_id :: uuid
  ha_agent_handoff_event_id :: uuid
  ha_manager_plan_id :: uuid
  ha_source_session_id :: uuid
  ha_specialist_session_id :: uuid
  ha_source_agent_id :: uuid
  ha_target_agent_id :: uuid
  ha_semantic_scopes :: json
  ha_runtime_profile_id :: "uuid option"
  ha_remote_computer_required :: bool
  ha_remote_computer_job_assignment_id :: "uuid option"
  ha_status :: string
  ha_assigned_by :: "string option"
  ha_metadata :: json
  ha_audit_trace_id :: "uuid option"
  ha_created_at :: timestamp
  ha_updated_at :: timestamp

record manager_agent_plan =
  mp_id :: uuid
  mp_session_id :: uuid
  mp_manager_agent_id :: uuid
  mp_work_item_id :: "uuid option"
  mp_specialist_agent_id :: "uuid option"
  mp_task_intake :: json
  mp_decomposition :: json
  mp_specialist_selection :: json
  mp_risk_classification :: string
  mp_review :: json
  mp_status :: string
  mp_audit_trace_id :: "uuid option"
  mp_created_at :: timestamp
  mp_updated_at :: timestamp

section \<open>Third-party functions\<close>

text \<open>
  Functions of crates the program calls and that are not in the repository, passed to the
  definitions that use them: \<open>Uuid::parse_str\<close> and the text form of a \<open>Uuid\<close> (uuid),
  \<open>DateTime::parse_from_rfc3339\<close> and the text form of a \<open>DateTime\<close> (chrono), the text of a
  document (\<open>serde_json::to_string\<close>), SHA-256 (sha2).
\<close>

record ext =
  parse_uuid :: "string \<Rightarrow> uuid option"
  show_uuid :: "uuid \<Rightarrow> string"
  parse_rfc3339 :: "string \<Rightarrow> timestamp option"
  show_time :: "timestamp \<Rightarrow> string"
  json_to_string :: "json \<Rightarrow> string"
  sha256 :: "nat list \<Rightarrow> nat list"

abbreviation jid :: "ext \<Rightarrow> uuid \<Rightarrow> json" where
  "jid X u \<equiv> JStr (show_uuid X u)"

abbreviation jid_opt :: "ext \<Rightarrow> uuid option \<Rightarrow> json" where
  "jid_opt X u \<equiv> json_opt (\<lambda>i. JStr (show_uuid X i)) u"

abbreviation jids :: "ext \<Rightarrow> uuid list \<Rightarrow> json" where
  "jids X us \<equiv> JArr (map (\<lambda>i. JStr (show_uuid X i)) us)"

abbreviation jtime_opt :: "ext \<Rightarrow> timestamp option \<Rightarrow> json" where
  "jtime_opt X t \<equiv> json_opt (\<lambda>i. JStr (show_time X i)) t"

abbreviation jstr_opt :: "string option \<Rightarrow> json" where
  "jstr_opt s \<equiv> json_opt JStr s"

abbreviation jint_opt :: "int option \<Rightarrow> json" where
  "jint_opt i \<equiv> json_opt JInt i"

section \<open>Defaults of a task grant (types/defaults.rs)\<close>

definition default_task_grant_memory_scope :: json where
  "default_task_grant_memory_scope = mk_obj
     [(''mode'', JStr ''snapshot_only''), (''allowed_scope_keys'', JArr []),
      (''allowed_object_types'', JArr []), (''allowed_source_types'', JArr []),
      (''allowed_object_ids'', JArr []), (''minimum_trust_level'', JStr ''verified''),
      (''max_objects'', JInt 0), (''approval_memory_allowed'', JBool False),
      (''handoff_memory_allowed'', JBool False), (''writeback_allowed'', JBool False)]"

definition default_task_grant_tool_scope :: json where
  "default_task_grant_tool_scope = mk_obj
     [(''read'', JArr []), (''write'', JArr []), (''external_write'', JArr [])]"

definition default_task_grant_connector_scope :: json where
  "default_task_grant_connector_scope = mk_obj
     [(''mode'', JStr ''read_only''), (''allowed_connector_ids'', JArr []),
      (''allowed_tool_names'', JArr []), (''tenant_scope'', mk_obj []),
      (''side_effect_classes'', JArr [])]"

definition default_task_grant_approval_policy :: json where
  "default_task_grant_approval_policy = mk_obj
     [(''mode'', JStr ''approval_required_for_mutation'')]"

definition default_task_grant_external_effects :: json where
  "default_task_grant_external_effects = mk_obj
     [(''publish'', JBool False), (''payment'', JBool False),
      (''external_message'', JBool False), (''account_mutation'', JBool False),
      (''ad_spend_mutation'', JBool False)]"

end
