(* ===== verification/Texts.thy ===== *)
theory Texts
  imports Model
begin

text \<open>
  The validators and normalisers of text that enters the workflow runtime
  (workflow_graph_core.rs): status names, adapter and mode names, slugs, required fields.
\<close>

fun split_on :: "char \<Rightarrow> string \<Rightarrow> string list" where
  "split_on d [] = [[]]"
| "split_on d (c # s) =
     (if c = d then [] # split_on d s
      else case split_on d s of [] \<Rightarrow> [[c]] | w # ws \<Rightarrow> (c # w) # ws)"

fun join_with :: "string \<Rightarrow> string list \<Rightarrow> string" where
  "join_with sep [] = []"
| "join_with sep [w] = w"
| "join_with sep (w # v # ws) = w @ sep @ join_with sep (v # ws)"

definition workflow_slug :: "string \<Rightarrow> string" where
  "workflow_slug value =
     (let mapped = map (\<lambda>c. if is_ascii_alphanumeric c \<or> c = CHR ''-'' \<or> c = CHR ''_''
                            then ascii_lower c else CHR ''-'') value;
          slug = join_with ''-'' (take 8 (filter (\<lambda>part. part \<noteq> []) (split_on (CHR ''-'') mapped)))
      in if slug = [] then ''workflow'' else slug)"

definition require_non_empty :: "string \<Rightarrow> string \<Rightarrow> string res" where
  "require_non_empty value field =
     (let trimmed = trim value
      in if trimmed = [] then Inl (bad_request (field @ '' is required'')) else Inr trimmed)"

definition normalize_optional_text :: "string \<Rightarrow> string option" where
  "normalize_optional_text value =
     (let trimmed = trim value in if trimmed = [] then None else Some trimmed)"

definition normalize_optional_filter :: "string option \<Rightarrow> string option" where
  "normalize_optional_filter value = opt_filter (\<lambda>v. v \<noteq> []) (map_option trim value)"

text \<open>
  The normalisers of a closed vocabulary all trim, lower-case and look the result up; each
  keeps its own vocabulary and message.
\<close>

definition normalized :: "string \<Rightarrow> string" where
  "normalized value = to_ascii_lowercase (trim value)"

definition normalize_workflow_trigger_type :: "string \<Rightarrow> string res" where
  "normalize_workflow_trigger_type value =
     (let n = normalized value in
      if n \<in> {''manual'', ''schedule'', ''webhook'', ''work_item'', ''connector_event'', ''api''}
      then Inr n
      else Inl (bad_request ''workflow trigger_type must be manual, schedule, webhook, work_item, connector_event, or api''))"

definition normalize_workflow_release_state :: "string \<Rightarrow> string res" where
  "normalize_workflow_release_state value =
     (let n = normalized value in
      if n \<in> {''draft'', ''staged'', ''released'', ''rolled_back'', ''archived''} then Inr n
      else Inl (bad_request ''workflow release_state must be draft, staged, released, rolled_back, or archived''))"

definition workflow_handoff_rules_has_retired_materialization :: "json \<Rightarrow> bool" where
  "workflow_handoff_rules_has_retired_materialization handoff_rules =
     is_some_and (jget_str handoff_rules ''source'') (\<lambda>s. s = ''dynamic_workflow_plan'')"

definition validate_retired_materialization_provenance_update :: "json \<Rightarrow> json \<Rightarrow> unit res" where
  "validate_retired_materialization_provenance_update current proposed =
     (let current_is_retired = workflow_handoff_rules_has_retired_materialization current;
          proposed_is_retired = workflow_handoff_rules_has_retired_materialization proposed
      in if current_is_retired \<noteq> proposed_is_retired
         then Inl (bad_request ''retired workflow materialization provenance is immutable'')
         else if current_is_retired
         then foreachr (\<lambda>field.
                guardr (jget current field = jget proposed field)
                  (bad_request (''retired workflow materialization provenance field '' @ field
                                @ '' is immutable'')))
              [''source'', ''dynamic_workflow_plan_id'', ''materialization_approval'']
         else Inr ())"

definition normalize_workflow_execution_strategy :: "string \<Rightarrow> string res" where
  "normalize_workflow_execution_strategy value =
     (let n = normalized value in
      if n \<in> {''native_steps'', ''delegated_runtime''} then Inr n
      else Inl (bad_request ''workflow execution_strategy must be native_steps or delegated_runtime''))"

definition normalize_runtime_adapter :: "string \<Rightarrow> string res" where
  "normalize_runtime_adapter value =
     (let n = normalized value in
      if n \<in> {''codex_app_server'', ''codex_cli'', ''claude_code'', ''gemini'', ''opencode'',
              ''aider'', ''hosted''} then Inr n
      else Inl (bad_request ''runtime_adapter must be codex_app_server, codex_cli, claude_code, gemini, opencode, aider, or hosted''))"

definition transposer :: "'a res option \<Rightarrow> 'a option res" where
  "transposer v = (case v of None \<Rightarrow> Inr None | Some r \<Rightarrow> bindr r (\<lambda>x. Inr (Some x)))"

definition normalize_optional_runtime_adapter :: "string option \<Rightarrow> string option res" where
  "normalize_optional_runtime_adapter value =
     transposer (map_option normalize_runtime_adapter (Option.bind value normalize_optional_text))"

definition normalize_runtime_mode :: "string \<Rightarrow> string res" where
  "normalize_runtime_mode value =
     (let n = normalized value in
      if n \<in> {''normal'', ''ultracode''} then Inr n
      else Inl (bad_request ''runtime_mode must be normal or ultracode''))"

definition normalize_optional_runtime_mode :: "string option \<Rightarrow> string option res" where
  "normalize_optional_runtime_mode value =
     transposer (map_option normalize_runtime_mode (Option.bind value normalize_optional_text))"

definition normalize_event_ingestion_policy :: "string \<Rightarrow> string res" where
  "normalize_event_ingestion_policy value =
     (let n = normalized value in
      if n \<in> {''normalized'', ''raw_only'', ''disabled''} then Inr n
      else Inl (bad_request ''event_ingestion_policy must be normalized, raw_only, or disabled''))"

definition validate_workflow_execution_binding :: "string \<Rightarrow> string option \<Rightarrow> json \<Rightarrow> unit res" where
  "validate_workflow_execution_binding execution_strategy runtime_adapter contract =
     (if \<not> is_object contract
      then Inl (bad_request ''runtime_capability_contract must be a JSON object'')
      else if execution_strategy = ''delegated_runtime'' \<and> runtime_adapter = None
      then Inl (bad_request ''delegated_runtime workflow requires runtime_adapter'')
      else Inr ())"

definition normalize_workflow_run_status :: "string \<Rightarrow> string res" where
  "normalize_workflow_run_status value =
     (let n = normalized value in
      if n \<in> {''queued'', ''scheduled'', ''running'', ''requires_action'', ''completed'',
              ''failed'', ''canceled'', ''skipped''} then Inr n
      else Inl (bad_request ''workflow status must be queued, scheduled, running, requires_action, completed, failed, canceled, or skipped''))"

definition workflow_run_status_allows_execution :: "string \<Rightarrow> bool" where
  "workflow_run_status_allows_execution status \<longleftrightarrow>
     status \<in> {''queued'', ''running'', ''requires_action''}"

definition workflow_run_status_allows_step_creation :: "string \<Rightarrow> bool" where
  "workflow_run_status_allows_step_creation status \<longleftrightarrow>
     status = ''initializing'' \<or> workflow_run_status_allows_execution status"

definition workflow_run_execution_denial :: "string \<Rightarrow> string option" where
  "workflow_run_execution_denial status =
     (if workflow_run_status_allows_execution status then None
      else if status \<in> {''completed'', ''failed'', ''canceled'', ''skipped''}
      then Some ''workflow run is not active''
      else Some ''workflow run is not executable'')"

definition workflow_step_status_terminal :: "string \<Rightarrow> bool" where
  "workflow_step_status_terminal status \<longleftrightarrow>
     status \<in> {''completed'', ''failed'', ''canceled'', ''skipped''}"

definition workflow_step_status_successful :: "string \<Rightarrow> bool" where
  "workflow_step_status_successful status \<longleftrightarrow> status \<in> {''completed'', ''skipped''}"

definition normalize_task_grant_risk_level :: "string \<Rightarrow> string res" where
  "normalize_task_grant_risk_level value =
     (let n = normalized value in
      if n \<in> {''low'', ''medium'', ''high'', ''critical''} then Inr n
      else Inl (bad_request ''task grant risk_level must be low, medium, high, or critical''))"

definition normalize_handoff_review_status :: "string \<Rightarrow> string res" where
  "normalize_handoff_review_status value =
     (let n = normalized value in
      if n \<in> {''pending_review'', ''manager_reviewed'', ''human_review_required'', ''approved'',
              ''rejected''} then Inr n
      else Inl (bad_request ''review_status must be pending_review, manager_reviewed, human_review_required, approved, or rejected''))"

definition normalize_handoff_human_escalation_status :: "string \<Rightarrow> string res" where
  "normalize_handoff_human_escalation_status value =
     (let n = normalized value in
      if n \<in> {''none'', ''required'', ''requested'', ''resolved''} then Inr n
      else Inl (bad_request ''human_escalation_status must be none, required, requested, or resolved''))"

definition normalize_handoff_risk_level :: "string \<Rightarrow> string res" where
  "normalize_handoff_risk_level value =
     (let n = normalized value in
      if n \<in> {''low'', ''medium'', ''high''} then Inr n
      else Inl (bad_request ''risk_level must be one of low, medium, or high''))"

definition validate_handoff_token :: "string \<Rightarrow> string \<Rightarrow> string res" where
  "validate_handoff_token field value =
     (let trimmed = trim value in
      if trimmed = [] \<or> length trimmed > 128
         \<or> \<not> list_all (\<lambda>c. is_ascii_lower c \<or> is_ascii_digit c \<or> c = CHR ''-'' \<or> c = CHR ''_'') trimmed
      then Inl (bad_request (field @ '' must be a lowercase slug''))
      else Inr trimmed)"

definition validate_handoff_schema_version :: "string \<Rightarrow> string res" where
  "validate_handoff_schema_version value =
     (let trimmed = trim value in
      if trimmed = [] \<or> length trimmed > 128
         \<or> \<not> list_all (\<lambda>c. is_ascii_alphanumeric c \<or> c \<in> {CHR ''.'', CHR ''-'', CHR ''_'', CHR ''/''}) trimmed
      then Inl (bad_request ''schema_version must be a non-empty schema identifier'')
      else Inr trimmed)"

definition normalize_handoff_semantic_scopes :: "json \<Rightarrow> json res" where
  "normalize_handoff_semantic_scopes value =
     (if is_object value then Inr value
      else Inl (bad_request ''handoff semantic_scopes must be a JSON object''))"

text \<open>The first plan status that counts as reviewed; the plan itself is read for its status only.\<close>

definition default_handoff_review_status :: "string option \<Rightarrow> string" where
  "default_handoff_review_status plan_status =
     (if is_some_and plan_status (\<lambda>s. s = ''approved'' \<or> s = ''reviewed'')
      then ''manager_reviewed'' else ''pending_review'')"

definition ensure_agent_handoff_transition :: "string \<Rightarrow> string \<Rightarrow> unit res" where
  "ensure_agent_handoff_transition current next =
     (if (current, next) \<in> {(''requested'', ''accepted''), (''requested'', ''rejected''),
                            (''requested'', ''failed''), (''accepted'', ''completed''),
                            (''accepted'', ''failed'')}
      then Inr ()
      else Inl (bad_request (''cannot transition agent handoff from '' @ current @ '' to '' @ next)))"

section \<open>Trimming\<close>

lemma ws_len_take: "ws_len (take n bs) \<noteq> 0 \<Longrightarrow> ws_len bs = ws_len (take n bs)"
proof -
  consider "n = 0" | "n = 1" | "n = 2" | m where "n = Suc (Suc (Suc m))"
    by (metis One_nat_def numeral_2_eq_2 old.nat.exhaust)
  then show "ws_len (take n bs) \<noteq> 0 \<Longrightarrow> ws_len bs = ws_len (take n bs)"
    by cases (cases bs rule: ws_len.cases; auto split: if_splits)+
qed

lemma ws_prefix_take: "ws_prefix (take n s) \<noteq> 0 \<Longrightarrow> ws_prefix s \<noteq> 0"
proof -
  assume *: "ws_prefix (take n s) \<noteq> 0"
  have "map byte (take 3 (take n s)) = take n (map byte (take 3 s))"
    by (simp add: take_map min.commute)
  with * have "ws_len (take n (map byte (take 3 s))) \<noteq> 0"
    by (simp add: ws_prefix_def)
  with ws_len_take [of n "map byte (take 3 s)"] show ?thesis
    by (simp add: ws_prefix_def)
qed

lemma ws_prefix_trim_start [simp]: "ws_prefix (trim_start s) = 0"
proof (induction s rule: trim_start.induct)
  case (1 s)
  then show ?case by (subst trim_start.simps) auto
qed

lemma ws_suffix_trim_end [simp]: "ws_suffix (trim_end s) = 0"
proof (induction s rule: trim_end.induct)
  case (1 s)
  then show ?case by (subst trim_end.simps) auto
qed

lemma trim_end_prefix: "\<exists>n. trim_end s = take n s"
proof (induction s rule: trim_end.induct)
  case (1 s)
  show ?case
  proof (cases "ws_suffix s = 0")
    case True
    then have "trim_end s = take (length s) s" by (simp add: trim_end.simps [of s])
    then show ?thesis ..
  next
    case False
    then obtain n where "trim_end s = take n (take (length s - ws_suffix s) s)"
      using 1 by (auto simp: trim_end.simps [of s])
    then show ?thesis by (metis take_take)
  qed
qed

lemma ws_prefix_trim [simp]: "ws_prefix (trim s) = 0"
proof -
  obtain n where "trim s = take n (trim_start s)"
    using trim_end_prefix [of "trim_start s"] by (auto simp: trim_def)
  with ws_prefix_take [of n "trim_start s"] show ?thesis by (metis ws_prefix_trim_start)
qed

lemma trim_fixpoint: "ws_prefix s = 0 \<Longrightarrow> ws_suffix s = 0 \<Longrightarrow> trim s = s"
  by (simp add: trim_def trim_start.simps [of s] trim_end.simps [of s])

lemma trim_idem [simp]: "trim (trim s) = trim s"
  by (rule trim_fixpoint) (simp, simp add: trim_def [of s])

lemma trim_Nil [simp]: "trim [] = []"
  by (rule trim_fixpoint) (simp_all add: ws_prefix_def ws_suffix_def)

end
