(* ===== verification/Graph.thy ===== *)
theory Graph
  imports Texts
begin

text \<open>
  The step graph of a workflow definition (workflow_graph_core.rs): reading the fields of a
  graph step, its dependencies, retry and fan-in/fan-out policies, the branch conditions and
  their evaluation over the step runs so far, the steps that are ready, and the validation
  of a definition's graph.
\<close>

section \<open>Fields of a step\<close>

text \<open>A field that must be a string, trimmed and non-empty: \<open>map(str::trim).filter(..)\<close>.\<close>

definition trimmed_text :: "string option \<Rightarrow> string option" where
  "trimmed_text v = opt_filter (\<lambda>s. s \<noteq> []) (map_option trim v)"

text \<open>\<open>get\<close> with aliases: the first key that is present, whatever its value.\<close>

fun jget_any :: "json \<Rightarrow> string list \<Rightarrow> json option" where
  "jget_any v [] = None"
| "jget_any v (k # ks) = opt_or (jget v k) (jget_any v ks)"

definition graph_steps :: "json \<Rightarrow> json list option" where
  "graph_steps step_graph = jget_array step_graph ''steps''"

definition workflow_definition_step_graph_for_execution :: "string \<Rightarrow> json \<Rightarrow> json" where
  "workflow_definition_step_graph_for_execution execution_strategy step_graph =
     (if execution_strategy \<noteq> ''delegated_runtime''
         \<or> is_some_and (graph_steps step_graph) (\<lambda>steps. steps \<noteq> [])
      then step_graph
      else mk_obj
        [(''source'', JStr ''delegated_runtime_envelope''),
         (''steps'', JArr [mk_obj
            [(''key'', JStr ''delegated-runtime''), (''type'', JStr ''delegated_runtime''),
             (''start'', JBool True),
             (''input'', mk_obj [(''objective'',
                JStr ''Delegate this workflow run to the configured external agent runtime.'')])]])])"

definition workflow_graph_step_key :: "json \<Rightarrow> string res" where
  "workflow_graph_step_key step =
     ok_or (bad_request ''workflow graph step requires key'')
       (trimmed_text (jget_str step ''key''))"

definition workflow_graph_step_type :: "json \<Rightarrow> string" where
  "workflow_graph_step_type graph_step =
     unwrap_or (trimmed_text (Option.bind (jget_any graph_step [''type'', ''step_type'']) as_str))
       ''agent''"

definition workflow_graph_start_steps :: "json \<Rightarrow> json list res" where
  "workflow_graph_start_steps step_graph =
     (case graph_steps step_graph of
        None \<Rightarrow> Inr []
      | Some steps \<Rightarrow>
          if steps = [] then Inr []
          else
            let explicit_starts = filter (\<lambda>step.
                  unwrap_or (Option.bind (jget_any step [''start'', ''entrypoint'']) as_bool) False)
                  steps
            in if explicit_starts \<noteq> [] then Inr explicit_starts
               else case steps of
                      [] \<Rightarrow> Inl (bad_request ''workflow graph steps cannot be empty'')
                    | s # _ \<Rightarrow> Inr [s])"

definition workflow_graph_step_is_adapter_owned_compensation :: "json \<Rightarrow> bool" where
  "workflow_graph_step_is_adapter_owned_compensation graph_step =
     (let step_type = to_ascii_lowercase (workflow_graph_step_type graph_step);
          type_is_adapter = (step_type \<in> {''rollback_adapter'', ''compensation_adapter''});
          adapter_kind = map_option to_ascii_lowercase (map_option trim
            (Option.bind (jget graph_step ''adapter'') (\<lambda>adapter.
               opt_or (Option.bind (jget_any adapter [''kind'', ''type'']) as_str)
                      (as_str adapter))));
          adapter_is_compensation = is_some_and adapter_kind (\<lambda>kind.
            kind \<in> {''internal_compensation'', ''rollback'', ''rollback_adapter'', ''compensation''});
          explicit_flag = unwrap_or
            (Option.bind (jget_any graph_step [''rollback_adapter'', ''adapter_owned'']) as_bool) False;
          has_failure_source =
            jget_any graph_step [''on_failure_of'', ''compensates'', ''compensation_for''] \<noteq> None
      in has_failure_source \<and> (type_is_adapter \<or> adapter_is_compensation \<or> explicit_flag))"

definition workflow_graph_step_requires_isolated_handoff_context
    :: "json \<Rightarrow> uuid option \<Rightarrow> uuid \<Rightarrow> bool res" where
  "workflow_graph_step_requires_isolated_handoff_context graph_step target_agent_id primary_agent_id =
     bindr
       (case jget graph_step ''handoff_source_agent_ref'' of
          Some value \<Rightarrow>
            bindr (ok_or (bad_request
                ''workflow graph step handoff_source_agent_ref must be a non-empty string'')
                (trimmed_text (as_str value)))
              (\<lambda>_. Inr True)
        | None \<Rightarrow> Inr False)
       (\<lambda>governed_handoff.
          Inr (is_some_and target_agent_id
                 (\<lambda>t. t \<noteq> primary_agent_id \<or> governed_handoff)))"

definition workflow_step_run_is_handoff_approval_blocked :: "workflow_step_run \<Rightarrow> bool" where
  "workflow_step_run_is_handoff_approval_blocked step \<longleftrightarrow>
     sr_status step = ''requires_action''
     \<and> is_some_and (jget_str (sr_output_payload step) ''block_reason'')
         (\<lambda>reason. reason = ''handoff_approval_required'')"

definition workflow_graph_step_uuid :: "ext \<Rightarrow> json \<Rightarrow> string \<Rightarrow> uuid option res" where
  "workflow_graph_step_uuid X step key =
     (case jget_str step key of
        None \<Rightarrow> Inr None
      | Some value \<Rightarrow>
          (case parse_uuid X (trim value) of
             None \<Rightarrow> Inl (bad_request (''workflow graph step '' @ key @ '' must be a UUID''))
           | Some u \<Rightarrow> Inr (Some u)))"

definition workflow_graph_step_agent_id :: "ext \<Rightarrow> workflow_definition \<Rightarrow> json \<Rightarrow> uuid option res" where
  "workflow_graph_step_agent_id X d graph_step =
     (if workflow_graph_step_is_adapter_owned_compensation graph_step then Inr None
      else bindr (workflow_graph_step_uuid X graph_step ''agent_id'')
             (\<lambda>agent_id. Inr (opt_or agent_id (Some (wd_default_agent_id d)))))"

definition workflow_graph_step_agent_version_id :: "ext \<Rightarrow> json \<Rightarrow> uuid option res" where
  "workflow_graph_step_agent_version_id X graph_step =
     (if workflow_graph_step_is_adapter_owned_compensation graph_step then Inr None
      else workflow_graph_step_uuid X graph_step ''agent_version_id'')"

fun collect_agent_versions
    :: "ext \<Rightarrow> workflow_definition \<Rightarrow> uuid \<Rightarrow> json list \<Rightarrow> uuid list \<Rightarrow> uuid list res" where
  "collect_agent_versions X d agent_id [] acc = Inr acc"
| "collect_agent_versions X d agent_id (step # steps) acc =
     bindr (workflow_graph_step_agent_id X d step) (\<lambda>step_agent.
       if step_agent = Some agent_id
       then bindr (workflow_graph_step_agent_version_id X step) (\<lambda>version.
              collect_agent_versions X d agent_id steps
                (case version of Some v \<Rightarrow> List.insert v acc | None \<Rightarrow> acc))
       else collect_agent_versions X d agent_id steps acc)"

definition workflow_definition_agent_version_id
    :: "ext \<Rightarrow> workflow_definition \<Rightarrow> uuid \<Rightarrow> uuid option res" where
  "workflow_definition_agent_version_id X d agent_id =
     bindr (collect_agent_versions X d agent_id
              (unwrap_or (graph_steps (wd_step_graph d)) []) [])
       (\<lambda>version_ids.
          if length version_ids > 1
          then Inl (bad_request ''workflow definition binds one agent to multiple agent versions'')
          else Inr (case version_ids of [] \<Rightarrow> None | v # _ \<Rightarrow> Some v))"

section \<open>Dependencies and failure sources\<close>

definition workflow_graph_string_items :: "json list \<Rightarrow> string \<Rightarrow> string list res" where
  "workflow_graph_string_items items message =
     mapr (\<lambda>item. ok_or (bad_request message)
             (Option.bind (as_str item) normalize_optional_text)) items"

definition workflow_graph_string_or_string_array :: "json \<Rightarrow> string \<Rightarrow> string list res" where
  "workflow_graph_string_or_string_array value label =
     (case value of
        JStr item \<Rightarrow> Inr (case normalize_optional_text item of None \<Rightarrow> [] | Some t \<Rightarrow> [t])
      | JArr items \<Rightarrow> workflow_graph_string_items items (label @ '' must be non-empty strings'')
      | _ \<Rightarrow> Inl (bad_request (label @ '' must be a string or array'')))"

definition workflow_graph_step_dependencies :: "json \<Rightarrow> string list res" where
  "workflow_graph_step_dependencies step =
     (case jget_any step [''depends_on'', ''after'', ''needs''] of
        None \<Rightarrow> Inr []
      | Some value \<Rightarrow>
          (case value of
             JStr item \<Rightarrow> Inr (case normalize_optional_text item of None \<Rightarrow> [] | Some t \<Rightarrow> [t])
           | JArr items \<Rightarrow> workflow_graph_string_items items
               ''workflow graph step dependencies must be non-empty strings''
           | _ \<Rightarrow> Inl (bad_request
               ''workflow graph step dependencies must be a string or array'')))"

definition workflow_graph_step_failure_sources :: "json \<Rightarrow> string list res" where
  "workflow_graph_step_failure_sources step =
     (case jget_any step [''on_failure_of'', ''compensates'', ''compensation_for''] of
        None \<Rightarrow> Inr []
      | Some value \<Rightarrow>
          workflow_graph_string_or_string_array value ''workflow graph failure source'')"

section \<open>Retry policy\<close>

definition workflow_graph_retry_delay_seconds :: "json \<Rightarrow> int res" where
  "workflow_graph_retry_delay_seconds policy =
     (let direct_delay =
            Option.bind (jget_any policy [''delay_seconds'', ''backoff_seconds'']) as_i64;
          nested_delay =
            Option.bind (Option.bind (jget policy ''backoff'') (\<lambda>backoff.
              jget_any backoff [''initial_seconds'', ''delay_seconds'', ''backoff_seconds''])) as_i64;
          delay = unwrap_or (opt_or direct_delay nested_delay) 0
      in if \<not> (0 \<le> delay \<and> delay \<le> 86400)
         then Inl (bad_request
           ''workflow graph step retry delay_seconds must be between 0 and 86400'')
         else Inr delay)"

definition workflow_graph_step_retry_policy :: "json \<Rightarrow> workflow_graph_retry_policy res" where
  "workflow_graph_step_retry_policy step =
     (case jget_any step [''retry'', ''retry_policy''] of
        None \<Rightarrow> Inr \<lparr>max_attempts = 1, delay_seconds = 0\<rparr>
      | Some policy \<Rightarrow>
          (case Option.bind (jget policy ''max_attempts'') as_u64 of
             None \<Rightarrow> Inl (bad_request
               ''workflow graph step retry.max_attempts must be a positive integer'')
           | Some attempts \<Rightarrow>
               if attempts = 0
               then Inl (bad_request
                 ''workflow graph step retry.max_attempts must be at least 1'')
               else bindr (workflow_graph_retry_delay_seconds policy) (\<lambda>delay.
                      Inr \<lparr>max_attempts = nat attempts, delay_seconds = delay\<rparr>)))"

section \<open>Branch conditions\<close>

fun json_path :: "json \<Rightarrow> string list \<Rightarrow> json option" where
  "json_path current [] = Some current"
| "json_path current (segment # rest) =
     (case jget current segment of None \<Rightarrow> None | Some v \<Rightarrow> json_path v rest)"

definition path_segments :: "string \<Rightarrow> string list" where
  "path_segments path = filter (\<lambda>s. s \<noteq> []) (map trim (split_on (CHR ''.'') path))"

definition workflow_graph_json_path :: "json \<Rightarrow> string \<Rightarrow> json option" where
  "workflow_graph_json_path value path = json_path value (path_segments path)"

definition workflow_graph_condition_number :: "json \<Rightarrow> string \<Rightarrow> rat res" where
  "workflow_graph_condition_number value key =
     ok_or (bad_request (''workflow graph step condition '' @ key @ '' must be a number''))
       (as_f64 value)"

definition workflow_graph_condition_datetime :: "ext \<Rightarrow> json \<Rightarrow> string \<Rightarrow> timestamp res" where
  "workflow_graph_condition_datetime X value key =
     ok_or (bad_request (''workflow graph step condition '' @ key
              @ '' must be an RFC3339 timestamp string''))
       (Option.bind (trimmed_text (as_str value)) (parse_rfc3339 X))"

definition numeric_keys :: "(string \<times> numeric_comparator) list" where
  "numeric_keys =
     [(''greater_than'', GreaterThan), (''gt'', GreaterThan),
      (''greater_than_or_equals'', GreaterThanOrEquals), (''gte'', GreaterThanOrEquals),
      (''less_than'', LessThan), (''lt'', LessThan),
      (''less_than_or_equals'', LessThanOrEquals), (''lte'', LessThanOrEquals)]"

definition time_keys :: "(string \<times> time_comparator) list" where
  "time_keys =
     [(''after'', After), (''on_or_after'', OnOrAfter), (''before'', Before),
      (''on_or_before'', OnOrBefore)]"

text \<open>
  The comparator loops of a leaf condition: the first key that is present decides, an absent
  key falls through to the next (\<open>None\<close> when the loop ends).
\<close>

fun leaf_numeric :: "(string \<times> numeric_comparator) list \<Rightarrow> json \<Rightarrow> json \<Rightarrow> (json \<times> bool) res option" where
  "leaf_numeric [] condition actual = None"
| "leaf_numeric ((key, comparator) # rest) condition actual =
     (case jget condition key of
        None \<Rightarrow> leaf_numeric rest condition actual
      | Some expected \<Rightarrow> Some
          (bindr (workflow_graph_condition_number expected key) (\<lambda>expected_number.
             Inr (expected,
               case workflow_graph_condition_number actual key of
                 Inr actual_number \<Rightarrow> numeric_matches comparator actual_number expected_number
               | Inl _ \<Rightarrow> False))))"

fun leaf_time :: "ext \<Rightarrow> (string \<times> time_comparator) list \<Rightarrow> json \<Rightarrow> json \<Rightarrow> (json \<times> bool) res option" where
  "leaf_time X [] condition actual = None"
| "leaf_time X ((key, comparator) # rest) condition actual =
     (case jget condition key of
        None \<Rightarrow> leaf_time X rest condition actual
      | Some expected \<Rightarrow> Some
          (bindr (workflow_graph_condition_datetime X expected key) (\<lambda>expected_time.
             Inr (expected,
               case workflow_graph_condition_datetime X actual key of
                 Inr actual_time \<Rightarrow> time_matches comparator actual_time expected_time
               | Inl _ \<Rightarrow> False))))"

definition workflow_graph_leaf_condition_result :: "ext \<Rightarrow> json \<Rightarrow> json \<Rightarrow> (json \<times> bool) res" where
  "workflow_graph_leaf_condition_result X condition actual =
     (case jget condition ''equals'' of Some expected \<Rightarrow> Inr (expected, actual = expected) | None \<Rightarrow>
     (case jget condition ''not_equals'' of Some expected \<Rightarrow> Inr (expected, actual \<noteq> expected) | None \<Rightarrow>
     (case jget condition ''in'' of
        Some expected \<Rightarrow>
          bindr (ok_or (bad_request ''workflow graph step condition in must be an array'')
                  (as_array expected))
            (\<lambda>items. Inr (expected, list_ex (\<lambda>item. item = actual) items))
      | None \<Rightarrow>
     (case jget condition ''not_in'' of
        Some expected \<Rightarrow>
          bindr (ok_or (bad_request ''workflow graph step condition not_in must be an array'')
                  (as_array expected))
            (\<lambda>items. Inr (expected, \<not> list_ex (\<lambda>item. item = actual) items))
      | None \<Rightarrow>
     (case jget condition ''exists'' of
        Some expected \<Rightarrow>
          bindr (ok_or (bad_request ''workflow graph step condition exists must be a boolean'')
                  (as_bool expected))
            (\<lambda>want. Inr (JBool want, (actual \<noteq> JNull) = want))
      | None \<Rightarrow>
     (case leaf_numeric numeric_keys condition actual of Some r \<Rightarrow> r | None \<Rightarrow>
     (case leaf_time X time_keys condition actual of Some r \<Rightarrow> r | None \<Rightarrow>
       Inr (JBool True, actual = JBool True))))))))"

definition workflow_graph_latest_step :: "workflow_step_run list \<Rightarrow> string \<Rightarrow> workflow_step_run option" where
  "workflow_graph_latest_step existing_steps step_key =
     find_first (\<lambda>step. sr_step_key step = step_key) (rev existing_steps)"

definition condition_source_step_key :: "json \<Rightarrow> string res" where
  "condition_source_step_key condition =
     ok_or (bad_request ''workflow graph step condition requires source_step'')
       (trimmed_text (Option.bind (jget_any condition [''source_step'', ''step'']) as_str))"

definition condition_path :: "json \<Rightarrow> string res" where
  "condition_path condition =
     ok_or (bad_request ''workflow graph step condition requires path'')
       (trimmed_text (jget_str condition ''path''))"

definition workflow_graph_condition_evaluation_payload
    :: "workflow_graph_condition_evaluation \<Rightarrow> json" where
  "workflow_graph_condition_evaluation_payload e = mk_obj
     [(''condition'', ce_condition e), (''path'', jstr_opt (ce_path e)),
      (''actual'', ce_actual e), (''expected'', ce_expected e),
      (''matched'', JBool (ce_matched e))]"

text \<open>The evaluation of a condition without \<open>all\<close>, \<open>any\<close>, \<open>not\<close>: one comparison.\<close>

definition leaf_evaluation
    :: "ext \<Rightarrow> json \<Rightarrow> workflow_step_run list \<Rightarrow> workflow_graph_condition_evaluation res" where
  "leaf_evaluation X condition existing_steps =
     bindr (condition_source_step_key condition) (\<lambda>source_step_key.
     bindr (condition_path condition) (\<lambda>path.
       let source_step = workflow_graph_latest_step existing_steps source_step_key;
           actual = unwrap_or (Option.bind source_step (\<lambda>step.
                      workflow_graph_json_path (sr_output_payload step) path)) JNull
       in bindr (workflow_graph_leaf_condition_result X condition actual) (\<lambda>(expected, matched).
            Inr \<lparr>ce_condition = condition, ce_source_step = source_step, ce_path = Some path,
                 ce_actual = actual, ce_expected = expected, ce_matched = matched\<rparr>)))"

definition combined_evaluation
    :: "string \<Rightarrow> json \<Rightarrow> bool \<Rightarrow> workflow_graph_condition_evaluation list \<Rightarrow>
        workflow_graph_condition_evaluation" where
  "combined_evaluation operator condition matched children =
     \<lparr>ce_condition = condition,
      ce_source_step = find_map ce_source_step children,
      ce_path = None,
      ce_actual = mk_obj
        [(''operator'', JStr operator), (''matched'', JBool matched),
         (operator, JArr (map workflow_graph_condition_evaluation_payload children))],
      ce_expected = JBool True,
      ce_matched = matched\<rparr>"

definition negated_evaluation
    :: "json \<Rightarrow> workflow_graph_condition_evaluation \<Rightarrow> workflow_graph_condition_evaluation" where
  "negated_evaluation condition child =
     \<lparr>ce_condition = condition, ce_source_step = ce_source_step child, ce_path = None,
      ce_actual = mk_obj
        [(''operator'', JStr ''not''), (''matched'', JBool (\<not> ce_matched child)),
         (''not'', workflow_graph_condition_evaluation_payload child)],
      ce_expected = JBool True,
      ce_matched = (\<not> ce_matched child)\<rparr>"

text \<open>The operand list of \<open>all\<close> or \<open>any\<close>: a non-empty array.\<close>

definition condition_items :: "json \<Rightarrow> string \<Rightarrow> json list res" where
  "condition_items value operator =
     (case value of
        JArr items \<Rightarrow>
          if items = []
          then Inl (bad_request (''workflow graph step condition '' @ operator @ '' must not be empty''))
          else Inr items
      | _ \<Rightarrow> Inl (bad_request (''workflow graph step condition '' @ operator @ '' must be an array'')))"

lemma condition_items_Inr: "condition_items value operator = Inr items \<Longrightarrow> value = JArr items \<and> items \<noteq> []"
  by (auto simp: condition_items_def split: json.splits if_splits)

lemma condition_items_smaller:
  assumes "jget condition k = Some value" "condition_items value operator = Inr items"
    and "x \<in> set items"
  shows "size x < size condition"
  using size_jget [OF assms(1)] condition_items_Inr [OF assms(2)] size_mem [OF assms(3)]
  by auto

function (sequential) workflow_graph_condition_evaluation
    :: "ext \<Rightarrow> json \<Rightarrow> workflow_step_run list \<Rightarrow> workflow_graph_condition_evaluation res" where
  "workflow_graph_condition_evaluation X condition existing_steps =
     (case jget condition ''all'' of
        Some items \<Rightarrow>
          bindr (condition_items items ''all'') (\<lambda>xs.
          bindr (mapr (\<lambda>x. workflow_graph_condition_evaluation X x existing_steps) xs) (\<lambda>children.
            Inr (combined_evaluation ''all'' condition (list_all ce_matched children) children)))
      | None \<Rightarrow>
     (case jget condition ''any'' of
        Some items \<Rightarrow>
          bindr (condition_items items ''any'') (\<lambda>xs.
          bindr (mapr (\<lambda>x. workflow_graph_condition_evaluation X x existing_steps) xs) (\<lambda>children.
            Inr (combined_evaluation ''any'' condition (list_ex ce_matched children) children)))
      | None \<Rightarrow>
     (case jget condition ''not'' of
        Some child \<Rightarrow>
          bindr (workflow_graph_condition_evaluation X child existing_steps) (\<lambda>e.
            Inr (negated_evaluation condition e))
      | None \<Rightarrow> leaf_evaluation X condition existing_steps)))"
  by pat_completeness auto
termination
  by (relation "measure (\<lambda>(X, c, s). size c)")
    (auto intro: condition_items_smaller size_jget)

declare workflow_graph_condition_evaluation.simps [simp del]

text \<open>\<open>workflow_graph_condition_array\<close>: every operand of the list evaluated.\<close>

definition workflow_graph_condition_array
    :: "ext \<Rightarrow> json \<Rightarrow> workflow_step_run list \<Rightarrow> string \<Rightarrow>
        workflow_graph_condition_evaluation list res" where
  "workflow_graph_condition_array X value existing_steps operator =
     bindr (condition_items value operator)
       (mapr (\<lambda>x. workflow_graph_condition_evaluation X x existing_steps))"

definition workflow_graph_step_condition :: "json \<Rightarrow> json option" where
  "workflow_graph_step_condition step = jget_any step [''condition'', ''when'']"

definition workflow_graph_step_condition_evaluation
    :: "ext \<Rightarrow> json \<Rightarrow> workflow_step_run list \<Rightarrow>
        workflow_graph_condition_evaluation option res" where
  "workflow_graph_step_condition_evaluation X step existing_steps =
     (case workflow_graph_step_condition step of
        None \<Rightarrow> Inr None
      | Some condition \<Rightarrow>
          bindr (workflow_graph_condition_evaluation X condition existing_steps) (\<lambda>e. Inr (Some e)))"

end
