(* ===== verification/Grants.thy ===== *)
theory Grants
  imports Graph
begin

text \<open>
  Task grants: the budgets and scopes a grant carries, what a child may hold of its parent
  (\<open>ensure_child_task_grant_within_parent\<close>), the reasons a grant is refused, and which tools,
  MCP calls and native connector operations it allows (workflow_graph_core.rs,
  workflow_task_grants.rs, store_workflows.rs).
\<close>

section \<open>The root grant of a workflow definition\<close>

definition workflow_definition_root_task_grant_value :: "workflow_definition \<Rightarrow> string \<Rightarrow> json option" where
  "workflow_definition_root_task_grant_value d key =
     opt_or (Option.bind (jget (wd_handoff_rules d) ''root_task_grant'') (\<lambda>v. jget v key))
            (Option.bind (jget (wd_handoff_rules d) ''task_grant_template'') (\<lambda>v. jget v key))"

definition workflow_definition_root_task_grant_scope
    :: "workflow_definition \<Rightarrow> string \<Rightarrow> json \<Rightarrow> json" where
  "workflow_definition_root_task_grant_scope d key default_value =
     unwrap_or
       (opt_or (Option.bind (jget (wd_handoff_rules d) ''root_task_grant'') (\<lambda>v. jget v key))
               (Option.bind (jget (wd_handoff_rules d) ''task_grant_template'') (\<lambda>v. jget v key)))
       default_value"

definition workflow_definition_root_task_grant_budget_i32
    :: "workflow_definition \<Rightarrow> string \<Rightarrow> int option res" where
  "workflow_definition_root_task_grant_budget_i32 d key =
     (case workflow_definition_root_task_grant_value d key of
        None \<Rightarrow> Inr None
      | Some v \<Rightarrow>
          (case as_i64 v of
             None \<Rightarrow> Inl (bad_request (''root task grant '' @ key @ '' must be a positive integer''))
           | Some i \<Rightarrow>
               if \<not> in_i32 i
               then Inl (bad_request (''root task grant '' @ key @ '' exceeds the supported range''))
               else if i \<le> 0
               then Inl (bad_request (''root task grant '' @ key @ '' must be a positive integer''))
               else Inr (Some i)))"

definition workflow_definition_root_task_grant_budget_i64
    :: "workflow_definition \<Rightarrow> string \<Rightarrow> int option res" where
  "workflow_definition_root_task_grant_budget_i64 d key =
     (case workflow_definition_root_task_grant_value d key of
        None \<Rightarrow> Inr None
      | Some v \<Rightarrow>
          (case as_i64 v of
             None \<Rightarrow> Inl (bad_request (''root task grant '' @ key @ '' must be a positive integer''))
           | Some i \<Rightarrow>
               if i \<le> 0
               then Inl (bad_request (''root task grant '' @ key @ '' must be a positive integer''))
               else Inr (Some i)))"

definition validate_task_grant_scope_objects :: "task_grant \<Rightarrow> unit res" where
  "validate_task_grant_scope_objects grant =
     foreachr (\<lambda>(field, v).
         guardr (is_object v) (bad_request (''task grant '' @ field @ '' must be a JSON object'')))
       [(''semantic_scopes'', tg_semantic_scopes grant), (''memory_scope'', tg_memory_scope grant),
        (''tool_scope'', tg_tool_scope grant), (''connector_scope'', tg_connector_scope grant),
        (''approval_policy'', tg_approval_policy grant),
        (''external_effects'', tg_external_effects grant)]"

definition validate_task_grant_budgets :: "task_grant \<Rightarrow> unit res" where
  "validate_task_grant_budgets grant =
     bindr (foreachr (\<lambda>(field, v).
         guardr (\<not> is_some_and v (\<lambda>x. x \<le> 0))
           (bad_request (''task grant '' @ field @ '' must be positive'')))
       [(''max_turns'', tg_max_turns grant), (''max_tool_calls'', tg_max_tool_calls grant),
        (''max_runtime_seconds'', tg_max_runtime_seconds grant)]) (\<lambda>_.
     if is_some_and (tg_max_cost_usd_micros grant) (\<lambda>x. x \<le> 0)
     then Inl (bad_request ''task grant max_cost_usd_micros must be positive'')
     else if tg_turns_used grant < 0 \<or> tg_tool_calls_used grant < 0
             \<or> tg_cost_usd_micros_used grant < 0
     then Inl (bad_request ''task grant usage counters cannot be negative'')
     else Inr ())"

section \<open>Budgets\<close>

record task_grant_remaining_budgets =
  rb_max_turns :: "int option"
  rb_max_tool_calls :: "int option"
  rb_max_runtime_seconds :: "int option"
  rb_max_cost_usd_micros :: "int option"

definition remaining_i32 :: "string \<Rightarrow> int option \<Rightarrow> int \<Rightarrow> int option res" where
  "remaining_i32 name limit used =
     (case limit of
        None \<Rightarrow> Inr None
      | Some l \<Rightarrow>
          (case checked_i32 (l - used) of
             None \<Rightarrow> Inl (forbidden (''task grant '' @ name @ '' budget is exhausted''))
           | Some remaining \<Rightarrow>
               if remaining \<le> 0
               then Inl (forbidden (''task grant '' @ name @ '' budget is exhausted''))
               else Inr (Some remaining)))"

definition remaining_runtime :: "task_grant \<Rightarrow> timestamp \<Rightarrow> int option res" where
  "remaining_runtime grant now =
     (case tg_max_runtime_seconds grant of
        None \<Rightarrow> Inr None
      | Some limit \<Rightarrow>
          let elapsed = max (num_seconds (now - tg_created_at grant)) 0 in
          (case checked_i64 (limit - elapsed) of
             None \<Rightarrow> Inl (forbidden ''task grant runtime budget is exhausted'')
           | Some remaining \<Rightarrow>
               if remaining \<le> 0
               then Inl (forbidden ''task grant runtime budget is exhausted'')
               else if \<not> in_i32 remaining
               then Inl (bad_request ''task grant runtime budget exceeds supported range'')
               else Inr (Some remaining)))"

definition remaining_cost :: "task_grant \<Rightarrow> int option res" where
  "remaining_cost grant =
     (case tg_max_cost_usd_micros grant of
        None \<Rightarrow> Inr None
      | Some limit \<Rightarrow>
          (case checked_i64 (limit - tg_cost_usd_micros_used grant) of
             None \<Rightarrow> Inl (forbidden ''task grant cost budget is exhausted'')
           | Some remaining \<Rightarrow>
               if remaining \<le> 0
               then Inl (forbidden ''task grant cost budget is exhausted'')
               else Inr (Some remaining)))"

definition task_grant_remaining_budgets
    :: "task_grant \<Rightarrow> timestamp \<Rightarrow> task_grant_remaining_budgets res" where
  "task_grant_remaining_budgets grant now =
     bindr (remaining_runtime grant now) (\<lambda>max_runtime_seconds.
     bindr (remaining_cost grant) (\<lambda>max_cost_usd_micros.
     bindr (remaining_i32 ''turn'' (tg_max_turns grant) (tg_turns_used grant)) (\<lambda>max_turns.
     bindr (remaining_i32 ''tool call'' (tg_max_tool_calls grant) (tg_tool_calls_used grant)) (\<lambda>max_tool_calls.
       Inr \<lparr>rb_max_turns = max_turns, rb_max_tool_calls = max_tool_calls,
            rb_max_runtime_seconds = max_runtime_seconds,
            rb_max_cost_usd_micros = max_cost_usd_micros\<rparr>))))"

fun limit_within_parent :: "int option \<Rightarrow> int option \<Rightarrow> bool" where
  "limit_within_parent (Some parent) (Some child) = (child \<le> parent)"
| "limit_within_parent (Some _) None = False"
| "limit_within_parent None _ = True"

section \<open>Scopes\<close>

fun json_scope_contains :: "json \<Rightarrow> json \<Rightarrow> bool" where
  "json_scope_contains parent JNull = True"
| "json_scope_contains (JObj parent) (JObj child) =
     list_all (\<lambda>kv. is_some_and (map_of parent (fst kv))
                 (\<lambda>parent_value. json_scope_contains parent_value (snd kv))) child"
| "json_scope_contains (JArr parent) (JArr child) =
     list_all (\<lambda>child_value.
       list_ex (\<lambda>parent_value. parent_value = child_value
                  \<or> (as_str parent_value = Some ''*'' \<and> is_string child_value)) parent) child"
| "json_scope_contains (JBool True) (JBool _) = True"
| "json_scope_contains parent child = (parent = child)"

definition ensure_child_task_grant_within_parent :: "task_grant \<Rightarrow> task_grant \<Rightarrow> unit res" where
  "ensure_child_task_grant_within_parent parent child =
     bindr (task_grant_remaining_budgets parent (tg_created_at child)) (\<lambda>remaining.
       if tg_workflow_run_id child = tg_workflow_run_id parent
          \<and> limit_within_parent (rb_max_turns remaining) (tg_max_turns child)
          \<and> limit_within_parent (rb_max_tool_calls remaining) (tg_max_tool_calls child)
          \<and> limit_within_parent (rb_max_runtime_seconds remaining) (tg_max_runtime_seconds child)
          \<and> limit_within_parent (rb_max_cost_usd_micros remaining) (tg_max_cost_usd_micros child)
          \<and> json_scope_contains (tg_semantic_scopes parent) (tg_semantic_scopes child)
          \<and> json_scope_contains (tg_memory_scope parent) (tg_memory_scope child)
          \<and> json_scope_contains (tg_tool_scope parent) (tg_tool_scope child)
          \<and> json_scope_contains (tg_connector_scope parent) (tg_connector_scope child)
          \<and> json_scope_contains (tg_approval_policy parent) (tg_approval_policy child)
          \<and> json_scope_contains (tg_external_effects parent) (tg_external_effects child)
       then Inr ()
       else Inl (bad_request ''child task grant cannot expand parent grant''))"

section \<open>Refusals (store_workflows.rs)\<close>

datatype task_grant_reservation = Turn | ToolCall

text \<open>The reason, and whether the grant is to be marked expired.\<close>

definition task_grant_runtime_denial :: "task_grant \<Rightarrow> timestamp \<Rightarrow> (string \<times> bool) option" where
  "task_grant_runtime_denial grant now =
     (if tg_status grant \<noteq> ''active'' then Some (''task grant is not active'', False)
      else if is_some_and (tg_expires_at grant) (\<lambda>expires_at. expires_at \<le> now)
      then Some (''task grant is expired'', True)
      else if is_some_and (tg_max_runtime_seconds grant)
                (\<lambda>seconds. num_seconds (now - tg_created_at grant) \<ge> seconds)
      then Some (''task grant runtime budget expired'', True)
      else if is_some_and (tg_max_cost_usd_micros grant)
                (\<lambda>limit. tg_cost_usd_micros_used grant \<ge> limit)
      then Some (''task grant cost budget exhausted'', False)
      else None)"

definition task_grant_reservation_denial
    :: "task_grant \<Rightarrow> task_grant_reservation \<Rightarrow> timestamp \<Rightarrow> (string \<times> bool) option" where
  "task_grant_reservation_denial grant reservation now =
     (case task_grant_runtime_denial grant now of
        Some denial \<Rightarrow> Some denial
      | None \<Rightarrow>
          (case reservation of
             Turn \<Rightarrow>
               if is_some_and (tg_max_turns grant) (\<lambda>limit. tg_turns_used grant \<ge> limit)
               then Some (''task grant turn budget exhausted'', False) else None
           | ToolCall \<Rightarrow>
               if is_some_and (tg_max_tool_calls grant) (\<lambda>limit. tg_tool_calls_used grant \<ge> limit)
               then Some (''task grant tool call budget exhausted'', False) else None))"

definition task_grant_tool_call_reservation_denial
    :: "task_grant \<Rightarrow> timestamp \<Rightarrow> (string \<times> bool) option" where
  "task_grant_tool_call_reservation_denial grant now =
     task_grant_reservation_denial grant ToolCall now"

section \<open>Who holds a grant\<close>

definition task_grant_session_matches :: "task_grant \<Rightarrow> workflow_run \<Rightarrow> uuid \<Rightarrow> bool" where
  "task_grant_session_matches grant run session_id \<longleftrightarrow>
     wr_primary_session_id run = session_id
     \<or> tg_session_id grant = Some session_id
     \<or> tg_grantee_session_id grant = Some session_id"

definition task_grant_agent_class_matches :: "agent \<Rightarrow> string \<Rightarrow> bool" where
  "task_grant_agent_class_matches agent agent_class =
     (let expected = trim agent_class
      in expected = [] \<or> ag_kind agent = expected \<or> ag_agent_role agent = expected)"

section \<open>Tools and connectors\<close>

definition json_string_array_contains :: "json option \<Rightarrow> string \<Rightarrow> bool" where
  "json_string_array_contains v expected =
     is_some_and (Option.bind v as_array)
       (list_ex (\<lambda>item. is_some_and (as_str item) (\<lambda>s. s = ''*'' \<or> s = expected)))"

definition json_optional_string_array_contains :: "json option \<Rightarrow> string \<Rightarrow> bool" where
  "json_optional_string_array_contains v expected =
     (case Option.bind v as_array of
        Some items \<Rightarrow> list_ex (\<lambda>item. as_str item = Some expected) items
      | None \<Rightarrow> True)"

definition task_grant_allows_tool :: "task_grant \<Rightarrow> string \<Rightarrow> bool" where
  "task_grant_allows_tool grant tool_name =
     list_ex (\<lambda>key. json_string_array_contains (jget (tg_tool_scope grant) key) tool_name)
       [''read'', ''write'', ''external_write'']"

definition task_grant_allows_side_effect_class :: "task_grant \<Rightarrow> string \<Rightarrow> bool" where
  "task_grant_allows_side_effect_class grant side_effect_class \<longleftrightarrow>
     json_string_array_contains (jget (tg_connector_scope grant) ''side_effect_classes'') side_effect_class
     \<and> jget_bool (tg_external_effects grant) side_effect_class = Some True"

text \<open>
  The trimmed non-empty text under the first key that is present, the shape in which the
  connector arguments are read.
\<close>

definition arg_text :: "json \<Rightarrow> string list \<Rightarrow> string option" where
  "arg_text args keys = trimmed_text (Option.bind (jget_any args keys) as_str)"

record mcp_call_request =
  mc_server :: string
  mc_tool :: string
  mc_args :: json

text \<open>
  The derived deserialisation: an object with the string fields \<open>server\<close> and \<open>tool\<close> and
  optionally \<open>args\<close>, or the array of the fields in order. The text of its errors is serde's;
  the model keeps the status only.
\<close>

definition mcp_call_request_of :: "json \<Rightarrow> mcp_call_request res" where
  "mcp_call_request_of v =
     (case v of
        JArr [JStr server, JStr tool] \<Rightarrow>
          Inr \<lparr>mc_server = server, mc_tool = tool, mc_args = JNull\<rparr>
      | JArr [JStr server, JStr tool, args] \<Rightarrow>
          Inr \<lparr>mc_server = server, mc_tool = tool, mc_args = args\<rparr>
      | _ \<Rightarrow>
         (case (jget_str v ''server'', jget_str v ''tool'') of
            (Some server, Some tool) \<Rightarrow>
              Inr \<lparr>mc_server = server, mc_tool = tool, mc_args = unwrap_or (jget v ''args'') JNull\<rparr>
          | _ \<Rightarrow> Inl (bad_request ''invalid MCP call request'')))"

definition task_grant_mcp_call_denial :: "task_grant \<Rightarrow> json \<Rightarrow> string option res" where
  "task_grant_mcp_call_denial grant args =
     bindr (mcp_call_request_of args) (\<lambda>request.
       let server = trim (mc_server request); tool = trim (mc_tool request);
           mode = unwrap_or (jget_str (tg_connector_scope grant) ''mode'') []
       in if server = [] \<or> tool = []
          then Inr (Some ''task grant connector scope requires MCP server and tool'')
          else if mode \<notin> {''read_only'', ''draft_write'', ''commit_write''}
          then Inr (Some ''task grant connector scope does not allow MCP call mode'')
          else if \<not> json_string_array_contains
                     (jget (tg_connector_scope grant) ''allowed_connector_ids'') server
          then Inr (Some ''task grant connector scope does not allow MCP server'')
          else if \<not> json_string_array_contains
                     (jget (tg_connector_scope grant) ''allowed_tool_names'') tool
          then Inr (Some ''task grant connector scope does not allow MCP tool'')
          else (case arg_text (mc_args request) [''side_effect_class''] of
                  Some side_effect_class \<Rightarrow>
                    if \<not> task_grant_allows_side_effect_class grant side_effect_class
                    then Inr (Some (''task grant side effect class '' @ side_effect_class
                                    @ '' is not allowed''))
                    else Inr None
                | None \<Rightarrow> Inr None))"

definition native_connector_invocation_requested :: "string \<Rightarrow> json \<Rightarrow> bool" where
  "native_connector_invocation_requested tool_name args \<longleftrightarrow>
     tool_name = ''native.connector.call'' \<or> jget args ''connector_id'' \<noteq> None
     \<or> jget args ''connector'' \<noteq> None"

record native_connector_call_target =
  nc_connector_id :: string
  nc_operation :: string
  nc_side_effect_class :: string

definition native_connector_call_target :: "json \<Rightarrow> native_connector_call_target res" where
  "native_connector_call_target args =
     bindr (guardr (is_object args) (bad_request ''native connector args must be a JSON object'')) (\<lambda>_.
     bindr (ok_or (bad_request ''native connector call requires connector_id'')
       (arg_text args [''connector_id'', ''connector''])) (\<lambda>connector_id.
     bindr (ok_or (bad_request ''native connector call requires operation'')
       (arg_text args [''operation'', ''tool'', ''action''])) (\<lambda>operation.
     bindr (ok_or (bad_request ''native connector call requires side_effect_class'')
       (arg_text args [''side_effect_class''])) (\<lambda>side_effect_class.
       Inr \<lparr>nc_connector_id = connector_id, nc_operation = operation,
            nc_side_effect_class = side_effect_class\<rparr>))))"

definition binding_matches :: "native_connector_call_target \<Rightarrow> json \<Rightarrow> bool" where
  "binding_matches target binding \<longleftrightarrow>
     jget_str binding ''connector_id'' = Some (nc_connector_id target)
     \<and> jget_str binding ''operation'' = Some (nc_operation target)
     \<and> jget_str binding ''side_effect_class'' = Some (nc_side_effect_class target)"

text \<open>\<open>binding_allowed\<close>; without bindings in the scope nothing is refused here.\<close>

definition native_binding_allowed :: "task_grant \<Rightarrow> native_connector_call_target \<Rightarrow> bool res" where
  "native_binding_allowed grant target =
     (case jget (tg_connector_scope grant) ''native_operation_bindings'' of
        None \<Rightarrow> Inr True
      | Some bindings \<Rightarrow>
          bindr (ok_or (bad_request
                   ''task grant connector scope native_operation_bindings must be an array'')
                   (as_array bindings))
            (\<lambda>bs. Inr (list_ex (binding_matches target) bs)))"

definition native_target_denial :: "task_grant \<Rightarrow> string \<Rightarrow> native_connector_call_target \<Rightarrow> string option res" where
  "native_target_denial grant tool_name target =
     (if unwrap_or (jget_str (tg_connector_scope grant) ''mode'') [] \<noteq> ''commit_write''
      then Inr (Some ''native connector side effects require commit_write connector scope'')
      else bindr (native_binding_allowed grant target) (\<lambda>binding_allowed.
        if \<not> binding_allowed
        then Inr (Some ''task grant connector scope does not allow native connector operation binding'')
        else if \<not> json_string_array_contains
                   (jget (tg_connector_scope grant) ''allowed_connector_ids'') (nc_connector_id target)
        then Inr (Some ''task grant connector scope does not allow native connector id'')
        else if \<not> json_string_array_contains
                   (jget (tg_connector_scope grant) ''allowed_tool_names'') (nc_operation target)
                \<and> \<not> json_string_array_contains
                   (jget (tg_connector_scope grant) ''allowed_tool_names'') tool_name
        then Inr (Some ''task grant connector scope does not allow native connector operation'')
        else if \<not> task_grant_allows_side_effect_class grant (nc_side_effect_class target)
        then Inr (Some (''task grant side effect class '' @ nc_side_effect_class target
                        @ '' is not allowed''))
        else Inr None))"

definition task_grant_connector_invocation_denial
    :: "task_grant \<Rightarrow> string \<Rightarrow> json \<Rightarrow> string option res" where
  "task_grant_connector_invocation_denial grant tool_name args =
     (if tool_name = ''mcp.call'' then task_grant_mcp_call_denial grant args
      else if \<not> native_connector_invocation_requested tool_name args then Inr None
      else bindr (native_connector_call_target args) (native_target_denial grant tool_name))"

section \<open>Scopes of a delegated child (session_handoff_runtime.rs)\<close>

definition child_handoff_memory_scope :: "json \<Rightarrow> json" where
  "child_handoff_memory_scope parent =
     (case parent of
        JObj m \<Rightarrow> if obj_contains ''writeback_allowed'' m
                  then JObj (obj_insert ''writeback_allowed'' (JBool False) m) else parent
      | _ \<Rightarrow> parent)"

text \<open>
  The tool names of the agent form a hash set; \<open>set_iter\<close> is the order in which it yields
  them.
\<close>

definition child_scope_tools :: "(string list \<Rightarrow> string list) \<Rightarrow> string list \<Rightarrow> json \<Rightarrow> json list" where
  "child_scope_tools set_iter tools items =
     map JStr (concat (map (\<lambda>tool.
         if tool = ''*'' then set_iter tools
         else if tool \<in> set tools then [tool] else [])
       (filter_map as_str (unwrap_or (as_array items) []))))"

definition child_tool_scope_for_tools :: "(string list \<Rightarrow> string list) \<Rightarrow> json \<Rightarrow> string list \<Rightarrow> json" where
  "child_tool_scope_for_tools set_iter parent tools =
     mk_obj (map (\<lambda>key. (key, JArr (case jget parent key of
                None \<Rightarrow> [] | Some items \<Rightarrow> child_scope_tools set_iter tools items)))
       [''read'', ''write'', ''external_write''])"

definition insert_all :: "(string \<times> json) list \<Rightarrow> json \<Rightarrow> json" where
  "insert_all kvs v =
     (case v of JObj m \<Rightarrow> JObj (foldl (\<lambda>m kv. obj_insert (fst kv) (snd kv) m) m kvs) | _ \<Rightarrow> v)"

definition deny_child_native_connector_scope :: "json \<Rightarrow> json \<Rightarrow> json \<times> json" where
  "deny_child_native_connector_scope parent_connector_scope parent_external_effects =
     (let cleared = insert_all
            [(''allowed_connector_ids'', JArr []), (''allowed_tool_names'', JArr []),
             (''side_effect_classes'', JArr [])] parent_connector_scope
      in (if jget parent_connector_scope ''native_operation_bindings'' \<noteq> None
          then insert_all [(''native_operation_bindings'', JArr [])] cleared else cleared,
          case as_object parent_external_effects of
            Some effects \<Rightarrow> mk_obj (map (\<lambda>kv. (fst kv, JBool False)) effects)
          | None \<Rightarrow> empty_json_object))"

definition native_operation_bindings :: "json \<Rightarrow> json list option res" where
  "native_operation_bindings scope =
     (case jget scope ''native_operation_bindings'' of
        None \<Rightarrow> Inr None
      | Some bindings \<Rightarrow>
          bindr (ok_or (bad_request ''connector_scope native_operation_bindings must be an array'')
                  (as_array bindings)) (\<lambda>bs. Inr (Some bs)))"

definition native_operation_binding_within_scope :: "json \<Rightarrow> json \<Rightarrow> bool" where
  "native_operation_binding_within_scope binding scope =
     (case (jget_str binding ''connector_id'', jget_str binding ''operation'',
            jget_str binding ''side_effect_class'') of
        (Some connector_id, Some operation, Some side_effect_class) \<Rightarrow>
          json_string_array_contains (jget scope ''allowed_connector_ids'') connector_id
          \<and> json_string_array_contains (jget scope ''allowed_tool_names'') operation
          \<and> json_string_array_contains (jget scope ''side_effect_classes'') side_effect_class
      | _ \<Rightarrow> False)"

definition intersect_external_effects :: "json \<Rightarrow> json \<Rightarrow> string list \<Rightarrow> json res" where
  "intersect_external_effects parent agent allowed_side_effects =
     bindr (ok_or (bad_request ''parent external_effects must be an object'') (as_object parent)) (\<lambda>effects.
       Inr (mk_obj (map (\<lambda>kv. (fst kv, JBool (
         as_bool (snd kv) = Some True \<and> fst kv \<in> set allowed_side_effects
         \<and> jget_bool agent (fst kv) = Some True))) effects)))"

text \<open>The string values under a key, as an ordered set.\<close>

definition binding_values :: "string \<Rightarrow> json list \<Rightarrow> string list" where
  "binding_values key bindings = sort (remdups (filter_map (\<lambda>b. jget_str b key) bindings))"

definition retained_native_bindings :: "json \<Rightarrow> json \<Rightarrow> json list option \<Rightarrow> json list option \<Rightarrow> json list" where
  "retained_native_bindings parent_scope agent_scope parent_bindings agent_bindings =
     (case (parent_bindings, agent_bindings) of
        (Some parent, Some agent) \<Rightarrow>
          filter (\<lambda>binding. binding \<in> set parent
            \<and> native_operation_binding_within_scope binding parent_scope
            \<and> native_operation_binding_within_scope binding agent_scope) agent
      | _ \<Rightarrow> [])"

definition narrowed_tenant_scope :: "json \<Rightarrow> json \<Rightarrow> (string \<times> json) list" where
  "narrowed_tenant_scope parent_connector_scope agent_connector_scope =
     (case (jget parent_connector_scope ''tenant_scope'', jget agent_connector_scope ''tenant_scope'') of
        (Some parent_tenant_scope, Some agent_tenant_scope) \<Rightarrow>
          if is_some_and (as_object agent_tenant_scope) (\<lambda>scope. scope \<noteq> [])
             \<and> json_scope_contains parent_tenant_scope agent_tenant_scope
          then [(''tenant_scope'', agent_tenant_scope)] else []
      | _ \<Rightarrow> [])"

definition child_connector_scopes_for_agent_version
    :: "json \<Rightarrow> json \<Rightarrow> agent_version \<Rightarrow> (json \<times> json) res" where
  "child_connector_scopes_for_agent_version parent_scope parent_effects version =
     (if ''native.connector.call'' \<notin> set (av_tools version)
      then Inr (parent_scope, parent_effects)
      else case jget (av_approval_policy version) ''connector_scope'' of
        None \<Rightarrow> Inr (deny_child_native_connector_scope parent_scope parent_effects)
      | Some agent_scope \<Rightarrow>
          if \<not> is_object agent_scope
          then Inl (bad_request ''agent version connector_scope policy must be an object'')
          else if jget_str agent_scope ''mode'' \<noteq> Some ''commit_write''
          then Inr (deny_child_native_connector_scope parent_scope parent_effects)
          else
            let agent_effects = unwrap_or (jget (av_approval_policy version) ''external_effects'') JNull in
            if agent_effects \<noteq> JNull \<and> \<not> is_object agent_effects
            then Inl (bad_request ''agent version external_effects policy must be an object'')
            else bindr (guardr (is_object parent_scope)
                   (bad_request ''parent task grant connector_scope must be an object'')) (\<lambda>_.
              bindr (native_operation_bindings parent_scope) (\<lambda>parent_bindings.
              bindr (native_operation_bindings agent_scope) (\<lambda>agent_bindings.
                let retained = retained_native_bindings parent_scope agent_scope
                                 parent_bindings agent_bindings;
                    classes = binding_values ''side_effect_class'' retained;
                    child = insert_all
                      ([(''allowed_connector_ids'', json_strs (binding_values ''connector_id'' retained)),
                        (''allowed_tool_names'', json_strs (binding_values ''operation'' retained)),
                        (''side_effect_classes'', json_strs classes)]
                       @ (if parent_bindings \<noteq> None
                          then [(''native_operation_bindings'', JArr retained)] else [])
                       @ narrowed_tenant_scope parent_scope agent_scope) parent_scope
                in bindr (intersect_external_effects parent_effects agent_effects classes)
                     (\<lambda>effects. Inr (child, effects))))))"

end
