(* ===== verification/Exec_Queue.thy ===== *)
theory Exec_Queue
  imports Json
begin

text \<open>
  The queue of tool executions (execution_queue.rs, memory backend): a list of jobs, each of them
  claimed by a worker under a lease and a claim generation, committed to execution, finalized and
  completed, failed, queued again or cancelled. Every operation holds the write lock and
  may read the clock at several places; \<open>now k\<close> is the reading at the place number \<open>k\<close> of its
  text. Claim generations (\<open>i64\<close>) and
  attempt counts (\<open>i32\<close>) grow by one per claim and are unbounded integers here.
\<close>

section \<open>Jobs\<close>

datatype execution_job_status = XQueued | XRunning | XExecuting | XFinalizing | XCancelRequested
  | XCompleted | XFailed | XOutcomeUnknown | XCanceled

fun execution_job_status_as_str :: "execution_job_status \<Rightarrow> string" where
  "execution_job_status_as_str XQueued = ''queued''"
| "execution_job_status_as_str XRunning = ''running''"
| "execution_job_status_as_str XExecuting = ''executing''"
| "execution_job_status_as_str XFinalizing = ''finalizing''"
| "execution_job_status_as_str XCancelRequested = ''cancel_requested''"
| "execution_job_status_as_str XCompleted = ''completed''"
| "execution_job_status_as_str XFailed = ''failed''"
| "execution_job_status_as_str XOutcomeUnknown = ''outcome_unknown''"
| "execution_job_status_as_str XCanceled = ''canceled''"

definition execution_job_status_from_str :: "string \<Rightarrow> string + execution_job_status" where
  "execution_job_status_from_str value =
     (if value = ''queued'' then Inr XQueued
      else if value = ''running'' then Inr XRunning
      else if value = ''executing'' then Inr XExecuting
      else if value = ''finalizing'' then Inr XFinalizing
      else if value = ''cancel_requested'' then Inr XCancelRequested
      else if value = ''completed'' then Inr XCompleted
      else if value = ''failed'' then Inr XFailed
      else if value = ''outcome_unknown'' then Inr XOutcomeUnknown
      else if value = ''canceled'' \<or> value = ''cancelled'' then Inr XCanceled
      else Inl ''unknown execution job status'')"

record execution_job =
  xj_id :: uuid
  xj_session_id :: uuid
  xj_environment_id :: "uuid option"
  xj_approval_id :: uuid
  xj_tool_call_id :: uuid
  xj_tool_name :: string
  xj_status :: execution_job_status
  xj_enqueued_at :: timestamp
  xj_started_at :: "timestamp option"
  xj_completed_at :: "timestamp option"
  xj_worker_id :: "string option"
  xj_lease_expires_at :: "timestamp option"
  xj_claim_generation :: int
  xj_finalization_details :: json
  xj_attempt_count :: int
  xj_max_attempts :: int
  xj_last_error :: "string option"

record execution_job_request =
  xr_session_id :: uuid
  xr_environment_id :: "uuid option"
  xr_approval_id :: uuid
  xr_tool_call_id :: uuid
  xr_tool_name :: string
  xr_max_attempts :: "int option"

text \<open>\<open>str::parse::<i32>\<close>: an optional sign and digits, in range.\<close>

definition parse_i32 :: "string \<Rightarrow> int option" where
  "parse_i32 s =
     (let (sign, ds) = (case s of
            c # cs \<Rightarrow> if c = CHR ''-'' then (- 1, cs) else if c = CHR ''+'' then (1, cs) else (1, s)
          | [] \<Rightarrow> (1, []));
          n = sign * int (foldl (\<lambda>n c. 10 * n + (byte c - 48)) 0 ds)
      in if ds \<noteq> [] \<and> list_all is_ascii_digit ds then checked_i32 n else None)"

definition default_execution_job_max_attempts :: "string option \<Rightarrow> int" where
  "default_execution_job_max_attempts variable =
     unwrap_or (Option.bind variable (\<lambda>value. parse_i32 (trim value))) 3"

definition new_execution_job :: "string option \<Rightarrow> uuid \<Rightarrow> timestamp \<Rightarrow> execution_job_request \<Rightarrow> execution_job" where
  "new_execution_job variable i now r =
     (let max_attempts = max 1 (min 10
            (unwrap_or (xr_max_attempts r) (default_execution_job_max_attempts variable)))
      in \<lparr>xj_id = i, xj_session_id = xr_session_id r, xj_environment_id = xr_environment_id r,
          xj_approval_id = xr_approval_id r, xj_tool_call_id = xr_tool_call_id r,
          xj_tool_name = xr_tool_name r, xj_status = XQueued, xj_enqueued_at = now,
          xj_started_at = None, xj_completed_at = None, xj_worker_id = None,
          xj_lease_expires_at = None, xj_claim_generation = 0, xj_finalization_details = mk_obj [],
          xj_attempt_count = 0, xj_max_attempts = max_attempts, xj_last_error = None\<rparr>)"

definition validate_execution_lease_seconds :: "int \<Rightarrow> unit res" where
  "validate_execution_lease_seconds lease_seconds =
     guardr (1 \<le> lease_seconds \<and> lease_seconds \<le> 86400)
       (bad_request ''execution job lease_seconds must be between 1 and 86400'')"

definition execution_pending_for_model :: "execution_job \<Rightarrow> bool" where
  "execution_pending_for_model job \<longleftrightarrow>
     xj_status job \<notin> {XCompleted, XFailed, XCanceled}
     \<or> as_str (jindex (xj_finalization_details job) ''stage'')
         \<in> {Some ''completion_pending'', Some ''failure_pending''}"

section \<open>The memory queue\<close>

type_synonym exec_queue = "execution_job list"
type_synonym readings = "nat \<Rightarrow> timestamp"
type_synonym queue_op = "exec_queue \<Rightarrow> execution_job res \<times> exec_queue"

text \<open>\<open>iter_mut().find(p).ok_or(not_found)\<close>, then an update of the job found.\<close>

fun update_first :: "('a \<Rightarrow> bool) \<Rightarrow> ('a \<Rightarrow> 'a) \<Rightarrow> 'a list \<Rightarrow> ('a \<times> 'a list) option" where
  "update_first p f [] = None"
| "update_first p f (x # xs) =
     (if p x then Some (f x, f x # xs)
      else map_option (\<lambda>(y, ys). (y, x # ys)) (update_first p f xs))"

definition job_missing :: app_error where
  "job_missing = not_found ''execution job not found''"

definition with_job :: "(execution_job \<Rightarrow> bool) \<Rightarrow> (execution_job \<Rightarrow> execution_job) \<Rightarrow> queue_op" where
  "with_job p f q = (case update_first p f q of None \<Rightarrow> (Inl job_missing, q) | Some (job, q') \<Rightarrow> (Inr job, q'))"

abbreviation five_minutes :: int where "five_minutes \<equiv> 300"

definition lease_live :: "timestamp \<Rightarrow> execution_job \<Rightarrow> bool" where
  "lease_live now job \<longleftrightarrow> is_some_and (xj_lease_expires_at job) (\<lambda>t. t > now)"

definition lease_over :: "timestamp \<Rightarrow> execution_job \<Rightarrow> bool" where
  "lease_over now job \<longleftrightarrow> is_none_or (xj_lease_expires_at job) (\<lambda>t. t \<le> now)"

definition claimed_by :: "uuid \<Rightarrow> string \<Rightarrow> int \<Rightarrow> timestamp \<Rightarrow> execution_job \<Rightarrow> bool" where
  "claimed_by job_id worker_id generation now job \<longleftrightarrow>
     xj_id job = job_id \<and> xj_worker_id job = Some worker_id
     \<and> xj_claim_generation job = generation \<and> lease_live now job"

definition stage :: "execution_job \<Rightarrow> string option" where
  "stage job = as_str (jindex (xj_finalization_details job) ''stage'')"

definition at_stage :: "string \<Rightarrow> json" where
  "at_stage s = mk_obj [(''stage'', JStr s)]"

definition queue_enqueue :: "string option \<Rightarrow> uuid \<Rightarrow> readings \<Rightarrow> execution_job_request \<Rightarrow> queue_op" where
  "queue_enqueue variable i now r q =
     (let job = new_execution_job variable i (now 0) r in (Inr job, q @ [job]))"

text \<open>
  \<open>update\<close>, shared by \<open>start\<close>, \<open>complete\<close> and \<open>fail\<close>: the status of the first job with the
  identifier is set; a start needs a queued job or an expired claim.
\<close>

definition apply_status :: "readings \<Rightarrow> execution_job_status \<Rightarrow> string option \<Rightarrow> execution_job \<Rightarrow> execution_job" where
  "apply_status now status worker_id job =
     (case status of
        XRunning \<Rightarrow> job\<lparr>xj_status := XRunning, xj_started_at := Some (now 1), xj_worker_id := worker_id,
          xj_lease_expires_at := Some (plus_seconds (now 2) five_minutes),
          xj_claim_generation := xj_claim_generation job + 1,
          xj_attempt_count := xj_attempt_count job + 1, xj_last_error := None,
          xj_finalization_details := mk_obj []\<rparr>
      | XQueued \<Rightarrow> job\<lparr>xj_status := XQueued, xj_started_at := None, xj_completed_at := None,
          xj_worker_id := None, xj_lease_expires_at := None\<rparr>
      | XExecuting \<Rightarrow> job\<lparr>xj_status := XExecuting\<rparr>
      | XFinalizing \<Rightarrow> job\<lparr>xj_status := XFinalizing\<rparr>
      | XCancelRequested \<Rightarrow> job\<lparr>xj_status := XCancelRequested\<rparr>
      | _ \<Rightarrow> job\<lparr>xj_status := status, xj_completed_at := Some (now 1), xj_lease_expires_at := None\<rparr>)"

definition startable :: "timestamp \<Rightarrow> execution_job \<Rightarrow> bool" where
  "startable now job \<longleftrightarrow> xj_status job = XQueued \<or> (xj_status job = XRunning \<and> lease_over now job)"

definition queue_update :: "readings \<Rightarrow> uuid \<Rightarrow> execution_job_status \<Rightarrow> string option \<Rightarrow> queue_op" where
  "queue_update now job_id status worker_id q =
     (case find_first (\<lambda>job. xj_id job = job_id) q of
        None \<Rightarrow> (Inl job_missing, q)
      | Some job \<Rightarrow>
          if status = XRunning \<and> \<not> startable (now 0) job then (Inl job_missing, q)
          else (let (r, q') = with_job (\<lambda>job. xj_id job = job_id) (apply_status now status worker_id) q
                in if status \<in> {XExecuting, XFinalizing}
                   then (Inl (bad_request ''unsupported execution job transition''), q')
                   else (r, q')))"

definition queue_start :: "readings \<Rightarrow> uuid \<Rightarrow> string \<Rightarrow> queue_op" where
  "queue_start now job_id worker_id = queue_update now job_id XRunning (Some worker_id)"

definition queue_complete :: "readings \<Rightarrow> uuid \<Rightarrow> queue_op" where
  "queue_complete now job_id = queue_update now job_id XCompleted None"

definition queue_fail :: "readings \<Rightarrow> uuid \<Rightarrow> queue_op" where
  "queue_fail now job_id = queue_update now job_id XFailed None"

definition begin_executing_started :: "readings \<Rightarrow> uuid \<Rightarrow> string \<Rightarrow> int \<Rightarrow> queue_op" where
  "begin_executing_started now job_id worker_id generation =
     with_job (\<lambda>job. claimed_by job_id worker_id generation (now 0) job \<and> xj_status job = XRunning)
       (\<lambda>job. job\<lparr>xj_status := XExecuting\<rparr>)"

definition mark_outcome_unknown_started :: "readings \<Rightarrow> uuid \<Rightarrow> string \<Rightarrow> int \<Rightarrow> string \<Rightarrow> queue_op" where
  "mark_outcome_unknown_started now job_id worker_id generation error =
     with_job (\<lambda>job. claimed_by job_id worker_id generation (now 0) job \<and> xj_status job = XExecuting)
       (\<lambda>job. job\<lparr>xj_status := XOutcomeUnknown, xj_completed_at := Some (now 0),
                 xj_lease_expires_at := None, xj_last_error := Some error\<rparr>)"

definition begin_finalizing_started
    :: "readings \<Rightarrow> uuid \<Rightarrow> string \<Rightarrow> int \<Rightarrow> string option \<Rightarrow> json \<Rightarrow> queue_op" where
  "begin_finalizing_started now job_id worker_id generation error details =
     with_job (\<lambda>job. claimed_by job_id worker_id generation (now 0) job
         \<and> (xj_status job = XExecuting \<or> (error \<noteq> None \<and> xj_status job = XRunning)))
       (\<lambda>job. job\<lparr>xj_status := XFinalizing, xj_last_error := error, xj_finalization_details := details\<rparr>)"

definition resume_finalizing :: "readings \<Rightarrow> uuid \<Rightarrow> string \<Rightarrow> queue_op" where
  "resume_finalizing now job_id worker_id =
     with_job (\<lambda>job. xj_id job = job_id \<and> xj_status job = XFinalizing \<and> lease_over (now 0) job)
       (\<lambda>job. job\<lparr>xj_worker_id := Some worker_id,
                 xj_lease_expires_at := Some (plus_seconds (now 0) five_minutes),
                 xj_claim_generation := xj_claim_generation job + 1\<rparr>)"

definition recover_expired_executing
    :: "readings \<Rightarrow> uuid \<Rightarrow> string \<Rightarrow> string option \<Rightarrow> json \<Rightarrow> queue_op" where
  "recover_expired_executing now job_id worker_id error details =
     with_job (\<lambda>job. xj_id job = job_id \<and> xj_status job = XExecuting \<and> lease_over (now 0) job)
       (\<lambda>job. job\<lparr>xj_status := XFinalizing, xj_worker_id := Some worker_id,
                 xj_lease_expires_at := Some (plus_seconds (now 0) five_minutes),
                 xj_claim_generation := xj_claim_generation job + 1,
                 xj_last_error := error, xj_finalization_details := details\<rparr>)"

definition finished_job :: "timestamp \<Rightarrow> bool \<Rightarrow> execution_job \<Rightarrow> execution_job" where
  "finished_job now retryable_failure job =
     (if xj_last_error job = None
      then job\<lparr>xj_status := XCompleted, xj_completed_at := Some now\<rparr>
      else if retryable_failure \<and> xj_attempt_count job < xj_max_attempts job
      then job\<lparr>xj_status := XQueued, xj_started_at := None, xj_completed_at := None, xj_worker_id := None\<rparr>
      else job\<lparr>xj_status := XFailed, xj_completed_at := Some now\<rparr>)\<lparr>xj_lease_expires_at := None\<rparr>"

definition finish_finalizing_started :: "readings \<Rightarrow> uuid \<Rightarrow> string \<Rightarrow> int \<Rightarrow> bool \<Rightarrow> queue_op" where
  "finish_finalizing_started now job_id worker_id generation retryable_failure =
     with_job (\<lambda>job. claimed_by job_id worker_id generation (now 0) job \<and> xj_status job = XFinalizing)
       (finished_job (now 0) retryable_failure)"

definition set_finalizing_failure :: "readings \<Rightarrow> uuid \<Rightarrow> string \<Rightarrow> int \<Rightarrow> string \<Rightarrow> json \<Rightarrow> queue_op" where
  "set_finalizing_failure now job_id worker_id generation error details =
     with_job (\<lambda>job. claimed_by job_id worker_id generation (now 0) job \<and> xj_status job = XFinalizing)
       (\<lambda>job. job\<lparr>xj_last_error := Some error, xj_finalization_details := details\<rparr>)"

definition mark_outcome_unknown_finalizing :: "readings \<Rightarrow> uuid \<Rightarrow> string \<Rightarrow> int \<Rightarrow> string \<Rightarrow> queue_op" where
  "mark_outcome_unknown_finalizing now job_id worker_id generation error =
     with_job (\<lambda>job. claimed_by job_id worker_id generation (now 0) job \<and> xj_status job = XFinalizing
         \<and> stage job = Some ''outcome_reconciliation'')
       (\<lambda>job. job\<lparr>xj_status := XOutcomeUnknown, xj_completed_at := Some (now 0),
                 xj_lease_expires_at := None, xj_last_error := Some error\<rparr>)"

definition prepare_outcome_tail :: "readings \<Rightarrow> uuid \<Rightarrow> string \<Rightarrow> int \<Rightarrow> queue_op" where
  "prepare_outcome_tail now job_id worker_id generation =
     with_job (\<lambda>job. claimed_by job_id worker_id generation (now 0) job \<and> xj_status job = XFinalizing)
       (\<lambda>job. job\<lparr>xj_finalization_details := at_stage
          (if xj_last_error job \<noteq> None then ''failure_pending'' else ''completion_pending'')\<rparr>)"

definition mark_outcome_published :: "uuid \<Rightarrow> queue_op" where
  "mark_outcome_published job_id =
     with_job (\<lambda>job. xj_id job = job_id
         \<and> (xj_status job = XCompleted
              \<and> stage job \<in> {Some ''completion_pending'', Some ''completion_published''}
            \<or> xj_status job = XFailed
              \<and> stage job \<in> {Some ''failure_pending'', Some ''failure_published''}))
       (\<lambda>job. job\<lparr>xj_finalization_details := at_stage
          (if xj_status job = XCompleted then ''completion_published'' else ''failure_published'')\<rparr>)"

definition renew_started :: "readings \<Rightarrow> uuid \<Rightarrow> string \<Rightarrow> int \<Rightarrow> int \<Rightarrow> queue_op" where
  "renew_started now job_id worker_id generation lease_seconds q =
     (case validate_execution_lease_seconds lease_seconds of
        Inl e \<Rightarrow> (Inl e, q)
      | Inr _ \<Rightarrow>
          with_job (\<lambda>job. claimed_by job_id worker_id generation (now 0) job
              \<and> xj_status job \<in> {XRunning, XExecuting, XFinalizing, XCancelRequested})
            (\<lambda>job. job\<lparr>xj_lease_expires_at := Some (plus_seconds (now 1) lease_seconds)\<rparr>) q)"

definition queue_cancel :: "uuid \<Rightarrow> queue_op" where
  "queue_cancel job_id =
     with_job (\<lambda>job. xj_id job = job_id)
       (\<lambda>job. if xj_status job \<in> {XQueued, XRunning}
              then job\<lparr>xj_status := XCancelRequested,
                       xj_finalization_details := at_stage ''cancellation_pending''\<rparr>
              else job)"

definition acknowledge_canceled :: "readings \<Rightarrow> uuid \<Rightarrow> string \<Rightarrow> int \<Rightarrow> queue_op" where
  "acknowledge_canceled now job_id worker_id generation =
     with_job (\<lambda>job. claimed_by job_id worker_id generation (now 0) job
         \<and> xj_status job = XCancelRequested \<and> stage job = Some ''cancellation_cleanup'')
       (\<lambda>job. job\<lparr>xj_status := XCanceled, xj_completed_at := Some (now 0), xj_lease_expires_at := None\<rparr>)"

definition begin_cancellation_cleanup :: "readings \<Rightarrow> uuid \<Rightarrow> string \<Rightarrow> int \<Rightarrow> queue_op" where
  "begin_cancellation_cleanup now job_id worker_id generation =
     with_job (\<lambda>job. claimed_by job_id worker_id generation (now 0) job
         \<and> xj_status job = XCancelRequested \<and> stage job = Some ''cancellation_pending'')
       (\<lambda>job. job\<lparr>xj_claim_generation := xj_claim_generation job + 1,
                 xj_finalization_details := at_stage ''cancellation_cleanup'',
                 xj_lease_expires_at := Some (plus_seconds (now 0) five_minutes)\<rparr>)"

definition claim_cancellation :: "readings \<Rightarrow> uuid \<Rightarrow> string \<Rightarrow> queue_op" where
  "claim_cancellation now job_id worker_id =
     with_job (\<lambda>job. xj_id job = job_id \<and> xj_status job = XCancelRequested \<and> lease_over (now 0) job)
       (\<lambda>job. job\<lparr>xj_worker_id := Some worker_id,
                 xj_lease_expires_at := Some (plus_seconds (now 0) five_minutes),
                 xj_claim_generation := xj_claim_generation job + 1,
                 xj_finalization_details := at_stage ''cancellation_pending''\<rparr>)"

definition retry_or_fail :: "readings \<Rightarrow> uuid \<Rightarrow> string \<Rightarrow> queue_op" where
  "retry_or_fail now job_id error =
     with_job (\<lambda>job. xj_id job = job_id)
       (\<lambda>job. if xj_attempt_count job < xj_max_attempts job
              then job\<lparr>xj_last_error := Some error, xj_status := XQueued, xj_started_at := None,
                       xj_completed_at := None, xj_worker_id := None, xj_lease_expires_at := None\<rparr>
              else job\<lparr>xj_last_error := Some error, xj_status := XFailed,
                       xj_completed_at := Some (now 0), xj_lease_expires_at := None\<rparr>)"

definition queue_list_for_session :: "uuid \<Rightarrow> exec_queue \<Rightarrow> execution_job list" where
  "queue_list_for_session session_id q = filter (\<lambda>job. xj_session_id job = session_id) q"

definition queue_get :: "uuid \<Rightarrow> exec_queue \<Rightarrow> execution_job res" where
  "queue_get job_id q = ok_or job_missing (find_first (\<lambda>job. xj_id job = job_id) q)"

definition lock_owned_claim :: "timestamp \<Rightarrow> uuid \<Rightarrow> string \<Rightarrow> int \<Rightarrow> execution_job_status \<Rightarrow> exec_queue \<Rightarrow> unit res" where
  "lock_owned_claim now job_id worker_id generation status q =
     guardr (list_ex (\<lambda>job. claimed_by job_id worker_id generation now job \<and> xj_status job = status) q)
       (not_found ''execution job claim is no longer owned'')"

end
