(* ===== verification/Semantic_Model.thy ===== *)
theory Semantic_Model
  imports Json
begin

text \<open>
  Semantic memory (types/semantic.rs): sources, objects and the links between entities, and the context
  packets (types/context_packet.rs) that say what an agent may know in a session. The first six fields
  of an object are those the trait \<open>SemanticContextGateObject\<close> reads, both of an object in the store and
  of one in a packet.
\<close>

section \<open>Sources, objects and links (types/semantic.rs)\<close>

record semantic_source =
  sc_id :: uuid
  sc_source_type :: string
  sc_source_uri :: string
  sc_display_name :: string
  sc_owner_type :: "string option"
  sc_owner_id :: "uuid option"
  sc_metadata :: json
  sc_provenance :: json
  sc_freshness :: json
  sc_status :: string
  sc_last_ingested_at :: "timestamp option"
  sc_created_at :: timestamp
  sc_updated_at :: timestamp
  sc_archived_at :: "timestamp option"

record gate_object =
  go_id :: uuid
  go_object_type :: string
  go_object_key :: string
  go_title :: string
  go_trust_level :: string
  go_freshness :: string

record semantic_object = gate_object +
  so_source_id :: "uuid option"
  so_summary :: string
  so_content :: json
  so_semantic_scopes :: json
  so_source_uri :: "string option"
  so_provenance :: json
  so_status :: string
  so_created_at :: timestamp
  so_updated_at :: timestamp
  so_archived_at :: "timestamp option"

text \<open>A confidence is a finite \<open>f64\<close>, represented by its value.\<close>

record semantic_link =
  sl_id :: uuid
  sl_from_entity_type :: string
  sl_from_entity_id :: string
  sl_relation_type :: string
  sl_to_entity_type :: string
  sl_to_entity_id :: string
  sl_metadata :: json
  sl_provenance :: json
  sl_confidence :: rat
  sl_status :: string
  sl_created_at :: timestamp
  sl_updated_at :: timestamp
  sl_archived_at :: "timestamp option"

record create_semantic_source =
  ns_source_type :: string
  ns_source_uri :: string
  ns_display_name :: string
  ns_owner_type :: "string option"
  ns_owner_id :: "uuid option"
  ns_metadata :: json
  ns_provenance :: json
  ns_freshness :: json
  ns_status :: string
  ns_last_ingested_at :: "timestamp option"

record update_semantic_source =
  uc_display_name :: "string option"
  uc_owner_type :: "string option option"
  uc_owner_id :: "uuid option option"
  uc_metadata :: "json option"
  uc_provenance :: "json option"
  uc_freshness :: "json option"
  uc_status :: "string option"
  uc_last_ingested_at :: "timestamp option option"

record create_semantic_object =
  no_source_id :: "uuid option"
  no_object_type :: string
  no_object_key :: string
  no_title :: string
  no_summary :: string
  no_content :: json
  no_semantic_scopes :: json
  no_source_uri :: "string option"
  no_provenance :: json
  no_trust_level :: string
  no_freshness :: string
  no_status :: string

record update_semantic_object =
  uo_title :: "string option"
  uo_summary :: "string option"
  uo_content :: "json option"
  uo_semantic_scopes :: "json option"
  uo_source_uri :: "string option option"
  uo_provenance :: "json option"
  uo_trust_level :: "string option"
  uo_freshness :: "string option"
  uo_status :: "string option"

record create_semantic_link =
  nl_from_entity_type :: string
  nl_from_entity_id :: string
  nl_relation_type :: string
  nl_to_entity_type :: string
  nl_to_entity_id :: string
  nl_metadata :: json
  nl_provenance :: json
  nl_confidence :: rat
  nl_status :: string

record update_semantic_link =
  ul_metadata :: "json option"
  ul_provenance :: "json option"
  ul_confidence :: "rat option"
  ul_status :: "string option"

section \<open>Runs of the onboarding of an ontology (types/ontology.rs)\<close>

record ontology_onboarding_field =
  of_name :: string
  of_field_type :: string
  of_sample_values :: "json list"

record ontology_onboarding_dataset =
  od_table_name :: string
  od_source_system :: string
  od_source_object :: string
  od_fields :: "ontology_onboarding_field list"
  od_rows :: "json list"

text \<open>Rates are finite \<open>f64\<close> numbers, represented by their value.\<close>

record ontology_foreign_key_candidate =
  fk_field :: string
  fk_references_table :: string
  fk_references_field :: string
  fk_join_success_rate :: rat

record ontology_dataset_profile =
  dp_table_name :: string
  dp_row_count :: nat
  dp_primary_key_candidates :: "string list"
  dp_foreign_key_candidates :: "ontology_foreign_key_candidate list"
  dp_enum_candidates :: "string list"
  dp_time_dimensions :: "string list"
  dp_currency_fields :: "string list"
  dp_pii_candidates :: "string list"
  dp_field_null_rates :: json
  dp_field_uniqueness :: json

record ontology_onboarding_run_record =
  or_id :: uuid
  or_industry :: string
  or_source_mode :: string
  or_domain_scope :: string
  or_source_dataset_manifest :: "ontology_onboarding_dataset list option"
  or_source_profiles :: "ontology_dataset_profile list option"
  or_status :: string
  or_dataset_count :: int
  or_profile_count :: int
  or_proposal_count :: int
  or_approved_count :: int
  or_materialized_count :: int
  or_actor_subject :: string
  or_created_at :: timestamp
  or_updated_at :: timestamp

section \<open>Context packets (types/context_packet.rs)\<close>

record context_packet_agent =
  pa_id :: uuid
  pa_name :: string
  pa_kind :: string
  pa_agent_role :: string
  pa_release_state :: string
  pa_tools :: "string list"
  pa_mcp_server_ids :: "uuid list"
  pa_skill_ids :: "string list"
  pa_workflow_pack_ids :: "string list"
  pa_remote_computer_profile :: json

record context_packet_runtime_profile =
  pp_id :: uuid
  pp_name :: string
  pp_runtime_type :: string
  pp_remote_computer_required :: bool
  pp_status :: string

record context_packet_source_ref =
  ps_source_type :: string
  ps_source_id :: string
  ps_freshness :: string

record context_packet_semantic_object = gate_object +
  po_summary :: string
  po_source_id :: "uuid option"
  po_source_uri :: "string option"
  po_semantic_scopes :: json
  po_provenance :: json

record context_packet =
  cp_id :: uuid
  cp_session_id :: uuid
  cp_agent_id :: uuid
  cp_agent_version_id :: "uuid option"
  cp_version :: int
  cp_generated_at :: timestamp
  cp_task :: json
  cp_agent :: context_packet_agent
  cp_runtime_profile :: "context_packet_runtime_profile option"
  cp_semantic_scopes :: json
  cp_tool_policy :: json
  cp_policy_reminders :: "string list"
  cp_freshness_warnings :: "string list"
  cp_source_refs :: "context_packet_source_ref list"
  cp_retrieved_objects :: "context_packet_semantic_object list"
  cp_replay_summary :: json
  cp_audit_trace_id :: "uuid option"
  cp_created_at :: timestamp

record render_context_packet_request =
  rr_max_prompt_tokens :: "nat option"
  rr_max_objects :: "nat option"
  rr_max_summary_chars :: "nat option"
  rr_max_policy_reminders :: "nat option"
  rr_allow_full_content :: "bool option"
  rr_allow_on_demand_fetch :: "bool option"

record rendered_semantic_object =
  ro_id :: uuid
  ro_object_type :: string
  ro_object_key :: string
  ro_title :: string
  ro_summary :: string
  ro_trust_level :: string
  ro_freshness :: string
  ro_source_uri :: "string option"

record rendered_context_omissions =
  om_token_budget_exceeded :: nat
  om_object_limit_exceeded :: nat
  om_policy_reminders_omitted :: nat
  om_source_refs_not_rendered :: nat
  om_full_content_not_rendered :: nat

record rendered_context_budget =
  bg_max_prompt_tokens :: nat
  bg_estimated_tokens_used :: nat
  bg_max_objects :: nat
  bg_max_summary_chars :: nat
  bg_max_policy_reminders :: nat

record rendered_execution_context =
  rx_context_packet_id :: uuid
  rx_session_id :: uuid
  rx_agent_id :: uuid
  rx_context_packet_version :: int
  rx_task :: json
  rx_context_layers :: json
  rx_ontology_scope :: json
  rx_role :: string
  rx_must_follow :: "string list"
  rx_relevant_objects :: "rendered_semantic_object list"
  rx_fetchable_object_ids :: "uuid list"
  rx_omitted :: rendered_context_omissions
  rx_budget :: rendered_context_budget
  rx_available_tools :: "string list"
  rx_full_content_included :: bool

section \<open>Requests on a packet and what they return (types/semantic.rs)\<close>

record fetchable_semantic_object = gate_object +
  fo_summary :: string
  fo_content :: "json option"
  fo_semantic_scopes :: json
  fo_source_uri :: "string option"

record fetch_semantic_object_response =
  fr_context_packet_id :: uuid
  fr_object :: fetchable_semantic_object
  fr_content_included :: bool
  fr_fetch_policy :: json

record search_semantic_objects_request =
  sq_context_packet_id :: uuid
  sq_query :: "string option"
  sq_object_type :: "string option"
  sq_max_results :: "nat option"

record search_semantic_objects_response =
  sp_context_packet_id :: uuid
  sp_boundary :: string
  sp_query :: "string option"
  sp_object_type :: "string option"
  sp_results :: "rendered_semantic_object list"
  sp_omitted :: json

record expand_semantic_links_request =
  lq_context_packet_id :: uuid
  lq_object_id :: uuid
  lq_relation_type :: "string option"
  lq_max_links :: "nat option"

record expand_semantic_links_response =
  lp_context_packet_id :: uuid
  lp_object_id :: uuid
  lp_links :: "semantic_link list"
  lp_omitted :: json

end
