(* ===== verification/World.thy ===== *)
theory World
  imports Grants Exec_Queue Semantic_Model
begin

text \<open>
  The state of the program and the effects of its operations. The state is the in-memory store
  (\<open>MemoryStore\<close>, store_backend.rs), restricted to the tables the workflow runtime reads and
  writes, and the queue of tool executions beside it, with the number of clock readings and of
  identifiers drawn so far. An effect takes a
  state to a result and a state: an operation that fails keeps the changes it made before it
  failed, as the source does. Every store method holds the lock of the store from its first
  read to its last write, so one method is one atomic effect.

  What comes from outside is a constant of type \<open>sys\<close>: the readings of the clock, the fresh
  identifiers, the order in which a hash map yields its entries at a moment, the order in which
  a hash set of names does, and the two settings read from the environment.
\<close>

record sys =
  lib :: ext
  clock :: "nat \<Rightarrow> timestamp"
  uuid_supply :: "nat \<Rightarrow> uuid"
  hash_rank :: "nat \<Rightarrow> uuid \<Rightarrow> nat"
  set_iter :: "string list \<Rightarrow> string list"
  agent_release_enforcement_required :: bool
  configured_agent_release_environment :: "string option"

type_synonym 'a table = "(uuid \<times> 'a) list"

text \<open>
  Of a release, which belongs to a neighbouring subsystem, the workflow runtime reads the agent,
  the status and the environment only. An environment is present with the time it was archived.
\<close>

record agent_release =
  rl_agent_id :: uuid
  rl_environment :: string
  rl_status :: string

record world =
  ticks :: nat
  uuids :: nat
  agents :: "agent table"
  environments :: "timestamp option table"
  agent_releases :: "agent_release table"
  agent_versions :: "agent_version list table"
  sessions :: "session table"
  events :: "session_event list table"
  session_loop_jobs :: "session_loop_job table"
  session_threads :: "session_thread table"
  approvals :: "approval table"
  approval_commit_tokens :: "approval_commit_token table"
  approval_groups :: "approval_group table"
  approval_escalation_rules :: "approval_escalation_rule table"
  tool_calls :: "tool_call table"
  audit_logs :: "audit_log table"
  workflow_definitions :: "workflow_definition table"
  workflow_runs :: "workflow_run table"
  workflow_step_runs :: "workflow_step_run table"
  workflow_transitions :: "workflow_transition table"
  task_grants :: "task_grant table"
  manager_agent_plans :: "manager_agent_plan table"
  agent_handoff_events :: "agent_handoff_event table"
  agent_handoff_assignments :: "agent_handoff_assignment table"
  semantic_sources :: "semantic_source table"
  semantic_objects :: "semantic_object table"
  semantic_links :: "semantic_link table"
  ontology_onboarding_runs :: "ontology_onboarding_run_record table"
  context_packets :: "context_packet table"
  execution_jobs :: exec_queue

section \<open>Keyed tables\<close>

text \<open>The two operations of a hash map the program relies on, and their laws.\<close>

locale keyed_table =
  fixes get :: "'t \<Rightarrow> 'k \<Rightarrow> 'v option" and put :: "'k \<Rightarrow> 'v \<Rightarrow> 't \<Rightarrow> 't"
  assumes get_put_same: "get (put k v t) k = Some v"
    and get_put_other: "k' \<noteq> k \<Longrightarrow> get (put k v t) k' = get t k'"
begin

lemma get_put: "get (put k v t) k' = (if k' = k then Some v else get t k')"
  by (simp add: get_put_same get_put_other)

lemma put_preserves_all:
  assumes "\<And>k v. get t k = Some v \<Longrightarrow> P k v" and "P k v"
  shows "get (put k v t) k' = Some v' \<Longrightarrow> P k' v'"
  using assms by (auto simp: get_put split: if_splits)

lemma put_dom: "{k'. get (put k v t) k' \<noteq> None} = insert k {k'. get t k' \<noteq> None}"
  by (auto simp: get_put)

end

text \<open>\<open>HashMap::get\<close> and \<open>HashMap::insert\<close> (also an entry rewritten through \<open>get_mut\<close>).\<close>

abbreviation tget :: "'a table \<Rightarrow> uuid \<Rightarrow> 'a option" where
  "tget t k \<equiv> map_of t k"

abbreviation tput :: "uuid \<Rightarrow> 'a \<Rightarrow> 'a table \<Rightarrow> 'a table" where
  "tput k v t \<equiv> AList.update k v t"

interpretation store_table: keyed_table tget tput
  by unfold_locales (simp_all add: update_conv')

text \<open>\<open>HashMap::values\<close>, in the order of the moment.\<close>

definition tvalues :: "sys \<Rightarrow> world \<Rightarrow> 'a table \<Rightarrow> 'a list" where
  "tvalues S w t = map snd (sort_key (\<lambda>kv. hash_rank S (ticks w) (fst kv)) t)"

lemma set_tvalues: "set (tvalues S w t) = snd ` set t"
  by (simp add: tvalues_def)

section \<open>Effects\<close>

type_synonym 'a eff = "world \<Rightarrow> 'a res \<times> world"

definition retS :: "'a \<Rightarrow> 'a eff" where "retS x w = (Inr x, w)"
definition failS :: "app_error \<Rightarrow> 'a eff" where "failS e w = (Inl e, w)"
definition liftS :: "'a res \<Rightarrow> 'a eff" where "liftS r w = (r, w)"
definition asks :: "(world \<Rightarrow> 'a) \<Rightarrow> 'a eff" where "asks f w = (Inr (f w), w)"
definition asksr :: "(world \<Rightarrow> 'a res) \<Rightarrow> 'a eff" where "asksr f w = (f w, w)"
definition modifyS :: "(world \<Rightarrow> world) \<Rightarrow> unit eff" where "modifyS f w = (Inr (), f w)"

definition bindS :: "'a eff \<Rightarrow> ('a \<Rightarrow> 'b eff) \<Rightarrow> 'b eff" where
  "bindS m f w = (case m w of (Inl e, w') \<Rightarrow> (Inl e, w') | (Inr x, w') \<Rightarrow> f x w')"

definition thenS :: "'a eff \<Rightarrow> 'b eff \<Rightarrow> 'b eff" where
  "thenS m n = bindS m (\<lambda>_. n)"

text \<open>
  \<open>match m { Ok(x) => .., Err(e) => .. }\<close> with both of them as values,
  \<open>match m { Ok(x) => Ok(x), Err(e) => h(e) }\<close>, and \<open>let _ = m\<close>.
\<close>

definition tryS :: "'a eff \<Rightarrow> 'a res eff" where
  "tryS m w = (case m w of (r, w') \<Rightarrow> (Inr r, w'))"

definition catchS :: "'a eff \<Rightarrow> (app_error \<Rightarrow> 'a eff) \<Rightarrow> 'a eff" where
  "catchS m h w = (case m w of (Inl e, w') \<Rightarrow> h e w' | (Inr x, w') \<Rightarrow> (Inr x, w'))"

definition ignoreS :: "'a eff \<Rightarrow> unit eff" where
  "ignoreS m w = (Inr (), snd (m w))"

fun foreachS :: "('a \<Rightarrow> unit eff) \<Rightarrow> 'a list \<Rightarrow> unit eff" where
  "foreachS f [] = retS ()"
| "foreachS f (x # xs) = thenS (f x) (foreachS f xs)"

fun mapS :: "('a \<Rightarrow> 'b eff) \<Rightarrow> 'a list \<Rightarrow> 'b list eff" where
  "mapS f [] = retS []"
| "mapS f (x # xs) = bindS (f x) (\<lambda>y. bindS (mapS f xs) (\<lambda>ys. retS (y # ys)))"

definition guardS :: "bool \<Rightarrow> app_error \<Rightarrow> unit eff" where
  "guardS ok e = (if ok then retS () else failS e)"

definition whenS :: "bool \<Rightarrow> unit eff \<Rightarrow> unit eff" where
  "whenS b m = (if b then m else retS ())"

definition now_utc :: "sys \<Rightarrow> timestamp eff" where
  "now_utc S w = (Inr (clock S (ticks w)), w\<lparr>ticks := Suc (ticks w)\<rparr>)"

definition new_v4 :: "sys \<Rightarrow> uuid eff" where
  "new_v4 S w = (Inr (uuid_supply S (uuids w)), w\<lparr>uuids := Suc (uuids w)\<rparr>)"

named_theorems eff_simps \<open>unfolding of effects\<close>

lemma eff_simps1 [eff_simps]:
  "retS x w = (Inr x, w)" "failS e w = (Inl e, w)" "liftS r w = (r, w)"
  "asks f w = (Inr (f w), w)" "asksr h w = (h w, w)" "modifyS g w = (Inr (), g w)"
  by (simp_all add: retS_def failS_def liftS_def asks_def asksr_def modifyS_def)

lemma bindS_eq_Inr:
  "bindS m f w = (Inr y, w'') \<longleftrightarrow> (\<exists>x w'. m w = (Inr x, w') \<and> f x w' = (Inr y, w''))"
  by (auto simp: bindS_def split: prod.splits sum.splits)

lemma bindS_eq_Inl:
  "bindS m f w = (Inl e, w'') \<longleftrightarrow>
     m w = (Inl e, w'') \<or> (\<exists>x w'. m w = (Inr x, w') \<and> f x w' = (Inl e, w''))"
  by (auto simp: bindS_def split: prod.splits sum.splits)

lemma effects_eq_Inr:
  "thenS m n w = (Inr y, w'') \<longleftrightarrow> (\<exists>u w'. m w = (Inr u, w') \<and> n w' = (Inr y, w''))"
  "retS x w = (Inr y, w'') \<longleftrightarrow> y = x \<and> w'' = w"
  "failS e w = (Inr y, w'') \<longleftrightarrow> False"
  "liftS r w = (Inr y, w'') \<longleftrightarrow> r = Inr y \<and> w'' = w"
  "asks f w = (Inr y, w'') \<longleftrightarrow> y = f w \<and> w'' = w"
  "asksr h w = (Inr y, w'') \<longleftrightarrow> h w = Inr y \<and> w'' = w"
  "guardS b e w = (Inr u, w'') \<longleftrightarrow> b \<and> w'' = w"
  by (auto simp: thenS_def bindS_eq_Inr eff_simps guardS_def)

lemmas effs_Inr = bindS_eq_Inr effects_eq_Inr

lemma bindS_cong [fundef_cong]:
  assumes "w = w'" and "m w' = m' w'" and "\<And>x v. m' w' = (Inr x, v) \<Longrightarrow> f x v = g x v"
  shows "bindS m f w = bindS m' g w'"
  using assms by (auto simp: bindS_def split: prod.splits sum.splits)

lemma guardS_simps [simp]: "guardS True e = retS ()" "guardS False e = failS e"
  by (simp_all add: guardS_def)

lemma whenS_simps [simp]: "whenS True m = m" "whenS False m = retS ()"
  by (simp_all add: whenS_def)

section \<open>Preserved relations\<close>

text \<open>
  An effect \<open>keeps\<close> a relation between states when every run of it, successful or not,
  relates the state before to the state after. For a reflexive and transitive relation this
  is closed under all the ways effects are put together: the locale \<open>relation_on_worlds\<close>
  proves it once, and each relation of the development that the operations respect
  interprets it.
\<close>

definition keeps :: "(world \<Rightarrow> world \<Rightarrow> bool) \<Rightarrow> 'a eff \<Rightarrow> bool" where
  "keeps R m \<longleftrightarrow> (\<forall>w. R w (snd (m w)))"

lemma keepsD: "keeps R m \<Longrightarrow> m w = (r, w') \<Longrightarrow> R w w'"
  unfolding keeps_def by (metis snd_conv)

locale relation_on_worlds =
  fixes R :: "world \<Rightarrow> world \<Rightarrow> bool"
  assumes R_refl: "R w w" and R_trans: "R u v \<Longrightarrow> R v w \<Longrightarrow> R u w"
begin

lemma resp_pure: "keeps R (retS x)" "keeps R (failS e)" "keeps R (liftS r)"
    "keeps R (asks f)" "keeps R (asksr h)"
  by (simp_all add: keeps_def eff_simps R_refl)

lemma resp_bind: "keeps R m \<Longrightarrow> (\<And>x. keeps R (f x)) \<Longrightarrow> keeps R (bindS m f)"
  unfolding keeps_def bindS_def
  by (auto split: prod.splits sum.splits) (metis snd_conv, metis R_trans snd_conv)

text \<open>What follows may rely on what the first effect returned.\<close>

lemma resp_bind_result:
  assumes "keeps R m" and "\<And>x w w'. m w = (Inr x, w') \<Longrightarrow> keeps R (f x)"
  shows "keeps R (bindS m f)"
  unfolding keeps_def
proof
  fix w
  obtain r w1 where m: "m w = (r, w1)" by fastforce
  have "R w w1" using assms(1) m by (rule keepsD)
  moreover have "R w1 (snd (f x w1))" if "r = Inr x" for x
    using assms(2) m that by (simp add: keeps_def)
  ultimately show "R w (snd (bindS m f w))"
    using m R_trans by (cases r) (auto simp: bindS_def)
qed

lemma resp_then: "keeps R m \<Longrightarrow> keeps R n \<Longrightarrow> keeps R (thenS m n)"
  by (simp add: thenS_def resp_bind)

lemma resp_catch: "keeps R m \<Longrightarrow> (\<And>e. keeps R (h e)) \<Longrightarrow> keeps R (catchS m h)"
  unfolding keeps_def catchS_def
  by (auto split: prod.splits sum.splits) (metis R_trans snd_conv, metis snd_conv)

lemma resp_ignore: "keeps R m \<Longrightarrow> keeps R (ignoreS m)"
  by (simp add: keeps_def ignoreS_def)

lemma resp_guard: "keeps R (guardS b e)"
  by (cases b) (simp_all add: resp_pure)

lemma resp_when: "keeps R m \<Longrightarrow> keeps R (whenS b m)"
  by (cases b) (simp_all add: resp_pure)

lemma resp_foreach: "(\<And>x. keeps R (f x)) \<Longrightarrow> keeps R (foreachS f xs)"
  by (induction xs) (simp_all add: resp_pure resp_then)

lemma resp_map: "(\<And>x. keeps R (f x)) \<Longrightarrow> keeps R (mapS f xs)"
  by (induction xs) (simp_all add: resp_pure resp_bind)

lemma resp_if: "keeps R m \<Longrightarrow> keeps R n \<Longrightarrow> keeps R (if b then m else n)"
  by simp

lemma resp_option:
  "keeps R m \<Longrightarrow> (\<And>x. keeps R (f x)) \<Longrightarrow>
   keeps R (case v of None \<Rightarrow> m | Some x \<Rightarrow> f x)"
  by (cases v) simp_all

lemma resp_modify: "(\<And>w. R w (f w)) \<Longrightarrow> keeps R (modifyS f)"
  by (simp add: keeps_def eff_simps)

lemma resp_prod:
  "(\<And>a b. p = (a, b) \<Longrightarrow> keeps R (f a b)) \<Longrightarrow> keeps R (case p of (a, b) \<Rightarrow> f a b)"
  by (cases p) simp

lemmas resp_intros = resp_prod resp_pure resp_bind resp_then resp_catch resp_ignore resp_guard resp_when
  resp_foreach resp_map resp_if resp_option

end

end
