(* ===== verification/Readiness.thy ===== *)
theory Readiness
  imports Graph
begin

text \<open>
  Which steps of a graph may start (workflow_graph_core.rs): the fan-in policy of a step over
  the statuses of its dependencies, the fan-out limit of a graph, the ready steps, and the
  validation a definition passes before it is stored, which makes them total.
\<close>

section \<open>Fan-in\<close>

text \<open>The map from step key to status that the source collects: the last run of a key wins.\<close>

definition existing_by_key :: "workflow_step_run list \<Rightarrow> string \<Rightarrow> string option" where
  "existing_by_key existing_steps key =
     map_option sr_status (workflow_graph_latest_step existing_steps key)"

definition fan_in_mode_text :: "json \<Rightarrow> string res" where
  "fan_in_mode_text policy =
     (case policy of
        JStr mode \<Rightarrow> Inr mode
      | JObj _ \<Rightarrow> Inr (unwrap_or (Option.bind (jget_any policy [''mode'', ''strategy'']) as_str) ''all'')
      | _ \<Rightarrow> Inl (bad_request ''workflow graph step fan_in must be a string or object''))"

definition workflow_graph_fan_in_mode :: "json \<Rightarrow> string res" where
  "workflow_graph_fan_in_mode graph_step =
     (case jget_any graph_step [''fan_in'', ''join''] of
        None \<Rightarrow> Inr ''all''
      | Some policy \<Rightarrow>
          bindr (fan_in_mode_text policy) (\<lambda>text.
            let mode = to_ascii_lowercase (trim text)
            in if mode \<in> {''all'', ''any'', ''quorum''} then Inr mode
               else Inl (bad_request
                 ''workflow graph step fan_in mode must be all, any, or quorum'')))"

definition workflow_graph_fan_in_min_success :: "json \<Rightarrow> string \<Rightarrow> nat \<Rightarrow> nat res" where
  "workflow_graph_fan_in_min_success graph_step mode dependency_count =
     (if mode = ''all'' then Inr dependency_count
      else if mode = ''any'' then Inr 1
      else bindr (ok_or (bad_request
               ''workflow graph step fan_in quorum requires min_success'')
               (Option.bind (Option.bind (jget graph_step ''fan_in'')
                  (\<lambda>policy. jget_any policy [''min_success'', ''quorum''])) as_u64))
             (\<lambda>n. let min_success = nat n
                  in if min_success = 0 \<or> min_success > dependency_count
                     then Inl (bad_request
                       ''workflow graph step fan_in min_success must be between 1 and dependency count'')
                     else Inr min_success))"

datatype dependency_class = Succeeded | FailedDep | Pending

definition classify_dependency :: "(string \<Rightarrow> string option) \<Rightarrow> string \<Rightarrow> dependency_class" where
  "classify_dependency statuses dependency =
     (case statuses dependency of
        Some status \<Rightarrow>
          if workflow_step_status_successful status then Succeeded
          else if status \<in> {''failed'', ''canceled''} then FailedDep
          else Pending
      | None \<Rightarrow> Pending)"

definition workflow_graph_fan_in_readiness
    :: "json \<Rightarrow> string list \<Rightarrow> (string \<Rightarrow> string option) \<Rightarrow>
        workflow_graph_fan_in_readiness res" where
  "workflow_graph_fan_in_readiness graph_step dependencies statuses =
     bindr (workflow_graph_fan_in_mode graph_step) (\<lambda>mode.
     bindr (workflow_graph_fan_in_min_success graph_step mode (length dependencies)) (\<lambda>min_success.
       Inr \<lparr>fi_mode = mode, fi_min_success = min_success, fi_dependencies = dependencies,
            fi_successful_dependencies =
              filter (\<lambda>d. classify_dependency statuses d = Succeeded) dependencies,
            fi_failed_dependencies =
              filter (\<lambda>d. classify_dependency statuses d = FailedDep) dependencies,
            fi_pending_dependencies =
              filter (\<lambda>d. classify_dependency statuses d = Pending) dependencies\<rparr>))"

definition workflow_graph_fan_in_ready :: "workflow_graph_fan_in_readiness \<Rightarrow> bool" where
  "workflow_graph_fan_in_ready fan_in \<longleftrightarrow>
     fi_min_success fan_in \<le> length (fi_successful_dependencies fan_in)"

definition workflow_graph_fan_in_payload :: "workflow_graph_fan_in_readiness \<Rightarrow> json" where
  "workflow_graph_fan_in_payload fan_in = mk_obj
     [(''mode'', JStr (fi_mode fan_in)),
      (''min_success'', json_nat (fi_min_success fan_in)),
      (''dependencies'', json_strs (fi_dependencies fan_in)),
      (''successful_dependencies'', json_strs (fi_successful_dependencies fan_in)),
      (''failed_dependencies'', json_strs (fi_failed_dependencies fan_in)),
      (''pending_dependencies'', json_strs (fi_pending_dependencies fan_in))]"

section \<open>Fan-out\<close>

definition workflow_graph_fan_out_max_parallel :: "json \<Rightarrow> nat option res" where
  "workflow_graph_fan_out_max_parallel step_graph =
     (case jget_any step_graph [''fan_out'', ''fanout''] of
        None \<Rightarrow> Inr None
      | Some policy \<Rightarrow>
          bindr
            (if is_object policy
             then Inr (Option.bind (jget_any policy [''max_parallel'', ''parallelism'']) as_u64)
             else if is_number policy then Inr (as_u64 policy)
             else Inl (bad_request ''workflow graph fan_out must be an object or positive integer''))
          (\<lambda>limit.
          bindr (ok_or (bad_request ''workflow graph fan_out.max_parallel is required'') limit)
          (\<lambda>max_parallel.
            if max_parallel = 0
            then Inl (bad_request ''workflow graph fan_out.max_parallel must be at least 1'')
            else Inr (Some (nat max_parallel)))))"

definition step_run_active :: "workflow_step_run \<Rightarrow> bool" where
  "step_run_active step \<longleftrightarrow>
     \<not> workflow_step_status_terminal (sr_status step)
     \<and> sr_status step \<in> {''queued'', ''scheduled'', ''running'', ''requires_action''}"

definition workflow_graph_active_parallel_count :: "workflow_step_run list \<Rightarrow> nat" where
  "workflow_graph_active_parallel_count existing_steps =
     length (filter step_run_active existing_steps)"

definition workflow_graph_fan_out_payload :: "nat option \<Rightarrow> nat \<Rightarrow> json" where
  "workflow_graph_fan_out_payload max_parallel active_parallel_count = mk_obj
     [(''max_parallel'', json_opt json_nat max_parallel),
      (''active_parallel_count'', json_nat active_parallel_count)]"

section \<open>Keys and ready steps\<close>

definition workflow_graph_step_keys :: "json \<Rightarrow> string list res" where
  "workflow_graph_step_keys step_graph =
     (case graph_steps step_graph of
        None \<Rightarrow> Inr []
      | Some steps \<Rightarrow>
          bindr (mapr workflow_graph_step_key steps) (\<lambda>keys. Inr (sort (remdups keys))))"

fun find_step_by_key :: "string \<Rightarrow> json list \<Rightarrow> json option res" where
  "find_step_by_key step_key [] = Inr None"
| "find_step_by_key step_key (step # steps) =
     bindr (workflow_graph_step_key step) (\<lambda>key.
       if key = step_key then Inr (Some step) else find_step_by_key step_key steps)"

definition workflow_graph_step_by_key :: "json \<Rightarrow> string \<Rightarrow> json option res" where
  "workflow_graph_step_by_key step_graph step_key =
     (case graph_steps step_graph of
        None \<Rightarrow> Inr None
      | Some steps \<Rightarrow> find_step_by_key step_key steps)"

text \<open>One iteration of the loop over the graph's steps: the ready step, if this one is.\<close>

definition ready_step :: "(string \<Rightarrow> string option) \<Rightarrow> json \<Rightarrow> workflow_graph_ready_step option res" where
  "ready_step statuses graph_step =
     bindr (workflow_graph_step_key graph_step) (\<lambda>key.
       if statuses key \<noteq> None then Inr None
       else bindr (workflow_graph_step_dependencies graph_step) (\<lambda>dependencies.
         if dependencies = [] then Inr None
         else bindr (workflow_graph_fan_in_readiness graph_step dependencies statuses) (\<lambda>fan_in.
           Inr (if workflow_graph_fan_in_ready fan_in
                then Some \<lparr>rs_graph_step = graph_step, rs_fan_in = fan_in\<rparr>
                else None))))"

definition workflow_graph_ready_steps
    :: "json \<Rightarrow> workflow_step_run list \<Rightarrow> workflow_graph_ready_step list res" where
  "workflow_graph_ready_steps step_graph existing_steps =
     (case graph_steps step_graph of
        None \<Rightarrow> Inr []
      | Some steps \<Rightarrow>
          bindr (mapr (ready_step (existing_by_key existing_steps)) steps)
            (\<lambda>ready. Inr (filter_map (\<lambda>r. r) ready)))"

section \<open>Validation\<close>

function (sequential) validate_workflow_graph_condition :: "ext \<Rightarrow> json \<Rightarrow> string list \<Rightarrow> unit res" where
  "validate_workflow_graph_condition X condition step_keys =
     (case jget condition ''all'' of
        Some items \<Rightarrow>
          bindr (condition_items items ''all'') (\<lambda>xs.
          bindr (workflow_graph_condition_array X items [] ''all'') (\<lambda>_.
            foreachr (\<lambda>x. validate_workflow_graph_condition X x step_keys) xs))
      | None \<Rightarrow>
     (case jget condition ''any'' of
        Some items \<Rightarrow>
          bindr (condition_items items ''any'') (\<lambda>xs.
          bindr (workflow_graph_condition_array X items [] ''any'') (\<lambda>_.
            foreachr (\<lambda>x. validate_workflow_graph_condition X x step_keys) xs))
      | None \<Rightarrow>
     (case jget condition ''not'' of
        Some child \<Rightarrow> validate_workflow_graph_condition X child step_keys
      | None \<Rightarrow>
          bindr (condition_source_step_key condition) (\<lambda>source_step.
          if source_step \<notin> set step_keys
          then Inl (bad_request
            (''workflow graph step condition references unknown source_step '' @ source_step))
          else bindr (condition_path condition) (\<lambda>_.
               bindr (workflow_graph_leaf_condition_result X condition JNull) (\<lambda>_. Inr ()))))))"
  by pat_completeness auto
termination
  by (relation "measure (\<lambda>(X, c, k). size c)")
    (auto intro: condition_items_smaller size_jget)

declare validate_workflow_graph_condition.simps [simp del]

text \<open>The first pass: every step is an object with a key of its own.\<close>

fun collect_step_keys :: "json list \<Rightarrow> string list \<Rightarrow> string list res" where
  "collect_step_keys [] keys = Inr keys"
| "collect_step_keys (step # steps) keys =
     (if \<not> is_object step
      then Inl (bad_request ''workflow graph steps must be JSON objects'')
      else bindr (workflow_graph_step_key step) (\<lambda>key.
        if key \<in> set keys
        then Inl (bad_request (''workflow graph step key '' @ key @ '' is duplicated''))
        else collect_step_keys steps (key # keys)))"

text \<open>The second pass: what one step refers to and its policies.\<close>

definition validate_graph_step :: "ext \<Rightarrow> string list \<Rightarrow> json \<Rightarrow> unit res" where
  "validate_graph_step X keys step =
     bindr (workflow_graph_step_key step) (\<lambda>key.
     bindr (workflow_graph_step_dependencies step) (\<lambda>dependencies.
     bindr (guardr (key \<notin> set dependencies)
       (bad_request (''workflow graph step '' @ key @ '' cannot depend on itself''))) (\<lambda>_.
     bindr (foreachr (\<lambda>dependency. guardr (dependency \<in> set keys)
         (bad_request (''workflow graph step '' @ key @ '' depends on unknown step '' @ dependency)))
       dependencies) (\<lambda>_.
     bindr (workflow_graph_step_failure_sources step) (\<lambda>sources.
     bindr (foreachr (\<lambda>source. guardr (source \<in> set keys)
         (bad_request (''workflow graph step '' @ key @ '' references unknown failure source '' @ source)))
       sources) (\<lambda>_.
     bindr (workflow_graph_step_retry_policy step) (\<lambda>_.
     bindr (workflow_graph_fan_in_readiness step dependencies (\<lambda>_. None)) (\<lambda>_.
       case workflow_graph_step_condition step of
         None \<Rightarrow> Inr ()
       | Some condition \<Rightarrow> validate_workflow_graph_condition X condition keys))))))))"

definition validate_workflow_graph_definition :: "ext \<Rightarrow> json \<Rightarrow> unit res" where
  "validate_workflow_graph_definition X step_graph =
     (case jget step_graph ''steps'' of
        None \<Rightarrow> bindr (workflow_graph_fan_out_max_parallel step_graph) (\<lambda>_. Inr ())
      | Some steps_value \<Rightarrow>
          (case as_array steps_value of
             None \<Rightarrow> Inl (bad_request ''workflow graph steps must be an array'')
           | Some steps \<Rightarrow>
               if steps = []
               then Inl (bad_request ''workflow graph steps must not be empty when provided'')
               else
                 bindr (collect_step_keys steps []) (\<lambda>keys.
                 bindr (foreachr (validate_graph_step X keys) steps) (\<lambda>_.
                 bindr (workflow_graph_start_steps step_graph) (\<lambda>starts.
                 bindr (foreachr (\<lambda>start. bindr (workflow_graph_step_key start) (\<lambda>_. Inr ())) starts) (\<lambda>_.
                 bindr (workflow_graph_fan_out_max_parallel step_graph) (\<lambda>_. Inr ())))))))"

section \<open>Fan-in: lemmas\<close>

lemma existing_by_key_snoc:
  "existing_by_key (steps @ [s]) =
     (existing_by_key steps)(sr_step_key s \<mapsto> sr_status s)"
  by (auto simp: existing_by_key_def workflow_graph_latest_step_def fun_eq_iff)

lemma existing_by_key_eq_None:
  "existing_by_key steps key = None \<longleftrightarrow> key \<notin> sr_step_key ` set steps"
  by (auto simp: existing_by_key_def workflow_graph_latest_step_def find_first_eq_None)

text \<open>The mode and the quorum do not depend on the statuses, only on the step.\<close>

definition fan_in_of :: "string \<Rightarrow> nat \<Rightarrow> string list \<Rightarrow> (string \<Rightarrow> string option) \<Rightarrow>
    workflow_graph_fan_in_readiness" where
  "fan_in_of mode m deps statuses =
     \<lparr>fi_mode = mode, fi_min_success = m, fi_dependencies = deps,
      fi_successful_dependencies = filter (\<lambda>d. classify_dependency statuses d = Succeeded) deps,
      fi_failed_dependencies = filter (\<lambda>d. classify_dependency statuses d = FailedDep) deps,
      fi_pending_dependencies = filter (\<lambda>d. classify_dependency statuses d = Pending) deps\<rparr>"

lemma fan_in_readiness_Inr:
  "workflow_graph_fan_in_readiness step deps statuses = Inr fan_in \<longleftrightarrow>
     (\<exists>mode m. workflow_graph_fan_in_mode step = Inr mode
        \<and> workflow_graph_fan_in_min_success step mode (length deps) = Inr m
        \<and> fan_in = fan_in_of mode m deps statuses)"
  by (auto simp: workflow_graph_fan_in_readiness_def bindr_eq_Inr fan_in_of_def)

lemma fan_in_readiness_status_independent:
  "(\<exists>fi. workflow_graph_fan_in_readiness step deps statuses = Inr fi) \<longleftrightarrow>
   (\<exists>fi. workflow_graph_fan_in_readiness step deps statuses' = Inr fi)"
  unfolding fan_in_readiness_Inr by blast

lemma fan_in_mode_cases:
  assumes "workflow_graph_fan_in_mode step = Inr mode"
  shows "mode \<in> {''all'', ''any'', ''quorum''}"
  using assms
  by (auto simp: workflow_graph_fan_in_mode_def Let_def bindr_eq_Inr
      split: option.splits if_splits)

lemma fan_in_min_success_bounds:
  assumes "workflow_graph_fan_in_mode step = Inr mode"
    and "workflow_graph_fan_in_min_success step mode n = Inr m" and "n > 0"
  shows "1 \<le> m \<and> m \<le> n"
  using assms
  by (auto simp: workflow_graph_fan_in_min_success_def Let_def bindr_eq_Inr split: if_splits)

text \<open>The three classes partition the dependencies.\<close>

lemma fan_in_partition:
  assumes "workflow_graph_fan_in_readiness step deps statuses = Inr fi"
  shows "length (fi_successful_dependencies fi) + length (fi_failed_dependencies fi)
           + length (fi_pending_dependencies fi) = length deps"
proof -
  have "length (filter (\<lambda>d. classify_dependency statuses d = Succeeded) ds)
      + length (filter (\<lambda>d. classify_dependency statuses d = FailedDep) ds)
      + length (filter (\<lambda>d. classify_dependency statuses d = Pending) ds) = length ds" for ds
  proof (induction ds)
    case (Cons d ds)
    then show ?case by (cases "classify_dependency statuses d") auto
  qed simp
  with assms show ?thesis by (auto simp: fan_in_readiness_Inr fan_in_of_def)
qed

end
