(* ===== verification/Store.thy ===== *)
theory Store
  imports World Readiness
begin

text \<open>
  The store methods of workflow definitions, runs, step runs, transitions and task grants
  (store_workflows.rs, the in-memory backend), one atomic effect each.
\<close>

section \<open>Definitions and runs\<close>

definition create_workflow_definition :: "workflow_definition \<Rightarrow> workflow_definition eff" where
  "create_workflow_definition d w =
     (Inr d, w\<lparr>workflow_definitions := tput (wd_id d) d (workflow_definitions w)\<rparr>)"

definition list_workflow_definitions :: "sys \<Rightarrow> workflow_definition list eff" where
  "list_workflow_definitions S = asks (\<lambda>w.
     rev (sort_key wd_created_at
       (filter (\<lambda>d. wd_archived_at d = None) (tvalues S w (workflow_definitions w)))))"

definition live_definition :: "world \<Rightarrow> uuid \<Rightarrow> workflow_definition option" where
  "live_definition w i = opt_filter (\<lambda>d. wd_archived_at d = None) (tget (workflow_definitions w) i)"

definition get_workflow_definition :: "uuid \<Rightarrow> workflow_definition eff" where
  "get_workflow_definition i = asksr (\<lambda>w.
     ok_or (not_found ''workflow definition not found'') (live_definition w i))"

definition update_workflow_definition :: "workflow_definition \<Rightarrow> workflow_definition eff" where
  "update_workflow_definition d w =
     (case live_definition w (wd_id d) of
        None \<Rightarrow> (Inl (not_found ''workflow definition not found''), w)
      | Some _ \<Rightarrow> (Inr d, w\<lparr>workflow_definitions := tput (wd_id d) d (workflow_definitions w)\<rparr>))"

definition create_workflow_run :: "workflow_run \<Rightarrow> workflow_run eff" where
  "create_workflow_run run w =
     (Inr run, w\<lparr>workflow_runs := tput (wr_id run) run (workflow_runs w)\<rparr>)"

definition list_workflow_runs :: "sys \<Rightarrow> workflow_run list eff" where
  "list_workflow_runs S = asks (\<lambda>w.
     rev (sort_key wr_created_at (tvalues S w (workflow_runs w))))"

definition get_workflow_run :: "uuid \<Rightarrow> workflow_run eff" where
  "get_workflow_run i = asksr (\<lambda>w.
     ok_or (not_found ''workflow run not found'') (tget (workflow_runs w) i))"

text \<open>An entry rewritten in place: \<open>get_mut\<close>, then \<open>updated_at\<close> from the clock.\<close>

definition modify_run :: "sys \<Rightarrow> uuid \<Rightarrow> (workflow_run \<Rightarrow> workflow_run) \<Rightarrow> workflow_run eff" where
  "modify_run S i f = bindS (get_workflow_run i) (\<lambda>run. bindS (now_utc S) (\<lambda>now w.
     let run' = (f run)\<lparr>wr_updated_at := now\<rparr>
     in (Inr run', w\<lparr>workflow_runs := tput i run' (workflow_runs w)\<rparr>)))"

definition update_workflow_run_root_task_grant :: "sys \<Rightarrow> uuid \<Rightarrow> uuid \<Rightarrow> workflow_run eff" where
  "update_workflow_run_root_task_grant S i root_task_grant_id =
     modify_run S i (\<lambda>run. run\<lparr>wr_root_task_grant_id := Some root_task_grant_id\<rparr>)"

definition update_workflow_run_status
    :: "sys \<Rightarrow> uuid \<Rightarrow> string \<Rightarrow> timestamp option \<Rightarrow> timestamp option \<Rightarrow> workflow_run eff" where
  "update_workflow_run_status S i status started_at completed_at =
     modify_run S i (\<lambda>run. run\<lparr>wr_status := status, wr_started_at := started_at,
                                 wr_completed_at := completed_at\<rparr>)"

section \<open>Step runs\<close>

definition put_step :: "workflow_step_run \<Rightarrow> world \<Rightarrow> world" where
  "put_step step w = w\<lparr>workflow_step_runs := tput (sr_id step) step (workflow_step_runs w)\<rparr>"

definition put_grant :: "task_grant \<Rightarrow> world \<Rightarrow> world" where
  "put_grant grant w = w\<lparr>task_grants := tput (tg_id grant) grant (task_grants w)\<rparr>"

definition run_allows_step_creation :: "world \<Rightarrow> uuid \<Rightarrow> unit res" where
  "run_allows_step_creation w run_id =
     bindr (ok_or (not_found ''workflow run not found'') (tget (workflow_runs w) run_id)) (\<lambda>run.
       guardr (workflow_run_status_allows_step_creation (wr_status run))
         (forbidden ''workflow run is not executable''))"

definition create_workflow_step_run :: "workflow_step_run \<Rightarrow> workflow_step_run eff" where
  "create_workflow_step_run step w =
     (case run_allows_step_creation w (sr_workflow_run_id step) of
        Inl e \<Rightarrow> (Inl e, w)
      | Inr _ \<Rightarrow> (Inr step, put_step step w))"

definition step_key_taken :: "world \<Rightarrow> workflow_step_run \<Rightarrow> bool" where
  "step_key_taken w step =
     list_ex (\<lambda>kv. sr_workflow_run_id (snd kv) = sr_workflow_run_id step
                  \<and> sr_step_key (snd kv) = sr_step_key step) (workflow_step_runs w)"

definition create_workflow_step_run_if_key_absent
    :: "workflow_step_run \<Rightarrow> workflow_step_run option eff" where
  "create_workflow_step_run_if_key_absent step w =
     (case run_allows_step_creation w (sr_workflow_run_id step) of
        Inl e \<Rightarrow> (Inl e, w)
      | Inr _ \<Rightarrow>
          if step_key_taken w step then (Inr None, w)
          else (Inr (Some step), put_step step w))"

text \<open>
  The admission of a child grant, shared by the two operations that insert grants: a parent
  that is refused is marked expired where that is the reason.
\<close>

definition expire_grant :: "timestamp \<Rightarrow> uuid \<Rightarrow> world \<Rightarrow> world" where
  "expire_grant now i w =
     (case tget (task_grants w) i of
        Some stored \<Rightarrow>
          if tg_status stored = ''active''
          then w\<lparr>task_grants := tput i (stored\<lparr>tg_status := ''expired'', tg_updated_at := now\<rparr>) (task_grants w)\<rparr>
          else w
      | None \<Rightarrow> w)"

definition admit_child_grant :: "timestamp \<Rightarrow> task_grant \<Rightarrow> unit eff" where
  "admit_child_grant now grant w =
     (case tg_parent_grant_id grant of
        None \<Rightarrow> (Inr (), w)
      | Some parent_grant_id \<Rightarrow>
          (case tget (task_grants w) parent_grant_id of
             None \<Rightarrow> (Inl (not_found ''task grant parent not found''), w)
           | Some parent \<Rightarrow>
               (case task_grant_runtime_denial parent now of
                  Some (message, expire) \<Rightarrow>
                    (Inl (forbidden message), if expire then expire_grant now parent_grant_id w else w)
                | None \<Rightarrow> (ensure_child_task_grant_within_parent parent grant, w))))"

definition step_grant_reference_check :: "workflow_step_run \<Rightarrow> task_grant \<Rightarrow> unit res" where
  "step_grant_reference_check step grant =
     bindr (validate_task_grant_scope_objects grant) (\<lambda>_.
     bindr (validate_task_grant_budgets grant) (\<lambda>_.
     if tg_status grant \<noteq> ''active''
     then Inl (bad_request ''workflow step task grant must be active'')
     else if tg_workflow_run_id grant \<noteq> sr_workflow_run_id step
             \<or> tg_workflow_step_run_id grant \<noteq> Some (sr_id step)
     then Inl (bad_request ''workflow step and task grant must reference each other in the same workflow run'')
     else if is_some_and (sr_task_grant_id step) (\<lambda>i. i \<noteq> tg_id grant)
     then Inl (bad_request ''workflow step task grant id does not match task grant'')
     else if is_some_and (sr_session_id step)
               (\<lambda>s. tg_session_id grant \<noteq> Some s \<and> tg_grantee_session_id grant \<noteq> Some s)
     then Inl (bad_request ''workflow step and task grant must reference the same session'')
     else Inr ()))"

definition create_workflow_step_run_with_task_grant
    :: "sys \<Rightarrow> workflow_step_run \<Rightarrow> task_grant \<Rightarrow> (workflow_step_run \<times> task_grant) eff" where
  "create_workflow_step_run_with_task_grant S step0 grant =
     bindS (liftS (step_grant_reference_check step0 grant)) (\<lambda>_.
     let step = step0\<lparr>sr_task_grant_id := Some (tg_id grant)\<rparr> in
     bindS (now_utc S) (\<lambda>now.
     bindS (asksr (\<lambda>w.
       bindr (run_allows_step_creation w (sr_workflow_run_id step)) (\<lambda>_.
       if tget (workflow_step_runs w) (sr_id step) \<noteq> None
       then Inl (bad_request ''workflow step run already exists'')
       else if tget (task_grants w) (tg_id grant) \<noteq> None
       then Inl (bad_request ''task grant already exists'')
       else Inr ()))) (\<lambda>_.
     bindS (admit_child_grant now grant) (\<lambda>_ w.
       (Inr (step, grant), put_step step (put_grant grant w))))))"

definition get_workflow_step_run :: "uuid \<Rightarrow> workflow_step_run eff" where
  "get_workflow_step_run i = asksr (\<lambda>w.
     ok_or (not_found ''workflow step run not found'') (tget (workflow_step_runs w) i))"

definition list_workflow_step_runs :: "sys \<Rightarrow> uuid \<Rightarrow> workflow_step_run list eff" where
  "list_workflow_step_runs S run_id = asks (\<lambda>w.
     sort_key sr_created_at
       (filter (\<lambda>s. sr_workflow_run_id s = run_id) (tvalues S w (workflow_step_runs w))))"

section \<open>Transitions\<close>

definition create_workflow_transition :: "workflow_transition \<Rightarrow> workflow_transition eff" where
  "create_workflow_transition t w =
     (Inr t, w\<lparr>workflow_transitions := tput (wt_id t) t (workflow_transitions w)\<rparr>)"

definition transition_matches :: "uuid \<Rightarrow> workflow_transition_filter \<Rightarrow> workflow_transition \<Rightarrow> bool" where
  "transition_matches run_id flt t \<longleftrightarrow>
     wt_workflow_run_id t = run_id
     \<and> is_none_or (wtf_transition_type flt) (\<lambda>v. wt_transition_type t = v)
     \<and> is_none_or (wtf_status flt) (\<lambda>v. wt_status t = v)
     \<and> is_none_or (wtf_from_step_key flt) (\<lambda>v. wt_from_step_key t = Some v)
     \<and> is_none_or (wtf_to_step_key flt) (\<lambda>v. wt_to_step_key t = Some v)"

definition list_workflow_transitions_with_filter
    :: "sys \<Rightarrow> uuid \<Rightarrow> workflow_transition_filter \<Rightarrow> workflow_transition list eff" where
  "list_workflow_transitions_with_filter S run_id flt = asks (\<lambda>w.
     let ts = sort_key wt_created_at
                (filter (transition_matches run_id flt) (tvalues S w (workflow_transitions w)))
     in case wtf_limit flt of None \<Rightarrow> ts | Some limit \<Rightarrow> drop (length ts - limit) ts)"

definition no_transition_filter :: workflow_transition_filter where
  "no_transition_filter =
     \<lparr>wtf_transition_type = None, wtf_status = None, wtf_from_step_key = None,
      wtf_to_step_key = None, wtf_limit = None\<rparr>"

definition list_workflow_transitions :: "sys \<Rightarrow> uuid \<Rightarrow> workflow_transition list eff" where
  "list_workflow_transitions S run_id =
     list_workflow_transitions_with_filter S run_id no_transition_filter"

definition workflow_transition_filter_from_query
    :: "workflow_transition_query \<Rightarrow> workflow_transition_filter res" where
  "workflow_transition_filter_from_query query =
     bindr (guardr (is_none_or (wtq_limit query) (\<lambda>limit. limit \<noteq> 0 \<and> limit \<le> 500))
       (bad_request ''workflow transition filter limit must be between 1 and 500'')) (\<lambda>_.
       Inr \<lparr>wtf_transition_type = normalize_optional_filter (wtq_transition_type query),
            wtf_status = normalize_optional_filter (wtq_status query),
            wtf_from_step_key = normalize_optional_filter (wtq_from_step_key query),
            wtf_to_step_key = normalize_optional_filter (wtq_to_step_key query),
            wtf_limit = wtq_limit query\<rparr>)"

section \<open>Task grants\<close>

definition root_grant_admission :: "world \<Rightarrow> workflow_run \<Rightarrow> task_grant \<Rightarrow> unit res" where
  "root_grant_admission w run grant =
     (if tg_parent_grant_id grant \<noteq> None
      then guardr (workflow_run_status_allows_execution (wr_status run))
             (forbidden ''workflow run is not executable'')
      else if (wr_status run \<noteq> ''initializing''
               \<and> \<not> workflow_run_status_allows_execution (wr_status run))
              \<or> wr_root_task_grant_id run \<noteq> None
      then Inl (forbidden ''workflow run does not allow root task grant issuance'')
      else if list_ex (\<lambda>kv. tg_workflow_run_id (snd kv) = tg_workflow_run_id grant
                          \<and> tg_parent_grant_id (snd kv) = None) (task_grants w)
      then Inl (bad_request ''workflow run already has a root task grant'')
      else Inr ())"

definition new_grant_check :: "task_grant \<Rightarrow> unit res" where
  "new_grant_check grant =
     bindr (validate_task_grant_scope_objects grant) (\<lambda>_.
     bindr (validate_task_grant_budgets grant) (\<lambda>_.
     if tg_status grant \<noteq> ''active'' then Inl (bad_request ''new task grant must be active'')
     else if tg_turns_used grant \<noteq> 0 \<or> tg_tool_calls_used grant \<noteq> 0
             \<or> tg_cost_usd_micros_used grant \<noteq> 0
     then Inl (bad_request ''new task grant usage counters must be zero'')
     else Inr ()))"

definition create_task_grant :: "sys \<Rightarrow> task_grant \<Rightarrow> task_grant eff" where
  "create_task_grant S grant =
     bindS (liftS (new_grant_check grant)) (\<lambda>_.
     bindS (now_utc S) (\<lambda>now.
     bindS (asksr (\<lambda>w.
       bindr (ok_or (not_found ''workflow run not found'')
               (tget (workflow_runs w) (tg_workflow_run_id grant))) (\<lambda>run.
       bindr (root_grant_admission w run grant) (\<lambda>_.
       guardr (tget (task_grants w) (tg_id grant) = None)
         (bad_request ''task grant already exists''))))) (\<lambda>_.
     bindS (admit_child_grant now grant) (\<lambda>_ w. (Inr grant, put_grant grant w)))))"

definition get_task_grant :: "uuid \<Rightarrow> task_grant eff" where
  "get_task_grant i = asksr (\<lambda>w. ok_or (not_found ''task grant not found'') (tget (task_grants w) i))"

lemma unseen_key_card:
  assumes "map_of t i = Some g" and "i \<notin> set seen"
  shows "card (fst ` set t - insert i (set seen)) < card (fst ` set t - set seen)"
proof (rule psubset_card_mono)
  have "i \<in> fst ` set t" using map_of_SomeD [OF assms(1)] by force
  with assms(2) show "fst ` set t - insert i (set seen) \<subset> fst ` set t - set seen" by auto
qed simp

text \<open>
  The walk from a grant to its root. \<open>seen\<close> holds the identifiers visited, the last one first;
  each further step visits another key of the table, so the walk ends.
\<close>

function lineage_from :: "task_grant table \<Rightarrow> uuid list \<Rightarrow> uuid \<Rightarrow> task_grant list res" where
  "lineage_from t seen i =
     (if i \<in> set seen then Inl (bad_request ''task grant parent cycle detected'')
      else case tget t i of
        None \<Rightarrow> Inl (not_found ''task grant not found'')
      | Some grant \<Rightarrow>
          (case tg_parent_grant_id grant of
             None \<Rightarrow> Inr [grant]
           | Some p \<Rightarrow> bindr (lineage_from t (i # seen) p) (\<lambda>rest. Inr (grant # rest))))"
  by pat_completeness auto
termination
  by (relation "measure (\<lambda>(t, seen, i). card (fst ` set t - set seen))")
    (auto dest: unseen_key_card)

declare lineage_from.simps [simp del]

definition task_grant_lineage :: "uuid \<Rightarrow> task_grant list eff" where
  "task_grant_lineage i = asksr (\<lambda>w. lineage_from (task_grants w) [] i)"

text \<open>The first refusal along a lineage, with the grant that gives it.\<close>

definition lineage_denial
    :: "task_grant_reservation \<Rightarrow> timestamp \<Rightarrow> task_grant list \<Rightarrow> (task_grant \<times> string \<times> bool) option" where
  "lineage_denial reservation now lineage =
     find_map (\<lambda>g. map_option (\<lambda>d. (g, d)) (task_grant_reservation_denial g reservation now)) lineage"

definition count_usage :: "task_grant_reservation \<Rightarrow> timestamp \<Rightarrow> task_grant \<Rightarrow> task_grant res" where
  "count_usage reservation now stored =
     (case reservation of
        Turn \<Rightarrow>
          bindr (ok_or (bad_request ''task grant turn counter overflow'')
                  (checked_i32 (tg_turns_used stored + 1)))
            (\<lambda>n. Inr (stored\<lparr>tg_turns_used := n, tg_updated_at := now\<rparr>))
      | ToolCall \<Rightarrow>
          bindr (ok_or (bad_request ''task grant tool call counter overflow'')
                  (checked_i32 (tg_tool_calls_used stored + 1)))
            (\<lambda>n. Inr (stored\<lparr>tg_tool_calls_used := n, tg_updated_at := now\<rparr>)))"

text \<open>One entry of the lineage rewritten; what was rewritten before stays when it fails.\<close>

definition update_grant_entry :: "(task_grant \<Rightarrow> task_grant res) \<Rightarrow> uuid \<Rightarrow> unit eff" where
  "update_grant_entry f i w =
     (case tget (task_grants w) i of
        None \<Rightarrow> (Inl (not_found ''task grant not found''), w)
      | Some stored \<Rightarrow>
          (case f stored of
             Inl e \<Rightarrow> (Inl e, w)
           | Inr g \<Rightarrow> (Inr (), w\<lparr>task_grants := tput i g (task_grants w)\<rparr>)))"

definition reserve_task_grant_usage :: "sys \<Rightarrow> uuid \<Rightarrow> task_grant_reservation \<Rightarrow> task_grant eff" where
  "reserve_task_grant_usage S grant_id reservation =
     bindS (now_utc S) (\<lambda>now.
     bindS (task_grant_lineage grant_id) (\<lambda>lineage.
     case lineage_denial reservation now lineage of
       Some (g, message, expire) \<Rightarrow>
         thenS (whenS expire (modifyS (expire_grant now (tg_id g)))) (failS (forbidden message))
     | None \<Rightarrow>
         thenS (foreachS (\<lambda>g. update_grant_entry (count_usage reservation now) (tg_id g)) lineage)
           (get_task_grant grant_id)))"

definition reserve_task_grant_turn :: "sys \<Rightarrow> uuid \<Rightarrow> task_grant eff" where
  "reserve_task_grant_turn S grant_id = reserve_task_grant_usage S grant_id Turn"

definition reserve_task_grant_tool_call :: "sys \<Rightarrow> uuid \<Rightarrow> task_grant eff" where
  "reserve_task_grant_tool_call S grant_id = reserve_task_grant_usage S grant_id ToolCall"

definition count_cost :: "int \<Rightarrow> timestamp \<Rightarrow> task_grant \<Rightarrow> task_grant res" where
  "count_cost cost now stored =
     bindr (ok_or (bad_request ''task grant cost counter overflow'')
             (checked_i64 (tg_cost_usd_micros_used stored + cost)))
       (\<lambda>n. Inr (stored\<lparr>tg_cost_usd_micros_used := n, tg_updated_at := now\<rparr>))"

text \<open>The walk of \<open>add_task_grant_cost\<close>, which keeps the identifiers.\<close>

function lineage_ids_from :: "task_grant table \<Rightarrow> uuid list \<Rightarrow> uuid \<Rightarrow> uuid list res" where
  "lineage_ids_from t seen i =
     (if i \<in> set seen then Inl (bad_request ''task grant parent cycle detected'')
      else case tget t i of
        None \<Rightarrow> Inl (not_found ''task grant not found'')
      | Some grant \<Rightarrow>
          (case tg_parent_grant_id grant of
             None \<Rightarrow> Inr [i]
           | Some p \<Rightarrow> bindr (lineage_ids_from t (i # seen) p) (\<lambda>rest. Inr (i # rest))))"
  by pat_completeness auto
termination
  by (relation "measure (\<lambda>(t, seen, i). card (fst ` set t - set seen))")
    (auto dest: unseen_key_card)

declare lineage_ids_from.simps [simp del]

definition add_task_grant_cost :: "sys \<Rightarrow> uuid \<Rightarrow> int \<Rightarrow> task_grant eff" where
  "add_task_grant_cost S grant_id cost =
     (if cost < 0 then failS (bad_request ''task grant cost increment cannot be negative'')
      else if cost = 0 then get_task_grant grant_id
      else bindS (now_utc S) (\<lambda>now.
        bindS (asksr (\<lambda>w. lineage_ids_from (task_grants w) [] grant_id)) (\<lambda>ids.
        thenS (foreachS (update_grant_entry (count_cost cost now)) ids)
          (get_task_grant grant_id))))"

definition update_task_grant_status :: "sys \<Rightarrow> uuid \<Rightarrow> string \<Rightarrow> task_grant eff" where
  "update_task_grant_status S grant_id next_status =
     (if next_status \<notin> {''revoked'', ''expired'', ''completed'', ''cancelled''}
      then failS (bad_request ''unsupported task grant terminal status'')
      else bindS (now_utc S) (\<lambda>now.
        bindS (get_task_grant grant_id) (\<lambda>grant.
        if tg_status grant = next_status then retS grant
        else if tg_status grant \<noteq> ''active''
        then failS (bad_request ''terminal task grant status cannot be changed'')
        else (\<lambda>w. let g = grant\<lparr>tg_status := next_status, tg_updated_at := now\<rparr>
                  in (Inr g, w\<lparr>task_grants := tput grant_id g (task_grants w)\<rparr>)))))"

definition list_task_grants_for_workflow_run :: "sys \<Rightarrow> uuid \<Rightarrow> task_grant list eff" where
  "list_task_grants_for_workflow_run S run_id = asks (\<lambda>w.
     sort_key tg_created_at
       (filter (\<lambda>g. tg_workflow_run_id g = run_id) (tvalues S w (task_grants w))))"

definition close_active_task_grants_for_workflow_run :: "sys \<Rightarrow> uuid \<Rightarrow> string \<Rightarrow> task_grant list eff" where
  "close_active_task_grants_for_workflow_run S run_id next_status =
     bindS (list_task_grants_for_workflow_run S run_id) (\<lambda>grants.
       mapS (\<lambda>g. update_task_grant_status S (tg_id g) next_status)
         (filter (\<lambda>g. tg_status g = ''active'') grants))"

definition update_task_grant_context_packet :: "sys \<Rightarrow> uuid \<Rightarrow> uuid \<Rightarrow> task_grant eff" where
  "update_task_grant_context_packet S grant_id context_packet_id =
     bindS (get_task_grant grant_id) (\<lambda>grant. bindS (now_utc S) (\<lambda>now w.
       let g = grant\<lparr>tg_context_packet_id := Some context_packet_id, tg_updated_at := now\<rparr>
       in (Inr g, w\<lparr>task_grants := tput grant_id g (task_grants w)\<rparr>)))"

section \<open>Updates and claims of step runs\<close>

definition finalize_workflow_step_task_grant :: "sys \<Rightarrow> workflow_step_run \<Rightarrow> unit eff" where
  "finalize_workflow_step_task_grant S updated =
     (case sr_task_grant_id updated of
        Some task_grant_id \<Rightarrow>
          if workflow_step_status_terminal (sr_status updated)
          then bindS (get_workflow_run (sr_workflow_run_id updated)) (\<lambda>run.
            if wr_root_task_grant_id run \<noteq> Some task_grant_id
            then bindS (get_task_grant task_grant_id) (\<lambda>grant.
              if tg_status grant = ''active''
              then bindS (update_task_grant_status S task_grant_id
                     (if workflow_step_status_successful (sr_status updated)
                      then ''completed'' else ''cancelled'')) (\<lambda>_. retS ())
              else retS ())
            else retS ())
          else retS ()
      | None \<Rightarrow> retS ())"

definition store_existing_step :: "workflow_step_run \<Rightarrow> workflow_step_run eff" where
  "store_existing_step step w =
     (if tget (workflow_step_runs w) (sr_id step) = None
      then (Inl (not_found ''workflow step run not found''), w)
      else (Inr step, put_step step w))"

definition update_workflow_step_run :: "sys \<Rightarrow> workflow_step_run \<Rightarrow> workflow_step_run eff" where
  "update_workflow_step_run S step =
     bindS (store_existing_step step) (\<lambda>updated.
     thenS (finalize_workflow_step_task_grant S updated) (retS updated))"

definition WORKFLOW_STEP_CLAIM_OWNER_VERSION :: int where
  "WORKFLOW_STEP_CLAIM_OWNER_VERSION = 1"

definition WORKER_JOB_LEASE_SECONDS :: int where
  "WORKER_JOB_LEASE_SECONDS = 300"

text \<open>The session a step runs in: its own, or the primary session of its run.\<close>

definition step_session :: "world \<Rightarrow> workflow_step_run \<Rightarrow> uuid option" where
  "step_session w step =
     opt_or (sr_session_id step)
       (map_option wr_primary_session_id (tget (workflow_runs w) (sr_workflow_run_id step)))"

definition memory_session_has_pending_actions :: "world \<Rightarrow> uuid \<Rightarrow> bool" where
  "memory_session_has_pending_actions w session_id \<longleftrightarrow>
     list_ex (\<lambda>(i, approval). ap_session_id approval = session_id \<and> ap_status approval = ''pending'')
       (approvals w)
     \<or> list_ex (\<lambda>(i, call). tc_session_id call = session_id
           \<and> tc_status call \<in> {''running'', ''waiting_approval''}) (tool_calls w)"

definition session_occupied :: "world \<Rightarrow> workflow_step_run \<Rightarrow> bool" where
  "session_occupied w step =
     (let session_id = step_session w step in
      session_id = None
      \<or> is_some_and session_id (memory_session_has_pending_actions w)
      \<or> list_ex (\<lambda>(i, other). sr_id other \<noteq> sr_id step
                   \<and> sr_status other \<in> {''running'', ''requires_action''}
                   \<and> step_session w other = session_id) (workflow_step_runs w)
      \<or> list_ex (\<lambda>(i, job). Some (lj_session_id job) = session_id \<and> lj_status job = JobRunning)
          (session_loop_jobs w))"

definition step_claimable :: "timestamp \<Rightarrow> workflow_step_run \<Rightarrow> bool" where
  "step_claimable now current \<longleftrightarrow>
     (sr_status current = ''queued'' \<and> sr_claimed_by_worker current = None
      \<and> sr_claim_owner_version current = 0)
     \<or> (sr_status current = ''running''
        \<and> sr_claim_owner_version current = WORKFLOW_STEP_CLAIM_OWNER_VERSION
        \<and> is_some_and (sr_lease_expires_at current) (\<lambda>expires_at. expires_at \<le> now))"

definition claim_workflow_step_run_if_available
    :: "workflow_step_run \<Rightarrow> timestamp \<Rightarrow> workflow_step_run eff" where
  "claim_workflow_step_run_if_available step now w =
     (if sr_claimed_by_worker step = None
         \<or> sr_claim_owner_version step \<noteq> WORKFLOW_STEP_CLAIM_OWNER_VERSION
      then (Inl (not_found ''workflow step run not found''), w)
      else if session_occupied w step
      then (Inl (not_found ''workflow step session is already in use''), w)
      else if \<not> is_some_and (tget (workflow_step_runs w) (sr_id step)) (step_claimable now)
      then (Inl (not_found ''workflow step run not found''), w)
      else (Inr step, put_step step w))"

definition owns_loop_job :: "world \<Rightarrow> session_loop_job \<Rightarrow> string \<Rightarrow> timestamp \<Rightarrow> bool" where
  "owns_loop_job w job worker_id now =
     is_some_and (tget (session_loop_jobs w) (lj_id job)) (\<lambda>current.
       lj_status current = JobRunning
       \<and> lj_worker_id current = Some worker_id
       \<and> lj_session_id current = lj_session_id job
       \<and> lj_attempt_count current = lj_attempt_count job
       \<and> is_some_and (lj_lease_expires_at current) (\<lambda>deadline. deadline > now))"

definition adopt_workflow_step_for_loop
    :: "sys \<Rightarrow> uuid \<Rightarrow> session_loop_job \<Rightarrow> string \<Rightarrow> workflow_step_run eff" where
  "adopt_workflow_step_for_loop S step_id job worker_id =
     bindS (now_utc S) (\<lambda>now.
     bindS (get_workflow_step_run step_id) (\<lambda>step w.
       if \<not> owns_loop_job w job worker_id now
          \<or> step_session w step \<noteq> Some (lj_session_id job)
          \<or> sr_status step \<noteq> ''running''
          \<or> sr_claim_owner_version step \<noteq> WORKFLOW_STEP_CLAIM_OWNER_VERSION
          \<or> is_some_and (sr_lease_expires_at step) (\<lambda>deadline. deadline > now)
       then (Inl (not_found ''workflow step claim is not recoverable''), w)
       else let step' = step\<lparr>sr_claimed_by_worker := Some worker_id,
                  sr_claim_owner_version := WORKFLOW_STEP_CLAIM_OWNER_VERSION,
                  sr_lease_expires_at := Some (plus_seconds now WORKER_JOB_LEASE_SECONDS)\<rparr>
            in (Inr step', w\<lparr>workflow_step_runs := tput step_id step' (workflow_step_runs w)\<rparr>)))"

definition claim_holds :: "string \<Rightarrow> timestamp \<Rightarrow> workflow_step_run \<Rightarrow> bool" where
  "claim_holds worker_id now current \<longleftrightarrow>
     (sr_status current = ''running'' \<and> sr_claimed_by_worker current = Some worker_id
      \<and> sr_claim_owner_version current = WORKFLOW_STEP_CLAIM_OWNER_VERSION)
     \<or> (sr_status current = ''requires_action''
        \<and> is_none_or (sr_lease_expires_at current) (\<lambda>expires_at. expires_at \<le> now))"

definition store_claimed_step :: "workflow_step_run \<Rightarrow> string \<Rightarrow> timestamp \<Rightarrow> workflow_step_run eff" where
  "store_claimed_step step worker_id now w =
     (if is_some_and (tget (workflow_step_runs w) (sr_id step)) (claim_holds worker_id now)
      then (Inr step, put_step step w)
      else (Inl (not_found ''workflow step run not found''), w))"

definition update_claimed_workflow_step_run
    :: "sys \<Rightarrow> workflow_step_run \<Rightarrow> string \<Rightarrow> workflow_step_run eff" where
  "update_claimed_workflow_step_run S step worker_id =
     (if sr_claimed_by_worker step \<noteq> Some worker_id
         \<or> sr_claim_owner_version step \<noteq> WORKFLOW_STEP_CLAIM_OWNER_VERSION
      then failS (not_found ''workflow step run not found'')
      else bindS (now_utc S) (\<lambda>now.
        bindS (store_claimed_step step worker_id now) (\<lambda>updated.
        thenS (finalize_workflow_step_task_grant S updated) (retS updated))))"

definition renew_workflow_step_run_lease :: "sys \<Rightarrow> uuid \<Rightarrow> string \<Rightarrow> int \<Rightarrow> workflow_step_run eff" where
  "renew_workflow_step_run_lease S i worker_id lease_seconds =
     (if \<not> (1 \<le> lease_seconds \<and> lease_seconds \<le> 86400)
      then failS (bad_request ''workflow step lease_seconds must be between 1 and 86400'')
      else bindS (now_utc S) (\<lambda>now w.
        case opt_filter (\<lambda>step. sr_status step = ''running''
                 \<and> sr_claimed_by_worker step = Some worker_id
                 \<and> sr_claim_owner_version step = WORKFLOW_STEP_CLAIM_OWNER_VERSION)
               (tget (workflow_step_runs w) i) of
          None \<Rightarrow> (Inl (not_found ''workflow step run not found''), w)
        | Some step \<Rightarrow>
            let step' = step\<lparr>sr_lease_expires_at := Some (plus_seconds now lease_seconds),
                              sr_updated_at := now\<rparr>
            in (Inr step', w\<lparr>workflow_step_runs := tput i step' (workflow_step_runs w)\<rparr>)))"

definition activate_scheduled_workflow_step_run
    :: "uuid \<Rightarrow> timestamp \<Rightarrow> workflow_step_run option eff" where
  "activate_scheduled_workflow_step_run step_id checked_at w =
     (case tget (workflow_step_runs w) step_id of
        None \<Rightarrow> (Inl (not_found ''workflow step run not found''), w)
      | Some step \<Rightarrow>
          if sr_status step \<noteq> ''scheduled''
             \<or> is_none_or (sr_scheduled_at step) (\<lambda>scheduled_at. scheduled_at > checked_at)
          then (Inr None, w)
          else let step' = step\<lparr>sr_status := ''queued'', sr_updated_at := checked_at\<rparr>
               in (Inr (Some step'), w\<lparr>workflow_step_runs := tput step_id step' (workflow_step_runs w)\<rparr>))"

definition list_active_workflow_steps_for_session :: "sys \<Rightarrow> uuid \<Rightarrow> workflow_step_run list eff" where
  "list_active_workflow_steps_for_session S session_id = asks (\<lambda>w.
     sort_key sr_created_at
       (filter (\<lambda>step. sr_status step \<in> {''running'', ''requires_action''}
                     \<and> step_session w step = Some session_id)
         (tvalues S w (workflow_step_runs w))))"

end
