(* ===== verification/Sessions.thy ===== *)
theory Sessions
  imports Store
begin

unbundle bit_operations_syntax

text \<open>
  Sessions, their event log and threads, the audit log, agents and their versions
  (store_events.rs, store_audit.rs, store_entities.rs, store_session_threads.rs,
  session_handoff_runtime.rs).

  Operations of neighbouring subsystems that the workflow runtime calls and that are not
  modelled are the fields of \<open>peers\<close>: effects of which nothing is assumed but, where a theorem
  says so, a relation between states they keep.
\<close>

record session_runtime_refs =
  rf_artifact_ids :: "uuid list"
  rf_approval_ids :: "uuid list"
  rf_tool_call_ids :: "uuid list"

record peers =
  cleanup_remote_computer_session_runtimes :: "uuid \<Rightarrow> string \<Rightarrow> unit eff"
  active_ontology_release_metadata_for_scopes :: "json \<Rightarrow> json option eff"
  generate_and_persist_context_packet :: "uuid \<Rightarrow> uuid eff"
  governed_pinned_version_check :: "uuid \<Rightarrow> agent_version \<Rightarrow> uuid option \<Rightarrow> unit eff"
  governed_promoted_version :: "uuid \<Rightarrow> uuid option \<Rightarrow> agent_version eff"
  append_work_item_activity_entry :: "uuid \<Rightarrow> uuid \<Rightarrow> string \<Rightarrow> string \<Rightarrow> json \<Rightarrow> unit eff"
  collect_session_runtime_refs :: "uuid \<Rightarrow> session_runtime_refs eff"

section \<open>Event log\<close>

definition session_events :: "world \<Rightarrow> uuid \<Rightarrow> session_event list" where
  "session_events w session_id = unwrap_or (tget (events w) session_id) []"

definition list_events_after :: "uuid \<Rightarrow> int option \<Rightarrow> session_event list eff" where
  "list_events_after session_id after_seq = asks (\<lambda>w.
     filter (\<lambda>e. ev_seq e > unwrap_or after_seq 0) (session_events w session_id))"

definition list_events :: "uuid \<Rightarrow> session_event list eff" where
  "list_events session_id = list_events_after session_id None"

definition validate_idempotent_event_identity
    :: "session_event \<Rightarrow> string \<Rightarrow> uuid option \<Rightarrow> uuid \<Rightarrow> string \<Rightarrow> json \<Rightarrow> unit res" where
  "validate_idempotent_event_identity event actor_type actor_id session_id event_type payload =
     guardr (ev_actor_type event = actor_type \<and> ev_actor_id event = actor_id
             \<and> ev_session_id event = session_id \<and> ev_event_type event = event_type
             \<and> ev_payload event = payload)
       (bad_request ''idempotent session event identity collision'')"

text \<open>
  \<open>append_event_with_id\<close> without an execution claim. The idempotent form returns the event of
  that identifier if there is one already.
\<close>

definition all_events :: "sys \<Rightarrow> world \<Rightarrow> session_event list" where
  "all_events S w = concat (tvalues S w (events w))"

definition append_event_with_id
    :: "sys \<Rightarrow> uuid \<Rightarrow> bool \<Rightarrow> string \<Rightarrow> uuid option \<Rightarrow> uuid \<Rightarrow> string \<Rightarrow> json \<Rightarrow> session_event eff" where
  "append_event_with_id S event_id idempotent actor_type actor_id session_id event_type payload w =
     (if tget (sessions w) session_id = None then (Inl (not_found ''session not found''), w)
      else case (if idempotent then find_first (\<lambda>e. ev_id e = event_id) (all_events S w) else None) of
        Some existing \<Rightarrow>
          (bindr (validate_idempotent_event_identity existing actor_type actor_id session_id
                    event_type payload) (\<lambda>_. Inr existing), w)
      | None \<Rightarrow>
          (let old = session_events w session_id;
               event = \<lparr>ev_id = event_id, ev_session_id = session_id,
                        ev_seq = int (length old) + 1, ev_parent_event_id = None,
                        ev_actor_type = actor_type, ev_actor_id = actor_id,
                        ev_event_type = event_type, ev_payload = payload,
                        ev_created_at = clock S (ticks w)\<rparr>
           in (Inr event, w\<lparr>ticks := Suc (ticks w),
                            events := tput session_id (old @ [event]) (events w)\<rparr>)))"

definition append_event
    :: "sys \<Rightarrow> string \<Rightarrow> uuid option \<Rightarrow> uuid \<Rightarrow> string \<Rightarrow> json \<Rightarrow> session_event eff" where
  "append_event S actor_type actor_id session_id event_type payload =
     bindS (new_v4 S) (\<lambda>event_id.
       append_event_with_id S event_id False actor_type actor_id session_id event_type payload)"

definition append_event_once
    :: "sys \<Rightarrow> uuid \<Rightarrow> string \<Rightarrow> uuid option \<Rightarrow> uuid \<Rightarrow> string \<Rightarrow> json \<Rightarrow> session_event eff" where
  "append_event_once S event_id actor_type actor_id session_id event_type payload =
     append_event_with_id S event_id True actor_type actor_id session_id event_type payload"

definition append_user_message_event :: "sys \<Rightarrow> uuid \<Rightarrow> string \<Rightarrow> session_event eff" where
  "append_user_message_event S session_id message =
     append_event S ''user'' None session_id ''user.message'' (mk_obj [(''message'', JStr message)])"

fun event_exists_in :: "uuid \<Rightarrow> session list \<Rightarrow> bool eff" where
  "event_exists_in event_id [] = retS False"
| "event_exists_in event_id (s # ss) =
     bindS (list_events (se_id s)) (\<lambda>es.
       if list_ex (\<lambda>e. ev_id e = event_id) es then retS True else event_exists_in event_id ss)"

definition list_sessions :: "sys \<Rightarrow> session list eff" where
  "list_sessions S = asks (\<lambda>w. tvalues S w (sessions w))"

definition ensure_session_event_exists :: "sys \<Rightarrow> uuid \<Rightarrow> unit eff" where
  "ensure_session_event_exists S event_id =
     bindS (list_sessions S) (\<lambda>ss. bindS (event_exists_in event_id ss) (\<lambda>found.
       guardS found (not_found ''session event not found'')))"

section \<open>Audit log\<close>

definition new_audit_log
    :: "sys \<Rightarrow> uuid option \<Rightarrow> string \<Rightarrow> uuid option \<Rightarrow> string \<Rightarrow> string \<Rightarrow> uuid option \<Rightarrow> json \<Rightarrow> audit_log eff" where
  "new_audit_log S session_id actor_type actor_id action resource_type resource_id details =
     bindS (new_v4 S) (\<lambda>i. bindS (now_utc S) (\<lambda>now. retS
       \<lparr>al_id = i, al_session_id = session_id, al_actor_type = actor_type, al_actor_id = actor_id,
        al_action = action, al_resource_type = resource_type, al_resource_id = resource_id,
        al_details = details, al_created_at = now\<rparr>))"

definition validate_idempotent_audit_identity :: "audit_log \<Rightarrow> audit_log \<Rightarrow> unit res" where
  "validate_idempotent_audit_identity existing requested =
     guardr (al_session_id existing = al_session_id requested
             \<and> al_actor_type existing = al_actor_type requested
             \<and> al_actor_id existing = al_actor_id requested
             \<and> al_action existing = al_action requested
             \<and> al_resource_type existing = al_resource_type requested
             \<and> al_resource_id existing = al_resource_id requested
             \<and> al_details existing = al_details requested)
       (bad_request ''idempotent audit identity collision'')"

definition append_audit_log :: "audit_log \<Rightarrow> audit_log eff" where
  "append_audit_log entry w =
     (case tget (audit_logs w) (al_id entry) of
        Some existing \<Rightarrow>
          (bindr (validate_idempotent_audit_identity existing entry) (\<lambda>_. Inr existing), w)
      | None \<Rightarrow> (Inr entry, w\<lparr>audit_logs := tput (al_id entry) entry (audit_logs w)\<rparr>))"

definition audit
    :: "sys \<Rightarrow> uuid option \<Rightarrow> string \<Rightarrow> uuid option \<Rightarrow> string \<Rightarrow> string \<Rightarrow> uuid option \<Rightarrow> json \<Rightarrow> unit eff" where
  "audit S session_id actor_type actor_id action resource_type resource_id details =
     bindS (new_audit_log S session_id actor_type actor_id action resource_type resource_id details)
       (\<lambda>entry. bindS (append_audit_log entry) (\<lambda>_. retS ()))"

section \<open>Agents and environments\<close>

definition get_environment :: "uuid \<Rightarrow> unit eff" where
  "get_environment i = asksr (\<lambda>w.
     case tget (environments w) i of
       Some None \<Rightarrow> Inr ()
     | _ \<Rightarrow> Inl (not_found ''environment not found''))"

definition apply_effective_agent_release_state
    :: "string option \<Rightarrow> agent \<Rightarrow> agent_release list \<Rightarrow> agent" where
  "apply_effective_agent_release_state target_environment agent releases =
     (if ag_release_state agent = ''disabled'' then agent
      else
        let promoted = filter (\<lambda>r. rl_agent_id r = ag_id agent \<and> rl_status r = ''promoted'') releases;
            target_promoted = list_ex (\<lambda>r. is_none_or target_environment (\<lambda>environment.
              to_ascii_lowercase (rl_environment r) = to_ascii_lowercase environment)) promoted
        in if target_promoted then agent\<lparr>ag_release_state := ''active''\<rparr>
           else if target_environment \<noteq> None \<and> (promoted \<noteq> [] \<or> ag_release_state agent = ''active'')
           then agent\<lparr>ag_release_state := ''staged''\<rparr>
           else agent)"

definition get_agent :: "sys \<Rightarrow> uuid \<Rightarrow> agent eff" where
  "get_agent S agent_id = asksr (\<lambda>w.
     bindr (ok_or (not_found ''agent not found'') (tget (agents w) agent_id)) (\<lambda>agent.
       Inr (apply_effective_agent_release_state (configured_agent_release_environment S) agent
              (tvalues S w (agent_releases w)))))"

definition list_agent_versions :: "uuid \<Rightarrow> agent_version list eff" where
  "list_agent_versions agent_id = asksr (\<lambda>w.
     if tget (agents w) agent_id = None then Inl (not_found ''agent not found'')
     else Inr (unwrap_or (tget (agent_versions w) agent_id) []))"

text \<open>\<open>max_by_key\<close> over the versions: the last of the greatest.\<close>

fun max_version :: "agent_version list \<Rightarrow> agent_version option" where
  "max_version [] = None"
| "max_version (v # vs) =
     (case max_version vs of
        None \<Rightarrow> Some v
      | Some u \<Rightarrow> if av_version u < av_version v then Some v else Some u)"

definition current_agent_version :: "uuid \<Rightarrow> agent_version eff" where
  "current_agent_version agent_id = asksr (\<lambda>w.
     if tget (agents w) agent_id = None then Inl (not_found ''agent not found'')
     else ok_or (not_found ''agent version not found'')
            (Option.bind (tget (agent_versions w) agent_id) max_version))"

definition check_environment :: "uuid option \<Rightarrow> unit eff" where
  "check_environment environment_id =
     (case environment_id of None \<Rightarrow> retS () | Some i \<Rightarrow> get_environment i)"

definition runnable_pinned_agent_version
    :: "sys \<Rightarrow> peers \<Rightarrow> uuid \<Rightarrow> uuid \<Rightarrow> uuid option \<Rightarrow> agent_version eff" where
  "runnable_pinned_agent_version S P agent_id agent_version_id environment_id =
     bindS (get_agent S agent_id) (\<lambda>agent.
     thenS (guardS (ag_release_state agent \<noteq> ''disabled'') (forbidden ''agent is disabled''))
     (thenS (check_environment environment_id)
     (bindS (list_agent_versions agent_id) (\<lambda>versions.
     bindS (liftS (ok_or (not_found ''pinned agent version not found'')
              (find_first (\<lambda>v. av_id v = agent_version_id) versions))) (\<lambda>version.
     if \<not> agent_release_enforcement_required S then retS version
     else thenS (governed_pinned_version_check P agent_id version environment_id) (retS version))))))"

definition runnable_agent_version :: "sys \<Rightarrow> peers \<Rightarrow> uuid \<Rightarrow> uuid option \<Rightarrow> agent_version eff" where
  "runnable_agent_version S P agent_id environment_id =
     bindS (get_agent S agent_id) (\<lambda>agent.
     thenS (guardS (ag_release_state agent \<noteq> ''disabled'') (forbidden ''agent is disabled''))
     (thenS (check_environment environment_id)
     (if \<not> agent_release_enforcement_required S then current_agent_version agent_id
      else governed_promoted_version P agent_id environment_id)))"

section \<open>Sessions and threads\<close>

definition get_session :: "uuid \<Rightarrow> session eff" where
  "get_session i = asksr (\<lambda>w. ok_or (not_found ''session not found'') (tget (sessions w) i))"

definition persist_session :: "sys \<Rightarrow> create_session_input \<Rightarrow> agent_version \<Rightarrow> session eff" where
  "persist_session S input version =
     bindS (now_utc S) (\<lambda>now. bindS (new_v4 S) (\<lambda>i.
     let session = \<lparr>se_id = i, se_agent_id = cs_agent_id input,
           se_agent_version_id = Some (av_id version), se_environment_id = cs_environment_id input,
           se_title = cs_title input, se_status = Idle, se_created_at = now, se_updated_at = now\<rparr> in
     thenS (modifyS (\<lambda>w. w\<lparr>sessions := tput i session (sessions w)\<rparr>))
     (thenS (case se_environment_id session of
         None \<Rightarrow> retS ()
       | Some environment_id \<Rightarrow>
           bindS (append_event S ''system'' None i ''session.environment_bound''
                    (mk_obj [(''environment_id'', jid (lib S) environment_id)])) (\<lambda>_. retS ()))
     (thenS (case cs_message input of
         None \<Rightarrow> retS ()
       | Some message \<Rightarrow>
           bindS (append_event S ''user'' None i ''user.message''
                    (mk_obj [(''message'', JStr message)])) (\<lambda>_. retS ()))
       (retS session)))))"

definition create_session :: "sys \<Rightarrow> peers \<Rightarrow> create_session_input \<Rightarrow> session eff" where
  "create_session S P input =
     bindS (runnable_agent_version S P (cs_agent_id input) (cs_environment_id input))
       (persist_session S input)"

definition create_session_for_agent_version
    :: "sys \<Rightarrow> peers \<Rightarrow> create_session_input \<Rightarrow> uuid \<Rightarrow> session eff" where
  "create_session_for_agent_version S P input agent_version_id =
     bindS (runnable_pinned_agent_version S P (cs_agent_id input) agent_version_id
              (cs_environment_id input))
       (persist_session S input)"

definition list_session_threads :: "sys \<Rightarrow> uuid option \<Rightarrow> session_thread list eff" where
  "list_session_threads S session_id = asks (\<lambda>w.
     sort_key st_created_at
       (filter (\<lambda>t. is_none_or session_id (\<lambda>s. st_session_id t = s
                      \<or> st_specialist_session_id t = Some s))
         (tvalues S w (session_threads w))))"

definition primary_session_thread :: "sys \<Rightarrow> uuid \<Rightarrow> session_thread option eff" where
  "primary_session_thread S session_id =
     bindS (list_session_threads S (Some session_id)) (\<lambda>ts.
       retS (find_first (\<lambda>t. st_thread_kind t = ''primary'') ts))"

definition create_session_thread :: "session_thread \<Rightarrow> session_thread eff" where
  "create_session_thread thread w =
     (if st_thread_kind thread = ''primary''
         \<and> list_ex (\<lambda>(i, t). st_session_id t = st_session_id thread \<and> st_thread_kind t = ''primary'')
             (session_threads w)
      then (Inl (bad_request ''session already has a primary thread''), w)
      else if st_source_handoff_id thread \<noteq> None
         \<and> list_ex (\<lambda>(i, t). st_source_handoff_id t = st_source_handoff_id thread) (session_threads w)
      then (Inl (bad_request ''agent handoff already has a session thread''), w)
      else (Inr thread, w\<lparr>session_threads := tput (st_id thread) thread (session_threads w)\<rparr>))"

fun managed_thread_status_for_session :: "session_status \<Rightarrow> string" where
  "managed_thread_status_for_session Idle = ''idle''"
| "managed_thread_status_for_session Running = ''running''"
| "managed_thread_status_for_session RequiresAction = ''requires_action''"
| "managed_thread_status_for_session Rescheduling = ''rescheduling''"
| "managed_thread_status_for_session Terminated = ''terminated''"
| "managed_thread_status_for_session Failed = ''failed''"

fun managed_session_status_event :: "session_status \<Rightarrow> string" where
  "managed_session_status_event Idle = ''session.status_idle''"
| "managed_session_status_event Running = ''session.status_running''"
| "managed_session_status_event RequiresAction = ''session.status_requires_action''"
| "managed_session_status_event Rescheduling = ''session.status_rescheduling''"
| "managed_session_status_event Terminated = ''session.status_terminated''"
| "managed_session_status_event Failed = ''session.status_failed''"

definition session_accepts_worker_execution :: "uuid \<Rightarrow> bool eff" where
  "session_accepts_worker_execution session_id =
     bindS (get_session session_id) (\<lambda>session.
       retS (se_status session \<in> {Idle, Running, RequiresAction, Rescheduling}))"

definition session_thread_event_payload :: "ext \<Rightarrow> session_thread \<Rightarrow> json" where
  "session_thread_event_payload X thread = mk_obj
     [(''thread_id'', jid X (st_id thread)), (''session_id'', jid X (st_session_id thread)),
      (''parent_thread_id'', jid_opt X (st_parent_thread_id thread)),
      (''thread_kind'', JStr (st_thread_kind thread)), (''agent_id'', jid X (st_agent_id thread)),
      (''agent_version_id'', jid_opt X (st_agent_version_id thread)),
      (''environment_id'', jid_opt X (st_environment_id thread)),
      (''source_handoff_id'', jid_opt X (st_source_handoff_id thread)),
      (''specialist_session_id'', jid_opt X (st_specialist_session_id thread)),
      (''status'', JStr (st_status thread)), (''title'', JStr (st_title thread)),
      (''context'', st_context thread)]"

definition ensure_primary_session_thread :: "sys \<Rightarrow> uuid \<Rightarrow> session_thread eff" where
  "ensure_primary_session_thread S session_id =
     bindS (primary_session_thread S session_id) (\<lambda>existing.
     case existing of
       Some thread \<Rightarrow> retS thread
     | None \<Rightarrow>
         bindS (get_session session_id) (\<lambda>session.
         bindS (now_utc S) (\<lambda>now. bindS (new_v4 S) (\<lambda>i.
         bindS (create_session_thread
           \<lparr>st_id = i, st_session_id = session_id, st_parent_thread_id = None,
            st_thread_kind = ''primary'', st_agent_id = se_agent_id session,
            st_agent_version_id = se_agent_version_id session,
            st_environment_id = se_environment_id session, st_source_handoff_id = None,
            st_specialist_session_id = None,
            st_status = managed_thread_status_for_session (se_status session),
            st_title = se_title session,
            st_context = mk_obj
              [(''origin'', JStr ''session''), (''session_id'', jid (lib S) (se_id session)),
               (''agent_id'', jid (lib S) (se_agent_id session)),
               (''environment_id'', jid_opt (lib S) (se_environment_id session))],
            st_created_at = now, st_updated_at = now\<rparr>) (\<lambda>thread.
         bindS (append_event S ''system'' (Some (st_id thread)) session_id ''thread.created''
                  (session_thread_event_payload (lib S) thread)) (\<lambda>_.
           retS thread))))))"

definition session_terminal :: "session_status \<Rightarrow> bool" where
  "session_terminal s \<longleftrightarrow> s \<in> {Terminated, Failed}"

definition set_session_and_primary_thread_status
    :: "sys \<Rightarrow> uuid \<Rightarrow> uuid \<Rightarrow> session_status \<Rightarrow> string \<Rightarrow> (session \<times> session_thread option) eff" where
  "set_session_and_primary_thread_status S session_id thread_id next_status thread_status =
     bindS (now_utc S) (\<lambda>updated_at.
     bindS (get_session session_id) (\<lambda>session.
     if session_terminal (se_status session) \<and> \<not> session_terminal next_status
     then failS (bad_request ''session is terminal and cannot run session loop work'')
     else
       let session' = session\<lparr>se_status := next_status, se_updated_at := updated_at\<rparr> in
       thenS (modifyS (\<lambda>w. w\<lparr>sessions := tput session_id session' (sessions w)\<rparr>))
       (\<lambda>w. case opt_filter (\<lambda>t. st_session_id t = session_id) (tget (session_threads w) thread_id) of
              None \<Rightarrow> (Inl (not_found ''session thread not found''), w)
            | Some thread \<Rightarrow>
                if st_status thread = thread_status then (Inr (session', None), w)
                else let thread' = thread\<lparr>st_status := thread_status, st_updated_at := updated_at\<rparr>
                     in (Inr (session', Some thread'),
                         w\<lparr>session_threads := tput thread_id thread' (session_threads w)\<rparr>))))"

definition set_managed_session_status
    :: "sys \<Rightarrow> peers \<Rightarrow> uuid \<Rightarrow> session_status \<Rightarrow> string \<Rightarrow> session eff" where
  "set_managed_session_status S P session_id status reason =
     bindS (ensure_primary_session_thread S session_id) (\<lambda>thread.
     bindS (set_session_and_primary_thread_status S session_id (st_id thread) status
              (managed_thread_status_for_session status)) (\<lambda>(session, updated_thread).
     thenS (case updated_thread of
         None \<Rightarrow> retS ()
       | Some t \<Rightarrow>
           bindS (append_event S ''system'' (Some (st_id t)) session_id ''thread.status_changed''
                    (session_thread_event_payload (lib S) t)) (\<lambda>_. retS ()))
     (bindS (append_event S ''system'' None session_id
               (managed_session_status_event (se_status session))
               (mk_obj [(''status'', JStr (session_status_as_str (se_status session))),
                        (''reason'', JStr reason),
                        (''environment_id'', jid_opt (lib S) (se_environment_id session))])) (\<lambda>_.
      thenS (whenS (session_terminal status)
               (cleanup_remote_computer_session_runtimes P session_id reason))
        (retS session)))))"

section \<open>Input digest (types/defaults.rs)\<close>

text \<open>FNV-1a on 64-bit words, printed as 16 hexadecimal digits.\<close>

definition fnv1a :: "nat list \<Rightarrow> 64 word" where
  "fnv1a bs = foldl (\<lambda>hash b. (hash XOR of_nat b) * 0x100000001b3) 0xcbf29ce484222325 bs"

definition hex_digit :: "int \<Rightarrow> char" where
  "hex_digit n = char_of (nat (if n < 10 then 48 + n else 87 + n))"

definition hex16 :: "64 word \<Rightarrow> string" where
  "hex16 x = map (\<lambda>i. hex_digit (uint x div 16 ^ i mod 16)) (rev [0..<16])"

definition workflow_input_digest :: "ext \<Rightarrow> json \<Rightarrow> string" where
  "workflow_input_digest X v = ''fnv1a64:'' @ hex16 (fnv1a (map byte (json_to_string X v)))"

end
