(* ===== verification/Enforcement.thy ===== *)
theory Enforcement
  imports Sessions
begin

text \<open>
  Recording and enforcing task grants (workflow_task_grants.rs): the events and audit entries of
  grants, step runs and transitions, the check a tool call passes before it runs, and the grant
  that governs a session.
\<close>

section \<open>Records\<close>

text \<open>
  Most operations leave one event in the log of the primary session and one audit entry, in this
  order.
\<close>

definition record_event_and_audit
    :: "sys \<Rightarrow> uuid option \<Rightarrow> uuid \<Rightarrow> string \<Rightarrow> json \<Rightarrow> string \<Rightarrow> string \<Rightarrow> json \<Rightarrow> unit eff" where
  "record_event_and_audit S actor_id session_id event_type payload action resource_type details =
     bindS (append_event S ''system'' actor_id session_id event_type payload) (\<lambda>_.
       audit S (Some session_id) ''system'' actor_id action resource_type actor_id details)"

definition record_task_grant_issued :: "sys \<Rightarrow> task_grant \<Rightarrow> uuid \<Rightarrow> unit eff" where
  "record_task_grant_issued S grant primary_session_id =
     (let X = lib S in
      record_event_and_audit S (Some (tg_id grant)) primary_session_id ''task_grant.issued''
        (mk_obj
          [(''task_grant_id'', jid X (tg_id grant)),
           (''workflow_run_id'', jid X (tg_workflow_run_id grant)),
           (''parent_grant_id'', jid_opt X (tg_parent_grant_id grant)),
           (''workflow_step_run_id'', jid_opt X (tg_workflow_step_run_id grant)),
           (''grantee_agent_id'', jid_opt X (tg_grantee_agent_id grant)),
           (''grantee_session_id'', jid_opt X (tg_grantee_session_id grant)),
           (''agent_class'', jstr_opt (tg_agent_class grant)),
           (''risk_level'', JStr (tg_risk_level grant)), (''status'', JStr (tg_status grant)),
           (''max_turns'', jint_opt (tg_max_turns grant)),
           (''max_tool_calls'', jint_opt (tg_max_tool_calls grant)),
           (''max_runtime_seconds'', jint_opt (tg_max_runtime_seconds grant)),
           (''max_cost_usd_micros'', jint_opt (tg_max_cost_usd_micros grant)),
           (''turns_used'', JInt (tg_turns_used grant)),
           (''tool_calls_used'', JInt (tg_tool_calls_used grant)),
           (''cost_usd_micros_used'', JInt (tg_cost_usd_micros_used grant))])
        ''task_grant.issued'' ''task_grant''
        (mk_obj
          [(''workflow_run_id'', jid X (tg_workflow_run_id grant)),
           (''parent_grant_id'', jid_opt X (tg_parent_grant_id grant)),
           (''grantee_agent_id'', jid_opt X (tg_grantee_agent_id grant)),
           (''grantee_session_id'', jid_opt X (tg_grantee_session_id grant)),
           (''risk_level'', JStr (tg_risk_level grant)), (''status'', JStr (tg_status grant)),
           (''max_turns'', jint_opt (tg_max_turns grant)),
           (''max_tool_calls'', jint_opt (tg_max_tool_calls grant)),
           (''max_runtime_seconds'', jint_opt (tg_max_runtime_seconds grant)),
           (''max_cost_usd_micros'', jint_opt (tg_max_cost_usd_micros grant))]))"

definition record_workflow_step_run_created :: "sys \<Rightarrow> workflow_run \<Rightarrow> workflow_step_run \<Rightarrow> unit eff" where
  "record_workflow_step_run_created S run step =
     (let X = lib S in
      record_event_and_audit S (Some (sr_id step)) (wr_primary_session_id run) ''workflow.step.created''
        (mk_obj
          [(''workflow_run_id'', jid X (wr_id run)), (''workflow_step_run_id'', jid X (sr_id step)),
           (''step_key'', JStr (sr_step_key step)), (''step_type'', JStr (sr_step_type step)),
           (''status'', JStr (sr_status step)), (''scheduled_at'', jtime_opt X (sr_scheduled_at step)),
           (''agent_id'', jid_opt X (sr_agent_id step)), (''session_id'', jid_opt X (sr_session_id step)),
           (''handoff_id'', jid_opt X (sr_handoff_id step)),
           (''task_grant_id'', jid_opt X (sr_task_grant_id step))])
        ''workflow_step_run.created'' ''workflow_step_run''
        (mk_obj
          [(''workflow_run_id'', jid X (wr_id run)),
           (''step_key'', JStr (sr_step_key step)), (''step_type'', JStr (sr_step_type step)),
           (''status'', JStr (sr_status step)), (''scheduled_at'', jtime_opt X (sr_scheduled_at step)),
           (''handoff_id'', jid_opt X (sr_handoff_id step)),
           (''task_grant_id'', jid_opt X (sr_task_grant_id step))]))"

definition record_workflow_transition
    :: "sys \<Rightarrow> workflow_run \<Rightarrow> workflow_step_run option \<Rightarrow> workflow_step_run option \<Rightarrow> string \<Rightarrow> string \<Rightarrow>
        json \<Rightarrow> json \<Rightarrow> workflow_transition eff" where
  "record_workflow_transition S run from_step to_step transition_type0 status0 condition_payload result_payload =
     (let X = lib S in
      bindS (liftS (require_non_empty transition_type0 ''workflow transition type'')) (\<lambda>transition_type.
      bindS (liftS (require_non_empty status0 ''workflow transition status'')) (\<lambda>status.
      bindS (now_utc S) (\<lambda>now. bindS (new_v4 S) (\<lambda>i.
      bindS (create_workflow_transition
        \<lparr>wt_id = i, wt_workflow_run_id = wr_id run,
         wt_from_step_run_id = map_option sr_id from_step,
         wt_from_step_key = map_option sr_step_key from_step,
         wt_to_step_run_id = map_option sr_id to_step,
         wt_to_step_key = map_option sr_step_key to_step,
         wt_transition_type = transition_type, wt_status = status,
         wt_condition_payload = condition_payload, wt_result_payload = result_payload,
         wt_created_at = now\<rparr>) (\<lambda>t.
      thenS (record_event_and_audit S (Some (wt_id t)) (wr_primary_session_id run)
        ''workflow.transition.created''
        (mk_obj
          [(''workflow_transition_id'', jid X (wt_id t)),
           (''workflow_run_id'', jid X (wt_workflow_run_id t)),
           (''from_step_run_id'', jid_opt X (wt_from_step_run_id t)),
           (''from_step_key'', jstr_opt (wt_from_step_key t)),
           (''to_step_run_id'', jid_opt X (wt_to_step_run_id t)),
           (''to_step_key'', jstr_opt (wt_to_step_key t)),
           (''transition_type'', JStr (wt_transition_type t)), (''status'', JStr (wt_status t)),
           (''condition_payload'', wt_condition_payload t),
           (''result_payload'', wt_result_payload t)])
        ''workflow_transition.created'' ''workflow_transition''
        (mk_obj
          [(''workflow_run_id'', jid X (wt_workflow_run_id t)),
           (''from_step_run_id'', jid_opt X (wt_from_step_run_id t)),
           (''from_step_key'', jstr_opt (wt_from_step_key t)),
           (''to_step_run_id'', jid_opt X (wt_to_step_run_id t)),
           (''to_step_key'', jstr_opt (wt_to_step_key t)),
           (''transition_type'', JStr (wt_transition_type t)), (''status'', JStr (wt_status t))]))
        (retS t)))))))"

definition record_task_grant_checked :: "sys \<Rightarrow> task_grant \<Rightarrow> uuid \<Rightarrow> string \<Rightarrow> unit eff" where
  "record_task_grant_checked S grant session_id tool_name =
     (let X = lib S;
          usage = [(''turns_used'', JInt (tg_turns_used grant)),
                   (''tool_calls_used'', JInt (tg_tool_calls_used grant)),
                   (''cost_usd_micros_used'', JInt (tg_cost_usd_micros_used grant))]
      in record_event_and_audit S (Some (tg_id grant)) session_id ''task_grant.checked''
        (mk_obj ([(''task_grant_id'', jid X (tg_id grant)),
                  (''workflow_run_id'', jid X (tg_workflow_run_id grant)),
                  (''tool'', JStr tool_name), (''status'', JStr ''allowed'')] @ usage))
        ''task_grant.checked'' ''task_grant''
        (mk_obj ([(''workflow_run_id'', jid X (tg_workflow_run_id grant)),
                  (''tool'', JStr tool_name), (''status'', JStr ''allowed'')] @ usage)))"

definition record_task_grant_denied
    :: "sys \<Rightarrow> uuid \<Rightarrow> task_grant option \<Rightarrow> uuid option \<Rightarrow> string \<Rightarrow> string \<Rightarrow> unit eff" where
  "record_task_grant_denied S session_id grant workflow_run_id tool_name reason =
     (let X = lib S; grant_id = map_option tg_id grant;
          run_id = opt_or (map_option tg_workflow_run_id grant) workflow_run_id
      in record_event_and_audit S grant_id session_id ''task_grant.denied''
        (mk_obj [(''task_grant_id'', jid_opt X grant_id), (''workflow_run_id'', jid_opt X run_id),
                 (''tool'', JStr tool_name), (''status'', JStr ''denied''),
                 (''reason'', JStr reason)])
        ''task_grant.denied'' ''task_grant''
        (mk_obj [(''workflow_run_id'', jid_opt X run_id),
                 (''tool'', JStr tool_name), (''status'', JStr ''denied''),
                 (''reason'', JStr reason)]))"

section \<open>Runs and sessions\<close>

definition workflow_run_owns_session :: "sys \<Rightarrow> workflow_run \<Rightarrow> uuid \<Rightarrow> bool eff" where
  "workflow_run_owns_session S run session_id =
     (if wr_primary_session_id run = session_id then retS True
      else bindS (list_workflow_step_runs S (wr_id run)) (\<lambda>steps.
        retS (list_ex (\<lambda>step. sr_session_id step = Some session_id) steps)))"

fun first_owning_run :: "sys \<Rightarrow> uuid \<Rightarrow> workflow_run list \<Rightarrow> workflow_run option eff" where
  "first_owning_run S session_id [] = retS None"
| "first_owning_run S session_id (run # runs) =
     bindS (workflow_run_owns_session S run session_id) (\<lambda>owns.
       if owns then retS (Some run) else first_owning_run S session_id runs)"

definition workflow_run_for_session :: "sys \<Rightarrow> uuid \<Rightarrow> workflow_run option eff" where
  "workflow_run_for_session S session_id =
     bindS (list_workflow_runs S) (\<lambda>runs.
       case find_first (\<lambda>run. wr_primary_session_id run = session_id) runs of
         Some run \<Rightarrow> retS (Some run)
       | None \<Rightarrow> first_owning_run S session_id runs)"

text \<open>The first refusal along the lineage of a grant; a grant found expired is marked so.\<close>

fun first_lineage_denial :: "sys \<Rightarrow> timestamp \<Rightarrow> task_grant list \<Rightarrow> string option eff" where
  "first_lineage_denial S now [] = retS None"
| "first_lineage_denial S now (candidate # rest) =
     bindS (case tg_workflow_step_run_id candidate of
         None \<Rightarrow> retS False
       | Some step_id \<Rightarrow> bindS (get_workflow_step_run step_id) (\<lambda>step.
           retS (workflow_step_status_terminal (sr_status step)))) (\<lambda>step_terminal.
     if step_terminal then retS (Some ''task grant workflow step is terminal'')
     else case task_grant_runtime_denial candidate now of
       Some (reason, expire) \<Rightarrow>
         thenS (whenS (expire \<and> tg_status candidate = ''active'')
                  (bindS (update_task_grant_status S (tg_id candidate) ''expired'') (\<lambda>_. retS ())))
           (retS (Some reason))
     | None \<Rightarrow> first_lineage_denial S now rest)"

definition task_grant_lineage_denial :: "sys \<Rightarrow> task_grant \<Rightarrow> string option eff" where
  "task_grant_lineage_denial S grant =
     bindS (now_utc S) (\<lambda>now. bindS (task_grant_lineage (tg_id grant)) (first_lineage_denial S now))"

definition not_denied :: "string option \<Rightarrow> unit eff" where
  "not_denied denial = (case denial of None \<Rightarrow> retS () | Some reason \<Rightarrow> failS (forbidden reason))"

text \<open>The grant of a session that is not the primary one: the latest that names it.\<close>

definition latest_session_grant :: "sys \<Rightarrow> workflow_run \<Rightarrow> uuid \<Rightarrow> task_grant eff" where
  "latest_session_grant S run session_id =
     bindS (list_task_grants_for_workflow_run S (wr_id run)) (\<lambda>grants.
       liftS (ok_or (forbidden ''task grant is required for workflow session'')
         (let matching = sort_key tg_created_at
                (filter (\<lambda>g. task_grant_session_matches g run session_id) grants)
          in if matching = [] then None else Some (last matching))))"

definition session_grant :: "sys \<Rightarrow> workflow_run \<Rightarrow> uuid \<Rightarrow> task_grant eff" where
  "session_grant S run session_id =
     (if wr_primary_session_id run = session_id
      then bindS (liftS (ok_or (forbidden ''task grant is required for workflow session'')
                    (wr_root_task_grant_id run))) get_task_grant
      else latest_session_grant S run session_id)"

definition active_task_grant_for_session :: "sys \<Rightarrow> uuid \<Rightarrow> (workflow_run \<times> task_grant) option eff" where
  "active_task_grant_for_session S session_id =
     bindS (workflow_run_for_session S session_id) (\<lambda>found.
     case found of
       None \<Rightarrow> retS None
     | Some run \<Rightarrow>
         bindS (session_grant S run session_id) (\<lambda>grant.
         bindS (task_grant_lineage_denial S grant) (\<lambda>denial.
         thenS (not_denied denial) (retS (Some (run, grant))))))"

definition governing_task_grant_for_memory_writeback
    :: "sys \<Rightarrow> uuid \<Rightarrow> (workflow_run \<times> task_grant) option eff" where
  "governing_task_grant_for_memory_writeback S session_id =
     bindS (workflow_run_for_session S session_id) (\<lambda>found.
     case found of
       None \<Rightarrow> retS None
     | Some run \<Rightarrow>
         if wr_status run \<noteq> ''completed'' then active_task_grant_for_session S session_id
         else
           bindS (session_grant S run session_id) (\<lambda>grant.
           thenS (guardS (task_grant_session_matches grant run session_id)
                    (forbidden ''task grant is not valid for this session''))
           (bindS (task_grant_lineage (tg_id grant)) (\<lambda>lineage.
            thenS (guardS (list_all (\<lambda>candidate. tg_status candidate = ''completed'') lineage)
                     (forbidden ''completed workflow memory governance requires completed task grants''))
              (retS (Some (run, grant)))))))"

definition require_active_task_grant_for_session :: "sys \<Rightarrow> uuid \<Rightarrow> (workflow_run \<times> task_grant) eff" where
  "require_active_task_grant_for_session S session_id =
     bindS (active_task_grant_for_session S session_id) (\<lambda>found.
     bindS (liftS (ok_or (forbidden ''workflow session requires an active TaskGrant'') found)) (\<lambda>(run, grant).
     thenS (not_denied (workflow_run_execution_denial (wr_status run))) (retS (run, grant))))"

section \<open>The check of a tool call\<close>

record execute_tool =
  xt_session_id :: uuid
  xt_task_grant_id :: "uuid option"
  xt_args :: json

definition validate_task_grant_for_tool_invocation
    :: "sys \<Rightarrow> string \<Rightarrow> execute_tool \<Rightarrow> bool \<Rightarrow> bool \<Rightarrow> bool \<Rightarrow> task_grant option eff" where
  "validate_task_grant_for_tool_invocation S tool_name input reserve_tool_call record_denied record_checked =
     (let session_id = xt_session_id input;
          deny = (\<lambda>grant run_id reason.
            thenS (whenS record_denied
                     (record_task_grant_denied S session_id grant run_id tool_name reason))
              (failS (forbidden reason)))
      in
      bindS (workflow_run_for_session S session_id) (\<lambda>workflow_run.
      case xt_task_grant_id input of
        None \<Rightarrow>
          (case workflow_run of
             Some run \<Rightarrow> deny None (Some (wr_id run))
               ''task grant is required for workflow tool execution''
           | None \<Rightarrow> retS None)
      | Some task_grant_id \<Rightarrow>
          bindS (get_task_grant task_grant_id) (\<lambda>grant.
          bindS (get_workflow_run (tg_workflow_run_id grant)) (\<lambda>run.
          let deny_grant = deny (Some grant) (Some (wr_id run)) in
          (case workflow_run_execution_denial (wr_status run) of
             Some reason \<Rightarrow> deny_grant reason
           | None \<Rightarrow>
          (if is_some_and workflow_run (\<lambda>r. wr_id r \<noteq> wr_id run)
              \<or> \<not> task_grant_session_matches grant run session_id
           then deny_grant ''task grant is not valid for this session''
           else
          bindS (get_session session_id) (\<lambda>session.
          if is_some_and (tg_grantee_agent_id grant) (\<lambda>agent_id. agent_id \<noteq> se_agent_id session)
          then deny_grant ''task grant grantee agent does not match this session''
          else
          bindS (case tg_agent_class grant of
              None \<Rightarrow> retS True
            | Some agent_class \<Rightarrow> bindS (get_agent S (se_agent_id session)) (\<lambda>agent.
                retS (task_grant_agent_class_matches agent agent_class))) (\<lambda>class_matches.
          if \<not> class_matches
          then deny_grant ''task grant agent class does not match this session''
          else
          bindS (task_grant_lineage_denial S grant) (\<lambda>lineage_denial.
          case lineage_denial of
            Some reason \<Rightarrow> deny_grant reason
          | None \<Rightarrow>
          (if \<not> task_grant_allows_tool grant tool_name
           then deny_grant ''task grant tool scope does not allow tool''
           else
          bindS (liftS (task_grant_connector_invocation_denial grant tool_name (xt_args input))) (\<lambda>denial.
          case denial of
            Some reason \<Rightarrow> deny_grant reason
          | None \<Rightarrow>
          bindS (if reserve_tool_call
                 then catchS (reserve_task_grant_tool_call S (tg_id grant)) (\<lambda>error.
                        thenS (whenS record_denied
                          (record_task_grant_denied S session_id (Some grant) (Some (wr_id run))
                             tool_name (err_message error))) (failS error))
                 else retS grant) (\<lambda>grant'.
          thenS (whenS record_checked (record_task_grant_checked S grant' session_id tool_name))
            (retS (Some grant'))))))))))))))"

definition revalidate_task_grant_for_tool_invocation
    :: "sys \<Rightarrow> string \<Rightarrow> execute_tool \<Rightarrow> task_grant option eff" where
  "revalidate_task_grant_for_tool_invocation S tool_name input =
     validate_task_grant_for_tool_invocation S tool_name input False True True"

definition preview_task_grant_for_tool_invocation
    :: "sys \<Rightarrow> string \<Rightarrow> execute_tool \<Rightarrow> task_grant option eff" where
  "preview_task_grant_for_tool_invocation S tool_name input =
     validate_task_grant_for_tool_invocation S tool_name input False True False"

section \<open>The root grant of a run\<close>

definition issue_root_task_grant_for_workflow_run
    :: "sys \<Rightarrow> workflow_run \<Rightarrow> workflow_definition \<Rightarrow> session \<Rightarrow> task_grant eff" where
  "issue_root_task_grant_for_workflow_run S run d session =
     bindS (now_utc S) (\<lambda>now.
     bindS (get_agent S (wd_default_agent_id d)) (\<lambda>grantee_agent.
     let agent_class = (if trim (ag_agent_role grantee_agent) = [] then ag_kind grantee_agent
                        else ag_agent_role grantee_agent);
         scope = workflow_definition_root_task_grant_scope d;
         approval_policy0 = scope ''approval_policy'' default_task_grant_approval_policy;
         approval_policy = (case jget (wr_runtime_envelope run) ''ontology_release'' of
             Some ontology_release \<Rightarrow>
               insert_all [(''ontology_release_snapshot'', ontology_release)] approval_policy0
           | None \<Rightarrow> approval_policy0) in
     bindS (new_v4 S) (\<lambda>i.
     bindS (liftS (workflow_definition_root_task_grant_budget_i32 d ''max_turns'')) (\<lambda>max_turns.
     bindS (liftS (workflow_definition_root_task_grant_budget_i32 d ''max_tool_calls'')) (\<lambda>max_tool_calls.
     bindS (liftS (workflow_definition_root_task_grant_budget_i32 d ''max_runtime_seconds'')) (\<lambda>max_runtime_seconds.
     bindS (liftS (workflow_definition_root_task_grant_budget_i64 d ''max_cost_usd_micros'')) (\<lambda>max_cost_usd_micros.
     let grant = \<lparr>tg_id = i, tg_workflow_run_id = wr_id run, tg_workflow_step_run_id = None,
           tg_session_id = Some (se_id session), tg_parent_grant_id = None,
           tg_source_event_id = wr_source_event_id run, tg_source_handoff_id = None,
           tg_issuer_subject = ''system'', tg_grantee_agent_id = Some (wd_default_agent_id d),
           tg_grantee_session_id = Some (se_id session), tg_agent_class = Some agent_class,
           tg_objective = se_title session, tg_risk_level = ''low'', tg_status = ''active'',
           tg_expires_at = None, tg_max_turns = max_turns, tg_max_tool_calls = max_tool_calls,
           tg_max_runtime_seconds = max_runtime_seconds,
           tg_max_cost_usd_micros = max_cost_usd_micros,
           tg_turns_used = 0, tg_tool_calls_used = 0, tg_cost_usd_micros_used = 0,
           tg_semantic_scopes = scope ''semantic_scopes'' empty_json_object,
           tg_memory_scope = scope ''memory_scope'' default_task_grant_memory_scope,
           tg_tool_scope = scope ''tool_scope'' default_task_grant_tool_scope,
           tg_connector_scope = scope ''connector_scope'' default_task_grant_connector_scope,
           tg_approval_policy = approval_policy,
           tg_external_effects = scope ''external_effects'' default_task_grant_external_effects,
           tg_context_packet_id = None, tg_policy_revision_id = None,
           tg_immutable_args_hash = None, tg_audit_trace_id = None,
           tg_created_at = now, tg_updated_at = now\<rparr> in
     bindS (liftS (validate_task_grant_scope_objects grant)) (\<lambda>_.
     bindS (liftS (validate_task_grant_budgets grant)) (\<lambda>_.
     bindS (create_task_grant S grant) (\<lambda>grant'.
     thenS (record_task_grant_issued S grant' (wr_primary_session_id run)) (retS grant')))))))))))"

end
