(* ===== verification/Materialize.thy ===== *)
theory Materialize
  imports Enforcement
begin

text \<open>
  From a workflow definition to a run: the creation of a run with its session, root grant and
  start steps, and the materialisation of a graph step, which either shares the primary session
  and the root grant, waits blocked for an approval, or gets a session and a narrowed grant of
  its own (workflow_graph_core.rs).
\<close>

section \<open>Payloads\<close>

definition workflow_run_runtime_envelope
    :: "ext \<Rightarrow> workflow_definition \<Rightarrow> string \<Rightarrow> string option \<Rightarrow> string option \<Rightarrow> string option \<Rightarrow> json \<Rightarrow> json" where
  "workflow_run_runtime_envelope X d execution_strategy runtime_adapter runtime_mode external_run_ref request_envelope = mk_obj
     [(''source'', JStr ''workflow_run''),
      (''workflow_definition_id'', jid X (wd_id d)),
      (''execution_strategy'', JStr execution_strategy),
      (''runtime_adapter'', jstr_opt runtime_adapter),
      (''runtime_mode'', JStr (unwrap_or runtime_mode ''normal'')),
      (''external_run_ref'', jstr_opt external_run_ref),
      (''event_ingestion_policy'', JStr (wd_event_ingestion_policy d)),
      (''runtime_capability_contract'', wd_runtime_capability_contract d),
      (''request_envelope'', request_envelope)]"

definition workflow_run_runtime_envelope_with_pinned_ontology_release
    :: "sys \<Rightarrow> peers \<Rightarrow> workflow_definition \<Rightarrow> string \<Rightarrow> string option \<Rightarrow> string option \<Rightarrow> string option \<Rightarrow> json \<Rightarrow> json eff" where
  "workflow_run_runtime_envelope_with_pinned_ontology_release S P d execution_strategy
       runtime_adapter runtime_mode external_run_ref request_envelope =
     (let envelope = workflow_run_runtime_envelope (lib S) d execution_strategy runtime_adapter
            runtime_mode external_run_ref request_envelope;
          scopes = workflow_definition_root_task_grant_scope d ''semantic_scopes'' empty_json_object
      in bindS (active_ontology_release_metadata_for_scopes P scopes) (\<lambda>release.
         retS (case release of
             None \<Rightarrow> envelope
           | Some ontology_release \<Rightarrow>
               insert_all [(''ontology_release'',
                 insert_all [(''pinned_by'', JStr ''workflow_run_start'')] ontology_release)] envelope)))"

definition workflow_graph_step_input_payload :: "workflow_run \<Rightarrow> json \<Rightarrow> json \<Rightarrow> json" where
  "workflow_graph_step_input_payload run graph_step input_context = mk_obj
     ([(''source'', JStr ''step_graph''), (''graph_step'', graph_step),
       (''workflow_input'', wr_input_payload run),
       (''runtime_delegation'', mk_obj
         [(''execution_strategy'', JStr (wr_execution_strategy run)),
          (''runtime_adapter'', jstr_opt (wr_runtime_adapter run)),
          (''runtime_mode'', jstr_opt (wr_runtime_mode run)),
          (''delegation_status'', jstr_opt (wr_delegation_status run)),
          (''external_run_ref'', jstr_opt (wr_external_run_ref run)),
          (''runtime_event_cursor'', jstr_opt (wr_runtime_event_cursor run)),
          (''runtime_envelope'', wr_runtime_envelope run)])]
      @ unwrap_or (as_object input_context) [])"

section \<open>A graph step materialised\<close>

text \<open>The fields all branches share; the caller sets the rest.\<close>

definition new_step_run
    :: "uuid \<Rightarrow> workflow_run \<Rightarrow> string \<Rightarrow> string \<Rightarrow> uuid option \<Rightarrow> uuid option \<Rightarrow> uuid option \<Rightarrow> string \<Rightarrow>
        timestamp option \<Rightarrow> json \<Rightarrow> json \<Rightarrow> timestamp \<Rightarrow> workflow_step_run" where
  "new_step_run i run step_key step_type agent_id agent_version_id environment_id status scheduled_at
       input_payload output_payload now =
     \<lparr>sr_id = i, sr_workflow_run_id = wr_id run, sr_step_key = step_key, sr_step_type = step_type,
      sr_agent_id = agent_id, sr_agent_version_id = agent_version_id, sr_session_id = None,
      sr_thread_id = None, sr_handoff_id = None, sr_task_grant_id = None,
      sr_environment_id = environment_id, sr_status = status, sr_input_payload = input_payload,
      sr_output_payload = output_payload, sr_artifact_ids = [], sr_approval_ids = [],
      sr_tool_call_ids = [], sr_claimed_by_worker = None, sr_claim_owner_version = 0,
      sr_lease_expires_at = None, sr_context_packet_id = None,
      sr_started_at = (if workflow_step_status_terminal status then Some now else None),
      sr_completed_at = (if workflow_step_status_terminal status then Some now else None),
      sr_scheduled_at = scheduled_at, sr_created_at = now, sr_updated_at = now\<rparr>"

text \<open>The grant of a step that gets its own session: what the root grant has left, narrowed.\<close>

definition child_step_grant
    :: "sys \<Rightarrow> uuid \<Rightarrow> uuid \<Rightarrow> workflow_run \<Rightarrow> task_grant \<Rightarrow> agent \<Rightarrow> agent_version \<Rightarrow> uuid \<Rightarrow> json \<Rightarrow>
        string \<Rightarrow> string \<Rightarrow> task_grant_remaining_budgets \<Rightarrow> json \<times> json \<Rightarrow> timestamp \<Rightarrow> task_grant" where
  "child_step_grant S i step_id run root_grant target_agent target_version agent_id graph_step
       step_key risk_level remaining scopes now =
     \<lparr>tg_id = i, tg_workflow_run_id = wr_id run, tg_workflow_step_run_id = Some step_id,
      tg_session_id = None, tg_parent_grant_id = Some (tg_id root_grant),
      tg_source_event_id = wr_source_event_id run, tg_source_handoff_id = None,
      tg_issuer_subject = ''system'', tg_grantee_agent_id = Some agent_id,
      tg_grantee_session_id = None, tg_agent_class = Some (ag_agent_role target_agent),
      tg_objective = unwrap_or (trimmed_text (jget_str graph_step ''task'')) step_key,
      tg_risk_level = risk_level, tg_status = ''active'', tg_expires_at = tg_expires_at root_grant,
      tg_max_turns = rb_max_turns remaining, tg_max_tool_calls = rb_max_tool_calls remaining,
      tg_max_runtime_seconds = rb_max_runtime_seconds remaining,
      tg_max_cost_usd_micros = rb_max_cost_usd_micros remaining,
      tg_turns_used = 0, tg_tool_calls_used = 0, tg_cost_usd_micros_used = 0,
      tg_semantic_scopes = tg_semantic_scopes root_grant,
      tg_memory_scope = child_handoff_memory_scope (tg_memory_scope root_grant),
      tg_tool_scope = child_tool_scope_for_tools (set_iter S) (tg_tool_scope root_grant)
                        (av_tools target_version),
      tg_connector_scope = fst scopes, tg_approval_policy = tg_approval_policy root_grant,
      tg_external_effects = snd scopes, tg_context_packet_id = None,
      tg_policy_revision_id = tg_policy_revision_id root_grant,
      tg_immutable_args_hash = None, tg_audit_trace_id = None,
      tg_created_at = now, tg_updated_at = now\<rparr>"

definition pinned_version :: "uuid \<Rightarrow> uuid option \<Rightarrow> (uuid \<times> agent_version) eff" where
  "pinned_version agent_id graph_agent_version_id =
     bindS (liftS (ok_or (bad_request
       ''workflow graph steps assigned to another agent must pin agent_version_id'')
       graph_agent_version_id)) (\<lambda>agent_version_id.
     bindS (list_agent_versions agent_id) (\<lambda>versions.
     bindS (liftS (ok_or (not_found ''workflow step agent version not found'')
       (find_first (\<lambda>v. av_id v = agent_version_id) versions))) (\<lambda>version.
       retS (agent_version_id, version))))"

text \<open>A session initialised half-way is failed before the error is passed on.\<close>

definition or_fail_session :: "sys \<Rightarrow> peers \<Rightarrow> uuid \<Rightarrow> string \<Rightarrow> 'a eff \<Rightarrow> 'a eff" where
  "or_fail_session S P session_id reason m =
     catchS m (\<lambda>error.
       thenS (ignoreS (set_managed_session_status S P session_id Failed reason)) (failS error))"

definition blocked_step_payload :: "json \<Rightarrow> string \<Rightarrow> json \<Rightarrow> json" where
  "blocked_step_payload graph_step risk_level payload =
     insert_all [(''handoff_governance'', mk_obj
       [(''source_agent_ref'', jindex graph_step ''handoff_source_agent_ref''),
        (''intent'', jindex graph_step ''handoff_intent''),
        (''risk_level'', JStr risk_level), (''approval_required'', JBool True),
        (''schema_ref'', jindex graph_step ''handoff_schema_ref'')])] payload"

text \<open>The branch of a step that is over, or waits for an approval, and would be isolated.\<close>

definition materialize_without_session
    :: "sys \<Rightarrow> workflow_run \<Rightarrow> json \<Rightarrow> string \<Rightarrow> string \<Rightarrow> uuid \<Rightarrow> uuid option \<Rightarrow> uuid option \<Rightarrow> string \<Rightarrow>
        bool \<Rightarrow> string \<Rightarrow> timestamp option \<Rightarrow> json \<Rightarrow> json \<Rightarrow> timestamp \<Rightarrow> workflow_step_run eff" where
  "materialize_without_session S run graph_step step_key step_type agent_id graph_agent_version_id
       environment_id risk_level approval_blocked status scheduled_at input_context output_payload now =
     bindS (pinned_version agent_id graph_agent_version_id) (\<lambda>(agent_version_id, version).
     let input0 = workflow_graph_step_input_payload run graph_step input_context;
         input_payload = (if approval_blocked then blocked_step_payload graph_step risk_level input0
                          else input0) in
     bindS (new_v4 S) (\<lambda>i.
     bindS (create_workflow_step_run
       ((new_step_run i run step_key step_type (Some agent_id) (Some agent_version_id) environment_id
          (if approval_blocked then ''requires_action'' else status) scheduled_at input_payload
          (if approval_blocked
           then mk_obj [(''block_reason'', JStr ''handoff_approval_required'')]
           else output_payload) now)
        \<lparr>sr_started_at := Some now,
         sr_completed_at := (if workflow_step_status_terminal status then Some now else None)\<rparr>)) (\<lambda>step.
     thenS (record_workflow_step_run_created S run step) (retS step))))"

text \<open>The branch of a step with its own session and grant.\<close>

definition materialize_isolated
    :: "sys \<Rightarrow> peers \<Rightarrow> workflow_run \<Rightarrow> task_grant \<Rightarrow> json \<Rightarrow> string \<Rightarrow> string \<Rightarrow> uuid \<Rightarrow> uuid option \<Rightarrow>
        uuid option \<Rightarrow> string \<Rightarrow> string \<Rightarrow> timestamp option \<Rightarrow> json \<Rightarrow> json \<Rightarrow> timestamp \<Rightarrow> workflow_step_run eff" where
  "materialize_isolated S P run root_grant graph_step step_key step_type agent_id
       graph_agent_version_id environment_id risk_level status scheduled_at input_context
       output_payload now =
     bindS (liftS (ok_or (bad_request
       ''workflow graph steps assigned to another agent must pin agent_version_id'')
       graph_agent_version_id)) (\<lambda>agent_version_id.
     bindS (get_agent S agent_id) (\<lambda>target_agent.
     bindS (list_agent_versions agent_id) (\<lambda>versions.
     bindS (liftS (ok_or (not_found ''workflow step agent version not found'')
       (find_first (\<lambda>v. av_id v = agent_version_id) versions))) (\<lambda>target_version.
     bindS (liftS (task_grant_remaining_budgets root_grant now)) (\<lambda>remaining.
     bindS (liftS (child_connector_scopes_for_agent_version (tg_connector_scope root_grant)
              (tg_external_effects root_grant) target_version)) (\<lambda>scopes.
     bindS (new_v4 S) (\<lambda>step_id. bindS (new_v4 S) (\<lambda>grant_id.
     let child_grant = child_step_grant S grant_id step_id run root_grant target_agent target_version
           agent_id graph_step step_key risk_level remaining scopes now in
     bindS (liftS (validate_task_grant_scope_objects child_grant)) (\<lambda>_.
     bindS (liftS (validate_task_grant_budgets child_grant)) (\<lambda>_.
     bindS (liftS (ensure_child_task_grant_within_parent root_grant child_grant)) (\<lambda>_.
     bindS (create_session_for_agent_version S P
       \<lparr>cs_agent_id = agent_id, cs_environment_id = environment_id,
        cs_title = show_uuid (lib S) (wr_id run) @ '' / '' @ step_key, cs_message = None\<rparr>
       agent_version_id) (\<lambda>child_session.
     bindS (or_fail_session S P (se_id child_session)
         ''workflow child session initialization failed before thread creation''
         (ensure_primary_session_thread S (se_id child_session))) (\<lambda>child_thread.
     let bound_grant = child_grant\<lparr>tg_session_id := Some (se_id child_session),
                                   tg_grantee_session_id := Some (se_id child_session)\<rparr>;
         new_step = (new_step_run step_id run step_key step_type (Some agent_id)
             (Some agent_version_id) environment_id status scheduled_at
             (workflow_graph_step_input_payload run graph_step input_context) output_payload now)
           \<lparr>sr_session_id := Some (se_id child_session), sr_thread_id := Some (st_id child_thread),
            sr_task_grant_id := Some grant_id\<rparr> in
     bindS (or_fail_session S P (se_id child_session)
         ''workflow child session initialization failed before step grant commit''
         (create_workflow_step_run_with_task_grant S new_step bound_grant)) (\<lambda>(step, created_grant).
     thenS (record_task_grant_issued S created_grant (wr_primary_session_id run))
     (thenS (record_workflow_step_run_created S run step) (retS step))))))))))))))))"

text \<open>The branch of a step that runs in the primary session under the root grant.\<close>

definition materialize_shared
    :: "sys \<Rightarrow> workflow_run \<Rightarrow> session \<Rightarrow> task_grant \<Rightarrow> json \<Rightarrow> string \<Rightarrow> string \<Rightarrow> uuid option \<Rightarrow>
        uuid option \<Rightarrow> uuid option \<Rightarrow> string \<Rightarrow> timestamp option \<Rightarrow> json \<Rightarrow> json \<Rightarrow> timestamp \<Rightarrow> workflow_step_run eff" where
  "materialize_shared S run session root_grant graph_step step_key step_type agent_id
       graph_agent_version_id environment_id status scheduled_at input_context output_payload now =
     thenS (guardS (\<not> is_some_and graph_agent_version_id (\<lambda>v. se_agent_version_id session \<noteq> Some v))
       (bad_request ''workflow graph step agent version must match its bound session version''))
     (bindS (new_v4 S) (\<lambda>i.
      bindS (create_workflow_step_run
        ((new_step_run i run step_key step_type agent_id
           (if agent_id = None then None else se_agent_version_id session) environment_id status
           scheduled_at (workflow_graph_step_input_payload run graph_step input_context)
           output_payload now)
         \<lparr>sr_session_id := Some (se_id session), sr_task_grant_id := Some (tg_id root_grant)\<rparr>)) (\<lambda>step.
      thenS (record_workflow_step_run_created S run step) (retS step))))"

definition step_approval_required :: "json \<Rightarrow> bool res" where
  "step_approval_required graph_step =
     (case jget graph_step ''approval_required'' of
        Some v \<Rightarrow> ok_or (bad_request ''workflow graph step approval_required must be boolean'') (as_bool v)
      | None \<Rightarrow> Inr False)"

definition materialize_workflow_graph_step_with_policy_context
    :: "sys \<Rightarrow> peers \<Rightarrow> workflow_definition \<Rightarrow> workflow_run \<Rightarrow> session \<Rightarrow> task_grant \<Rightarrow> json \<Rightarrow> string \<Rightarrow>
        timestamp option \<Rightarrow> json \<Rightarrow> json \<Rightarrow> workflow_step_run eff" where
  "materialize_workflow_graph_step_with_policy_context S P d run session root_grant graph_step
       status scheduled_at input_context output_payload =
     bindS (liftS (workflow_graph_step_key graph_step)) (\<lambda>step_key.
     let step_type = workflow_graph_step_type graph_step in
     bindS (liftS (workflow_graph_step_agent_id (lib S) d graph_step)) (\<lambda>agent_id.
     bindS (liftS (workflow_graph_step_agent_version_id (lib S) graph_step)) (\<lambda>version_id.
     bindS (liftS (workflow_graph_step_uuid (lib S) graph_step ''environment_id'')) (\<lambda>step_environment.
     let environment_id = opt_or step_environment (se_environment_id session) in
     bindS (now_utc S) (\<lambda>now.
     bindS (liftS (normalize_task_grant_risk_level
       (unwrap_or (jget_str graph_step ''risk_level'') ''low''))) (\<lambda>risk_level.
     bindS (liftS (step_approval_required graph_step)) (\<lambda>approval_required.
     let terminal = workflow_step_status_terminal status;
         approval_blocked = approval_required \<and> \<not> terminal in
     bindS (liftS (workflow_graph_step_requires_isolated_handoff_context graph_step agent_id
              (se_agent_id session))) (\<lambda>isolated.
     thenS (guardS (\<not> (isolated \<and> risk_level = ''high'' \<and> \<not> approval_required))
       (bad_request ''high-risk workflow handoffs must require approval''))
     (case (if isolated then agent_id else None) of
        Some target \<Rightarrow>
          if terminal \<or> approval_blocked
          then materialize_without_session S run graph_step step_key step_type target version_id
                 environment_id risk_level approval_blocked status scheduled_at input_context
                 output_payload now
          else materialize_isolated S P run root_grant graph_step step_key step_type target version_id
                 environment_id risk_level status scheduled_at input_context output_payload now
      | None \<Rightarrow>
          materialize_shared S run session root_grant graph_step step_key step_type agent_id version_id
            environment_id status scheduled_at input_context output_payload now)))))))))"

definition materialize_workflow_graph_step
    :: "sys \<Rightarrow> peers \<Rightarrow> workflow_definition \<Rightarrow> workflow_run \<Rightarrow> session \<Rightarrow> task_grant \<Rightarrow> json \<Rightarrow> workflow_step_run eff" where
  "materialize_workflow_graph_step S P d run session root_grant graph_step =
     materialize_workflow_graph_step_with_policy_context S P d run session root_grant graph_step
       ''queued'' None empty_json_object empty_json_object"

section \<open>The start of a run\<close>

definition materialize_workflow_graph_start_steps
    :: "sys \<Rightarrow> peers \<Rightarrow> workflow_definition \<Rightarrow> workflow_run \<Rightarrow> session \<Rightarrow> task_grant \<Rightarrow> workflow_run eff" where
  "materialize_workflow_graph_start_steps S P d run session root_grant =
     bindS (liftS (workflow_graph_start_steps (wd_step_graph d))) (\<lambda>start_steps.
     bindS (mapS (\<lambda>graph_step.
       bindS (materialize_workflow_graph_step S P d run session root_grant graph_step) (\<lambda>step.
       bindS (record_workflow_transition S run None (Some step) ''start'' ''materialized''
         (mk_obj [(''source'', JStr ''step_graph_start''), (''graph_step'', graph_step)])
         empty_json_object) (\<lambda>_. retS step))) start_steps) (\<lambda>materialized.
     update_workflow_run_status S (wr_id run)
       (if list_ex (\<lambda>step. sr_status step = ''requires_action'') materialized
        then ''requires_action'' else ''queued'')
       (wr_started_at run) (wr_completed_at run)))"

definition create_workflow_run_from_definition
    :: "sys \<Rightarrow> peers \<Rightarrow> workflow_definition \<Rightarrow> string \<Rightarrow> json \<Rightarrow> json \<Rightarrow> workflow_run eff" where
  "create_workflow_run_from_definition S P d title input_payload runtime_envelope_request =
     thenS (guardS (wd_release_state d = ''released'')
       (bad_request ''workflow run requires a released workflow definition''))
     (thenS (check_environment (wd_default_environment_id d))
     (bindS (liftS (validate_workflow_execution_binding (wd_execution_strategy d)
              (wd_runtime_adapter d) (wd_runtime_capability_contract d))) (\<lambda>_.
      let session_input = \<lparr>cs_agent_id = wd_default_agent_id d,
            cs_environment_id = wd_default_environment_id d, cs_title = title, cs_message = None\<rparr> in
      bindS (liftS (workflow_definition_agent_version_id (lib S) d (wd_default_agent_id d))) (\<lambda>pinned.
      bindS (case pinned of
          Some agent_version_id \<Rightarrow> create_session_for_agent_version S P session_input agent_version_id
        | None \<Rightarrow> create_session S P session_input) (\<lambda>session.
      bindS (ensure_primary_session_thread S (se_id session)) (\<lambda>_.
      bindS (now_utc S) (\<lambda>now.
      bindS (workflow_run_runtime_envelope_with_pinned_ontology_release S P d
               (wd_execution_strategy d) (wd_runtime_adapter d) (wd_runtime_mode d) None
               runtime_envelope_request) (\<lambda>runtime_envelope.
      bindS (new_v4 S) (\<lambda>i.
      bindS (create_workflow_run
        \<lparr>wr_id = i, wr_workflow_definition_id = wd_id d,
         wr_pack_installation_id = wd_pack_installation_id d, wr_source_event_id = None,
         wr_source_work_item_id = None, wr_source_schedule_id = None, wr_status = ''queued'',
         wr_primary_session_id = se_id session, wr_root_task_grant_id = None,
         wr_input_payload = input_payload,
         wr_input_digest = workflow_input_digest (lib S) input_payload,
         wr_execution_strategy = wd_execution_strategy d, wr_runtime_adapter = wd_runtime_adapter d,
         wr_runtime_mode = wd_runtime_mode d,
         wr_delegation_status = (if wd_execution_strategy d = ''delegated_runtime''
                                 then Some ''submitted'' else None),
         wr_external_run_ref = None, wr_runtime_event_cursor = None,
         wr_runtime_envelope = runtime_envelope, wr_started_at = None, wr_completed_at = None,
         wr_audit_trace_id = None, wr_created_at = now, wr_updated_at = now\<rparr>) (\<lambda>run0.
      bindS (issue_root_task_grant_for_workflow_run S run0 d session) (\<lambda>root_grant.
      bindS (update_workflow_run_root_task_grant S (wr_id run0) (tg_id root_grant)) (\<lambda>run.
        materialize_workflow_graph_start_steps S P d run session root_grant))))))))))))"

definition trigger_workflow_run_from_webhook :: "sys \<Rightarrow> peers \<Rightarrow> uuid \<Rightarrow> json \<Rightarrow> workflow_run eff" where
  "trigger_workflow_run_from_webhook S P workflow_definition_id input_payload =
     bindS (get_workflow_definition workflow_definition_id) (\<lambda>d.
       create_workflow_run_from_definition S P d (''Webhook: '' @ wd_name d) input_payload
         (mk_obj []))"

end
