(* ===== verification/Advance.thy ===== *)
theory Advance
  imports Materialize
begin

text \<open>
  The advancement of a run after one of its steps changed (workflow_graph_advancement.rs):
  ready steps are materialised, skipped or deferred until none is left, a failed step is retried
  or its compensation is started and its dependents are skipped, and the status of the run
  follows, up to the closing of its grants and its session.
\<close>

section \<open>Recording a change\<close>

text \<open>\<open>str::replace\<close>: every occurrence, from the left.\<close>

function str_replace :: "string \<Rightarrow> string \<Rightarrow> string \<Rightarrow> string" where
  "str_replace pat by_text s =
     (if pat = [] then s
      else case s of
        [] \<Rightarrow> []
      | c # rest \<Rightarrow>
          if take (length pat) s = pat then by_text @ str_replace pat by_text (drop (length pat) s)
          else c # str_replace pat by_text rest)"
  by pat_completeness auto
termination
  by (relation "measure (\<lambda>(p, b, s). length s)") (auto simp: neq_Nil_conv)

declare str_replace.simps [simp del]

definition record_workflow_step_run_updated
    :: "sys \<Rightarrow> workflow_run \<Rightarrow> workflow_step_run \<Rightarrow> string \<Rightarrow> unit eff" where
  "record_workflow_step_run_updated S run step previous_status =
     (let X = lib S;
          event_type = (if previous_status \<noteq> sr_status step
                        then ''workflow.step.'' @ sr_status step else ''workflow.step.updated'')
      in record_event_and_audit S (Some (sr_id step)) (wr_primary_session_id run) event_type
        (mk_obj
          [(''workflow_run_id'', jid X (wr_id run)), (''workflow_step_run_id'', jid X (sr_id step)),
           (''step_key'', JStr (sr_step_key step)), (''previous_status'', JStr previous_status),
           (''status'', JStr (sr_status step)), (''scheduled_at'', jtime_opt X (sr_scheduled_at step)),
           (''output_payload'', sr_output_payload step),
           (''artifact_ids'', jids X (sr_artifact_ids step)),
           (''approval_ids'', jids X (sr_approval_ids step)),
           (''tool_call_ids'', jids X (sr_tool_call_ids step))])
        (str_replace ''workflow.step'' ''workflow_step_run'' event_type) ''workflow_step_run''
        (mk_obj
          [(''workflow_run_id'', jid X (wr_id run)), (''step_key'', JStr (sr_step_key step)),
           (''previous_status'', JStr previous_status), (''status'', JStr (sr_status step)),
           (''scheduled_at'', jtime_opt X (sr_scheduled_at step))]))"

definition finish_completed_workflow_session :: "sys \<Rightarrow> peers \<Rightarrow> workflow_run \<Rightarrow> unit eff" where
  "finish_completed_workflow_session S P run =
     (if wr_status run \<noteq> ''completed'' then retS ()
      else bindS (get_session (wr_primary_session_id run)) (\<lambda>session.
        if \<not> session_terminal (se_status session)
        then bindS (set_managed_session_status S P (se_id session) Terminated
               ''workflow objectives completed'') (\<lambda>_. retS ())
        else cleanup_remote_computer_session_runtimes P (se_id session)
               ''workflow objectives completed''))"

definition update_workflow_run_status_and_record
    :: "sys \<Rightarrow> peers \<Rightarrow> workflow_run \<Rightarrow> string \<Rightarrow> workflow_run eff" where
  "update_workflow_run_status_and_record S P run status =
     (if wr_status run = status
      then thenS (finish_completed_workflow_session S P run) (retS run)
      else bindS (now_utc S) (\<lambda>now.
        let X = lib S; terminal = workflow_step_status_terminal status;
            started_at = opt_or (wr_started_at run) (Some now);
            completed_at = (if terminal then opt_or (wr_completed_at run) (Some now) else None);
            event_type = ''workflow.run.'' @ status in
        bindS (update_workflow_run_status S (wr_id run) status started_at completed_at) (\<lambda>updated.
        thenS (whenS terminal (bindS (close_active_task_grants_for_workflow_run S (wr_id run)
                 (if workflow_step_status_successful status then ''completed'' else ''cancelled''))
                 (\<lambda>_. retS ())))
        (thenS (record_event_and_audit S (Some (wr_id run)) (wr_primary_session_id run) event_type
          (mk_obj
            [(''workflow_run_id'', jid X (wr_id run)), (''previous_status'', JStr (wr_status run)),
             (''status'', JStr (wr_status updated)),
             (''started_at'', jtime_opt X (wr_started_at updated)),
             (''completed_at'', jtime_opt X (wr_completed_at updated))])
          (str_replace ''workflow.run'' ''workflow_run'' event_type) ''workflow_run''
          (mk_obj
            [(''previous_status'', JStr (wr_status run)), (''status'', JStr (wr_status updated)),
             (''started_at'', jtime_opt X (wr_started_at updated)),
             (''completed_at'', jtime_opt X (wr_completed_at updated))]))
        (thenS (finish_completed_workflow_session S P updated) (retS updated))))))"

section \<open>The state of a run's steps\<close>

definition workflow_graph_step_attempt_count :: "workflow_step_run list \<Rightarrow> string \<Rightarrow> nat" where
  "workflow_graph_step_attempt_count existing_steps step_key =
     length (filter (\<lambda>step. sr_step_key step = step_key) existing_steps)"

text \<open>Keys whose last run failed, was cancelled, or was skipped because of a failure.\<close>

definition step_blocks :: "workflow_step_run \<Rightarrow> bool" where
  "step_blocks step \<longleftrightarrow>
     sr_status step \<in> {''failed'', ''canceled''}
     \<or> (sr_status step = ''skipped''
        \<and> jget_str (sr_output_payload step) ''skip_reason'' = Some ''dependency_failed'')"

definition workflow_graph_blocking_failure_keys :: "workflow_step_run list \<Rightarrow> string set" where
  "workflow_graph_blocking_failure_keys existing_steps =
     set (filter (\<lambda>key. is_some_and (workflow_graph_latest_step existing_steps key) step_blocks)
       (map sr_step_key existing_steps))"

definition workflow_graph_terminal_failure_status :: "sys \<Rightarrow> workflow_run \<Rightarrow> string option eff" where
  "workflow_graph_terminal_failure_status S run =
     bindS (list_workflow_step_runs S (wr_id run)) (\<lambda>steps. retS
       (if list_ex (\<lambda>step. \<not> workflow_step_status_terminal (sr_status step)) steps then None
        else if list_ex (\<lambda>step. sr_status step = ''failed'') steps then Some ''failed''
        else if list_ex (\<lambda>step. sr_status step = ''canceled'') steps then Some ''canceled''
        else None))"

definition workflow_graph_failed_step_keys :: "sys \<Rightarrow> workflow_run \<Rightarrow> string list eff" where
  "workflow_graph_failed_step_keys S run =
     bindS (list_workflow_step_runs S (wr_id run)) (\<lambda>steps. retS
       (sort (remdups (map sr_step_key (filter (\<lambda>step. sr_status step = ''failed'') steps)))))"

text \<open>Whether the steps so far complete the graph, given its keys.\<close>

definition graph_completed :: "string list \<Rightarrow> workflow_step_run list \<Rightarrow> bool" where
  "graph_completed graph_keys existing_steps \<longleftrightarrow>
     graph_keys \<noteq> []
     \<and> \<not> list_ex (\<lambda>step. sr_step_key step \<in> set graph_keys
                     \<and> workflow_step_run_is_handoff_approval_blocked step) existing_steps
     \<and> list_all (\<lambda>key. is_some_and (existing_by_key existing_steps key)
                     workflow_step_status_successful) graph_keys"

definition workflow_graph_run_completed
    :: "sys \<Rightarrow> workflow_definition \<Rightarrow> workflow_run \<Rightarrow> bool eff" where
  "workflow_graph_run_completed S d run =
     bindS (liftS (workflow_graph_step_keys (wd_step_graph d))) (\<lambda>graph_keys.
     if graph_keys = [] then retS False
     else bindS (list_workflow_step_runs S (wr_id run)) (\<lambda>existing_steps.
       retS (graph_completed graph_keys existing_steps)))"

section \<open>The status of the run after a transition\<close>

definition graph_keys_payload :: "string \<Rightarrow> string list \<Rightarrow> json" where
  "graph_keys_payload source keys = mk_obj [(''source'', JStr source), (''graph_keys'', json_strs keys)]"

definition finalize_workflow_graph_after_transition_policy
    :: "sys \<Rightarrow> peers \<Rightarrow> workflow_definition \<Rightarrow> workflow_run \<Rightarrow> workflow_step_run \<Rightarrow> unit eff" where
  "finalize_workflow_graph_after_transition_policy S P d run step =
     bindS (get_workflow_run (wr_id run)) (\<lambda>current_run.
     bindS (workflow_graph_run_completed S d current_run) (\<lambda>completed.
     if completed then
       bindS (update_workflow_run_status_and_record S P current_run ''completed'') (\<lambda>updated.
       bindS (liftS (workflow_graph_step_keys (wd_step_graph d))) (\<lambda>keys.
       bindS (record_workflow_transition S updated (Some step) None ''complete'' ''completed''
         (graph_keys_payload ''step_graph_complete'' keys)
         (mk_obj [(''workflow_status'', JStr (wr_status updated)),
                  (''completed_at'', jtime_opt (lib S) (wr_completed_at updated))])) (\<lambda>_. retS ())))
     else bindS (workflow_graph_terminal_failure_status S current_run) (\<lambda>failure.
       case failure of
         Some failure_status \<Rightarrow>
           bindS (update_workflow_run_status_and_record S P current_run failure_status) (\<lambda>updated.
           bindS (workflow_graph_failed_step_keys S updated) (\<lambda>failed_step_keys.
           bindS (liftS (workflow_graph_step_keys (wd_step_graph d))) (\<lambda>keys.
           bindS (record_workflow_transition S updated (Some step) None ''fail'' failure_status
             (graph_keys_payload ''step_graph_terminal_failure'' keys)
             (mk_obj [(''workflow_status'', JStr (wr_status updated)),
                      (''completed_at'', jtime_opt (lib S) (wr_completed_at updated)),
                      (''failed_step_keys'', json_strs failed_step_keys)])) (\<lambda>_. retS ()))))
       | None \<Rightarrow>
           bindS (liftS (workflow_graph_step_keys (wd_step_graph d))) (\<lambda>graph_keys.
           bindS (list_workflow_step_runs S (wr_id run)) (\<lambda>steps.
           bindS (update_workflow_run_status_and_record S P current_run
             (if list_ex (\<lambda>s. sr_step_key s \<in> set graph_keys \<and> sr_status s = ''requires_action'') steps
              then ''requires_action'' else ''running'')) (\<lambda>_. retS ()))))))"

section \<open>After a failure\<close>

text \<open>
  What one pass over the graph does with one step: nothing, start it as a compensation, or skip
  it because a dependency failed.
\<close>

definition failure_policy_step
    :: "sys \<Rightarrow> peers \<Rightarrow> workflow_definition \<Rightarrow> workflow_run \<Rightarrow> session \<Rightarrow> task_grant \<Rightarrow> workflow_step_run \<Rightarrow>
        workflow_step_run list \<Rightarrow> json \<Rightarrow> bool eff" where
  "failure_policy_step S P d run session root_grant failed_step existing_steps graph_step =
     (let X = lib S; failed_keys = workflow_graph_blocking_failure_keys existing_steps in
     bindS (liftS (workflow_graph_step_key graph_step)) (\<lambda>key.
     if workflow_graph_latest_step existing_steps key \<noteq> None then retS False
     else bindS (liftS (workflow_graph_step_failure_sources graph_step)) (\<lambda>failure_sources.
     if sr_step_key failed_step \<in> set failure_sources then
       bindS (materialize_workflow_graph_step_with_policy_context S P d run session root_grant graph_step
         ''queued'' None
         (mk_obj [(''failure_trigger'', mk_obj
           [(''failed_step_run_id'', jid X (sr_id failed_step)),
            (''failed_step_key'', JStr (sr_step_key failed_step)),
            (''failed_status'', JStr (sr_status failed_step)),
            (''failed_output'', sr_output_payload failed_step)])])
         empty_json_object) (\<lambda>compensation_step.
       bindS (record_workflow_transition S run (Some failed_step) (Some compensation_step)
         ''compensation'' ''materialized''
         (mk_obj [(''source'', JStr ''step_graph_failure_policy''),
                  (''failure_sources'', json_strs failure_sources), (''graph_step'', graph_step)])
         empty_json_object) (\<lambda>_. retS True))
     else if failure_sources \<noteq> [] then retS False
     else bindS (liftS (workflow_graph_step_dependencies graph_step)) (\<lambda>dependencies.
       let failed_dependencies = filter (\<lambda>d. d \<in> failed_keys) dependencies in
       if failed_dependencies = [] then retS False
       else
       bindS (materialize_workflow_graph_step_with_policy_context S P d run session root_grant graph_step
         ''skipped'' None
         (mk_obj [(''skip'', mk_obj
           [(''reason'', JStr ''dependency_failed''),
            (''failed_dependencies'', json_strs failed_dependencies),
            (''source_step_run_id'', jid X (sr_id failed_step)),
            (''source_step_key'', JStr (sr_step_key failed_step))])])
         (mk_obj [(''skip_reason'', JStr ''dependency_failed''),
                  (''failed_dependencies'', json_strs failed_dependencies)])) (\<lambda>skipped_step.
       bindS (record_workflow_transition S run (Some failed_step) (Some skipped_step) ''skip'' ''skipped''
         (mk_obj [(''source'', JStr ''step_graph_failure_policy''),
                  (''dependencies'', json_strs dependencies),
                  (''failed_dependencies'', jindex (sr_output_payload skipped_step) ''failed_dependencies''),
                  (''graph_step'', graph_step)])
         (mk_obj [(''workflow_step_run_id'', jid X (sr_id skipped_step)),
                  (''skip_reason'', JStr ''dependency_failed'')])) (\<lambda>_. retS True))))))"

fun any_step :: "(json \<Rightarrow> bool eff) \<Rightarrow> json list \<Rightarrow> bool \<Rightarrow> bool eff" where
  "any_step f [] acc = retS acc"
| "any_step f (s # ss) acc = bindS (f s) (\<lambda>b. any_step f ss (acc \<or> b))"

text \<open>
  The loops of this theory run until a pass materialises nothing. The fuel counts passes; the
  result is \<open>None\<close> when it runs out, which one more than the number of graph steps excludes
  (theory \<open>Progress\<close>).
\<close>

fun failure_policy_loop
    :: "nat \<Rightarrow> sys \<Rightarrow> peers \<Rightarrow> workflow_definition \<Rightarrow> workflow_run \<Rightarrow> session \<Rightarrow> task_grant \<Rightarrow>
        workflow_step_run \<Rightarrow> json list \<Rightarrow> unit option eff" where
  "failure_policy_loop 0 S P d run session root_grant failed_step steps = retS None"
| "failure_policy_loop (Suc n) S P d run session root_grant failed_step steps =
     bindS (list_workflow_step_runs S (wr_id run)) (\<lambda>existing_steps.
     bindS (any_step (failure_policy_step S P d run session root_grant failed_step existing_steps)
              steps False) (\<lambda>materialized_any.
     if materialized_any
     then failure_policy_loop n S P d run session root_grant failed_step steps
     else retS (Some ())))"

text \<open>Out of fuel is an error of the model only.\<close>

definition returned :: "unit option eff \<Rightarrow> unit eff" where
  "returned m = bindS m (\<lambda>r. case r of Some _ \<Rightarrow> retS () | None \<Rightarrow> failS (internal_error ''out of fuel''))"

definition materialize_workflow_graph_failure_policy_steps
    :: "sys \<Rightarrow> peers \<Rightarrow> workflow_definition \<Rightarrow> workflow_run \<Rightarrow> session \<Rightarrow> task_grant \<Rightarrow> workflow_step_run \<Rightarrow> unit eff" where
  "materialize_workflow_graph_failure_policy_steps S P d run session root_grant failed_step =
     (case graph_steps (wd_step_graph d) of
        None \<Rightarrow> retS ()
      | Some steps \<Rightarrow> returned
          (failure_policy_loop (Suc (length steps)) S P d run session root_grant failed_step steps))"

definition retry_failed_step
    :: "sys \<Rightarrow> peers \<Rightarrow> workflow_definition \<Rightarrow> workflow_run \<Rightarrow> session \<Rightarrow> task_grant \<Rightarrow> json \<Rightarrow>
        workflow_step_run \<Rightarrow> nat \<Rightarrow> workflow_graph_retry_policy \<Rightarrow> unit eff" where
  "retry_failed_step S P d run session root_grant graph_step step attempts policy =
     (let X = lib S; next_attempt = attempts + 1 in
     bindS (if delay_seconds policy > 0
            then bindS (now_utc S) (\<lambda>now. retS (Some (plus_seconds now (delay_seconds policy))))
            else retS None) (\<lambda>scheduled_at.
     let retry_status = (if scheduled_at \<noteq> None then ''scheduled'' else ''queued'') in
     bindS (materialize_workflow_graph_step_with_policy_context S P d run session root_grant graph_step
       retry_status scheduled_at
       (mk_obj [(''retry'', mk_obj
         [(''attempt'', json_nat next_attempt), (''max_attempts'', json_nat (max_attempts policy)),
          (''delay_seconds'', JInt (delay_seconds policy)),
          (''scheduled_at'', jtime_opt X scheduled_at),
          (''previous_step_run_id'', jid X (sr_id step)),
          (''previous_status'', JStr (sr_status step)),
          (''previous_output'', sr_output_payload step)])])
       empty_json_object) (\<lambda>retry_step.
     bindS (record_workflow_transition S run (Some step) (Some retry_step) ''retry'' retry_status
       (mk_obj
         [(''source'', JStr ''step_graph_retry''), (''attempt'', json_nat next_attempt),
          (''max_attempts'', json_nat (max_attempts policy)),
          (''delay_seconds'', JInt (delay_seconds policy)),
          (''scheduled_at'', jtime_opt X scheduled_at), (''graph_step'', graph_step)])
       (mk_obj
         [(''workflow_status'', JStr ''running''), (''retry_step_run_id'', jid X (sr_id retry_step)),
          (''retry_status'', JStr retry_status)])) (\<lambda>_.
     bindS (update_workflow_run_status_and_record S P run ''running'') (\<lambda>_. retS ())))))"

definition root_grant_of_run :: "workflow_run \<Rightarrow> task_grant eff" where
  "root_grant_of_run run =
     bindS (liftS (ok_or (forbidden ''workflow run requires root task grant'')
              (wr_root_task_grant_id run))) get_task_grant"

definition advance_workflow_graph_after_step_failure
    :: "sys \<Rightarrow> peers \<Rightarrow> workflow_run \<Rightarrow> workflow_step_run \<Rightarrow> unit eff" where
  "advance_workflow_graph_after_step_failure S P run step =
     bindS (get_workflow_definition (wr_workflow_definition_id run)) (\<lambda>d.
     bindS (get_session (wr_primary_session_id run)) (\<lambda>session.
     bindS (root_grant_of_run run) (\<lambda>root_grant.
     bindS (list_workflow_step_runs S (wr_id run)) (\<lambda>existing_steps.
     bindS (liftS (workflow_graph_step_by_key (wd_step_graph d) (sr_step_key step))) (\<lambda>found.
     case found of
       None \<Rightarrow>
         bindS (update_workflow_run_status_and_record S P run (sr_status step)) (\<lambda>_. retS ())
     | Some graph_step \<Rightarrow>
         let attempts = workflow_graph_step_attempt_count existing_steps (sr_step_key step) in
         bindS (if sr_status step = ''failed''
                then bindS (liftS (workflow_graph_step_retry_policy graph_step)) (\<lambda>p. retS (Some p))
                else retS None) (\<lambda>policy.
         case opt_filter (\<lambda>p. attempts < max_attempts p) policy of
           Some p \<Rightarrow> retry_failed_step S P d run session root_grant graph_step step attempts p
         | None \<Rightarrow>
             thenS (materialize_workflow_graph_failure_policy_steps S P d run session root_grant step)
               (finalize_workflow_graph_after_transition_policy S P d run step)))))))"

section \<open>After a success\<close>

definition defer_ready_step
    :: "sys \<Rightarrow> workflow_run \<Rightarrow> workflow_step_run \<Rightarrow> workflow_graph_ready_step \<Rightarrow> nat \<Rightarrow> nat \<Rightarrow> unit eff" where
  "defer_ready_step S run step ready max_parallel active_parallel_count =
     bindS (liftS (workflow_graph_step_key (rs_graph_step ready))) (\<lambda>key.
     bindS (record_workflow_transition S run (Some step) None ''fan_out'' ''deferred''
       (mk_obj
         [(''source'', JStr ''step_graph_fan_out''), (''max_parallel'', json_nat max_parallel),
          (''active_parallel_count'', json_nat active_parallel_count),
          (''dependencies'', json_strs (fi_dependencies (rs_fan_in ready))),
          (''graph_step'', rs_graph_step ready)])
       (mk_obj [(''deferred_step_key'', JStr key),
                (''reason'', JStr ''fan_out_max_parallel_reached'')])) (\<lambda>_. retS ()))"

definition skip_ready_step
    :: "sys \<Rightarrow> peers \<Rightarrow> workflow_definition \<Rightarrow> workflow_run \<Rightarrow> session \<Rightarrow> task_grant \<Rightarrow> workflow_step_run \<Rightarrow>
        workflow_graph_ready_step \<Rightarrow> json \<Rightarrow> workflow_graph_condition_evaluation \<Rightarrow> unit eff" where
  "skip_ready_step S P d run session root_grant step ready fan_out_payload e =
     bindS (materialize_workflow_graph_step_with_policy_context S P d run session root_grant
       (rs_graph_step ready) ''skipped'' None
       (mk_obj
         [(''fan_in'', workflow_graph_fan_in_payload (rs_fan_in ready)), (''fan_out'', fan_out_payload),
          (''branch'', mk_obj
            [(''condition'', ce_condition e), (''path'', jstr_opt (ce_path e)),
             (''actual'', ce_actual e), (''expected'', ce_expected e),
             (''reason'', JStr ''branch_condition_false'')])])
       (mk_obj
         [(''skip_reason'', JStr ''branch_condition_false''), (''condition'', ce_condition e),
          (''actual'', ce_actual e), (''expected'', ce_expected e)])) (\<lambda>skipped.
     bindS (record_workflow_transition S run (opt_or (ce_source_step e) (Some step)) (Some skipped)
       ''branch'' ''skipped''
       (mk_obj
         [(''source'', JStr ''step_graph_branch''),
          (''condition'', jindex (sr_output_payload skipped) ''condition''),
          (''actual'', jindex (sr_output_payload skipped) ''actual''),
          (''expected'', jindex (sr_output_payload skipped) ''expected''),
          (''graph_step'', rs_graph_step ready)])
       (mk_obj [(''workflow_step_run_id'', jid (lib S) (sr_id skipped)),
                (''skip_reason'', JStr ''branch_condition_false'')])) (\<lambda>_. retS ()))"

definition branch_payload_of :: "workflow_graph_condition_evaluation option \<Rightarrow> json option" where
  "branch_payload_of evaluation = map_option (\<lambda>e. mk_obj
     [(''condition'', ce_condition e), (''path'', jstr_opt (ce_path e)), (''actual'', ce_actual e),
      (''expected'', ce_expected e), (''matched'', JBool True)]) evaluation"

definition start_ready_step
    :: "sys \<Rightarrow> peers \<Rightarrow> workflow_definition \<Rightarrow> workflow_run \<Rightarrow> session \<Rightarrow> task_grant \<Rightarrow> workflow_step_run \<Rightarrow>
        workflow_graph_ready_step \<Rightarrow> nat option \<Rightarrow> nat \<Rightarrow> json option \<Rightarrow> unit eff" where
  "start_ready_step S P d run session root_grant step ready max_parallel active_parallel_count branch_payload =
     (let fan_in = rs_fan_in ready; graph_step = rs_graph_step ready;
          fan_out_payload = workflow_graph_fan_out_payload max_parallel active_parallel_count in
     bindS (materialize_workflow_graph_step_with_policy_context S P d run session root_grant graph_step
       ''queued'' None
       (mk_obj ([(''fan_in'', workflow_graph_fan_in_payload fan_in), (''fan_out'', fan_out_payload)]
                @ (case branch_payload of None \<Rightarrow> [] | Some b \<Rightarrow> [(''branch'', b)])))
       empty_json_object) (\<lambda>materialized.
     bindS (liftS (workflow_graph_step_dependencies graph_step)) (\<lambda>dependencies.
     bindS (record_workflow_transition S run (Some step) (Some materialized)
       (if fi_mode fan_in = ''all''
        then (if max_parallel \<noteq> None then ''fan_out'' else ''dependency'') else ''fan_in'')
       ''materialized''
       (mk_obj
         [(''source'', JStr (if fi_mode fan_in = ''all''
             then (if max_parallel \<noteq> None then ''step_graph_fan_out'' else ''step_graph_dependency'')
             else ''step_graph_fan_in'')),
          (''dependencies'', json_strs dependencies), (''fan_out'', fan_out_payload),
          (''mode'', JStr (fi_mode fan_in)), (''min_success'', json_nat (fi_min_success fan_in)),
          (''successful_dependencies'', json_strs (fi_successful_dependencies fan_in)),
          (''failed_dependencies'', json_strs (fi_failed_dependencies fan_in)),
          (''pending_dependencies'', json_strs (fi_pending_dependencies fan_in)),
          (''branch'', json_opt (\<lambda>b. b) branch_payload), (''graph_step'', graph_step)])
       empty_json_object) (\<lambda>_. retS ()))))"

text \<open>
  The pass over the ready steps: the number of active steps grows with every step started, and
  the result says whether any step was materialised.
\<close>

fun advance_ready_steps
    :: "sys \<Rightarrow> peers \<Rightarrow> workflow_definition \<Rightarrow> workflow_run \<Rightarrow> session \<Rightarrow> task_grant \<Rightarrow> workflow_step_run \<Rightarrow>
        workflow_step_run list \<Rightarrow> nat option \<Rightarrow> workflow_graph_ready_step list \<Rightarrow> nat \<Rightarrow> bool \<Rightarrow> bool eff" where
  "advance_ready_steps S P d run session root_grant step existing max_parallel [] active any = retS any"
| "advance_ready_steps S P d run session root_grant step existing max_parallel (ready # rest) active any =
     (case opt_filter (\<lambda>m. active \<ge> m) max_parallel of
        Some m \<Rightarrow>
          thenS (defer_ready_step S run step ready m active)
            (advance_ready_steps S P d run session root_grant step existing max_parallel rest active any)
      | None \<Rightarrow>
          bindS (liftS (workflow_graph_step_condition_evaluation (lib S) (rs_graph_step ready) existing))
            (\<lambda>evaluation.
             if is_some_and evaluation (\<lambda>e. \<not> ce_matched e)
             then thenS (skip_ready_step S P d run session root_grant step ready
                      (workflow_graph_fan_out_payload max_parallel active) (the evaluation))
                    (advance_ready_steps S P d run session root_grant step existing max_parallel rest
                       active True)
             else thenS (start_ready_step S P d run session root_grant step ready max_parallel active
                      (branch_payload_of evaluation))
                    (advance_ready_steps S P d run session root_grant step existing max_parallel rest
                       (active + 1) True)))"

fun advance_loop
    :: "nat \<Rightarrow> sys \<Rightarrow> peers \<Rightarrow> workflow_definition \<Rightarrow> workflow_run \<Rightarrow> session \<Rightarrow> task_grant \<Rightarrow>
        workflow_step_run \<Rightarrow> unit option eff" where
  "advance_loop 0 S P d run session root_grant step = retS None"
| "advance_loop (Suc n) S P d run session root_grant step =
     bindS (list_workflow_step_runs S (wr_id run)) (\<lambda>existing.
     bindS (liftS (workflow_graph_ready_steps (wd_step_graph d) existing)) (\<lambda>ready.
     if ready = [] then retS (Some ())
     else bindS (liftS (workflow_graph_fan_out_max_parallel (wd_step_graph d))) (\<lambda>max_parallel.
       bindS (advance_ready_steps S P d run session root_grant step existing max_parallel ready
                (workflow_graph_active_parallel_count existing) False) (\<lambda>materialized_any.
       if materialized_any then advance_loop n S P d run session root_grant step
       else retS (Some ())))))"

definition graph_size :: "workflow_definition \<Rightarrow> nat" where
  "graph_size d = length (unwrap_or (graph_steps (wd_step_graph d)) [])"

definition advance_workflow_graph_after_step_update
    :: "sys \<Rightarrow> peers \<Rightarrow> workflow_run \<Rightarrow> workflow_step_run \<Rightarrow> unit eff" where
  "advance_workflow_graph_after_step_update S P run step =
     (if sr_status step \<in> {''failed'', ''canceled''}
      then advance_workflow_graph_after_step_failure S P run step
      else if \<not> workflow_step_status_successful (sr_status step)
      then if sr_status step = ''running''
           then bindS (update_workflow_run_status_and_record S P run ''running'') (\<lambda>_. retS ())
           else if sr_status step = ''requires_action''
           then bindS (update_workflow_run_status_and_record S P run ''requires_action'') (\<lambda>_. retS ())
           else retS ()
      else
        bindS (get_workflow_definition (wr_workflow_definition_id run)) (\<lambda>d.
        bindS (get_session (wr_primary_session_id run)) (\<lambda>session.
        bindS (root_grant_of_run run) (\<lambda>root_grant.
        thenS (returned (advance_loop (Suc (graph_size d)) S P d run session root_grant step))
          (finalize_workflow_graph_after_transition_policy S P d run step)))))"

end
