(* ===== verification/Claims.thy ===== *)
theory Claims
  imports Advance "HOL-Library.Option_ord"
begin

text \<open>
  The execution of a step by a worker (workflow_step_execution.rs, workflow_task_grants.rs,
  handlers/workflows.rs): what blocks a claim, the claim itself, the settlement of a step after
  the worker's session turn, the activation of scheduled steps, the creation of a child grant by
  request.

  \<open>request\<close> holds what the handlers derive from the HTTP request: the authorisation of an
  operation on a session and the principal.
\<close>

record request =
  rq_authorize_session :: "uuid \<Rightarrow> unit eff"
  rq_subject_id :: string
  rq_is_worker :: bool
  rq_worker_header :: "string option"

section \<open>Claims\<close>

definition workflow_step_claim_blockers
    :: "workflow_step_run \<Rightarrow> uuid option \<Rightarrow> timestamp \<Rightarrow> string list" where
  "workflow_step_claim_blockers step expected_agent_id now =
     (if workflow_step_status_terminal (sr_status step) then [''terminal_status''] else [])
     @ (if sr_status step = ''scheduled''
        then (case sr_scheduled_at step of
                Some scheduled_at \<Rightarrow>
                  if scheduled_at > now then [''scheduled_for_future'']
                  else [''scheduled_until_scheduler_activation'']
              | None \<Rightarrow> [''scheduled_without_due_time''])
        else if sr_status step \<noteq> ''queued''
        then (if sr_status step = ''running''
              then (if is_none_or (sr_lease_expires_at step) (\<lambda>lease_expires_at. lease_expires_at > now)
                    then [''already_claimed''] else [])
              else [''status_'' @ sr_status step])
        else [])
     @ (case (sr_agent_id step, expected_agent_id) of
          (None, _) \<Rightarrow> [''missing_agent_binding'']
        | (Some actual, Some expected) \<Rightarrow> if actual \<noteq> expected then [''agent_mismatch''] else []
        | _ \<Rightarrow> [])
     @ (if sr_task_grant_id step = None then [''missing_task_grant''] else [])"

definition workflow_step_execution_owner :: "request \<Rightarrow> string res" where
  "workflow_step_execution_owner rq =
     (if rq_is_worker rq
      then bindr (ok_or (bad_request
             ''x-mandoforge-worker-id header is required for workflow execution'')
             (trimmed_text (rq_worker_header rq)))
             (\<lambda>worker_id. Inr (''worker:'' @ worker_id))
      else Inr (''subject:'' @ rq_subject_id rq))"

definition authorize_workflow_step_session :: "request \<Rightarrow> workflow_step_run \<Rightarrow> workflow_run \<Rightarrow> uuid eff" where
  "authorize_workflow_step_session rq current run =
     (let session_id = unwrap_or (sr_session_id current) (wr_primary_session_id run)
      in thenS (rq_authorize_session rq session_id) (retS session_id))"

definition record_agent_inbox_claimed
    :: "sys \<Rightarrow> workflow_run \<Rightarrow> workflow_step_run \<Rightarrow> task_grant \<Rightarrow> uuid \<Rightarrow> string \<Rightarrow> string \<Rightarrow> unit eff" where
  "record_agent_inbox_claimed S run step grant context_packet_id subject worker_id =
     (let X = lib S; session_id = unwrap_or (sr_session_id step) (wr_primary_session_id run);
          payload = mk_obj
            [(''workflow_run_id'', jid X (wr_id run)), (''workflow_step_run_id'', jid X (sr_id step)),
             (''step_key'', JStr (sr_step_key step)), (''agent_id'', jid_opt X (sr_agent_id step)),
             (''task_grant_id'', jid X (tg_id grant)), (''context_packet_id'', jid X context_packet_id),
             (''claimed_by_worker'', JStr worker_id),
             (''lease_expires_at'', jtime_opt X (sr_lease_expires_at step)),
             (''subject'', JStr subject)]
      in record_event_and_audit S (Some (sr_id step)) session_id ''agent_inbox.claimed'' payload
           ''agent_inbox.claimed'' ''workflow_step_run'' payload)"

text \<open>What the claim requires of the grant of the step.\<close>

definition claim_grant_check
    :: "task_grant \<Rightarrow> workflow_run \<Rightarrow> uuid \<Rightarrow> uuid \<Rightarrow> timestamp \<Rightarrow> unit res" where
  "claim_grant_check grant run agent_id session_id now =
     (if tg_workflow_run_id grant \<noteq> wr_id run
      then Inl (bad_request ''workflow step task grant must belong to workflow run'')
      else if tg_status grant \<noteq> ''active''
      then Inl (forbidden ''workflow step task grant is not active'')
      else if is_some_and (tg_grantee_agent_id grant) (\<lambda>g. g \<noteq> agent_id)
      then Inl (forbidden ''workflow step task grant is not issued to the claiming agent'')
      else if is_some_and (tg_expires_at grant) (\<lambda>expires_at. expires_at \<le> now)
      then Inl (forbidden ''workflow step task grant is expired'')
      else if \<not> task_grant_session_matches grant run session_id
      then Inl (forbidden ''workflow step task grant is not valid for the step session'')
      else Inr ())"

definition claim_session_check :: "session \<Rightarrow> uuid \<Rightarrow> workflow_step_run \<Rightarrow> unit res" where
  "claim_session_check session agent_id current =
     (if session_terminal (se_status session)
      then Inl (bad_request ''terminal session cannot claim a workflow step'')
      else if se_agent_id session \<noteq> agent_id
      then Inl (forbidden ''workflow step session is not bound to the claiming agent'')
      else if sr_agent_version_id current \<noteq> se_agent_version_id session
      then Inl (forbidden ''workflow step agent version does not match its session binding'')
      else Inr ())"

definition claimed_step
    :: "workflow_step_run \<Rightarrow> string \<Rightarrow> uuid \<Rightarrow> int \<Rightarrow> timestamp \<Rightarrow> workflow_step_run" where
  "claimed_step current worker_id context_packet_id lease_seconds now =
     current\<lparr>sr_status := ''running'', sr_claimed_by_worker := Some worker_id,
       sr_claim_owner_version := WORKFLOW_STEP_CLAIM_OWNER_VERSION,
       sr_lease_expires_at := Some (plus_seconds now lease_seconds),
       sr_context_packet_id := Some context_packet_id,
       sr_started_at := opt_or (sr_started_at current) (Some now), sr_updated_at := now\<rparr>"

definition claim_workflow_step_run
    :: "sys \<Rightarrow> peers \<Rightarrow> request \<Rightarrow> workflow_step_run \<Rightarrow> workflow_run \<Rightarrow> uuid \<Rightarrow> int option \<Rightarrow>
        (workflow_step_run \<times> task_grant \<times> uuid) eff" where
  "claim_workflow_step_run S P rq current run input_agent_id input_lease_seconds =
     (let X = lib S in
     bindS (authorize_workflow_step_session rq current run) (\<lambda>session_id.
     thenS (not_denied (workflow_run_execution_denial (wr_status run)))
     (bindS (get_agent S input_agent_id) (\<lambda>agent.
     thenS (guardS (sr_agent_id current = Some (ag_id agent))
       (forbidden ''workflow step is not assigned to the claiming agent''))
     (bindS (now_utc S) (\<lambda>now.
     let blockers = workflow_step_claim_blockers current (Some (ag_id agent)) now in
     thenS (guardS (blockers = [])
       (bad_request (''workflow step is not claimable: '' @ join_with '', '' blockers)))
     (bindS (liftS (ok_or (bad_request ''workflow step claim requires task grant'')
              (sr_task_grant_id current))) (\<lambda>task_grant_id.
     bindS (get_task_grant task_grant_id) (\<lambda>grant.
     bindS (liftS (claim_grant_check grant run (ag_id agent) session_id now)) (\<lambda>_.
     bindS (get_session session_id) (\<lambda>session.
     bindS (liftS (claim_session_check session (ag_id agent) current)) (\<lambda>_.
     let lease_seconds = unwrap_or input_lease_seconds 300 in
     thenS (guardS (1 \<le> lease_seconds \<and> lease_seconds \<le> 86400)
       (bad_request ''workflow step claim lease_seconds must be between 1 and 86400''))
     (bindS (liftS (workflow_step_execution_owner rq)) (\<lambda>worker_id.
     bindS (generate_and_persist_context_packet P session_id) (\<lambda>context_packet_id.
     bindS (update_task_grant_context_packet S (tg_id grant) context_packet_id) (\<lambda>bound_grant.
     thenS (record_task_grant_checked S bound_grant session_id ''agent_inbox.claim'')
     (bindS (claim_workflow_step_run_if_available
              (claimed_step current worker_id context_packet_id lease_seconds now) now) (\<lambda>step.
     thenS (record_agent_inbox_claimed S run step bound_grant context_packet_id
              (rq_subject_id rq) worker_id)
     (thenS (case wr_source_work_item_id run of
         None \<Rightarrow> retS ()
       | Some work_item_id \<Rightarrow>
           append_work_item_activity_entry P work_item_id (sr_id step) (rq_subject_id rq)
             (''Agent '' @ ag_name agent @ '' claimed workflow step '' @ sr_step_key step)
             (mk_obj
               [(''workflow_run_id'', jid X (wr_id run)),
                (''workflow_step_run_id'', jid X (sr_id step)),
                (''task_grant_id'', jid X (tg_id bound_grant)),
                (''context_packet_id'', jid X context_packet_id),
                (''agent_id'', jid X (ag_id agent)), (''worker_id'', JStr worker_id),
                (''lease_expires_at'', jtime_opt X (sr_lease_expires_at step))]))
       (retS (step, bound_grant, context_packet_id)))))))))))))))))))))"

section \<open>After a worker's turn\<close>

definition diff_session_runtime_refs
    :: "session_runtime_refs \<Rightarrow> session_runtime_refs \<Rightarrow> session_runtime_refs" where
  "diff_session_runtime_refs before after =
     \<lparr>rf_artifact_ids = filter (\<lambda>i. i \<notin> set (rf_artifact_ids before)) (rf_artifact_ids after),
      rf_approval_ids = filter (\<lambda>i. i \<notin> set (rf_approval_ids before)) (rf_approval_ids after),
      rf_tool_call_ids = filter (\<lambda>i. i \<notin> set (rf_tool_call_ids before)) (rf_tool_call_ids after)\<rparr>"

definition workflow_step_keeps_session_open :: "uuid \<Rightarrow> uuid option \<Rightarrow> bool eff" where
  "workflow_step_keeps_session_open session_id task_grant_id =
     (case task_grant_id of
        None \<Rightarrow> retS False
      | Some grant_id \<Rightarrow>
          bindS (get_task_grant grant_id) (\<lambda>grant.
          bindS (get_workflow_run (tg_workflow_run_id grant)) (\<lambda>run.
          if wr_primary_session_id run \<noteq> session_id \<or> wr_root_task_grant_id run \<noteq> Some grant_id
          then retS False
          else bindS (get_workflow_definition (wr_workflow_definition_id run)) (\<lambda>d.
            bindS (liftS (workflow_graph_step_keys (wd_step_graph d))) (\<lambda>keys.
              retS (length keys > 1))))))"

text \<open>The last recorded completion after the cursor, unless an interrupt came later.\<close>

definition recorded_completion :: "session_event list \<Rightarrow> session_event option" where
  "recorded_completion es =
     opt_filter (\<lambda>event. \<not> list_ex (\<lambda>later. ev_seq later > ev_seq event
                                   \<and> ev_event_type later = ''user.interrupt'') es)
       (find_first (\<lambda>event. ev_event_type event = ''tool.result'' \<and> ev_actor_type event = ''tool''
            \<and> jindex (ev_payload event) ''tool'' = JStr ''complete_task''
            \<and> jindex (ev_payload event) ''origin'' = JStr ''session_loop'') (rev es))"

definition get_tool_call :: "uuid \<Rightarrow> tool_call eff" where
  "get_tool_call i = asksr (\<lambda>w. ok_or (not_found ''tool call not found'') (tget (tool_calls w) i))"

definition completes_job :: "session_loop_job \<Rightarrow> session_event \<Rightarrow> tool_call \<Rightarrow> bool" where
  "completes_job job event call \<longleftrightarrow>
     tc_session_id call = lj_session_id job \<and> tc_tool_name call = ''complete_task''
     \<and> tc_status call = ''completed''
     \<and> is_some_and (tc_result call) (\<lambda>result.
         jindex result ''status'' = JStr ''completed''
         \<and> jindex (ev_payload event) ''content'' = result)"

definition successful_provider_completion_for_job :: "session_loop_job \<Rightarrow> tool_call option eff" where
  "successful_provider_completion_for_job job =
     (case lj_pending_event_seq_end job of
        None \<Rightarrow> retS None
      | Some after_seq \<Rightarrow>
          bindS (list_events_after (lj_session_id job) (Some after_seq)) (\<lambda>es.
          case recorded_completion es of
            None \<Rightarrow> retS None
          | Some event \<Rightarrow>
              (case ev_actor_id event of
                 None \<Rightarrow> retS None
               | Some call_id \<Rightarrow>
                   bindS (get_tool_call call_id) (\<lambda>call.
                     retS (if completes_job job event call then Some call else None)))))"

definition managed_workflow_step_outcome
    :: "session \<Rightarrow> session_loop_job \<Rightarrow> string option \<Rightarrow> string" where
  "managed_workflow_step_outcome session job error =
     (if se_status session = Terminated
         \<and> error = Some ''session is terminal and cannot run session loop work''
      then ''canceled''
      else if error \<noteq> None \<or> lj_status job = JobFailed then ''failed''
      else (case se_status session of
              Failed \<Rightarrow> ''failed''
            | Terminated \<Rightarrow> ''canceled''
            | Running \<Rightarrow> ''running''
            | _ \<Rightarrow> ''requires_action''))"

definition record_workflow_step_worker_completed
    :: "sys \<Rightarrow> workflow_run \<Rightarrow> workflow_step_run \<Rightarrow> string \<Rightarrow> session_loop_job \<Rightarrow> unit eff" where
  "record_workflow_step_worker_completed S run step worker_id job =
     (let X = lib S; session_id = unwrap_or (sr_session_id step) (wr_primary_session_id run);
          payload = mk_obj
            [(''workflow_run_id'', jid X (wr_id run)), (''workflow_step_run_id'', jid X (sr_id step)),
             (''step_key'', JStr (sr_step_key step)), (''status'', JStr (sr_status step)),
             (''worker_id'', JStr worker_id), (''session_loop_job_id'', jid X (lj_id job)),
             (''session_loop_job_status'', JStr (session_loop_job_status_as_str (lj_status job))),
             (''artifact_ids'', jids X (sr_artifact_ids step)),
             (''approval_ids'', jids X (sr_approval_ids step)),
             (''tool_call_ids'', jids X (sr_tool_call_ids step))]
      in bindS (append_event S ''worker'' (Some (sr_id step)) session_id
                  ''workflow.step.worker_completed'' payload) (\<lambda>_.
         audit S (Some session_id) ''worker'' (Some (sr_id step))
           ''workflow_step_run.worker_completed'' ''workflow_step_run'' (Some (sr_id step)) payload))"

definition merge_ids :: "uuid list \<Rightarrow> uuid list \<Rightarrow> uuid list" where
  "merge_ids current previous =
     foldl (\<lambda>acc i. if i \<in> set acc then acc else acc @ [i]) current previous"

definition settled_status
    :: "session \<Rightarrow> session_loop_job \<Rightarrow> workflow_step_run \<Rightarrow> string option \<Rightarrow> string eff" where
  "settled_status session job step error_message =
     (let outcome = managed_workflow_step_outcome session job error_message in
      if se_status session \<in> {Idle, Terminated} \<and> lj_status job = JobCompleted \<and> error_message = None
      then bindS (successful_provider_completion_for_job job) (\<lambda>call.
        retS (if is_some_and call (\<lambda>c. tc_task_grant_id c = sr_task_grant_id step)
              then ''completed'' else outcome))
      else retS outcome)"

definition update_workflow_step_after_worker_session
    :: "sys \<Rightarrow> peers \<Rightarrow> workflow_run \<Rightarrow> workflow_step_run \<Rightarrow> session \<Rightarrow> session_loop_job \<Rightarrow> string \<Rightarrow>
        session_runtime_refs \<Rightarrow> string option \<Rightarrow> bool \<Rightarrow> workflow_step_run eff" where
  "update_workflow_step_after_worker_session S P run step0 session job worker_id refs error_message
       session_loop_resume =
     (let X = lib S in
     bindS (if sr_status step0 = ''running'' \<and> sr_claimed_by_worker step0 \<noteq> Some worker_id
            then adopt_workflow_step_for_loop S (sr_id step0) job worker_id else retS step0) (\<lambda>step.
     let artifact_ids = merge_ids (rf_artifact_ids refs) (sr_artifact_ids step);
         approval_ids = merge_ids (rf_approval_ids refs) (sr_approval_ids step);
         tool_call_ids = merge_ids (rf_tool_call_ids refs) (sr_tool_call_ids step);
         previous_status = sr_status step in
     bindS (now_utc S) (\<lambda>now.
     bindS (settled_status session job step error_message) (\<lambda>next_status.
     let next_step = step\<lparr>sr_status := next_status, sr_artifact_ids := artifact_ids,
           sr_approval_ids := approval_ids, sr_tool_call_ids := tool_call_ids,
           sr_output_payload := mk_obj [(''worker_execution'', mk_obj
             [(''status'', JStr next_status), (''worker_id'', JStr worker_id),
              (''session_id'', jid X (se_id session)),
              (''session_status'', JStr (session_status_as_str (se_status session))),
              (''session_loop_job_id'', jid X (lj_id job)),
              (''session_loop_job_status'', JStr (session_loop_job_status_as_str (lj_status job))),
              (''context_packet_id'', jid_opt X (sr_context_packet_id step)),
              (''artifact_ids'', jids X artifact_ids), (''approval_ids'', jids X approval_ids),
              (''tool_call_ids'', jids X tool_call_ids), (''error'', jstr_opt error_message),
              (''session_loop_resume'', JBool session_loop_resume)])],
           sr_claimed_by_worker := Some worker_id,
           sr_claim_owner_version := WORKFLOW_STEP_CLAIM_OWNER_VERSION,
           sr_lease_expires_at := None,
           sr_completed_at := (if workflow_step_status_terminal next_status
             then opt_or (sr_completed_at step) (Some now) else sr_completed_at step),
           sr_updated_at := now\<rparr> in
     bindS (update_claimed_workflow_step_run S next_step worker_id) (\<lambda>updated.
     thenS (record_workflow_step_run_updated S run updated previous_status)
     (thenS (record_workflow_step_worker_completed S run updated worker_id job)
     (thenS (whenS (previous_status \<noteq> sr_status updated)
               (advance_workflow_graph_after_step_update S P run updated))
        (retS updated))))))))"

fun reconcile_steps
    :: "sys \<Rightarrow> peers \<Rightarrow> session \<Rightarrow> session_loop_job \<Rightarrow> string \<Rightarrow> session_runtime_refs \<Rightarrow>
        (uuid \<times> workflow_run) list \<Rightarrow> workflow_step_run list \<Rightarrow> workflow_step_run list eff" where
  "reconcile_steps S P session job worker_id refs runs [] = retS []"
| "reconcile_steps S P session job worker_id refs runs (step # steps) =
     bindS (case map_of runs (sr_workflow_run_id step) of
         Some run \<Rightarrow> retS run
       | None \<Rightarrow> get_workflow_run (sr_workflow_run_id step)) (\<lambda>run.
     bindS (update_workflow_step_after_worker_session S P run step session job worker_id refs
              (lj_last_error job) True) (\<lambda>updated.
     bindS (reconcile_steps S P session job worker_id refs
              ((sr_workflow_run_id step, run) # runs) steps) (\<lambda>rest.
       retS (updated # rest))))"

definition reconcile_workflow_steps_after_session_loop_job
    :: "sys \<Rightarrow> peers \<Rightarrow> session \<Rightarrow> session_loop_job \<Rightarrow> string \<Rightarrow> workflow_step_run list eff" where
  "reconcile_workflow_steps_after_session_loop_job S P session job worker_id =
     bindS (list_active_workflow_steps_for_session S (se_id session)) (\<lambda>steps.
     if steps = [] then retS []
     else bindS (collect_session_runtime_refs P (se_id session)) (\<lambda>refs.
       reconcile_steps S P session job worker_id refs [] steps))"

definition resume_recorded_workflow_completion
    :: "sys \<Rightarrow> peers \<Rightarrow> session_loop_job \<Rightarrow> session option eff" where
  "resume_recorded_workflow_completion S P job =
     bindS (successful_provider_completion_for_job job) (\<lambda>completion.
     case completion of
       None \<Rightarrow> retS None
     | Some call \<Rightarrow>
         bindS (workflow_step_keeps_session_open (lj_session_id job) (tc_task_grant_id call)) (\<lambda>open_session.
         if \<not> open_session then retS None
         else case tc_task_grant_id call of
           None \<Rightarrow> retS None
         | Some grant_id \<Rightarrow>
             bindS (get_task_grant grant_id) (\<lambda>grant.
             bindS (get_workflow_run (tg_workflow_run_id grant)) (\<lambda>run.
             if \<not> workflow_run_status_allows_execution (wr_status run) \<and> wr_status run \<noteq> ''completed''
             then retS None
             else
               thenS (if wr_status run \<noteq> ''completed''
                      then bindS (list_workflow_step_runs S (wr_id run)) (\<lambda>steps.
                        foreachS (advance_workflow_graph_after_step_update S P run)
                          (filter (\<lambda>step. sr_status step = ''completed''
                             \<and> jindex (jindex (sr_output_payload step) ''worker_execution'')
                                 ''session_loop_job_id'' = jid (lib S) (lj_id job)) steps))
                      else retS ())
               (bindS (get_workflow_run (wr_id run)) (\<lambda>current.
                thenS (finish_completed_workflow_session S P current)
                  (bindS (get_session (lj_session_id job)) (\<lambda>session. retS (Some session)))))))))"

section \<open>Scheduled steps\<close>

record scheduled_step_activation_run =
  sa_workflow_run_id :: uuid
  sa_checked_at :: timestamp
  sa_activated_count :: nat
  sa_activated_step_ids :: "uuid list"
  sa_remaining_scheduled_count :: nat

definition visible_scheduled :: "workflow_run \<Rightarrow> uuid set option \<Rightarrow> workflow_step_run \<Rightarrow> bool" where
  "visible_scheduled run visible_session_ids step \<longleftrightarrow>
     sr_status step = ''scheduled''
     \<and> is_none_or visible_session_ids (\<lambda>visible.
         unwrap_or (sr_session_id step) (wr_primary_session_id run) \<in> visible)"

fun activate_steps
    :: "sys \<Rightarrow> workflow_run \<Rightarrow> timestamp \<Rightarrow> workflow_step_run list \<Rightarrow> uuid list eff" where
  "activate_steps S run checked_at [] = retS []"
| "activate_steps S run checked_at (step # steps) =
     (case opt_filter (\<lambda>scheduled_at. \<not> scheduled_at > checked_at) (sr_scheduled_at step) of
        None \<Rightarrow> activate_steps S run checked_at steps
      | Some scheduled_at \<Rightarrow>
          bindS (activate_scheduled_workflow_step_run (sr_id step) checked_at) (\<lambda>activated.
          case activated of
            None \<Rightarrow> activate_steps S run checked_at steps
          | Some updated \<Rightarrow>
              thenS (record_workflow_step_run_updated S run updated ''scheduled'')
              (bindS (record_workflow_transition S run (Some updated) (Some updated) ''schedule'' ''queued''
                (mk_obj
                  [(''source'', JStr ''scheduled_step_due''),
                   (''scheduled_at'', JStr (show_time (lib S) scheduled_at)),
                   (''checked_at'', JStr (show_time (lib S) checked_at))])
                (mk_obj
                  [(''workflow_step_run_id'', jid (lib S) (sr_id updated)),
                   (''workflow_status'', JStr ''running'')])) (\<lambda>_.
              bindS (activate_steps S run checked_at steps) (\<lambda>rest. retS (sr_id updated # rest))))))"

definition activate_due_workflow_steps_for_run
    :: "sys \<Rightarrow> peers \<Rightarrow> workflow_run \<Rightarrow> timestamp \<Rightarrow> uuid set option \<Rightarrow> scheduled_step_activation_run eff" where
  "activate_due_workflow_steps_for_run S P run checked_at visible_session_ids =
     bindS (list_workflow_step_runs S (wr_id run)) (\<lambda>all_steps.
     bindS (activate_steps S run checked_at
              (sort_key sr_scheduled_at (filter (visible_scheduled run visible_session_ids) all_steps))) (\<lambda>ids.
     thenS (whenS (ids \<noteq> [])
              (bindS (update_workflow_run_status_and_record S P run ''running'') (\<lambda>_. retS ())))
     (bindS (list_workflow_step_runs S (wr_id run)) (\<lambda>remaining. retS
       \<lparr>sa_workflow_run_id = wr_id run, sa_checked_at = checked_at,
        sa_activated_count = length ids, sa_activated_step_ids = ids,
        sa_remaining_scheduled_count =
          length (filter (visible_scheduled run visible_session_ids) remaining)\<rparr>))))"

record scheduled_step_activation_sweep =
  sw_status :: string
  sw_checked_at :: timestamp
  sw_workflow_run_count :: nat
  sw_scheduled_step_count :: nat
  sw_due_step_count :: nat
  sw_activated_count :: nat
  sw_activated_step_ids :: "uuid list"
  sw_remaining_scheduled_count :: nat
  sw_actions :: "string list"

text \<open>The counts of a sweep over the runs: runs, scheduled, due, then the activations.\<close>

fun sweep_runs
    :: "sys \<Rightarrow> peers \<Rightarrow> timestamp \<Rightarrow> workflow_run list \<Rightarrow> nat \<times> nat \<times> nat \<times> scheduled_step_activation_run list \<Rightarrow>
        (nat \<times> nat \<times> nat \<times> scheduled_step_activation_run list) eff" where
  "sweep_runs S P checked_at [] acc = retS acc"
| "sweep_runs S P checked_at (run # runs) (run_count, scheduled_count, due_count, done_runs) =
     (if workflow_step_status_terminal (wr_status run)
      then sweep_runs S P checked_at runs (run_count, scheduled_count, due_count, done_runs)
      else bindS (list_workflow_step_runs S (wr_id run)) (\<lambda>steps.
        let scheduled = filter (\<lambda>step. sr_status step = ''scheduled'') steps in
        if scheduled = []
        then sweep_runs S P checked_at runs (run_count, scheduled_count, due_count, done_runs)
        else bindS (activate_due_workflow_steps_for_run S P run checked_at None) (\<lambda>activation.
          sweep_runs S P checked_at runs
            (run_count + 1, scheduled_count + length scheduled,
             due_count + length (filter (\<lambda>step. is_some_and (sr_scheduled_at step)
                                   (\<lambda>scheduled_at. scheduled_at \<le> checked_at)) scheduled),
             done_runs @ [activation]))))"

definition execute_due_workflow_scheduled_steps
    :: "sys \<Rightarrow> peers \<Rightarrow> timestamp \<Rightarrow> scheduled_step_activation_sweep eff" where
  "execute_due_workflow_scheduled_steps S P checked_at =
     bindS (list_workflow_runs S) (\<lambda>runs.
     bindS (sweep_runs S P checked_at runs (0, 0, 0, [])) (\<lambda>(run_count, scheduled_count, due_count, done_runs).
     let activated_count = sum_list (map sa_activated_count done_runs) in
     retS
       \<lparr>sw_status = (if activated_count > 0 then ''completed''
                     else if scheduled_count > 0 then ''waiting'' else ''noop''),
        sw_checked_at = checked_at, sw_workflow_run_count = run_count,
        sw_scheduled_step_count = scheduled_count, sw_due_step_count = due_count,
        sw_activated_count = activated_count,
        sw_activated_step_ids = concat (map sa_activated_step_ids done_runs),
        sw_remaining_scheduled_count = sum_list (map sa_remaining_scheduled_count done_runs),
        sw_actions = (if activated_count > 0 then [''activate_due_workflow_scheduled_steps''] else [])\<rparr>))"

end
