(* ===== verification/Preservation.thy ===== *)
theory Preservation
  imports Claims
begin

text \<open>
  A relation between states that the atomic operations keep is kept by every operation composed
  of them: the records, the materialisation of steps, the advancement of a run, the handlers.
  The locale \<open>session_relation\<close> assumes it of the operations on logs and sessions,
  \<open>store_relation\<close> of those on runs, steps and grants too; each proves it of what is composed of
  them, once for every relation the development uses.
\<close>

section \<open>Logs and sessions\<close>

locale session_relation = relation_on_worlds R for R :: "world \<Rightarrow> world \<Rightarrow> bool" +
  fixes S :: sys and P :: peers
  assumes clock_keeps: "keeps R (now_utc S)" "keeps R (new_v4 S)"
    and log_keeps:
      "\<And>i b aty aid s et p. keeps R (append_event_with_id S i b aty aid s et p)"
      "\<And>e. keeps R (append_audit_log e)"
      "\<And>t. keeps R (create_workflow_transition t)"
    and session_keeps:
      "\<And>i s. keeps R (modifyS (\<lambda>w. w\<lparr>sessions := tput i s (sessions w)\<rparr>))"
      "\<And>t. keeps R (create_session_thread t)"
      "\<And>s t st ts. keeps R (set_session_and_primary_thread_status S s t st ts)"
    and peer_keeps:
      "\<And>s r. keeps R (cleanup_remote_computer_session_runtimes P s r)"
      "\<And>v. keeps R (active_ontology_release_metadata_for_scopes P v)"
      "\<And>s. keeps R (generate_and_persist_context_packet P s)"
      "\<And>a v e. keeps R (governed_pinned_version_check P a v e)"
      "\<And>a e. keeps R (governed_promoted_version P a e)"
      "\<And>i s t u v. keeps R (append_work_item_activity_entry P i s t u v)"
      "\<And>s. keeps R (collect_session_runtime_refs P s)"
begin

lemmas session_prims = clock_keeps log_keeps session_keeps peer_keeps
lemmas session_ops = resp_intros session_prims

lemma readers_keep:
  "keeps R (get_workflow_definition i)" "keeps R (get_workflow_run i)"
  "keeps R (list_workflow_runs S)" "keeps R (get_workflow_step_run i)"
  "keeps R (list_workflow_step_runs S i)" "keeps R (get_task_grant i)"
  "keeps R (task_grant_lineage i)" "keeps R (list_task_grants_for_workflow_run S i)"
  "keeps R (list_active_workflow_steps_for_session S i)" "keeps R (get_agent S i)"
  "keeps R (list_agent_versions i)" "keeps R (current_agent_version i)"
  "keeps R (get_environment i)" "keeps R (get_session i)" "keeps R (list_session_threads S si)"
  "keeps R (list_events_after i n)" "keeps R (get_tool_call i)"
  by (simp_all add: get_workflow_definition_def get_workflow_run_def list_workflow_runs_def
      get_workflow_step_run_def list_workflow_step_runs_def get_task_grant_def
      task_grant_lineage_def list_task_grants_for_workflow_run_def
      list_active_workflow_steps_for_session_def get_agent_def list_agent_versions_def
      current_agent_version_def get_environment_def get_session_def list_session_threads_def
      list_events_after_def get_tool_call_def resp_pure)

lemmas session_ops1 = session_ops readers_keep

lemma append_event_keeps: "keeps R (append_event S aty aid s et p)"
  unfolding append_event_def by (intro session_ops1)

lemma audit_keeps: "keeps R (audit S s aty aid ac rt ri d)"
  unfolding audit_def new_audit_log_def by (intro session_ops1)

lemma record_keeps: "keeps R (record_event_and_audit S a s et p ac rt d)"
  unfolding record_event_and_audit_def by (intro session_ops1 append_event_keeps audit_keeps)

lemmas session_ops2 = session_ops1 append_event_keeps audit_keeps record_keeps

lemma check_environment_keeps: "keeps R (check_environment e)"
  unfolding check_environment_def by (intro session_ops2)

lemma persist_session_keeps: "keeps R (persist_session S c v)"
  unfolding persist_session_def Let_def by (intro session_ops2)

lemma create_session_keeps:
  "keeps R (create_session S P c)" "keeps R (create_session_for_agent_version S P c v)"
  unfolding create_session_def create_session_for_agent_version_def runnable_agent_version_def
    runnable_pinned_agent_version_def
  by (intro session_ops2 check_environment_keeps persist_session_keeps)+

lemma ensure_thread_keeps: "keeps R (ensure_primary_session_thread S s)"
  unfolding ensure_primary_session_thread_def primary_session_thread_def by (intro session_ops2)

lemma set_status_keeps: "keeps R (set_managed_session_status S P s st r)"
  unfolding set_managed_session_status_def by (intro session_ops2 ensure_thread_keeps)

lemmas session_ops3 = session_ops2 check_environment_keeps create_session_keeps ensure_thread_keeps
  set_status_keeps

lemma records_keep:
  "keeps R (record_task_grant_issued S g s)" "keeps R (record_workflow_step_run_created S r st)"
  "keeps R (record_workflow_transition S r f t ty sta c p)"
  "keeps R (record_task_grant_checked S g s n)" "keeps R (record_task_grant_denied S s og w n re)"
  "keeps R (record_workflow_step_run_updated S r st pre)"
  "keeps R (record_agent_inbox_claimed S r st g cp sub wo)"
  "keeps R (record_workflow_step_worker_completed S r st wo jo)"
  unfolding record_task_grant_issued_def record_workflow_step_run_created_def
    record_workflow_transition_def record_task_grant_checked_def record_task_grant_denied_def
    record_workflow_step_run_updated_def record_agent_inbox_claimed_def
    record_workflow_step_worker_completed_def Let_def
  by (intro session_ops3)+

lemma or_fail_keeps: "keeps R m \<Longrightarrow> keeps R (or_fail_session S P s r m)"
  unfolding or_fail_session_def by (intro session_ops3)

end

text \<open>
  The counters of a new grant are at zero: \<open>create_task_grant\<close> checks it,
  \<open>create_workflow_step_run_with_task_grant\<close> leaves it to its callers.
\<close>

definition unused :: "task_grant \<Rightarrow> bool" where
  "unused g \<longleftrightarrow> tg_turns_used g = 0 \<and> tg_tool_calls_used g = 0 \<and> tg_cost_usd_micros_used g = 0"

locale store_relation = session_relation R S P
  for R :: "world \<Rightarrow> world \<Rightarrow> bool" and S :: sys and P :: peers +
  assumes run_keeps:
      "\<And>r. keeps R (create_workflow_run r)"
      "\<And>i f. keeps R (modify_run S i f)"
    and step_keeps:
      "\<And>s. keeps R (create_workflow_step_run s)"
      "\<And>s g. unused g \<Longrightarrow> keeps R (create_workflow_step_run_with_task_grant S s g)"
      "\<And>s. keeps R (store_existing_step s)"
      "\<And>s n. keeps R (claim_workflow_step_run_if_available s n)"
      "\<And>i j k. keeps R (adopt_workflow_step_for_loop S i j k)"
      "\<And>s k n. keeps R (store_claimed_step s k n)"
      "\<And>i k n. keeps R (renew_workflow_step_run_lease S i k n)"
      "\<And>i n. keeps R (activate_scheduled_workflow_step_run i n)"
    and grant_keeps:
      "\<And>g. keeps R (create_task_grant S g)"
      "\<And>i s. keeps R (update_task_grant_status S i s)"
      "\<And>i c. keeps R (update_task_grant_context_packet S i c)"
      "\<And>i k. keeps R (reserve_task_grant_usage S i k)"
      "\<And>i c. keeps R (add_task_grant_cost S i c)"
begin

lemmas ops4 = session_ops3 records_keep run_keeps step_keeps grant_keeps

section \<open>Grants\<close>

lemma update_run_keeps:
  "keeps R (update_workflow_run_status S i st a b)" "keeps R (update_workflow_run_root_task_grant S i g)"
  unfolding update_workflow_run_status_def update_workflow_run_root_task_grant_def by (intro ops4)+

lemma close_grants_keeps: "keeps R (close_active_task_grants_for_workflow_run S i st)"
  unfolding close_active_task_grants_for_workflow_run_def by (intro ops4)

lemma finalize_grant_keeps: "keeps R (finalize_workflow_step_task_grant S st)"
  unfolding finalize_workflow_step_task_grant_def by (intro ops4)

lemma update_step_keeps:
  "keeps R (update_workflow_step_run S st)" "keeps R (update_claimed_workflow_step_run S st k)"
  unfolding update_workflow_step_run_def update_claimed_workflow_step_run_def
  by (intro ops4 finalize_grant_keeps)+

lemma first_lineage_denial_keeps: "keeps R (first_lineage_denial S n gs)"
  by (induction gs) (simp_all only: first_lineage_denial.simps, (intro ops4 | simp)+)

lemma lineage_denial_keeps: "keeps R (task_grant_lineage_denial S g)"
  unfolding task_grant_lineage_denial_def by (intro ops4 first_lineage_denial_keeps)

lemma workflow_run_for_session_keeps: "keeps R (workflow_run_for_session S s)"
proof -
  have "keeps R (first_owning_run S s runs)" for runs
    by (induction runs) (simp_all only: first_owning_run.simps workflow_run_owns_session_def, (intro ops4)+)
  then show ?thesis unfolding workflow_run_for_session_def by (intro ops4)
qed

lemma session_grant_keeps: "keeps R (session_grant S r s)"
  unfolding session_grant_def latest_session_grant_def by (intro ops4)

lemma not_denied_keeps: "keeps R (not_denied d)"
  unfolding not_denied_def by (intro ops4)

lemma active_grant_keeps:
  "keeps R (active_task_grant_for_session S s)"
  "keeps R (require_active_task_grant_for_session S s)"
  "keeps R (governing_task_grant_for_memory_writeback S s)"
  unfolding require_active_task_grant_for_session_def active_task_grant_for_session_def
    governing_task_grant_for_memory_writeback_def
  by (intro ops4 workflow_run_for_session_keeps session_grant_keeps lineage_denial_keeps not_denied_keeps)+

lemma reserve_keeps: "keeps R (reserve_task_grant_tool_call S i)" "keeps R (reserve_task_grant_turn S i)"
  unfolding reserve_task_grant_tool_call_def reserve_task_grant_turn_def by (intro ops4)+

lemma validate_tool_invocation_keeps:
  "keeps R (validate_task_grant_for_tool_invocation S n x a b c)"
  unfolding validate_task_grant_for_tool_invocation_def Let_def
  by (intro ops4 workflow_run_for_session_keeps lineage_denial_keeps reserve_keeps)

lemma issue_root_keeps: "keeps R (issue_root_task_grant_for_workflow_run S r d s)"
  unfolding issue_root_task_grant_for_workflow_run_def Let_def
  by (intro ops4)

lemmas ops5 = ops4 update_run_keeps close_grants_keeps update_step_keeps not_denied_keeps
  issue_root_keeps

section \<open>Materialisation and advancement\<close>

lemma materialize_keeps:
  "keeps R (materialize_workflow_graph_step_with_policy_context S P d r s g j st sch c out)"
  unfolding materialize_workflow_graph_step_with_policy_context_def materialize_without_session_def
    materialize_isolated_def materialize_shared_def pinned_version_def Let_def
  by (intro ops5 or_fail_keeps) (simp add: unused_def child_step_grant_def)

lemma create_run_keeps: "keeps R (create_workflow_run_from_definition S P d t i e)"
  unfolding create_workflow_run_from_definition_def materialize_workflow_graph_start_steps_def
    materialize_workflow_graph_step_def Let_def
    workflow_run_runtime_envelope_with_pinned_ontology_release_def
  by (intro ops5 materialize_keeps)

lemma trigger_run_keeps: "keeps R (trigger_workflow_run_from_webhook S P i v)"
  unfolding trigger_workflow_run_from_webhook_def by (intro ops5 create_run_keeps)

lemma update_status_record_keeps: "keeps R (update_workflow_run_status_and_record S P r st)"
  unfolding update_workflow_run_status_and_record_def finish_completed_workflow_session_def Let_def
  by (intro ops5)

lemmas ops6 = ops5 materialize_keeps update_status_record_keeps

lemma finalize_graph_keeps:
  "keeps R (finalize_workflow_graph_after_transition_policy S P d r st)"
  unfolding finalize_workflow_graph_after_transition_policy_def workflow_graph_run_completed_def
    workflow_graph_terminal_failure_status_def workflow_graph_failed_step_keys_def
  by (intro ops6)

lemma failure_policy_step_keeps: "keeps R (failure_policy_step S P d r s g st ex j)"
  unfolding failure_policy_step_def Let_def by (intro ops6)

lemma any_step_keeps: "(\<And>x. keeps R (f x)) \<Longrightarrow> keeps R (any_step f xs b)"
  by (induction xs arbitrary: b) (simp_all only: any_step.simps, (intro ops6 | simp)+)

lemma failure_policy_loop_keeps: "keeps R (failure_policy_loop n S P d r s g st steps)"
  by (induction n) (simp_all only: failure_policy_loop.simps,
      (intro ops6 any_step_keeps failure_policy_step_keeps | simp)+)

lemma returned_keeps: "keeps R m \<Longrightarrow> keeps R (returned m)"
  unfolding returned_def by (intro ops6)

lemma advance_failure_keeps: "keeps R (advance_workflow_graph_after_step_failure S P r st)"
  unfolding advance_workflow_graph_after_step_failure_def root_grant_of_run_def Let_def
    materialize_workflow_graph_failure_policy_steps_def retry_failed_step_def
  by (intro ops6 returned_keeps failure_policy_loop_keeps finalize_graph_keeps)

lemma advance_ready_steps_keeps:
  "keeps R (advance_ready_steps S P d r s g st ex mp ready ac an)"
proof (induction ready arbitrary: ac an)
  case (Cons ready rest)
  then show ?case
    unfolding advance_ready_steps.simps defer_ready_step_def skip_ready_step_def
      start_ready_step_def Let_def
    by (intro ops6)
qed (simp only: advance_ready_steps.simps ops4)

lemma advance_loop_keeps: "keeps R (advance_loop n S P d r s g st)"
  by (induction n) (simp_all only: advance_loop.simps,
      (intro ops6 advance_ready_steps_keeps | simp)+)

lemma advance_keeps: "keeps R (advance_workflow_graph_after_step_update S P r st)"
  unfolding advance_workflow_graph_after_step_update_def root_grant_of_run_def
  by (intro ops6 returned_keeps advance_loop_keeps advance_failure_keeps finalize_graph_keeps)

section \<open>Handlers\<close>

lemma claim_keeps:
  assumes "\<And>i. keeps R (rq_authorize_session rq i)"
  shows "keeps R (claim_workflow_step_run S P rq st r a l)"
  unfolding claim_workflow_step_run_def authorize_workflow_step_session_def Let_def
  by (intro ops6 assms)

lemma settle_keeps:
  "keeps R (update_workflow_step_after_worker_session S P r st s j k refs e b)"
  unfolding update_workflow_step_after_worker_session_def settled_status_def
    successful_provider_completion_for_job_def Let_def
  by (intro ops6 advance_keeps)

lemma reconcile_keeps: "keeps R (reconcile_workflow_steps_after_session_loop_job S P s j k)"
proof -
  have "keeps R (reconcile_steps S P s j k refs runs steps)" for refs runs steps
    by (induction steps arbitrary: runs)
      (simp_all only: reconcile_steps.simps, (intro ops6 settle_keeps | simp)+)
  then show ?thesis
    unfolding reconcile_workflow_steps_after_session_loop_job_def by (intro ops6)
qed

lemma resume_keeps: "keeps R (resume_recorded_workflow_completion S P j)"
  unfolding resume_recorded_workflow_completion_def successful_provider_completion_for_job_def
    workflow_step_keeps_session_open_def finish_completed_workflow_session_def
  by (intro ops6 advance_keeps)

lemma activate_due_keeps: "keeps R (activate_due_workflow_steps_for_run S P r n v)"
proof -
  have "keeps R (activate_steps S r n steps)" for steps
    by (induction steps) (simp_all only: activate_steps.simps, (intro ops6 | simp)+)
  then show ?thesis unfolding activate_due_workflow_steps_for_run_def by (intro ops6)
qed

lemma sweep_keeps: "keeps R (execute_due_workflow_scheduled_steps S P n)"
proof -
  have "keeps R (sweep_runs S P n runs acc)" for runs acc
  proof (induction runs arbitrary: acc)
    case (Cons r runs)
    then show ?case
      by (cases acc) (simp only: sweep_runs.simps Let_def, intro ops6 activate_due_keeps)
  qed (cases acc, simp only: sweep_runs.simps ops4)
  then show ?thesis unfolding execute_due_workflow_scheduled_steps_def Let_def by (intro ops6)
qed

end

end
