(* ===== verification/Attenuation.thy ===== *)
theory Attenuation
  imports Grants
begin

text \<open>
  What a child grant may do, its parent may do. The scope comparison is a preorder on
  documents, the scopes that derive from a parent lie within it, and every permission a scope
  gives is monotone in it; the locale \<open>attenuating\<close> lifts a monotone permission to the whole
  chain of a grant's ancestors.
\<close>

section \<open>The scope order\<close>

text \<open>A comparison of scopes on a carrier of well-formed scopes, and what follows for chains.\<close>

locale scope_order =
  fixes carrier :: "'s \<Rightarrow> bool" and contains :: "'s \<Rightarrow> 's \<Rightarrow> bool"
  assumes within_refl: "carrier s \<Longrightarrow> contains s s"
    and within_trans: "contains p m \<Longrightarrow> contains m c \<Longrightarrow> contains p c"
begin

lemma within_chain:
  assumes "successively (\<lambda>child parent. contains parent child) (c # cs)"
    and "carrier c" and "p \<in> set (c # cs)"
  shows "contains p c"
  using assms
proof (induction cs arbitrary: c p rule: rev_induct)
  case (snoc d ds)
  show ?case
  proof (cases "p \<in> set (c # ds)")
    case True
    from snoc.prems(1) have "successively (\<lambda>child parent. contains parent child) (c # ds)"
      by (metis append_Cons successively_append_iff)
    with True snoc show ?thesis by blast
  next
    case False
    with snoc.prems have p: "p = d" by auto
    have "contains (last (c # ds)) c"
      using snoc by (metis append_Cons last_in_set list.distinct(1) successively_append_iff)
    moreover have "contains d (last (c # ds))"
      using snoc.prems(1) by (metis append_Cons list.distinct(1) list.sel(1) successively_append_iff)
    ultimately show ?thesis using within_trans p by blast
  qed
qed (auto intro: within_refl)

end

text \<open>A permission a smaller scope does not widen.\<close>

locale attenuating =
  fixes contains :: "'s \<Rightarrow> 's \<Rightarrow> bool" and permits :: "'s \<Rightarrow> 'a \<Rightarrow> bool"
  assumes permits_mono: "contains p c \<Longrightarrow> permits c a \<Longrightarrow> permits p a"
begin

lemma permits_chain:
  "successively (\<lambda>child parent. contains parent child) (c # cs) \<Longrightarrow> permits c a \<Longrightarrow>
   p \<in> set (c # cs) \<Longrightarrow> permits p a"
  by (induction cs arbitrary: c) (auto intro: permits_mono)

end

lemma json_scope_contains_refl: "wf_json v \<Longrightarrow> json_scope_contains v v"
proof (induction v)
  case (JObj m)
  then have "map_of m (fst kv) = Some (snd kv)" if "kv \<in> set m" for kv
    using that by (simp add: map_of_eq_Some_iff sorted_obj_distinct)
  moreover have "json_scope_contains (snd kv) (snd kv)" if "kv \<in> set m" for kv
    using JObj that by (cases kv) (auto simp: list_all_iff snds.simps)
  ultimately show ?case by (simp add: list_all_iff)
next
  case (JBool b)
  then show ?case by (cases b) simp_all
qed (auto simp: list_all_iff list_ex_iff)

lemma scope_within_obj:
  "json_scope_contains p (JObj c) \<longleftrightarrow>
     (\<exists>m. p = JObj m \<and> (\<forall>(k, v) \<in> set c. \<exists>u. map_of m k = Some u \<and> json_scope_contains u v))"
proof (cases p)
  case (JBool b)
  then show ?thesis by (cases b) simp_all
qed (auto simp: list_all_iff is_some_and_iff)

lemma scope_within_arr:
  "json_scope_contains p (JArr c) \<longleftrightarrow>
     (\<exists>m. p = JArr m \<and> (\<forall>v \<in> set c. v \<in> set m \<or> (JStr ''*'' \<in> set m \<and> is_string v)))"
proof (cases p)
  case (JBool b)
  then show ?thesis by (cases b) simp_all
qed (auto simp: list_all_iff list_ex_iff)

lemma scope_within_str [simp]: "json_scope_contains p (JStr s) \<longleftrightarrow> p = JStr s"
  by (cases p) simp_all

lemma scope_within_bool [simp]:
  "json_scope_contains p (JBool b) \<longleftrightarrow> p = JBool b \<or> p = JBool True"
  by (cases p; simp) (case_tac x2; simp)

lemma scope_within_int [simp]: "json_scope_contains p (JInt i) \<longleftrightarrow> p = JInt i"
  by (cases p) simp_all

lemma scope_within_float [simp]: "json_scope_contains p (JFloat r) \<longleftrightarrow> p = JFloat r"
  by (cases p) simp_all

lemma json_scope_contains_trans:
  "json_scope_contains p m \<Longrightarrow> json_scope_contains m c \<Longrightarrow> json_scope_contains p c"
proof (induction c arbitrary: p m)
  case (JObj c)
  from JObj.prems(2) obtain ms where ms: "m = JObj ms"
    "\<forall>(k, v) \<in> set c. \<exists>u. map_of ms k = Some u \<and> json_scope_contains u v"
    by (auto simp: scope_within_obj)
  from JObj.prems(1) ms(1) obtain ps where ps: "p = JObj ps"
    "\<forall>(k, v) \<in> set ms. \<exists>u. map_of ps k = Some u \<and> json_scope_contains u v"
    by (auto simp: scope_within_obj)
  have "\<exists>u. map_of ps k = Some u \<and> json_scope_contains u v" if kv: "(k, v) \<in> set c" for k v
  proof -
    from ms(2) kv obtain w where w: "map_of ms k = Some w" "json_scope_contains w v" by blast
    from ps(2) map_of_SomeD [OF w(1)] obtain u
      where u: "map_of ps k = Some u" "json_scope_contains u w" by auto
    from JObj.IH [of "(k, v)" v u w] kv u(2) w(2) have "json_scope_contains u v"
      by (simp add: snds.simps)
    with u(1) show ?thesis by blast
  qed
  with ps(1) show ?case by (auto simp: scope_within_obj)
next
  case (JArr c)
  then obtain ms ps where "m = JArr ms" "p = JArr ps"
    "\<forall>v \<in> set c. v \<in> set ms \<or> (JStr ''*'' \<in> set ms \<and> is_string v)"
    "\<forall>v \<in> set ms. v \<in> set ps \<or> (JStr ''*'' \<in> set ps \<and> is_string v)"
    by (auto simp: scope_within_arr)
  then show ?case by (auto simp: scope_within_arr)
qed auto

interpretation json_scope: scope_order wf_json json_scope_contains
  by unfold_locales (fact json_scope_contains_refl, fact json_scope_contains_trans)

section \<open>Permissions are monotone\<close>

text \<open>The six scopes of a child lie within those of its parent.\<close>

definition scopes_within :: "task_grant \<Rightarrow> task_grant \<Rightarrow> bool" where
  "scopes_within parent child \<longleftrightarrow>
     json_scope_contains (tg_semantic_scopes parent) (tg_semantic_scopes child)
     \<and> json_scope_contains (tg_memory_scope parent) (tg_memory_scope child)
     \<and> json_scope_contains (tg_tool_scope parent) (tg_tool_scope child)
     \<and> json_scope_contains (tg_connector_scope parent) (tg_connector_scope child)
     \<and> json_scope_contains (tg_approval_policy parent) (tg_approval_policy child)
     \<and> json_scope_contains (tg_external_effects parent) (tg_external_effects child)"

lemma ensure_child_scopes_within:
  "ensure_child_task_grant_within_parent parent child = Inr u \<Longrightarrow> scopes_within parent child"
  by (auto simp: ensure_child_task_grant_within_parent_def scopes_within_def bindr_eq_Inr
      split: if_splits)

lemma ensure_child_same_run:
  "ensure_child_task_grant_within_parent parent child = Inr u \<Longrightarrow>
   tg_workflow_run_id child = tg_workflow_run_id parent"
  by (auto simp: ensure_child_task_grant_within_parent_def bindr_eq_Inr split: if_splits)

lemma scope_within_get:
  assumes "json_scope_contains p c" and "jget c k = Some v"
  shows "\<exists>u. jget p k = Some u \<and> json_scope_contains u v"
proof -
  from assms(2) obtain m where m: "c = JObj m" "map_of m k = Some v" by (cases c) auto
  with assms(1) obtain q where q: "p = JObj q"
    "\<forall>(k, v) \<in> set m. \<exists>u. map_of q k = Some u \<and> json_scope_contains u v"
    by (auto simp: scope_within_obj)
  from map_of_SomeD [OF m(2)] q(2) have "\<exists>u. map_of q k = Some u \<and> json_scope_contains u v"
    by blast
  with q(1) show ?thesis by simp
qed

lemma array_contains_iff:
  "json_string_array_contains v s \<longleftrightarrow>
     (\<exists>xs. v = Some (JArr xs) \<and> (JStr ''*'' \<in> set xs \<or> JStr s \<in> set xs))"
proof (cases "Option.bind v as_array")
  case (Some xs)
  then have "v = Some (JArr xs)" by (auto simp: bind_eq_Some_conv)
  then show ?thesis by (auto simp: json_string_array_contains_def list_ex_iff is_some_and_iff)
qed (auto simp: json_string_array_contains_def)

lemma array_contains_mono:
  assumes "json_scope_contains p c" and "json_string_array_contains (jget c k) s"
  shows "json_string_array_contains (jget p k) s"
proof -
  from assms(2) obtain xs where xs: "jget c k = Some (JArr xs)"
    "JStr ''*'' \<in> set xs \<or> JStr s \<in> set xs" by (auto simp: array_contains_iff)
  from scope_within_get [OF assms(1) xs(1)] obtain u where
    "jget p k = Some u" "json_scope_contains u (JArr xs)" by blast
  with xs(2) show ?thesis by (fastforce simp: scope_within_arr array_contains_iff)
qed

lemma scope_str_mono:
  "json_scope_contains p c \<Longrightarrow> jget c k = Some (JStr s) \<Longrightarrow> jget p k = Some (JStr s)"
  using scope_within_get by fastforce

lemma scope_true_mono:
  "json_scope_contains p c \<Longrightarrow> jget c k = Some (JBool True) \<Longrightarrow> jget p k = Some (JBool True)"
  using scope_within_get by fastforce

lemma allows_tool_mono:
  "scopes_within p c \<Longrightarrow> task_grant_allows_tool c t \<Longrightarrow> task_grant_allows_tool p t"
  by (auto simp: scopes_within_def task_grant_allows_tool_def intro: array_contains_mono)

lemma side_effect_mono:
  "scopes_within p c \<Longrightarrow> task_grant_allows_side_effect_class c e \<Longrightarrow>
   task_grant_allows_side_effect_class p e"
  by (auto simp: scopes_within_def task_grant_allows_side_effect_class_def
      intro: array_contains_mono scope_true_mono)

lemma text_field_iff:
  assumes "m \<noteq> []"
  shows "unwrap_or (jget_str v k) [] = m \<longleftrightarrow> jget_str v k = Some m"
  using assms by (cases "jget_str v k") (auto simp del: jget_str_eq_Some)

lemma mode_mono:
  assumes "scopes_within p c" and "unwrap_or (jget_str (tg_connector_scope c) ''mode'') [] = m"
    and "m \<noteq> []"
  shows "unwrap_or (jget_str (tg_connector_scope p) ''mode'') [] = m"
proof -
  have "jget (tg_connector_scope c) ''mode'' = Some (JStr m)"
    using assms(2,3) text_field_iff by fastforce
  moreover have "json_scope_contains (tg_connector_scope p) (tg_connector_scope c)"
    using assms(1) by (simp add: scopes_within_def)
  ultimately have "jget_str (tg_connector_scope p) ''mode'' = Some m"
    using scope_str_mono by simp
  with text_field_iff [OF assms(3)] show ?thesis by blast
qed

lemma deny_if: "(if c then Inr (Some s) else y) = Inr None \<longleftrightarrow> \<not> c \<and> y = Inr None"
  by simp

lemma mcp_allowed_iff:
  "task_grant_mcp_call_denial g args = Inr None \<longleftrightarrow>
     (\<exists>r. mcp_call_request_of args = Inr r \<and> trim (mc_server r) \<noteq> [] \<and> trim (mc_tool r) \<noteq> []
      \<and> unwrap_or (jget_str (tg_connector_scope g) ''mode'') []
          \<in> {''read_only'', ''draft_write'', ''commit_write''}
      \<and> json_string_array_contains (jget (tg_connector_scope g) ''allowed_connector_ids'')
          (trim (mc_server r))
      \<and> json_string_array_contains (jget (tg_connector_scope g) ''allowed_tool_names'')
          (trim (mc_tool r))
      \<and> is_none_or (arg_text (mc_args r) [''side_effect_class''])
          (task_grant_allows_side_effect_class g))"
proof (cases "mcp_call_request_of args")
  case (Inr r)
  show ?thesis
    unfolding task_grant_mcp_call_denial_def Let_def Inr bindr_simps deny_if
    by (cases "arg_text (mc_args r) [''side_effect_class'']") auto
qed (simp add: task_grant_mcp_call_denial_def)

lemma native_target_allowed_iff:
  "native_target_denial g tool t = Inr None \<longleftrightarrow>
     unwrap_or (jget_str (tg_connector_scope g) ''mode'') [] = ''commit_write''
     \<and> native_binding_allowed g t = Inr True
     \<and> json_string_array_contains (jget (tg_connector_scope g) ''allowed_connector_ids'')
         (nc_connector_id t)
     \<and> (json_string_array_contains (jget (tg_connector_scope g) ''allowed_tool_names'') (nc_operation t)
        \<or> json_string_array_contains (jget (tg_connector_scope g) ''allowed_tool_names'') tool)
     \<and> task_grant_allows_side_effect_class g (nc_side_effect_class t)"
proof (cases "native_binding_allowed g t")
  case (Inr b)
  show ?thesis unfolding native_target_denial_def Inr bindr_simps deny_if by auto
qed (auto simp: native_target_denial_def)

lemma mcp_call_mono:
  assumes "scopes_within p c" and "task_grant_mcp_call_denial c args = Inr None"
  shows "task_grant_mcp_call_denial p args = Inr None"
proof -
  let ?m = "unwrap_or (jget_str (tg_connector_scope c) ''mode'') []"
  from assms(2) obtain r where r: "mcp_call_request_of args = Inr r"
    "trim (mc_server r) \<noteq> []" "trim (mc_tool r) \<noteq> []"
    "?m \<in> {''read_only'', ''draft_write'', ''commit_write''}"
    "json_string_array_contains (jget (tg_connector_scope c) ''allowed_connector_ids'') (trim (mc_server r))"
    "json_string_array_contains (jget (tg_connector_scope c) ''allowed_tool_names'') (trim (mc_tool r))"
    "is_none_or (arg_text (mc_args r) [''side_effect_class'']) (task_grant_allows_side_effect_class c)"
    unfolding mcp_allowed_iff by blast
  have "?m \<noteq> []" using r(4) by auto
  then have m: "unwrap_or (jget_str (tg_connector_scope p) ''mode'') [] = ?m"
    using mode_mono [OF assms(1)] by metis
  have "json_scope_contains (tg_connector_scope p) (tg_connector_scope c)"
    using assms(1) by (simp add: scopes_within_def)
  note arr = array_contains_mono [OF this]
  have "is_none_or (arg_text (mc_args r) [''side_effect_class'']) (task_grant_allows_side_effect_class p)"
    using r(7) side_effect_mono [OF assms(1)]
    by (cases "arg_text (mc_args r) [''side_effect_class'']") auto
  then show ?thesis
    unfolding mcp_allowed_iff using r(1-4) m arr [OF r(5)] arr [OF r(6)] by metis
qed

text \<open>
  For a native connector the scope comparison is not enough: a scope without
  \<open>native_operation_bindings\<close> restricts the bindings less than one that has them.
\<close>

definition keeps_bindings :: "task_grant \<Rightarrow> task_grant \<Rightarrow> bool" where
  "keeps_bindings parent child \<longleftrightarrow>
     (jget (tg_connector_scope parent) ''native_operation_bindings'' \<noteq> None \<longrightarrow>
      jget (tg_connector_scope child) ''native_operation_bindings'' \<noteq> None)"

lemma native_binding_mono:
  assumes "scopes_within p c" and "keeps_bindings p c" and "native_binding_allowed c t = Inr True"
  shows "native_binding_allowed p t = Inr True"
proof (cases "jget (tg_connector_scope p) ''native_operation_bindings''")
  case (Some pb)
  with assms(2) obtain cb where cb:
    "jget (tg_connector_scope c) ''native_operation_bindings'' = Some cb"
    by (auto simp: keeps_bindings_def)
  with assms(3) obtain bs b where b: "cb = JArr bs" "b \<in> set bs" "binding_matches t b"
    by (auto simp: native_binding_allowed_def bindr_eq_Inr list_ex_iff)
  have "json_scope_contains (tg_connector_scope p) (tg_connector_scope c)"
    using assms(1) by (simp add: scopes_within_def)
  with cb Some b(1) have "json_scope_contains pb (JArr bs)" using scope_within_get by fastforce
  then obtain ps where ps: "pb = JArr ps"
    "\<forall>v \<in> set bs. v \<in> set ps \<or> (JStr ''*'' \<in> set ps \<and> is_string v)"
    by (auto simp: scope_within_arr)
  have "\<not> is_string b" using b(3) by (auto simp: binding_matches_def is_string_iff)
  with ps(2) b(2) have "b \<in> set ps" by blast
  with b(3) have "list_ex (binding_matches t) ps" by (auto simp: list_ex_iff)
  with Some ps(1) show ?thesis by (simp add: native_binding_allowed_def)
qed (simp add: native_binding_allowed_def)

lemma native_target_mono:
  assumes "scopes_within p c" and "keeps_bindings p c"
    and "native_target_denial c tool t = Inr None"
  shows "native_target_denial p tool t = Inr None"
proof -
  from assms(3) have c:
    "unwrap_or (jget_str (tg_connector_scope c) ''mode'') [] = ''commit_write''"
    "native_binding_allowed c t = Inr True"
    "json_string_array_contains (jget (tg_connector_scope c) ''allowed_connector_ids'') (nc_connector_id t)"
    "json_string_array_contains (jget (tg_connector_scope c) ''allowed_tool_names'') (nc_operation t)
     \<or> json_string_array_contains (jget (tg_connector_scope c) ''allowed_tool_names'') tool"
    "task_grant_allows_side_effect_class c (nc_side_effect_class t)"
    unfolding native_target_allowed_iff by blast+
  have "json_scope_contains (tg_connector_scope p) (tg_connector_scope c)"
    using assms(1) by (simp add: scopes_within_def)
  note arr = array_contains_mono [OF this]
  have "unwrap_or (jget_str (tg_connector_scope p) ''mode'') [] = ''commit_write''"
    using mode_mono [OF assms(1) c(1)] by simp
  then show ?thesis
    using native_binding_mono [OF assms(1,2) c(2)] arr [OF c(3)] c(4) arr
      side_effect_mono [OF assms(1) c(5)]
    unfolding native_target_allowed_iff by blast
qed

lemma connector_invocation_mono:
  assumes "scopes_within p c" and "keeps_bindings p c"
    and "task_grant_connector_invocation_denial c tool args = Inr None"
  shows "task_grant_connector_invocation_denial p tool args = Inr None"
  using assms mcp_call_mono [OF assms(1)] native_target_mono [OF assms(1,2)]
  by (auto simp: task_grant_connector_invocation_denial_def bindr_eq_Inr split: if_splits)

interpretation tool_scope: attenuating scopes_within task_grant_allows_tool
  by unfold_locales (fact allows_tool_mono)

interpretation side_effects: attenuating scopes_within task_grant_allows_side_effect_class
  by unfold_locales (fact side_effect_mono)

interpretation mcp_calls: attenuating scopes_within
    "\<lambda>g args. task_grant_mcp_call_denial g args = Inr None"
  by unfold_locales (fact mcp_call_mono)

interpretation connector_calls: attenuating
    "\<lambda>p c. scopes_within p c \<and> keeps_bindings p c"
    "\<lambda>g call. task_grant_connector_invocation_denial g (fst call) (snd call) = Inr None"
  by unfold_locales (auto intro: connector_invocation_mono)

end
