(* ===== verification/Grant_Machine.thy ===== *)
theory Grant_Machine
  imports Preservation Attenuation
begin

text \<open>
  The abstract machine of task grants: what can happen to the table of grants, as a step
  relation. Every operation of the program moves the table along steps of this machine (the
  relation \<open>grants_follow\<close> of the locale \<open>store_relation\<close>), so what holds of its reachable tables
  holds of the program's.
\<close>

section \<open>The machine\<close>

definition keyed :: "task_grant table \<Rightarrow> bool" where
  "keyed t \<longleftrightarrow> (\<forall>i g. tget t i = Some g \<longrightarrow> tg_id g = i)"

definition new_grant_ok :: "task_grant \<Rightarrow> bool" where
  "new_grant_ok g \<longleftrightarrow>
     validate_task_grant_scope_objects g = Inr () \<and> validate_task_grant_budgets g = Inr ()
     \<and> tg_status g = ''active'' \<and> unused g"

definition below :: "int option \<Rightarrow> int \<Rightarrow> bool" where
  "below limit used \<longleftrightarrow> is_none_or limit (\<lambda>l. used < l)"

inductive grant_step :: "task_grant table \<Rightarrow> task_grant table \<Rightarrow> bool" where
  issue_root:
    "tget t (tg_id g) = None \<Longrightarrow> new_grant_ok g \<Longrightarrow> tg_parent_grant_id g = None \<Longrightarrow>
     grant_step t (tput (tg_id g) g t)"
| issue_child:
    "tget t (tg_id g) = None \<Longrightarrow> new_grant_ok g \<Longrightarrow> tg_parent_grant_id g = Some p \<Longrightarrow>
     tget t p = Some parent \<Longrightarrow> task_grant_runtime_denial parent now = None \<Longrightarrow>
     ensure_child_task_grant_within_parent parent g = Inr () \<Longrightarrow>
     grant_step t (tput (tg_id g) g t)"
| close:
    "tget t i = Some g \<Longrightarrow> tg_status g = ''active'' \<Longrightarrow>
     s \<in> {''revoked'', ''expired'', ''completed'', ''cancelled''} \<Longrightarrow>
     grant_step t (tput i (g\<lparr>tg_status := s, tg_updated_at := now\<rparr>) t)"
| turn:
    "tget t i = Some g \<Longrightarrow> tg_status g = ''active'' \<Longrightarrow> below (tg_max_turns g) (tg_turns_used g) \<Longrightarrow>
     grant_step t (tput i (g\<lparr>tg_turns_used := tg_turns_used g + 1, tg_updated_at := now\<rparr>) t)"
| tool_call:
    "tget t i = Some g \<Longrightarrow> tg_status g = ''active'' \<Longrightarrow>
     below (tg_max_tool_calls g) (tg_tool_calls_used g) \<Longrightarrow>
     grant_step t (tput i (g\<lparr>tg_tool_calls_used := tg_tool_calls_used g + 1, tg_updated_at := now\<rparr>) t)"
| cost:
    "tget t i = Some g \<Longrightarrow> 0 < c \<Longrightarrow>
     grant_step t (tput i (g\<lparr>tg_cost_usd_micros_used := tg_cost_usd_micros_used g + c,
                             tg_updated_at := now\<rparr>) t)"
| packet:
    "tget t i = Some g \<Longrightarrow>
     grant_step t (tput i (g\<lparr>tg_context_packet_id := Some c, tg_updated_at := now\<rparr>) t)"

inductive_cases grant_stepE: "grant_step t t'"

lemma grant_step_keyed: "grant_step t t' \<Longrightarrow> keyed t \<Longrightarrow> keyed t'"
  by (induction rule: grant_step.induct) (auto simp: keyed_def store_table.get_put)

definition grants_follow :: "world \<Rightarrow> world \<Rightarrow> bool" where
  "grants_follow w w' \<longleftrightarrow>
     (keyed (task_grants w) \<longrightarrow> grant_step\<^sup>*\<^sup>* (task_grants w) (task_grants w'))"

lemma grant_steps_keyed: "grant_step\<^sup>*\<^sup>* t t' \<Longrightarrow> keyed t \<Longrightarrow> keyed t'"
  by (induction rule: rtranclp_induct) (auto intro: grant_step_keyed)

lemma grants_follow_refl: "grants_follow w w"
  by (simp add: grants_follow_def)

lemma grants_follow_trans: "grants_follow u v \<Longrightarrow> grants_follow v w \<Longrightarrow> grants_follow u w"
  by (auto simp: grants_follow_def intro: rtranclp_trans dest: grant_steps_keyed)

interpretation follow: relation_on_worlds grants_follow
  by unfold_locales (fact grants_follow_refl, fact grants_follow_trans)

section \<open>The atomic operations follow the machine\<close>

lemma keeps_same_grants:
  "(\<And>w. task_grants (snd (m w)) = task_grants w) \<Longrightarrow> keeps grants_follow m"
  by (simp add: keeps_def grants_follow_def)

lemma keeps_one_step:
  "(\<And>w. keyed (task_grants w) \<Longrightarrow> task_grants (snd (m w)) = task_grants w
        \<or> grant_step (task_grants w) (task_grants (snd (m w)))) \<Longrightarrow> keeps grants_follow m"
  unfolding keeps_def grants_follow_def by (metis rtranclp.simps)

lemma expire_step:
  "task_grants (expire_grant now i w) = task_grants w
   \<or> grant_step (task_grants w) (task_grants (expire_grant now i w))"
  by (auto simp: expire_grant_def split: option.splits intro: grant_step.close)

lemma admit_Inr:
  "admit_child_grant now g w = (Inr u, w') \<Longrightarrow>
   w' = w \<and> (case tg_parent_grant_id g of None \<Rightarrow> True
     | Some p \<Rightarrow> \<exists>parent. tget (task_grants w) p = Some parent
         \<and> task_grant_runtime_denial parent now = None
         \<and> ensure_child_task_grant_within_parent parent g = Inr ())"
  by (auto simp: admit_child_grant_def split: option.splits)

lemma admit_Inl:
  "admit_child_grant now g w = (Inl e, w') \<Longrightarrow>
   task_grants w' = task_grants w \<or> grant_step (task_grants w) (task_grants w')"
  using expire_step [of now _ w]
  by (fastforce simp: admit_child_grant_def split: option.splits if_splits)

lemma issue_step:
  assumes "admit_child_grant now g w = (Inr u, w')" and "tget (task_grants w) (tg_id g) = None"
    and "new_grant_ok g"
  shows "grant_step (task_grants w) (tput (tg_id g) g (task_grants w))"
proof (cases "tg_parent_grant_id g")
  case None
  with assms show ?thesis by (auto intro: grant_step.issue_root)
next
  case (Some p)
  with admit_Inr [OF assms(1)] obtain parent where "tget (task_grants w) p = Some parent"
    "task_grant_runtime_denial parent now = None"
    "ensure_child_task_grant_within_parent parent g = Inr ()" by auto
  with Some assms show ?thesis by (auto intro: grant_step.issue_child)
qed

lemma clock_same_grants [simp]:
  "task_grants (snd (now_utc S w)) = task_grants w" "task_grants (snd (new_v4 S w)) = task_grants w"
  by (simp_all add: now_utc_def new_v4_def)

text \<open>The common shape of the two operations that insert a grant.\<close>

lemma issuing_follows:
  assumes "c = Inr () \<Longrightarrow> new_grant_ok g"
    and "\<And>w. f w = Inr () \<Longrightarrow> tget (task_grants w) (tg_id g) = None"
    and "\<And>w. task_grants (snd (k w)) = tput (tg_id g) g (task_grants w)"
  shows "keeps grants_follow (bindS (liftS c) (\<lambda>_. bindS (now_utc S) (\<lambda>now.
    bindS (asksr f) (\<lambda>_. bindS (admit_child_grant now g) (\<lambda>_. k)))))" (is "keeps _ ?m")
proof (rule keeps_one_step)
  fix w :: world
  let ?w1 = "w\<lparr>ticks := Suc (ticks w)\<rparr>"
  show "task_grants (snd (?m w)) = task_grants w \<or> grant_step (task_grants w) (task_grants (snd (?m w)))"
  proof (cases c)
    case Inr
    show ?thesis
    proof (cases "f ?w1")
      case Inr': (Inr u)
      obtain r w2 where r: "admit_child_grant (clock S (ticks w)) g ?w1 = (r, w2)" by fastforce
      show ?thesis
      proof (cases r)
        case (Inl e)
        with r Inr Inr' admit_Inl [of "clock S (ticks w)" g ?w1 e w2] show ?thesis
          by (simp add: bindS_def eff_simps now_utc_def)
      next
        case (Inr v)
        with r admit_Inr [of "clock S (ticks w)" g ?w1 v w2] have "w2 = ?w1" by simp
        with Inr r \<open>c = Inr _\<close> Inr' assms(1) assms(2) [of ?w1] assms(3)
          issue_step [of "clock S (ticks w)" g ?w1 v w2]
        show ?thesis by (simp add: bindS_def eff_simps now_utc_def)
      qed
    qed (use Inr in \<open>simp add: bindS_def eff_simps now_utc_def\<close>)
  qed (simp add: bindS_def eff_simps)
qed

lemma create_task_grant_follows: "keeps grants_follow (create_task_grant S g)"
  unfolding create_task_grant_def
  by (rule issuing_follows)
    (auto simp: new_grant_check_def new_grant_ok_def unused_def bindr_eq_Inr put_grant_def split: if_splits)

lemma step_with_grant_follows:
  "unused g \<Longrightarrow> keeps grants_follow (create_workflow_step_run_with_task_grant S st g)"
  unfolding create_workflow_step_run_with_task_grant_def Let_def
  by (rule issuing_follows)
    (auto simp: step_grant_reference_check_def new_grant_ok_def bindr_eq_Inr put_grant_def
      put_step_def split: if_splits)

lemma update_status_follows: "keeps grants_follow (update_task_grant_status S i s)"
proof (rule keeps_one_step)
  fix w :: world
  show "task_grants (snd (update_task_grant_status S i s w)) = task_grants w
      \<or> grant_step (task_grants w) (task_grants (snd (update_task_grant_status S i s w)))"
    by (auto simp: update_task_grant_status_def get_task_grant_def bindS_def eff_simps now_utc_def
        Let_def ok_or_def split: option.splits if_splits intro: grant_step.close)
qed

lemma context_packet_follows: "keeps grants_follow (update_task_grant_context_packet S i c)"
proof (rule keeps_one_step)
  fix w :: world
  show "task_grants (snd (update_task_grant_context_packet S i c w)) = task_grants w
      \<or> grant_step (task_grants w) (task_grants (snd (update_task_grant_context_packet S i c w)))"
    by (auto simp: update_task_grant_context_packet_def get_task_grant_def bindS_def eff_simps
        now_utc_def Let_def ok_or_def split: option.splits intro: grant_step.packet)
qed

section \<open>Lineages\<close>

text \<open>The ancestors of a grant, itself first, without the search's bookkeeping.\<close>

inductive ancestry :: "task_grant table \<Rightarrow> uuid \<Rightarrow> task_grant list \<Rightarrow> bool" for t where
  root: "tget t i = Some g \<Longrightarrow> tg_parent_grant_id g = None \<Longrightarrow> ancestry t i [g]"
| child: "tget t i = Some g \<Longrightarrow> tg_parent_grant_id g = Some p \<Longrightarrow> ancestry t p gs \<Longrightarrow>
    ancestry t i (g # gs)"

inductive_cases ancestryE: "ancestry t i ls"

lemma ancestry_unique: "ancestry t i ls \<Longrightarrow> ancestry t i ls' \<Longrightarrow> ls = ls'"
proof (induction arbitrary: ls' rule: ancestry.induct)
  case (root i g)
  from root.prems root.hyps show ?case by cases auto
next
  case (child i g p gs)
  from child.prems child.hyps(1,2) obtain gs' where "ls' = g # gs'" "ancestry t p gs'"
    by cases auto
  with child.IH show ?case by simp
qed

lemma ancestry_mem:
  assumes "ancestry t i ls" and "keyed t" and "g \<in> set ls"
  shows "tget t (tg_id g) = Some g \<and> (\<exists>gs. ancestry t (tg_id g) (g # gs) \<and> length (g # gs) \<le> length ls)"
  using assms
proof (induction rule: ancestry.induct)
  case (root i h)
  then show ?case by (auto simp: keyed_def intro: ancestry.root)
next
  case (child i h p gs)
  show ?case
  proof (cases "g = h")
    case True
    with child show ?thesis by (auto simp: keyed_def intro: ancestry.child)
  next
    case False
    with child show ?thesis by (auto intro: le_SucI)
  qed
qed

lemma ancestry_distinct: "ancestry t i ls \<Longrightarrow> keyed t \<Longrightarrow> distinct (map tg_id ls)"
proof (induction rule: ancestry.induct)
  case (child i g p gs)
  have "tg_id g \<notin> set (map tg_id gs)"
  proof
    assume "tg_id g \<in> set (map tg_id gs)"
    then obtain h where h: "h \<in> set gs" "tg_id h = tg_id g" by auto
    from ancestry_mem [OF child.hyps(3) child.prems h(1)] obtain hs where
      "ancestry t (tg_id h) (h # hs)" "length (h # hs) \<le> length gs" by blast
    moreover have "ancestry t i (g # gs)" using child.hyps by (rule ancestry.child)
    moreover have "tg_id g = i" using child by (auto simp: keyed_def)
    ultimately show False using ancestry_unique h(2) by fastforce
  qed
  with child show ?case by simp
qed simp

lemma lineage_from_ancestry: "lineage_from t seen i = Inr ls \<Longrightarrow> ancestry t i ls"
proof (induction t seen i arbitrary: ls rule: lineage_from.induct)
  case (1 t seen i)
  then show ?case
    by (subst (asm) (2) lineage_from.simps)
      (auto simp: bindr_eq_Inr split: if_splits option.splits intro: ancestry.intros)
qed

lemma ancestry_lineage_from:
  "ancestry t i ls \<Longrightarrow> keyed t \<Longrightarrow> set seen \<inter> tg_id ` set ls = {} \<Longrightarrow> lineage_from t seen i = Inr ls"
proof (induction arbitrary: seen rule: ancestry.induct)
  case (root i g)
  then show ?case by (subst lineage_from.simps) (auto simp: keyed_def)
next
  case (child i g p gs)
  have i: "tg_id g = i" using child by (auto simp: keyed_def)
  have "distinct (map tg_id (g # gs))"
    using child.hyps child.prems(1) by (intro ancestry_distinct) (rule ancestry.child)
  then have "set (i # seen) \<inter> tg_id ` set gs = {}" using child.prems(2) i by auto
  with child have "lineage_from t (i # seen) p = Inr gs" by blast
  moreover have "i \<notin> set seen" using child.prems(2) i by auto
  ultimately show ?case using child.hyps by (subst lineage_from.simps) simp
qed

lemma lineage_iff_ancestry:
  "keyed t \<Longrightarrow> lineage_from t [] i = Inr ls \<longleftrightarrow> ancestry t i ls"
  using lineage_from_ancestry ancestry_lineage_from [of t i ls "[]"] by auto

section \<open>Reservations follow the machine\<close>

lemma lineage_denial_None:
  "lineage_denial k now ls = None \<longleftrightarrow> (\<forall>g \<in> set ls. task_grant_reservation_denial g k now = None)"
  by (induction ls) (auto simp: lineage_denial_def split: option.splits)

lemma lineage_denial_Some:
  "lineage_denial k now ls = Some (g, d) \<Longrightarrow>
   g \<in> set ls \<and> task_grant_reservation_denial g k now = Some d"
  by (induction ls) (auto simp: lineage_denial_def split: option.splits)

lemma runtime_denial_None:
  "task_grant_runtime_denial g now = None \<Longrightarrow> tg_status g = ''active''"
  by (auto simp: task_grant_runtime_denial_def split: if_splits)

lemma reservation_denial_None:
  assumes "task_grant_reservation_denial g k now = None"
  shows "tg_status g = ''active''"
    "k = Turn \<Longrightarrow> below (tg_max_turns g) (tg_turns_used g)"
    "k = ToolCall \<Longrightarrow> below (tg_max_tool_calls g) (tg_tool_calls_used g)"
  using assms runtime_denial_None [of g now]
  by (auto simp: task_grant_reservation_denial_def below_def is_none_or_iff is_some_and_iff
      split: option.splits task_grant_reservation.splits if_splits)

definition counted :: "task_grant_reservation \<Rightarrow> timestamp \<Rightarrow> task_grant \<Rightarrow> task_grant" where
  "counted k now g = (case k of
     Turn \<Rightarrow> g\<lparr>tg_turns_used := tg_turns_used g + 1, tg_updated_at := now\<rparr>
   | ToolCall \<Rightarrow> g\<lparr>tg_tool_calls_used := tg_tool_calls_used g + 1, tg_updated_at := now\<rparr>)"

lemma count_usage_Inr: "count_usage k now g = Inr g' \<Longrightarrow> g' = counted k now g"
  by (auto simp: count_usage_def counted_def bindr_eq_Inr split: task_grant_reservation.splits)

lemma counted_step:
  assumes "tget t i = Some g" and "task_grant_reservation_denial g k now = None"
  shows "grant_step t (tput i (counted k now' g) t)"
  using assms reservation_denial_None [OF assms(2)]
  by (cases k) (auto simp: counted_def intro: grant_step.turn grant_step.tool_call)

lemma update_entries_follow:
  assumes "\<And>g. g \<in> set ls \<Longrightarrow> tget (task_grants w) (tg_id g) = Some g"
    and "\<And>g. g \<in> set ls \<Longrightarrow> task_grant_reservation_denial g k now = None"
    and "distinct (map tg_id ls)"
  shows "grant_step\<^sup>*\<^sup>* (task_grants w)
    (task_grants (snd (foreachS (\<lambda>g. update_grant_entry (count_usage k now) (tg_id g)) ls w)))"
  using assms
proof (induction ls arbitrary: w)
  case (Cons g ls)
  have g: "tget (task_grants w) (tg_id g) = Some g" using Cons.prems(1) by simp
  show ?case
  proof (cases "count_usage k now g")
    case (Inl e)
    with g show ?thesis by (simp add: thenS_def bindS_def update_grant_entry_def)
  next
    case (Inr g')
    let ?w = "w\<lparr>task_grants := tput (tg_id g) g' (task_grants w)\<rparr>"
    have "grant_step (task_grants w) (task_grants ?w)"
      using counted_step [OF g Cons.prems(2)] count_usage_Inr [OF Inr] by simp
    moreover have "grant_step\<^sup>*\<^sup>* (task_grants ?w)
      (task_grants (snd (foreachS (\<lambda>g. update_grant_entry (count_usage k now) (tg_id g)) ls ?w)))"
    proof (rule Cons.IH)
      fix h assume h: "h \<in> set ls"
      with Cons.prems(3) have "tg_id h \<noteq> tg_id g" by (metis distinct.simps(2) image_eqI list.map(2) set_map)
      with h Cons.prems(1) show "tget (task_grants ?w) (tg_id h) = Some h"
        by (simp add: store_table.get_put)
    qed (use Cons.prems in auto)
    moreover have "update_grant_entry (count_usage k now) (tg_id g) w = (Inr (), ?w)"
      using g Inr by (simp add: update_grant_entry_def)
    ultimately show ?thesis
      by (simp add: thenS_def bindS_def converse_rtranclp_into_rtranclp)
  qed
qed (simp add: eff_simps)

lemma reserve_follows: "keeps grants_follow (reserve_task_grant_usage S i k)"
  unfolding keeps_def grants_follow_def
proof (intro allI impI)
  fix w :: world
  assume k: "keyed (task_grants w)"
  let ?now = "clock S (ticks w)" and ?w = "w\<lparr>ticks := Suc (ticks w)\<rparr>"
  show "grant_step\<^sup>*\<^sup>* (task_grants w) (task_grants (snd (reserve_task_grant_usage S i k w)))"
  proof (cases "lineage_from (task_grants w) [] i")
    case (Inl e)
    then show ?thesis
      by (simp add: reserve_task_grant_usage_def bindS_def now_utc_def task_grant_lineage_def eff_simps)
  next
    case (Inr ls)
    note a = lineage_from_ancestry [OF Inr]
    show ?thesis
    proof (cases "lineage_denial k ?now ls")
      case None
      let ?m = "foreachS (\<lambda>g. update_grant_entry (count_usage k ?now) (tg_id g)) ls"
      have "grant_step\<^sup>*\<^sup>* (task_grants ?w) (task_grants (snd (?m ?w)))"
        using ancestry_mem [OF a k] ancestry_distinct [OF a k] None
        by (intro update_entries_follow) (auto simp: lineage_denial_None)
      moreover have "task_grants (snd (reserve_task_grant_usage S i k w)) = task_grants (snd (?m ?w))"
        using Inr None
        by (simp add: reserve_task_grant_usage_def bindS_def thenS_def now_utc_def
            task_grant_lineage_def get_task_grant_def eff_simps split: prod.splits sum.splits)
      ultimately show ?thesis by simp
    next
      case (Some d)
      obtain g message expire where d: "d = (g, message, expire)" by (cases d) auto
      have "task_grants (snd (reserve_task_grant_usage S i k w))
          = task_grants (if expire then expire_grant ?now (tg_id g) ?w else ?w)"
        using Inr Some d
        by (simp add: reserve_task_grant_usage_def bindS_def thenS_def whenS_def now_utc_def
            task_grant_lineage_def eff_simps)
      with expire_step [of ?now "tg_id g" ?w] show ?thesis by auto
    qed
  qed
qed

lemma add_cost_follows: "keeps grants_follow (add_task_grant_cost S i c)"
proof -
  have entry: "keeps grants_follow (update_grant_entry (count_cost c now) j)" if "0 < c" for now j
  proof (rule keeps_one_step)
    fix w :: world
    show "task_grants (snd (update_grant_entry (count_cost c now) j w)) = task_grants w
        \<or> grant_step (task_grants w) (task_grants (snd (update_grant_entry (count_cost c now) j w)))"
      using that
      by (auto simp: update_grant_entry_def count_cost_def bindr_def ok_or_def checked_i64_def
          split: option.splits sum.splits if_splits intro: grant_step.cost)
  qed
  have clock: "keeps grants_follow (now_utc S)" by (rule keeps_same_grants) simp
  show ?thesis
    unfolding add_task_grant_cost_def get_task_grant_def
    by (cases "c < 0"; cases "c = 0")
      (simp_all, (intro follow.resp_intros entry clock | simp)+)
qed

text \<open>
  Whatever the neighbouring subsystems do to grants, the workflow runtime follows the machine:
  the peers are assumed to leave the grants to it.
\<close>

definition peers_respect :: "(world \<Rightarrow> world \<Rightarrow> bool) \<Rightarrow> peers \<Rightarrow> bool" where
  "peers_respect R P \<longleftrightarrow>
     (\<forall>s r. keeps R (cleanup_remote_computer_session_runtimes P s r))
     \<and> (\<forall>v. keeps R (active_ontology_release_metadata_for_scopes P v))
     \<and> (\<forall>s. keeps R (generate_and_persist_context_packet P s))
     \<and> (\<forall>a v e. keeps R (governed_pinned_version_check P a v e))
     \<and> (\<forall>a e. keeps R (governed_promoted_version P a e))
     \<and> (\<forall>i s t u v. keeps R (append_work_item_activity_entry P i s t u v))
     \<and> (\<forall>s. keeps R (collect_session_runtime_refs P s))"

lemma other_tables_same_grants:
  "task_grants (snd (append_event_with_id S i b ty a s et p w)) = task_grants w"
  "task_grants (snd (append_audit_log e w)) = task_grants w"
  "task_grants (snd (modifyS (\<lambda>w. w\<lparr>sessions := f w\<rparr>) w)) = task_grants w"
  "task_grants (snd (create_session_thread th w)) = task_grants w"
  "task_grants (snd (set_session_and_primary_thread_status S s th' st ts w)) = task_grants w"
  "task_grants (snd (create_workflow_run r w)) = task_grants w"
  "task_grants (snd (modify_run S i g w)) = task_grants w"
  "task_grants (snd (create_workflow_transition tr w)) = task_grants w"
  "task_grants (snd (create_workflow_step_run sr w)) = task_grants w"
  "task_grants (snd (store_existing_step sr w)) = task_grants w"
  "task_grants (snd (claim_workflow_step_run_if_available sr n w)) = task_grants w"
  "task_grants (snd (adopt_workflow_step_for_loop S i j k w)) = task_grants w"
  "task_grants (snd (store_claimed_step sr k n w)) = task_grants w"
  "task_grants (snd (renew_workflow_step_run_lease S i k m w)) = task_grants w"
  "task_grants (snd (activate_scheduled_workflow_step_run i n w)) = task_grants w"
  unfolding append_event_with_id_def append_audit_log_def create_session_thread_def
    set_session_and_primary_thread_status_def create_workflow_run_def modify_run_def
    create_workflow_transition_def create_workflow_step_run_def store_existing_step_def
    claim_workflow_step_run_if_available_def adopt_workflow_step_for_loop_def
    store_claimed_step_def renew_workflow_step_run_lease_def
    activate_scheduled_workflow_step_run_def put_step_def get_session_def get_workflow_run_def
    get_workflow_step_run_def bindS_def thenS_def now_utc_def Let_def
  by (auto simp: eff_simps split: option.splits sum.splits prod.splits)

lemma grants_follow_store_relation:
  assumes "peers_respect grants_follow P"
  shows "store_relation grants_follow S P"
proof -
  note peers = assms [unfolded peers_respect_def]
  note grant_ops = create_task_grant_follows step_with_grant_follows update_status_follows
    context_packet_follows reserve_follows add_cost_follows
  show ?thesis
    by unfold_locales
      (simp_all add: grant_ops peers keeps_same_grants other_tables_same_grants)
qed

end
