(* ===== verification/Grant_Invariants.thy ===== *)
theory Grant_Invariants
  imports Grant_Machine
begin

text \<open>
  What holds of every table of grants the machine reaches: the history of one grant, the tree of
  delegations with its scopes, the budgets, and that one reservation counts once on every
  ancestor.
\<close>

section \<open>The history of one grant\<close>

text \<open>
  What identifies a grant and bounds it never changes; its status leaves \<open>active\<close> once and for
  all; its counters only grow.
\<close>

definition evolves :: "task_grant \<Rightarrow> task_grant \<Rightarrow> bool" where
  "evolves g h \<longleftrightarrow>
     h = g\<lparr>tg_status := tg_status h, tg_turns_used := tg_turns_used h,
           tg_tool_calls_used := tg_tool_calls_used h,
           tg_cost_usd_micros_used := tg_cost_usd_micros_used h,
           tg_context_packet_id := tg_context_packet_id h, tg_updated_at := tg_updated_at h\<rparr>
     \<and> (tg_status h = tg_status g \<or> tg_status g = ''active'')
     \<and> (tg_status g \<noteq> ''active'' \<longrightarrow> tg_turns_used h = tg_turns_used g
          \<and> tg_tool_calls_used h = tg_tool_calls_used g)
     \<and> tg_turns_used g \<le> tg_turns_used h \<and> tg_tool_calls_used g \<le> tg_tool_calls_used h
     \<and> tg_cost_usd_micros_used g \<le> tg_cost_usd_micros_used h"

lemma evolves_refl [simp]: "evolves g g"
  by (simp add: evolves_def)

lemma evolves_fixed:
  assumes "evolves g h"
  shows "tg_id h = tg_id g" "tg_parent_grant_id h = tg_parent_grant_id g"
    "tg_workflow_run_id h = tg_workflow_run_id g" "tg_max_turns h = tg_max_turns g"
    "tg_max_tool_calls h = tg_max_tool_calls g" "tg_tool_scope h = tg_tool_scope g"
    "tg_connector_scope h = tg_connector_scope g" "tg_external_effects h = tg_external_effects g"
    "tg_semantic_scopes h = tg_semantic_scopes g" "tg_memory_scope h = tg_memory_scope g"
    "tg_approval_policy h = tg_approval_policy g" "tg_created_at h = tg_created_at g"
    "tg_expires_at h = tg_expires_at g"
proof -
  obtain s a b c p u where "h = g\<lparr>tg_status := s, tg_turns_used := a, tg_tool_calls_used := b,
      tg_cost_usd_micros_used := c, tg_context_packet_id := p, tg_updated_at := u\<rparr>"
    using assms unfolding evolves_def by blast
  then show "tg_id h = tg_id g" "tg_parent_grant_id h = tg_parent_grant_id g"
    "tg_workflow_run_id h = tg_workflow_run_id g" "tg_max_turns h = tg_max_turns g"
    "tg_max_tool_calls h = tg_max_tool_calls g" "tg_tool_scope h = tg_tool_scope g"
    "tg_connector_scope h = tg_connector_scope g" "tg_external_effects h = tg_external_effects g"
    "tg_semantic_scopes h = tg_semantic_scopes g" "tg_memory_scope h = tg_memory_scope g"
    "tg_approval_policy h = tg_approval_policy g" "tg_created_at h = tg_created_at g"
    "tg_expires_at h = tg_expires_at g" by simp_all
qed

lemma evolves_trans: "evolves f g \<Longrightarrow> evolves g h \<Longrightarrow> evolves f h"
proof -
  assume fg: "evolves f g" and gh: "evolves g h"
  have "h = f\<lparr>tg_status := tg_status h, tg_turns_used := tg_turns_used h,
           tg_tool_calls_used := tg_tool_calls_used h,
           tg_cost_usd_micros_used := tg_cost_usd_micros_used h,
           tg_context_packet_id := tg_context_packet_id h, tg_updated_at := tg_updated_at h\<rparr>"
  proof -
    obtain s a b c p u where g: "g = f\<lparr>tg_status := s, tg_turns_used := a, tg_tool_calls_used := b,
      tg_cost_usd_micros_used := c, tg_context_packet_id := p, tg_updated_at := u\<rparr>"
      using fg unfolding evolves_def by blast
    obtain s a b c p u where h: "h = g\<lparr>tg_status := s, tg_turns_used := a, tg_tool_calls_used := b,
      tg_cost_usd_micros_used := c, tg_context_packet_id := p, tg_updated_at := u\<rparr>"
      using gh unfolding evolves_def by blast
    show ?thesis unfolding h g by simp
  qed
  with fg gh show ?thesis unfolding evolves_def by auto
qed

lemma scopes_within_evolves:
  "evolves p p' \<Longrightarrow> evolves c c' \<Longrightarrow> scopes_within p c \<Longrightarrow> scopes_within p' c'"
  by (simp add: scopes_within_def evolves_fixed)

text \<open>One step rewrites an entry as \<open>evolves\<close> allows, or adds one under a new key.\<close>

lemma evolves_moves:
  "tg_status g = ''active'' \<Longrightarrow> evolves g (g\<lparr>tg_status := s, tg_updated_at := now\<rparr>)"
  "tg_status g = ''active'' \<Longrightarrow>
     evolves g (g\<lparr>tg_turns_used := tg_turns_used g + 1, tg_updated_at := now\<rparr>)"
  "tg_status g = ''active'' \<Longrightarrow>
     evolves g (g\<lparr>tg_tool_calls_used := tg_tool_calls_used g + 1, tg_updated_at := now\<rparr>)"
  "0 < c \<Longrightarrow> evolves g (g\<lparr>tg_cost_usd_micros_used := tg_cost_usd_micros_used g + c,
                             tg_updated_at := now\<rparr>)"
  "evolves g (g\<lparr>tg_context_packet_id := Some p, tg_updated_at := now\<rparr>)"
  by (simp_all add: evolves_def)

lemma grant_step_entries:
  "grant_step t t' \<Longrightarrow>
   (\<exists>i g h. tget t i = Some g \<and> evolves g h \<and> t' = tput i h t)
   \<or> (\<exists>g. tget t (tg_id g) = None \<and> t' = tput (tg_id g) g t)"
  by (erule grant_step.cases) (blast intro: evolves_moves)+

lemma grant_step_evolves:
  assumes "grant_step t t'" and "tget t i = Some g"
  shows "\<exists>h. tget t' i = Some h \<and> evolves g h"
  using grant_step_entries [OF assms(1)] assms(2)
  by (auto simp: store_table.get_put)

lemma grant_steps_evolve:
  assumes "grant_step\<^sup>*\<^sup>* t t'" and "tget t i = Some g"
  shows "\<exists>h. tget t' i = Some h \<and> evolves g h"
  using assms
  by (induction rule: rtranclp_induct) (use evolves_refl in blast, meson evolves_trans grant_step_evolves)

section \<open>The tree of delegations\<close>

definition within_budget :: "task_grant \<Rightarrow> bool" where
  "within_budget g \<longleftrightarrow>
     is_none_or (tg_max_turns g) (\<lambda>l. tg_turns_used g \<le> l)
     \<and> is_none_or (tg_max_tool_calls g) (\<lambda>l. tg_tool_calls_used g \<le> l)"

definition delegated :: "task_grant table \<Rightarrow> task_grant \<Rightarrow> bool" where
  "delegated t g \<longleftrightarrow> is_none_or (tg_parent_grant_id g) (\<lambda>p.
     \<exists>parent. tget t p = Some parent \<and> scopes_within parent g
       \<and> tg_workflow_run_id parent = tg_workflow_run_id g)"

definition grants_ok :: "task_grant table \<Rightarrow> bool" where
  "grants_ok t \<longleftrightarrow> keyed t \<and> (\<forall>i g. tget t i = Some g \<longrightarrow>
     (\<exists>ls. ancestry t i ls) \<and> delegated t g)"

lemma ancestry_new_key:
  "ancestry t i ls \<Longrightarrow> tget t k = None \<Longrightarrow> ancestry (tput k g t) i ls"
proof (induction rule: ancestry.induct)
  case (root i f)
  then have "tget (tput k g t) i = Some f" by (auto simp: store_table.get_put)
  with root.hyps(2) show ?case by (rule ancestry.root [rotated])
next
  case (child i f p gs)
  then have "tget (tput k g t) i = Some f" by (auto simp: store_table.get_put)
  moreover have "ancestry (tput k g t) p gs" using child.IH child.prems by blast
  ultimately show ?case using child.hyps(2) by (blast intro: ancestry.child)
qed

lemma ancestry_rewrite:
  assumes "ancestry t i ls" and "tget t k = Some g" and "evolves g h"
  shows "\<exists>ls'. ancestry (tput k h t) i ls'"
  using assms(1)
proof (induction rule: ancestry.induct)
  case (root j f)
  then have "\<exists>f'. tget (tput k h t) j = Some f' \<and> tg_parent_grant_id f' = None"
    using assms(2,3) evolves_fixed(2) by (auto simp: store_table.get_put)
  then show ?case by (auto intro: ancestry.root)
next
  case (child j f p gs)
  then have "\<exists>f'. tget (tput k h t) j = Some f' \<and> tg_parent_grant_id f' = Some p"
    using assms(2,3) evolves_fixed(2) by (auto simp: store_table.get_put)
  with child.IH show ?case by (auto intro: ancestry.child)
qed

lemma delegated_rewrite:
  assumes "delegated t f" and "evolves f f'" and "tget t k = Some g" and "evolves g h"
  shows "delegated (tput k h t) f'"
proof -
  have "\<exists>parent'. tget (tput k h t) p = Some parent' \<and> scopes_within parent' f'
      \<and> tg_workflow_run_id parent' = tg_workflow_run_id f'"
    if "tget t p = Some parent" "scopes_within parent f"
      "tg_workflow_run_id parent = tg_workflow_run_id f" for p parent
  proof (cases "p = k")
    case True
    with that assms scopes_within_evolves evolves_fixed(3) show ?thesis
      by (auto simp: store_table.get_put)
  next
    case False
    with that assms(2) scopes_within_evolves [OF evolves_refl] evolves_fixed(3) show ?thesis
      by (auto simp: store_table.get_put)
  qed
  with assms(1) evolves_fixed(2) [OF assms(2)] show ?thesis
    by (auto simp: delegated_def is_none_or_iff)
qed

lemma grants_ok_rewrite:
  assumes "grants_ok t" and "tget t k = Some g" and "evolves g h"
  shows "grants_ok (tput k h t)"
proof -
  have "tg_id h = k" using assms evolves_fixed(1) by (auto simp: grants_ok_def keyed_def)
  then have "keyed (tput k h t)"
    using assms(1) by (auto simp: grants_ok_def keyed_def store_table.get_put)
  moreover have "(\<exists>ls. ancestry (tput k h t) i ls) \<and> delegated (tput k h t) f"
    if "tget (tput k h t) i = Some f" for i f
  proof -
    have "\<exists>f0. tget t i = Some f0 \<and> evolves f0 f"
      using that assms(2,3) by (auto simp: store_table.get_put split: if_splits)
    then obtain f0 where f0: "tget t i = Some f0" "evolves f0 f" by blast
    then obtain ls where "ancestry t i ls" "delegated t f0"
      using assms(1) by (auto simp: grants_ok_def)
    with ancestry_rewrite assms(2,3) delegated_rewrite f0(2) show ?thesis by blast
  qed
  ultimately show ?thesis by (simp add: grants_ok_def)
qed

lemma grants_ok_issue:
  assumes "grants_ok t" and "tget t (tg_id g) = None" and "delegated t g"
  shows "grants_ok (tput (tg_id g) g t)" (is "grants_ok ?t")
proof -
  have keep: "delegated ?t f" if "delegated t f" for f
    using that assms(2) by (fastforce simp: delegated_def is_none_or_iff store_table.get_put)
  have "keyed ?t" using assms(1) by (auto simp: grants_ok_def keyed_def store_table.get_put)
  moreover have "(\<exists>ls. ancestry ?t i ls) \<and> delegated ?t f" if f: "tget ?t i = Some f" for i f
  proof (cases "i = tg_id g")
    case True
    with f have fg: "f = g" by (simp add: store_table.get_put)
    have "\<exists>ls. ancestry ?t i ls"
    proof (cases "tg_parent_grant_id g")
      case None
      with True f fg show ?thesis by (auto intro: ancestry.root)
    next
      case (Some p)
      with assms(1,3) obtain ls where "ancestry t p ls"
        by (auto simp: delegated_def grants_ok_def)
      then have "ancestry ?t p ls" using assms(2) by (rule ancestry_new_key)
      with f fg Some show ?thesis by (auto intro: ancestry.child)
    qed
    with fg assms(3) keep show ?thesis by simp
  next
    case False
    with f have "tget t i = Some f" by (simp add: store_table.get_put)
    with assms(1) obtain ls where "ancestry t i ls" "delegated t f" by (auto simp: grants_ok_def)
    with ancestry_new_key [OF _ assms(2)] keep show ?thesis by blast
  qed
  ultimately show ?thesis by (simp add: grants_ok_def)
qed

lemma grant_step_ok: "grant_step t t' \<Longrightarrow> grants_ok t \<Longrightarrow> grants_ok t'"
proof (induction rule: grant_step.induct)
  case (issue_root t g)
  then show ?case by (intro grants_ok_issue) (auto simp: delegated_def)
next
  case (issue_child t g p parent now)
  then show ?case
    using ensure_child_scopes_within ensure_child_same_run
    by (intro grants_ok_issue) (fastforce simp: delegated_def)+
qed (blast intro: grants_ok_rewrite evolves_moves)+

lemma grant_steps_ok: "grant_step\<^sup>*\<^sup>* t t' \<Longrightarrow> grants_ok t \<Longrightarrow> grants_ok t'"
  by (induction rule: rtranclp_induct) (auto intro: grant_step_ok)

text \<open>Along a lineage every grant lies within the next one.\<close>

lemma ancestry_chain:
  assumes "ancestry t i ls" and "grants_ok t"
  shows "successively (\<lambda>child parent. scopes_within parent child) ls"
  using assms(1)
proof (induction rule: ancestry.induct)
  case (child j g p gs)
  from assms(2) child.hyps(1) have "delegated t g" by (auto simp: grants_ok_def)
  with child.hyps(2) obtain parent where parent: "tget t p = Some parent" "scopes_within parent g"
    by (auto simp: delegated_def)
  from child.hyps(3) parent(1) obtain rest where "gs = parent # rest" by cases auto
  with child.IH parent(2) show ?case by simp
qed simp

section \<open>Budgets\<close>

definition budgets_ok :: "task_grant table \<Rightarrow> bool" where
  "budgets_ok t \<longleftrightarrow> (\<forall>i g. tget t i = Some g \<longrightarrow> within_budget g)"

lemma new_grant_within_budget:
  "new_grant_ok g \<Longrightarrow> within_budget g"
  by (auto simp: new_grant_ok_def unused_def validate_task_grant_budgets_def within_budget_def
      bindr_eq_Inr is_none_or_iff is_some_and_iff)

lemma budgets_ok_put: "budgets_ok t \<Longrightarrow> within_budget g \<Longrightarrow> budgets_ok (tput i g t)"
  by (simp add: budgets_ok_def store_table.get_put)

lemma budgets_ok_rewrite:
  "budgets_ok t \<Longrightarrow> tget t i = Some g \<Longrightarrow> (within_budget g \<Longrightarrow> within_budget h) \<Longrightarrow>
   budgets_ok (tput i h t)"
  by (auto simp: budgets_ok_def store_table.get_put)

lemma within_budget_moves:
  "within_budget g \<Longrightarrow> within_budget (g\<lparr>tg_status := s, tg_updated_at := now\<rparr>)"
  "below (tg_max_turns g) (tg_turns_used g) \<Longrightarrow> within_budget g \<Longrightarrow>
     within_budget (g\<lparr>tg_turns_used := tg_turns_used g + 1, tg_updated_at := now\<rparr>)"
  "below (tg_max_tool_calls g) (tg_tool_calls_used g) \<Longrightarrow> within_budget g \<Longrightarrow>
     within_budget (g\<lparr>tg_tool_calls_used := tg_tool_calls_used g + 1, tg_updated_at := now\<rparr>)"
  "within_budget g \<Longrightarrow> within_budget (g\<lparr>tg_cost_usd_micros_used := c, tg_updated_at := now\<rparr>)"
  "within_budget g \<Longrightarrow> within_budget (g\<lparr>tg_context_packet_id := p, tg_updated_at := now\<rparr>)"
  by (auto simp: within_budget_def below_def is_none_or_iff)

lemma grant_step_budgets: "grant_step t t' \<Longrightarrow> budgets_ok t \<Longrightarrow> budgets_ok t'"
proof (induction rule: grant_step.induct)
  case (issue_root t g)
  then show ?case by (simp add: budgets_ok_put new_grant_within_budget)
next
  case (issue_child t g p parent now)
  then show ?case by (simp add: budgets_ok_put new_grant_within_budget)
qed (blast intro: budgets_ok_rewrite within_budget_moves)+

lemma grant_steps_budgets: "grant_step\<^sup>*\<^sup>* t t' \<Longrightarrow> budgets_ok t \<Longrightarrow> budgets_ok t'"
  by (induction rule: rtranclp_induct) (auto intro: grant_step_budgets)

section \<open>One reservation, one count on every ancestor\<close>

lemma update_entries_Inr:
  assumes "foreachS (\<lambda>g. update_grant_entry f (tg_id g)) ls w = (Inr (), w')"
    and "\<And>g. g \<in> set ls \<Longrightarrow> tget (task_grants w) (tg_id g) = Some g"
    and "distinct (map tg_id ls)" and "\<And>g h. f g = Inr h \<Longrightarrow> h = c g"
  shows "(\<forall>g \<in> set ls. tget (task_grants w') (tg_id g) = Some (c g))
    \<and> (\<forall>i. i \<notin> tg_id ` set ls \<longrightarrow> tget (task_grants w') i = tget (task_grants w) i)"
  using assms(1-3)
proof (induction ls arbitrary: w)
  case (Cons g ls)
  from Cons.prems(2) have g: "tget (task_grants w) (tg_id g) = Some g" by simp
  from Cons.prems(1) obtain w1 where w1: "update_grant_entry f (tg_id g) w = (Inr (), w1)"
    "foreachS (\<lambda>g. update_grant_entry f (tg_id g)) ls w1 = (Inr (), w')"
    by (auto simp: thenS_def bindS_eq_Inr)
  with g obtain h where h: "f g = Inr h" "w1 = w\<lparr>task_grants := tput (tg_id g) h (task_grants w)\<rparr>"
    by (auto simp: update_grant_entry_def split: sum.splits)
  have h': "h = c g" using h(1) assms(4) by blast
  have "tg_id x \<noteq> tg_id g" if "x \<in> set ls" for x
    using that Cons.prems(3) by (metis distinct.simps(2) image_eqI list.map(2) set_map)
  then have "\<And>x. x \<in> set ls \<Longrightarrow> tget (task_grants w1) (tg_id x) = Some x"
    using Cons.prems(2) h(2) by (simp add: store_table.get_put)
  with Cons.IH [OF w1(2)] Cons.prems(3) have IH:
    "\<forall>x \<in> set ls. tget (task_grants w') (tg_id x) = Some (c x)"
    "\<forall>i. i \<notin> tg_id ` set ls \<longrightarrow> tget (task_grants w') i = tget (task_grants w1) i" by auto
  have "tg_id g \<notin> tg_id ` set ls" using Cons.prems(3) by simp
  with IH h h' show ?case by (auto simp: store_table.get_put)
qed (simp add: eff_simps)

lemma reserve_eq:
  "reserve_task_grant_usage S i k w =
     (let now = clock S (ticks w); w1 = w\<lparr>ticks := Suc (ticks w)\<rparr> in
      case lineage_from (task_grants w) [] i of
        Inl e \<Rightarrow> (Inl e, w1)
      | Inr ls \<Rightarrow>
          (case lineage_denial k now ls of
             Some (g, m, x) \<Rightarrow> (Inl (forbidden m), if x then expire_grant now (tg_id g) w1 else w1)
           | None \<Rightarrow> bindS (foreachS (\<lambda>g. update_grant_entry (count_usage k now) (tg_id g)) ls)
               (\<lambda>_. get_task_grant i) w1))"
  by (simp add: reserve_task_grant_usage_def bindS_def thenS_def whenS_def now_utc_def
      task_grant_lineage_def eff_simps Let_def split: sum.splits option.splits)

lemma reserve_Inr:
  assumes "reserve_task_grant_usage S i k w = (Inr g, w')" and "keyed (task_grants w)"
  obtains ls now where "ancestry (task_grants w) i ls"
    "\<forall>h \<in> set ls. task_grant_reservation_denial h k now = None"
    "\<forall>h \<in> set ls. tget (task_grants w') (tg_id h) = Some (counted k now h)"
    "\<forall>j. j \<notin> tg_id ` set ls \<longrightarrow> tget (task_grants w') j = tget (task_grants w) j"
    "tget (task_grants w') i = Some g"
proof -
  let ?now = "clock S (ticks w)" and ?w = "w\<lparr>ticks := Suc (ticks w)\<rparr>"
  obtain ls where ls: "lineage_from (task_grants w) [] i = Inr ls"
    using assms(1) by (cases "lineage_from (task_grants w) [] i") (simp_all add: reserve_eq Let_def)
  have none: "lineage_denial k ?now ls = None"
    using assms(1) ls by (cases "lineage_denial k ?now ls") (auto simp: reserve_eq Let_def)
  with assms(1) ls obtain w1 where w1:
    "foreachS (\<lambda>g. update_grant_entry (count_usage k ?now) (tg_id g)) ls ?w = (Inr (), w1)"
    "get_task_grant i w1 = (Inr g, w')"
    by (auto simp: reserve_eq Let_def bindS_eq_Inr)
  note a = lineage_from_ancestry [OF ls]
  have got: "w1 = w'" "tget (task_grants w') i = Some g"
    using w1(2) by (auto simp: get_task_grant_def eff_simps)
  have mem: "tget (task_grants ?w) (tg_id h) = Some h" if "h \<in> set ls" for h
    using ancestry_mem [OF a assms(2) that] by simp
  note up = update_entries_Inr [OF w1(1) mem ancestry_distinct [OF a assms(2)] count_usage_Inr]
  show thesis
    by (rule that [of ls ?now]) (use a none up got in \<open>simp_all add: lineage_denial_None\<close>)
qed

lemma count_usage_counted:
  "in_i32 (tg_turns_used g + 1) \<Longrightarrow> in_i32 (tg_tool_calls_used g + 1) \<Longrightarrow>
   count_usage k now g = Inr (counted k now g)"
  by (cases k) (simp_all add: count_usage_def counted_def checked_i32_def)

lemma update_entries_succeed:
  assumes "\<forall>g \<in> set ls. tget (task_grants w) (tg_id g) = Some g" and "distinct (map tg_id ls)"
    and "\<forall>h \<in> set ls. in_i32 (tg_turns_used h + 1) \<and> in_i32 (tg_tool_calls_used h + 1)"
  shows "\<exists>w1. foreachS (\<lambda>g. update_grant_entry (count_usage k now) (tg_id g)) ls w = (Inr (), w1)
    \<and> (\<forall>j. tget (task_grants w) j \<noteq> None \<longrightarrow> tget (task_grants w1) j \<noteq> None)"
  using assms
proof (induction ls arbitrary: w)
  case (Cons g ls)
  let ?w = "w\<lparr>task_grants := tput (tg_id g) (counted k now g) (task_grants w)\<rparr>"
  have now: "update_grant_entry (count_usage k now) (tg_id g) w = (Inr (), ?w)"
    using Cons.prems by (simp add: update_grant_entry_def count_usage_counted)
  have "tg_id h \<noteq> tg_id g" if "h \<in> set ls" for h
    using that Cons.prems(2) by (metis distinct.simps(2) image_eqI list.map(2) set_map)
  then have "\<forall>h \<in> set ls. tget (task_grants ?w) (tg_id h) = Some h"
    using Cons.prems(1) by (simp add: store_table.get_put)
  then obtain w1 where w1:
    "foreachS (\<lambda>g. update_grant_entry (count_usage k now) (tg_id g)) ls ?w = (Inr (), w1)"
    "\<forall>j. tget (task_grants ?w) j \<noteq> None \<longrightarrow> tget (task_grants w1) j \<noteq> None"
    using Cons.IH [of ?w] Cons.prems(2,3) by auto
  have "\<forall>j. tget (task_grants w) j \<noteq> None \<longrightarrow> tget (task_grants w1) j \<noteq> None"
    using w1(2) by (simp add: store_table.get_put)
  with now w1(1) show ?case by (simp add: thenS_def bindS_def)
qed (simp add: eff_simps)

text \<open>
  On a table the machine reaches, a reservation whose counters do not overflow fails for one
  reason only: some ancestor, possibly the grant itself, denies it.
\<close>

lemma reserve_Inl:
  assumes "reserve_task_grant_usage S i k w = (Inl e, w')" and "keyed (task_grants w)"
    and "ancestry (task_grants w) i ls"
    and "\<forall>h \<in> set ls. in_i32 (tg_turns_used h + 1) \<and> in_i32 (tg_tool_calls_used h + 1)"
  shows "\<exists>g \<in> set ls. \<exists>m x. task_grant_reservation_denial g k (clock S (ticks w)) = Some (m, x)
    \<and> e = forbidden m"
proof -
  let ?now = "clock S (ticks w)" and ?w = "w\<lparr>ticks := Suc (ticks w)\<rparr>"
  have ls: "lineage_from (task_grants w) [] i = Inr ls"
    using assms(2,3) lineage_iff_ancestry by blast
  show ?thesis
  proof (cases "lineage_denial k ?now ls")
    case (Some d)
    obtain g m x where d: "d = (g, m, x)" by (cases d)
    with Some have "g \<in> set ls \<and> task_grant_reservation_denial g k ?now = Some (m, x)"
      by (simp add: lineage_denial_Some)
    moreover have "e = forbidden m" using assms(1) ls Some d by (simp add: reserve_eq Let_def)
    ultimately show ?thesis by blast
  next
    case None
    have "\<forall>g \<in> set ls. tget (task_grants ?w) (tg_id g) = Some g"
      using ancestry_mem [OF assms(3,2)] by simp
    from update_entries_succeed [OF this ancestry_distinct [OF assms(3,2)] assms(4)] obtain w1 where
      w1: "foreachS (\<lambda>g. update_grant_entry (count_usage k ?now) (tg_id g)) ls ?w = (Inr (), w1)"
      "\<forall>j. tget (task_grants ?w) j \<noteq> None \<longrightarrow> tget (task_grants w1) j \<noteq> None" by blast
    have "tget (task_grants w) i \<noteq> None" using assms(3) by (auto elim: ancestry.cases)
    with w1(2) obtain g where "tget (task_grants w1) i = Some g" by auto
    with assms(1) ls None w1(1) show ?thesis
      by (simp add: reserve_eq Let_def bindS_def get_task_grant_def eff_simps)
  qed
qed

end
