(* ===== verification/Policy.thy ===== *)
theory Policy
  imports Texts
begin

text \<open>
  Who may do what (policy.rs, authorization.rs): the roles of a principal and the permissions they
  give, the decision on a tool under the installation's policy and the policy of an agent
  version, and the check that SQL handed to \<open>sql.query\<close> only reads.
\<close>

section \<open>Roles (authorization.rs)\<close>

datatype role = RoleAdmin | RoleOperator | RoleWorker | RoleApprover | RoleViewer

datatype permission = AgentsRead | AgentsWrite | SessionsRead | SessionsRun | SessionsWrite
  | ToolsExecute | ApprovalsDecide | ExecutionJobsRun | AuditRead | PermissionAdmin

record principal =
  pr_tenant_id :: uuid
  pr_subject_id :: string
  pr_roles :: "role list"

record authorization_request =
  ar_tenant_id :: uuid
  ar_permission :: permission
  ar_resource_type :: string
  ar_resource_id :: "uuid option"

text \<open>The name a derived \<open>Debug\<close> prints.\<close>

fun permission_debug :: "permission \<Rightarrow> string" where
  "permission_debug AgentsRead = ''AgentsRead''"
| "permission_debug AgentsWrite = ''AgentsWrite''"
| "permission_debug SessionsRead = ''SessionsRead''"
| "permission_debug SessionsRun = ''SessionsRun''"
| "permission_debug SessionsWrite = ''SessionsWrite''"
| "permission_debug ToolsExecute = ''ToolsExecute''"
| "permission_debug ApprovalsDecide = ''ApprovalsDecide''"
| "permission_debug ExecutionJobsRun = ''ExecutionJobsRun''"
| "permission_debug AuditRead = ''AuditRead''"
| "permission_debug PermissionAdmin = ''Admin''"

fun role_allows_permission :: "role \<Rightarrow> permission \<Rightarrow> bool" where
  "role_allows_permission RoleAdmin p = True"
| "role_allows_permission RoleOperator p =
     (p \<in> {AgentsRead, SessionsRead, SessionsRun, SessionsWrite, ToolsExecute, AuditRead})"
| "role_allows_permission RoleWorker p = (p \<in> {SessionsRead, SessionsRun, ExecutionJobsRun, AuditRead})"
| "role_allows_permission RoleApprover p = (p \<in> {AgentsRead, SessionsRead, ApprovalsDecide, AuditRead})"
| "role_allows_permission RoleViewer p = (p \<in> {AgentsRead, SessionsRead, AuditRead})"

definition authorize :: "principal \<Rightarrow> authorization_request \<Rightarrow> unit res" where
  "authorize who request =
     (if pr_tenant_id who \<noteq> ar_tenant_id request
      then Inl (forbidden ''principal tenant does not match requested tenant'')
      else if list_ex (\<lambda>role. role_allows_permission role (ar_permission request)) (pr_roles who)
      then Inr ()
      else Inl (forbidden (''principal '' @ pr_subject_id who @ '' is not allowed to ''
                 @ permission_debug (ar_permission request) @ '' '' @ ar_resource_type request)))"

definition parse_roles_header :: "string \<Rightarrow> role list res" where
  "parse_roles_header value =
     mapr (\<lambda>role.
       if role = ''admin'' then Inr RoleAdmin
       else if role = ''operator'' then Inr RoleOperator
       else if role = ''worker'' then Inr RoleWorker
       else if role = ''approver'' then Inr RoleApprover
       else if role = ''viewer'' then Inr RoleViewer
       else Inl (bad_request (''unsupported x-mandoforge-roles value: '' @ role)))
     (filter (\<lambda>role. role \<noteq> []) (map trim (split_on (CHR '','') value)))"

section \<open>Tool policy (policy.rs)\<close>

record approval_required_rule =
  ar_tool :: string
  ar_risk :: string

record sql_policy =
  sp_max_rows :: int
  sp_blocked_keywords :: "string list"

record policy_config =
  pc_blocked_tools :: "string list"
  pc_approval_required :: "approval_required_rule list"
  pc_allowed_tools :: "(string \<times> string list) list"
  pc_sql_policy :: sql_policy

record tool_policy_decision =
  td_decision :: string
  td_risk_level :: string
  td_reason :: string

definition default_sql_max_rows :: int where "default_sql_max_rows = 500"

definition default_policy_config :: policy_config where
  "default_policy_config =
     \<lparr>pc_blocked_tools = [''secret.read'', ''production_db.write'', ''system.network.unrestricted'',
        ''shell.exec.unrestricted''],
      pc_approval_required = [\<lparr>ar_tool = ''shell.exec'', ar_risk = ''high''\<rparr>,
        \<lparr>ar_tool = ''codex.exec'', ar_risk = ''high''\<rparr>, \<lparr>ar_tool = ''agent_cli.exec'', ar_risk = ''high''\<rparr>,
        \<lparr>ar_tool = ''file.write'', ar_risk = ''medium''\<rparr>, \<lparr>ar_tool = ''http.request'', ar_risk = ''high''\<rparr>],
      pc_allowed_tools = [(''generic-orchestrator-agent'',
        [''file.read'', ''file.write'', ''sql.get_schema'', ''sql.query'', ''shell.exec'', ''codex.exec'',
         ''agent_cli.exec'', ''approval.request'', ''artifact.create'', ''mcp.call'',
         ''native.connector.call'', ''semantic_object.fetch'', ''semantic_object.search'',
         ''semantic_link.expand'', ''ontology.action.execute'', ''ontology_type.lookup''])],
      pc_sql_policy = \<lparr>sp_max_rows = default_sql_max_rows,
        sp_blocked_keywords = [''INSERT'', ''UPDATE'', ''DELETE'', ''DROP'', ''ALTER'', ''CREATE'',
          ''TRUNCATE'', ''GRANT'', ''REVOKE'', ''COPY'', ''CALL'', ''DO'']\<rparr>\<rparr>"

definition tool_risk_level :: "string \<Rightarrow> string" where
  "tool_risk_level name =
     (if name \<in> {''file.read'', ''sql.get_schema'', ''approval.request'', ''artifact.create'',
           ''semantic_object.fetch'', ''semantic_object.search'', ''semantic_link.expand'',
           ''ontology_type.lookup''} then ''low''
      else if name \<in> {''file.write'', ''sql.query'', ''ontology.action.execute''} then ''medium''
      else if name \<in> {''shell.exec'', ''codex.exec'', ''agent_cli.exec'', ''http.request'', ''mcp.call'',
           ''native.connector.call''} then ''high''
      else ''unknown'')"

definition policy_says :: "string \<Rightarrow> string \<Rightarrow> string \<Rightarrow> tool_policy_decision" where
  "policy_says d risk reason = \<lparr>td_decision = d, td_risk_level = risk, td_reason = reason\<rparr>"

definition evaluate_tool_with_args :: "policy_config \<Rightarrow> string \<Rightarrow> json \<Rightarrow> tool_policy_decision" where
  "evaluate_tool_with_args c name args =
     (if name \<in> set (pc_blocked_tools c)
      then policy_says ''denied'' (tool_risk_level name) (name @ '' is blocked by config/policy.stage1.yaml'')
      else case find_first (\<lambda>rule. ar_tool rule = name) (pc_approval_required c) of
        Some rule \<Rightarrow> policy_says ''requires_approval'' (ar_risk rule)
          (name @ '' requires approval by config/policy.stage1.yaml'')
      | None \<Rightarrow>
          if list_ex (\<lambda>tools. name \<in> set tools) (map snd (pc_allowed_tools c))
          then policy_says ''allowed'' (tool_risk_level name) (name @ '' is allowed by config/policy.stage1.yaml'')
          else policy_says ''denied'' ''unknown'' (name @ '' is not allowed by config/policy.stage1.yaml''))"

definition evaluate_tool :: "policy_config \<Rightarrow> string \<Rightarrow> tool_policy_decision" where
  "evaluate_tool c name = evaluate_tool_with_args c name JNull"

definition agent_version_tool_enabled :: "agent_version \<Rightarrow> string \<Rightarrow> bool" where
  "agent_version_tool_enabled v name \<longleftrightarrow> name \<in> set (av_tool_names v) \<or> name \<in> set (av_tools v)"

definition policy_array_contains :: "json option \<Rightarrow> string \<Rightarrow> bool" where
  "policy_array_contains v needle \<longleftrightarrow>
     is_some_and (Option.bind v as_array) (list_ex (\<lambda>item. as_str item = Some needle))"

definition approval_required_risk :: "json option \<Rightarrow> string \<Rightarrow> string option" where
  "approval_required_risk v name =
     Option.bind (Option.bind v as_array) (\<lambda>items.
       find_map (\<lambda>item.
         if as_str item = Some name then Some (tool_risk_level name)
         else Option.bind (jget_str item ''tool'') (\<lambda>tool.
           if tool = name then Some (unwrap_or (jget_str item ''risk'') (tool_risk_level name))
           else None)) items)"

text \<open>An integer as \<open>format!\<close> prints it.\<close>

fun show_nat :: "nat \<Rightarrow> string" where
  "show_nat n = (if n < 10 then [char_of (48 + n)] else show_nat (n div 10) @ [char_of (48 + n mod 10)])"

declare show_nat.simps [simp del]

definition show_int :: "int \<Rightarrow> string" where
  "show_int n = (if n < 0 then CHR ''-'' # show_nat (nat (- n)) else show_nat (nat n))"

definition evaluate_agent_version_policy :: "string \<Rightarrow> agent_version \<Rightarrow> tool_policy_decision option" where
  "evaluate_agent_version_policy name v =
     (let policy = av_approval_policy v; version = show_int (av_version v) in
      if policy_array_contains (jget policy ''blocked_tools'') name
      then Some (policy_says ''denied'' (tool_risk_level name)
             (name @ '' is blocked by agent version '' @ version @ '' policy''))
      else if is_some_and (jget policy ''allowed_tools'')
             (\<lambda>allowed_tools. \<not> policy_array_contains (Some allowed_tools) name)
      then Some (policy_says ''denied'' (tool_risk_level name)
             (name @ '' is not allowed by agent version '' @ version @ '' policy''))
      else map_option (\<lambda>risk. policy_says ''requires_approval'' risk
             (name @ '' requires approval by agent version '' @ version @ '' policy''))
             (approval_required_risk (jget policy ''approval_required'') name))"

definition evaluate_tool_for_agent_version_with_args
    :: "policy_config \<Rightarrow> string \<Rightarrow> json \<Rightarrow> agent_version \<Rightarrow> tool_policy_decision" where
  "evaluate_tool_for_agent_version_with_args c name args v =
     (if name \<in> set (pc_blocked_tools c)
      then policy_says ''denied'' (tool_risk_level name) (name @ '' is blocked by config/policy.stage1.yaml'')
      else if \<not> agent_version_tool_enabled v name
      then policy_says ''denied'' (tool_risk_level name)
             (name @ '' is not enabled for agent version '' @ show_int (av_version v))
      else case evaluate_agent_version_policy name v of
        Some d \<Rightarrow> d
      | None \<Rightarrow> evaluate_tool_with_args c name args)"

definition evaluate_tool_for_agent_version
    :: "policy_config \<Rightarrow> string \<Rightarrow> agent_version \<Rightarrow> tool_policy_decision" where
  "evaluate_tool_for_agent_version c name v =
     evaluate_tool_for_agent_version_with_args c name JNull v"

section \<open>Read-only SQL (policy.rs)\<close>

text \<open>
  The parts of the syntax trees of sqlparser that decide whether a query writes or locks: a query has locking
  clauses, common table expressions, a body, and the queries nested in its \<open>ORDER BY\<close> and limits; a
  \<open>SELECT\<close> has an \<open>INTO\<close> or none and the queries nested in it (derived tables and subqueries), and so have
  \<open>VALUES\<close>. The parser and the tokenizer themselves are parameters.
\<close>

datatype set_expr =
    SetSelect bool "sql_query list"
  | SetQuery sql_query
  | SetOperation set_expr set_expr
  | SetValues "sql_query list"
  | SetInsert
  | SetUpdate
  | SetTable
and sql_query = SqlQuery nat "sql_query list" set_expr "sql_query list"

datatype sql_statement = StatementQuery sql_query | StatementExplain bool sql_statement | StatementOther

datatype sql_token = TokenWord string bool | TokenOther

record sql_parser =
  parse_sql :: "string \<Rightarrow> sql_statement list option"
  tokenize_sql :: "string \<Rightarrow> sql_token list option"

fun ensure_query_is_read_only :: "sql_query \<Rightarrow> unit res"
  and ensure_set_expr_is_read_only :: "set_expr \<Rightarrow> unit res" where
  "ensure_query_is_read_only (SqlQuery locks cte_tables body order_and_limits) =
     (if locks \<noteq> 0 then Inl (bad_request ''sql.query does not allow row-locking clauses'')
      else bindr (foreachr ensure_query_is_read_only cte_tables) (\<lambda>_. ensure_set_expr_is_read_only body))"
| "ensure_set_expr_is_read_only (SetSelect into nested) = Inr ()"
| "ensure_set_expr_is_read_only (SetValues nested) = Inr ()"
| "ensure_set_expr_is_read_only SetTable = Inr ()"
| "ensure_set_expr_is_read_only (SetQuery query) = ensure_query_is_read_only query"
| "ensure_set_expr_is_read_only (SetOperation left right) =
     bindr (ensure_set_expr_is_read_only left) (\<lambda>_. ensure_set_expr_is_read_only right)"
| "ensure_set_expr_is_read_only SetInsert =
     Inl (bad_request ''sql.query only accepts read-only query expressions'')"
| "ensure_set_expr_is_read_only SetUpdate =
     Inl (bad_request ''sql.query only accepts read-only query expressions'')"

fun ensure_statement_is_read_only :: "sql_statement \<Rightarrow> unit res" where
  "ensure_statement_is_read_only (StatementQuery query) = ensure_query_is_read_only query"
| "ensure_statement_is_read_only (StatementExplain analyze statement) =
     (if analyze then Inl (bad_request ''sql.query does not allow EXPLAIN ANALYZE'')
      else ensure_statement_is_read_only statement)"
| "ensure_statement_is_read_only StatementOther =
     Inl (bad_request (''sql.query only accepts read-only SELECT, WITH, VALUES, TABLE, ''
            @ ''or non-ANALYZE EXPLAIN''))"

definition ascii_upper :: "char \<Rightarrow> char" where
  "ascii_upper c = (if is_ascii_lower c then char_of (byte c - 32) else c)"

definition to_ascii_uppercase :: "string \<Rightarrow> string" where
  "to_ascii_uppercase s = map ascii_upper s"

definition eq_ignore_ascii_case :: "string \<Rightarrow> string \<Rightarrow> bool" where
  "eq_ignore_ascii_case a b \<longleftrightarrow> to_ascii_lowercase a = to_ascii_lowercase b"

fun blocked_token :: "string list \<Rightarrow> sql_token \<Rightarrow> bool" where
  "blocked_token keywords (TokenWord word quoted) =
     (\<not> quoted \<and> list_ex (\<lambda>keyword. eq_ignore_ascii_case word keyword) keywords)"
| "blocked_token keywords TokenOther = False"

definition ensure_read_only_sql_with_policy :: "sql_parser \<Rightarrow> string \<Rightarrow> sql_policy \<Rightarrow> unit res" where
  "ensure_read_only_sql_with_policy X sql policy =
     bindr (ok_or (bad_request ''sql.query requires parseable read-only SQL'') (parse_sql X sql))
       (\<lambda>statements.
     case statements of
       [statement] \<Rightarrow>
         bindr (ensure_statement_is_read_only statement) (\<lambda>_.
         let keywords = map to_ascii_uppercase (sp_blocked_keywords policy) in
         bindr (ok_or (bad_request ''sql.query requires parseable read-only SQL'') (tokenize_sql X sql))
           (\<lambda>tokens.
         guardr (\<not> list_ex (blocked_token keywords) tokens)
           (bad_request ''sql.query only accepts read-only SQL'')))
     | _ \<Rightarrow> Inl (bad_request ''only one SQL statement is allowed''))"

end
