(* ===== verification/Approvals.thy ===== *)
theory Approvals
  imports Claims Policy
begin

text \<open>
  Approvals of tool calls (store_approvals.rs, store_approval_groups.rs, approval_runtime.rs,
  context_packet_runtime.rs): a pending approval is approved, rejected, expires, is modified or
  escalated; a decline settles its tool call in the same step; a call that commits a write outside is
  bound by a token to the digest of its arguments.

  Of the operations of other subsystems, \<open>approval_peers\<close> has the check of the scope of a resource, the
  execution of an approved tool, the projection of an event to the session's loop and the delivery
  of notifications, with the tenant the process serves.
\<close>

datatype execution_worker_outcome = WorkerCompleted "uuid option" | WorkerQueued

record approval_peers =
  current_tenant_id :: uuid
  enforce_resource_scope :: "principal \<Rightarrow> authorization_request \<Rightarrow> unit eff"
  execute_approved_tool :: "approval \<Rightarrow> execution_worker_outcome eff"
  project_session_event_to_loop :: "session_event \<Rightarrow> unit eff"
  deliver_approval_notification :: "approval \<Rightarrow> timestamp \<Rightarrow> json eff"

section \<open>Deterministic identifiers (main.rs)\<close>

definition uuid_bytes :: "uuid \<Rightarrow> nat list" where
  "uuid_bytes i = map (\<lambda>k. i div 256 ^ k mod 256) (rev [0..<16])"

definition uuid_from_bytes :: "nat list \<Rightarrow> uuid" where
  "uuid_from_bytes bs = foldl (\<lambda>n b. 256 * n + b) 0 bs"

definition deterministic_record_id :: "ext \<Rightarrow> uuid \<Rightarrow> string \<Rightarrow> string list \<Rightarrow> uuid" where
  "deterministic_record_id X namespace_id kind parts =
     (let digest = sha256 X (map byte ''mandoforge-durable-record-v1'' @ uuid_bytes namespace_id
            @ map byte kind @ concat (map (\<lambda>part. 0 # map byte part) parts));
          bytes = take 16 digest;
          versioned = bytes[6 := (bytes ! 6) mod 16 + 64]
      in uuid_from_bytes (versioned[8 := (versioned ! 8) mod 64 + 128]))"

section \<open>The binding of a commit (context_packet_runtime.rs)\<close>

definition hex_byte :: "nat \<Rightarrow> string" where
  "hex_byte b = [hex_digit (int (b div 16)), hex_digit (int (b mod 16))]"

definition normalized_json_sha256 :: "ext \<Rightarrow> json \<Rightarrow> string" where
  "normalized_json_sha256 X v =
     ''sha256:'' @ concat (map hex_byte (sha256 X (map byte (json_to_string X v))))"

definition content_keys :: "string list" where
  "content_keys = [''content'', ''body'', ''text'', ''message'', ''post'', ''creative'', ''caption'']"

definition content_entry :: "ext \<Rightarrow> json \<Rightarrow> json \<Rightarrow> (string \<times> json) list" where
  "content_entry X object payload =
     (case jget object ''content_digest'' of
        Some content_digest \<Rightarrow> [(''content_digest'', content_digest)]
      | None \<Rightarrow>
          (case find_map (jget payload) content_keys of
             Some content \<Rightarrow> [(''content_digest'', JStr (normalized_json_sha256 X content))]
           | None \<Rightarrow> []))"

definition copied_entries :: "json \<Rightarrow> string list \<Rightarrow> (string \<times> json) list" where
  "copied_entries object keys = filter_map (\<lambda>k. map_option (Pair k) (jget object k)) keys"

definition mcp_call_target_binding :: "ext \<Rightarrow> json \<Rightarrow> json res" where
  "mcp_call_target_binding X args =
     bindr (mcp_call_request_of args) (\<lambda>request.
       let call_args = mc_args request in
       Inr (mk_obj ([(''server'', JStr (mc_server request)), (''tool'', JStr (mc_tool request))]
         @ (if is_object call_args
            then (''payload_digest'', JStr (normalized_json_sha256 X call_args))
                 # copied_entries call_args [''side_effect_class'', ''account'', ''channel'', ''recipient'',
                     ''resource_id'', ''campaign_id'', ''ad_account_id'', ''amount'', ''amount_usd'', ''currency'',
                     ''spend_limit'', ''spend_limit_usd'', ''context_packet_id'']
                 @ content_entry X call_args call_args
            else []))))"

definition native_connector_tool_name :: "string \<Rightarrow> bool" where
  "native_connector_tool_name tool_name \<longleftrightarrow>
     tool_name = ''native.connector.call'' \<or> take 7 tool_name = ''native.''"

definition native_connector_target_binding :: "ext \<Rightarrow> string \<Rightarrow> json \<Rightarrow> json res" where
  "native_connector_target_binding X tool_name args =
     bindr (native_connector_call_target args) (\<lambda>target.
     bindr (guardr (is_object args) (bad_request ''native connector args must be a JSON object'')) (\<lambda>_.
       let payload = unwrap_or (jget args ''payload'') args in
       Inr (mk_obj ([(''tool'', JStr tool_name), (''connector_id'', JStr (nc_connector_id target)),
            (''operation'', JStr (nc_operation target)),
            (''side_effect_class'', JStr (nc_side_effect_class target)),
            (''payload_digest'', JStr (normalized_json_sha256 X payload))]
          @ copied_entries args [''account'', ''resource_id'', ''campaign_id'', ''ad_account_id'', ''amount'',
              ''amount_usd'', ''currency'', ''spend_limit'', ''spend_limit_usd'', ''context_packet_id'']
          @ content_entry X args payload))))"

definition connector_target_binding :: "ext \<Rightarrow> string \<Rightarrow> json \<Rightarrow> json res" where
  "connector_target_binding X tool_name args =
     (if tool_name = ''mcp.call'' then mcp_call_target_binding X args
      else native_connector_target_binding X tool_name args)"

definition approval_commit_binding_for_args :: "ext \<Rightarrow> string \<Rightarrow> json \<Rightarrow> approval_commit_binding res" where
  "approval_commit_binding_for_args X tool_name args =
     bindr (connector_target_binding X tool_name args) (\<lambda>target_binding.
       Inr \<lparr>cb_normalized_args_hash = normalized_json_sha256 X args, cb_target_binding = target_binding\<rparr>)"

definition task_grant_requires_approval_commit_token :: "task_grant \<Rightarrow> string \<Rightarrow> bool" where
  "task_grant_requires_approval_commit_token grant tool_name \<longleftrightarrow>
     jget_str (tg_connector_scope grant) ''mode'' = Some ''commit_write''
     \<and> (tool_name = ''mcp.call'' \<or> native_connector_tool_name tool_name
        \<or> json_string_array_contains (jget (tg_tool_scope grant) ''external_write'') tool_name)"

definition approval_commit_binding_for_invocation
    :: "ext \<Rightarrow> string \<Rightarrow> json \<Rightarrow> task_grant option \<Rightarrow> approval_commit_binding option res" where
  "approval_commit_binding_for_invocation X tool_name args grant =
     (case grant of
        None \<Rightarrow> Inr None
      | Some g \<Rightarrow>
          if \<not> task_grant_requires_approval_commit_token g tool_name then Inr None
          else bindr (approval_commit_binding_for_args X tool_name args) (\<lambda>b. Inr (Some b)))"

text \<open>The action a call of the ontology names.\<close>

definition ontology_action_name_from_args :: "json \<Rightarrow> string res" where
  "ontology_action_name_from_args args =
     ok_or (bad_request ''ontology action requires action'')
       (trimmed_text (Option.bind (jget_any args [''action'', ''action_name'']) as_str))"

section \<open>Approvals and tokens in the store (store_approvals.rs, memory backend)\<close>

definition insert_approval :: "approval \<Rightarrow> approval eff" where
  "insert_approval approval w = (Inr approval, w\<lparr>approvals := tput (ap_id approval) approval (approvals w)\<rparr>)"

definition create_approval_commit_token :: "approval_commit_token \<Rightarrow> approval_commit_token eff" where
  "create_approval_commit_token token w =
     (Inr token, w\<lparr>approval_commit_tokens := tput (ct_id token) token (approval_commit_tokens w)\<rparr>)"

definition approval_commit_token_for_approval :: "sys \<Rightarrow> uuid \<Rightarrow> approval_commit_token option eff" where
  "approval_commit_token_for_approval S approval_id = asks (\<lambda>w.
     find_first (\<lambda>token. ct_approval_id token = approval_id) (tvalues S w (approval_commit_tokens w)))"

definition consume_approval_commit_token :: "sys \<Rightarrow> uuid \<Rightarrow> approval_commit_token eff" where
  "consume_approval_commit_token S token_id =
     bindS (asksr (\<lambda>w. ok_or (not_found ''approval commit token not found'')
              (tget (approval_commit_tokens w) token_id))) (\<lambda>token.
     bindS (now_utc S) (\<lambda>now w.
       let token' = token\<lparr>ct_status := ''consumed'', ct_consumed_at := Some now\<rparr>
       in (Inr token', w\<lparr>approval_commit_tokens := tput token_id token' (approval_commit_tokens w)\<rparr>)))"

definition list_approvals :: "sys \<Rightarrow> approval list eff" where
  "list_approvals S = asks (\<lambda>w. tvalues S w (approvals w))"

definition list_approvals_for_due_run :: "sys \<Rightarrow> approval list eff" where
  "list_approvals_for_due_run S = asks (\<lambda>w.
     filter (\<lambda>approval. ap_status approval = ''pending''
         \<or> (ap_status approval = ''expired''
            \<and> is_some_and (ap_tool_call_id approval) (\<lambda>tool_call_id.
                is_some_and (tget (tool_calls w) tool_call_id) (\<lambda>call. tc_status call = ''waiting_approval''))))
       (tvalues S w (approvals w)))"

definition get_approval :: "uuid \<Rightarrow> approval eff" where
  "get_approval approval_id = asksr (\<lambda>w.
     ok_or (not_found ''approval not found'') (tget (approvals w) approval_id))"

definition store_decide_approval :: "sys \<Rightarrow> uuid \<Rightarrow> string \<Rightarrow> approval eff" where
  "store_decide_approval S approval_id status =
     bindS (get_approval approval_id) (\<lambda>approval.
     if ap_status approval \<noteq> ''pending''
     then failS (bad_request ''only pending approvals can be decided'')
     else bindS (now_utc S) (\<lambda>now w.
       let approval' = approval\<lparr>ap_status := status, ap_decided_at := Some now\<rparr>
       in (Inr approval', w\<lparr>approvals := tput approval_id approval' (approvals w)\<rparr>)))"

definition update_approval_evidence :: "uuid \<Rightarrow> json \<Rightarrow> approval eff" where
  "update_approval_evidence approval_id evidence =
     bindS (get_approval approval_id) (\<lambda>approval w.
       let approval' = approval\<lparr>ap_evidence := evidence\<rparr>
       in (Inr approval', w\<lparr>approvals := tput approval_id approval' (approvals w)\<rparr>))"

definition validate_modified_tool_args
    :: "ext \<Rightarrow> tool_call \<Rightarrow> json \<Rightarrow> bool \<Rightarrow> (string option \<times> json) res" where
  "validate_modified_tool_args X call args commit_binding_required =
     (if tc_status call \<noteq> ''waiting_approval''
      then Inl (bad_request ''only waiting approval tool calls can be modified'')
      else bindr (if tc_tool_name call = ''ontology.action.execute''
                  then bindr (ontology_action_name_from_args (tc_args call)) (\<lambda>old.
                       bindr (ontology_action_name_from_args args) (\<lambda>new. Inr (old \<noteq> new)))
                  else Inr False) (\<lambda>renamed.
        if renamed
        then Inl (forbidden ''ontology action identity cannot be changed after approval is requested'')
        else if commit_binding_required
        then bindr (approval_commit_binding_for_args X (tc_tool_name call) args) (\<lambda>binding.
               Inr (Some (cb_normalized_args_hash binding), cb_target_binding binding))
        else Inr (None, tc_target_binding call)))"

text \<open>The part of a modification that concerns the tool call.\<close>

definition modify_tool_call_args :: "sys \<Rightarrow> uuid \<Rightarrow> json \<Rightarrow> unit eff" where
  "modify_tool_call_args S tool_call_id modified_args w =
     (case tget (tool_calls w) tool_call_id of
        None \<Rightarrow> (Inl (not_found ''tool call not found''), w)
      | Some call \<Rightarrow>
          (case (case tc_task_grant_id call of
                   Some task_grant_id \<Rightarrow>
                     bindr (ok_or (not_found ''task grant not found'') (tget (task_grants w) task_grant_id))
                       (\<lambda>grant. Inr (task_grant_requires_approval_commit_token grant (tc_tool_name call)))
                 | None \<Rightarrow> Inr (tc_normalized_args_hash call \<noteq> None)) of
             Inl e \<Rightarrow> (Inl e, w)
           | Inr commit_binding_required \<Rightarrow>
               (case validate_modified_tool_args (lib S) call modified_args commit_binding_required of
                  Inl e \<Rightarrow> (Inl e, w)
                | Inr (normalized_args_hash, target_binding) \<Rightarrow>
                    (Inr (), w\<lparr>tool_calls := tput tool_call_id
                       (call\<lparr>tc_args := modified_args, tc_normalized_args_hash := normalized_args_hash,
                              tc_target_binding := target_binding\<rparr>) (tool_calls w)\<rparr>))))"

definition store_modify_approval :: "sys \<Rightarrow> uuid \<Rightarrow> json \<Rightarrow> string option \<Rightarrow> approval eff" where
  "store_modify_approval S approval_id modified_args comment =
     bindS (get_approval approval_id) (\<lambda>current.
     if ap_status current \<noteq> ''pending''
     then failS (bad_request ''only pending approvals can be modified'')
     else bindS (now_utc S) (\<lambda>now.
     if is_some_and (ap_expires_at current) (\<lambda>expires_at. expires_at \<le> now)
     then failS (bad_request ''approval expired'')
     else thenS (case ap_tool_call_id current of
                   None \<Rightarrow> retS ()
                 | Some tool_call_id \<Rightarrow> modify_tool_call_args S tool_call_id modified_args)
       (\<lambda>w. let approval' = current\<lparr>ap_decision_payload := mk_obj
                    [(''modified_args'', modified_args), (''comment'', jstr_opt comment)]\<rparr>
            in (Inr approval', w\<lparr>approvals := tput approval_id approval' (approvals w)\<rparr>))))"

section \<open>Declining (store_approvals.rs)\<close>

definition declined_approval_event
    :: "sys \<Rightarrow> uuid \<Rightarrow> approval \<Rightarrow> string \<Rightarrow> uuid option \<Rightarrow> string \<Rightarrow> json \<Rightarrow> session_event eff" where
  "declined_approval_event S i approval actor_type actor_id event_type payload =
     bindS (now_utc S) (\<lambda>now. retS
       \<lparr>ev_id = i, ev_session_id = ap_session_id approval, ev_seq = 0, ev_parent_event_id = None,
        ev_actor_type = actor_type, ev_actor_id = actor_id, ev_event_type = event_type,
        ev_payload = payload, ev_created_at = now\<rparr>)"

definition declined_result :: "ext \<Rightarrow> approval \<Rightarrow> string \<Rightarrow> json" where
  "declined_result X approval decision = mk_obj
     [(''status'', JStr ''denied''), (''approval'', JStr decision), (''approval_id'', jid X (ap_id approval)),
      (''reason'', JStr (ap_reason approval))]"

text \<open>A tool call a decline settles, now or when it was first declined.\<close>

definition declinable :: "json \<Rightarrow> tool_call \<Rightarrow> bool" where
  "declinable result call \<longleftrightarrow>
     tc_status call = ''waiting_approval'' \<or> (tc_status call = ''denied'' \<and> tc_result call = Some result)"

definition declined_tool_records
    :: "sys \<Rightarrow> approval \<Rightarrow> string \<Rightarrow> json \<Rightarrow> tool_call \<Rightarrow> (session_event list \<times> audit_log list) eff" where
  "declined_tool_records S approval decision result call =
     (let X = lib S; new_id = deterministic_record_id X (ap_id approval) in
      bindS (declined_approval_event S (new_id ''approval-tool-result-event'' [decision, ''tool.result''])
               approval ''tool'' (Some (tc_id call)) ''tool.result''
               (mk_obj [(''tool_call_id'', jid X (tc_id call)), (''tool'', JStr (tc_tool_name call)),
                        (''content'', result)])) (\<lambda>e1.
      bindS (declined_approval_event S (new_id ''approval-tool-result-event'' [decision, ''agent.tool_result''])
               approval ''agent'' (Some (tc_id call)) ''agent.tool_result''
               (mk_obj [(''tool_call_id'', jid X (tc_id call)), (''tool'', JStr (tc_tool_name call)),
                        (''status'', JStr ''denied''), (''content'', result)])) (\<lambda>e2.
      bindS (new_audit_log S (Some (ap_session_id approval)) ''tool'' (Some (tc_id call)) ''tool.denied''
               ''tool_call'' (Some (tc_id call))
               (mk_obj [(''tool'', JStr (tc_tool_name call)), (''approval_id'', jid X (ap_id approval)),
                        (''decision'', JStr decision), (''status'', JStr ''denied'')])) (\<lambda>a.
        retS ([e1, e2], [a\<lparr>al_id := new_id ''approval-tool-result-audit'' [decision, ''tool.denied'']\<rparr>])))))"

definition declined_approval_records
    :: "sys \<Rightarrow> approval \<Rightarrow> string \<Rightarrow> string \<Rightarrow> tool_call option \<Rightarrow> (session_event list \<times> audit_log list) eff" where
  "declined_approval_records S approval decision actor_type call =
     (let X = lib S; result = declined_result X approval decision;
          event_type = ''approval.'' @ decision;
          event_id = deterministic_record_id X (ap_id approval) ''approval-event'' [decision] in
      bindS (case opt_filter (declinable result) call of
          Some c \<Rightarrow> declined_tool_records S approval decision result c
        | None \<Rightarrow> retS ([], [])) (\<lambda>(events, audits).
      bindS (declined_approval_event S event_id approval actor_type (Some (ap_id approval)) event_type
               (mk_obj [(''approval_id'', jid X (ap_id approval)), (''decision'', JStr decision),
                        (''expires_at'', jtime_opt X (ap_expires_at approval))])) (\<lambda>e.
      bindS (new_audit_log S (Some (ap_session_id approval)) actor_type (Some (ap_id approval)) event_type
               ''approval'' (Some (ap_id approval))
               (mk_obj [(''tool_call_id'', jid_opt X (ap_tool_call_id approval)), (''decision'', JStr decision),
                        (''expires_at'', jtime_opt X (ap_expires_at approval))])) (\<lambda>a.
        retS (events @ [e], audits @ [a\<lparr>al_id := deterministic_record_id X event_id ''audit'' [event_type]\<rparr>])))))"

text \<open>
  Records of a decline that are there already: one with the same identifier, or, for the repair
  of an expiry recorded in an older form, one that differs from the wanted one at most in it. A record
  found must be identical but for its number and time.
\<close>

definition same_event :: "session_event \<Rightarrow> session_event \<Rightarrow> unit res" where
  "same_event event requested =
     validate_idempotent_event_identity event (ev_actor_type requested) (ev_actor_id requested)
       (ev_session_id requested) (ev_event_type requested) (ev_payload requested)"

definition existing_event :: "sys \<Rightarrow> world \<Rightarrow> bool \<Rightarrow> session_event \<Rightarrow> session_event option res" where
  "existing_event S w repairing requested =
     (case opt_or (find_first (\<lambda>event. ev_id event = ev_id requested) (all_events S w))
             (if repairing \<and> ev_event_type requested = ''approval.expired''
              then find_first (\<lambda>event. same_event event requested = Inr ())
                     (session_events w (ev_session_id requested))
              else None) of
        Some existing \<Rightarrow> bindr (same_event existing requested) (\<lambda>_. Inr (Some existing))
      | None \<Rightarrow> Inr None)"

definition existing_audit :: "sys \<Rightarrow> world \<Rightarrow> bool \<Rightarrow> audit_log \<Rightarrow> audit_log option res" where
  "existing_audit S w repairing requested =
     (case opt_or (tget (audit_logs w) (al_id requested))
             (if repairing \<and> al_action requested = ''approval.expired''
              then find_first (\<lambda>existing. validate_idempotent_audit_identity existing requested = Inr ())
                     (tvalues S w (audit_logs w))
              else None) of
        Some existing \<Rightarrow> bindr (validate_idempotent_audit_identity existing requested) (\<lambda>_. Inr (Some existing))
      | None \<Rightarrow> Inr None)"

text \<open>The records that are new are stored, in order; all are returned as they are stored.\<close>

fun put_events :: "(session_event \<times> session_event option) list \<Rightarrow> session_event list
    \<Rightarrow> session_event list \<times> session_event list" where
  "put_events [] persisted = ([], persisted)"
| "put_events ((event, existing) # rest) persisted =
     (case existing of
        Some e \<Rightarrow> (let (committed, persisted') = put_events rest persisted in (e # committed, persisted'))
      | None \<Rightarrow>
          (let e = event\<lparr>ev_seq := int (length persisted) + 1\<rparr>;
               (committed, persisted') = put_events rest (persisted @ [e])
           in (e # committed, persisted')))"

definition put_audits :: "(audit_log \<times> audit_log option) list \<Rightarrow> audit_log table \<Rightarrow> audit_log table" where
  "put_audits entries t =
     foldl (\<lambda>t (entry, existing). if existing = None then tput (al_id entry) entry t else t) t entries"

definition decline_tool_call :: "timestamp \<Rightarrow> json \<Rightarrow> tool_call \<Rightarrow> tool_call" where
  "decline_tool_call now result call =
     (if tc_status call = ''waiting_approval''
      then call\<lparr>tc_status := ''denied'', tc_completed_at := Some now, tc_result := Some result,
                tc_error := None\<rparr>
      else call)"

text \<open>The writes of a decline whose records were checked, in one step.\<close>

definition commit_decline
    :: "sys \<Rightarrow> uuid \<Rightarrow> approval \<Rightarrow> string \<Rightarrow> (session_event \<times> session_event option) list
        \<Rightarrow> (audit_log \<times> audit_log option) list \<Rightarrow> (approval \<times> tool_call option \<times> session_event list) eff" where
  "commit_decline S approval_id current verdict events' audits' =
     bindS (if ap_status current = ''pending''
            then bindS (now_utc S) (\<lambda>now. retS (current\<lparr>ap_status := verdict, ap_decided_at := Some now\<rparr>))
            else retS current) (\<lambda>approval.
     bindS (now_utc S) (\<lambda>now w.
     let result = declined_result (lib S) current verdict;
         found = Option.bind (ap_tool_call_id approval) (tget (tool_calls w));
         settled = map_option (decline_tool_call now result) found;
         (committed, persisted) = put_events events' (session_events w (ap_session_id approval))
     in (Inr (approval,
              Option.bind found (\<lambda>call. if declinable result call then settled else None), committed),
         w\<lparr>approvals := tput approval_id approval (approvals w),
           tool_calls := (case (ap_tool_call_id approval, settled) of
               (Some tool_call_id, Some call) \<Rightarrow> tput tool_call_id call (tool_calls w)
             | _ \<Rightarrow> tool_calls w),
           events := tput (ap_session_id approval) persisted (events w),
           audit_logs := put_audits audits' (audit_logs w)\<rparr>)))"

definition decline_approval_and_tool_call
    :: "sys \<Rightarrow> uuid \<Rightarrow> string \<Rightarrow> string \<Rightarrow> (approval \<times> tool_call option \<times> session_event list) eff" where
  "decline_approval_and_tool_call S approval_id verdict actor_type =
     (if verdict \<notin> {''rejected'', ''expired''}
      then failS (bad_request ''declined approval decision must be rejected or expired'')
      else bindS (get_approval approval_id) (\<lambda>current.
      if ap_status current \<noteq> ''pending'' \<and> ap_status current \<noteq> verdict
      then (if verdict = ''expired'' then retS (current, None, [])
            else failS (bad_request ''only pending approvals can be declined''))
      else
      let repairing = (ap_status current = ''expired'' \<and> verdict = ''expired'') in
      bindS (asksr (\<lambda>w. case ap_tool_call_id current of
          None \<Rightarrow> Inr None
        | Some tool_call_id \<Rightarrow>
            bindr (ok_or (not_found ''tool call not found'') (tget (tool_calls w) tool_call_id))
              (\<lambda>call. Inr (Some call)))) (\<lambda>call.
      bindS (declined_approval_records S current verdict actor_type call) (\<lambda>(events, audits).
      bindS (asksr (\<lambda>w. mapr (existing_event S w repairing) events)) (\<lambda>existing_events.
      bindS (asksr (\<lambda>w. mapr (existing_audit S w repairing) audits)) (\<lambda>existing_audits.
        commit_decline S approval_id current verdict (zip events existing_events) (zip audits existing_audits)))))))"

section \<open>Groups and escalation rules (store_approval_groups.rs, approval_runtime.rs)\<close>

record create_approval_group_input =
  cg_name :: string
  cg_subjects :: "string list"

record create_escalation_rule_input =
  ce_name :: string
  ce_risk_level :: string
  ce_group_id :: uuid
  ce_order_index :: int
  ce_after_seconds :: int

definition validate_approval_group_input :: "create_approval_group_input \<Rightarrow> create_approval_group_input res" where
  "validate_approval_group_input input =
     (let name = trim (cg_name input);
          subjects = remdups_adj (sort (filter (\<lambda>s. s \<noteq> []) (map trim (cg_subjects input))))
      in if name = [] then Inl (bad_request ''approval group name is required'')
         else if subjects = [] then Inl (bad_request ''approval group requires at least one subject'')
         else Inr (input\<lparr>cg_name := name, cg_subjects := subjects\<rparr>))"

definition validate_approval_escalation_rule_input
    :: "create_escalation_rule_input \<Rightarrow> create_escalation_rule_input res" where
  "validate_approval_escalation_rule_input input =
     (let name = trim (ce_name input); risk_level = trim (ce_risk_level input)
      in if name = [] then Inl (bad_request ''approval escalation rule name is required'')
         else if risk_level = [] then Inl (bad_request ''approval escalation rule risk_level is required'')
         else Inr (input\<lparr>ce_name := name, ce_risk_level := risk_level,
                         ce_order_index := max (ce_order_index input) 0,
                         ce_after_seconds := max (ce_after_seconds input) 0\<rparr>))"

definition list_approval_groups :: "sys \<Rightarrow> approval_group list eff" where
  "list_approval_groups S = asks (\<lambda>w. rev (sort_key gp_created_at (tvalues S w (approval_groups w))))"

definition get_approval_group :: "uuid \<Rightarrow> approval_group eff" where
  "get_approval_group i = asksr (\<lambda>w. ok_or (not_found ''approval group not found'') (tget (approval_groups w) i))"

definition create_approval_group :: "sys \<Rightarrow> create_approval_group_input \<Rightarrow> approval_group eff" where
  "create_approval_group S input =
     bindS (new_v4 S) (\<lambda>i. bindS (now_utc S) (\<lambda>now w.
     let group = \<lparr>gp_id = i, gp_name = cg_name input, gp_subjects = cg_subjects input,
           gp_status = ''active'', gp_created_at = now\<rparr>
     in if list_ex (\<lambda>(k, existing). gp_name existing = gp_name group) (approval_groups w)
        then (Inl (bad_request ''approval group name already exists''), w)
        else (Inr group, w\<lparr>approval_groups := tput i group (approval_groups w)\<rparr>)))"

definition list_approval_escalation_rules :: "sys \<Rightarrow> approval_escalation_rule list eff" where
  "list_approval_escalation_rules S = asks (\<lambda>w.
     sort_key er_order_index (sort_key er_created_at (tvalues S w (approval_escalation_rules w))))"

definition create_approval_escalation_rule
    :: "sys \<Rightarrow> create_escalation_rule_input \<Rightarrow> approval_escalation_rule eff" where
  "create_approval_escalation_rule S input =
     bindS (get_approval_group (ce_group_id input)) (\<lambda>_.
     bindS (new_v4 S) (\<lambda>i. bindS (now_utc S) (\<lambda>now w.
     let rule = \<lparr>er_id = i, er_name = ce_name input, er_risk_level = ce_risk_level input,
           er_group_id = ce_group_id input, er_order_index = ce_order_index input,
           er_after_seconds = ce_after_seconds input, er_status = ''active'', er_created_at = now\<rparr>
     in if list_ex (\<lambda>(k, existing). er_name existing = er_name rule) (approval_escalation_rules w)
        then (Inl (bad_request ''approval escalation rule name already exists''), w)
        else (Inr rule, w\<lparr>approval_escalation_rules := tput i rule (approval_escalation_rules w)\<rparr>))))"

definition first_active_escalation_rule_for_risk :: "sys \<Rightarrow> string \<Rightarrow> approval_escalation_rule option eff" where
  "first_active_escalation_rule_for_risk S risk_level =
     bindS (list_approval_escalation_rules S) (\<lambda>rules.
       retS (find_first (\<lambda>rule. er_status rule = ''active'' \<and> er_risk_level rule = risk_level) rules))"

section \<open>Expiry and escalation (approval_runtime.rs)\<close>

definition approval_is_expired_at :: "approval \<Rightarrow> timestamp \<Rightarrow> bool" where
  "approval_is_expired_at approval now \<longleftrightarrow>
     ap_status approval = ''pending'' \<and> is_some_and (ap_expires_at approval) (\<lambda>expires_at. expires_at \<le> now)"

definition approval_expires_at :: "timestamp \<Rightarrow> json option \<Rightarrow> timestamp option" where
  "approval_expires_at created_at expires_in_seconds =
     Some (plus_seconds created_at
       (unwrap_or (opt_filter (\<lambda>seconds. seconds > 0) (Option.bind expires_in_seconds as_i64)) 86400))"

text \<open>The cast \<open>as i32\<close>.\<close>

definition wrap_i32 :: "int \<Rightarrow> int" where
  "wrap_i32 x = (x + 2 ^ 31) mod 2 ^ 32 - 2 ^ 31"

definition next_due_escalation_rule
    :: "ext \<Rightarrow> approval \<Rightarrow> approval_escalation_rule list \<Rightarrow> timestamp \<Rightarrow> approval_escalation_rule option" where
  "next_due_escalation_rule X approval rules now =
     (let previous_rule_id = Option.bind (Option.bind (jget (ap_evidence approval) ''escalation'')
            (\<lambda>v. jget_str v ''rule_id'')) (parse_uuid X);
          previous_order = Option.bind previous_rule_id (\<lambda>rule_id.
            map_option er_order_index (find_first (\<lambda>rule. er_id rule = rule_id) rules));
          age_seconds = wrap_i32 (max 0 (num_seconds (now - ap_created_at approval)));
          due = filter (\<lambda>rule. er_status rule = ''active'' \<and> er_risk_level rule = ap_risk_level approval
                  \<and> is_none_or previous_order (\<lambda>order. er_order_index rule > order)
                  \<and> age_seconds \<ge> er_after_seconds rule) rules
      in case sort_key er_order_index (sort_key er_created_at due) of [] \<Rightarrow> None | rule # _ \<Rightarrow> Some rule)"

fun project_declined_approval_events :: "approval_peers \<Rightarrow> session_event list \<Rightarrow> unit eff" where
  "project_declined_approval_events A [] = retS ()"
| "project_declined_approval_events A (event # es) = (\<lambda>w.
     case project_session_event_to_loop A event w of
       (Inl error, w') \<Rightarrow>
         bindS (session_accepts_worker_execution (ev_session_id event)) (\<lambda>accepts.
           if accepts then failS error else retS ()) w'
     | (Inr _, w') \<Rightarrow> project_declined_approval_events A es w')"

definition expire_approval_record :: "sys \<Rightarrow> approval_peers \<Rightarrow> uuid \<Rightarrow> approval eff" where
  "expire_approval_record S A approval_id =
     bindS (get_approval approval_id) (\<lambda>approval.
     if ap_status approval \<notin> {''pending'', ''expired''} then retS approval
     else bindS (decline_approval_and_tool_call S approval_id ''expired'' ''system'') (\<lambda>(updated, call, events).
       thenS (project_declined_approval_events A events) (retS updated)))"

definition merge_approval_evidence :: "json \<Rightarrow> json \<Rightarrow> json" where
  "merge_approval_evidence target patch =
     (let base = (if is_object target then target else mk_obj [(''details'', target)])
      in case (base, patch) of
           (JObj m, JObj p) \<Rightarrow> JObj (foldl (\<lambda>m kv. obj_insert (fst kv) (snd kv) m) m p)
         | _ \<Rightarrow> base)"

definition escalate_approval_record
    :: "sys \<Rightarrow> approval \<Rightarrow> approval_group \<Rightarrow> uuid option \<Rightarrow> string \<Rightarrow> string \<Rightarrow> string \<Rightarrow> uuid option \<Rightarrow> approval eff" where
  "escalate_approval_record S approval approvers rule_id reason escalated_by actor_type actor_id =
     (let X = lib S in
      bindS (now_utc S) (\<lambda>escalated_at.
      bindS (update_approval_evidence (ap_id approval) (merge_approval_evidence (ap_evidence approval)
        (mk_obj [(''approver_group_id'', jid X (gp_id approvers)), (''approver_group_name'', JStr (gp_name approvers)),
                 (''escalation'', mk_obj
                    [(''rule_id'', jid_opt X rule_id), (''group_id'', jid X (gp_id approvers)),
                     (''reason'', JStr reason), (''escalated_by'', JStr escalated_by),
                     (''escalated_at'', JStr (show_time X escalated_at))])]))) (\<lambda>updated.
      bindS (append_event S actor_type actor_id (ap_session_id updated) ''approval.escalated''
        (mk_obj [(''approval_id'', jid X (ap_id approval)), (''group_id'', jid X (gp_id approvers)),
                 (''group_name'', JStr (gp_name approvers)), (''rule_id'', jid_opt X rule_id),
                 (''escalated_at'', JStr (show_time X escalated_at))])) (\<lambda>_.
      thenS (audit S (Some (ap_session_id updated)) actor_type actor_id ''approval.escalated'' ''approval''
        (Some (ap_id approval))
        (mk_obj [(''group_id'', jid X (gp_id approvers)), (''group_name'', JStr (gp_name approvers)),
                 (''rule_id'', jid_opt X rule_id), (''subject_count'', json_nat (length (gp_subjects approvers)))]))
        (retS updated)))))"

datatype due_outcome = DueExpired | DueEscalated json | DueSkipped

definition due_approval
    :: "sys \<Rightarrow> approval_peers \<Rightarrow> approval_escalation_rule list \<Rightarrow> timestamp \<Rightarrow> approval \<Rightarrow> due_outcome eff" where
  "due_approval S A rules checked_at approval =
     (if ap_status approval = ''expired'' \<or> approval_is_expired_at approval checked_at
      then bindS (expire_approval_record S A (ap_id approval)) (\<lambda>updated.
             retS (if ap_status updated = ''expired'' then DueExpired else DueSkipped))
      else case next_due_escalation_rule (lib S) approval rules checked_at of
        None \<Rightarrow> retS DueSkipped
      | Some rule \<Rightarrow>
          bindS (get_approval_group (er_group_id rule)) (\<lambda>group.
          if gp_status group \<noteq> ''active'' then retS DueSkipped
          else bindS (escalate_approval_record S approval group (Some (er_id rule))
                 (''Scheduled escalation after '' @ show_int (er_after_seconds rule) @ '' seconds'')
                 ''system'' ''system'' None) (\<lambda>updated.
            bindS (deliver_approval_notification A updated checked_at) (\<lambda>delivery.
              retS (DueEscalated delivery)))))"

record approval_escalation_due_run =
  dr_status :: string
  dr_checked_at :: timestamp
  dr_expired_count :: nat
  dr_escalated_count :: nat
  dr_skipped_count :: nat
  dr_notification_deliveries :: "json list"

definition execute_due_approval_escalations :: "sys \<Rightarrow> approval_peers \<Rightarrow> approval_escalation_due_run eff" where
  "execute_due_approval_escalations S A =
     bindS (now_utc S) (\<lambda>checked_at.
     bindS (list_approval_escalation_rules S) (\<lambda>rules.
     bindS (list_approvals_for_due_run S) (\<lambda>due.
     bindS (mapS (due_approval S A rules checked_at) due) (\<lambda>outcomes.
     let deliveries = filter_map (\<lambda>x. case x of DueEscalated d \<Rightarrow> Some d | _ \<Rightarrow> None) outcomes;
         run = \<lparr>dr_status = ''completed'', dr_checked_at = checked_at,
           dr_expired_count = length (filter (\<lambda>x. x = DueExpired) outcomes),
           dr_escalated_count = length deliveries,
           dr_skipped_count = length (filter (\<lambda>x. x = DueSkipped) outcomes),
           dr_notification_deliveries = deliveries\<rparr> in
     thenS (audit S None ''system'' None ''approval.escalation_due_run'' ''approval_escalation_rules'' None
       (mk_obj [(''status'', JStr (dr_status run)), (''checked_at'', JStr (show_time (lib S) checked_at)),
                (''expired_count'', json_nat (dr_expired_count run)),
                (''escalated_count'', json_nat (dr_escalated_count run)),
                (''skipped_count'', json_nat (dr_skipped_count run)),
                (''notification_deliveries'', JArr deliveries)]))
       (retS run)))))"

section \<open>Who may decide (approval_runtime.rs)\<close>

text \<open>What the evidence says under one of two keys, or the arguments of the call do.\<close>

definition delegation_entry :: "json \<Rightarrow> string list \<Rightarrow> string option" where
  "delegation_entry evidence keys =
     Option.bind (opt_or (jget_any evidence keys)
       (Option.bind (jget evidence ''args'') (\<lambda>args. jget_any args keys))) as_str"

definition delegated_approver_subject :: "approval \<Rightarrow> string option" where
  "delegated_approver_subject approval =
     trimmed_text (delegation_entry (ap_evidence approval) [''approver_subject'', ''delegated_approver''])"

definition delegated_approver_group_id :: "ext \<Rightarrow> approval \<Rightarrow> uuid option" where
  "delegated_approver_group_id X approval =
     Option.bind (delegation_entry (ap_evidence approval) [''approver_group_id'', ''delegated_approver_group_id''])
       (\<lambda>value. parse_uuid X (trim value))"

definition enforce_delegated_approver :: "sys \<Rightarrow> principal \<Rightarrow> approval \<Rightarrow> unit eff" where
  "enforce_delegated_approver S who approval =
     (if RoleAdmin \<in> set (pr_roles who) then retS ()
      else case delegated_approver_subject approval of
        Some approver_subject \<Rightarrow>
          guardS (pr_subject_id who = approver_subject)
            (forbidden (''approval is delegated to '' @ approver_subject))
      | None \<Rightarrow>
          (case delegated_approver_group_id (lib S) approval of
             Some group_id \<Rightarrow>
               bindS (get_approval_group group_id) (\<lambda>group.
                 guardS (pr_subject_id who \<in> set (gp_subjects group))
                   (forbidden (''approval is delegated to approval group '' @ gp_name group)))
           | None \<Rightarrow>
               guardS (ap_risk_level approval \<noteq> ''high'')
                 (forbidden (''high-risk approvals require an explicit approver subject or ''
                             @ ''approval group''))))"

definition authorize_approval_decision :: "sys \<Rightarrow> approval_peers \<Rightarrow> principal \<Rightarrow> uuid \<Rightarrow> unit eff" where
  "authorize_approval_decision S A who approval_id =
     bindS (liftS (authorize who
       \<lparr>ar_tenant_id = current_tenant_id A, ar_permission = ApprovalsDecide,
        ar_resource_type = ''approval'', ar_resource_id = Some approval_id\<rparr>)) (\<lambda>_.
     bindS (get_approval approval_id) (\<lambda>approval.
     thenS (enforce_resource_scope A who
       \<lparr>ar_tenant_id = current_tenant_id A, ar_permission = SessionsRead,
        ar_resource_type = ''session'', ar_resource_id = Some (ap_session_id approval)\<rparr>)
       (enforce_delegated_approver S who approval)))"

section \<open>Commit tokens (approval_runtime.rs)\<close>

definition maybe_issue_approval_commit_token
    :: "sys \<Rightarrow> approval \<Rightarrow> string option \<Rightarrow> approval_commit_token option eff" where
  "maybe_issue_approval_commit_token S approval approver_subject =
     (let X = lib S in
      case ap_tool_call_id approval of
        None \<Rightarrow> retS None
      | Some tool_call_id \<Rightarrow>
      bindS (get_tool_call tool_call_id) (\<lambda>call.
      case tc_task_grant_id call of
        None \<Rightarrow> retS None
      | Some task_grant_id \<Rightarrow>
      bindS (get_task_grant task_grant_id) (\<lambda>grant.
      if \<not> task_grant_requires_approval_commit_token grant (tc_tool_name call) then retS None
      else bindS (approval_commit_token_for_approval S (ap_id approval)) (\<lambda>existing.
      if existing \<noteq> None then retS None
      else bindS (liftS (approval_commit_binding_for_args X (tc_tool_name call) (tc_args call))) (\<lambda>binding.
      if tc_normalized_args_hash call \<noteq> Some (cb_normalized_args_hash binding)
         \<or> tc_target_binding call \<noteq> cb_target_binding binding
      then failS (forbidden ''approval commit binding does not match current tool call args'')
      else bindS (now_utc S) (\<lambda>created_at. bindS (new_v4 S) (\<lambda>i.
      bindS (create_approval_commit_token
        \<lparr>ct_id = i, ct_approval_id = ap_id approval, ct_tool_call_id = tc_id call,
         ct_task_grant_id = task_grant_id, ct_session_id = ap_session_id approval,
         ct_tool_name = tc_tool_name call, ct_normalized_args_hash = cb_normalized_args_hash binding,
         ct_target_binding = cb_target_binding binding,
         ct_approver_subject = unwrap_or approver_subject ''unknown'', ct_status = ''issued'',
         ct_expires_at = unwrap_or (ap_expires_at approval) (plus_seconds created_at 900),
         ct_consumed_at = None, ct_created_at = created_at\<rparr>) (\<lambda>token.
      let details = [(''tool_call_id'', jid X (ct_tool_call_id token)),
            (''task_grant_id'', jid X (ct_task_grant_id token)), (''tool'', JStr (ct_tool_name token)),
            (''normalized_args_hash'', JStr (ct_normalized_args_hash token)),
            (''target_binding'', ct_target_binding token)] in
      bindS (append_event S ''system'' (Some (ct_id token)) (ap_session_id approval)
        ''approval_commit_token.issued''
        (mk_obj ([(''approval_commit_token_id'', jid X (ct_id token)), (''approval_id'', jid X (ap_id approval)),
                  (''expires_at'', JStr (show_time X (ct_expires_at token)))] @ details))) (\<lambda>_.
      thenS (audit S (Some (ap_session_id approval)) ''system'' (Some (ct_id token))
        ''approval_commit_token.issued'' ''approval_commit_token'' (Some (ct_id token))
        (mk_obj ((''approval_id'', jid X (ap_id approval)) # details)))
        (retS (Some token)))))))))))"

definition validate_approval_commit_token_for_tool_call
    :: "sys \<Rightarrow> approval \<Rightarrow> tool_call \<Rightarrow> approval_commit_token eff" where
  "validate_approval_commit_token_for_tool_call S approval call =
     bindS (approval_commit_token_for_approval S (ap_id approval)) (\<lambda>found.
     bindS (liftS (ok_or (forbidden ''approval commit token is required'') found)) (\<lambda>token.
     bindS (now_utc S) (\<lambda>now.
     thenS (guardS (ct_status token = ''issued'') (forbidden ''approval commit token is not issued''))
     (thenS (guardS (ct_expires_at token > now) (forbidden ''approval commit token is expired''))
     (thenS (guardS (ct_tool_call_id token = tc_id call \<and> ct_session_id token = ap_session_id approval
               \<and> ct_tool_name token = tc_tool_name call)
        (forbidden ''approval commit token does not match tool call''))
     (bindS (liftS (ok_or (forbidden ''approval commit token requires task grant binding'')
               (tc_task_grant_id call))) (\<lambda>task_grant_id.
     thenS (guardS (ct_task_grant_id token = task_grant_id)
        (forbidden ''approval commit token task grant does not match tool call''))
     (bindS (get_task_grant task_grant_id) (\<lambda>grant.
     thenS (guardS (tg_status grant = ''active'') (forbidden ''task grant is not active''))
     (bindS (now_utc S) (\<lambda>now.
     thenS (guardS (\<not> is_some_and (tg_expires_at grant) (\<lambda>expires_at. expires_at \<le> now))
        (forbidden ''task grant is expired''))
     (thenS (guardS (task_grant_requires_approval_commit_token grant (tc_tool_name call))
        (forbidden ''approval commit token is only valid for commit_write effects''))
     (thenS (bindS (liftS (task_grant_connector_invocation_denial grant (tc_tool_name call) (tc_args call))) not_denied)
     (bindS (liftS (approval_commit_binding_for_args (lib S) (tc_tool_name call) (tc_args call))) (\<lambda>binding.
     thenS (guardS (ct_normalized_args_hash token = cb_normalized_args_hash binding
               \<and> ct_target_binding token = cb_target_binding binding)
        (forbidden ''approval commit token digest does not match current tool call args''))
       (retS token))))))))))))))))"

definition consume_valid_approval_commit_token_for_tool_call
    :: "sys \<Rightarrow> approval \<Rightarrow> tool_call \<Rightarrow> approval_commit_token eff" where
  "consume_valid_approval_commit_token_for_tool_call S approval call =
     (let X = lib S in
      bindS (validate_approval_commit_token_for_tool_call S approval call) (\<lambda>token.
      bindS (consume_approval_commit_token S (ct_id token)) (\<lambda>consumed.
      let details = [(''approval_id'', jid X (ap_id approval)), (''tool_call_id'', jid X (tc_id call)),
            (''task_grant_id'', jid X (ct_task_grant_id consumed)), (''tool'', JStr (ct_tool_name consumed)),
            (''normalized_args_hash'', JStr (ct_normalized_args_hash consumed))] in
      bindS (append_event S ''system'' (Some (ct_id consumed)) (ap_session_id approval)
        ''approval_commit_token.consumed''
        (mk_obj ((''approval_commit_token_id'', jid X (ct_id consumed)) # details))) (\<lambda>_.
      thenS (audit S (Some (ap_session_id approval)) ''worker'' (Some (ct_id consumed))
        ''approval_commit_token.consumed'' ''approval_commit_token'' (Some (ct_id consumed)) (mk_obj details))
        (retS consumed)))))"

section \<open>Decisions (approval_runtime.rs, handlers/approvals.rs)\<close>

definition decide_approval
    :: "sys \<Rightarrow> peers \<Rightarrow> approval_peers \<Rightarrow> uuid \<Rightarrow> string \<Rightarrow> string option \<Rightarrow> approval eff" where
  "decide_approval S P A approval_id status decider_subject =
     (let X = lib S in
      bindS (get_approval approval_id) (\<lambda>approval.
      if ap_status approval \<noteq> ''pending''
      then failS (bad_request ''only pending approvals can be decided'')
      else bindS (now_utc S) (\<lambda>now.
      if approval_is_expired_at approval now
      then bindS (expire_approval_record S A approval_id) (\<lambda>_. failS (bad_request ''approval expired''))
      else if status = ''rejected''
      then bindS (decline_approval_and_tool_call S approval_id status ''user'') (\<lambda>(updated, call, es).
             thenS (project_declined_approval_events A es) (retS updated))
      else bindS (store_decide_approval S approval_id status) (\<lambda>updated.
      thenS (if status = ''approved''
             then bindS (maybe_issue_approval_commit_token S updated decider_subject) (\<lambda>_. retS ())
             else retS ())
      (bindS (append_event S ''user'' (Some approval_id) (ap_session_id updated) (''approval.'' @ status)
        (mk_obj [(''approval_id'', jid X approval_id), (''decision'', JStr status)])) (\<lambda>decision_event.
      thenS (if status = ''approved''
             then bindS (execute_approved_tool A updated) (\<lambda>outcome.
               case outcome of
                 WorkerCompleted job_id \<Rightarrow>
                   if job_id = None then project_session_event_to_loop A decision_event else retS ()
               | WorkerQueued \<Rightarrow>
                   bindS (set_managed_session_status S P (ap_session_id updated) Running
                     ''approved execution queued for worker'') (\<lambda>_. retS ()))
             else retS ())
      (thenS (audit S (Some (ap_session_id updated)) ''user'' (Some approval_id) (''approval.'' @ status)
        ''approval'' (Some approval_id)
        (mk_obj [(''tool_call_id'', jid_opt X (ap_tool_call_id updated)), (''decision'', JStr status)]))
        (retS updated))))))))"

definition approve :: "sys \<Rightarrow> peers \<Rightarrow> approval_peers \<Rightarrow> principal \<Rightarrow> uuid \<Rightarrow> approval eff" where
  "approve S P A who approval_id =
     thenS (authorize_approval_decision S A who approval_id)
       (decide_approval S P A approval_id ''approved'' (Some (pr_subject_id who)))"

definition reject :: "sys \<Rightarrow> peers \<Rightarrow> approval_peers \<Rightarrow> principal \<Rightarrow> uuid \<Rightarrow> approval eff" where
  "reject S P A who approval_id =
     thenS (authorize_approval_decision S A who approval_id)
       (decide_approval S P A approval_id ''rejected'' None)"

definition expire :: "sys \<Rightarrow> approval_peers \<Rightarrow> principal \<Rightarrow> uuid \<Rightarrow> approval eff" where
  "expire S A who approval_id =
     thenS (authorize_approval_decision S A who approval_id) (expire_approval_record S A approval_id)"

definition modify_approval
    :: "sys \<Rightarrow> approval_peers \<Rightarrow> principal \<Rightarrow> uuid \<Rightarrow> json \<Rightarrow> string option \<Rightarrow> approval eff" where
  "modify_approval S A who approval_id args comment =
     (let X = lib S in
      thenS (authorize_approval_decision S A who approval_id)
      (bindS (get_approval approval_id) (\<lambda>approval.
      if ap_status approval \<noteq> ''pending''
      then failS (bad_request ''only pending approvals can be modified'')
      else bindS (now_utc S) (\<lambda>now.
      if approval_is_expired_at approval now
      then bindS (expire_approval_record S A approval_id) (\<lambda>_. failS (bad_request ''approval expired''))
      else bindS (store_modify_approval S approval_id args comment) (\<lambda>updated.
      bindS (append_event S ''user'' (Some approval_id) (ap_session_id updated) ''approval.modified''
        (mk_obj [(''approval_id'', jid X approval_id), (''tool_call_id'', jid_opt X (ap_tool_call_id updated)),
                 (''modified_args'', args), (''comment'', jstr_opt comment)])) (\<lambda>_.
      thenS (audit S (Some (ap_session_id updated)) ''user'' (Some approval_id) ''approval.modified''
        ''approval'' (Some approval_id)
        (mk_obj [(''tool_call_id'', jid_opt X (ap_tool_call_id updated)), (''action'', JStr (ap_action updated)),
                 (''comment'', jindex (ap_decision_payload updated) ''comment'')]))
        (retS updated)))))))"

definition escalate_approval
    :: "sys \<Rightarrow> approval_peers \<Rightarrow> principal \<Rightarrow> uuid \<Rightarrow> uuid option \<Rightarrow> string option \<Rightarrow> approval eff" where
  "escalate_approval S A who approval_id group_id reason =
     (let request = \<lparr>ar_tenant_id = current_tenant_id A, ar_permission = PermissionAdmin,
            ar_resource_type = ''approval'', ar_resource_id = Some approval_id\<rparr> in
      bindS (liftS (authorize who request)) (\<lambda>_.
      thenS (enforce_resource_scope A who request)
      (bindS (get_approval approval_id) (\<lambda>approval.
      if ap_status approval \<noteq> ''pending''
      then failS (bad_request ''only pending approvals can be escalated'')
      else bindS (now_utc S) (\<lambda>now.
      if approval_is_expired_at approval now
      then bindS (expire_approval_record S A approval_id) (\<lambda>_. failS (bad_request ''approval expired''))
      else bindS (case group_id of
          Some i \<Rightarrow> bindS (get_approval_group i) (\<lambda>group. retS (group, None))
        | None \<Rightarrow>
            bindS (first_active_escalation_rule_for_risk S (ap_risk_level approval)) (\<lambda>rule.
            bindS (liftS (ok_or (bad_request ''no active escalation rule for approval risk'') rule)) (\<lambda>rule.
            bindS (get_approval_group (er_group_id rule)) (\<lambda>group. retS (group, Some (er_id rule))))))
        (\<lambda>(group, rule_id).
      if gp_status group \<noteq> ''active'' then failS (bad_request ''approval group is not active'')
      else escalate_approval_record S approval group rule_id (unwrap_or reason ''Manual escalation'')
             (pr_subject_id who) ''user'' (Some approval_id)))))))"

end
