(* ===== verification/Semantic_Store.thy ===== *)
theory Semantic_Store
  imports Sessions Policy
begin

text \<open>
  Semantic memory in the store (store_semantic_kernel.rs) and the context packets
  (store_context_packets.rs), in the memory backend. Creating checks for a duplicate and inserts under one
  lock. Updating and archiving read the record, prepare the new one and insert it, and hold the lock for
  the reading and for the inserting only; they are composed here of these two atomic steps.
\<close>

section \<open>Texts (store_semantic_kernel.rs, ontology_engine.rs)\<close>

definition normalized_ontology_token :: "string \<Rightarrow> string" where
  "normalized_ontology_token value =
     map (\<lambda>c. if c = CHR ''-'' then CHR ''_'' else c) (to_ascii_lowercase (trim value))"

definition normalize_required_text :: "string \<Rightarrow> string \<Rightarrow> string res" where
  "normalize_required_text value label =
     (if trim value = [] then Inl (bad_request (label @ '' cannot be empty'')) else Inr (trim value))"

definition validate_json_object :: "json \<Rightarrow> string \<Rightarrow> json res" where
  "validate_json_object value label =
     (if is_object value then Inr value else Inl (bad_request (label @ '' must be a JSON object'')))"

text \<open>A token among those that are supported.\<close>

definition token_among :: "string list \<Rightarrow> string \<Rightarrow> string \<Rightarrow> string res" where
  "token_among tokens message value =
     (let n = normalized_ontology_token value in
      if n \<in> set tokens then Inr n else Inl (bad_request message))"

definition normalize_semantic_source_owner
    :: "string option \<Rightarrow> uuid option \<Rightarrow> (string option \<times> uuid option) res" where
  "normalize_semantic_source_owner owner_type owner_id =
     (case (map_option normalized_ontology_token (Option.bind owner_type normalize_optional_text), owner_id) of
        (None, None) \<Rightarrow> Inr (None, None)
      | (Some t, Some i) \<Rightarrow>
          if t \<in> {''project'', ''team'', ''agent'', ''session'', ''work_item'', ''workflow_pack_installation''}
          then Inr (Some t, Some i)
          else Inl (bad_request ''semantic source owner_type is not supported'')
      | _ \<Rightarrow> Inl (bad_request ''semantic source owner_type and owner_id must be provided together''))"

definition normalize_semantic_source_type :: "string \<Rightarrow> string res" where
  "normalize_semantic_source_type =
     token_among
         [''repo_doc'', ''session_history'', ''artifact'', ''workflow_pack'', ''mcp_source'',
          ''feishu'', ''lark'', ''github'', ''upload'', ''external'',
          ''memory'']
       (''semantic source_type must be repo_doc, session_history, artifact, workflow_pack, ''
          @ ''mcp_source, feishu, lark, github, upload, external, or memory'')"

definition normalize_semantic_source_status :: "string \<Rightarrow> string res" where
  "normalize_semantic_source_status =
     token_among [''active'', ''discovered'', ''ingested'', ''stale'', ''archived'']
       ''semantic source status must be active, discovered, ingested, stale, or archived''"

definition normalize_semantic_object_type :: "string \<Rightarrow> string res" where
  "normalize_semantic_object_type =
     token_among
         [''action'', ''agent'', ''connector'', ''decision'', ''eval'',
          ''profile'', ''release_gate'', ''runbook'', ''schema'', ''skill'',
          ''code_module'', ''workflow'', ''policy'', ''memory'', ''artifact'',
          ''project'', ''repo'', ''service'', ''pack'', ''work_item'',
          ''business_object'', ''business_metric'', ''ontology_expansion'', ''ontology_onboarding_proposal'', ''ontology_object_type'',
          ''ontology_relation_type'', ''ontology_action_type'', ''ontology_logic_rule'', ''ontology_curated_dataset_review'', ''ontology_confidence_calibration'']
       (''semantic object_type must be action, agent, connector, decision, eval, profile, ''
          @ ''release_gate, runbook, schema, skill, code_module, workflow, policy, memory, ''
          @ ''artifact, project, repo, service, pack, work_item, business_object, business_metric, ''
          @ ''ontology_expansion, ontology_onboarding_proposal, ontology_object_type, ''
          @ ''ontology_relation_type, ontology_action_type, ontology_logic_rule, ''
          @ ''ontology_curated_dataset_review, or ontology_confidence_calibration'')"

definition normalize_semantic_entity_type :: "string \<Rightarrow> string res" where
  "normalize_semantic_entity_type =
     token_among
         [''action'', ''agent'', ''connector'', ''eval'', ''profile'',
          ''release_gate'', ''schema'', ''skill'', ''project'', ''repo'',
          ''service'', ''workflow'', ''policy'', ''pack'', ''memory'',
          ''artifact'', ''session'', ''manager_plan'', ''runtime_profile'', ''semantic_source'',
          ''semantic_object'', ''ontology_object_type'', ''ontology_relation_type'', ''ontology_action_type'']
       ''semantic entity type is not supported by the minimal semantic kernel''"

definition normalize_semantic_relation_type :: "string \<Rightarrow> string res" where
  "normalize_semantic_relation_type value =
     (let n = normalized_ontology_token value in
      if n = [] then Inl (bad_request ''semantic relation_type cannot be empty'') else Inr n)"

definition normalize_semantic_trust_level :: "string \<Rightarrow> string res" where
  "normalize_semantic_trust_level =
     token_among [''unverified'', ''source_attested'', ''human_verified'', ''system_verified'']
       (''semantic trust_level must be unverified, source_attested, human_verified, ''
          @ ''or system_verified'')"

definition normalize_semantic_freshness :: "string \<Rightarrow> string res" where
  "normalize_semantic_freshness =
     token_among [''unknown'', ''current'', ''stale'', ''expired'']
       ''semantic freshness must be unknown, current, stale, or expired''"

definition normalize_semantic_record_status :: "string \<Rightarrow> string res" where
  "normalize_semantic_record_status =
     token_among [''active'', ''archived''] ''semantic record status must be active or archived''"

definition validate_semantic_confidence :: "rat \<Rightarrow> rat res" where
  "validate_semantic_confidence value =
     (if 0 \<le> value \<and> value \<le> 1 then Inr value
      else Inl (bad_request ''semantic link confidence must be between 0.0 and 1.0''))"

text \<open>A field of an update: as it was, unless the update gives a value.\<close>

definition updated :: "'a option \<Rightarrow> ('a \<Rightarrow> 'b res) \<Rightarrow> 'b \<Rightarrow> 'b res" where
  "updated given check old = (case given of None \<Rightarrow> Inr old | Some x \<Rightarrow> check x)"

section \<open>Sources\<close>

definition list_semantic_sources :: "sys \<Rightarrow> semantic_source list eff" where
  "list_semantic_sources S = asks (\<lambda>w.
     sort_key sc_created_at (filter (\<lambda>s. sc_archived_at s = None) (tvalues S w (semantic_sources w))))"

definition get_semantic_source :: "uuid \<Rightarrow> semantic_source eff" where
  "get_semantic_source i = asksr (\<lambda>w.
     ok_or (not_found ''semantic source not found'')
       (opt_filter (\<lambda>s. sc_archived_at s = None) (tget (semantic_sources w) i)))"

definition insert_semantic_source :: "semantic_source \<Rightarrow> semantic_source eff" where
  "insert_semantic_source source w =
     (Inr source, w\<lparr>semantic_sources := tput (sc_id source) source (semantic_sources w)\<rparr>)"

definition admit_semantic_source :: "semantic_source \<Rightarrow> semantic_source eff" where
  "admit_semantic_source source w =
     (if list_ex (\<lambda>(i, existing). sc_archived_at existing = None
           \<and> eq_ignore_ascii_case (sc_source_uri existing) (sc_source_uri source)) (semantic_sources w)
      then (Inl (bad_request (''semantic source already exists: '' @ sc_source_uri source)), w)
      else insert_semantic_source source w)"

definition create_semantic_source :: "sys \<Rightarrow> create_semantic_source \<Rightarrow> semantic_source eff" where
  "create_semantic_source S input =
     bindS (now_utc S) (\<lambda>now.
     bindS (liftS (normalize_semantic_source_owner (ns_owner_type input) (ns_owner_id input))) (\<lambda>(owner_type, owner_id).
     bindS (new_v4 S) (\<lambda>i.
     bindS (liftS (
       bindr (normalize_semantic_source_type (ns_source_type input)) (\<lambda>source_type.
       bindr (normalize_required_text (ns_source_uri input) ''semantic source_uri'') (\<lambda>source_uri.
       bindr (normalize_required_text (ns_display_name input) ''semantic display_name'') (\<lambda>display_name.
       bindr (validate_json_object (ns_metadata input) ''semantic source metadata'') (\<lambda>metadata.
       bindr (validate_json_object (ns_provenance input) ''semantic source provenance'') (\<lambda>provenance.
       bindr (validate_json_object (ns_freshness input) ''semantic source freshness'') (\<lambda>freshness.
       bindr (normalize_semantic_source_status (ns_status input)) (\<lambda>status.
       Inr \<lparr>sc_id = i, sc_source_type = source_type, sc_source_uri = source_uri, sc_display_name = display_name,
            sc_owner_type = owner_type, sc_owner_id = owner_id, sc_metadata = metadata,
            sc_provenance = provenance, sc_freshness = freshness, sc_status = status,
            sc_last_ingested_at = ns_last_ingested_at input, sc_created_at = now, sc_updated_at = now,
            sc_archived_at = None\<rparr>)))))))))
       admit_semantic_source)))"

definition changed_semantic_source :: "update_semantic_source \<Rightarrow> semantic_source \<Rightarrow> semantic_source res" where
  "changed_semantic_source input source =
     bindr (updated (uc_display_name input) (\<lambda>t. normalize_required_text t ''semantic display_name'')
              (sc_display_name source)) (\<lambda>display_name.
     bindr (normalize_semantic_source_owner
              (case uc_owner_type input of None \<Rightarrow> sc_owner_type source
               | Some t \<Rightarrow> Option.bind t normalize_optional_text)
              (unwrap_or (uc_owner_id input) (sc_owner_id source))) (\<lambda>(owner_type, owner_id).
     bindr (updated (uc_metadata input) (\<lambda>v. validate_json_object v ''semantic source metadata'')
              (sc_metadata source)) (\<lambda>metadata.
     bindr (updated (uc_provenance input) (\<lambda>v. validate_json_object v ''semantic source provenance'')
              (sc_provenance source)) (\<lambda>provenance.
     bindr (updated (uc_freshness input) (\<lambda>v. validate_json_object v ''semantic source freshness'')
              (sc_freshness source)) (\<lambda>freshness.
     bindr (updated (uc_status input) normalize_semantic_source_status (sc_status source)) (\<lambda>status.
     Inr (source\<lparr>sc_display_name := display_name, sc_owner_type := owner_type, sc_owner_id := owner_id,
       sc_metadata := metadata, sc_provenance := provenance, sc_freshness := freshness, sc_status := status,
       sc_last_ingested_at := unwrap_or (uc_last_ingested_at input) (sc_last_ingested_at source)\<rparr>)))))))"

definition update_semantic_source :: "sys \<Rightarrow> uuid \<Rightarrow> update_semantic_source \<Rightarrow> semantic_source eff" where
  "update_semantic_source S i input =
     bindS (get_semantic_source i) (\<lambda>source.
     bindS (liftS (changed_semantic_source input source)) (\<lambda>source.
     bindS (now_utc S) (\<lambda>now. insert_semantic_source (source\<lparr>sc_updated_at := now\<rparr>))))"

definition archive_semantic_source :: "sys \<Rightarrow> uuid \<Rightarrow> semantic_source eff" where
  "archive_semantic_source S i =
     bindS (get_semantic_source i) (\<lambda>source. bindS (now_utc S) (\<lambda>now.
       insert_semantic_source
         (source\<lparr>sc_status := ''archived'', sc_updated_at := now, sc_archived_at := Some now\<rparr>)))"

section \<open>Objects\<close>

definition list_semantic_objects :: "sys \<Rightarrow> semantic_object list eff" where
  "list_semantic_objects S = asks (\<lambda>w.
     sort_key so_created_at (filter (\<lambda>ob. so_archived_at ob = None) (tvalues S w (semantic_objects w))))"

definition list_semantic_objects_for_source :: "sys \<Rightarrow> uuid \<Rightarrow> semantic_object list eff" where
  "list_semantic_objects_for_source S source_id =
     bindS (get_semantic_source source_id) (\<lambda>_. asks (\<lambda>w.
       sort_key so_created_at
         (filter (\<lambda>ob. so_source_id ob = Some source_id \<and> so_archived_at ob = None)
           (tvalues S w (semantic_objects w)))))"

definition get_semantic_object :: "uuid \<Rightarrow> semantic_object eff" where
  "get_semantic_object i = asksr (\<lambda>w.
     ok_or (not_found ''semantic object not found'')
       (opt_filter (\<lambda>ob. so_archived_at ob = None) (tget (semantic_objects w) i)))"

definition insert_semantic_object :: "semantic_object \<Rightarrow> semantic_object eff" where
  "insert_semantic_object ob w = (Inr ob, w\<lparr>semantic_objects := tput (go_id ob) ob (semantic_objects w)\<rparr>)"

definition admit_semantic_object :: "semantic_object \<Rightarrow> semantic_object eff" where
  "admit_semantic_object ob w =
     (if list_ex (\<lambda>(i, existing). so_archived_at existing = None
           \<and> eq_ignore_ascii_case (go_object_key existing) (go_object_key ob)) (semantic_objects w)
      then (Inl (bad_request (''semantic object already exists: '' @ go_object_key ob)), w)
      else insert_semantic_object ob w)"

definition source_uri_of_object :: "create_semantic_object \<Rightarrow> string option eff" where
  "source_uri_of_object input =
     (case (no_source_id input, no_source_uri input) of
        (Some source_id, maybe_uri) \<Rightarrow>
          bindS (get_semantic_source source_id) (\<lambda>source.
            retS (Some (unwrap_or (Option.bind maybe_uri normalize_optional_text) (sc_source_uri source))))
      | (None, Some uri) \<Rightarrow>
          liftS (bindr (normalize_required_text uri ''semantic object source_uri'') (\<lambda>uri. Inr (Some uri)))
      | (None, None) \<Rightarrow> failS (bad_request ''semantic object requires source_id or source_uri''))"

definition prepare_semantic_object :: "sys \<Rightarrow> create_semantic_object \<Rightarrow> semantic_object eff" where
  "prepare_semantic_object S input =
     bindS (source_uri_of_object input) (\<lambda>source_uri.
     bindS (now_utc S) (\<lambda>now. bindS (new_v4 S) (\<lambda>i. liftS (
       bindr (normalize_semantic_object_type (no_object_type input)) (\<lambda>object_type.
       bindr (normalize_required_text (no_object_key input) ''semantic object_key'') (\<lambda>object_key.
       bindr (normalize_required_text (no_title input) ''semantic title'') (\<lambda>title.
       bindr (normalize_required_text (no_summary input) ''semantic summary'') (\<lambda>summary.
       bindr (validate_json_object (no_content input) ''semantic object content'') (\<lambda>content.
       bindr (validate_json_object (no_semantic_scopes input) ''semantic object semantic_scopes'') (\<lambda>semantic_scopes.
       bindr (validate_json_object (no_provenance input) ''semantic object provenance'') (\<lambda>provenance.
       bindr (normalize_semantic_trust_level (no_trust_level input)) (\<lambda>trust_level.
       bindr (normalize_semantic_freshness (no_freshness input)) (\<lambda>freshness.
       bindr (normalize_semantic_record_status (no_status input)) (\<lambda>status.
       Inr \<lparr>go_id = i, go_object_type = object_type, go_object_key = object_key, go_title = title,
            go_trust_level = trust_level, go_freshness = freshness, so_source_id = no_source_id input,
            so_summary = summary, so_content = content, so_semantic_scopes = semantic_scopes,
            so_source_uri = source_uri, so_provenance = provenance, so_status = status,
            so_created_at = now, so_updated_at = now, so_archived_at = None\<rparr>))))))))))))))"

definition create_semantic_object :: "sys \<Rightarrow> create_semantic_object \<Rightarrow> semantic_object eff" where
  "create_semantic_object S input = bindS (prepare_semantic_object S input) admit_semantic_object"

definition changed_semantic_object :: "update_semantic_object \<Rightarrow> semantic_object \<Rightarrow> semantic_object res" where
  "changed_semantic_object input ob =
     bindr (updated (uo_title input) (\<lambda>t. normalize_required_text t ''semantic title'') (go_title ob)) (\<lambda>title.
     bindr (updated (uo_summary input) (\<lambda>t. normalize_required_text t ''semantic summary'') (so_summary ob)) (\<lambda>summary.
     bindr (updated (uo_content input) (\<lambda>v. validate_json_object v ''semantic object content'')
              (so_content ob)) (\<lambda>content.
     bindr (updated (uo_semantic_scopes input) (\<lambda>v. validate_json_object v ''semantic object semantic_scopes'')
              (so_semantic_scopes ob)) (\<lambda>semantic_scopes.
     bindr (updated (uo_source_uri input) (\<lambda>uri. transposer
              (map_option (\<lambda>t. normalize_required_text t ''semantic object source_uri'') uri))
              (so_source_uri ob)) (\<lambda>source_uri.
     bindr (updated (uo_provenance input) (\<lambda>v. validate_json_object v ''semantic object provenance'')
              (so_provenance ob)) (\<lambda>provenance.
     bindr (updated (uo_trust_level input) normalize_semantic_trust_level (go_trust_level ob)) (\<lambda>trust_level.
     bindr (updated (uo_freshness input) normalize_semantic_freshness (go_freshness ob)) (\<lambda>freshness.
     bindr (updated (uo_status input) normalize_semantic_record_status (so_status ob)) (\<lambda>status.
     Inr (ob\<lparr>go_title := title, so_summary := summary, so_content := content,
       so_semantic_scopes := semantic_scopes, so_source_uri := source_uri, so_provenance := provenance,
       go_trust_level := trust_level, go_freshness := freshness, so_status := status\<rparr>))))))))))"

definition update_semantic_object :: "sys \<Rightarrow> uuid \<Rightarrow> update_semantic_object \<Rightarrow> semantic_object eff" where
  "update_semantic_object S i input =
     bindS (get_semantic_object i) (\<lambda>ob.
     bindS (liftS (changed_semantic_object input ob)) (\<lambda>ob.
     bindS (now_utc S) (\<lambda>now. insert_semantic_object (ob\<lparr>so_updated_at := now\<rparr>))))"

definition archive_semantic_object :: "sys \<Rightarrow> uuid \<Rightarrow> semantic_object eff" where
  "archive_semantic_object S i =
     bindS (get_semantic_object i) (\<lambda>ob. bindS (now_utc S) (\<lambda>now.
       insert_semantic_object
         (ob\<lparr>so_status := ''archived'', so_updated_at := now, so_archived_at := Some now\<rparr>)))"

section \<open>Links\<close>

definition list_semantic_links :: "sys \<Rightarrow> semantic_link list eff" where
  "list_semantic_links S = asks (\<lambda>w.
     sort_key sl_created_at (filter (\<lambda>l. sl_archived_at l = None) (tvalues S w (semantic_links w))))"

definition get_semantic_link :: "uuid \<Rightarrow> semantic_link eff" where
  "get_semantic_link i = asksr (\<lambda>w.
     ok_or (not_found ''semantic link not found'')
       (opt_filter (\<lambda>l. sl_archived_at l = None) (tget (semantic_links w) i)))"

definition insert_semantic_link :: "semantic_link \<Rightarrow> semantic_link eff" where
  "insert_semantic_link l w = (Inr l, w\<lparr>semantic_links := tput (sl_id l) l (semantic_links w)\<rparr>)"

text \<open>Two links of the same relation between the same entities.\<close>

definition same_link :: "semantic_link \<Rightarrow> semantic_link \<Rightarrow> bool" where
  "same_link l l' \<longleftrightarrow>
     eq_ignore_ascii_case (sl_from_entity_type l) (sl_from_entity_type l')
     \<and> sl_from_entity_id l = sl_from_entity_id l'
     \<and> eq_ignore_ascii_case (sl_relation_type l) (sl_relation_type l')
     \<and> eq_ignore_ascii_case (sl_to_entity_type l) (sl_to_entity_type l')
     \<and> sl_to_entity_id l = sl_to_entity_id l'"

definition admit_semantic_link :: "semantic_link \<Rightarrow> semantic_link eff" where
  "admit_semantic_link l w =
     (if list_ex (\<lambda>(i, existing). sl_archived_at existing = None \<and> same_link existing l) (semantic_links w)
      then (Inl (bad_request ''semantic link already exists''), w)
      else insert_semantic_link l w)"

definition create_semantic_link :: "sys \<Rightarrow> create_semantic_link \<Rightarrow> semantic_link eff" where
  "create_semantic_link S input =
     bindS (now_utc S) (\<lambda>now. bindS (new_v4 S) (\<lambda>i.
     bindS (liftS (
       bindr (normalize_semantic_entity_type (nl_from_entity_type input)) (\<lambda>from_type.
       bindr (normalize_required_text (nl_from_entity_id input) ''from_entity_id'') (\<lambda>from_id.
       bindr (normalize_semantic_relation_type (nl_relation_type input)) (\<lambda>relation_type.
       bindr (normalize_semantic_entity_type (nl_to_entity_type input)) (\<lambda>to_type.
       bindr (normalize_required_text (nl_to_entity_id input) ''to_entity_id'') (\<lambda>to_id.
       bindr (validate_json_object (nl_metadata input) ''semantic link metadata'') (\<lambda>metadata.
       bindr (validate_json_object (nl_provenance input) ''semantic link provenance'') (\<lambda>provenance.
       bindr (validate_semantic_confidence (nl_confidence input)) (\<lambda>confidence.
       bindr (normalize_semantic_record_status (nl_status input)) (\<lambda>status.
       Inr \<lparr>sl_id = i, sl_from_entity_type = from_type, sl_from_entity_id = from_id,
            sl_relation_type = relation_type, sl_to_entity_type = to_type, sl_to_entity_id = to_id,
            sl_metadata = metadata, sl_provenance = provenance, sl_confidence = confidence,
            sl_status = status, sl_created_at = now, sl_updated_at = now, sl_archived_at = None\<rparr>)))))))))))
       admit_semantic_link))"

definition changed_semantic_link :: "update_semantic_link \<Rightarrow> semantic_link \<Rightarrow> semantic_link res" where
  "changed_semantic_link input l =
     bindr (updated (ul_metadata input) (\<lambda>v. validate_json_object v ''semantic link metadata'') (sl_metadata l)) (\<lambda>metadata.
     bindr (updated (ul_provenance input) (\<lambda>v. validate_json_object v ''semantic link provenance'')
              (sl_provenance l)) (\<lambda>provenance.
     bindr (updated (ul_confidence input) validate_semantic_confidence (sl_confidence l)) (\<lambda>confidence.
     bindr (updated (ul_status input) normalize_semantic_record_status (sl_status l)) (\<lambda>status.
     Inr (l\<lparr>sl_metadata := metadata, sl_provenance := provenance, sl_confidence := confidence,
       sl_status := status\<rparr>)))))"

definition update_semantic_link :: "sys \<Rightarrow> uuid \<Rightarrow> update_semantic_link \<Rightarrow> semantic_link eff" where
  "update_semantic_link S i input =
     bindS (get_semantic_link i) (\<lambda>l.
     bindS (liftS (changed_semantic_link input l)) (\<lambda>l.
     bindS (now_utc S) (\<lambda>now. insert_semantic_link (l\<lparr>sl_updated_at := now\<rparr>))))"

definition archive_semantic_link :: "sys \<Rightarrow> uuid \<Rightarrow> semantic_link eff" where
  "archive_semantic_link S i =
     bindS (get_semantic_link i) (\<lambda>l. bindS (now_utc S) (\<lambda>now.
       insert_semantic_link (l\<lparr>sl_status := ''archived'', sl_updated_at := now, sl_archived_at := Some now\<rparr>)))"

section \<open>Context packets (store_context_packets.rs)\<close>

definition packets_of_session :: "sys \<Rightarrow> world \<Rightarrow> uuid \<Rightarrow> context_packet list" where
  "packets_of_session S w session_id =
     filter (\<lambda>p. cp_session_id p = session_id) (tvalues S w (context_packets w))"

text \<open>
  The numbers of packets are \<open>i64\<close>; a session would need \<open>2 ^ 63\<close> packets for the addition to overflow.
\<close>

definition next_context_packet_version :: "sys \<Rightarrow> uuid \<Rightarrow> int eff" where
  "next_context_packet_version S session_id = asks (\<lambda>w.
     (let versions = map cp_version (packets_of_session S w session_id)
      in (if versions = [] then 0 else Max (set versions)) + 1))"

definition create_context_packet :: "context_packet \<Rightarrow> context_packet eff" where
  "create_context_packet packet w =
     (Inr packet, w\<lparr>context_packets := tput (cp_id packet) packet (context_packets w)\<rparr>)"

definition update_context_packet_audit_trace :: "uuid \<Rightarrow> uuid \<Rightarrow> context_packet eff" where
  "update_context_packet_audit_trace i audit_trace_id w =
     (case tget (context_packets w) i of
        None \<Rightarrow> (Inl (not_found ''context packet not found''), w)
      | Some packet \<Rightarrow>
          (let packet' = packet\<lparr>cp_audit_trace_id := Some audit_trace_id\<rparr>
           in (Inr packet', w\<lparr>context_packets := tput i packet' (context_packets w)\<rparr>)))"

definition list_context_packets :: "sys \<Rightarrow> uuid \<Rightarrow> context_packet list eff" where
  "list_context_packets S session_id = asks (\<lambda>w. sort_key cp_version (packets_of_session S w session_id))"

definition get_context_packet :: "uuid \<Rightarrow> context_packet eff" where
  "get_context_packet i = asksr (\<lambda>w.
     ok_or (not_found ''context packet not found'') (tget (context_packets w) i))"

end
