(* ===== verification/Semantic_Gate.thy ===== *)
theory Semantic_Gate
  imports Approvals Semantic_Store
begin

text \<open>
  What is asked before a tool runs, beyond the grant of the session: the policy in force for the
  session (policy_runtime.rs) and the semantic context gate (context_packet_runtime.rs), which looks
  at the objects a high-risk call relies on.

  A parameter are the executors of the registered tools.
\<close>

section \<open>The policy in force (policy_runtime.rs, types/policy.rs)\<close>

record staged_policy_runtime =
  sg_revision_id :: uuid
  sg_rollout_percent :: nat
  sg_policy :: policy_config

record policy_runtime =
  pl_active_revision_id :: "uuid option"
  pl_active :: policy_config
  pl_staged :: "staged_policy_runtime option"

record policy_runtime_status =
  rs_active_revision_id :: "uuid option"
  rs_staged_revision_id :: "uuid option"
  rs_staged_rollout_percent :: "nat option"
  rs_rollout_active :: bool

definition runtime_policy :: "policy_config \<Rightarrow> policy_runtime" where
  "runtime_policy policy = \<lparr>pl_active_revision_id = None, pl_active = policy, pl_staged = None\<rparr>"

definition session_rollout_bucket :: "uuid \<Rightarrow> nat" where
  "session_rollout_bucket session_id = session_id mod 100"

definition policy_for_session :: "policy_runtime \<Rightarrow> uuid \<Rightarrow> policy_config" where
  "policy_for_session runtime session_id =
     (case pl_staged runtime of
        Some staged \<Rightarrow>
          if session_rollout_bucket session_id < sg_rollout_percent staged then sg_policy staged
          else pl_active runtime
      | None \<Rightarrow> pl_active runtime)"

definition activate_runtime_policy :: "uuid \<Rightarrow> policy_config \<Rightarrow> nat \<Rightarrow> policy_runtime \<Rightarrow> policy_runtime" where
  "activate_runtime_policy revision_id policy rollout_percent runtime =
     (if rollout_percent \<ge> 100
      then runtime\<lparr>pl_active_revision_id := Some revision_id, pl_active := policy, pl_staged := None\<rparr>
      else runtime\<lparr>pl_staged := Some \<lparr>sg_revision_id = revision_id, sg_rollout_percent = rollout_percent,
             sg_policy = policy\<rparr>\<rparr>)"

definition policy_runtime_status_of :: "policy_runtime \<Rightarrow> policy_runtime_status" where
  "policy_runtime_status_of runtime =
     \<lparr>rs_active_revision_id = pl_active_revision_id runtime,
      rs_staged_revision_id = map_option sg_revision_id (pl_staged runtime),
      rs_staged_rollout_percent = map_option sg_rollout_percent (pl_staged runtime),
      rs_rollout_active = (pl_staged runtime \<noteq> None)\<rparr>"

definition cancel_staged_policy_rollout
    :: "policy_runtime \<Rightarrow> policy_runtime_status res \<times> policy_runtime" where
  "cancel_staged_policy_rollout runtime =
     (let runtime' = runtime\<lparr>pl_staged := None\<rparr>
      in if pl_staged runtime = None
         then (Inl (bad_request ''no staged policy rollout is active''), runtime')
         else (Inr \<lparr>rs_active_revision_id = pl_active_revision_id runtime, rs_staged_revision_id = None,
                    rs_staged_rollout_percent = None, rs_rollout_active = False\<rparr>, runtime'))"

text \<open>The configuration is read from the body of a revision by \<open>from_body\<close> (serde).\<close>

definition rollback_runtime_policy
    :: "(json \<Rightarrow> string + policy_config) \<Rightarrow> uuid \<Rightarrow> json \<Rightarrow> policy_runtime \<Rightarrow> unit res \<times> policy_runtime" where
  "rollback_runtime_policy from_body revision_id body runtime =
     (case from_body body of
        Inl error \<Rightarrow> (Inl (bad_request (''invalid rollback policy: '' @ error)), runtime)
      | Inr policy \<Rightarrow>
          (Inr (), runtime\<lparr>pl_active_revision_id := Some revision_id, pl_active := policy, pl_staged := None\<rparr>))"

section \<open>The semantic context gate (context_packet_runtime.rs)\<close>

record tool_peers =
  executor :: "string \<Rightarrow> execute_tool \<Rightarrow> tool_call \<Rightarrow> json eff"

fun contains_text :: "string \<Rightarrow> string \<Rightarrow> bool" where
  "contains_text needle [] \<longleftrightarrow> needle = []"
| "contains_text needle (c # cs) \<longleftrightarrow>
     take (length needle) (c # cs) = needle \<or> contains_text needle cs"

definition semantic_ref_key_hint :: "string option \<Rightarrow> bool" where
  "semantic_ref_key_hint key_hint =
     (case key_hint of
        None \<Rightarrow> False
      | Some key \<Rightarrow>
          (let k = to_ascii_lowercase (trim key)
           in contains_text ''semantic_object'' k
              \<or> k \<in> {''object_id'', ''object_ids'', ''semantic_ref'', ''semantic_refs''}))"

fun collect_semantic_object_ref_ids :: "ext \<Rightarrow> string option \<Rightarrow> json \<Rightarrow> uuid list" where
  "collect_semantic_object_ref_ids X hint (JStr raw) =
     (if semantic_ref_key_hint hint
      then (case parse_uuid X raw of Some i \<Rightarrow> [i] | None \<Rightarrow> []) else [])"
| "collect_semantic_object_ref_ids X hint (JArr vs) =
     concat (map (collect_semantic_object_ref_ids X hint) vs)"
| "collect_semantic_object_ref_ids X hint (JObj m) =
     concat (map (\<lambda>(key, v). collect_semantic_object_ref_ids X (Some key) v) m)"
| "collect_semantic_object_ref_ids X hint _ = []"

text \<open>A \<open>BTreeSet\<close>: in order, each once.\<close>

definition semantic_object_ref_ids_from_tool_args :: "ext \<Rightarrow> json \<Rightarrow> uuid list" where
  "semantic_object_ref_ids_from_tool_args X args =
     remdups_adj (sort (collect_semantic_object_ref_ids X None args))"

definition semantic_object_matches_scope :: "semantic_object \<Rightarrow> json \<Rightarrow> bool" where
  "semantic_object_matches_scope ob semantic_scopes =
     (case (as_object (so_semantic_scopes ob), as_object semantic_scopes) of
        (Some object_scopes, Some agent_scopes) \<Rightarrow>
          (let relevant = filter (\<lambda>(key, s). s \<noteq> [])
                 (filter_map (\<lambda>(key, v). map_option (\<lambda>s. (key, trim s)) (as_str v)) object_scopes)
           in list_all (\<lambda>(key, s).
                  is_some_and (Option.bind (map_of agent_scopes key) as_str) (\<lambda>a. trim a = s)) relevant
              \<and> relevant \<noteq> [])
      | _ \<Rightarrow> False)"

definition semantic_object_matches_agent_scope :: "semantic_object \<Rightarrow> agent \<Rightarrow> bool" where
  "semantic_object_matches_agent_scope ob agent = semantic_object_matches_scope ob (ag_semantic_scopes agent)"

definition semantic_context_gate_blocker :: "ext \<Rightarrow> 'a gate_object_scheme \<Rightarrow> json option" where
  "semantic_context_gate_blocker X ob =
     (let stale = (go_freshness ob \<noteq> ''current''); untrusted = (go_trust_level ob = ''unverified'')
      in if stale \<or> untrusted
         then Some (mk_obj
           [(''id'', jid X (go_id ob)), (''object_type'', JStr (go_object_type ob)),
            (''object_key'', JStr (go_object_key ob)), (''title'', JStr (go_title ob)),
            (''trust_level'', JStr (go_trust_level ob)), (''freshness'', JStr (go_freshness ob)),
            (''reasons'', json_strs ((if stale then [''freshness_not_current''] else [])
                @ (if untrusted then [''trust_unverified''] else [])))])
         else None)"

definition gate_report :: "(string \<times> json) list \<Rightarrow> string \<Rightarrow> nat \<Rightarrow> nat \<Rightarrow> json list \<Rightarrow> json" where
  "gate_report place risk_level referenced evaluated blockers =
     mk_obj ([(''status'', JStr (if blockers = [] then ''passed'' else ''blocked'')),
              (''risk_level'', JStr risk_level), (''referenced_object_count'', json_nat referenced),
              (''evaluated_object_count'', json_nat evaluated),
              (''blocked_object_count'', json_nat (length blockers)),
              (''required_freshness'', JStr ''current''), (''blocked_trust_levels'', json_strs [''unverified'']),
              (''blockers'', JArr blockers)] @ place)"

text \<open>
  The objects of the packet a call names, or all of them if it names none. Of two entries with one
  identifier the map keeps the last.
\<close>

definition packet_gate :: "ext \<Rightarrow> context_packet \<Rightarrow> uuid list \<Rightarrow> string \<Rightarrow> json" where
  "packet_gate X packet referenced risk_level =
     (let found = (\<lambda>i. find_first (\<lambda>ob. go_id ob = i) (rev (cp_retrieved_objects packet)));
          outside = filter_map (\<lambda>i. if found i = None
              then Some (mk_obj [(''id'', jid X i), (''reasons'', json_strs [''outside_context_packet''])])
              else None) referenced;
          evaluated = (if referenced = [] then cp_retrieved_objects packet else filter_map found referenced)
      in gate_report
           [(''boundary'', JStr ''task_grant_context_packet''), (''context_packet_id'', jid X (cp_id packet)),
            (''context_packet_version'', JInt (cp_version packet))]
           risk_level (length referenced) (length evaluated)
           (outside @ filter_map (semantic_context_gate_blocker X) evaluated))"

definition evaluate_semantic_context_gate
    :: "sys \<Rightarrow> agent \<Rightarrow> task_grant option \<Rightarrow> execute_tool \<Rightarrow> string \<Rightarrow> string \<Rightarrow> json option eff" where
  "evaluate_semantic_context_gate S agent grant input risk_level verdict =
     (if risk_level \<noteq> ''high'' \<or> verdict = ''denied'' then retS None
      else let X = lib S; referenced = semantic_object_ref_ids_from_tool_args X (xt_args input) in
      case grant of
        Some g \<Rightarrow>
          (case tg_context_packet_id g of
             None \<Rightarrow> retS (Some (gate_report
               [(''boundary'', JStr ''task_grant_context_packet''), (''task_grant_id'', jid X (tg_id g)),
                (''context_packet_id'', JNull)] risk_level (length referenced) 0
               [mk_obj [(''id'', jid X (tg_id g)), (''reasons'', json_strs [''missing_context_packet''])]]))
           | Some packet_id \<Rightarrow>
               bindS (get_context_packet packet_id) (\<lambda>packet.
                 retS (Some (packet_gate X packet referenced risk_level))))
      | None \<Rightarrow>
          bindS (list_semantic_objects S) (\<lambda>objects.
          let evaluated = filter (\<lambda>ob. so_status ob = ''active''
                \<and> semantic_object_matches_agent_scope ob agent) objects
          in retS (Some (gate_report [(''boundary'', JStr ''agent_semantic_scope'')] risk_level
               (length referenced) (length evaluated)
               (filter_map (semantic_context_gate_blocker X) evaluated)))))"

definition gate_blocks :: "json option \<Rightarrow> bool" where
  "gate_blocks gate \<longleftrightarrow> Option.bind gate (\<lambda>g. jget_str g ''status'') = Some ''blocked''"

definition semantic_context_gate_block_reason :: "json \<Rightarrow> string" where
  "semantic_context_gate_block_reason gate =
     ''high-risk tool blocked by semantic context gate: ''
     @ show_int (unwrap_or (Option.bind (jget gate ''blocked_object_count'') as_u64) 0)
     @ '' stale or untrusted semantic object(s)''"

end
