(* ===== verification/Tool_Invocation.thy ===== *)
theory Tool_Invocation
  imports Semantic_Gate
begin

text \<open>
  The invocation of a tool (context_packet_runtime.rs, store_tool_calls.rs): the session's grant is
  checked, the policy decides, the semantic gate is asked, the call is recorded and counted on the
  grant and its ancestors in one step, and then it is refused, waits for an approval, or is executed
  and its result recorded.
\<close>

section \<open>Tool calls in the store (store_tool_calls.rs, memory backend)\<close>

definition validate_memory_task_grant_workflow :: "world \<Rightarrow> task_grant \<Rightarrow> unit res" where
  "validate_memory_task_grant_workflow w grant =
     bindr (ok_or (not_found ''workflow run not found'')
              (tget (workflow_runs w) (tg_workflow_run_id grant))) (\<lambda>run.
     case workflow_run_execution_denial (wr_status run) of
       Some message \<Rightarrow> Inl (forbidden message)
     | None \<Rightarrow>
         (case tg_workflow_step_run_id grant of
            None \<Rightarrow> Inr ()
          | Some step_id \<Rightarrow>
              bindr (ok_or (not_found ''workflow step run not found'') (tget (workflow_step_runs w) step_id)) (\<lambda>step.
              if sr_workflow_run_id step \<noteq> tg_workflow_run_id grant
              then Inl (bad_request ''task grant workflow step does not belong to its workflow run'')
              else if workflow_step_status_terminal (sr_status step)
              then Inl (forbidden ''workflow step run is terminal'')
              else Inr ())))"

definition invocation_event
    :: "sys \<Rightarrow> uuid \<Rightarrow> tool_call \<Rightarrow> string \<Rightarrow> uuid option \<Rightarrow> string \<Rightarrow> json \<Rightarrow> session_event eff" where
  "invocation_event S i call actor_type actor_id event_type payload =
     bindS (now_utc S) (\<lambda>now. retS
       \<lparr>ev_id = i, ev_session_id = tc_session_id call, ev_seq = 0, ev_parent_event_id = None,
        ev_actor_type = actor_type, ev_actor_id = actor_id, ev_event_type = event_type,
        ev_payload = payload, ev_created_at = now\<rparr>)"

definition tool_invocation_records
    :: "sys \<Rightarrow> tool_call \<Rightarrow> task_grant option \<Rightarrow> uuid \<Rightarrow> int \<Rightarrow> (session_event list \<times> audit_log option) eff" where
  "tool_invocation_records S call grant agent_version_id agent_version =
     (let X = lib S;
          used = [(''tool'', JStr (tc_tool_name call)), (''args'', tc_args call),
                  (''agent_version_id'', jid X agent_version_id), (''agent_version'', JInt agent_version)] in
      bindS (liftS (ok_or (bad_request ''tool call requires a call event id'') (tc_event_id call)))
        (\<lambda>call_event_id.
      bindS (case grant of
          None \<Rightarrow> retS ([], None)
        | Some g \<Rightarrow>
            let details = mk_obj
                  [(''task_grant_id'', jid X (tg_id g)), (''workflow_run_id'', jid X (tg_workflow_run_id g)),
                   (''tool'', JStr (tc_tool_name call)), (''status'', JStr ''allowed''),
                   (''turns_used'', JInt (tg_turns_used g)), (''tool_calls_used'', JInt (tg_tool_calls_used g)),
                   (''cost_usd_micros_used'', JInt (tg_cost_usd_micros_used g))] in
            bindS (new_v4 S) (\<lambda>i.
            bindS (invocation_event S i call ''system'' (Some (tg_id g)) ''task_grant.checked'' details) (\<lambda>e.
            bindS (new_audit_log S (Some (tc_session_id call)) ''system'' (Some (tg_id g))
                     ''task_grant.checked'' ''task_grant'' (Some (tg_id g)) details) (\<lambda>a.
              retS ([e], Some a))))) (\<lambda>(checked, trail).
      bindS (invocation_event S call_event_id call ''tool'' None ''tool.call'' (mk_obj used)) (\<lambda>e1.
      bindS (new_v4 S) (\<lambda>i.
      bindS (invocation_event S i call ''agent'' (Some call_event_id) ''agent.tool_use''
               (mk_obj ((''event_id'', jid X call_event_id) # used))) (\<lambda>e2.
        retS (checked @ [e1, e2], trail)))))))"

definition tool_invocation_result_records
    :: "sys \<Rightarrow> tool_call \<Rightarrow> string \<Rightarrow> json \<Rightarrow> string \<Rightarrow> (session_event list \<times> audit_log) eff" where
  "tool_invocation_result_records S call status result origin =
     (let X = lib S; waiting = (status = ''waiting_approval'') in
      bindS (new_v4 S) (\<lambda>i.
      bindS (invocation_event S i call (if waiting then ''system'' else ''tool'') (Some (tc_id call))
               (if waiting then ''policy.requires_approval'' else ''tool.result'')
               (mk_obj [(''tool_call_id'', jid X (tc_id call)), (''tool'', JStr (tc_tool_name call)),
                        (''origin'', JStr origin), (''content'', result)])) (\<lambda>e1.
      bindS (new_v4 S) (\<lambda>j.
      bindS (invocation_event S j call ''agent'' (Some (tc_id call)) ''agent.tool_result''
               (mk_obj [(''tool_call_id'', jid X (tc_id call)), (''tool'', JStr (tc_tool_name call)),
                        (''status'', JStr status), (''content'', result)])) (\<lambda>e2.
      bindS (new_audit_log S (Some (tc_session_id call)) ''tool'' (Some (tc_id call))
               (if waiting then ''tool.waiting_approval'' else ''tool.completed'') ''tool_call'' (Some (tc_id call))
               (mk_obj [(''tool'', JStr (tc_tool_name call)), (''risk_level'', JStr (tc_risk_level call)),
                        (''status'', JStr status)])) (\<lambda>a.
        retS ([e1, e2], a)))))))"

text \<open>Events appended to the log of a session, numbered on from its length.\<close>

fun numbered :: "int \<Rightarrow> session_event list \<Rightarrow> session_event list" where
  "numbered n [] = []"
| "numbered n (e # es) = e\<lparr>ev_seq := n\<rparr> # numbered (n + 1) es"

definition push_events :: "uuid \<Rightarrow> session_event list \<Rightarrow> session_event list eff" where
  "push_events session_id es w =
     (let persisted = session_events w session_id;
          es' = numbered (int (length persisted) + 1) es
      in (Inr es', w\<lparr>events := tput session_id (persisted @ es') (events w)\<rparr>))"

definition put_tool_call :: "tool_call \<Rightarrow> world \<Rightarrow> world" where
  "put_tool_call call w = w\<lparr>tool_calls := tput (tc_id call) call (tool_calls w)\<rparr>"

definition put_audit :: "audit_log \<Rightarrow> world \<Rightarrow> world" where
  "put_audit entry w = w\<lparr>audit_logs := tput (al_id entry) entry (audit_logs w)\<rparr>"

text \<open>One grant of the lineage: may it be charged with one more call.\<close>

definition tool_call_admission :: "timestamp \<Rightarrow> task_grant \<Rightarrow> unit eff" where
  "tool_call_admission now grant =
     (case task_grant_tool_call_reservation_denial grant now of
        Some (message, lapsed) \<Rightarrow>
          thenS (whenS lapsed (modifyS (expire_grant now (tg_id grant)))) (failS (forbidden message))
      | None \<Rightarrow>
          asksr (\<lambda>w. bindr (validate_memory_task_grant_workflow w grant) (\<lambda>_.
            guardr (checked_i32 (tg_tool_calls_used grant + 1) \<noteq> None)
              (bad_request ''task grant tool call counter overflow''))))"

definition charge_tool_call :: "timestamp \<Rightarrow> task_grant \<Rightarrow> unit eff" where
  "charge_tool_call now grant w =
     (case tget (task_grants w) (tg_id grant) of
        None \<Rightarrow> (Inl (internal_error ''panic: validated task grant lineage''), w)
      | Some stored \<Rightarrow>
          (Inr (), w\<lparr>task_grants := tput (tg_id grant)
             (stored\<lparr>tg_tool_calls_used := tg_tool_calls_used stored + 1, tg_updated_at := now\<rparr>)
             (task_grants w)\<rparr>))"

definition reserve_invocation :: "sys \<Rightarrow> uuid option \<Rightarrow> task_grant option eff" where
  "reserve_invocation S grant_id =
     (case grant_id of
        None \<Rightarrow> retS None
      | Some i \<Rightarrow>
          bindS (now_utc S) (\<lambda>now.
          bindS (task_grant_lineage i) (\<lambda>lineage.
          thenS (foreachS (tool_call_admission now) lineage)
          (thenS (foreachS (charge_tool_call now) lineage)
             (asksr (\<lambda>w. map_sum id Some
               (ok_or (internal_error ''panic: reserved task grant'') (tget (task_grants w) i))))))))"

definition commit_tool_invocation_start
    :: "sys \<Rightarrow> tool_call \<Rightarrow> uuid \<Rightarrow> int \<Rightarrow> (tool_call \<times> task_grant option) eff" where
  "commit_tool_invocation_start S call agent_version_id agent_version =
     bindS (get_session (tc_session_id call)) (\<lambda>session.
     if session_terminal (se_status session)
     then failS (bad_request ''terminal session cannot accept new tool calls'')
     else bindS (reserve_invocation S (tc_task_grant_id call)) (\<lambda>grant.
     bindS (tool_invocation_records S call grant agent_version_id agent_version) (\<lambda>(es, trail).
     bindS (push_events (tc_session_id call) es) (\<lambda>_.
     thenS (modifyS (put_tool_call call))
     (thenS (case trail of Some entry \<Rightarrow> modifyS (put_audit entry) | None \<Rightarrow> retS ())
       (retS (call, grant)))))))"

definition commit_tool_invocation_result
    :: "sys \<Rightarrow> uuid \<Rightarrow> string \<Rightarrow> json \<Rightarrow> string \<Rightarrow> session_event eff" where
  "commit_tool_invocation_result S i status result origin =
     (if status \<notin> {''completed'', ''waiting_approval''}
      then failS (bad_request ''tool invocation result status must be completed or waiting_approval'')
      else bindS (get_tool_call i) (\<lambda>call.
      if tc_status call \<noteq> ''running''
      then failS (bad_request ''only running tool calls can commit an invocation result'')
      else bindS (now_utc S) (\<lambda>now.
      let call' = call\<lparr>tc_status := status, tc_result := Some result, tc_error := None,
                       tc_completed_at := Some now\<rparr> in
      bindS (tool_invocation_result_records S call' status result origin) (\<lambda>(es, entry).
      bindS (push_events (tc_session_id call') es) (\<lambda>es'.
      thenS (modifyS (put_tool_call call'))
      (thenS (modifyS (put_audit entry))
        (retS (hd es'))))))))"

definition insert_tool_call :: "tool_call \<Rightarrow> tool_call eff" where
  "insert_tool_call call =
     bindS (get_session (tc_session_id call)) (\<lambda>session.
     if session_terminal (se_status session)
     then failS (bad_request ''terminal session cannot accept new tool calls'')
     else thenS (modifyS (put_tool_call call)) (retS call))"

definition update_tool_call_status
    :: "sys \<Rightarrow> uuid \<Rightarrow> string \<Rightarrow> json option \<Rightarrow> json option \<Rightarrow> tool_call eff" where
  "update_tool_call_status S i status result error =
     bindS (get_tool_call i) (\<lambda>call. bindS (now_utc S) (\<lambda>now w.
     let call' = call\<lparr>tc_status := status, tc_completed_at := Some now, tc_result := result, tc_error := error\<rparr>
     in (Inr call', w\<lparr>tool_calls := tput i call' (tool_calls w)\<rparr>)))"

definition update_tool_call_args :: "uuid \<Rightarrow> json \<Rightarrow> tool_call eff" where
  "update_tool_call_args i args =
     bindS (get_tool_call i) (\<lambda>current.
     thenS (if tc_tool_name current = ''ontology.action.execute''
            then bindS (liftS (ontology_action_name_from_args (tc_args current))) (\<lambda>old.
                 bindS (liftS (ontology_action_name_from_args args)) (\<lambda>new.
                 guardS (old = new)
                   (forbidden ''ontology action identity cannot be changed after approval is requested'')))
            else retS ())
     (bindS (get_tool_call i) (\<lambda>call.
      if tc_status call \<noteq> ''waiting_approval''
      then failS (bad_request ''only waiting approval tool calls can be modified'')
      else let call' = call\<lparr>tc_args := args\<rparr>
           in (\<lambda>w. (Inr call', w\<lparr>tool_calls := tput i call' (tool_calls w)\<rparr>)))))"

definition list_tool_calls :: "sys \<Rightarrow> uuid option \<Rightarrow> tool_call list eff" where
  "list_tool_calls S session_id = asks (\<lambda>w.
     rev (sort_key tc_created_at
       (filter (\<lambda>call. is_none_or session_id (\<lambda>i. tc_session_id call = i)) (tvalues S w (tool_calls w)))))"

section \<open>The version a session runs (store_entities.rs)\<close>

definition agent_version_for_session :: "sys \<Rightarrow> uuid \<Rightarrow> agent_version eff" where
  "agent_version_for_session S session_id =
     bindS (get_session session_id) (\<lambda>session. asksr (\<lambda>w.
     ok_or (not_found ''agent version not found'')
       (case se_agent_version_id session of
          Some i \<Rightarrow> find_first (\<lambda>version. av_id version = i) (concat (tvalues S w (agent_versions w)))
        | None \<Rightarrow> Option.bind (tget (agent_versions w) (se_agent_id session)) max_version)))"

section \<open>The invocation (context_packet_runtime.rs)\<close>

datatype tool_invocation_origin = ManualRoute | SessionLoop

definition tool_registry :: "string list" where
  "tool_registry =
     [''artifact.create'', ''approval.request'', ''file.read'', ''mcp.call'', ''ontology.action.execute'',
      ''ontology_type.lookup'', ''semantic_link.expand'', ''semantic_object.fetch'', ''semantic_object.search'',
      ''shell.exec'', ''sql.get_schema'', ''sql.query'']"

definition commit_binding_json :: "approval_commit_binding \<Rightarrow> json" where
  "commit_binding_json b =
     mk_obj [(''normalized_args_hash'', JStr (cb_normalized_args_hash b)), (''target_binding'', cb_target_binding b)]"

text \<open>The decision: the policy's, raised to an approval for a call that needs a commit token.\<close>

definition invocation_decision
    :: "policy_runtime \<Rightarrow> string \<Rightarrow> execute_tool \<Rightarrow> agent_version \<Rightarrow> approval_commit_binding option
        \<Rightarrow> tool_policy_decision" where
  "invocation_decision R name input version commit_binding =
     (let verdict = evaluate_tool_for_agent_version_with_args (policy_for_session R (xt_session_id input))
            name (xt_args input) version
      in if commit_binding \<noteq> None \<and> td_decision verdict \<noteq> ''denied''
         then \<lparr>td_decision = ''requires_approval'', td_risk_level = ''critical'',
               td_reason = ''commit_write connector calls require ApprovalCommitToken exact digest binding''\<rparr>
         else verdict)"

definition new_tool_call
    :: "sys \<Rightarrow> string \<Rightarrow> execute_tool \<Rightarrow> task_grant option \<Rightarrow> agent_version \<Rightarrow> tool_policy_decision
        \<Rightarrow> approval_commit_binding option \<Rightarrow> json option \<Rightarrow> tool_call eff" where
  "new_tool_call S name input grant version verdict commit_binding gate =
     (let X = lib S; blocked = gate_blocks gate;
          runs = (td_decision verdict = ''allowed'' \<and> \<not> blocked) in
      bindS (new_v4 S) (\<lambda>i. bindS (new_v4 S) (\<lambda>event_id.
      bindS (if runs then bindS (now_utc S) (\<lambda>t. retS (Some t)) else retS None) (\<lambda>started_at.
      bindS (now_utc S) (\<lambda>now. retS
        \<lparr>tc_id = i, tc_session_id = xt_session_id input, tc_event_id = Some event_id, tc_tool_name = name,
         tc_args = xt_args input, tc_task_grant_id = map_option tg_id grant,
         tc_normalized_args_hash = map_option cb_normalized_args_hash commit_binding,
         tc_target_binding = unwrap_or (map_option cb_target_binding commit_binding) empty_json_object,
         tc_status = (if blocked then ''denied''
           else if td_decision verdict = ''allowed'' then ''running''
           else if td_decision verdict = ''requires_approval'' then ''waiting_approval''
           else ''denied''),
         tc_risk_level = td_risk_level verdict,
         tc_policy_decision = mk_obj
           ([(''decision'', JStr (td_decision verdict)), (''reason'', JStr (td_reason verdict)),
             (''agent_version_id'', jid X (av_id version)), (''agent_version'', JInt (av_version version))]
            @ (case gate of Some g \<Rightarrow> [(''semantic_context_gate'', g)] | None \<Rightarrow> [])
            @ (case commit_binding of
                 Some b \<Rightarrow> [(''approval_commit_binding'', commit_binding_json b)] | None \<Rightarrow> [])),
         tc_result = None, tc_error = None, tc_started_at = started_at, tc_completed_at = None,
         tc_created_at = now\<rparr>)))))"

text \<open>The start; a refusal by a grant is recorded before the error is returned.\<close>

definition start_invocation
    :: "sys \<Rightarrow> tool_call \<Rightarrow> agent_version \<Rightarrow> task_grant option \<Rightarrow> (tool_call \<times> task_grant option) eff" where
  "start_invocation S call version grant =
     catchS (commit_tool_invocation_start S call (av_id version) (av_version version)) (\<lambda>error.
       case grant of
         Some g \<Rightarrow>
           if take 10 (err_message error) = ''task grant''
           then thenS (record_task_grant_denied S (tc_session_id call) (Some g) (Some (tg_workflow_run_id g))
                  (tc_tool_name call) (err_message error)) (failS error)
           else failS error
       | None \<Rightarrow> failS error)"

text \<open>The event, the new status and the audit entry of a refused, failed or suspended call.\<close>

definition report_tool_call
    :: "sys \<Rightarrow> tool_call \<Rightarrow> string \<Rightarrow> string \<Rightarrow> (string \<times> json) list \<Rightarrow> string \<Rightarrow> json option \<Rightarrow> json option
        \<Rightarrow> string \<Rightarrow> (string \<times> json) list \<Rightarrow> unit eff" where
  "report_tool_call S call actor_type event_type event_entries status result error action audit_entries =
     (let X = lib S in
      bindS (append_event S actor_type (Some (tc_id call)) (tc_session_id call) event_type
        (mk_obj ([(''tool_call_id'', jid X (tc_id call)), (''tool'', JStr (tc_tool_name call))] @ event_entries))) (\<lambda>_.
      bindS (update_tool_call_status S (tc_id call) status result error) (\<lambda>_.
      audit S (Some (tc_session_id call)) actor_type (Some (tc_id call)) action ''tool_call'' (Some (tc_id call))
        (mk_obj ((''tool'', JStr (tc_tool_name call)) # audit_entries)))))"

definition refuse_by_gate :: "sys \<Rightarrow> tool_call \<Rightarrow> json \<Rightarrow> json eff" where
  "refuse_by_gate S call gate =
     (let reason = semantic_context_gate_block_reason gate;
          result = mk_obj [(''status'', JStr ''denied''), (''reason'', JStr reason), (''semantic_context_gate'', gate)] in
      thenS (report_tool_call S call ''system'' ''semantic_context.gate_failed'' [(''content'', result)]
        ''denied'' (Some result) None ''semantic_context.gate_failed''
        [(''risk_level'', JStr (tc_risk_level call)), (''status'', JStr ''denied''), (''semantic_context_gate'', gate)])
      (failS (forbidden reason)))"

definition refuse_by_policy :: "sys \<Rightarrow> tool_call \<Rightarrow> tool_policy_decision \<Rightarrow> json eff" where
  "refuse_by_policy S call verdict =
     (let result = mk_obj [(''status'', JStr ''denied''), (''reason'', JStr (td_reason verdict))] in
      thenS (report_tool_call S call ''system'' ''policy.denied'' [(''content'', result)]
        ''denied'' (Some result) None ''policy.denied''
        [(''risk_level'', JStr (td_risk_level verdict)), (''status'', JStr ''denied'')])
      (failS (forbidden (td_reason verdict))))"

definition suspend_for_approval
    :: "sys \<Rightarrow> peers \<Rightarrow> tool_call \<Rightarrow> task_grant option \<Rightarrow> tool_policy_decision
        \<Rightarrow> approval_commit_binding option \<Rightarrow> json eff" where
  "suspend_for_approval S P call grant verdict commit_binding =
     (let X = lib S; session_id = tc_session_id call in
      bindS (now_utc S) (\<lambda>created_at. bindS (new_v4 S) (\<lambda>i.
      bindS (insert_approval
        \<lparr>ap_id = i, ap_session_id = session_id, ap_tool_call_id = Some (tc_id call),
         ap_action = tc_tool_name call, ap_risk_level = td_risk_level verdict, ap_reason = td_reason verdict,
         ap_evidence = mk_obj
           [(''tool'', JStr (tc_tool_name call)), (''args'', tc_args call),
            (''task_grant_id'', jid_opt X (map_option tg_id grant)),
            (''approval_commit_binding'', json_opt commit_binding_json commit_binding)],
         ap_decision_payload = empty_json_object, ap_status = ''pending'',
         ap_expires_at = approval_expires_at created_at None, ap_created_at = created_at,
         ap_decided_at = None\<rparr>) (\<lambda>approval.
      let result = mk_obj [(''status'', JStr ''approval_required''), (''approval_id'', jid X (ap_id approval)),
                           (''reason'', JStr (td_reason verdict))] in
      thenS (report_tool_call S call ''system'' ''policy.requires_approval''
        [(''approval_id'', jid X (ap_id approval)), (''content'', result)]
        ''waiting_approval'' (Some result) None ''policy.requires_approval''
        [(''risk_level'', JStr (td_risk_level verdict)), (''status'', JStr ''waiting_approval''),
         (''approval_id'', jid X (ap_id approval))])
      (bindS (append_event S ''system'' (Some (ap_id approval)) session_id ''approval.requested''
        (mk_obj [(''approval_id'', jid X (ap_id approval)), (''action'', JStr (ap_action approval)),
                 (''risk_level'', JStr (ap_risk_level approval)), (''reason'', JStr (ap_reason approval)),
                 (''evidence'', ap_evidence approval), (''expires_at'', jtime_opt X (ap_expires_at approval))])) (\<lambda>_.
      thenS (audit S (Some session_id) ''system'' None ''approval.requested'' ''approval'' (Some (ap_id approval))
        (mk_obj [(''tool_call_id'', jid_opt X (ap_tool_call_id approval)), (''action'', JStr (ap_action approval)),
                 (''risk_level'', JStr (ap_risk_level approval)),
                 (''expires_at'', jtime_opt X (ap_expires_at approval))]))
      (bindS (set_managed_session_status S P session_id RequiresAction ''tool approval required'') (\<lambda>_.
        retS result))))))))"

definition fail_tool_call :: "sys \<Rightarrow> tool_call \<Rightarrow> string \<Rightarrow> app_error \<Rightarrow> json eff" where
  "fail_tool_call S call message error =
     (let payload = mk_obj [(''error'', JStr message)] in
      thenS (report_tool_call S call ''tool'' ''tool.error'' [(''content'', payload)]
        ''failed'' None (Some payload) ''tool.failed'' [(''error'', payload)])
      (failS error))"

definition origin_text :: "tool_invocation_origin \<Rightarrow> string" where
  "origin_text origin = (case origin of ManualRoute \<Rightarrow> ''manual'' | SessionLoop \<Rightarrow> ''session_loop'')"

definition run_tool_call
    :: "sys \<Rightarrow> approval_peers \<Rightarrow> tool_peers \<Rightarrow> tool_call \<Rightarrow> execute_tool \<Rightarrow> tool_policy_decision
        \<Rightarrow> tool_invocation_origin \<Rightarrow> json eff" where
  "run_tool_call S A T call input verdict origin =
     (let X = lib S; name = tc_tool_name call in
      bindS (append_event S ''system'' (Some (tc_id call)) (tc_session_id call) ''policy.allowed''
        (mk_obj [(''tool_call_id'', jid X (tc_id call)), (''tool'', JStr name),
                 (''risk_level'', JStr (td_risk_level verdict))])) (\<lambda>_.
      if name \<notin> set tool_registry
      then fail_tool_call S call ''unknown tool'' (not_found ''unknown tool'')
      else
      bindS (catchS (executor T name input call) (\<lambda>error. fail_tool_call S call (err_message error) error))
        (\<lambda>result.
      let status = (if jget_str result ''status'' = Some ''approval_required''
                    then ''waiting_approval'' else ''completed'') in
      bindS (commit_tool_invocation_result S (tc_id call) status result (origin_text origin)) (\<lambda>result_event.
      thenS (if status = ''completed'' \<and> origin = ManualRoute
             then project_session_event_to_loop A result_event else retS ())
        (retS result)))))"

text \<open>What happens to a call once it is recorded.\<close>

definition settle_invocation
    :: "sys \<Rightarrow> peers \<Rightarrow> approval_peers \<Rightarrow> tool_peers \<Rightarrow> execute_tool \<Rightarrow> tool_invocation_origin
        \<Rightarrow> tool_policy_decision \<Rightarrow> approval_commit_binding option \<Rightarrow> json option
        \<Rightarrow> tool_call \<Rightarrow> task_grant option \<Rightarrow> json eff" where
  "settle_invocation S P A T input origin verdict commit_binding gate call grant =
     (case opt_filter (\<lambda>g. jget_str g ''status'' = Some ''blocked'') gate of
        Some g \<Rightarrow> refuse_by_gate S call g
      | None \<Rightarrow>
          if td_decision verdict = ''denied'' then refuse_by_policy S call verdict
          else if td_decision verdict = ''requires_approval''
          then suspend_for_approval S P call grant verdict commit_binding
          else run_tool_call S A T call input verdict origin)"

definition execute_tool_invocation
    :: "sys \<Rightarrow> peers \<Rightarrow> approval_peers \<Rightarrow> tool_peers \<Rightarrow> policy_runtime \<Rightarrow> string \<Rightarrow> execute_tool
        \<Rightarrow> tool_invocation_origin \<Rightarrow> json eff" where
  "execute_tool_invocation S P A T R name input origin =
     bindS (get_session (xt_session_id input)) (\<lambda>session.
     if session_terminal (se_status session)
     then failS (bad_request ''terminal session cannot accept new tool calls'')
     else bindS (preview_task_grant_for_tool_invocation S name input) (\<lambda>grant.
     bindS (agent_version_for_session S (xt_session_id input)) (\<lambda>version.
     bindS (liftS (approval_commit_binding_for_invocation (lib S) name (xt_args input) grant)) (\<lambda>commit_binding.
     let verdict = invocation_decision R name input version commit_binding in
     bindS (get_agent S (se_agent_id session)) (\<lambda>agent.
     bindS (evaluate_semantic_context_gate S agent grant input (td_risk_level verdict) (td_decision verdict))
       (\<lambda>gate.
     bindS (new_tool_call S name input grant version verdict commit_binding gate) (\<lambda>call.
     bindS (start_invocation S call version grant) (\<lambda>(call, grant').
       settle_invocation S P A T input origin verdict commit_binding gate call grant'))))))))"

end
