(* ===== verification/Tool_Preservation.thy ===== *)
theory Tool_Preservation
  imports Preservation Tool_Invocation
begin

text \<open>
  A relation between states that the atomic operations on approvals and tool calls keep too is kept by
  the invocation of a tool and by every handler of approvals.
\<close>

definition approval_peers_respect :: "(world \<Rightarrow> world \<Rightarrow> bool) \<Rightarrow> approval_peers \<Rightarrow> bool" where
  "approval_peers_respect R A \<longleftrightarrow>
     (\<forall>who rq. keeps R (enforce_resource_scope A who rq))
     \<and> (\<forall>a. keeps R (execute_approved_tool A a))
     \<and> (\<forall>e. keeps R (project_session_event_to_loop A e))
     \<and> (\<forall>a t. keeps R (deliver_approval_notification A a t))"

definition tool_peers_respect :: "(world \<Rightarrow> world \<Rightarrow> bool) \<Rightarrow> tool_peers \<Rightarrow> bool" where
  "tool_peers_respect R T \<longleftrightarrow>
     (\<forall>n x c. keeps R (executor T n x c))"

locale approval_relation = store_relation R S P
  for R :: "world \<Rightarrow> world \<Rightarrow> bool" and S :: sys and P :: peers +
  fixes A :: approval_peers
  assumes approval_keeps:
      "\<And>t. keeps R (create_approval_commit_token t)"
      "\<And>i. keeps R (consume_approval_commit_token S i)"
      "\<And>i s. keeps R (store_decide_approval S i s)"
      "\<And>i e. keeps R (update_approval_evidence i e)"
      "\<And>i v c. keeps R (store_modify_approval S i v c)"
      "\<And>i v a. keeps R (decline_approval_and_tool_call S i v a)"
    and approval_neighbours: "approval_peers_respect R A"
begin

lemma approval_neighbour_ops:
  "keeps R (enforce_resource_scope A who rq)" "keeps R (execute_approved_tool A a)"
  "keeps R (project_session_event_to_loop A e)" "keeps R (deliver_approval_notification A a t)"
  using approval_neighbours by (simp_all add: approval_peers_respect_def)

lemma approval_readers_keep:
  "keeps R (get_approval i)" "keeps R (list_approvals_for_due_run S)"
  "keeps R (approval_commit_token_for_approval S i)" "keeps R (get_approval_group i)"
  "keeps R (list_approval_escalation_rules S)" "keeps R (session_accepts_worker_execution i)"
  unfolding get_approval_def list_approvals_for_due_run_def approval_commit_token_for_approval_def
    get_approval_group_def list_approval_escalation_rules_def session_accepts_worker_execution_def
  by (intro ops4)+

lemmas approval_ops = ops4 not_denied_keeps approval_keeps approval_neighbour_ops approval_readers_keep

section \<open>Approvals\<close>

lemma project_declined_keeps: "keeps R (project_declined_approval_events A es)"
proof (induction es)
  case Nil
  show ?case unfolding project_declined_approval_events.simps by (intro approval_ops)
next
  case (Cons e es)
  let ?h = "\<lambda>error. bindS (session_accepts_worker_execution (ev_session_id e))
      (\<lambda>accepts. if accepts then failS error else retS ())"
  have h: "keeps R (?h error)" for error by (intro approval_ops)
  show ?case
    unfolding keeps_def
  proof
    fix w
    obtain r w1 where r: "project_session_event_to_loop A e w = (r, w1)" by fastforce
    have "R w w1" using approval_neighbour_ops(3) r by (rule keepsD)
    moreover have "R w1 (snd (project_declined_approval_events A (e # es) w))"
      using r h Cons.IH by (cases r) (simp_all only: project_declined_approval_events.simps keeps_def
          prod.case sum.case)
    ultimately show "R w (snd (project_declined_approval_events A (e # es) w))" by (rule R_trans)
  qed
qed

lemma expire_record_keeps: "keeps R (expire_approval_record S A i)"
  unfolding expire_approval_record_def by (intro approval_ops project_declined_keeps)

lemma escalate_record_keeps: "keeps R (escalate_approval_record S a g ri re by at' ai)"
  unfolding escalate_approval_record_def Let_def by (intro approval_ops)

lemma due_run_keeps: "keeps R (execute_due_approval_escalations S A)"
  unfolding execute_due_approval_escalations_def due_approval_def Let_def
  by (intro approval_ops expire_record_keeps escalate_record_keeps)

lemma authorize_keeps: "keeps R (authorize_approval_decision S A who i)"
  unfolding authorize_approval_decision_def enforce_delegated_approver_def by (intro approval_ops)

lemma issue_token_keeps: "keeps R (maybe_issue_approval_commit_token S a s)"
  unfolding maybe_issue_approval_commit_token_def Let_def by (intro approval_ops)

lemma consume_token_keeps: "keeps R (consume_valid_approval_commit_token_for_tool_call S a c)"
  unfolding consume_valid_approval_commit_token_for_tool_call_def
    validate_approval_commit_token_for_tool_call_def Let_def
  by (intro approval_ops)

lemma outcome_keeps:
  "(\<And>j. keeps R (f j)) \<Longrightarrow> keeps R m \<Longrightarrow>
   keeps R (case x of WorkerCompleted j \<Rightarrow> f j | WorkerQueued \<Rightarrow> m)"
  by (cases x) simp_all

lemma decide_keeps: "keeps R (decide_approval S P A i s d)"
  unfolding decide_approval_def Let_def
  by (intro approval_ops expire_record_keeps project_declined_keeps issue_token_keeps outcome_keeps)

lemma decisions_keep:
  "keeps R (approve S P A who i)" "keeps R (reject S P A who i)" "keeps R (expire S A who i)"
  "keeps R (modify_approval S A who i v c)"
  unfolding approve_def reject_def expire_def modify_approval_def Let_def
  by (intro approval_ops authorize_keeps decide_keeps expire_record_keeps)+

lemma escalate_keeps: "keeps R (escalate_approval S A who i g re)"
  unfolding escalate_approval_def first_active_escalation_rule_for_risk_def Let_def
  by (intro approval_ops expire_record_keeps escalate_record_keeps)

end

section \<open>Tool invocations\<close>

locale tool_relation = approval_relation R S P A
  for R :: "world \<Rightarrow> world \<Rightarrow> bool" and S :: sys and P :: peers and A :: approval_peers +
  fixes T :: tool_peers
  assumes call_keeps:
      "\<And>f. (\<And>i. ap_id (f i) = i \<and> ap_status (f i) = ''pending'') \<Longrightarrow>
         keeps R (bindS (new_v4 S) (\<lambda>i. insert_approval (f i)))"
      "\<And>c i n. keeps R (commit_tool_invocation_start S c i n)"
      "\<And>i s r og. keeps R (commit_tool_invocation_result S i s r og)"
      "\<And>i s r e. keeps R (update_tool_call_status S i s r e)"
    and tool_neighbours: "tool_peers_respect R T"
begin

lemma version_keeps: "keeps R (agent_version_for_session S i)"
  unfolding agent_version_for_session_def by (intro approval_ops)

lemma neighbour_ops:
  "keeps R (get_context_packet i)" "keeps R (list_semantic_objects S)" "keeps R (executor T n x c)"
  using tool_neighbours
  by (simp_all add: tool_peers_respect_def get_context_packet_def list_semantic_objects_def resp_pure)

lemmas tool_ops = approval_ops version_keeps call_keeps neighbour_ops

lemma new_call_keeps: "keeps R (new_tool_call S n x g v d b gate)"
  unfolding new_tool_call_def Let_def by (intro tool_ops)

lemma start_keeps: "keeps R (start_invocation S c v g)"
  unfolding start_invocation_def by (intro tool_ops)

lemma report_keeps: "keeps R (report_tool_call S c at' et ee st r e act ae)"
  unfolding report_tool_call_def Let_def by (intro tool_ops)

lemma gate_keeps: "keeps R (evaluate_semantic_context_gate S ag g x rl v)"
  unfolding evaluate_semantic_context_gate_def Let_def by (intro tool_ops)

text \<open>An approval is issued pending and under an identifier drawn for it.\<close>

lemma issue_keeps:
  assumes "\<And>i. ap_id (f i) = i \<and> ap_status (f i) = ''pending''" and "\<And>a. keeps R (h a)"
  shows "keeps R (bindS (new_v4 S) (\<lambda>i. bindS (insert_approval (f i)) h))"
proof -
  have "bindS (new_v4 S) (\<lambda>i. bindS (insert_approval (f i)) h)
      = bindS (bindS (new_v4 S) (\<lambda>i. insert_approval (f i))) h"
    by (rule ext) (simp add: bindS_def new_v4_def)
  then show ?thesis using resp_bind [OF call_keeps(1) [OF assms(1)] assms(2)] by simp
qed

lemma suspend_keeps: "keeps R (suspend_for_approval S P c g v b)"
  unfolding suspend_for_approval_def Let_def
  by (rule resp_bind, intro tool_ops, rule issue_keeps, simp, intro tool_ops report_keeps)

lemma invocation_keeps: "keeps R (execute_tool_invocation S P A T pol n x og)"
  unfolding execute_tool_invocation_def settle_invocation_def refuse_by_gate_def refuse_by_policy_def
    run_tool_call_def fail_tool_call_def preview_task_grant_for_tool_invocation_def Let_def
  by (intro tool_ops validate_tool_invocation_keeps new_call_keeps start_keeps report_keeps gate_keeps suspend_keeps)

end

section \<open>What can happen to approvals and tool calls\<close>

text \<open>One handler of approvals, or the use of a commit token, run to its end.\<close>

inductive approval_operation :: "sys \<Rightarrow> peers \<Rightarrow> approval_peers \<Rightarrow> world \<Rightarrow> world \<Rightarrow> bool" for S P A where
  approved: "approval_operation S P A w (snd (approve S P A who i w))"
| rejected: "approval_operation S P A w (snd (reject S P A who i w))"
| expired: "approval_operation S P A w (snd (expire S A who i w))"
| modified: "approval_operation S P A w (snd (modify_approval S A who i args comment w))"
| escalated: "approval_operation S P A w (snd (escalate_approval S A who i group_id reason w))"
| due_run: "approval_operation S P A w (snd (execute_due_approval_escalations S A w))"
| token_consumed:
    "approval_operation S P A w (snd (consume_valid_approval_commit_token_for_tool_call S approval call w))"

inductive_cases approval_operationE: "approval_operation S P A w w'"

lemma approval_operation_keeps:
  assumes "approval_relation R S P A" and "approval_operation S P A w w'"
  shows "R w w'"
  using assms(2)
  by cases (use approval_relation.decisions_keep [OF assms(1)]
      approval_relation.escalate_keeps [OF assms(1)] approval_relation.due_run_keeps [OF assms(1)]
      approval_relation.consume_token_keeps [OF assms(1)] in \<open>simp_all add: keeps_def\<close>)

text \<open>Such a step, or one invocation of a tool.\<close>

inductive tool_operation
  :: "sys \<Rightarrow> peers \<Rightarrow> approval_peers \<Rightarrow> tool_peers \<Rightarrow> world \<Rightarrow> world \<Rightarrow> bool" for S P A T where
  invoke: "tool_operation S P A T w (snd (execute_tool_invocation S P A T pol name input origin w))"
| decide: "approval_operation S P A w w' \<Longrightarrow> tool_operation S P A T w w'"

inductive_cases tool_operationE: "tool_operation S P A T w w'"

lemma tool_operation_keeps:
  assumes "tool_relation R S P A T" and "tool_operation S P A T w w'"
  shows "R w w'"
  using assms(2)
proof cases
  case invoke
  then show ?thesis using tool_relation.invocation_keeps [OF assms(1)] by (simp add: keeps_def)
next
  case decide
  moreover have "approval_relation R S P A" using assms(1) by (simp add: tool_relation_def)
  ultimately show ?thesis by (blast intro: approval_operation_keeps)
qed

text \<open>Neighbours that do nothing.\<close>

definition idle_approvals :: approval_peers where
  "idle_approvals = \<lparr>current_tenant_id = 0, enforce_resource_scope = (\<lambda>who rq. retS ()),
     execute_approved_tool = (\<lambda>a. retS (WorkerCompleted None)),
     project_session_event_to_loop = (\<lambda>e. retS ()), deliver_approval_notification = (\<lambda>a t. retS JNull)\<rparr>"

definition idle_tools :: tool_peers where
  "idle_tools = \<lparr>executor = (\<lambda>n x c. retS (JObj []))\<rparr>"

lemma idle_neighbours_respect:
  assumes "relation_on_worlds R"
  shows "approval_peers_respect R idle_approvals" "tool_peers_respect R idle_tools"
  by (simp_all add: approval_peers_respect_def idle_approvals_def tool_peers_respect_def idle_tools_def
      relation_on_worlds.resp_pure [OF assms])

end
