(* ===== verification/Tool_Grants.thy ===== *)
theory Tool_Grants
  imports Grant_Machine Tool_Preservation
begin

text \<open>
  The start of a tool invocation charges a grant and its ancestors as a reservation does, so it
  follows the machine of grants; no other operation on tool calls or approvals touches a grant.
\<close>

section \<open>The charge of an invocation is a reservation\<close>

lemma admission_Inr:
  "tool_call_admission now g w = (Inr u, w') \<Longrightarrow>
   w' = w \<and> task_grant_reservation_denial g ToolCall now = None
   \<and> validate_memory_task_grant_workflow w g = Inr ()
   \<and> checked_i32 (tg_tool_calls_used g + 1) = Some (tg_tool_calls_used g + 1)"
  by (auto simp: tool_call_admission_def task_grant_tool_call_reservation_denial_def effs_Inr
      bindr_eq_Inr guardr_eq_Inr whenS_def checked_i32_def split: option.splits if_splits)

lemma admission_Inl:
  "tool_call_admission now g w = (Inl e, w') \<Longrightarrow> w' = w \<or> w' = expire_grant now (tg_id g) w"
  by (auto simp: tool_call_admission_def thenS_def bindS_def whenS_def eff_simps
      split: option.splits if_splits)

lemma admissions_Inr:
  "foreachS (tool_call_admission now) ls w = (Inr u, w') \<Longrightarrow>
   w' = w \<and> (\<forall>g \<in> set ls. task_grant_reservation_denial g ToolCall now = None
     \<and> validate_memory_task_grant_workflow w g = Inr ()
     \<and> checked_i32 (tg_tool_calls_used g + 1) = Some (tg_tool_calls_used g + 1))"
proof (induction ls arbitrary: u)
  case (Cons g ls)
  then obtain v w1 where 1: "tool_call_admission now g w = (Inr v, w1)"
    and 2: "foreachS (tool_call_admission now) ls w1 = (Inr u, w')" by (auto simp: effs_Inr)
  from admission_Inr [OF 1] have "w1 = w" by blast
  with 2 Cons.IH [of u] admission_Inr [OF 1] show ?case by simp
qed (simp add: eff_simps)

lemma admissions_Inl:
  "foreachS (tool_call_admission now) ls w = (Inl e, w') \<Longrightarrow>
   w' = w \<or> (\<exists>g \<in> set ls. w' = expire_grant now (tg_id g) w)"
proof (induction ls)
  case (Cons g ls)
  obtain r w1 where 1: "tool_call_admission now g w = (r, w1)" by fastforce
  show ?case
  proof (cases r)
    case (Inl d)
    with 1 Cons.prems have "w' = w1" by (simp add: thenS_def bindS_def)
    with admission_Inl [of now g w d w1] 1 Inl show ?thesis by auto
  next
    case (Inr u)
    with admission_Inr [of now g w u w1] 1 have "w1 = w" by simp
    with 1 Inr Cons show ?thesis by (auto simp: thenS_def bindS_def)
  qed
qed (simp add: eff_simps)

lemma charges_count:
  assumes "\<And>g. g \<in> set ls \<Longrightarrow> tget (task_grants w) (tg_id g) = Some g"
    and "\<And>g. g \<in> set ls \<Longrightarrow> checked_i32 (tg_tool_calls_used g + 1) = Some (tg_tool_calls_used g + 1)"
    and "distinct (map tg_id ls)"
  shows "foreachS (charge_tool_call now) ls w
    = foreachS (\<lambda>g. update_grant_entry (count_usage ToolCall now) (tg_id g)) ls w"
  using assms
proof (induction ls arbitrary: w)
  case (Cons g ls)
  let ?g = "g\<lparr>tg_tool_calls_used := tg_tool_calls_used g + 1, tg_updated_at := now\<rparr>"
  let ?w = "w\<lparr>task_grants := tput (tg_id g) ?g (task_grants w)\<rparr>"
  have g: "tget (task_grants w) (tg_id g) = Some g"
    and c: "checked_i32 (tg_tool_calls_used g + 1) = Some (tg_tool_calls_used g + 1)"
    using Cons.prems by simp_all
  have "tget (task_grants ?w) (tg_id h) = Some h" if "h \<in> set ls" for h
  proof -
    from that Cons.prems(3) have "tg_id h \<noteq> tg_id g" by (metis distinct.simps(2) image_eqI list.map(2) set_map)
    with that Cons.prems(1) show ?thesis by (simp add: store_table.get_put)
  qed
  then have "foreachS (charge_tool_call now) ls ?w
      = foreachS (\<lambda>g. update_grant_entry (count_usage ToolCall now) (tg_id g)) ls ?w"
    using Cons.prems by (intro Cons.IH) auto
  moreover have "charge_tool_call now g w = (Inr (), ?w)"
    using g by (simp add: charge_tool_call_def)
  moreover have "update_grant_entry (count_usage ToolCall now) (tg_id g) w = (Inr (), ?w)"
  proof -
    have "count_usage ToolCall now g = Inr ?g"
      unfolding count_usage_def task_grant_reservation.case c ok_or_def bindr_def by simp
    with g show ?thesis by (simp add: update_grant_entry_def)
  qed
  ultimately show ?case by (simp add: thenS_def bindS_def)
qed simp

lemma lineage_entries:
  assumes "lineage_from (task_grants w) [] i = Inr ls" and "keyed (task_grants w)"
  shows "\<And>g. g \<in> set ls \<Longrightarrow> tget (task_grants w) (tg_id g) = Some g" "distinct (map tg_id ls)"
  using ancestry_mem [OF lineage_from_ancestry [OF assms(1)] assms(2)]
    ancestry_distinct [OF lineage_from_ancestry [OF assms(1)] assms(2)] by blast+

text \<open>What is charged on success is what a reservation of a tool call charges.\<close>

lemma reserve_invocation_reserves:
  assumes "reserve_invocation S (Some i) w = (Inr x, w')" and "keyed (task_grants w)"
  obtains g where "x = Some g" "reserve_task_grant_usage S i ToolCall w = (Inr g, w')"
    "\<exists>ls. task_grant_lineage i w = (Inr ls, w) \<and> (\<forall>h \<in> set ls. validate_memory_task_grant_workflow w h = Inr ())"
proof -
  let ?now = "clock S (ticks w)" and ?w = "w\<lparr>ticks := Suc (ticks w)\<rparr>"
  obtain ls u w1 w2 v where ls: "lineage_from (task_grants w) [] i = Inr ls"
    and adm: "foreachS (tool_call_admission ?now) ls ?w = (Inr u, w1)"
    and chg: "foreachS (charge_tool_call ?now) ls w1 = (Inr v, w2)"
    and x: "map_sum id Some (ok_or (internal_error ''panic: reserved task grant'') (tget (task_grants w2) i)) = Inr x"
    and w': "w' = w2"
    using assms(1)
    by (auto simp: reserve_invocation_def effs_Inr now_utc_def task_grant_lineage_def)
  from admissions_Inr [OF adm] have w1: "w1 = ?w"
    and ok: "\<forall>g \<in> set ls. task_grant_reservation_denial g ToolCall ?now = None
       \<and> validate_memory_task_grant_workflow ?w g = Inr ()
       \<and> checked_i32 (tg_tool_calls_used g + 1) = Some (tg_tool_calls_used g + 1)" by blast+
  note entries = lineage_entries [OF ls assms(2)]
  have chg': "foreachS (\<lambda>g. update_grant_entry (count_usage ToolCall ?now) (tg_id g)) ls ?w = (Inr v, w2)"
    using chg charges_count [of ls ?w ?now] entries ok unfolding w1 by simp
  from x obtain g where g: "tget (task_grants w2) i = Some g" "x = Some g"
    by (cases "tget (task_grants w2) i") (auto simp: ok_or_def)
  have "lineage_denial ToolCall ?now ls = None" using ok by (simp add: lineage_denial_None)
  then have "reserve_task_grant_usage S i ToolCall w = (Inr g, w')"
    using ls chg' g w'
    by (simp add: reserve_task_grant_usage_def bindS_def thenS_def now_utc_def task_grant_lineage_def
        get_task_grant_def eff_simps ok_or_def)
  moreover have "validate_memory_task_grant_workflow ?w h = validate_memory_task_grant_workflow w h" for h
    by (simp add: validate_memory_task_grant_workflow_def cong: option.case_cong)
  ultimately show ?thesis
    using that [OF g(2)] ls ok by (auto simp: task_grant_lineage_def eff_simps)
qed

lemma reserve_invocation_follows: "keeps grants_follow (reserve_invocation S j)"
proof (cases j)
  case None
  then show ?thesis by (simp add: reserve_invocation_def follow.resp_pure)
next
  case (Some i)
  show ?thesis
    unfolding keeps_def grants_follow_def
  proof (intro allI impI)
    fix w :: world
    assume k: "keyed (task_grants w)"
    let ?now = "clock S (ticks w)" and ?w = "w\<lparr>ticks := Suc (ticks w)\<rparr>"
    let ?r = "reserve_invocation S j w"
    show "grant_step\<^sup>*\<^sup>* (task_grants w) (task_grants (snd ?r))"
    proof (cases "lineage_from (task_grants w) [] i")
      case (Inl e)
      then show ?thesis using Some
        by (simp add: reserve_invocation_def bindS_def now_utc_def task_grant_lineage_def eff_simps)
    next
      case (Inr ls)
      obtain r w1 where adm: "foreachS (tool_call_admission ?now) ls ?w = (r, w1)" by fastforce
      have lin: "task_grant_lineage i ?w = (Inr ls, ?w)"
        using Inr by (simp add: task_grant_lineage_def eff_simps)
      show ?thesis
      proof (cases r)
        case (Inl e)
        have "task_grants (snd ?r) = task_grants w1"
          using Some lin adm Inl by (simp add: reserve_invocation_def bindS_def thenS_def now_utc_def)
        moreover have "w1 = ?w \<or> (\<exists>g \<in> set ls. w1 = expire_grant ?now (tg_id g) ?w)"
          using adm Inl by (intro admissions_Inl) simp
        moreover have "grant_step\<^sup>*\<^sup>* (task_grants w) (task_grants (expire_grant ?now k ?w))" for k
          using expire_step [of ?now k ?w] by auto
        ultimately show ?thesis by auto
      next
        case (Inr u)
        from admissions_Inr [of ?now ls ?w u w1] adm Inr have w1: "w1 = ?w"
          and ok: "\<forall>g \<in> set ls. task_grant_reservation_denial g ToolCall ?now = None
            \<and> checked_i32 (tg_tool_calls_used g + 1) = Some (tg_tool_calls_used g + 1)" by auto
        note entries = lineage_entries [OF \<open>lineage_from _ _ _ = Inr ls\<close> k]
        let ?m = "foreachS (\<lambda>g. update_grant_entry (count_usage ToolCall ?now) (tg_id g)) ls"
        have "foreachS (charge_tool_call ?now) ls ?w = ?m ?w"
          using charges_count [of ls ?w ?now] entries ok by simp
        then have "task_grants (snd ?r) = task_grants (snd (?m ?w))"
          using Some lin adm Inr w1
          by (simp add: reserve_invocation_def bindS_def thenS_def now_utc_def asksr_def
              split: prod.splits sum.splits)
        moreover have "grant_step\<^sup>*\<^sup>* (task_grants ?w) (task_grants (snd (?m ?w)))"
          using entries ok by (intro update_entries_follow) auto
        ultimately show ?thesis by simp
      qed
    qed
  qed
qed

section \<open>The operations on approvals and tool calls\<close>

lemma tool_tables_same_grants:
  "keeps grants_follow (now_utc S)" "keeps grants_follow (new_v4 S)"
  "keeps grants_follow (push_events s es)" "keeps grants_follow (modifyS (put_tool_call c))"
  "keeps grants_follow (modifyS (put_audit e))"
  "keeps grants_follow (insert_approval a)" "keeps grants_follow (create_approval_commit_token t)"
  "keeps grants_follow (\<lambda>w. (Inr x1, w\<lparr>approvals := f1 w\<rparr>))"
  "keeps grants_follow (\<lambda>w. (Inr x2, w\<lparr>approval_commit_tokens := f2 w\<rparr>))"
  "keeps grants_follow (\<lambda>w. (Inr x3, w\<lparr>tool_calls := f3 w\<rparr>))"
  "keeps grants_follow (modify_tool_call_args S i v)"
  "keeps grants_follow (\<lambda>w. (Inr (f4 w), w\<lparr>approvals := f5 w, tool_calls := f6 w, events := f7 w, audit_logs := f8 w\<rparr>))"
  by (rule keeps_same_grants;
      simp add: now_utc_def new_v4_def push_events_def put_tool_call_def put_audit_def eff_simps
        insert_approval_def create_approval_commit_token_def modify_tool_call_args_def Let_def
        split: option.splits sum.splits prod.splits)+

lemmas tool_grant_ops = follow.resp_intros tool_tables_same_grants reserve_invocation_follows

lemma records_same_grants:
  "keeps grants_follow (tool_invocation_records S c g i n)"
  "keeps grants_follow (tool_invocation_result_records S c s r og)"
  "keeps grants_follow (declined_approval_records S a v aty call)"
  unfolding tool_invocation_records_def tool_invocation_result_records_def invocation_event_def
    new_audit_log_def declined_approval_records_def declined_tool_records_def
    declined_approval_event_def Let_def
  by (intro tool_grant_ops)+

lemma calls_follow:
  "keeps grants_follow (commit_tool_invocation_start S c i n)"
  "keeps grants_follow (commit_tool_invocation_result S i s r og)"
  "keeps grants_follow (update_tool_call_status S i s res err)"
  unfolding commit_tool_invocation_start_def commit_tool_invocation_result_def
    update_tool_call_status_def get_tool_call_def get_session_def Let_def
  by (intro tool_grant_ops records_same_grants)+

lemma commit_decline_follows: "keeps grants_follow (commit_decline S i a v es as)"
proof (rule keeps_same_grants)
  fix w
  show "task_grants (snd (commit_decline S i a v es as w)) = task_grants w"
    by (simp add: commit_decline_def bindS_def now_utc_def eff_simps Let_def
        split: prod.splits sum.splits)
qed

lemma approvals_follow:
  "keeps grants_follow (consume_approval_commit_token S i)"
  "keeps grants_follow (store_decide_approval S i s)" "keeps grants_follow (update_approval_evidence i e)"
  "keeps grants_follow (store_modify_approval S i args c)"
  "keeps grants_follow (decline_approval_and_tool_call S i v a)"
  unfolding consume_approval_commit_token_def store_decide_approval_def update_approval_evidence_def
    store_modify_approval_def decline_approval_and_tool_call_def get_approval_def Let_def
  by (intro tool_grant_ops records_same_grants commit_decline_follows)+

lemma grants_follow_tool_relation:
  assumes "peers_respect grants_follow P" and "approval_peers_respect grants_follow A"
    and "tool_peers_respect grants_follow T"
  shows "tool_relation grants_follow S P A T"
  by (intro tool_relation.intro tool_relation_axioms.intro approval_relation.intro approval_relation_axioms.intro grants_follow_store_relation assms
      calls_follow approvals_follow tool_tables_same_grants follow.resp_bind)

end
