(* ===== verification/Handoffs.thy ===== *)
theory Handoffs
  imports Advance Approvals Tool_Invocation
begin

text \<open>
  Handoffs of work to specialist agents (session_handoff_runtime.rs, store_agent_handoffs.rs,
  store_manager_plans.rs, handlers/agent_handoffs.rs, handlers/manager_plans.rs): a manager agent plans,
  requests a handoff its rules allow, the handoff is accepted, assigned to a session of the specialist
  with a task grant of its own below that of the manager, and is completed or fails.

  Of other subsystems, \<open>handoff_peers\<close> has the checks of a governed release, runtime profiles,
  environments, the assignments of remote computers and the activity log of work items; of their structs
  the records below have the fields that are read here.
\<close>

record runtime_profile =
  rp_id :: uuid
  rp_name :: string
  rp_runtime_type :: string
  rp_remote_computer_required :: bool
  rp_status :: string

record handoff_environment =
  hv_environment_type :: string
  hv_remote_computer_profile :: json
  hv_runtime_profile_id :: "uuid option"

record remote_computer_job_assignment =
  rj_id :: uuid
  rj_session_id :: uuid
  rj_execution_job_id :: uuid
  rj_remote_computer_id :: uuid
  rj_lease_id :: uuid
  rj_status :: string

record handoff_peers =
  governed_runtime_environment :: "uuid option \<Rightarrow> unit eff"
  governed_session_version :: "uuid \<Rightarrow> agent_version \<Rightarrow> uuid option \<Rightarrow> unit eff"
  get_agent_runtime_profile :: "uuid \<Rightarrow> runtime_profile eff"
  runtime_profile_from_value :: "json \<Rightarrow> runtime_profile res"
  handoff_environment_of :: "uuid \<Rightarrow> handoff_environment eff"
  list_remote_computer_job_assignments :: "remote_computer_job_assignment list eff"
  ensure_work_item_exists :: "uuid \<Rightarrow> unit eff"
  append_plan_activity :: "uuid \<Rightarrow> string \<Rightarrow> string \<Rightarrow> uuid \<Rightarrow> string \<Rightarrow> json \<Rightarrow> unit eff"

section \<open>Rules and payload schemas (workflow_graph_core.rs)\<close>

definition handoff_rule_target_id :: "ext \<Rightarrow> json \<Rightarrow> uuid option" where
  "handoff_rule_target_id X rule =
     Option.bind (Option.bind (jget_any rule [''target_agent_id'', ''target_agent'']) as_str) (parse_uuid X)"

definition handoff_rule_matches :: "ext \<Rightarrow> uuid \<Rightarrow> string \<Rightarrow> string \<Rightarrow> string \<Rightarrow> bool \<Rightarrow> json \<Rightarrow> bool" where
  "handoff_rule_matches X target_agent_id intent schema_version risk_level approval_required rule \<longleftrightarrow>
     handoff_rule_target_id X rule = Some target_agent_id
     \<and> json_string_array_contains (jget rule ''intents'') intent
     \<and> json_optional_string_array_contains (jget rule ''schema_versions'') schema_version
     \<and> json_optional_string_array_contains (jget rule ''risk_levels'') risk_level
     \<and> (\<not> unwrap_or (jget_bool rule ''approval_required'') False \<or> approval_required)"

definition matching_handoff_rule :: "ext \<Rightarrow> json \<Rightarrow> uuid \<Rightarrow> string \<Rightarrow> string \<Rightarrow> string \<Rightarrow> bool \<Rightarrow> json res" where
  "matching_handoff_rule X runtime_config target_agent_id intent schema_version risk_level approval_required =
     bindr (ok_or (forbidden ''source agent version has no handoff allowed_targets'')
       (Option.bind (jget runtime_config ''handoffs'') (\<lambda>handoffs. jget_array handoffs ''allowed_targets''))) (\<lambda>rules.
     ok_or (forbidden (''agent handoff target, intent, schema_version, risk_level, or approval ''
                       @ ''requirement is not allowlisted''))
       (find_first (handoff_rule_matches X target_agent_id intent schema_version risk_level approval_required) rules))"

text \<open>
  An integer equals a float that has no fraction, lies in the range of the integer's type and converts to
  it. (An integer a float equals converts back to that float.)
\<close>

definition json_schema_integer_equals_float :: "int \<Rightarrow> rat \<Rightarrow> bool" where
  "json_schema_integer_equals_float i r \<longleftrightarrow>
     r = of_int \<lfloor>r\<rfloor> \<and> (if checked_i64 i \<noteq> None then - 9223372036854775808 \<le> r \<and> r < 9223372036854775808
       else in_u64 i \<and> 0 \<le> r \<and> r < 18446744073709551616) \<and> \<lfloor>r\<rfloor> = i"

fun json_schema_values_equal :: "json \<Rightarrow> json \<Rightarrow> bool" where
  "json_schema_values_equal (JFloat r) (JFloat s) \<longleftrightarrow> r = s"
| "json_schema_values_equal (JFloat r) (JInt i) \<longleftrightarrow> json_schema_integer_equals_float i r"
| "json_schema_values_equal (JInt i) (JFloat r) \<longleftrightarrow> json_schema_integer_equals_float i r"
| "json_schema_values_equal (JInt i) (JInt j) \<longleftrightarrow>
     (if checked_i64 i \<noteq> None \<and> checked_i64 j \<noteq> None then i = j else in_u64 i \<and> in_u64 j \<and> i = j)"
| "json_schema_values_equal u v \<longleftrightarrow> u = v"

definition json_schema_enum_contains :: "json list \<Rightarrow> json \<Rightarrow> bool" where
  "json_schema_enum_contains allowed_values v = list_ex (\<lambda>a. json_schema_values_equal a v) allowed_values"

definition payload_type_matches :: "string \<Rightarrow> json \<Rightarrow> bool res" where
  "payload_type_matches expected_type v =
     (if expected_type = ''string'' then Inr (is_string v)
      else if expected_type = ''number'' then Inr (is_number v)
      else if expected_type = ''integer'' then Inr (as_i64 v \<noteq> None \<or> as_u64 v \<noteq> None)
      else if expected_type = ''boolean'' then Inr (is_boolean v)
      else if expected_type = ''object'' then Inr (is_object v)
      else if expected_type = ''array'' then Inr (is_array v)
      else Inl (bad_request (''unsupported handoff payload_schema type '' @ expected_type)))"

definition validate_payload_property :: "(string \<times> json) list \<Rightarrow> string \<times> json \<Rightarrow> unit res" where
  "validate_payload_property payload_object = (\<lambda>(key, property_schema).
     case map_of payload_object key of
       None \<Rightarrow> Inr ()
     | Some v \<Rightarrow>
         bindr (case jget property_schema ''enum'' of
             None \<Rightarrow> Inr ()
           | Some allowed \<Rightarrow>
               bindr (ok_or (bad_request (''handoff payload_schema enum for field '' @ key @ '' must be an array''))
                 (as_array allowed)) (\<lambda>allowed_values.
               guardr (json_schema_enum_contains allowed_values v)
                 (bad_request (''handoff payload field '' @ key @ '' is not an allowed enum value'')))) (\<lambda>_.
         case jget_str property_schema ''type'' of
           None \<Rightarrow> Inr ()
         | Some expected_type \<Rightarrow>
             bindr (payload_type_matches expected_type v) (\<lambda>matches_type.
             guardr matches_type
               (bad_request (''handoff payload field '' @ key @ '' must be '' @ expected_type)))))"

definition validate_handoff_payload_schema :: "json \<Rightarrow> json option \<Rightarrow> unit res" where
  "validate_handoff_payload_schema payload schema_opt =
     (case schema_opt of
        None \<Rightarrow> Inr ()
      | Some schema \<Rightarrow>
          bindr (guardr (jget_str schema ''type'' = Some ''object'')
            (bad_request ''handoff payload_schema must declare type object'')) (\<lambda>_.
          bindr (ok_or (bad_request ''handoff payload must be a JSON object'') (as_object payload)) (\<lambda>payload_object.
          bindr (case jget_array schema ''required'' of
              None \<Rightarrow> Inr ()
            | Some required \<Rightarrow>
                foreachr (\<lambda>key. guardr (obj_contains key payload_object)
                  (bad_request (''handoff payload missing required field '' @ key))) (filter_map as_str required)) (\<lambda>_.
          case Option.bind (jget schema ''properties'') as_object of
            None \<Rightarrow> Inr ()
          | Some properties \<Rightarrow> foreachr (validate_payload_property payload_object) properties))))"

section \<open>Manager plans (store_manager_plans.rs, handlers/manager_plans.rs)\<close>

definition authorize_principal_request
    :: "approval_peers \<Rightarrow> principal \<Rightarrow> permission \<Rightarrow> string \<Rightarrow> uuid option \<Rightarrow> unit eff" where
  "authorize_principal_request A who perm resource_type resource_id =
     (let request = \<lparr>ar_tenant_id = current_tenant_id A, ar_permission = perm,
            ar_resource_type = resource_type, ar_resource_id = resource_id\<rparr>
      in bindS (liftS (authorize who request)) (\<lambda>_. enforce_resource_scope A who request))"

definition get_manager_agent_plan :: "uuid \<Rightarrow> manager_agent_plan eff" where
  "get_manager_agent_plan i = asksr (\<lambda>w.
     ok_or (not_found ''manager agent plan not found'') (tget (manager_agent_plans w) i))"

definition insert_manager_agent_plan :: "manager_agent_plan \<Rightarrow> manager_agent_plan eff" where
  "insert_manager_agent_plan plan w =
     (Inr plan, w\<lparr>manager_agent_plans := tput (mp_id plan) plan (manager_agent_plans w)\<rparr>)"

definition update_manager_agent_plan_review
    :: "sys \<Rightarrow> uuid \<Rightarrow> json \<Rightarrow> string \<Rightarrow> uuid option \<Rightarrow> manager_agent_plan eff" where
  "update_manager_agent_plan_review S i review status audit_trace_id =
     bindS (now_utc S) (\<lambda>updated_at.
     bindS (get_manager_agent_plan i) (\<lambda>plan w.
     let plan' = plan\<lparr>mp_review := review, mp_status := status, mp_audit_trace_id := audit_trace_id,
           mp_updated_at := updated_at\<rparr>
     in (Inr plan', w\<lparr>manager_agent_plans := tput i plan' (manager_agent_plans w)\<rparr>)))"

definition normalize_manager_plan_risk :: "string \<Rightarrow> string res" where
  "normalize_manager_plan_risk value =
     (let n = normalized value in
      if n \<in> {''low'', ''medium'', ''high''} then Inr n
      else Inl (bad_request ''risk_classification must be one of low, medium, or high''))"

definition normalize_manager_plan_status :: "string \<Rightarrow> string res" where
  "normalize_manager_plan_status value =
     (let n = normalized value in
      if n \<in> {''planned'', ''reviewed'', ''approved'', ''needs_changes'', ''blocked''} then Inr n
      else Inl (bad_request (''manager agent plan status must be planned, reviewed, approved, ''
                             @ ''needs_changes, or blocked'')))"

definition plan_details :: "ext \<Rightarrow> manager_agent_plan \<Rightarrow> (string \<times> json) list" where
  "plan_details X plan =
     [(''manager_agent_plan_id'', jid X (mp_id plan)), (''session_id'', jid X (mp_session_id plan)),
      (''manager_agent_id'', jid X (mp_manager_agent_id plan)),
      (''specialist_agent_id'', jid_opt X (mp_specialist_agent_id plan)),
      (''risk_classification'', JStr (mp_risk_classification plan)), (''status'', JStr (mp_status plan)),
      (''review'', mp_review plan)]"

definition record_manager_agent_plan_audit_and_event :: "sys \<Rightarrow> manager_agent_plan \<Rightarrow> string \<Rightarrow> audit_log eff" where
  "record_manager_agent_plan_audit_and_event S plan action =
     (let X = lib S;
          details = mk_obj (plan_details X plan @
            [(''work_item_id'', jid_opt X (mp_work_item_id plan)), (''task_intake'', mp_task_intake plan),
             (''decomposition'', mp_decomposition plan),
             (''specialist_selection'', mp_specialist_selection plan)]) in
      bindS (append_event S ''agent'' (Some (mp_manager_agent_id plan)) (mp_session_id plan) action details) (\<lambda>_.
      bindS (new_audit_log S (Some (mp_session_id plan)) ''agent'' (Some (mp_manager_agent_id plan)) action
               ''manager_agent_plan'' (Some (mp_id plan)) details) append_audit_log))"

definition record_manager_agent_plan_work_item_activity
    :: "sys \<Rightarrow> handoff_peers \<Rightarrow> manager_agent_plan \<Rightarrow> string \<Rightarrow> unit eff" where
  "record_manager_agent_plan_work_item_activity S H plan action =
     (let X = lib S in
      case mp_work_item_id plan of
        None \<Rightarrow> retS ()
      | Some work_item_id \<Rightarrow>
          append_plan_activity H work_item_id action (show_uuid X (mp_manager_agent_id plan)) (mp_id plan)
            (if action = ''manager_plan.created'' then ''Created manager plan: '' @ show_uuid X (mp_id plan)
             else if action = ''manager_plan.reviewed''
             then ''Reviewed manager plan with status: '' @ mp_status plan
             else ''Updated manager plan: '' @ show_uuid X (mp_id plan))
            (mk_obj (plan_details X plan)))"

record create_manager_agent_plan_input =
  cm_work_item_id :: "uuid option"
  cm_specialist_agent_id :: "uuid option"
  cm_task_intake :: json
  cm_decomposition :: json
  cm_specialist_selection :: json
  cm_risk_classification :: string
  cm_review :: json

definition create_manager_agent_plan
    :: "sys \<Rightarrow> approval_peers \<Rightarrow> handoff_peers \<Rightarrow> principal \<Rightarrow> uuid \<Rightarrow> create_manager_agent_plan_input \<Rightarrow>
        manager_agent_plan eff" where
  "create_manager_agent_plan S A H who session_id input =
     thenS (authorize_principal_request A who SessionsRun ''session'' (Some session_id))
     (bindS (get_session session_id) (\<lambda>session.
      bindS (get_agent S (se_agent_id session)) (\<lambda>manager_agent.
      thenS (guardS (ag_agent_role manager_agent = ''manager'')
        (bad_request ''manager agent plans require a session bound to a manager agent''))
      (thenS (guardS (is_object (cm_task_intake input) \<and> is_object (cm_decomposition input)
                \<and> is_object (cm_specialist_selection input) \<and> is_object (cm_review input))
        (bad_request ''manager agent plan sections must be JSON objects''))
      (bindS (liftS (normalize_manager_plan_risk (cm_risk_classification input))) (\<lambda>risk_classification.
      thenS (case cm_specialist_agent_id input of
          None \<Rightarrow> retS ()
        | Some specialist_agent_id \<Rightarrow>
            bindS (get_agent S specialist_agent_id) (\<lambda>specialist.
            guardS (ag_agent_role specialist = ''specialist'')
              (bad_request ''specialist_agent_id must reference a specialist agent'')))
      (thenS (case cm_work_item_id input of
          None \<Rightarrow> retS ()
        | Some work_item_id \<Rightarrow> ensure_work_item_exists H work_item_id)
      (bindS (now_utc S) (\<lambda>now. bindS (new_v4 S) (\<lambda>i.
      bindS (insert_manager_agent_plan
        \<lparr>mp_id = i, mp_session_id = session_id, mp_manager_agent_id = ag_id manager_agent,
         mp_work_item_id = cm_work_item_id input, mp_specialist_agent_id = cm_specialist_agent_id input,
         mp_task_intake = cm_task_intake input, mp_decomposition = cm_decomposition input,
         mp_specialist_selection = cm_specialist_selection input,
         mp_risk_classification = risk_classification, mp_review = cm_review input,
         mp_status = ''planned'', mp_audit_trace_id = None, mp_created_at = now, mp_updated_at = now\<rparr>) (\<lambda>plan.
      bindS (record_manager_agent_plan_audit_and_event S plan ''manager_plan.created'') (\<lambda>entry.
      thenS (record_manager_agent_plan_work_item_activity S H plan ''manager_plan.created'')
        (update_manager_agent_plan_review S (mp_id plan) (mp_review plan) (mp_status plan)
          (Some (al_id entry)))))))))))))))"

definition review_manager_agent_plan
    :: "sys \<Rightarrow> approval_peers \<Rightarrow> handoff_peers \<Rightarrow> principal \<Rightarrow> uuid \<Rightarrow> json \<Rightarrow> string option \<Rightarrow>
        manager_agent_plan eff" where
  "review_manager_agent_plan S A H who i review status =
     bindS (get_manager_agent_plan i) (\<lambda>current.
     thenS (authorize_principal_request A who SessionsRun ''session'' (Some (mp_session_id current)))
     (thenS (guardS (is_object review) (bad_request ''manager agent plan review must be a JSON object''))
     (bindS (liftS (case status of Some s \<Rightarrow> normalize_manager_plan_status s | None \<Rightarrow> Inr ''reviewed'')) (\<lambda>status'.
     bindS (update_manager_agent_plan_review S (mp_id current) review status' (mp_audit_trace_id current)) (\<lambda>reviewed.
     bindS (record_manager_agent_plan_audit_and_event S reviewed ''manager_plan.reviewed'') (\<lambda>entry.
     thenS (record_manager_agent_plan_work_item_activity S H reviewed ''manager_plan.reviewed'')
       (update_manager_agent_plan_review S (mp_id reviewed) (mp_review reviewed) (mp_status reviewed)
         (Some (al_id entry)))))))))"

section \<open>Handoffs in the store (store_agent_handoffs.rs, memory backend)\<close>

definition list_agent_handoff_events :: "sys \<Rightarrow> uuid option \<Rightarrow> agent_handoff_event list eff" where
  "list_agent_handoff_events S source_session_id = asks (\<lambda>w.
     sort_key he_created_at
       (filter (\<lambda>e. is_none_or source_session_id (\<lambda>i. he_source_session_id e = i))
         (tvalues S w (agent_handoff_events w))))"

definition get_agent_handoff_event :: "uuid \<Rightarrow> agent_handoff_event eff" where
  "get_agent_handoff_event i = asksr (\<lambda>w.
     ok_or (not_found ''agent handoff event not found'') (tget (agent_handoff_events w) i))"

definition create_agent_handoff_event :: "agent_handoff_event \<Rightarrow> agent_handoff_event eff" where
  "create_agent_handoff_event event w =
     (Inr event, w\<lparr>agent_handoff_events := tput (he_id event) event (agent_handoff_events w)\<rparr>)"

definition update_agent_handoff_event_status
    :: "sys \<Rightarrow> uuid \<Rightarrow> string \<Rightarrow> uuid option \<Rightarrow> agent_handoff_event eff" where
  "update_agent_handoff_event_status S i status audit_trace_id =
     bindS (now_utc S) (\<lambda>updated_at.
     bindS (get_agent_handoff_event i) (\<lambda>event w.
     let event' = event\<lparr>he_status := status, he_audit_trace_id := audit_trace_id,
           he_review_status := (if status = ''accepted'' then ''approved''
             else if status = ''rejected'' then ''rejected'' else he_review_status event),
           he_human_escalation_status :=
             (if status = ''failed'' \<and> he_human_escalation_status event = ''required'' then ''requested''
              else he_human_escalation_status event),
           he_updated_at := updated_at\<rparr>
     in (Inr event', w\<lparr>agent_handoff_events := tput i event' (agent_handoff_events w)\<rparr>)))"

definition update_agent_handoff_event_escalation
    :: "sys \<Rightarrow> uuid \<Rightarrow> string \<Rightarrow> uuid option \<Rightarrow> agent_handoff_event eff" where
  "update_agent_handoff_event_escalation S i human_escalation_status audit_trace_id =
     bindS (now_utc S) (\<lambda>updated_at.
     bindS (get_agent_handoff_event i) (\<lambda>event w.
     let event' = event\<lparr>he_human_escalation_status := human_escalation_status,
           he_review_status := (if human_escalation_status = ''requested'' then ''human_review_required''
             else he_review_status event),
           he_audit_trace_id := audit_trace_id, he_updated_at := updated_at\<rparr>
     in (Inr event', w\<lparr>agent_handoff_events := tput i event' (agent_handoff_events w)\<rparr>)))"

definition list_agent_handoff_assignments :: "sys \<Rightarrow> uuid option \<Rightarrow> agent_handoff_assignment list eff" where
  "list_agent_handoff_assignments S session_id = asks (\<lambda>w.
     sort_key ha_created_at
       (filter (\<lambda>a. is_none_or session_id (\<lambda>i. ha_source_session_id a = i \<or> ha_specialist_session_id a = i))
         (tvalues S w (agent_handoff_assignments w))))"

definition get_agent_handoff_assignment :: "uuid \<Rightarrow> agent_handoff_assignment eff" where
  "get_agent_handoff_assignment i = asksr (\<lambda>w.
     ok_or (not_found ''agent handoff assignment not found'') (tget (agent_handoff_assignments w) i))"

definition assignment_for_handoff :: "sys \<Rightarrow> uuid \<Rightarrow> agent_handoff_assignment option eff" where
  "assignment_for_handoff S agent_handoff_event_id = asks (\<lambda>w.
     find_first (\<lambda>a. ha_agent_handoff_event_id a = agent_handoff_event_id)
       (tvalues S w (agent_handoff_assignments w)))"

definition create_agent_handoff_assignment :: "agent_handoff_assignment \<Rightarrow> agent_handoff_assignment eff" where
  "create_agent_handoff_assignment assignment w =
     (if list_ex (\<lambda>(i, existing). ha_agent_handoff_event_id existing = ha_agent_handoff_event_id assignment)
           (agent_handoff_assignments w)
      then (Inl (bad_request ''agent handoff already has an assignment''), w)
      else (Inr assignment, w\<lparr>agent_handoff_assignments :=
              tput (ha_id assignment) assignment (agent_handoff_assignments w)\<rparr>))"

definition update_agent_handoff_assignment_audit_trace :: "sys \<Rightarrow> uuid \<Rightarrow> uuid \<Rightarrow> agent_handoff_assignment eff" where
  "update_agent_handoff_assignment_audit_trace S i audit_trace_id =
     bindS (now_utc S) (\<lambda>updated_at.
     bindS (get_agent_handoff_assignment i) (\<lambda>assignment w.
     let assignment' = assignment\<lparr>ha_audit_trace_id := Some audit_trace_id, ha_updated_at := updated_at\<rparr>
     in (Inr assignment', w\<lparr>agent_handoff_assignments := tput i assignment' (agent_handoff_assignments w)\<rparr>)))"

definition merge_agent_handoff_assignment_metadata :: "json \<Rightarrow> json \<Rightarrow> json" where
  "merge_agent_handoff_assignment_metadata existing patch =
     (case (existing, patch) of
        (JObj old, JObj new) \<Rightarrow> JObj (foldl (\<lambda>m (key, v). obj_insert key v m) old new)
      | _ \<Rightarrow> patch)"

definition attach_assignment_remote_computer_job
    :: "sys \<Rightarrow> uuid \<Rightarrow> uuid \<Rightarrow> json \<Rightarrow> agent_handoff_assignment eff" where
  "attach_assignment_remote_computer_job S i remote_computer_job_assignment_id metadata =
     bindS (now_utc S) (\<lambda>updated_at.
     bindS (get_agent_handoff_assignment i) (\<lambda>assignment w.
     let assignment' = assignment\<lparr>ha_remote_computer_job_assignment_id := Some remote_computer_job_assignment_id,
           ha_status := ''assigned'',
           ha_metadata := merge_agent_handoff_assignment_metadata (ha_metadata assignment) metadata,
           ha_updated_at := updated_at\<rparr>
     in (Inr assignment', w\<lparr>agent_handoff_assignments := tput i assignment' (agent_handoff_assignments w)\<rparr>)))"

section \<open>Threads of handoffs (store_session_threads.rs)\<close>

definition session_thread_for_handoff :: "sys \<Rightarrow> uuid \<Rightarrow> session_thread option eff" where
  "session_thread_for_handoff S source_handoff_id = asks (\<lambda>w.
     find_first (\<lambda>t. st_source_handoff_id t = Some source_handoff_id) (tvalues S w (session_threads w)))"

definition update_session_thread_status :: "sys \<Rightarrow> uuid \<Rightarrow> string \<Rightarrow> session_thread eff" where
  "update_session_thread_status S i status =
     bindS (now_utc S) (\<lambda>updated_at.
     bindS (asksr (\<lambda>w. ok_or (not_found ''session thread not found'') (tget (session_threads w) i))) (\<lambda>thread w.
     let thread' = thread\<lparr>st_status := status, st_updated_at := updated_at\<rparr>
     in (Inr thread', w\<lparr>session_threads := tput i thread' (session_threads w)\<rparr>)))"

section \<open>Records of handoffs (session_handoff_runtime.rs)\<close>

definition record_agent_handoff_audit_and_event
    :: "sys \<Rightarrow> agent_handoff_event \<Rightarrow> string \<Rightarrow> string option \<Rightarrow> audit_log eff" where
  "record_agent_handoff_audit_and_event S handoff action reason =
     (let X = lib S;
          details = mk_obj
            [(''agent_handoff_event_id'', jid X (he_id handoff)),
             (''source_session_id'', jid X (he_source_session_id handoff)),
             (''source_agent_id'', jid X (he_source_agent_id handoff)),
             (''target_agent_id'', jid X (he_target_agent_id handoff)),
             (''manager_plan_id'', jid_opt X (he_manager_plan_id handoff)),
             (''intent'', JStr (he_intent handoff)), (''schema_version'', JStr (he_schema_version handoff)),
             (''risk_level'', JStr (he_risk_level handoff)),
             (''approval_required'', JBool (he_approval_required handoff)),
             (''semantic_scopes'', he_semantic_scopes handoff),
             (''runtime_profile_id'', jid_opt X (he_runtime_profile_id handoff)),
             (''remote_computer_required'', JBool (he_remote_computer_required handoff)),
             (''review_status'', JStr (he_review_status handoff)),
             (''human_escalation_status'', JStr (he_human_escalation_status handoff)),
             (''status'', JStr (he_status handoff)), (''reason'', jstr_opt reason)] in
      bindS (append_event S ''agent'' (Some (he_source_agent_id handoff)) (he_source_session_id handoff)
               action details) (\<lambda>_.
      bindS (new_audit_log S (Some (he_source_session_id handoff)) ''agent'' (Some (he_source_agent_id handoff))
               action ''agent_handoff_event'' (Some (he_id handoff)) details) append_audit_log))"

definition record_agent_handoff_assignment_audit_and_events
    :: "sys \<Rightarrow> agent_handoff_assignment \<Rightarrow> agent_handoff_event \<Rightarrow> audit_log eff" where
  "record_agent_handoff_assignment_audit_and_events S assignment handoff =
     (let X = lib S;
          details = mk_obj
            [(''agent_handoff_assignment_id'', jid X (ha_id assignment)),
             (''agent_handoff_event_id'', jid X (ha_agent_handoff_event_id assignment)),
             (''manager_plan_id'', jid X (ha_manager_plan_id assignment)),
             (''source_session_id'', jid X (ha_source_session_id assignment)),
             (''specialist_session_id'', jid X (ha_specialist_session_id assignment)),
             (''source_agent_id'', jid X (ha_source_agent_id assignment)),
             (''target_agent_id'', jid X (ha_target_agent_id assignment)),
             (''intent'', JStr (he_intent handoff)), (''risk_level'', JStr (he_risk_level handoff)),
             (''approval_required'', JBool (he_approval_required handoff)),
             (''semantic_scopes'', ha_semantic_scopes assignment),
             (''runtime_profile_id'', jid_opt X (ha_runtime_profile_id assignment)),
             (''remote_computer_required'', JBool (ha_remote_computer_required assignment)),
             (''remote_computer_job_assignment_id'', jid_opt X (ha_remote_computer_job_assignment_id assignment)),
             (''status'', JStr (ha_status assignment)), (''assigned_by'', jstr_opt (ha_assigned_by assignment)),
             (''metadata'', ha_metadata assignment)] in
      bindS (append_event S ''agent'' (Some (ha_source_agent_id assignment)) (ha_source_session_id assignment)
               ''agent_handoff.assigned'' details) (\<lambda>_.
      bindS (append_event S ''agent'' (Some (ha_source_agent_id assignment)) (ha_specialist_session_id assignment)
               ''agent_handoff.assignment_received'' details) (\<lambda>_.
      bindS (new_audit_log S (Some (ha_source_session_id assignment)) ''agent''
               (Some (ha_source_agent_id assignment)) ''agent_handoff.assigned'' ''agent_handoff_assignment''
               (Some (ha_id assignment)) details) append_audit_log)))"

definition record_assignment_remote_computer_event
    :: "sys \<Rightarrow> agent_handoff_assignment \<Rightarrow> remote_computer_job_assignment \<Rightarrow> unit eff" where
  "record_assignment_remote_computer_event S assignment remote =
     (let X = lib S; kind = ''agent_handoff.remote_computer_assignment_attached'';
          details = mk_obj
            [(''agent_handoff_assignment_id'', jid X (ha_id assignment)),
             (''agent_handoff_event_id'', jid X (ha_agent_handoff_event_id assignment)),
             (''manager_plan_id'', jid X (ha_manager_plan_id assignment)),
             (''source_session_id'', jid X (ha_source_session_id assignment)),
             (''specialist_session_id'', jid X (ha_specialist_session_id assignment)),
             (''remote_computer_job_assignment_id'', jid X (rj_id remote)),
             (''execution_job_id'', jid X (rj_execution_job_id remote)),
             (''remote_computer_id'', jid X (rj_remote_computer_id remote)),
             (''lease_id'', jid X (rj_lease_id remote)), (''status'', JStr (ha_status assignment)),
             (''metadata'', ha_metadata assignment)] in
      bindS (append_event S ''system'' (Some (rj_id remote)) (ha_source_session_id assignment) kind details) (\<lambda>_.
      bindS (append_event S ''system'' (Some (rj_id remote)) (ha_specialist_session_id assignment) kind details) (\<lambda>_.
      bindS (new_audit_log S (Some (ha_specialist_session_id assignment)) ''system'' (Some (rj_id remote)) kind
               ''agent_handoff_assignment'' (Some (ha_id assignment)) details) (\<lambda>entry.
      bindS (append_audit_log entry) (\<lambda>_. retS ())))))"

text \<open>The change of a thread, told to the session it belongs to and to the specialist's.\<close>

definition tell_thread_status :: "sys \<Rightarrow> session_thread \<Rightarrow> uuid \<Rightarrow> uuid option \<Rightarrow> string \<Rightarrow> unit eff" where
  "tell_thread_status S thread source specialist kind =
     bindS (append_event S ''system'' (Some (st_id thread)) source kind
              (session_thread_event_payload (lib S) thread)) (\<lambda>_.
     case specialist of
       None \<Rightarrow> retS ()
     | Some session_id \<Rightarrow>
         bindS (append_event S ''system'' (Some (st_id thread)) session_id kind
                  (session_thread_event_payload (lib S) thread)) (\<lambda>_. retS ()))"

section \<open>Requests for a handoff (session_handoff_runtime.rs, store_entities.rs)\<close>

definition ensure_session_runnable :: "sys \<Rightarrow> handoff_peers \<Rightarrow> uuid \<Rightarrow> unit eff" where
  "ensure_session_runnable S H session_id =
     (if \<not> agent_release_enforcement_required S then retS ()
      else bindS (get_session session_id) (\<lambda>session.
      bindS (get_agent S (se_agent_id session)) (\<lambda>agent.
      thenS (guardS (ag_release_state agent \<noteq> ''disabled'') (forbidden ''agent is disabled''))
      (thenS (governed_runtime_environment H (se_environment_id session))
      (bindS (liftS (ok_or (forbidden ''production session must pin an agent version'')
                (se_agent_version_id session))) (\<lambda>pinned_version_id.
      bindS (agent_version_for_session S session_id) (\<lambda>version.
      thenS (guardS (av_id version = pinned_version_id \<and> av_agent_id version = se_agent_id session)
        (forbidden ''production session agent version binding is invalid''))
        (governed_session_version H (se_agent_id session) version (se_environment_id session)))))))))"

record create_agent_handoff_input =
  ci_target_agent_id :: uuid
  ci_manager_plan_id :: "uuid option"
  ci_intent :: string
  ci_payload :: json
  ci_schema_version :: string
  ci_risk_level :: string
  ci_approval_required :: bool
  ci_semantic_scopes :: "json option"
  ci_runtime_profile_id :: "uuid option"
  ci_remote_computer_required :: "bool option"
  ci_review_status :: "string option"
  ci_human_escalation_status :: "string option"

text \<open>The plan a handoff names: of the session, its manager, and for that specialist.\<close>

definition handoff_plan :: "uuid \<Rightarrow> session \<Rightarrow> create_agent_handoff_input \<Rightarrow> manager_agent_plan option eff" where
  "handoff_plan session_id session input =
     (case ci_manager_plan_id input of
        None \<Rightarrow> retS None
      | Some plan_id \<Rightarrow>
          bindS (get_manager_agent_plan plan_id) (\<lambda>plan.
          thenS (guardS (mp_session_id plan = session_id)
            (bad_request ''manager_plan_id must belong to the source session''))
          (thenS (guardS (mp_manager_agent_id plan = se_agent_id session)
            (bad_request ''manager_plan_id must belong to the source manager agent''))
          (thenS (guardS (is_none_or (mp_specialist_agent_id plan) (\<lambda>i. i = ci_target_agent_id input))
            (bad_request ''manager_plan_id specialist does not match target_agent_id''))
            (retS (Some plan))))))"

text \<open>The profile a handoff runs with: that of the version as it was pinned, if it is the one.\<close>

definition handoff_runtime_profile
    :: "handoff_peers \<Rightarrow> agent_version \<Rightarrow> uuid option \<Rightarrow> runtime_profile option eff" where
  "handoff_runtime_profile H target_version runtime_profile_id =
     (case runtime_profile_id of
        None \<Rightarrow> retS None
      | Some profile_id \<Rightarrow>
          if Some profile_id = av_runtime_profile_id target_version
             \<and> is_some_and (as_object (av_runtime_profile_snapshot target_version)) (\<lambda>m. m \<noteq> [])
          then bindS (liftS (runtime_profile_from_value H (av_runtime_profile_snapshot target_version)))
                 (\<lambda>p. retS (Some p))
          else bindS (get_agent_runtime_profile H profile_id) (\<lambda>p. retS (Some p)))"

definition profile_requires_remote_computer :: "json \<Rightarrow> bool" where
  "profile_requires_remote_computer profile = unwrap_or (jget_bool profile ''required'') False"

definition environment_requires_remote_computer :: "handoff_peers \<Rightarrow> uuid option \<Rightarrow> bool eff" where
  "environment_requires_remote_computer H environment_id =
     (case environment_id of
        None \<Rightarrow> retS False
      | Some i \<Rightarrow>
          bindS (handoff_environment_of H i) (\<lambda>environment.
          let here = (hv_environment_type environment = ''remote_computer''
                \<or> profile_requires_remote_computer (hv_remote_computer_profile environment)) in
          case hv_runtime_profile_id environment of
            None \<Rightarrow> retS here
          | Some profile_id \<Rightarrow>
              bindS (get_agent_runtime_profile H profile_id) (\<lambda>profile.
                retS (here \<or> rp_remote_computer_required profile))))"

definition submit_agent_handoff :: "sys \<Rightarrow> (uuid \<Rightarrow> timestamp \<Rightarrow> agent_handoff_event) \<Rightarrow> agent_handoff_event eff" where
  "submit_agent_handoff S event_of =
     bindS (now_utc S) (\<lambda>now. bindS (new_v4 S) (\<lambda>i.
     bindS (create_agent_handoff_event (event_of i now)) (\<lambda>event.
     bindS (record_agent_handoff_audit_and_event S event ''agent_handoff.requested'' None) (\<lambda>entry.
       update_agent_handoff_event_status S (he_id event) ''requested'' (Some (al_id entry))))))"

definition create_agent_handoff_event_for_session
    :: "sys \<Rightarrow> peers \<Rightarrow> handoff_peers \<Rightarrow> uuid \<Rightarrow> create_agent_handoff_input \<Rightarrow> agent_handoff_event eff" where
  "create_agent_handoff_event_for_session S P H session_id input =
     (let X = lib S; enforced = agent_release_enforcement_required S in
      bindS (get_session session_id) (\<lambda>session.
      thenS (ensure_session_runnable S H (se_id session))
      (thenS (if enforced then bindS (require_active_task_grant_for_session S (se_id session)) (\<lambda>_. retS ())
              else retS ())
      (bindS (agent_version_for_session S session_id) (\<lambda>source_version.
      bindS (get_agent S (ci_target_agent_id input)) (\<lambda>target_agent.
      thenS (guardS (ag_agent_role target_agent = ''specialist'')
        (bad_request ''agent handoff target must be a specialist agent''))
      (bindS (handoff_plan session_id session input) (\<lambda>manager_plan.
      bindS (liftS (validate_handoff_token ''intent'' (ci_intent input))) (\<lambda>intent.
      bindS (liftS (validate_handoff_schema_version (ci_schema_version input))) (\<lambda>schema_version.
      bindS (liftS (normalize_handoff_risk_level (ci_risk_level input))) (\<lambda>risk_level.
      thenS (guardS (risk_level \<noteq> ''high'' \<or> ci_approval_required input)
        (bad_request ''high-risk handoffs must require approval''))
      (thenS (guardS (is_object (ci_payload input)) (bad_request ''handoff payload must be a JSON object''))
      (bindS (liftS (matching_handoff_rule X (av_runtime_config source_version) (ci_target_agent_id input)
                intent schema_version risk_level (ci_approval_required input))) (\<lambda>rule.
      bindS (liftS (validate_handoff_payload_schema (ci_payload input) (jget rule ''payload_schema''))) (\<lambda>_.
      bindS (runnable_agent_version S P (ci_target_agent_id input) (se_environment_id session)) (\<lambda>target_version.
      bindS (liftS (normalize_handoff_semantic_scopes
                (unwrap_or (ci_semantic_scopes input) (av_semantic_scopes target_version)))) (\<lambda>semantic_scopes.
      thenS (guardS (\<not> (enforced \<and> ci_runtime_profile_id input \<noteq> None
                \<and> ci_runtime_profile_id input \<noteq> av_runtime_profile_id target_version))
        (forbidden ''production handoff runtime profile must match the promoted target agent version''))
      (let runtime_profile_id = opt_or (ci_runtime_profile_id input) (av_runtime_profile_id target_version) in
      bindS (handoff_runtime_profile H target_version runtime_profile_id) (\<lambda>runtime_profile.
      bindS (environment_requires_remote_computer H (se_environment_id session)) (\<lambda>environment_requires.
      let governed = (profile_requires_remote_computer (av_remote_computer_profile target_version)
            \<or> is_some_and runtime_profile rp_remote_computer_required \<or> environment_requires) in
      thenS (guardS (\<not> (enforced \<and> governed \<and> ci_remote_computer_required input = Some False))
        (forbidden ''production handoff cannot disable the governed Remote Computer requirement''))
      (bindS (liftS (normalize_handoff_review_status (unwrap_or (ci_review_status input)
                (default_handoff_review_status (map_option mp_status manager_plan))))) (\<lambda>review_status.
      bindS (liftS (normalize_handoff_human_escalation_status
                (unwrap_or (ci_human_escalation_status input) ''none''))) (\<lambda>human_escalation_status.
      submit_agent_handoff S (\<lambda>i now.
        \<lparr>he_id = i, he_source_session_id = session_id, he_source_agent_id = se_agent_id session,
         he_target_agent_id = ci_target_agent_id input, he_manager_plan_id = ci_manager_plan_id input,
         he_intent = intent, he_payload = ci_payload input, he_schema_version = schema_version,
         he_risk_level = risk_level, he_approval_required = ci_approval_required input,
         he_semantic_scopes = semantic_scopes, he_runtime_profile_id = runtime_profile_id,
         he_remote_computer_required = unwrap_or (ci_remote_computer_required input) governed,
         he_review_status = review_status, he_human_escalation_status = human_escalation_status,
         he_status = ''requested'', he_audit_trace_id = None, he_created_at = now, he_updated_at = now\<rparr>))))))))))))))))))))))))"

definition create_agent_handoff
    :: "sys \<Rightarrow> peers \<Rightarrow> approval_peers \<Rightarrow> handoff_peers \<Rightarrow> principal \<Rightarrow> uuid \<Rightarrow> create_agent_handoff_input \<Rightarrow>
        agent_handoff_event eff" where
  "create_agent_handoff S P A H who session_id input =
     thenS (authorize_principal_request A who SessionsRun ''session'' (Some session_id))
       (create_agent_handoff_event_for_session S P H session_id input)"

section \<open>Assignment to a specialist\<close>

text \<open>The grant of the specialist's session: what the manager's has left, narrowed.\<close>

definition child_handoff_grant
    :: "sys \<Rightarrow> uuid \<Rightarrow> uuid \<Rightarrow> workflow_run \<Rightarrow> task_grant \<Rightarrow> agent_handoff_event \<Rightarrow> agent_handoff_assignment \<Rightarrow>
        manager_agent_plan \<Rightarrow> agent \<Rightarrow> agent_version \<Rightarrow> uuid \<Rightarrow> task_grant_remaining_budgets \<Rightarrow> json \<times> json \<Rightarrow>
        timestamp \<Rightarrow> task_grant" where
  "child_handoff_grant S i step_id run parent_grant handoff assignment manager_plan target_agent
       specialist_version specialist_session_id remaining scopes now =
     \<lparr>tg_id = i, tg_workflow_run_id = wr_id run, tg_workflow_step_run_id = Some step_id,
      tg_session_id = Some specialist_session_id, tg_parent_grant_id = Some (tg_id parent_grant),
      tg_source_event_id = None, tg_source_handoff_id = Some (he_id handoff),
      tg_issuer_subject = unwrap_or (ha_assigned_by assignment) ''system'',
      tg_grantee_agent_id = Some (ag_id target_agent), tg_grantee_session_id = Some specialist_session_id,
      tg_agent_class = Some ''specialist'',
      tg_objective = unwrap_or (trimmed_text (jget_str (mp_task_intake manager_plan) ''goal'')) (he_intent handoff),
      tg_risk_level = he_risk_level handoff, tg_status = ''active'', tg_expires_at = tg_expires_at parent_grant,
      tg_max_turns = rb_max_turns remaining, tg_max_tool_calls = rb_max_tool_calls remaining,
      tg_max_runtime_seconds = rb_max_runtime_seconds remaining,
      tg_max_cost_usd_micros = rb_max_cost_usd_micros remaining,
      tg_turns_used = 0, tg_tool_calls_used = 0, tg_cost_usd_micros_used = 0,
      tg_semantic_scopes = he_semantic_scopes handoff,
      tg_memory_scope = child_handoff_memory_scope (tg_memory_scope parent_grant),
      tg_tool_scope = child_tool_scope_for_tools (set_iter S) (tg_tool_scope parent_grant)
                        (av_tools specialist_version),
      tg_connector_scope = fst scopes, tg_approval_policy = tg_approval_policy parent_grant,
      tg_external_effects = snd scopes, tg_context_packet_id = None,
      tg_policy_revision_id = tg_policy_revision_id parent_grant,
      tg_immutable_args_hash = None, tg_audit_trace_id = None, tg_created_at = now, tg_updated_at = now\<rparr>"

definition handoff_step
    :: "ext \<Rightarrow> uuid \<Rightarrow> workflow_run \<Rightarrow> agent_handoff_event \<Rightarrow> agent_handoff_assignment \<Rightarrow> manager_agent_plan \<Rightarrow> agent \<Rightarrow>
        session \<Rightarrow> session_thread \<Rightarrow> uuid \<Rightarrow> timestamp \<Rightarrow> workflow_step_run" where
  "handoff_step X step_id run handoff assignment manager_plan target_agent specialist_session child_thread
       grant_id now =
     \<lparr>sr_id = step_id, sr_workflow_run_id = wr_id run, sr_step_key = he_intent handoff,
      sr_step_type = ''handoff'', sr_agent_id = Some (ag_id target_agent),
      sr_agent_version_id = se_agent_version_id specialist_session,
      sr_session_id = Some (se_id specialist_session), sr_thread_id = Some (st_id child_thread),
      sr_handoff_id = Some (he_id handoff), sr_task_grant_id = Some grant_id,
      sr_environment_id = se_environment_id specialist_session,
      sr_status = (if ha_status assignment = ''waiting_remote_computer'' then ''requires_action'' else ''queued''),
      sr_input_payload = mk_obj
        [(''agent_handoff_assignment_id'', jid X (ha_id assignment)),
         (''agent_handoff_event_id'', jid X (he_id handoff)), (''manager_plan_id'', jid X (mp_id manager_plan)),
         (''payload'', he_payload handoff), (''semantic_scopes'', he_semantic_scopes handoff),
         (''remote_computer_required'', JBool (ha_remote_computer_required assignment))],
      sr_output_payload = empty_json_object, sr_artifact_ids = [], sr_approval_ids = [],
      sr_tool_call_ids = [], sr_claimed_by_worker = None, sr_claim_owner_version = 0,
      sr_lease_expires_at = None, sr_context_packet_id = None, sr_started_at = None,
      sr_completed_at = None, sr_scheduled_at = None, sr_created_at = now, sr_updated_at = now\<rparr>"

definition materialize_workflow_handoff_assignment
    :: "sys \<Rightarrow> agent_handoff_event \<Rightarrow> agent_handoff_assignment \<Rightarrow> manager_agent_plan \<Rightarrow> agent \<Rightarrow> session \<Rightarrow>
        session_thread \<Rightarrow> (workflow_step_run \<times> task_grant) option eff" where
  "materialize_workflow_handoff_assignment S handoff assignment manager_plan target_agent specialist_session
       child_thread =
     bindS (active_task_grant_for_session S (he_source_session_id handoff)) (\<lambda>found.
     case found of
       None \<Rightarrow> retS None
     | Some (run, parent_grant) \<Rightarrow>
         thenS (not_denied (workflow_run_execution_denial (wr_status run)))
         (bindS (agent_version_for_session S (se_id specialist_session)) (\<lambda>specialist_version.
         bindS (new_v4 S) (\<lambda>step_id. bindS (now_utc S) (\<lambda>now.
         bindS (liftS (task_grant_remaining_budgets parent_grant now)) (\<lambda>remaining.
         bindS (liftS (child_connector_scopes_for_agent_version (tg_connector_scope parent_grant)
                  (tg_external_effects parent_grant) specialist_version)) (\<lambda>scopes.
         bindS (new_v4 S) (\<lambda>grant_id.
         let child_grant = child_handoff_grant S grant_id step_id run parent_grant handoff assignment
               manager_plan target_agent specialist_version (se_id specialist_session) remaining scopes now in
         bindS (liftS (validate_task_grant_scope_objects child_grant)) (\<lambda>_.
         bindS (liftS (ensure_child_task_grant_within_parent parent_grant child_grant)) (\<lambda>_.
         bindS (create_workflow_step_run_with_task_grant S
           (handoff_step (lib S) step_id run handoff assignment manager_plan target_agent specialist_session
              child_thread grant_id now) child_grant) (\<lambda>(step, created_grant).
         thenS (record_task_grant_issued S created_grant (wr_primary_session_id run))
         (thenS (record_workflow_step_run_created S run step)
           (retS (Some (step, created_grant)))))))))))))))"

definition create_handoff_session_thread
    :: "sys \<Rightarrow> agent_handoff_assignment \<Rightarrow> agent_handoff_event \<Rightarrow> session \<Rightarrow> uuid option \<Rightarrow> session_thread eff" where
  "create_handoff_session_thread S assignment handoff specialist_session parent_thread_id =
     (let X = lib S in
      bindS (session_thread_for_handoff S (he_id handoff)) (\<lambda>existing.
      case existing of
        Some thread \<Rightarrow> retS thread
      | None \<Rightarrow>
          bindS (now_utc S) (\<lambda>now. bindS (new_v4 S) (\<lambda>i.
          create_session_thread
            \<lparr>st_id = i, st_session_id = he_source_session_id handoff, st_parent_thread_id = parent_thread_id,
             st_thread_kind = ''specialist'', st_agent_id = ha_target_agent_id assignment,
             st_agent_version_id = se_agent_version_id specialist_session,
             st_environment_id = se_environment_id specialist_session,
             st_source_handoff_id = Some (he_id handoff),
             st_specialist_session_id = Some (se_id specialist_session),
             st_status = (if ha_status assignment = ''waiting_remote_computer'' then ''waiting_environment''
                          else ''running''),
             st_title = se_title specialist_session,
             st_context = mk_obj
               [(''origin'', JStr ''agent_handoff''), (''agent_handoff_assignment_id'', jid X (ha_id assignment)),
                (''agent_handoff_event_id'', jid X (he_id handoff)),
                (''manager_plan_id'', jid X (ha_manager_plan_id assignment)), (''intent'', JStr (he_intent handoff)),
                (''risk_level'', JStr (he_risk_level handoff)),
                (''approval_required'', JBool (he_approval_required handoff)),
                (''semantic_scopes'', ha_semantic_scopes assignment),
                (''remote_computer_required'', JBool (ha_remote_computer_required assignment)),
                (''remote_computer_job_assignment_id'',
                  jid_opt X (ha_remote_computer_job_assignment_id assignment))],
             st_created_at = now, st_updated_at = now\<rparr>))))"

definition show_bool :: "bool \<Rightarrow> string" where
  "show_bool b = (if b then ''true'' else ''false'')"

definition default_handoff_assignment_message
    :: "ext \<Rightarrow> agent_handoff_event \<Rightarrow> manager_agent_plan \<Rightarrow> agent \<Rightarrow> string" where
  "default_handoff_assignment_message X handoff plan target_agent =
     ''Manager Agent assigned this task to specialist agent '' @ ag_name target_agent
     @ ''.'' @ [CHR 0x0A, CHR 0x0A] @ ''Intent: '' @ he_intent handoff
     @ [CHR 0x0A] @ ''Risk: '' @ he_risk_level handoff
     @ [CHR 0x0A] @ ''Remote Computer required: '' @ show_bool (he_remote_computer_required handoff)
     @ [CHR 0x0A, CHR 0x0A] @ ''Goal: ''
     @ unwrap_or (jget_str (mp_task_intake plan) ''goal'') ''Execute the assigned manager-agent handoff.''
     @ [CHR 0x0A, CHR 0x0A] @ ''Payload:'' @ [CHR 0x0A] @ json_to_string X (he_payload handoff)"

record create_agent_handoff_assignment_input =
  ca_specialist_session_id :: "uuid option"
  ca_title :: "string option"
  ca_message :: "string option"
  ca_remote_computer_job_assignment_id :: "uuid option"
  ca_assigned_by :: "string option"
  ca_metadata :: json

text \<open>What must hold of a handoff and its plan before it is assigned.\<close>

definition assignable_handoff :: "sys \<Rightarrow> handoff_peers \<Rightarrow> agent_handoff_event \<Rightarrow> (uuid \<times> manager_agent_plan \<times> agent) eff" where
  "assignable_handoff S H handoff =
     thenS (guardS (he_status handoff = ''accepted'')
       (bad_request ''agent handoff must be accepted before assignment''))
     (bindS (liftS (ok_or (bad_request ''agent handoff assignment requires manager_plan_id'')
               (he_manager_plan_id handoff))) (\<lambda>manager_plan_id.
      bindS (get_manager_agent_plan manager_plan_id) (\<lambda>plan.
      thenS (guardS (mp_status plan = ''approved'' \<or> mp_status plan = ''reviewed'')
        (bad_request ''manager plan must be reviewed or approved before handoff assignment''))
      (thenS (guardS (mp_session_id plan = he_source_session_id handoff
                \<and> mp_manager_agent_id plan = he_source_agent_id handoff)
        (bad_request ''manager plan does not match handoff source session and agent''))
      (thenS (guardS (is_none_or (mp_specialist_agent_id plan) (\<lambda>i. i = he_target_agent_id handoff))
        (bad_request ''manager plan specialist does not match handoff target agent''))
      (bindS (get_agent S (he_target_agent_id handoff)) (\<lambda>target_agent.
      thenS (guardS (ag_agent_role target_agent = ''specialist'')
        (bad_request ''agent handoff assignment target must be a specialist agent''))
      (bindS (assignment_for_handoff S (he_id handoff)) (\<lambda>existing.
      thenS (guardS (existing = None) (bad_request ''agent handoff already has an assignment''))
        (retS (manager_plan_id, plan, target_agent)))))))))))"

definition check_handoff_runtime :: "sys \<Rightarrow> handoff_peers \<Rightarrow> agent_handoff_event \<Rightarrow> uuid option \<Rightarrow> unit eff" where
  "check_handoff_runtime S H handoff remote_computer_job_assignment_id =
     thenS (case he_runtime_profile_id handoff of
         Some profile_id \<Rightarrow>
           if agent_release_enforcement_required S then retS ()
           else bindS (get_agent_runtime_profile H profile_id) (\<lambda>profile.
                guardS (rp_status profile = ''enabled'')
                  (bad_request ''agent handoff runtime profile must be enabled''))
       | None \<Rightarrow> retS ())
     (case remote_computer_job_assignment_id of
        None \<Rightarrow> retS ()
      | Some remote_assignment_id \<Rightarrow>
          bindS (list_remote_computer_job_assignments H) (\<lambda>assignments.
          bindS (liftS (ok_or (not_found ''remote computer job assignment not found'')
                    (find_first (\<lambda>a. rj_id a = remote_assignment_id) assignments))) (\<lambda>remote.
          guardS (rj_session_id remote = he_source_session_id handoff)
            (bad_request (''remote computer job assignment must belong to the source session until the ''
                          @ ''specialist execution job exists'')))))"

text \<open>The manager's grant must leave something to hand on, where there is one.\<close>

definition check_handoff_budget :: "sys \<Rightarrow> uuid \<Rightarrow> unit eff" where
  "check_handoff_budget S source_session_id =
     (if agent_release_enforcement_required S
      then bindS (require_active_task_grant_for_session S source_session_id) (\<lambda>(run, parent_grant).
           bindS (now_utc S) (\<lambda>now.
           bindS (liftS (task_grant_remaining_budgets parent_grant now)) (\<lambda>_. retS ())))
      else bindS (active_task_grant_for_session S source_session_id) (\<lambda>found.
           case found of
             None \<Rightarrow> retS ()
           | Some (run, parent_grant) \<Rightarrow>
               bindS (now_utc S) (\<lambda>now.
               bindS (liftS (task_grant_remaining_budgets parent_grant now)) (\<lambda>_. retS ()))))"

definition specialist_session_for
    :: "sys \<Rightarrow> peers \<Rightarrow> handoff_peers \<Rightarrow> agent_handoff_event \<Rightarrow> manager_agent_plan \<Rightarrow> agent \<Rightarrow> session \<Rightarrow>
        create_agent_handoff_assignment_input \<Rightarrow> session eff" where
  "specialist_session_for S P H handoff manager_plan target_agent source_session input =
     (case ca_specialist_session_id input of
        Some session_id \<Rightarrow>
          thenS (guardS (\<not> agent_release_enforcement_required S)
            (forbidden ''production handoff assignment cannot reuse an existing specialist session''))
          (bindS (get_session session_id) (\<lambda>session.
           thenS (guardS (se_agent_id session = he_target_agent_id handoff)
             (bad_request ''specialist_session_id must belong to the handoff target agent''))
           (thenS (guardS (se_environment_id session = se_environment_id source_session)
             (bad_request ''specialist_session_id must use the same environment as the source session''))
           (thenS (ensure_session_runnable S H (se_id session)) (retS session)))))
      | None \<Rightarrow>
          create_session S P
            \<lparr>cs_agent_id = he_target_agent_id handoff, cs_environment_id = se_environment_id source_session,
             cs_title = unwrap_or (ca_title input)
               (''Handoff '' @ he_intent handoff @ '' for '' @ ag_name target_agent),
             cs_message = opt_or (ca_message input)
               (Some (default_handoff_assignment_message (lib S) handoff manager_plan target_agent))\<rparr>)"

definition check_specialist_binding
    :: "sys \<Rightarrow> agent_handoff_event \<Rightarrow> session \<Rightarrow> agent_version \<Rightarrow> unit eff" where
  "check_specialist_binding S handoff specialist_session specialist_version =
     (if \<not> agent_release_enforcement_required S then retS ()
      else thenS (guardS (se_agent_version_id specialist_session = Some (av_id specialist_version)
                \<and> av_agent_id specialist_version = he_target_agent_id handoff)
             (forbidden ''production handoff specialist session version binding is invalid''))
           (guardS (he_runtime_profile_id handoff = av_runtime_profile_id specialist_version)
             (forbidden (''production handoff runtime profile no longer matches the promoted target ''
                         @ ''agent version''))))"

text \<open>
  The checks and the sessions of an assignment: the handoff, its plan, the specialist with its session,
  and the thread of the manager's session.
\<close>

definition prepare_handoff_assignment
    :: "sys \<Rightarrow> peers \<Rightarrow> approval_peers \<Rightarrow> handoff_peers \<Rightarrow> principal \<Rightarrow> uuid \<Rightarrow>
        create_agent_handoff_assignment_input \<Rightarrow>
        (agent_handoff_event \<times> uuid \<times> manager_agent_plan \<times> agent \<times> session_thread \<times> session) eff" where
  "prepare_handoff_assignment S P A H who i input =
     (let enforced = agent_release_enforcement_required S in
      bindS (get_agent_handoff_event i) (\<lambda>handoff.
      thenS (authorize_principal_request A who SessionsRun ''session'' (Some (he_source_session_id handoff)))
      (bindS (assignable_handoff S H handoff) (\<lambda>(manager_plan_id, manager_plan, target_agent).
      thenS (check_handoff_runtime S H handoff (ca_remote_computer_job_assignment_id input))
      (bindS (get_session (he_source_session_id handoff)) (\<lambda>source_session.
      thenS (ensure_session_runnable S H (se_id source_session))
      (thenS (check_handoff_budget S (se_id source_session))
      (bindS (runnable_agent_version S P (he_target_agent_id handoff) (se_environment_id source_session))
        (\<lambda>expected_target_version.
      thenS (guardS (\<not> (enforced \<and> he_runtime_profile_id handoff \<noteq> av_runtime_profile_id expected_target_version))
        (forbidden (''production handoff runtime profile no longer matches the promoted target ''
                    @ ''agent version'')))
      (bindS (ensure_primary_session_thread S (se_id source_session)) (\<lambda>parent_thread.
      bindS (specialist_session_for S P H handoff manager_plan target_agent source_session input)
        (\<lambda>specialist_session.
      bindS (agent_version_for_session S (se_id specialist_session)) (\<lambda>specialist_version.
      thenS (check_specialist_binding S handoff specialist_session specialist_version)
      (bindS (ensure_primary_session_thread S (se_id specialist_session)) (\<lambda>_.
        retS (handoff, manager_plan_id, manager_plan, target_agent, parent_thread, specialist_session))))))))))))))))"

definition new_handoff_assignment
    :: "sys \<Rightarrow> agent_handoff_event \<Rightarrow> uuid \<Rightarrow> uuid \<Rightarrow> create_agent_handoff_assignment_input \<Rightarrow> uuid \<Rightarrow>
        timestamp \<Rightarrow> agent_handoff_assignment" where
  "new_handoff_assignment S handoff manager_plan_id specialist_session_id input i now =
     \<lparr>ha_id = i, ha_agent_handoff_event_id = he_id handoff, ha_manager_plan_id = manager_plan_id,
      ha_source_session_id = he_source_session_id handoff, ha_specialist_session_id = specialist_session_id,
      ha_source_agent_id = he_source_agent_id handoff, ha_target_agent_id = he_target_agent_id handoff,
      ha_semantic_scopes = he_semantic_scopes handoff,
      ha_runtime_profile_id = (if agent_release_enforcement_required S then None else he_runtime_profile_id handoff),
      ha_remote_computer_required = he_remote_computer_required handoff,
      ha_remote_computer_job_assignment_id = ca_remote_computer_job_assignment_id input,
      ha_status = (if he_remote_computer_required handoff
          \<and> ca_remote_computer_job_assignment_id input = None then ''waiting_remote_computer'' else ''assigned''),
      ha_assigned_by = Option.bind (ca_assigned_by input) normalize_optional_text,
      ha_metadata = ca_metadata input, ha_audit_trace_id = None, ha_created_at = now, ha_updated_at = now\<rparr>"

text \<open>After an assignment is stored: its records, its thread, and its step with the grant.\<close>

definition start_handoff_assignment
    :: "sys \<Rightarrow> agent_handoff_event \<Rightarrow> manager_agent_plan \<Rightarrow> agent \<Rightarrow> session_thread \<Rightarrow> session \<Rightarrow>
        agent_handoff_assignment \<Rightarrow> agent_handoff_assignment eff" where
  "start_handoff_assignment S handoff manager_plan target_agent parent_thread specialist_session created =
     bindS (record_agent_handoff_assignment_audit_and_events S created handoff) (\<lambda>entry.
     bindS (update_agent_handoff_assignment_audit_trace S (ha_id created) (al_id entry)) (\<lambda>assignment.
     bindS (create_handoff_session_thread S assignment handoff specialist_session (Some (st_id parent_thread)))
       (\<lambda>child_thread.
     bindS (materialize_workflow_handoff_assignment S handoff assignment manager_plan target_agent
              specialist_session child_thread) (\<lambda>_.
     thenS (tell_thread_status S child_thread (he_source_session_id handoff)
              (Some (se_id specialist_session)) ''thread.started'')
       (retS assignment)))))"

definition assign_agent_handoff_event
    :: "sys \<Rightarrow> peers \<Rightarrow> approval_peers \<Rightarrow> handoff_peers \<Rightarrow> principal \<Rightarrow> uuid \<Rightarrow>
        create_agent_handoff_assignment_input \<Rightarrow> agent_handoff_assignment eff" where
  "assign_agent_handoff_event S P A H who i input =
     bindS (prepare_handoff_assignment S P A H who i input)
       (\<lambda>(handoff, manager_plan_id, manager_plan, target_agent, parent_thread, specialist_session).
     bindS (now_utc S) (\<lambda>now. bindS (new_v4 S) (\<lambda>assignment_id.
     bindS (create_agent_handoff_assignment
       (new_handoff_assignment S handoff manager_plan_id (se_id specialist_session) input assignment_id now))
       (start_handoff_assignment S handoff manager_plan target_agent parent_thread specialist_session))))"

section \<open>Changes of a handoff\<close>

fun close_handoff_step_in
    :: "sys \<Rightarrow> peers \<Rightarrow> agent_handoff_event \<Rightarrow> string \<Rightarrow> workflow_run list \<Rightarrow> unit eff" where
  "close_handoff_step_in S P handoff handoff_status [] = retS ()"
| "close_handoff_step_in S P handoff handoff_status (run # runs) =
     bindS (list_workflow_step_runs S (wr_id run)) (\<lambda>steps.
     case find_first (\<lambda>step. sr_handoff_id step = Some (he_id handoff)) steps of
       None \<Rightarrow> close_handoff_step_in S P handoff handoff_status runs
     | Some step \<Rightarrow>
         if workflow_step_status_terminal (sr_status step) then retS ()
         else bindS (now_utc S) (\<lambda>now.
           bindS (update_workflow_step_run S (step\<lparr>
               sr_status := (if handoff_status = ''completed'' then ''completed'' else ''failed''),
               sr_started_at := opt_or (sr_started_at step) (Some now), sr_completed_at := Some now,
               sr_updated_at := now\<rparr>)) (\<lambda>updated.
           thenS (record_workflow_step_run_updated S run updated (sr_status step))
             (advance_workflow_graph_after_step_update S P run updated))))"

definition close_workflow_handoff_step :: "sys \<Rightarrow> peers \<Rightarrow> agent_handoff_event \<Rightarrow> string \<Rightarrow> unit eff" where
  "close_workflow_handoff_step S P handoff handoff_status =
     bindS (list_workflow_runs S) (close_handoff_step_in S P handoff handoff_status)"

definition check_handoff_transition
    :: "sys \<Rightarrow> approval_peers \<Rightarrow> handoff_peers \<Rightarrow> principal \<Rightarrow> agent_handoff_event \<Rightarrow> string \<Rightarrow> unit eff" where
  "check_handoff_transition S A H who current next_status =
     (let perm = (if next_status = ''accepted'' \<and> (he_approval_required current \<or> he_risk_level current = ''high'')
            then ApprovalsDecide else SessionsRun);
          terminal_transition = (next_status \<in> {''completed'', ''failed'', ''rejected''});
          session_id = he_source_session_id current in
      thenS (authorize_principal_request A who perm ''session'' (Some session_id))
      (thenS (if terminal_transition then retS () else ensure_session_runnable S H session_id)
      (thenS (if agent_release_enforcement_required S \<and> \<not> terminal_transition
              then bindS (require_active_task_grant_for_session S session_id) (\<lambda>_. retS ()) else retS ())
        (liftS (ensure_agent_handoff_transition (he_status current) next_status)))))"

definition close_handoff_thread :: "sys \<Rightarrow> agent_handoff_event \<Rightarrow> string \<Rightarrow> unit eff" where
  "close_handoff_thread S current next_status =
     bindS (session_thread_for_handoff S (he_id current)) (\<lambda>found.
     case found of
       None \<Rightarrow> retS ()
     | Some thread \<Rightarrow>
         bindS (update_session_thread_status S (st_id thread)
           (if next_status = ''completed'' then ''terminated'' else ''failed'')) (\<lambda>thread.
         tell_thread_status S thread (he_source_session_id current) (st_specialist_session_id thread)
           ''thread.status_changed''))"

definition transition_agent_handoff_event
    :: "sys \<Rightarrow> peers \<Rightarrow> approval_peers \<Rightarrow> handoff_peers \<Rightarrow> principal \<Rightarrow> uuid \<Rightarrow> string option \<Rightarrow> string \<Rightarrow>
        agent_handoff_event eff" where
  "transition_agent_handoff_event S P A H who i reason next_status =
     bindS (get_agent_handoff_event i) (\<lambda>current.
     thenS (check_handoff_transition S A H who current next_status)
     (bindS (record_agent_handoff_audit_and_event S current (''agent_handoff.'' @ next_status) reason) (\<lambda>entry.
      bindS (update_agent_handoff_event_status S (he_id current) next_status (Some (al_id entry))) (\<lambda>updated.
      thenS (if next_status = ''completed'' \<or> next_status = ''failed''
             then thenS (close_workflow_handoff_step S P current next_status)
                    (close_handoff_thread S current next_status)
             else retS ())
        (retS updated)))))"

definition attach_agent_handoff_remote_computer_assignment
    :: "sys \<Rightarrow> approval_peers \<Rightarrow> handoff_peers \<Rightarrow> principal \<Rightarrow> uuid \<Rightarrow> uuid \<Rightarrow> json \<Rightarrow>
        agent_handoff_assignment eff" where
  "attach_agent_handoff_remote_computer_assignment S A H who i remote_id metadata =
     bindS (get_agent_handoff_assignment i) (\<lambda>assignment.
     thenS (authorize_principal_request A who SessionsRun ''session'' (Some (ha_specialist_session_id assignment)))
     (thenS (guardS (ha_remote_computer_required assignment)
       (bad_request ''agent handoff assignment does not require Remote Computer''))
     (bindS (list_remote_computer_job_assignments H) (\<lambda>candidates.
     bindS (liftS (ok_or (not_found ''remote computer job assignment not found'')
               (find_first (\<lambda>c. rj_id c = remote_id) candidates))) (\<lambda>remote.
     thenS (guardS (rj_session_id remote = ha_specialist_session_id assignment)
       (bad_request ''remote computer job assignment must belong to the specialist session''))
     (thenS (guardS (rj_status remote = ''assigned'')
       (bad_request ''remote computer job assignment must be assigned''))
     (bindS (attach_assignment_remote_computer_job S (ha_id assignment) (rj_id remote) metadata) (\<lambda>updated.
     thenS (record_assignment_remote_computer_event S updated remote)
     (bindS (session_thread_for_handoff S (ha_agent_handoff_event_id updated)) (\<lambda>found.
     thenS (case found of
         None \<Rightarrow> retS ()
       | Some thread \<Rightarrow>
           bindS (update_session_thread_status S (st_id thread) ''running'') (\<lambda>thread.
           tell_thread_status S thread (ha_source_session_id updated)
             (Some (ha_specialist_session_id updated)) ''thread.status_changed''))
       (retS updated)))))))))))"

definition escalate_agent_handoff_event
    :: "sys \<Rightarrow> approval_peers \<Rightarrow> principal \<Rightarrow> uuid \<Rightarrow> string option \<Rightarrow> string option \<Rightarrow>
        agent_handoff_event eff" where
  "escalate_agent_handoff_event S A who i reason status =
     bindS (get_agent_handoff_event i) (\<lambda>current.
     thenS (authorize_principal_request A who ApprovalsDecide ''session'' (Some (he_source_session_id current)))
     (thenS (guardS (he_status current \<notin> {''completed'', ''rejected''})
       (bad_request ''completed or rejected handoffs cannot be escalated''))
     (bindS (liftS (normalize_handoff_human_escalation_status (unwrap_or status ''requested''))) (\<lambda>next_status.
     thenS (guardS (next_status \<noteq> ''none'')
       (bad_request ''handoff escalation status must be required, requested, or resolved''))
     (bindS (record_agent_handoff_audit_and_event S current ''agent_handoff.escalated'' reason) (\<lambda>entry.
       update_agent_handoff_event_escalation S (he_id current) next_status (Some (al_id entry))))))))"

end
