(* ===== verification/Handoff_Preservation.thy ===== *)
theory Handoff_Preservation
  imports Handoffs Tool_Preservation
begin

text \<open>
  A relation between states that the atomic operations on plans, assignments and threads keep is kept
  by planning and assigning; if the writes to handoffs keep it too, by every handler of handoffs.
\<close>

definition handoff_peers_respect :: "(world \<Rightarrow> world \<Rightarrow> bool) \<Rightarrow> handoff_peers \<Rightarrow> bool" where
  "handoff_peers_respect R H \<longleftrightarrow>
     (\<forall>e. keeps R (governed_runtime_environment H e))
     \<and> (\<forall>i v e. keeps R (governed_session_version H i v e))
     \<and> (\<forall>i. keeps R (get_agent_runtime_profile H i)) \<and> (\<forall>i. keeps R (handoff_environment_of H i))
     \<and> keeps R (list_remote_computer_job_assignments H) \<and> (\<forall>i. keeps R (ensure_work_item_exists H i))
     \<and> (\<forall>i a m p s d. keeps R (append_plan_activity H i a m p s d))"

locale planning_relation = store_relation R S P
  for R :: "world \<Rightarrow> world \<Rightarrow> bool" and S :: sys and P :: peers +
  fixes A :: approval_peers and H :: handoff_peers
  assumes plan_keeps:
      "\<And>p. keeps R (insert_manager_agent_plan p)"
      "\<And>i v s a. keeps R (update_manager_agent_plan_review S i v s a)"
    and assignment_keeps:
      "\<And>i a. keeps R (update_agent_handoff_assignment_audit_trace S i a)"
      "\<And>i j m. keeps R (attach_assignment_remote_computer_job S i j m)"
      "\<And>i s. keeps R (update_session_thread_status S i s)"
    and handoff_neighbours: "handoff_peers_respect R H"
    and scope_check: "\<And>who rq. keeps R (enforce_resource_scope A who rq)"
begin

lemma handoff_neighbour_ops:
  "keeps R (governed_runtime_environment H e)" "keeps R (governed_session_version H i v e)"
  "keeps R (get_agent_runtime_profile H i)" "keeps R (handoff_environment_of H i)"
  "keeps R (list_remote_computer_job_assignments H)" "keeps R (ensure_work_item_exists H i)"
  "keeps R (append_plan_activity H i act m p s d)"
  using handoff_neighbours by (simp_all add: handoff_peers_respect_def)

lemma handoff_readers_keep:
  "keeps R (get_manager_agent_plan i)" "keeps R (get_agent_handoff_event i)"
  "keeps R (get_agent_handoff_assignment i)" "keeps R (assignment_for_handoff S i)"
  "keeps R (session_thread_for_handoff S i)" "keeps R (agent_version_for_session S i)"
  unfolding get_manager_agent_plan_def get_agent_handoff_event_def get_agent_handoff_assignment_def
    assignment_for_handoff_def session_thread_for_handoff_def agent_version_for_session_def
  by (intro ops4)+

lemma authorize_principal_keeps: "keeps R (authorize_principal_request A who perm rt rid)"
  unfolding authorize_principal_request_def Let_def by (intro ops4 scope_check)

lemma runnable_keeps: "keeps R (runnable_agent_version S P i e)"
  unfolding runnable_agent_version_def by (intro ops4)

lemmas handoff_ops = ops4 not_denied_keeps plan_keeps assignment_keeps handoff_neighbour_ops
  handoff_readers_keep authorize_principal_keeps runnable_keeps active_grant_keeps

lemma new_entry_keeps: "keeps R (bindS (new_audit_log S s aty aid ac rt rid d) append_audit_log)"
  unfolding new_audit_log_def by (intro handoff_ops)

lemma handoff_records_keep:
  "keeps R (record_manager_agent_plan_audit_and_event S p act)"
  "keeps R (record_manager_agent_plan_work_item_activity S H p act)"
  "keeps R (record_agent_handoff_audit_and_event S h act re)"
  "keeps R (record_agent_handoff_assignment_audit_and_events S a h)"
  "keeps R (record_assignment_remote_computer_event S a j)"
  "keeps R (tell_thread_status S t i si k)"
  unfolding record_manager_agent_plan_audit_and_event_def
    record_manager_agent_plan_work_item_activity_def record_agent_handoff_audit_and_event_def
    record_agent_handoff_assignment_audit_and_events_def record_assignment_remote_computer_event_def
    tell_thread_status_def new_audit_log_def Let_def
  by (intro handoff_ops new_entry_keeps)+

lemma session_checks_keep:
  "keeps R (ensure_session_runnable S H i)" "keeps R (handoff_plan i s hx)"
  "keeps R (handoff_runtime_profile H v pr)" "keeps R (environment_requires_remote_computer H e)"
  "keeps R (assignable_handoff S H h)" "keeps R (check_handoff_runtime S H h r)"
  "keeps R (check_handoff_budget S i)" "keeps R (specialist_session_for S P H h p g s y)"
  "keeps R (check_specialist_binding S h s v)"
  "keeps R (create_handoff_session_thread S a h s pt)"
  unfolding check_specialist_binding_def assignable_handoff_def check_handoff_runtime_def
    check_handoff_budget_def handoff_plan_def handoff_runtime_profile_def
    environment_requires_remote_computer_def create_handoff_session_thread_def Let_def
  by (intro handoff_ops | simp only: ensure_session_runnable_def specialist_session_for_def)+

lemma materialize_handoff_keeps: "keeps R (materialize_workflow_handoff_assignment S h a p g s t)"
  unfolding materialize_workflow_handoff_assignment_def Let_def
  by (intro handoff_ops step_keeps(2); simp add: unused_def child_handoff_grant_def)

lemmas handoff_ops1 = handoff_ops handoff_records_keep session_checks_keep materialize_handoff_keeps

lemma planning_keeps:
  "keeps R (create_manager_agent_plan S A H who i x)"
  "keeps R (review_manager_agent_plan S A H who i v s)"
  unfolding create_manager_agent_plan_def review_manager_agent_plan_def
  by (intro handoff_ops1)+

lemma preparing_keeps:
  "keeps R (prepare_handoff_assignment S P A H who i y)"
  "keeps R (start_handoff_assignment S h mp g pt ss a)"
  "keeps R (attach_agent_handoff_remote_computer_assignment S A H who i j m)"
  unfolding prepare_handoff_assignment_def start_handoff_assignment_def
    attach_agent_handoff_remote_computer_assignment_def Let_def
  by (intro handoff_ops1)+

lemma close_handoff_keeps: "keeps R (close_workflow_handoff_step S P h st)"
proof -
  have "keeps R (close_handoff_step_in S P h st runs)" for runs
  proof (induction runs)
    case Nil
    show ?case unfolding close_handoff_step_in.simps by (intro handoff_ops1)
  next
    case (Cons r rs)
    show ?case
      unfolding close_handoff_step_in.simps
      by (intro handoff_ops1 update_step_keeps advance_keeps Cons.IH)
  qed
  then show ?thesis unfolding close_workflow_handoff_step_def by (intro handoff_ops1)
qed

lemma transition_parts_keep:
  "keeps R (check_handoff_transition S A H who c st)" "keeps R (close_handoff_thread S c st)"
  unfolding check_handoff_transition_def close_handoff_thread_def Let_def
  by (intro handoff_ops1)+

end

locale assignment_relation = planning_relation +
  assumes create_assignment_keeps: "\<And>a. keeps R (create_agent_handoff_assignment a)"
begin

lemma assigning_keeps: "keeps R (assign_agent_handoff_event S P A H who i y)"
  unfolding assign_agent_handoff_event_def
  by (intro handoff_ops1 preparing_keeps create_assignment_keeps)

end

locale event_relation = planning_relation +
  assumes event_keeps:
      "\<And>e. keeps R (create_agent_handoff_event e)"
      "\<And>i s a. keeps R (update_agent_handoff_event_status S i s a)"
      "\<And>i s a. keeps R (update_agent_handoff_event_escalation S i s a)"
begin

lemma request_keeps: "keeps R (create_agent_handoff S P A H who i x)"
proof -
  have "keeps R (submit_agent_handoff S event_of)" for event_of
    unfolding submit_agent_handoff_def by (intro handoff_ops1 event_keeps)
  then show ?thesis
    unfolding create_agent_handoff_def create_agent_handoff_event_for_session_def Let_def
    by (intro handoff_ops1)
qed

lemma handoff_handlers_keep:
  "keeps R (transition_agent_handoff_event S P A H who i re st)"
  "keeps R (escalate_agent_handoff_event S A who i re es)"
  unfolding transition_agent_handoff_event_def escalate_agent_handoff_event_def Let_def
  by (intro handoff_ops1 event_keeps close_handoff_keeps transition_parts_keep)+

end

locale handoff_relation = assignment_relation R S P A H + event_relation R S P A H
  for R :: "world \<Rightarrow> world \<Rightarrow> bool" and S :: sys and P :: peers and A :: approval_peers and H :: handoff_peers

section \<open>What can happen to handoffs\<close>

text \<open>One handler of plans or handoffs, run to its end.\<close>

inductive handoff_operation
  :: "sys \<Rightarrow> peers \<Rightarrow> approval_peers \<Rightarrow> handoff_peers \<Rightarrow> world \<Rightarrow> world \<Rightarrow> bool" for S P A H where
  plan: "handoff_operation S P A H w (snd (create_manager_agent_plan S A H who i x w))"
| review: "handoff_operation S P A H w (snd (review_manager_agent_plan S A H who i v s w))"
| request: "handoff_operation S P A H w (snd (create_agent_handoff S P A H who i input w))"
| accept: "handoff_operation S P A H w (snd (transition_agent_handoff_event S P A H who i re ''accepted'' w))"
| reject: "handoff_operation S P A H w (snd (transition_agent_handoff_event S P A H who i re ''rejected'' w))"
| fail: "handoff_operation S P A H w (snd (transition_agent_handoff_event S P A H who i re ''failed'' w))"
| complete: "handoff_operation S P A H w (snd (transition_agent_handoff_event S P A H who i re ''completed'' w))"
| assign: "handoff_operation S P A H w (snd (assign_agent_handoff_event S P A H who i y w))"
| attach: "handoff_operation S P A H w (snd (attach_agent_handoff_remote_computer_assignment S A H who i j m w))"
| escalate: "handoff_operation S P A H w (snd (escalate_agent_handoff_event S A who i re es w))"

inductive_cases handoff_operationE: "handoff_operation S P A H w w'"

lemma handoff_operation_keeps:
  assumes "handoff_relation R S P A H" and "handoff_operation S P A H w w'"
  shows "R w w'"
proof -
  have a: "assignment_relation R S P A H" and e: "event_relation R S P A H"
    using assms(1) by (simp_all add: handoff_relation_def)
  then have "planning_relation R S P A H" by (simp add: assignment_relation_def)
  note keep = planning_relation.planning_keeps [OF this] planning_relation.preparing_keeps [OF this]
    assignment_relation.assigning_keeps [OF a] event_relation.request_keeps [OF e]
    event_relation.handoff_handlers_keep [OF e]
  from assms(2) show ?thesis by cases (use keep in \<open>simp_all add: keeps_def\<close>)
qed

text \<open>The operations on plans, handoffs, assignments and threads write no other table.\<close>

definition beside_handoffs :: "world \<Rightarrow> world \<Rightarrow> bool" where
  "beside_handoffs w w' \<longleftrightarrow>
     w' = w\<lparr>ticks := ticks w', session_threads := session_threads w',
            manager_agent_plans := manager_agent_plans w', agent_handoff_events := agent_handoff_events w',
            agent_handoff_assignments := agent_handoff_assignments w'\<rparr>"

lemma beside_handoffs_other:
  assumes "beside_handoffs w w'"
  shows "task_grants w' = task_grants w" "events w' = events w" "uuids w' = uuids w"
    "workflow_step_runs w' = workflow_step_runs w"
  by (subst assms [unfolded beside_handoffs_def], simp)+

lemma handoff_tables_only:
  "keeps beside_handoffs (insert_manager_agent_plan p)"
  "keeps beside_handoffs (update_manager_agent_plan_review S i v s a)"
  "keeps beside_handoffs (create_agent_handoff_assignment asg)"
  "keeps beside_handoffs (update_agent_handoff_assignment_audit_trace S i au)"
  "keeps beside_handoffs (attach_assignment_remote_computer_job S i j m)"
  "keeps beside_handoffs (update_session_thread_status S i st)"
  "keeps beside_handoffs (create_agent_handoff_event e)"
  "keeps beside_handoffs (update_agent_handoff_event_status S i st a)"
  "keeps beside_handoffs (update_agent_handoff_event_escalation S i st a)"
  by (simp_all add: keeps_def beside_handoffs_def insert_manager_agent_plan_def
      update_manager_agent_plan_review_def create_agent_handoff_assignment_def
      update_agent_handoff_assignment_audit_trace_def attach_assignment_remote_computer_job_def
      update_session_thread_status_def create_agent_handoff_event_def
      update_agent_handoff_event_status_def update_agent_handoff_event_escalation_def
      get_manager_agent_plan_def get_agent_handoff_event_def get_agent_handoff_assignment_def
      bindS_def now_utc_def eff_simps ok_or_def Let_def split: option.split)

definition handoff_neighbours_respect
    :: "(world \<Rightarrow> world \<Rightarrow> bool) \<Rightarrow> approval_peers \<Rightarrow> handoff_peers \<Rightarrow> bool" where
  "handoff_neighbours_respect R A H \<longleftrightarrow>
     handoff_peers_respect R H \<and> (\<forall>who rq. keeps R (enforce_resource_scope A who rq))"

lemma handoff_relation_of:
  assumes "store_relation R S P" and "handoff_neighbours_respect R A H"
    and "\<And>w w'. beside_handoffs w w' \<Longrightarrow> R w w'"
  shows "handoff_relation R S P A H"
proof -
  have mono: "keeps beside_handoffs m \<Longrightarrow> keeps R m" for m :: "'a eff"
    using assms(3) by (simp add: keeps_def)
  show ?thesis
    using assms(2) unfolding handoff_neighbours_respect_def
    by (intro handoff_relation.intro assignment_relation.intro event_relation.intro planning_relation.intro assms(1))
      (simp_all add: planning_relation_axioms_def assignment_relation_axioms_def event_relation_axioms_def
        mono handoff_tables_only)
qed

definition idle_handoffs :: handoff_peers where
  "idle_handoffs = \<lparr>governed_runtime_environment = (\<lambda>e. retS ()),
     governed_session_version = (\<lambda>i v e. retS ()),
     get_agent_runtime_profile = (\<lambda>i. failS (not_found ''agent runtime profile not found'')),
     runtime_profile_from_value = (\<lambda>v. Inl (forbidden ''target agent version runtime profile snapshot is invalid'')),
     handoff_environment_of = (\<lambda>i. failS (not_found ''environment not found'')),
     list_remote_computer_job_assignments = retS [], ensure_work_item_exists = (\<lambda>i. retS ()),
     append_plan_activity = (\<lambda>i a m p s d. retS ())\<rparr>"

lemma idle_handoffs_respect: "relation_on_worlds R \<Longrightarrow> handoff_peers_respect R idle_handoffs"
  by (simp add: handoff_peers_respect_def idle_handoffs_def relation_on_worlds.resp_pure)

lemma idle_scope_check: "relation_on_worlds R \<Longrightarrow> handoff_neighbours_respect R idle_approvals idle_handoffs"
  by (simp add: handoff_neighbours_respect_def idle_handoffs_respect, simp add: idle_approvals_def
      relation_on_worlds.resp_pure)

end
