(* ===== verification/Runtime.thy ===== *)
theory Runtime
  imports Grant_Invariants Tool_Grants Handoff_Preservation
begin

text \<open>
  The program as a whole: the states it can reach by running the operations of the development
  in any order, each to its end, successful or not. The invariants of the grant machine hold in
  all of them.
\<close>

section \<open>Neighbours that do nothing\<close>

text \<open>
  The neighbouring subsystems at their least: no remote computer to clean up, no ontology
  release, no governed release, no work item, no artifact. The locale of composed operations is
  interpreted on them and, below, on any neighbours that leave the grants alone.
\<close>

definition idle_peers :: peers where
  "idle_peers =
     \<lparr>cleanup_remote_computer_session_runtimes = (\<lambda>s r. retS ()),
      active_ontology_release_metadata_for_scopes = (\<lambda>v. retS None),
      generate_and_persist_context_packet = (\<lambda>s. retS 0),
      governed_pinned_version_check = (\<lambda>a v e. retS ()),
      governed_promoted_version = (\<lambda>a e. failS (forbidden ''agent release is not promoted'')),
      append_work_item_activity_entry = (\<lambda>i s t u v. retS ()),
      collect_session_runtime_refs = (\<lambda>s. retS
        \<lparr>rf_artifact_ids = [], rf_approval_ids = [], rf_tool_call_ids = []\<rparr>)\<rparr>"

lemma idle_peers_respect: "relation_on_worlds R \<Longrightarrow> peers_respect R idle_peers"
  by (simp add: peers_respect_def idle_peers_def relation_on_worlds.resp_pure)

interpretation idle: store_relation grants_follow S idle_peers for S
  by (intro grants_follow_store_relation idle_peers_respect) unfold_locales

interpretation idle_tool: tool_relation grants_follow S idle_peers idle_approvals idle_tools for S
  by (intro grants_follow_tool_relation idle_peers_respect idle_neighbours_respect) unfold_locales

section \<open>Operations\<close>

text \<open>
  One operation of the workflow runtime, run to its end. The authorisation of a claim is a check
  that changes nothing.
\<close>

inductive operation :: "sys \<Rightarrow> peers \<Rightarrow> world \<Rightarrow> world \<Rightarrow> bool" for S P where
  start: "operation S P w (snd (create_workflow_run_from_definition S P d title payload envelope w))"
| webhook: "operation S P w (snd (trigger_workflow_run_from_webhook S P i payload w))"
| claim: "(\<And>i v. snd (rq_authorize_session rq i v) = v) \<Longrightarrow>
    operation S P w (snd (claim_workflow_step_run S P rq current run agent_id lease w))"
| reconcile:
    "operation S P w (snd (reconcile_workflow_steps_after_session_loop_job S P session job worker w))"
| resume: "operation S P w (snd (resume_recorded_workflow_completion S P job w))"
| advance: "operation S P w (snd (advance_workflow_graph_after_step_update S P run step w))"
| sweep: "operation S P w (snd (execute_due_workflow_scheduled_steps S P checked_at w))"
| settle: "operation S P w (snd (update_workflow_run_status_and_record S P run status w))"
| renew: "operation S P w (snd (renew_workflow_step_run_lease S i worker seconds w))"
| tool_call:
    "operation S P w (snd (validate_task_grant_for_tool_invocation S name input a b c w))"
| turn: "operation S P w (snd (reserve_task_grant_turn S i w))"
| cost: "operation S P w (snd (add_task_grant_cost S i amount w))"
| revoke: "operation S P w (snd (update_task_grant_status S i status w))"
| issue: "operation S P w (snd (create_task_grant S g w))"

inductive_cases operationE: "operation S P w w'"

text \<open>A relation the store keeps holds before and after every operation.\<close>

lemma operation_keeps:
  assumes all: "store_relation R S P" and op: "operation S P w w'"
  shows "R w w'"
proof -
  from op show ?thesis
  proof cases
    case (claim rq current run agent_id lease)
    have "relation_on_worlds R" using all by (simp add: store_relation_def session_relation_def)
    then have "keeps R (rq_authorize_session rq i)" for i
      using claim(2) by (simp add: keeps_def relation_on_worlds.R_refl)
    then show ?thesis
      using store_relation.claim_keeps [OF all] claim(1) by (simp add: keeps_def)
  qed (use store_relation.create_run_keeps [OF all] store_relation.trigger_run_keeps [OF all]
      store_relation.reconcile_keeps [OF all] store_relation.resume_keeps [OF all]
      store_relation.advance_keeps [OF all] store_relation.sweep_keeps [OF all]
      store_relation.update_status_record_keeps [OF all] store_relation.step_keeps(7) [OF all]
      store_relation.validate_tool_invocation_keeps [OF all] store_relation.reserve_keeps [OF all]
      store_relation.grant_keeps [OF all] in \<open>simp_all add: keeps_def\<close>)
qed

section \<open>Reachable states\<close>

text \<open>
  The steps of the whole program: an operation of the workflow runtime, an invocation of a tool, a
  handler of approvals, plans or handoffs, or anything the rest of the program does that leaves the
  grants alone.
\<close>

definition neighbours_respect
    :: "(world \<Rightarrow> world \<Rightarrow> bool) \<Rightarrow> peers \<Rightarrow> approval_peers \<Rightarrow> tool_peers \<Rightarrow> handoff_peers \<Rightarrow> bool" where
  "neighbours_respect R P A T H \<longleftrightarrow> peers_respect R P \<and> approval_peers_respect R A
     \<and> tool_peers_respect R T \<and> handoff_neighbours_respect R A H"

lemma idle_all_respect:
  "relation_on_worlds R \<Longrightarrow> neighbours_respect R idle_peers idle_approvals idle_tools idle_handoffs"
  by (simp add: neighbours_respect_def idle_peers_respect idle_neighbours_respect idle_scope_check)

definition runtime_step
    :: "sys \<Rightarrow> peers \<Rightarrow> approval_peers \<Rightarrow> tool_peers \<Rightarrow> handoff_peers \<Rightarrow> world \<Rightarrow> world \<Rightarrow> bool" where
  "runtime_step S P A T H w w' \<longleftrightarrow>
     operation S P w w' \<or> tool_operation S P A T w w' \<or> handoff_operation S P A H w w'
     \<or> task_grants w' = task_grants w"

lemma grants_follow_handoff_relation:
  assumes "peers_respect grants_follow P" and "handoff_neighbours_respect grants_follow A H"
  shows "handoff_relation grants_follow S P A H"
proof (rule handoff_relation_of [OF grants_follow_store_relation [OF assms(1)] assms(2)])
  fix w w' assume "beside_handoffs w w'"
  then have "task_grants w' = task_grants w" by (rule beside_handoffs_other)
  then show "grants_follow w w'" by (simp add: grants_follow_def)
qed

interpretation idle_handoff: handoff_relation grants_follow S idle_peers idle_approvals idle_handoffs for S
proof -
  have "neighbours_respect grants_follow idle_peers idle_approvals idle_tools idle_handoffs"
    by (rule idle_all_respect) unfold_locales
  then show "handoff_relation grants_follow S idle_peers idle_approvals idle_handoffs"
    unfolding neighbours_respect_def by (intro grants_follow_handoff_relation) blast+
qed

lemma runtime_step_follows:
  assumes "neighbours_respect grants_follow P A T H" and "runtime_step S P A T H w w'"
  shows "grants_follow w w'"
proof -
  have P: "peers_respect grants_follow P" and T: "tool_relation grants_follow S P A T"
    and H: "handoff_relation grants_follow S P A H"
    using assms(1) unfolding neighbours_respect_def
    by (blast intro: grants_follow_tool_relation grants_follow_handoff_relation)+
  from assms(2) show ?thesis
    using operation_keeps [OF grants_follow_store_relation [OF P]] tool_operation_keeps [OF T]
      handoff_operation_keeps [OF H]
    by (auto simp: runtime_step_def grants_follow_def)
qed

lemma runtime_steps_follow:
  assumes "neighbours_respect grants_follow P A T H" and "(runtime_step S P A T H)\<^sup>*\<^sup>* w w'"
  shows "grants_follow w w'"
  using assms(2)
proof (induction rule: rtranclp_induct)
  case base
  show ?case by (rule grants_follow_refl)
next
  case (step u v)
  from step.IH runtime_step_follows [OF assms(1) step.hyps(2)] show ?case
    by (rule grants_follow_trans)
qed

lemma reachable_grants:
  assumes "neighbours_respect grants_follow P A T H" and "(runtime_step S P A T H)\<^sup>*\<^sup>* w w'" and "task_grants w = []"
  shows "grants_ok (task_grants w')" "budgets_ok (task_grants w')"
proof -
  have steps: "grant_step\<^sup>*\<^sup>* [] (task_grants w')"
    using runtime_steps_follow [OF assms(1,2)] assms(3) by (simp add: grants_follow_def keyed_def)
  have "grants_ok []" "budgets_ok []" by (simp_all add: grants_ok_def keyed_def budgets_ok_def)
  with grant_steps_ok [OF steps] grant_steps_budgets [OF steps]
  show "grants_ok (task_grants w')" "budgets_ok (task_grants w')" by blast+
qed

end
