(* ===== verification/Samples.thy ===== *)
theory Samples
  imports Runtime
begin

text \<open>
  A small installation, on which the properties are instantiated: one agent with one version, a
  released workflow of three steps (\<open>draft\<close>, then \<open>review\<close>, and \<open>undo\<close> as the compensation of
  \<open>review\<close>), and the functions of third-party crates at concrete, if simple, values.
\<close>

definition sample_lib :: ext where
  "sample_lib =
     \<lparr>parse_uuid = (\<lambda>s. if s = [] then None else Some (length s)),
      show_uuid = (\<lambda>u. replicate u CHR ''u''), parse_rfc3339 = (\<lambda>s. None),
      show_time = (\<lambda>t. ''t''), json_to_string = (\<lambda>v. ''{}''), sha256 = (\<lambda>bs. replicate 32 0)\<rparr>"

definition sample_sys :: sys where
  "sample_sys =
     \<lparr>lib = sample_lib, clock = (\<lambda>n. int n * 1000000000), uuid_supply = (\<lambda>n. 10 + n),
      hash_rank = (\<lambda>t k. k), set_iter = (\<lambda>s. s), agent_release_enforcement_required = False,
      configured_agent_release_environment = None\<rparr>"

definition empty_world :: world where
  "empty_world =
     \<lparr>ticks = 0, uuids = 0, agents = [], environments = [], agent_releases = [],
      agent_versions = [], sessions = [], events = [], session_loop_jobs = [],
      session_threads = [], approvals = [], approval_commit_tokens = [],
      approval_groups = [], approval_escalation_rules = [], tool_calls = [], audit_logs = [],
      workflow_definitions = [], workflow_runs = [], workflow_step_runs = [],
      workflow_transitions = [], task_grants = [], manager_agent_plans = [],
      agent_handoff_events = [], agent_handoff_assignments = [], semantic_sources = [],
      semantic_objects = [], semantic_links = [], ontology_onboarding_runs = [],
      context_packets = [], execution_jobs = []\<rparr>"

definition sample_agent :: agent where
  "sample_agent =
     \<lparr>ag_id = 1, ag_name = ''a'', ag_kind = ''k'', ag_team_id = None, ag_project_id = None,
      ag_runtime_profile_id = None, ag_agent_role = ''r'', ag_provider = [], ag_model = [],
      ag_system_prompt = [], ag_tools = [], ag_tool_policy = JNull, ag_mcp_server_ids = [],
      ag_skill_ids = [], ag_workflow_pack_ids = [], ag_remote_computer_profile = JNull,
      ag_semantic_scopes = JNull, ag_release_state = ''active'', ag_created_at = 0\<rparr>"

definition sample_version :: agent_version where
  "sample_version =
     \<lparr>av_id = 2, av_agent_id = 1, av_version = 1, av_provider = [], av_model = [],
      av_system_prompt = [], av_tools = [''search''], av_tool_names = [''search''],
      av_runtime_config = JNull, av_approval_policy = JNull, av_runtime_profile_id = None,
      av_runtime_profile_snapshot = JNull, av_mcp_server_ids = [], av_skill_ids = [],
      av_workflow_pack_ids = [], av_remote_computer_profile = JNull,
      av_semantic_scopes = JNull, av_created_at = 0\<rparr>"

definition graph_node :: "string \<Rightarrow> (string \<times> json) list \<Rightarrow> json" where
  "graph_node key entries = mk_obj ((''key'', JStr key) # entries)"

definition sample_graph :: json where
  "sample_graph = mk_obj
     [(''steps'', JArr
        [graph_node ''draft'' [],
         graph_node ''review'' [(''depends_on'', JArr [JStr ''draft''])],
         graph_node ''undo'' [(''on_failure_of'', JStr ''review'')]])]"

definition sample_definition :: "json \<Rightarrow> workflow_definition" where
  "sample_definition graph =
     \<lparr>wd_id = 3, wd_pack_installation_id = None, wd_pack_id = None, wd_pack_version = None,
      wd_name = ''w'', wd_entrypoint = [], wd_trigger_type = ''manual'', wd_default_agent_id = 1,
      wd_default_environment_id = None, wd_input_schema_ref = None, wd_output_schema_ref = None,
      wd_step_graph = graph, wd_handoff_rules = JArr [], wd_execution_strategy = ''native'',
      wd_runtime_adapter = None, wd_runtime_mode = None,
      wd_runtime_capability_contract = mk_obj [], wd_event_ingestion_policy = [],
      wd_approval_policy_ref = None, wd_eval_gate_refs = [], wd_release_state = ''released'',
      wd_created_at = 0, wd_updated_at = 0, wd_archived_at = None\<rparr>"

definition installed :: "json \<Rightarrow> world" where
  "installed graph = empty_world
     \<lparr>agents := [(1, sample_agent)], agent_versions := [(1, [sample_version])],
      workflow_definitions := [(3, sample_definition graph)]\<rparr>"

definition run_sample :: workflow_run where
  "run_sample =
     \<lparr>wr_id = 7, wr_workflow_definition_id = 3, wr_pack_installation_id = None,
      wr_source_event_id = None, wr_source_work_item_id = None, wr_source_schedule_id = None,
      wr_status = ''running'', wr_primary_session_id = 5, wr_root_task_grant_id = None,
      wr_input_payload = JObj [], wr_input_digest = [], wr_execution_strategy = ''native'',
      wr_runtime_adapter = None, wr_runtime_mode = None, wr_delegation_status = None,
      wr_external_run_ref = None, wr_runtime_event_cursor = None, wr_runtime_envelope = JObj [],
      wr_started_at = None, wr_completed_at = None, wr_audit_trace_id = None, wr_created_at = 0,
      wr_updated_at = 0\<rparr>"

definition session_sample :: session where
  "session_sample =
     \<lparr>se_id = 5, se_agent_id = 1, se_agent_version_id = Some 2, se_environment_id = None,
      se_title = ''t'', se_status = Running, se_created_at = 0, se_updated_at = 0\<rparr>"

text \<open>A run of a step.\<close>

definition step_sample :: "uuid \<Rightarrow> string \<Rightarrow> string \<Rightarrow> workflow_step_run" where
  "step_sample i key status =
     new_step_run i run_sample key ''task'' (Some 1) (Some 2) None status None (JObj []) (JObj []) 0"

text \<open>What an effect comes to, as a test that evaluates.\<close>

definition succeeds :: "'a res \<times> world \<Rightarrow> ('a \<Rightarrow> world \<Rightarrow> bool) \<Rightarrow> bool" where
  "succeeds r p = (case r of (Inr x, w) \<Rightarrow> p x w | (Inl e, w) \<Rightarrow> False)"

definition yields :: "'a res \<Rightarrow> ('a \<Rightarrow> bool) \<Rightarrow> bool" where
  "yields r p = (case r of Inr x \<Rightarrow> p x | Inl e \<Rightarrow> False)"

lemma yieldsE:
  assumes "yields r p"
  obtains x where "r = Inr x" "p x"
  using assms by (auto simp: yields_def split: sum.splits)

definition fails :: "'a res \<times> world \<Rightarrow> (app_error \<Rightarrow> world \<Rightarrow> bool) \<Rightarrow> bool" where
  "fails r p = (case r of (Inl e, w) \<Rightarrow> p e w | (Inr x, w) \<Rightarrow> False)"

lemma succeedsE:
  assumes "succeeds r p"
  obtains x w where "r = (Inr x, w)" "p x w"
  using assms by (auto simp: succeeds_def split: prod.splits sum.splits)

lemma failsE:
  assumes "fails r p"
  obtains e w where "r = (Inl e, w)" "p e w"
  using assms by (auto simp: fails_def split: prod.splits sum.splits)

end
