(* ===== verification/Delegation.thy ===== *)
theory Delegation
  imports Samples
begin

text \<open>
  The properties of task grants: what a grant permits its ancestors permit, budgets hold, a
  reservation counts once on every ancestor, a grant's history only closes.
\<close>

section \<open>A delegation of two grants\<close>

definition scoped_grant :: "uuid \<Rightarrow> uuid option \<Rightarrow> json \<Rightarrow> json \<Rightarrow> task_grant" where
  "scoped_grant i parent tools connectors =
     \<lparr>tg_id = i, tg_workflow_run_id = 7, tg_workflow_step_run_id = None, tg_session_id = Some 5,
      tg_parent_grant_id = parent, tg_source_event_id = None, tg_source_handoff_id = None,
      tg_issuer_subject = ''system'', tg_grantee_agent_id = None, tg_grantee_session_id = Some 5,
      tg_agent_class = None, tg_objective = ''o'', tg_risk_level = ''low'', tg_status = ''active'',
      tg_expires_at = None, tg_max_turns = Some 3, tg_max_tool_calls = Some 2,
      tg_max_runtime_seconds = None, tg_max_cost_usd_micros = None,
      tg_turns_used = 0, tg_tool_calls_used = 0, tg_cost_usd_micros_used = 0,
      tg_semantic_scopes = JObj [], tg_memory_scope = JObj [], tg_tool_scope = tools,
      tg_connector_scope = connectors, tg_approval_policy = JObj [],
      tg_external_effects = JObj [], tg_context_packet_id = None, tg_policy_revision_id = None,
      tg_immutable_args_hash = None, tg_audit_trace_id = None, tg_created_at = 0,
      tg_updated_at = 0\<rparr>"

definition root_sample :: task_grant where
  "root_sample = scoped_grant 20 None
     (JObj [(''read'', JArr [JStr ''*''])]) (JObj [])"

definition child_sample :: task_grant where
  "child_sample = scoped_grant 21 (Some 20)
     (JObj [(''read'', JArr [JStr ''search''])]) (JObj [])"

definition one_run :: world where
  "one_run = empty_world\<lparr>workflow_runs := [(7, run_sample)]\<rparr>"

definition delegated_world :: world where
  "delegated_world = one_run\<lparr>ticks := 2, task_grants := [(20, root_sample), (21, child_sample)]\<rparr>"

lemma issue_root_sample:
  "snd (create_task_grant sample_sys root_sample one_run)
     = one_run\<lparr>ticks := 1, task_grants := [(20, root_sample)]\<rparr>"
  by code_simp

lemma issue_child_sample:
  "snd (create_task_grant sample_sys child_sample (one_run\<lparr>ticks := 1, task_grants := [(20, root_sample)]\<rparr>))
     = delegated_world"
  by code_simp

lemma delegated_reachable: "(runtime_step sample_sys idle_peers idle_approvals idle_tools idle_handoffs)\<^sup>*\<^sup>* one_run delegated_world"
proof -
  have "runtime_step sample_sys idle_peers idle_approvals idle_tools idle_handoffs one_run (one_run\<lparr>ticks := 1, task_grants := [(20, root_sample)]\<rparr>)"
    and "runtime_step sample_sys idle_peers idle_approvals idle_tools idle_handoffs (one_run\<lparr>ticks := 1, task_grants := [(20, root_sample)]\<rparr>) delegated_world"
    using operation.issue issue_root_sample issue_child_sample unfolding runtime_step_def by metis+
  then show ?thesis by (meson converse_rtranclp_into_rtranclp rtranclp.rtrancl_refl)
qed

lemma child_reachable:
  "(runtime_step sample_sys idle_peers idle_approvals idle_tools idle_handoffs)\<^sup>*\<^sup>* (one_run\<lparr>ticks := 1, task_grants := [(20, root_sample)]\<rparr>) delegated_world"
  using operation.issue [of sample_sys idle_peers "one_run\<lparr>ticks := 1, task_grants := [(20, root_sample)]\<rparr>"
      child_sample] unfolding issue_child_sample runtime_step_def by blast

lemma no_grants: "task_grants one_run = []"
  by (simp add: one_run_def empty_world_def)

lemma stored_child: "tget (task_grants delegated_world) 21 = Some child_sample"
  by (simp add: delegated_world_def)

lemma idle_follow: "neighbours_respect grants_follow idle_peers idle_approvals idle_tools idle_handoffs"
  by (rule idle_all_respect) unfold_locales

lemma delegated_grants_ok: "grants_ok (task_grants delegated_world)"
  by (rule reachable_grants [OF idle_follow delegated_reachable]) (simp add: one_run_def empty_world_def)

lemma delegated_lineage:
  "task_grant_lineage 21 delegated_world = (Inr [child_sample, root_sample], delegated_world)"
  by code_simp

section \<open>Delegation\<close>

text \<open>
  C1. In every state the program reaches, whatever a grant permits - a tool, a class of side
  effects, an MCP call - every ancestor of the grant permits too.
\<close>

theorem permissions_attenuate:
  assumes "neighbours_respect grants_follow P A T H" and "(runtime_step S P A T H)\<^sup>*\<^sup>* w w'" and "task_grants w = []"
    and "task_grant_lineage i w' = (Inr (g # gs), w'')" and "p \<in> set gs"
  shows "(task_grant_allows_tool g tool \<longrightarrow> task_grant_allows_tool p tool)
    \<and> (task_grant_allows_side_effect_class g class \<longrightarrow> task_grant_allows_side_effect_class p class)
    \<and> (task_grant_mcp_call_denial g args = Inr None \<longrightarrow> task_grant_mcp_call_denial p args = Inr None)"
proof -
  have "lineage_from (task_grants w') [] i = Inr (g # gs)"
    using assms(4) by (auto simp: task_grant_lineage_def eff_simps)
  then have chain: "successively (\<lambda>child parent. scopes_within parent child) (g # gs)"
    using reachable_grants(1) [OF assms(1-3)] lineage_from_ancestry ancestry_chain by blast
  have "p \<in> set (g # gs)" using assms(5) by simp
  then show ?thesis
    using tool_scope.permits_chain [OF chain] side_effects.permits_chain [OF chain]
      mcp_calls.permits_chain [OF chain] by blast
qed

lemma permissions_attenuate_witness:
  "task_grant_allows_tool child_sample ''search'' \<and> task_grant_allows_tool root_sample ''search''"
proof -
  have "task_grant_allows_tool child_sample ''search''" by code_simp
  then show ?thesis
    using permissions_attenuate [OF idle_follow delegated_reachable no_grants delegated_lineage,
        of root_sample "''search''" "[]" JNull] by simp
qed

text \<open>
  The search for the ancestors of a grant never fails on a stored grant: it ends at a root,
  meets no grant twice and no cycle, and every ancestor belongs to the same run.
\<close>

lemma ancestry_ends:
  "ancestry t i ls \<Longrightarrow> ls \<noteq> [] \<and> tg_parent_grant_id (last ls) = None"
  by (induction rule: ancestry.induct) auto

lemma ancestry_same_run:
  "ancestry t i ls \<Longrightarrow> grants_ok t \<Longrightarrow> g \<in> set ls \<Longrightarrow> tg_workflow_run_id g = tg_workflow_run_id (hd ls)"
proof (induction arbitrary: g rule: ancestry.induct)
  case (child i h p gs)
  from child.prems(1) child.hyps(1) have "delegated t h" by (auto simp: grants_ok_def)
  with child.hyps(2) obtain parent where parent: "tget t p = Some parent"
    "tg_workflow_run_id parent = tg_workflow_run_id h" by (auto simp: delegated_def)
  from child.hyps(3) parent(1) have "hd gs = parent" by cases auto
  with child.IH child.prems parent(2) show ?case by auto
qed simp

theorem lineage_total:
  assumes "neighbours_respect grants_follow P A T H" and "(runtime_step S P A T H)\<^sup>*\<^sup>* w w'" and "task_grants w = []"
    and "tget (task_grants w') i = Some g"
  shows "\<exists>gs. task_grant_lineage i w' = (Inr (g # gs), w')
    \<and> tg_parent_grant_id (last (g # gs)) = None \<and> distinct (map tg_id (g # gs))
    \<and> (\<forall>h \<in> set gs. tg_workflow_run_id h = tg_workflow_run_id g)"
proof -
  have ok: "grants_ok (task_grants w')" by (rule reachable_grants [OF assms(1-3)])
  then have k: "keyed (task_grants w')" by (simp add: grants_ok_def)
  from ok assms(4) obtain ls where ls: "ancestry (task_grants w') i ls" by (auto simp: grants_ok_def)
  then obtain gs where gs: "ls = g # gs" using assms(4) by cases auto
  from ls k have "lineage_from (task_grants w') [] i = Inr (g # gs)"
    by (simp add: lineage_iff_ancestry gs)
  then have "task_grant_lineage i w' = (Inr (g # gs), w')"
    by (simp add: task_grant_lineage_def eff_simps)
  moreover have "tg_parent_grant_id (last (g # gs)) = None" "distinct (map tg_id (g # gs))"
    using ancestry_ends [OF ls] ancestry_distinct [OF ls k] unfolding gs by blast+
  moreover have "tg_workflow_run_id h = tg_workflow_run_id g" if "h \<in> set gs" for h
    using ancestry_same_run [OF ls ok, of h] that unfolding gs by simp
  ultimately show ?thesis by blast
qed

lemma lineage_total_witness:
  "\<exists>gs. task_grant_lineage 21 delegated_world = (Inr (child_sample # gs), delegated_world)"
  using lineage_total [OF idle_follow delegated_reachable no_grants stored_child] by blast

text \<open>
  C2. In every state the program reaches, no grant has used more turns or tool calls than its
  budget allows.
\<close>

theorem budgets_hold:
  assumes "neighbours_respect grants_follow P A T H" and "(runtime_step S P A T H)\<^sup>*\<^sup>* w w'" and "task_grants w = []"
    and "tget (task_grants w') i = Some g"
  shows "is_none_or (tg_max_turns g) (\<lambda>limit. tg_turns_used g \<le> limit)
    \<and> is_none_or (tg_max_tool_calls g) (\<lambda>limit. tg_tool_calls_used g \<le> limit)"
  using reachable_grants(2) [OF assms(1-3)] assms(4)
  by (auto simp: budgets_ok_def within_budget_def)

lemma budgets_hold_witness:
  "is_none_or (tg_max_turns child_sample) (\<lambda>limit. tg_turns_used child_sample \<le> limit)"
  using budgets_hold [OF idle_follow delegated_reachable no_grants stored_child] by blast

text \<open>
  C3. Whatever the program does, a grant stays in the table; what it may do, whose child it is
  and its limits never change; a status other than \<open>active\<close> is final, and the turns and tool
  calls of a closed grant stay as they are; no counter ever decreases. The cost of a closed grant
  may still grow: \<open>add_task_grant_cost\<close> asks for no status.
\<close>

theorem grant_history:
  assumes "neighbours_respect grants_follow P A T H" and "(runtime_step S P A T H)\<^sup>*\<^sup>* w w'"
    and "keyed (task_grants w)" and "tget (task_grants w) i = Some g"
  shows "\<exists>h. tget (task_grants w') i = Some h
    \<and> h = g\<lparr>tg_status := tg_status h, tg_turns_used := tg_turns_used h,
           tg_tool_calls_used := tg_tool_calls_used h,
           tg_cost_usd_micros_used := tg_cost_usd_micros_used h,
           tg_context_packet_id := tg_context_packet_id h, tg_updated_at := tg_updated_at h\<rparr>
    \<and> (tg_status g \<noteq> ''active'' \<longrightarrow> tg_status h = tg_status g
         \<and> tg_turns_used h = tg_turns_used g \<and> tg_tool_calls_used h = tg_tool_calls_used g)
    \<and> tg_turns_used g \<le> tg_turns_used h \<and> tg_tool_calls_used g \<le> tg_tool_calls_used h
    \<and> tg_cost_usd_micros_used g \<le> tg_cost_usd_micros_used h"
proof -
  have "grant_step\<^sup>*\<^sup>* (task_grants w) (task_grants w')"
    using runtime_steps_follow [OF assms(1,2)] assms(3) by (simp add: grants_follow_def)
  from grant_steps_evolve [OF this assms(4)] show ?thesis unfolding evolves_def by blast
qed

lemma grant_history_witness:
  "\<exists>h. tget (task_grants delegated_world) 20 = Some h \<and> tg_tool_scope h = tg_tool_scope root_sample"
proof -
  have "keyed (task_grants (one_run\<lparr>ticks := 1, task_grants := [(20, root_sample)]\<rparr>))"
    by (simp add: keyed_def root_sample_def scoped_grant_def)
  from grant_history [OF idle_follow child_reachable this, of 20 root_sample]
  obtain h where h: "tget (task_grants delegated_world) 20 = Some h"
    "h = root_sample\<lparr>tg_status := tg_status h, tg_turns_used := tg_turns_used h,
           tg_tool_calls_used := tg_tool_calls_used h,
           tg_cost_usd_micros_used := tg_cost_usd_micros_used h,
           tg_context_packet_id := tg_context_packet_id h, tg_updated_at := tg_updated_at h\<rparr>"
    by auto
  have "tg_tool_scope h = tg_tool_scope root_sample"
    using arg_cong [OF h(2), of tg_tool_scope] by simp
  with h(1) show ?thesis by blast
qed

section \<open>Reservations\<close>

text \<open>
  C4. A reservation that succeeds found the grant and all its ancestors active and below their
  budgets, adds one to the counter of each of them and leaves every other grant as it was.
\<close>

theorem reservation_counts_once:
  assumes "reserve_task_grant_usage S i k w = (Inr g, w')" and "keyed (task_grants w)"
  shows "\<exists>ls now. task_grant_lineage i w = (Inr ls, w)
    \<and> (\<forall>h \<in> set ls. task_grant_reservation_denial h k now = None \<and> tg_status h = ''active''
         \<and> tget (task_grants w') (tg_id h) = Some (case k of
             Turn \<Rightarrow> h\<lparr>tg_turns_used := tg_turns_used h + 1, tg_updated_at := now\<rparr>
           | ToolCall \<Rightarrow> h\<lparr>tg_tool_calls_used := tg_tool_calls_used h + 1, tg_updated_at := now\<rparr>))
    \<and> (\<forall>j. j \<notin> tg_id ` set ls \<longrightarrow> tget (task_grants w') j = tget (task_grants w) j)
    \<and> tget (task_grants w') i = Some g"
proof -
  obtain ls now where ls: "ancestry (task_grants w) i ls"
    "\<forall>h \<in> set ls. task_grant_reservation_denial h k now = None"
    "\<forall>h \<in> set ls. tget (task_grants w') (tg_id h) = Some (counted k now h)"
    "\<forall>j. j \<notin> tg_id ` set ls \<longrightarrow> tget (task_grants w') j = tget (task_grants w) j"
    "tget (task_grants w') i = Some g"
    using assms by (rule reserve_Inr)
  have "task_grant_lineage i w = (Inr ls, w)"
    using ls(1) assms(2) by (simp add: task_grant_lineage_def eff_simps lineage_iff_ancestry)
  with ls(2-) reservation_denial_None(1) show ?thesis
    unfolding counted_def by (intro exI [of _ ls] exI [of _ now]) blast
qed

lemma reservation_counts_once_witness:
  "\<exists>g w'. reserve_task_grant_usage sample_sys 21 ToolCall delegated_world = (Inr g, w')
     \<and> map_option tg_tool_calls_used (tget (task_grants w') 20) = Some 1"
proof -
  have "succeeds (reserve_task_grant_usage sample_sys 21 ToolCall delegated_world)
      (\<lambda>g w'. map_option tg_tool_calls_used (tget (task_grants w') 20) = Some 1)" by code_simp
  then obtain g w' where r: "reserve_task_grant_usage sample_sys 21 ToolCall delegated_world = (Inr g, w')"
    "map_option tg_tool_calls_used (tget (task_grants w') 20) = Some 1" by (rule succeedsE)
  have "keyed (task_grants delegated_world)" using delegated_grants_ok by (simp add: grants_ok_def)
  from reservation_counts_once [OF r(1) this] r show ?thesis by blast
qed

text \<open>
  A reservation on a stored lineage fails for one reason only, as long as no counter is at
  the end of its range: the grant or one of its ancestors refuses it, and that refusal is the
  error.
\<close>

theorem reservation_fails_by_denial:
  assumes "reserve_task_grant_usage S i k w = (Inl e, w')" and "keyed (task_grants w)"
    and "task_grant_lineage i w = (Inr ls, w)"
    and "\<forall>h \<in> set ls. tg_turns_used h < 2 ^ 31 - 1 \<and> - (2 ^ 31) \<le> tg_turns_used h
      \<and> tg_tool_calls_used h < 2 ^ 31 - 1 \<and> - (2 ^ 31) \<le> tg_tool_calls_used h"
  shows "\<exists>g \<in> set ls. \<exists>m x. task_grant_reservation_denial g k (clock S (ticks w)) = Some (m, x)
    \<and> e = forbidden m"
proof (rule reserve_Inl [OF assms(1,2)])
  show "ancestry (task_grants w) i ls"
    using assms(2,3) by (auto simp: task_grant_lineage_def eff_simps lineage_iff_ancestry)
  show "\<forall>h \<in> set ls. in_i32 (tg_turns_used h + 1) \<and> in_i32 (tg_tool_calls_used h + 1)"
    using assms(4) by (auto simp: in_i32_def)
qed

definition spent_world :: world where
  "spent_world = one_run\<lparr>task_grants :=
     [(20, root_sample\<lparr>tg_tool_calls_used := 2\<rparr>), (21, child_sample)]\<rparr>"

lemma reservation_fails_by_denial_witness:
  "\<exists>e w' m x. reserve_task_grant_usage sample_sys 21 ToolCall spent_world = (Inl e, w')
     \<and> e = forbidden m"
proof -
  have "fails (reserve_task_grant_usage sample_sys 21 ToolCall spent_world) (\<lambda>_ _. True)"
    by code_simp
  then obtain e w' where r: "reserve_task_grant_usage sample_sys 21 ToolCall spent_world = (Inl e, w')"
    by (rule failsE)
  have k: "keyed (task_grants spent_world)"
    by (simp add: spent_world_def keyed_def root_sample_def child_sample_def scoped_grant_def)
  have l: "task_grant_lineage 21 spent_world
      = (Inr [child_sample, root_sample\<lparr>tg_tool_calls_used := 2\<rparr>], spent_world)" by code_simp
  from reservation_fails_by_denial [OF r k l] r show ?thesis
    by (auto simp: root_sample_def child_sample_def scoped_grant_def)
qed

section \<open>Native connectors\<close>

text \<open>
  A root grant that binds the connector \<open>mail\<close> to the operation \<open>send\<close>, and a child that says
  nothing of bindings; a call of \<open>drop\<close> on \<open>crm\<close>.
\<close>

definition bound_connectors :: "(string \<times> json) list" where
  "bound_connectors =
     [(''mode'', JStr ''commit_write''), (''allowed_connector_ids'', JArr [JStr ''crm'', JStr ''mail'']),
      (''allowed_tool_names'', JArr [JStr ''send'', JStr ''drop'']),
      (''side_effect_classes'', JArr [JStr ''write''])]"

definition mail_binding :: json where
  "mail_binding = mk_obj [(''connector_id'', JStr ''mail''), (''operation'', JStr ''send''),
     (''side_effect_class'', JStr ''write'')]"

definition binding_grant :: "uuid \<Rightarrow> uuid option \<Rightarrow> (string \<times> json) list \<Rightarrow> task_grant" where
  "binding_grant i parent bindings =
     (scoped_grant i parent (JObj []) (mk_obj (bound_connectors @ bindings)))
       \<lparr>tg_external_effects := mk_obj [(''write'', JBool True)]\<rparr>"

definition binding_root :: task_grant where
  "binding_root = binding_grant 20 None [(''native_operation_bindings'', JArr [mail_binding])]"

definition unbound_child :: task_grant where
  "unbound_child = binding_grant 21 (Some 20) []"

definition drop_call :: json where
  "drop_call = mk_obj [(''connector_id'', JStr ''crm''), (''operation'', JStr ''drop''),
     (''side_effect_class'', JStr ''write'')]"

text \<open>
  The comparison of scopes does not attenuate native connector calls: a grant without
  \<open>native_operation_bindings\<close> passes as a child of a grant that has them, and the store issues
  it, yet the child may make a call that its parent may not.
\<close>

theorem bindings_not_attenuated:
  "\<exists>w. fst (create_task_grant sample_sys unbound_child w) = Inr unbound_child
     \<and> task_grant_lineage 20 w = (Inr [binding_root], w)
     \<and> ensure_child_task_grant_within_parent binding_root unbound_child = Inr ()
     \<and> task_grant_connector_invocation_denial unbound_child ''native.connector.call'' drop_call = Inr None
     \<and> task_grant_connector_invocation_denial binding_root ''native.connector.call'' drop_call
         = Inr (Some ''task grant connector scope does not allow native connector operation binding'')"
proof -
  let ?w = "one_run\<lparr>task_grants := [(20, binding_root)]\<rparr>"
  have "fst (create_task_grant sample_sys unbound_child ?w) = Inr unbound_child" by code_simp
  moreover have "task_grant_lineage 20 ?w = (Inr [binding_root], ?w)" by code_simp
  moreover have "ensure_child_task_grant_within_parent binding_root unbound_child = Inr ()" by code_simp
  moreover have "task_grant_connector_invocation_denial unbound_child ''native.connector.call'' drop_call
      = Inr None" by code_simp
  moreover have "task_grant_connector_invocation_denial binding_root ''native.connector.call'' drop_call
      = Inr (Some ''task grant connector scope does not allow native connector operation binding'')"
    by code_simp
  ultimately show ?thesis by blast
qed

text \<open>
  Along a lineage on which every child keeps the bindings its parent has, whatever
  connector call a grant may make, native or MCP, every ancestor may make.
\<close>

theorem bound_calls_attenuate:
  assumes "neighbours_respect grants_follow P A T H" and "(runtime_step S P A T H)\<^sup>*\<^sup>* w w'" and "task_grants w = []"
    and "task_grant_lineage i w' = (Inr (g # gs), w'')" and "p \<in> set gs"
    and "successively (\<lambda>child parent. keeps_bindings parent child) (g # gs)"
    and "task_grant_connector_invocation_denial g tool args = Inr None"
  shows "task_grant_connector_invocation_denial p tool args = Inr None"
proof -
  have "lineage_from (task_grants w') [] i = Inr (g # gs)"
    using assms(4) by (auto simp: task_grant_lineage_def eff_simps)
  then have "successively (\<lambda>child parent. scopes_within parent child) (g # gs)"
    using reachable_grants(1) [OF assms(1-3)] lineage_from_ancestry ancestry_chain by blast
  with assms(6) have "successively (\<lambda>child parent. scopes_within parent child
      \<and> keeps_bindings parent child) (g # gs)"
    by (simp add: successively_conv_nth)
  from connector_calls.permits_chain [OF this, of "(tool, args)" p] assms(5,7) show ?thesis by simp
qed

lemma bound_calls_attenuate_witness:
  "task_grant_connector_invocation_denial root_sample ''search'' (JObj []) = Inr None"
proof (rule bound_calls_attenuate [OF idle_follow delegated_reachable no_grants delegated_lineage])
  show "root_sample \<in> set [root_sample]" by simp
  show "successively (\<lambda>child parent. keeps_bindings parent child) [child_sample, root_sample]"
    by (simp add: keeps_bindings_def child_sample_def root_sample_def scoped_grant_def)
  show "task_grant_connector_invocation_denial child_sample ''search'' (JObj []) = Inr None" by code_simp
qed

section \<open>The order of scopes\<close>

text \<open>
  The comparison of scopes is a preorder on documents: every well-formed document contains
  itself, and what a part of a scope contains the scope contains.
\<close>

theorem scope_preorder:
  "(wf_json v \<longrightarrow> json_scope_contains v v)
   \<and> (json_scope_contains p m \<and> json_scope_contains m c \<longrightarrow> json_scope_contains p c)"
  using json_scope.within_refl json_scope.within_trans by blast

lemma scope_preorder_witness:
  "json_scope_contains (JArr [JStr ''*'']) (JArr [JStr ''a''])"
  using scope_preorder [of JNull "JArr [JStr ''*'']" "JArr [JStr ''a'', JStr ''b'']" "JArr [JStr ''a'']"]
  by (simp add: is_string_iff)

end
