(* ===== verification/Validation.thy ===== *)
theory Validation
  imports Readiness
begin

text \<open>
  What the validation of a step graph guarantees at run time: branch conditions and the
  selection of ready steps never fail on a validated graph, whatever the step runs, and the
  evaluation of a condition computes its Boolean meaning.
\<close>

section \<open>Conditions\<close>

text \<open>A leaf comparison fails on the form of the condition, never on the compared value.\<close>

lemma leaf_numeric_value_independent:
  "(\<exists>r. leaf_numeric ks c a = Some (Inr r)) = (\<exists>r. leaf_numeric ks c b = Some (Inr r))"
  "(leaf_numeric ks c a = None) = (leaf_numeric ks c b = None)"
  by (induction ks c a rule: leaf_numeric.induct)
    (auto split: option.splits simp: bindr_eq_Inr)

lemma leaf_time_value_independent:
  "(\<exists>r. leaf_time X ks c a = Some (Inr r)) = (\<exists>r. leaf_time X ks c b = Some (Inr r))"
  "(leaf_time X ks c a = None) = (leaf_time X ks c b = None)"
  by (induction X ks c a rule: leaf_time.induct)
    (auto split: option.splits simp: bindr_eq_Inr)

lemma leaf_result_value_independent:
  assumes "workflow_graph_leaf_condition_result X c a = Inr r"
  shows "\<exists>r. workflow_graph_leaf_condition_result X c b = Inr r"
proof (cases "leaf_numeric numeric_keys c a")
  case None
  then have n: "leaf_numeric numeric_keys c b = None"
    using leaf_numeric_value_independent(2) by metis
  show ?thesis
  proof (cases "leaf_time X time_keys c a")
    case None
    then have "leaf_time X time_keys c b = None"
      using leaf_time_value_independent(2) by metis
    with assms \<open>leaf_numeric numeric_keys c a = None\<close> None n show ?thesis
      by (auto simp: workflow_graph_leaf_condition_result_def bindr_eq_Inr split: option.splits)
  next
    case (Some t)
    then obtain t' where t': "leaf_time X time_keys c b = Some t'"
      using leaf_time_value_independent(2) by (metis option.exhaust)
    have "(\<exists>r. t = Inr r) \<longrightarrow> (\<exists>r. t' = Inr r)"
      using leaf_time_value_independent(1) [of X time_keys c a b] Some t' by auto
    with assms \<open>leaf_numeric numeric_keys c a = None\<close> Some n t' show ?thesis
      by (auto simp: workflow_graph_leaf_condition_result_def bindr_eq_Inr split: option.splits)
  qed
next
  case (Some t)
  then obtain t' where t': "leaf_numeric numeric_keys c b = Some t'"
    using leaf_numeric_value_independent(2) by (metis option.exhaust)
  have "(\<exists>r. t = Inr r) \<longrightarrow> (\<exists>r. t' = Inr r)"
    using leaf_numeric_value_independent(1) [of numeric_keys c a b] Some t' by auto
  with assms Some t' show ?thesis
    by (auto simp: workflow_graph_leaf_condition_result_def bindr_eq_Inr split: option.splits)
qed

lemma leaf_evaluation_total:
  assumes "condition_source_step_key c = Inr k" and "condition_path c = Inr p"
    and "workflow_graph_leaf_condition_result X c a = Inr r"
  shows "\<exists>e. leaf_evaluation X c steps = Inr e"
  using assms leaf_result_value_independent [OF assms(3)]
  by (simp add: leaf_evaluation_def bindr_eq_Inr Let_def split_beta)

text \<open>A condition that passes validation evaluates for every list of step runs.\<close>

lemma validated_condition_evaluates:
  "validate_workflow_graph_condition X c keys = Inr u \<Longrightarrow>
   \<exists>e. workflow_graph_condition_evaluation X c steps = Inr e"
proof (induction X c keys arbitrary: u rule: validate_workflow_graph_condition.induct)
  case (1 X c keys)
  show ?case
  proof (cases "jget c ''all''")
    case (Some items)
    with "1.prems" obtain xs ev where xs: "condition_items items ''all'' = Inr xs"
      "workflow_graph_condition_array X items [] ''all'' = Inr ev"
      "\<forall>x \<in> set xs. validate_workflow_graph_condition X x keys = Inr ()"
      by (subst (asm) validate_workflow_graph_condition.simps) (auto simp: bindr_eq_Inr)
    obtain ys where "mapr (\<lambda>x. workflow_graph_condition_evaluation X x steps) xs = Inr ys"
      using "1.IH"(3) [OF Some] xs mapr_total by metis
    with Some xs show ?thesis by (subst workflow_graph_condition_evaluation.simps) simp
  next
    case all: None
    show ?thesis
    proof (cases "jget c ''any''")
      case (Some items)
      with all "1.prems" obtain xs ev where xs: "condition_items items ''any'' = Inr xs"
        "workflow_graph_condition_array X items [] ''any'' = Inr ev"
        "\<forall>x \<in> set xs. validate_workflow_graph_condition X x keys = Inr ()"
        by (subst (asm) validate_workflow_graph_condition.simps) (auto simp: bindr_eq_Inr)
      obtain ys where "mapr (\<lambda>x. workflow_graph_condition_evaluation X x steps) xs = Inr ys"
        using "1.IH"(2) [OF all Some] xs mapr_total by metis
      with all Some xs show ?thesis by (subst workflow_graph_condition_evaluation.simps) simp
    next
      case any: None
      show ?thesis
      proof (cases "jget c ''not''")
        case (Some child)
        with all any "1.prems" have "validate_workflow_graph_condition X child keys = Inr u"
          by (subst (asm) validate_workflow_graph_condition.simps) simp
        with "1.IH"(1) [OF all any Some] all any Some show ?thesis
          by (subst workflow_graph_condition_evaluation.simps) (auto simp: bindr_eq_Inr)
      next
        case None
        with all any "1.prems" obtain k p r where
          "condition_source_step_key c = Inr k" "condition_path c = Inr p"
          "workflow_graph_leaf_condition_result X c JNull = Inr r"
          by (subst (asm) validate_workflow_graph_condition.simps)
            (auto simp: bindr_eq_Inr split: if_splits)
        then show ?thesis
          using all any None leaf_evaluation_total
          by (subst workflow_graph_condition_evaluation.simps) simp
      qed
    qed
  qed
qed

text \<open>
  The abstract form of a condition, a Boolean expression over leaf comparisons, and its
  meaning; the evaluation decides exactly that.
\<close>

datatype branch_condition =
    BAll "branch_condition list"
  | BAny "branch_condition list"
  | BNot branch_condition
  | BLeaf json

fun holds :: "(json \<Rightarrow> bool) \<Rightarrow> branch_condition \<Rightarrow> bool" where
  "holds v (BAll bs) = (\<forall>b \<in> set bs. holds v b)"
| "holds v (BAny bs) = (\<exists>b \<in> set bs. holds v b)"
| "holds v (BNot b) = (\<not> holds v b)"
| "holds v (BLeaf c) = v c"

definition operands :: "json \<Rightarrow> json list" where
  "operands v = (case v of JArr xs \<Rightarrow> xs | _ \<Rightarrow> [])"

lemma operands_smaller: "jget c k = Some v \<Longrightarrow> x \<in> set (operands v) \<Longrightarrow> size x < size c"
  using size_jget [of c k v] by (auto simp: operands_def dest: size_mem split: json.splits)

function (sequential) branch_of :: "json \<Rightarrow> branch_condition" where
  "branch_of c =
     (case jget c ''all'' of Some v \<Rightarrow> BAll (map branch_of (operands v)) | None \<Rightarrow>
     (case jget c ''any'' of Some v \<Rightarrow> BAny (map branch_of (operands v)) | None \<Rightarrow>
     (case jget c ''not'' of Some v \<Rightarrow> BNot (branch_of v) | None \<Rightarrow> BLeaf c)))"
  by pat_completeness auto
termination
  by (relation "measure size") (auto intro: operands_smaller size_jget)

declare branch_of.simps [simp del]

text \<open>The value a leaf compares: the path into the output of the last run of the source step.\<close>

definition compared_value :: "workflow_step_run list \<Rightarrow> json \<Rightarrow> json" where
  "compared_value steps c =
     (case (condition_source_step_key c, condition_path c) of
        (Inr k, Inr p) \<Rightarrow> unwrap_or (Option.bind (workflow_graph_latest_step steps k)
           (\<lambda>s. workflow_graph_json_path (sr_output_payload s) p)) JNull
      | _ \<Rightarrow> JNull)"

definition leaf_holds :: "ext \<Rightarrow> workflow_step_run list \<Rightarrow> json \<Rightarrow> bool" where
  "leaf_holds X steps c \<longleftrightarrow>
     (\<exists>expected. workflow_graph_leaf_condition_result X c (compared_value steps c)
        = Inr (expected, True))"

lemma leaf_evaluation_matched:
  assumes "leaf_evaluation X c steps = Inr e"
  shows "ce_matched e = leaf_holds X steps c"
  using assms
  by (auto simp: leaf_evaluation_def leaf_holds_def compared_value_def bindr_eq_Inr Let_def)

lemma mapr_matched:
  assumes "mapr f xs = Inr ys" and "\<And>x y. x \<in> set xs \<Longrightarrow> f x = Inr y \<Longrightarrow> ce_matched y = P x"
  shows "list_all ce_matched ys = (\<forall>x \<in> set xs. P x)"
    "list_ex ce_matched ys = (\<exists>x \<in> set xs. P x)"
proof -
  have *: "list_all2 (\<lambda>x y. f x = Inr y) xs ys" using assms(1) by (simp add: mapr_eq_Inr)
  from * assms(2) show "list_all ce_matched ys = (\<forall>x \<in> set xs. P x)"
    by (induction rule: list_all2_induct) auto
  from * assms(2) show "list_ex ce_matched ys = (\<exists>x \<in> set xs. P x)"
    by (induction rule: list_all2_induct) auto
qed

lemma condition_evaluation_matched:
  "workflow_graph_condition_evaluation X c steps = Inr e \<Longrightarrow>
   ce_matched e = holds (leaf_holds X steps) (branch_of c)"
proof (induction X c steps arbitrary: e rule: workflow_graph_condition_evaluation.induct)
  case (1 X c steps)
  show ?case
  proof (cases "jget c ''all''")
    case (Some items)
    with "1.prems" obtain xs ys where *: "condition_items items ''all'' = Inr xs"
      "mapr (\<lambda>x. workflow_graph_condition_evaluation X x steps) xs = Inr ys"
      "ce_matched e = list_all ce_matched ys"
      by (subst (asm) workflow_graph_condition_evaluation.simps)
        (auto simp: bindr_eq_Inr combined_evaluation_def)
    have "operands items = xs" using condition_items_Inr [OF *(1)] by (simp add: operands_def)
    then show ?thesis
      using mapr_matched(1) [OF *(2) "1.IH"(3) [OF Some]] Some *(3)
      by (subst branch_of.simps) (auto simp: *(1))
  next
    case all: None
    show ?thesis
    proof (cases "jget c ''any''")
      case (Some items)
      with all "1.prems" obtain xs ys where *: "condition_items items ''any'' = Inr xs"
        "mapr (\<lambda>x. workflow_graph_condition_evaluation X x steps) xs = Inr ys"
        "ce_matched e = list_ex ce_matched ys"
        by (subst (asm) workflow_graph_condition_evaluation.simps)
          (auto simp: bindr_eq_Inr combined_evaluation_def)
      have "operands items = xs" using condition_items_Inr [OF *(1)] by (simp add: operands_def)
      then show ?thesis
        using mapr_matched(2) [OF *(2) "1.IH"(2) [OF all Some]] all Some *(3)
        by (subst branch_of.simps) (auto simp: *(1))
    next
      case any: None
      show ?thesis
      proof (cases "jget c ''not''")
        case (Some child)
        with all any "1.prems" obtain e' where
          "workflow_graph_condition_evaluation X child steps = Inr e'"
          "e = negated_evaluation c e'"
          by (subst (asm) workflow_graph_condition_evaluation.simps) (auto simp: bindr_eq_Inr)
        with "1.IH"(1) [OF all any Some] all any Some show ?thesis
          by (subst branch_of.simps) (simp add: negated_evaluation_def)
      next
        case None
        with all any "1.prems" have "leaf_evaluation X c steps = Inr e"
          by (subst (asm) workflow_graph_condition_evaluation.simps) simp
        with all any None show ?thesis
          by (subst branch_of.simps) (simp add: leaf_evaluation_matched)
      qed
    qed
  qed
qed

section \<open>Graphs\<close>

lemma collect_step_keys_Inr:
  "collect_step_keys steps acc = Inr keys \<longleftrightarrow>
     (\<forall>s \<in> set steps. is_object s) \<and>
     (\<exists>ks. mapr workflow_graph_step_key steps = Inr ks \<and> distinct ks
        \<and> set ks \<inter> set acc = {} \<and> keys = rev ks @ acc)"
  by (induction steps arbitrary: acc) (auto simp: bindr_eq_Inr)

lemma validated_graph_parts:
  assumes "validate_workflow_graph_definition X g = Inr u" and "graph_steps g = Some steps"
  obtains ks where "mapr workflow_graph_step_key steps = Inr ks" "distinct ks" "steps \<noteq> []"
    "\<forall>s \<in> set steps. is_object s"
    "\<forall>s \<in> set steps. validate_graph_step X (rev ks) s = Inr ()"
    "\<exists>starts. workflow_graph_start_steps g = Inr starts"
    "\<exists>m. workflow_graph_fan_out_max_parallel g = Inr m"
  using assms
  by (auto simp: validate_workflow_graph_definition_def graph_steps_def bindr_eq_Inr
      collect_step_keys_Inr split: if_splits)

text \<open>What \<^term>\<open>validate_graph_step\<close> establishes of one step.\<close>

lemma validate_graph_step_parts:
  assumes "validate_graph_step X keys s = Inr u"
  obtains key deps sources policy where
    "workflow_graph_step_key s = Inr key" "workflow_graph_step_dependencies s = Inr deps"
    "key \<notin> set deps" "set deps \<subseteq> set keys"
    "workflow_graph_step_failure_sources s = Inr sources" "set sources \<subseteq> set keys"
    "workflow_graph_step_retry_policy s = Inr policy"
    "\<And>statuses. \<exists>fi. workflow_graph_fan_in_readiness s deps statuses = Inr fi"
    "\<And>steps. \<exists>e. workflow_graph_step_condition_evaluation X s steps = Inr e"
proof -
  from assms obtain key deps sources policy fi where *:
    "workflow_graph_step_key s = Inr key" "workflow_graph_step_dependencies s = Inr deps"
    "key \<notin> set deps" "set deps \<subseteq> set keys"
    "workflow_graph_step_failure_sources s = Inr sources" "set sources \<subseteq> set keys"
    "workflow_graph_step_retry_policy s = Inr policy"
    and fi: "workflow_graph_fan_in_readiness s deps (\<lambda>_. None) = Inr fi"
    and cond: "(case workflow_graph_step_condition s of None \<Rightarrow> Inr ()
       | Some c \<Rightarrow> validate_workflow_graph_condition X c keys) = Inr ()"
    by (fastforce simp: validate_graph_step_def bindr_eq_Inr subset_iff)
  have c: "validate_workflow_graph_condition X c keys = Inr ()"
    if "workflow_graph_step_condition s = Some c" for c
    using cond that by simp
  have "\<exists>fi. workflow_graph_fan_in_readiness s deps statuses = Inr fi" for statuses
    using fi fan_in_readiness_status_independent by metis
  moreover have "\<exists>e. workflow_graph_step_condition_evaluation X s steps = Inr e" for steps
    using validated_condition_evaluates [OF c]
    by (cases "workflow_graph_step_condition s")
      (fastforce simp: workflow_graph_step_condition_evaluation_def bindr_eq_Inr)+
  ultimately show ?thesis using * that by blast
qed

lemma validated_ready_step:
  assumes "validate_graph_step X keys s = Inr u"
  shows "\<exists>r. ready_step statuses s = Inr r"
  using assms
proof (rule validate_graph_step_parts)
  fix key deps sources policy
  assume *: "workflow_graph_step_key s = Inr key" "workflow_graph_step_dependencies s = Inr deps"
    and "\<And>statuses. \<exists>fi. workflow_graph_fan_in_readiness s deps statuses = Inr fi"
  then obtain fi where "workflow_graph_fan_in_readiness s deps statuses = Inr fi" by blast
  with * show ?thesis by (simp add: ready_step_def)
qed

lemma validated_ready_steps:
  assumes "validate_workflow_graph_definition X g = Inr u"
  shows "\<exists>r. workflow_graph_ready_steps g existing = Inr r"
proof (cases "graph_steps g")
  case (Some steps)
  with assms obtain ks where "\<forall>s \<in> set steps. validate_graph_step X (rev ks) s = Inr ()"
    by (rule validated_graph_parts)
  then have "\<exists>r. mapr (ready_step (existing_by_key existing)) steps = Inr r"
    unfolding mapr_total using validated_ready_step by blast
  with Some show ?thesis by (auto simp: workflow_graph_ready_steps_def)
qed (simp add: workflow_graph_ready_steps_def)

text \<open>The ready steps, characterised.\<close>

lemma ready_steps_mem:
  assumes "workflow_graph_ready_steps g existing = Inr ready"
  shows "r \<in> set ready \<longleftrightarrow>
    (\<exists>steps key deps. graph_steps g = Some steps \<and> rs_graph_step r \<in> set steps
      \<and> workflow_graph_step_key (rs_graph_step r) = Inr key
      \<and> key \<notin> sr_step_key ` set existing
      \<and> workflow_graph_step_dependencies (rs_graph_step r) = Inr deps \<and> deps \<noteq> []
      \<and> workflow_graph_fan_in_readiness (rs_graph_step r) deps (existing_by_key existing)
          = Inr (rs_fan_in r)
      \<and> workflow_graph_fan_in_ready (rs_fan_in r))"
proof (cases "graph_steps g")
  case (Some steps)
  then obtain rs where rs: "list_all2 (\<lambda>s q. ready_step (existing_by_key existing) s = Inr q) steps rs"
    "ready = filter_map (\<lambda>r. r) rs"
    using assms by (auto simp: workflow_graph_ready_steps_def bindr_eq_Inr mapr_eq_Inr)
  have "r \<in> set ready \<longleftrightarrow> Some r \<in> set rs" by (simp add: rs(2) set_filter_map)
  also have "\<dots> \<longleftrightarrow> (\<exists>s \<in> set steps. ready_step (existing_by_key existing) s = Inr (Some r))"
    using rs(1) by (induction rule: list_all2_induct) auto
  also have "\<dots> \<longleftrightarrow> (\<exists>s \<in> set steps. \<exists>key deps fi. workflow_graph_step_key s = Inr key
      \<and> key \<notin> sr_step_key ` set existing
      \<and> workflow_graph_step_dependencies s = Inr deps \<and> deps \<noteq> []
      \<and> workflow_graph_fan_in_readiness s deps (existing_by_key existing) = Inr fi
      \<and> workflow_graph_fan_in_ready fi \<and> r = \<lparr>rs_graph_step = s, rs_fan_in = fi\<rparr>)"
    by (intro bex_cong refl)
      (auto simp: ready_step_def bindr_eq_Inr existing_by_key_eq_None split: if_splits)
  finally show ?thesis using Some by (cases r) auto
qed (use assms in \<open>simp add: workflow_graph_ready_steps_def\<close>)

end
