(* ===== verification/Scheduling.thy ===== *)
theory Scheduling
  imports Samples Validation
begin

text \<open>
  The properties of step graphs: what validation guarantees, what a condition means, which steps
  are ready, what the policies of fan-in and retry come to.
\<close>

section \<open>Validation\<close>

text \<open>
  C5. On a validated graph nothing the scheduler computes can fail, whatever step runs there
  are: the ready steps are found, and the condition of every step of the graph evaluates.
\<close>

theorem validated_graph_never_fails:
  assumes "validate_workflow_graph_definition X g = Inr u"
  shows "(\<exists>ready. workflow_graph_ready_steps g existing = Inr ready)
    \<and> (\<forall>steps s. graph_steps g = Some steps \<and> s \<in> set steps \<longrightarrow>
        (\<exists>e. workflow_graph_step_condition_evaluation X s existing = Inr e)
        \<and> (\<exists>p. workflow_graph_step_retry_policy s = Inr p)
        \<and> (\<exists>ks. workflow_graph_step_failure_sources s = Inr ks))"
proof (intro conjI allI impI)
  show "\<exists>ready. workflow_graph_ready_steps g existing = Inr ready"
    using assms by (rule validated_ready_steps)
next
  fix steps s
  assume s: "graph_steps g = Some steps \<and> s \<in> set steps"
  with assms obtain ks where "validate_graph_step X (rev ks) s = Inr ()"
    by (blast elim: validated_graph_parts)
  then show "\<exists>e. workflow_graph_step_condition_evaluation X s existing = Inr e"
    "\<exists>p. workflow_graph_step_retry_policy s = Inr p"
    "\<exists>ks. workflow_graph_step_failure_sources s = Inr ks"
    by (blast elim: validate_graph_step_parts)+
qed

lemma sample_graph_valid: "validate_workflow_graph_definition sample_lib sample_graph = Inr ()"
  by code_simp

lemma validated_graph_never_fails_witness:
  "\<exists>ready. workflow_graph_ready_steps sample_graph [] = Inr ready"
  using validated_graph_never_fails [OF sample_graph_valid, of "[]"] by blast

text \<open>
  The steps of a validated graph have distinct keys; a step depends on other steps of the
  graph only, and on none twice over in place of itself; what it compensates is in the graph.
\<close>

theorem validated_graph_shape:
  assumes "validate_workflow_graph_definition X g = Inr u" and "graph_steps g = Some steps"
  shows "\<exists>keys. mapr workflow_graph_step_key steps = Inr keys \<and> distinct keys
    \<and> (\<forall>s \<in> set steps. \<exists>key deps sources. workflow_graph_step_key s = Inr key
         \<and> workflow_graph_step_dependencies s = Inr deps \<and> set deps \<subseteq> set keys - {key}
         \<and> workflow_graph_step_failure_sources s = Inr sources \<and> set sources \<subseteq> set keys)"
proof -
  obtain keys where keys: "mapr workflow_graph_step_key steps = Inr keys" "distinct keys"
    "\<forall>s \<in> set steps. validate_graph_step X (rev keys) s = Inr ()"
    using assms by (rule validated_graph_parts)
  have "\<exists>key deps sources. workflow_graph_step_key s = Inr key
         \<and> workflow_graph_step_dependencies s = Inr deps \<and> set deps \<subseteq> set keys - {key}
         \<and> workflow_graph_step_failure_sources s = Inr sources \<and> set sources \<subseteq> set keys"
    if "s \<in> set steps" for s
    using bspec [OF keys(3) that]
  proof (rule validate_graph_step_parts)
    fix key deps sources policy
    assume "workflow_graph_step_key s = Inr key" "workflow_graph_step_dependencies s = Inr deps"
      "key \<notin> set deps" "set deps \<subseteq> set (rev keys)"
      "workflow_graph_step_failure_sources s = Inr sources" "set sources \<subseteq> set (rev keys)"
    then show ?thesis by fastforce
  qed
  with keys(1,2) show ?thesis by blast
qed

lemma validated_graph_shape_witness:
  "\<exists>keys steps. graph_steps sample_graph = Some steps
     \<and> mapr workflow_graph_step_key steps = Inr keys \<and> distinct keys"
proof -
  obtain steps where "graph_steps sample_graph = Some steps"
    by (simp add: graph_steps_def sample_graph_def mk_obj_def jget_array_def)
  with validated_graph_shape [OF sample_graph_valid] show ?thesis by blast
qed

section \<open>Conditions\<close>

text \<open>
  C6. The evaluation of a branch condition decides its Boolean meaning: \<open>all\<close> is conjunction,
  \<open>any\<close> disjunction, \<open>not\<close> negation, and a leaf compares the value its path finds in the output
  of the last run of its source step.
\<close>

theorem condition_decides:
  assumes "workflow_graph_condition_evaluation X c steps = Inr e"
  shows "ce_matched e = holds (leaf_holds X steps) (branch_of c)"
  using assms by (rule condition_evaluation_matched)

definition status_condition :: json where
  "status_condition = mk_obj [(''not'', mk_obj
     [(''source_step'', JStr ''draft''), (''path'', JStr ''ok''), (''equals'', JBool True)])]"

lemma condition_decides_witness:
  "holds (leaf_holds sample_lib []) (branch_of status_condition)"
proof -
  have "yields (workflow_graph_condition_evaluation sample_lib status_condition []) ce_matched"
    by code_simp
  then obtain e where e: "workflow_graph_condition_evaluation sample_lib status_condition [] = Inr e"
    "ce_matched e" by (rule yieldsE)
  with condition_decides [OF e(1)] show ?thesis by simp
qed

section \<open>Readiness\<close>

text \<open>
  C7. A step is ready exactly if no run of its key exists, it has dependencies, and as many of
  them as its fan-in asks for have succeeded in their last run.
\<close>

theorem ready_iff:
  assumes "workflow_graph_ready_steps g existing = Inr ready"
  shows "s \<in> rs_graph_step ` set ready \<longleftrightarrow>
    (\<exists>steps key deps mode m. graph_steps g = Some steps \<and> s \<in> set steps
      \<and> workflow_graph_step_key s = Inr key \<and> (\<forall>r \<in> set existing. sr_step_key r \<noteq> key)
      \<and> workflow_graph_step_dependencies s = Inr deps \<and> deps \<noteq> []
      \<and> workflow_graph_fan_in_mode s = Inr mode
      \<and> workflow_graph_fan_in_min_success s mode (length deps) = Inr m
      \<and> m \<le> length (filter (\<lambda>d. is_some_and (workflow_graph_latest_step existing d)
           (\<lambda>r. workflow_step_status_successful (sr_status r))) deps))"
proof -
  have succ: "(classify_dependency (existing_by_key existing) d = Succeeded)
      = is_some_and (workflow_graph_latest_step existing d)
           (\<lambda>r. workflow_step_status_successful (sr_status r))" for d
    by (simp add: classify_dependency_def existing_by_key_def is_some_and_def split: option.splits)
  have "s \<in> rs_graph_step ` set ready \<longleftrightarrow> (\<exists>r. r \<in> set ready \<and> s = rs_graph_step r)" by auto
  also have "\<dots> \<longleftrightarrow> (\<exists>steps key deps fi. graph_steps g = Some steps \<and> s \<in> set steps
      \<and> workflow_graph_step_key s = Inr key \<and> key \<notin> sr_step_key ` set existing
      \<and> workflow_graph_step_dependencies s = Inr deps \<and> deps \<noteq> []
      \<and> workflow_graph_fan_in_readiness s deps (existing_by_key existing) = Inr fi
      \<and> workflow_graph_fan_in_ready fi)" (is "?l \<longleftrightarrow> ?r")
  proof
    assume ?l
    then show ?r unfolding ready_steps_mem [OF assms] by blast
  next
    assume ?r
    then obtain fi where fi: "\<exists>steps key deps. graph_steps g = Some steps \<and> s \<in> set steps
      \<and> workflow_graph_step_key s = Inr key \<and> key \<notin> sr_step_key ` set existing
      \<and> workflow_graph_step_dependencies s = Inr deps \<and> deps \<noteq> []
      \<and> workflow_graph_fan_in_readiness s deps (existing_by_key existing) = Inr fi
      \<and> workflow_graph_fan_in_ready fi" by blast
    then show ?l unfolding ready_steps_mem [OF assms]
      by (intro exI [of _ "\<lparr>rs_graph_step = s, rs_fan_in = fi\<rparr>"]) simp
  qed
  finally show ?thesis
    by (auto simp: fan_in_readiness_Inr fan_in_of_def workflow_graph_fan_in_ready_def succ image_iff)
qed

lemma ready_iff_witness:
  "\<exists>ready. workflow_graph_ready_steps sample_graph [step_sample 30 ''draft'' ''completed''] = Inr ready
     \<and> graph_node ''review'' [(''depends_on'', JArr [JStr ''draft''])] \<in> rs_graph_step ` set ready"
proof -
  let ?g = sample_graph and ?e = "[step_sample 30 ''draft'' ''completed'']"
    and ?s = "graph_node ''review'' [(''depends_on'', JArr [JStr ''draft''])]"
  obtain ready where ready: "workflow_graph_ready_steps ?g ?e = Inr ready"
    using validated_ready_steps [OF sample_graph_valid] by blast
  have "is_some_and (graph_steps ?g) (\<lambda>steps. ?s \<in> set steps)" by code_simp
  then obtain steps where "graph_steps ?g = Some steps" "?s \<in> set steps"
    by (auto simp: is_some_and_iff)
  moreover have "workflow_graph_step_key ?s = Inr ''review''" by code_simp
  moreover have "\<forall>r \<in> set ?e. sr_step_key r \<noteq> ''review''" by code_simp
  moreover have "workflow_graph_step_dependencies ?s = Inr [''draft'']" by code_simp
  moreover have "workflow_graph_fan_in_mode ?s = Inr ''all''" by code_simp
  moreover have "workflow_graph_fan_in_min_success ?s ''all'' (length [''draft'']) = Inr 1" by code_simp
  moreover have "1 \<le> length (filter (\<lambda>d. is_some_and (workflow_graph_latest_step ?e d)
           (\<lambda>r. workflow_step_status_successful (sr_status r))) [''draft''])" by code_simp
  ultimately show ?thesis using ready ready_iff [OF ready, of ?s] by blast
qed

text \<open>
  C8. The fan-in of a step with dependencies asks for at least one success and at most as many
  as there are dependencies; the succeeded, the failed and the pending dependencies are all of
  them; under \<open>all\<close> it is ready exactly if every dependency succeeded, under \<open>any\<close> exactly if
  one did.
\<close>

theorem fan_in_sound:
  assumes "workflow_graph_fan_in_readiness s deps statuses = Inr fi" and "deps \<noteq> []"
  shows "1 \<le> fi_min_success fi \<and> fi_min_success fi \<le> length deps
    \<and> length (fi_successful_dependencies fi) + length (fi_failed_dependencies fi)
        + length (fi_pending_dependencies fi) = length deps
    \<and> (fi_mode fi = ''all'' \<longrightarrow>
        workflow_graph_fan_in_ready fi = (fi_successful_dependencies fi = deps))
    \<and> (fi_mode fi = ''any'' \<longrightarrow>
        workflow_graph_fan_in_ready fi = (fi_successful_dependencies fi \<noteq> []))"
proof -
  from assms(1) obtain mode m where m: "workflow_graph_fan_in_mode s = Inr mode"
    "workflow_graph_fan_in_min_success s mode (length deps) = Inr m"
    "fi = fan_in_of mode m deps statuses"
    by (auto simp: fan_in_readiness_Inr)
  have "1 \<le> m \<and> m \<le> length deps" using fan_in_min_success_bounds [OF m(1,2)] assms(2) by simp
  moreover have "m = length deps" if "mode = ''all''"
    using m(2) that by (simp add: workflow_graph_fan_in_min_success_def)
  moreover have "m = 1" if "mode = ''any''"
    using m(2) that by (simp add: workflow_graph_fan_in_min_success_def)
  moreover have "length deps \<le> length (filter p deps) \<longleftrightarrow> filter p deps = deps" for p
    using length_filter_less [of _ deps p] by (metis filter_True leD order_refl)
  ultimately show ?thesis
    using fan_in_partition [OF assms(1)] m(3)
    by (auto simp: fan_in_of_def workflow_graph_fan_in_ready_def Suc_le_eq)
qed

definition any_of_two :: json where
  "any_of_two = mk_obj [(''key'', JStr ''c''), (''depends_on'', JArr [JStr ''a'', JStr ''b'']),
     (''fan_in'', JStr ''any'')]"

lemma fan_in_sound_witness:
  "\<exists>fi. workflow_graph_fan_in_readiness any_of_two [''a'', ''b''] (\<lambda>_. None) = Inr fi
     \<and> fi_min_success fi \<le> 2"
proof -
  have "yields (workflow_graph_fan_in_readiness any_of_two [''a'', ''b''] (\<lambda>_. None)) (\<lambda>_. True)"
    by code_simp
  then obtain fi where fi: "workflow_graph_fan_in_readiness any_of_two [''a'', ''b''] (\<lambda>_. None) = Inr fi"
    by (rule yieldsE)
  with fan_in_sound [OF fi] show ?thesis by simp
qed

text \<open>
  A quorum written under \<open>join\<close>, the alias the mode is read from, is refused whatever its
  \<open>min_success\<close> is: the count is read from \<open>fan_in\<close> only. The same policy under \<open>fan_in\<close> is
  accepted.
\<close>

definition quorum_step :: "string \<Rightarrow> int \<Rightarrow> json" where
  "quorum_step name n = JObj [(name, JObj [(''min_success'', JInt n), (''mode'', JStr ''quorum'')])]"

lemma quorum_mode:
  "name = ''fan_in'' \<or> name = ''join'' \<Longrightarrow> workflow_graph_fan_in_mode (quorum_step name n) = Inr ''quorum''"
proof -
  have "to_ascii_lowercase (trim ''quorum'') = ''quorum''" by code_simp
  then show "name = ''fan_in'' \<or> name = ''join'' \<Longrightarrow> ?thesis"
    by (auto simp: workflow_graph_fan_in_mode_def quorum_step_def fan_in_mode_text_def)
qed

theorem join_quorum_refused:
  "workflow_graph_fan_in_mode (quorum_step ''join'' n) = Inr ''quorum''
   \<and> workflow_graph_fan_in_readiness (quorum_step ''join'' n) deps statuses
       = Inl (bad_request ''workflow graph step fan_in quorum requires min_success'')
   \<and> (\<exists>fi. workflow_graph_fan_in_readiness (quorum_step ''fan_in'' 1) [''a'', ''b''] statuses = Inr fi)"
proof -
  have "workflow_graph_fan_in_min_success (quorum_step ''join'' n) ''quorum'' k
      = Inl (bad_request ''workflow graph step fan_in quorum requires min_success'')" for k
    by (simp add: workflow_graph_fan_in_min_success_def quorum_step_def)
  moreover have "workflow_graph_fan_in_min_success (quorum_step ''fan_in'' 1) ''quorum'' (length [''a'', ''b''])
      = Inr 1" by code_simp
  ultimately show ?thesis
    using quorum_mode [of "''join''" n] quorum_mode [of "''fan_in''" 1]
    by (simp add: workflow_graph_fan_in_readiness_def)
qed

end
