(* ===== verification/Tool_Checks.thy ===== *)
theory Tool_Checks
  imports Delegation
begin

text \<open>
  What a tool call that passed the check of its grant has established, and how the operations
  that only read behave.
\<close>

section \<open>Effects that change nothing, or nothing of the grants\<close>

interpretation unchanged: relation_on_worlds "\<lambda>w w'. w' = w"
  by unfold_locales simp_all

interpretation same_grants: relation_on_worlds "\<lambda>w w'. task_grants w' = task_grants w"
  by unfold_locales simp_all

lemmas pure_ops = unchanged.resp_intros

lemma pure_readers:
  "keeps (\<lambda>w w'. w' = w) (list_workflow_runs S)"
  "keeps (\<lambda>w w'. w' = w) (list_workflow_step_runs S i)"
  "keeps (\<lambda>w w'. w' = w) (get_workflow_run i)"
  "keeps (\<lambda>w w'. w' = w) (get_task_grant i)"
  "keeps (\<lambda>w w'. w' = w) (get_session i)"
  "keeps (\<lambda>w w'. w' = w) (get_agent S i)"
  "keeps (\<lambda>w w'. w' = w) (get_workflow_step_run i)"
  "keeps (\<lambda>w w'. w' = w) (task_grant_lineage i)"
  by (simp_all add: keeps_def list_workflow_runs_def list_workflow_step_runs_def get_workflow_run_def
      get_task_grant_def get_session_def get_agent_def get_workflow_step_run_def
      task_grant_lineage_def eff_simps)

lemma pure_run_for_session: "keeps (\<lambda>w w'. w' = w) (workflow_run_for_session S s)"
proof -
  have "keeps (\<lambda>w w'. w' = w) (first_owning_run S s runs)" for runs
    by (induction runs)
      (simp_all only: first_owning_run.simps workflow_run_owns_session_def, (intro pure_ops pure_readers)+)
  then show ?thesis unfolding workflow_run_for_session_def by (intro pure_ops pure_readers)
qed

lemma record_same_grants:
  "keeps (\<lambda>w w'. task_grants w' = task_grants w) (record_event_and_audit S a s et p ac rt d)"
  unfolding record_event_and_audit_def audit_def new_audit_log_def append_event_def
  by (intro same_grants.resp_intros) (simp_all add: keeps_def other_tables_same_grants)

lemma record_checked_same_grants:
  "task_grants (snd (record_task_grant_checked S g s n w)) = task_grants w"
  using record_same_grants
  by (simp add: record_task_grant_checked_def Let_def keeps_def)

section \<open>The lineage check\<close>

definition step_terminal_of :: "world \<Rightarrow> task_grant \<Rightarrow> bool" where
  "step_terminal_of w g \<longleftrightarrow> is_some_and (tg_workflow_step_run_id g)
     (\<lambda>i. is_some_and (tget (workflow_step_runs w) i)
        (\<lambda>step. workflow_step_status_terminal (sr_status step)))"

lemma first_lineage_denial_None:
  "first_lineage_denial S now ls w = (Inr None, w') \<Longrightarrow>
   w' = w \<and> (\<forall>g \<in> set ls. task_grant_runtime_denial g now = None \<and> \<not> step_terminal_of w g)"
proof (induction ls arbitrary: w)
  case (Cons g ls)
  obtain b w1 where b: "(case tg_workflow_step_run_id g of
         None \<Rightarrow> retS False
       | Some step_id \<Rightarrow> bindS (get_workflow_step_run step_id) (\<lambda>step.
           retS (workflow_step_status_terminal (sr_status step)))) w = (Inr b, w1)"
    using Cons.prems by (auto simp: bindS_eq_Inr)
  then have w1: "w1 = w" "b = step_terminal_of w g"
    by (auto simp: step_terminal_of_def get_workflow_step_run_def bindS_eq_Inr eff_simps
        split: option.splits)
  with b Cons.prems have "\<not> b" by (auto simp: bindS_def eff_simps)
  moreover have "task_grant_runtime_denial g now = None"
  proof (rule ccontr)
    assume "task_grant_runtime_denial g now \<noteq> None"
    then obtain m x where "task_grant_runtime_denial g now = Some (m, x)" by auto
    with b w1 \<open>\<not> b\<close> Cons.prems show False
      by (auto simp: bindS_def thenS_def eff_simps split: prod.splits sum.splits)
  qed
  moreover from this b w1 \<open>\<not> b\<close> Cons.prems have "first_lineage_denial S now ls w = (Inr None, w')"
    by (simp add: bindS_def)
  ultimately show ?case using Cons.IH w1(2) by auto
qed (simp add: eff_simps)

lemma lineage_denial_None_w:
  assumes "task_grant_lineage_denial S g w = (Inr None, w')"
  obtains ls where "task_grant_lineage (tg_id g) w = (Inr ls, w)"
    "\<forall>h \<in> set ls. task_grant_runtime_denial h (clock S (ticks w)) = None \<and> \<not> step_terminal_of w h"
    "w' = w\<lparr>ticks := Suc (ticks w)\<rparr>"
proof -
  let ?w = "w\<lparr>ticks := Suc (ticks w)\<rparr>"
  obtain ls where ls: "lineage_from (task_grants w) [] (tg_id g) = Inr ls"
    "first_lineage_denial S (clock S (ticks w)) ls ?w = (Inr None, w')"
    using assms
    by (auto simp: task_grant_lineage_denial_def now_utc_def bindS_eq_Inr task_grant_lineage_def eff_simps)
  from first_lineage_denial_None [OF ls(2)] ls(1) show thesis
    by (intro that) (auto simp: task_grant_lineage_def eff_simps step_terminal_of_def)
qed

section \<open>A tool call that passed\<close>

lemma denied_not_Inr [simp]: "thenS m (failS e) w \<noteq> (Inr x, w')"
  by (auto simp: thenS_def bindS_def eff_simps split: prod.splits sum.splits)

lemma passed_if:
  "(if c then thenS m (failS e) else f) w = (Inr x, w') \<longleftrightarrow> \<not> c \<and> f w = (Inr x, w')"
  by simp

lemma passed_option:
  "(case d of None \<Rightarrow> f | Some r \<Rightarrow> thenS (m r) (failS (e r))) w = (Inr x, w') \<longleftrightarrow> d = None \<and> f w = (Inr x, w')"
  by (cases d) simp_all

lemma passed_catch: "catchS m (\<lambda>e. thenS (k e) (failS e)) w = (Inr x, w') \<longleftrightarrow> m w = (Inr x, w')"
  by (auto simp: catchS_def split: prod.splits sum.splits)

text \<open>What each guard on the way has established, and the reservation and the record that remain.\<close>

lemma passed_call:
  assumes "validate_task_grant_for_tool_invocation S tool input reserve rd rc w = (Inr (Some g'), w')"
  shows "\<exists>i g run w1 g1 w2. xt_task_grant_id input = Some i \<and> tget (task_grants w) i = Some g
    \<and> tget (workflow_runs w) (tg_workflow_run_id g) = Some run
    \<and> workflow_run_execution_denial (wr_status run) = None
    \<and> task_grant_session_matches g run (xt_session_id input)
    \<and> task_grant_lineage_denial S g w = (Inr None, w1) \<and> task_grant_allows_tool g tool
    \<and> task_grant_connector_invocation_denial g tool (xt_args input) = Inr None
    \<and> (if reserve then reserve_task_grant_tool_call S (tg_id g) w1 = (Inr g1, w2) else (g1, w2) = (g, w1))
    \<and> task_grants w' = task_grants w2"
proof -
  have pure: "v = u" if "workflow_run_for_session S s u = (r, v)" for s u v r
    using pure_run_for_session that by (rule keepsD)
  have cls: "v = u" if "(case c of None \<Rightarrow> retS True | Some agent_class \<Rightarrow> bindS (get_agent S a) (\<lambda>agent.
      retS (task_grant_agent_class_matches agent agent_class))) u = (r, v)" for c a u v r
  proof -
    have "keeps (\<lambda>w w'. w' = w) (case c of None \<Rightarrow> retS True | Some agent_class \<Rightarrow> bindS (get_agent S a) (\<lambda>agent.
        retS (task_grant_agent_class_matches agent agent_class)))" by (intro pure_ops pure_readers)
    then show ?thesis using that by (rule keepsD)
  qed
  have recorded: "task_grants v = task_grants u"
    if "whenS rc (record_task_grant_checked S h s n) u = (Inr (), v)" for h s n u v
    using that record_checked_same_grants [of S h s n u] by (cases rc) (auto simp: eff_simps)
  note defs = validate_task_grant_for_tool_invocation_def Let_def effs_Inr
  show ?thesis
  proof (cases "xt_task_grant_id input")
    case None
    with assms show ?thesis by (auto simp: defs split: option.splits)
  next
    case (Some i)
    from assms show ?thesis
      apply (simp add: Some defs passed_if passed_option passed_catch get_task_grant_def get_workflow_run_def
          get_session_def ok_or_eq_Inr del: if_split)
      apply (elim exE conjE, (drule cls pure recorded)+)
      apply (cases reserve; force simp: passed_catch eff_simps)
      done
  qed
qed

lemma ungranted_call:
  assumes "validate_task_grant_for_tool_invocation S tool input reserve rd rc w = (Inr None, w')"
  shows "xt_task_grant_id input = None \<and> w' = w
    \<and> workflow_run_for_session S (xt_session_id input) w = (Inr None, w)"
proof -
  note defs = validate_task_grant_for_tool_invocation_def Let_def effs_Inr
  have pure: "v = u" if "workflow_run_for_session S s u = (r, v)" for s u v r
    using pure_run_for_session that by (rule keepsD)
  show ?thesis
  proof (cases "xt_task_grant_id input")
    case None
    from assms show ?thesis by (auto simp: None defs split: option.splits dest: pure)
  next
    case (Some i)
    from assms have False
      by (simp add: Some defs passed_if passed_option passed_catch del: if_split)
    then show ?thesis by blast
  qed
qed


definition working_world :: world where
  "working_world = delegated_world\<lparr>sessions := [(5, session_sample)]\<rparr>"

definition search_call :: execute_tool where
  "search_call = \<lparr>xt_session_id = 5, xt_task_grant_id = Some 21, xt_args = JObj []\<rparr>"


end
