(* ===== verification/Claiming.thy ===== *)
theory Claiming
  imports Tool_Checks
begin

text \<open>
  The properties of claims on step runs: one session has one claimed step at a time, only the
  holder of a claim updates it, a scheduled step starts when it is due.
\<close>

lemma claim_Inr:
  "claim_workflow_step_run_if_available step now w = (Inr s, w') \<longleftrightarrow>
     s = step \<and> w' = put_step step w
     \<and> sr_claimed_by_worker step \<noteq> None
     \<and> sr_claim_owner_version step = WORKFLOW_STEP_CLAIM_OWNER_VERSION
     \<and> \<not> session_occupied w step
     \<and> is_some_and (tget (workflow_step_runs w) (sr_id step)) (step_claimable now)"
  by (auto simp: claim_workflow_step_run_if_available_def)

lemma put_step_simps [simp]:
  "workflow_runs (put_step s w) = workflow_runs w" "step_session (put_step s w) = step_session w"
  "workflow_step_runs (put_step s w) = tput (sr_id s) s (workflow_step_runs w)"
  by (simp_all add: put_step_def step_session_def fun_eq_iff)

lemma free_session:
  "\<not> session_occupied w step \<longleftrightarrow>
     (\<exists>sid. step_session w step = Some sid \<and> \<not> memory_session_has_pending_actions w sid
      \<and> (\<forall>(i, other) \<in> set (workflow_step_runs w). sr_id other \<noteq> sr_id step
           \<longrightarrow> sr_status other \<in> {''running'', ''requires_action''} \<longrightarrow> step_session w other \<noteq> Some sid)
      \<and> (\<forall>(i, job) \<in> set (session_loop_jobs w). lj_session_id job = sid \<longrightarrow> lj_status job \<noteq> JobRunning))"
  by (cases "step_session w step") (auto simp: session_occupied_def Let_def list_ex_iff)

lemma occupied_by_step:
  assumes "(i, other) \<in> set (workflow_step_runs w)" and "sr_id other \<noteq> sr_id step"
    and "sr_status other \<in> {''running'', ''requires_action''}"
    and "step_session w other = step_session w step"
  shows "session_occupied w step"
  using assms unfolding session_occupied_def Let_def list_ex_iff by blast

section \<open>Exclusive claims\<close>

text \<open>
  A claim succeeds only on a step that is queued and unclaimed, or running under an expired
  lease, in a session that is free: it has no pending approval or tool call, no running loop job
  and no other running or waiting step. It stores exactly the claimed step.
\<close>

theorem claim_takes_free_session:
  assumes "claim_workflow_step_run_if_available step now w = (Inr s, w')"
  shows "s = step \<and> w' = put_step step w
    \<and> (\<exists>sid. step_session w step = Some sid \<and> \<not> memory_session_has_pending_actions w sid
        \<and> (\<forall>i other. tget (workflow_step_runs w') i = Some other \<and> sr_id other \<noteq> sr_id step
             \<and> sr_status other \<in> {''running'', ''requires_action''}
             \<longrightarrow> step_session w' other \<noteq> Some sid)
        \<and> (\<forall>i job. tget (session_loop_jobs w) i = Some job \<and> lj_session_id job = sid
             \<longrightarrow> lj_status job \<noteq> JobRunning))
    \<and> (\<exists>cur. tget (workflow_step_runs w) (sr_id step) = Some cur
        \<and> (sr_status cur = ''queued'' \<and> sr_claimed_by_worker cur = None
           \<or> sr_status cur = ''running''
             \<and> is_some_and (sr_lease_expires_at cur) (\<lambda>deadline. deadline \<le> now)))"
proof -
  note c = assms [unfolded claim_Inr]
  then have free: "\<not> session_occupied w step" by simp
  then obtain sid where sid: "step_session w step = Some sid" "\<not> memory_session_has_pending_actions w sid"
    "\<forall>(i, other) \<in> set (workflow_step_runs w). sr_id other \<noteq> sr_id step
       \<longrightarrow> sr_status other \<in> {''running'', ''requires_action''} \<longrightarrow> step_session w other \<noteq> Some sid"
    "\<forall>(i, job) \<in> set (session_loop_jobs w). lj_session_id job = sid \<longrightarrow> lj_status job \<noteq> JobRunning"
    unfolding free_session by blast
  have "step_session w' other \<noteq> Some sid"
    if "tget (workflow_step_runs w') i = Some other" "sr_id other \<noteq> sr_id step"
      "sr_status other \<in> {''running'', ''requires_action''}" for i other
  proof -
    have "tget (workflow_step_runs w) i = Some other"
      using that(1,2) c by (auto simp: store_table.get_put split: if_splits)
    then have "(i, other) \<in> set (workflow_step_runs w)" by (rule map_of_SomeD)
    then show ?thesis using sid(3) that(2,3) c by auto
  qed
  moreover have "\<exists>cur. tget (workflow_step_runs w) (sr_id step) = Some cur
        \<and> (sr_status cur = ''queued'' \<and> sr_claimed_by_worker cur = None
           \<or> sr_status cur = ''running''
             \<and> is_some_and (sr_lease_expires_at cur) (\<lambda>deadline. deadline \<le> now))"
    using c by (auto simp: is_some_and_iff step_claimable_def)
  moreover have "lj_status job \<noteq> JobRunning"
    if "tget (session_loop_jobs w) i = Some job" "lj_session_id job = sid" for i job
    using map_of_SomeD [OF that(1)] that(2) sid(4) by blast
  ultimately show ?thesis using c sid(1,2) by blast
qed

definition two_steps :: world where
  "two_steps = one_run\<lparr>workflow_step_runs :=
     [(30, step_sample 30 ''draft'' ''queued''), (31, step_sample 31 ''review'' ''queued'')]\<rparr>"

definition claimed_sample :: "uuid \<Rightarrow> string \<Rightarrow> workflow_step_run" where
  "claimed_sample i key = claimed_step (step_sample i key ''queued'') ''worker:a'' 9 300 0"

definition after_claim :: world where
  "after_claim = put_step (claimed_sample 30 ''draft'') two_steps"

lemma sample_claim:
  "claim_workflow_step_run_if_available (claimed_sample 30 ''draft'') 0 two_steps
     = (Inr (claimed_sample 30 ''draft''), after_claim)"
  by code_simp

lemma claim_takes_free_session_witness:
  "step_session two_steps (claimed_sample 30 ''draft'') = Some 5
   \<and> \<not> memory_session_has_pending_actions two_steps 5"
proof -
  have "step_session two_steps (claimed_sample 30 ''draft'') = Some 5" by code_simp
  with claim_takes_free_session [OF sample_claim] show ?thesis by auto
qed

text \<open>
  Of two claims on one session the second fails and changes nothing, whoever makes it: on
  another step as long as the first is running, on the same step until its lease expires.
\<close>

theorem second_claim_fails:
  assumes "claim_workflow_step_run_if_available a now w = (Inr a', w1)"
    and "sr_status a = ''running''" and "sr_lease_expires_at a = Some deadline"
    and "step_session w b = step_session w a" and "sr_id b = sr_id a \<longrightarrow> now' < deadline"
  shows "\<exists>e. claim_workflow_step_run_if_available b now' w1 = (Inl e, w1)"
proof -
  note c = assms(1) [unfolded claim_Inr]
  have a: "tget (workflow_step_runs w1) (sr_id a) = Some a" using c by (simp add: store_table.get_put)
  then have mem: "(sr_id a, a) \<in> set (workflow_step_runs w1)" by (rule map_of_SomeD)
  show ?thesis
  proof (cases "sr_id b = sr_id a")
    case True
    with assms(2,3,5) a have "\<not> is_some_and (tget (workflow_step_runs w1) (sr_id b)) (step_claimable now')"
      by (simp add: step_claimable_def)
    then show ?thesis by (auto simp: claim_workflow_step_run_if_available_def)
  next
    case False
    have "session_occupied w1 b"
      using mem False assms(2,4) c by (intro occupied_by_step [OF mem]) auto
    then show ?thesis by (auto simp: claim_workflow_step_run_if_available_def)
  qed
qed

lemma second_claim_fails_witness:
  "(\<exists>e. claim_workflow_step_run_if_available (claimed_sample 31 ''review'') 1000000000000 after_claim
      = (Inl e, after_claim))
   \<and> (\<exists>e. claim_workflow_step_run_if_available (claimed_sample 30 ''draft'') 1000000000 after_claim
      = (Inl e, after_claim))"
proof -
  have status: "sr_status (claimed_sample 30 ''draft'') = ''running''"
    and lease: "sr_lease_expires_at (claimed_sample 30 ''draft'') = Some 300000000000"
    and same: "step_session two_steps (claimed_sample 31 ''review'')
      = step_session two_steps (claimed_sample 30 ''draft'')"
    and ids: "sr_id (claimed_sample 31 ''review'') \<noteq> sr_id (claimed_sample 30 ''draft'')"
    by code_simp+
  note second = second_claim_fails [OF sample_claim status lease]
  show ?thesis using second [OF same] ids second [OF refl, of 1000000000] by simp
qed

section \<open>Fencing\<close>

lemma finalize_keeps_steps:
  "workflow_step_runs (snd (finalize_workflow_step_task_grant S step w)) = workflow_step_runs w"
  by (simp add: finalize_workflow_step_task_grant_def update_task_grant_status_def
      get_task_grant_def get_workflow_run_def bindS_def now_utc_def eff_simps ok_or_def Let_def
      split: option.splits)

text \<open>When a worker may store an update of a step.\<close>

definition may_write :: "string \<Rightarrow> timestamp \<Rightarrow> workflow_step_run \<Rightarrow> workflow_step_run \<Rightarrow> bool" where
  "may_write worker now cur next_step \<longleftrightarrow>
     sr_claimed_by_worker next_step = Some worker
     \<and> sr_claim_owner_version next_step = WORKFLOW_STEP_CLAIM_OWNER_VERSION
     \<and> (sr_status cur = ''running'' \<and> sr_claimed_by_worker cur = Some worker
          \<and> sr_claim_owner_version cur = WORKFLOW_STEP_CLAIM_OWNER_VERSION
        \<or> sr_status cur = ''requires_action''
          \<and> is_none_or (sr_lease_expires_at cur) (\<lambda>deadline. deadline \<le> now))"

lemma may_write_iff:
  "may_write worker now cur next_step \<longleftrightarrow>
     sr_claimed_by_worker next_step = Some worker
     \<and> sr_claim_owner_version next_step = WORKFLOW_STEP_CLAIM_OWNER_VERSION
     \<and> claim_holds worker now cur"
  by (simp add: may_write_def claim_holds_def)

lemma update_claimed_steps:
  assumes "tget (workflow_step_runs w) i = Some cur" and "sr_id next_step = i"
  shows "workflow_step_runs (snd (update_claimed_workflow_step_run S next_step worker w)) =
      (if may_write worker (clock S (ticks w)) cur next_step
       then tput i next_step (workflow_step_runs w) else workflow_step_runs w)"
    and "\<not> may_write worker (clock S (ticks w)) cur next_step
       \<Longrightarrow> isl (fst (update_claimed_workflow_step_run S next_step worker w))"
proof -
  let ?w = "w\<lparr>ticks := Suc (ticks w)\<rparr>"
  have store: "store_claimed_step next_step worker now ?w =
      (if claim_holds worker now cur then (Inr next_step, put_step next_step ?w)
       else (Inl (not_found ''workflow step run not found''), ?w))" for now
    using assms by (simp add: store_claimed_step_def)
  obtain r v where fin: "finalize_workflow_step_task_grant S next_step (put_step next_step ?w) = (r, v)" by fastforce
  with finalize_keeps_steps [of S next_step "put_step next_step ?w"]
  have v: "workflow_step_runs v = tput i next_step (workflow_step_runs w)" using assms(2) by simp
  show "workflow_step_runs (snd (update_claimed_workflow_step_run S next_step worker w)) =
      (if may_write worker (clock S (ticks w)) cur next_step
       then tput i next_step (workflow_step_runs w) else workflow_step_runs w)"
    by (simp add: update_claimed_workflow_step_run_def bindS_def thenS_def now_utc_def eff_simps store fin v
        may_write_iff split: sum.splits)
  show "isl (fst (update_claimed_workflow_step_run S next_step worker w))"
    if "\<not> may_write worker (clock S (ticks w)) cur next_step"
    using that by (auto simp: update_claimed_workflow_step_run_def bindS_def now_utc_def eff_simps store may_write_iff)
qed

lemma renew_steps:
  assumes "tget (workflow_step_runs w) i = Some cur"
  shows "renew_workflow_step_run_lease S i worker seconds w =
    (if \<not> (1 \<le> seconds \<and> seconds \<le> 86400)
     then (Inl (bad_request ''workflow step lease_seconds must be between 1 and 86400''), w)
     else if sr_status cur = ''running'' \<and> sr_claimed_by_worker cur = Some worker
          \<and> sr_claim_owner_version cur = WORKFLOW_STEP_CLAIM_OWNER_VERSION
     then (let step = cur\<lparr>sr_lease_expires_at := Some (plus_seconds (clock S (ticks w)) seconds),
                          sr_updated_at := clock S (ticks w)\<rparr>
           in (Inr step, w\<lparr>ticks := Suc (ticks w), workflow_step_runs := tput i step (workflow_step_runs w)\<rparr>))
     else (Inl (not_found ''workflow step run not found''), w\<lparr>ticks := Suc (ticks w)\<rparr>))"
  using assms by (auto simp: renew_workflow_step_run_lease_def bindS_def now_utc_def eff_simps Let_def)



section \<open>Scheduled steps\<close>

text \<open>
  The scheduler queues a stored step exactly if it is scheduled and due, and then changes
  nothing but its status and the time of its update.
\<close>

theorem activation_iff_due:
  assumes "tget (workflow_step_runs w) i = Some step"
  shows "activate_scheduled_workflow_step_run i checked_at w =
    (if sr_status step = ''scheduled'' \<and> is_some_and (sr_scheduled_at step) (\<lambda>t. t \<le> checked_at)
     then (Inr (Some (step\<lparr>sr_status := ''queued'', sr_updated_at := checked_at\<rparr>)),
           w\<lparr>workflow_step_runs := tput i (step\<lparr>sr_status := ''queued'', sr_updated_at := checked_at\<rparr>)
               (workflow_step_runs w)\<rparr>)
     else (Inr None, w))"
proof -
  have "(sr_status step \<noteq> ''scheduled'' \<or> is_none_or (sr_scheduled_at step) (\<lambda>t. t > checked_at))
      = (\<not> (sr_status step = ''scheduled'' \<and> is_some_and (sr_scheduled_at step) (\<lambda>t. t \<le> checked_at)))"
    by (cases "sr_scheduled_at step") auto
  with assms show ?thesis by (auto simp: activate_scheduled_workflow_step_run_def Let_def)
qed

lemma activation_iff_due_witness:
  "fst (activate_scheduled_workflow_step_run 30 7 two_steps) = Inr None"
proof -
  have "tget (workflow_step_runs two_steps) 30 = Some (step_sample 30 ''draft'' ''queued'')"
    and "sr_status (step_sample 30 ''draft'' ''queued'') \<noteq> ''scheduled''" by code_simp+
  with activation_iff_due [OF this(1), of 7] show ?thesis by simp
qed

section \<open>The claim of an agent\<close>

text \<open>
  A claim request that succeeds was for the agent the step is assigned to, on a step nothing
  blocks, in an executable run, under an active unexpired grant of that run for that agent and
  session, for a lease between a second and a day; and what is stored is the requested step,
  running under the claim of the worker until the lease ends.
\<close>

lemma claim_stores_step:
  "claim_workflow_step_run_if_available step now w = (Inr s, w') \<Longrightarrow> s = step"
  by (simp add: claim_Inr)

theorem claim_request_sound:
  assumes "claim_workflow_step_run S P rq cur run agent_id lease w = (Inr (step, grant, packet), w')"
  shows "workflow_run_status_allows_execution (wr_status run)
    \<and> 1 \<le> unwrap_or lease 300 \<and> unwrap_or lease 300 \<le> 86400
    \<and> (\<exists>agent worker now sid gid g u u'. sr_agent_id cur = Some agent
        \<and> workflow_step_execution_owner rq = Inr worker
        \<and> workflow_step_claim_blockers cur (Some agent) now = []
        \<and> sr_task_grant_id cur = Some gid \<and> get_task_grant gid u = (Inr g, u')
        \<and> claim_grant_check g run agent sid now = Inr ()
        \<and> (\<exists>v v'. claim_workflow_step_run_if_available
             (claimed_step cur worker packet (unwrap_or lease 300) now) now v = (Inr step, v'))
        \<and> step = claimed_step cur worker packet (unwrap_or lease 300) now)"
proof -
  note chain = assms [unfolded claim_workflow_step_run_def Let_def thenS_def guardS_def]
  from chain show ?thesis
    by (auto simp: bindS_eq_Inr eff_simps not_denied_def workflow_run_execution_denial_def
        split: if_splits option.splits prod.splits) (use claim_stores_step in blast)+
qed

definition worker_request :: request where
  "worker_request =
     \<lparr>rq_authorize_session = (\<lambda>i. retS ()), rq_subject_id = ''s'', rq_is_worker = True,
      rq_worker_header = Some ''a''\<rparr>"

definition claimable_sample :: workflow_step_run where
  "claimable_sample = (step_sample 30 ''draft'' ''queued'')\<lparr>sr_task_grant_id := Some 20\<rparr>"

definition claiming_world :: world where
  "claiming_world = working_world
     \<lparr>agents := [(1, sample_agent)], agent_versions := [(1, [sample_version])],
      workflow_step_runs := [(30, claimable_sample)]\<rparr>"

lemma claim_request_sound_witness:
  "\<exists>step grant packet w'. claim_workflow_step_run sample_sys idle_peers worker_request claimable_sample
      run_sample 1 None claiming_world = (Inr (step, grant, packet), w')
    \<and> (\<exists>worker now. step = claimed_step claimable_sample worker packet 300 now)"
proof -
  have "succeeds (claim_workflow_step_run sample_sys idle_peers worker_request claimable_sample
      run_sample 1 None claiming_world) (\<lambda>_ _. True)" by code_simp
  then obtain r w' where r: "claim_workflow_step_run sample_sys idle_peers worker_request claimable_sample
      run_sample 1 None claiming_world = (Inr r, w')" by (rule succeedsE)
  obtain step grant packet where "r = (step, grant, packet)" by (cases r)
  with r claim_request_sound [of sample_sys idle_peers worker_request claimable_sample run_sample 1 None
      claiming_world step grant packet w'] show ?thesis by auto
qed

end
