(* ===== verification/Event_Log.thy ===== *)
theory Event_Log
  imports Runtime Samples
begin

text \<open>
  The event log of a session and the audit log: entries are only ever appended, the sequence
  numbers of a session have no gap, an identifier stands for one entry. A session that is over
  stays over.
\<close>

section \<open>The logs only grow\<close>

definition log_ok :: "world \<Rightarrow> bool" where
  "log_ok w \<longleftrightarrow> (\<forall>s. map ev_seq (session_events w s) = map int [1..<Suc (length (session_events w s))]
     \<and> (\<forall>e \<in> set (session_events w s). ev_session_id e = s))"

definition logs_grow :: "world \<Rightarrow> world \<Rightarrow> bool" where
  "logs_grow w w' \<longleftrightarrow>
     (\<forall>s. \<exists>new. session_events w' s = session_events w s @ new)
     \<and> (\<forall>i a. tget (audit_logs w) i = Some a \<longrightarrow> tget (audit_logs w') i = Some a)
     \<and> (log_ok w \<longrightarrow> log_ok w')"

lemma logs_grow_same:
  "events w' = events w \<Longrightarrow> audit_logs w' = audit_logs w \<Longrightarrow> logs_grow w w'"
  by (simp add: logs_grow_def log_ok_def session_events_def)

interpretation log: relation_on_worlds logs_grow
proof
  show "logs_grow w w" for w by (rule logs_grow_same) simp_all
  show "logs_grow u w" if "logs_grow u v" "logs_grow v w" for u v w
    using that unfolding logs_grow_def by (metis append.assoc)
qed

lemma append_event_events:
  "snd (append_event_with_id S i b aty aid s et p w) = w
   \<or> (\<exists>e. events (snd (append_event_with_id S i b aty aid s et p w))
            = tput s (session_events w s @ [e]) (events w)
        \<and> audit_logs (snd (append_event_with_id S i b aty aid s et p w)) = audit_logs w
        \<and> ev_seq e = int (length (session_events w s)) + 1 \<and> ev_session_id e = s)"
  by (auto simp: append_event_with_id_def Let_def split: option.splits)

lemma session_events_put:
  "events w' = tput s es (events w) \<Longrightarrow>
   session_events w' t = (if t = s then es else session_events w t)"
  by (simp add: session_events_def store_table.get_put)

lemma append_event_grows: "keeps logs_grow (append_event_with_id S i b aty aid s et p)"
  unfolding keeps_def
proof
  fix w
  let ?w = "snd (append_event_with_id S i b aty aid s et p w)"
  consider "?w = w" | e where "events ?w = tput s (session_events w s @ [e]) (events w)"
    "audit_logs ?w = audit_logs w" "ev_seq e = int (length (session_events w s)) + 1"
    "ev_session_id e = s"
    using append_event_events by blast
  then show "logs_grow w ?w"
  proof cases
    case (2 e)
    note es = session_events_put [OF 2(1)]
    have "log_ok ?w" if "log_ok w"
      using that 2(3,4) by (simp add: log_ok_def es)
    moreover have "\<exists>new. session_events ?w t = session_events w t @ new" for t
      by (simp add: es)
    ultimately show ?thesis using 2(2) by (simp add: logs_grow_def)
  qed (simp add: log.R_refl)
qed

lemma audit_grows: "keeps logs_grow (append_audit_log e)"
  by (auto simp: keeps_def append_audit_log_def logs_grow_def log_ok_def session_events_def
      store_table.get_put split: option.splits)

text \<open>Every other operation leaves the logs as they are.\<close>

lemma keeps_same_logs:
  "(\<And>w. events (snd (m w)) = events w \<and> audit_logs (snd (m w)) = audit_logs w) \<Longrightarrow> keeps logs_grow m"
  by (simp add: keeps_def logs_grow_same)

lemma store_same_logs:
  "keeps logs_grow (now_utc S)" "keeps logs_grow (new_v4 S)"
  "keeps logs_grow (create_workflow_transition t)"
  "keeps logs_grow (modifyS (\<lambda>w. w\<lparr>sessions := f w\<rparr>))" "keeps logs_grow (create_session_thread th)"
  "keeps logs_grow (create_workflow_run r)" "keeps logs_grow (create_workflow_step_run st)"
  "keeps logs_grow (store_existing_step st)"
  "keeps logs_grow (claim_workflow_step_run_if_available st n)"
  "keeps logs_grow (store_claimed_step st k n)" "keeps logs_grow (activate_scheduled_workflow_step_run i n)"
  "keeps logs_grow (admit_child_grant n g)" "keeps logs_grow (update_grant_entry h i)"
  by (rule keeps_same_logs;
      simp add: now_utc_def new_v4_def create_workflow_transition_def modifyS_def
        create_session_thread_def create_workflow_run_def create_workflow_step_run_def
        store_existing_step_def claim_workflow_step_run_if_available_def store_claimed_step_def
        activate_scheduled_workflow_step_run_def admit_child_grant_def update_grant_entry_def
        expire_grant_def put_step_def Let_def split: option.splits sum.splits)+

lemma put_same_logs:
  "keeps logs_grow (\<lambda>w. (Inr x, put_grant g w))"
  "keeps logs_grow (\<lambda>w. (Inr y, put_step st (put_grant g w)))"
  "keeps logs_grow (\<lambda>w. (Inr z, w\<lparr>task_grants := tg w\<rparr>))"
  "keeps logs_grow (modifyS (expire_grant n i))"
  by (rule keeps_same_logs; simp add: put_grant_def put_step_def modifyS_def expire_grant_def
      split: option.splits)+

lemmas log_ops = log.resp_intros store_same_logs put_same_logs

lemma composed_same_logs:
  "keeps logs_grow (modify_run S i f)"
  "keeps logs_grow (set_session_and_primary_thread_status S s t st ts)"
  "keeps logs_grow (adopt_workflow_step_for_loop S i j k)"
  "keeps logs_grow (renew_workflow_step_run_lease S i k n)"
  by (rule keeps_same_logs;
      simp add: modify_run_def get_workflow_run_def set_session_and_primary_thread_status_def
        adopt_workflow_step_for_loop_def renew_workflow_step_run_lease_def get_workflow_step_run_def
        get_session_def bindS_def thenS_def now_utc_def eff_simps Let_def
        split: option.splits sum.splits prod.splits)+

lemma grant_same_logs:
  "keeps logs_grow (create_task_grant S g)"
  "keeps logs_grow (create_workflow_step_run_with_task_grant S st g)"
  "keeps logs_grow (update_task_grant_status S i s)"
  "keeps logs_grow (update_task_grant_context_packet S i c)"
  "keeps logs_grow (reserve_task_grant_usage S i k)"
  "keeps logs_grow (add_task_grant_cost S i amount)"
  unfolding create_task_grant_def create_workflow_step_run_with_task_grant_def
    update_task_grant_status_def update_task_grant_context_packet_def get_task_grant_def
    reserve_task_grant_usage_def task_grant_lineage_def add_task_grant_cost_def Let_def
  by (intro log_ops)+

lemma logs_store_relation:
  assumes "peers_respect logs_grow P"
  shows "store_relation logs_grow S P"
proof -
  note peers = assms [unfolded peers_respect_def]
  show ?thesis
    by unfold_locales
      (simp_all add: append_event_grows audit_grows store_same_logs composed_same_logs
        grant_same_logs peers)
qed

interpretation log_idle: store_relation logs_grow S idle_peers for S
  by (intro logs_store_relation idle_peers_respect) unfold_locales

text \<open>
  Whatever operations run, in whatever order and whether they succeed or fail: what a
  session's event log and the audit log hold stays, in its order; and if the events of every
  session are numbered 1, 2, 3 and so on, they still are.
\<close>

theorem logs_append_only:
  assumes "peers_respect logs_grow P" and "(operation S P)\<^sup>*\<^sup>* w w'"
  shows "(\<forall>s. \<exists>new. session_events w' s = session_events w s @ new)
    \<and> (\<forall>i a. tget (audit_logs w) i = Some a \<longrightarrow> tget (audit_logs w') i = Some a)
    \<and> ((\<forall>s. map ev_seq (session_events w s) = map int [1..<Suc (length (session_events w s))]
           \<and> (\<forall>e \<in> set (session_events w s). ev_session_id e = s))
       \<longrightarrow> (\<forall>s. map ev_seq (session_events w' s) = map int [1..<Suc (length (session_events w' s))]))"
proof -
  have "logs_grow w w'"
    using assms(2)
  proof (induction rule: rtranclp_induct)
    case base
    show ?case by (rule log.R_refl)
  next
    case (step u v)
    from step.IH operation_keeps [OF logs_store_relation [OF assms(1)] step.hyps(2)] show ?case
      by (rule log.R_trans)
  qed
  then show ?thesis unfolding logs_grow_def log_ok_def by blast
qed

lemma logs_append_only_witness:
  "\<exists>new. session_events (snd (trigger_workflow_run_from_webhook sample_sys idle_peers 3 (JObj [])
      (installed sample_graph))) 10 = session_events (installed sample_graph) 10 @ new"
proof -
  have "peers_respect logs_grow idle_peers" by (rule idle_peers_respect) unfold_locales
  moreover have "(operation sample_sys idle_peers)\<^sup>*\<^sup>* (installed sample_graph)
      (snd (trigger_workflow_run_from_webhook sample_sys idle_peers 3 (JObj []) (installed sample_graph)))"
    by (rule r_into_rtranclp) (rule operation.webhook)
  ultimately show ?thesis using logs_append_only by blast
qed

section \<open>Idempotent appends\<close>

lemma find_first_unique:
  assumes "e \<in> set xs" and "p e" and "\<And>x. x \<in> set xs \<Longrightarrow> p x \<Longrightarrow> x = e"
  shows "find_first p xs = Some e"
  using assms(1,3)
proof (induction xs)
  case (Cons x xs)
  show ?case
  proof (cases "p x")
    case True
    with Cons.prems(2) [of x] show ?thesis by simp
  next
    case False
    with Cons.prems(1) assms(2) have "e \<in> set xs" by auto
    moreover have "y = e" if "y \<in> set xs" "p y" for y using Cons.prems(2) [of y] that by simp
    ultimately show ?thesis using Cons.IH False by simp
  qed
qed simp

lemma all_events_mem: "e \<in> set (all_events S w) \<longleftrightarrow> (\<exists>kv \<in> set (events w). e \<in> set (snd kv))"
  by (simp add: all_events_def set_tvalues)

lemma set_tput: "kv \<in> set (tput k v t) \<Longrightarrow> kv \<in> set t \<or> kv = (k, v)"
  by (induction t) (auto split: if_splits)

text \<open>
  Appending an event once is idempotent: a second call with the same identifier and the same
  content returns the event of the first and changes nothing; with other content it is refused.
\<close>

theorem append_once_idempotent:
  assumes "append_event_once S i aty aid s et p w = (Inr e, w1)"
  shows "append_event_once S i aty aid s et p w1 = (Inr e, w1)
    \<and> (p' \<noteq> p \<longrightarrow> append_event_once S i aty aid s et p' w1
         = (Inl (bad_request ''idempotent session event identity collision''), w1))"
proof -
  have s: "tget (sessions w) s \<noteq> None"
  proof
    assume "tget (sessions w) s = None"
    with assms show False by (simp add: append_event_once_def append_event_with_id_def)
  qed
  have found: "find_first (\<lambda>x. ev_id x = i) (all_events S w1) = Some e
      \<and> sessions w1 = sessions w
      \<and> validate_idempotent_event_identity e aty aid s et p = Inr ()
      \<and> ev_payload e = p"
  proof (cases "find_first (\<lambda>x. ev_id x = i) (all_events S w)")
    case (Some x)
    with assms s show ?thesis
      by (auto simp: append_event_once_def append_event_with_id_def bindr_eq_Inr
          validate_idempotent_event_identity_def)
  next
    case None
    then have e: "ev_id e = i" "ev_payload e = p"
      "validate_idempotent_event_identity e aty aid s et p = Inr ()"
      and w1: "w1 = w\<lparr>ticks := Suc (ticks w), events := tput s (session_events w s @ [e]) (events w)\<rparr>"
      using assms s
      by (auto simp: append_event_once_def append_event_with_id_def Let_def
          validate_idempotent_event_identity_def)
    have "x = e" if "x \<in> set (all_events S w1)" "ev_id x = i" for x
    proof -
      from that(1) obtain kv where kv: "kv \<in> set (tput s (session_events w s @ [e]) (events w))"
        "x \<in> set (snd kv)" by (auto simp: all_events_mem w1)
      have old: "ev_id y \<noteq> i" if "y \<in> set (all_events S w)" for y
        using None that by (auto simp: find_first_eq_None)
      have mine: "ev_id y \<noteq> i" if y: "y \<in> set (session_events w s)" for y
      proof (cases "tget (events w) s")
        case (Some es)
        with y have "y \<in> set (all_events S w)"
          using map_of_SomeD [OF Some] Some unfolding session_events_def all_events_mem by force
        then show ?thesis by (rule old)
      qed (use y in \<open>simp add: session_events_def\<close>)
      from set_tput [OF kv(1)] show ?thesis
      proof
        assume "kv \<in> set (events w)"
        with kv(2) have "x \<in> set (all_events S w)" by (auto simp: all_events_mem)
        with old that(2) show ?thesis by blast
      qed (use kv(2) mine that(2) in auto)
    qed
    moreover have "e \<in> set (all_events S w1)"
    proof -
      have "tget (events w1) s = Some (session_events w s @ [e])"
        by (simp add: w1 store_table.get_put)
      from map_of_SomeD [OF this] show ?thesis unfolding all_events_mem by force
    qed
    ultimately have "find_first (\<lambda>x. ev_id x = i) (all_events S w1) = Some e"
      using e(1) find_first_unique [of e "all_events S w1" "\<lambda>x. ev_id x = i"] by blast
    with e w1 show ?thesis by simp
  qed
  obtain x where s1: "tget (sessions w1) s = Some x" using s found by auto
  have "append_event_once S i aty aid s et p w1 = (Inr e, w1)"
    using found s1 by (simp add: append_event_once_def append_event_with_id_def)
  moreover have "append_event_once S i aty aid s et p' w1
      = (Inl (bad_request ''idempotent session event identity collision''), w1)" if "p' \<noteq> p"
  proof -
    have "validate_idempotent_event_identity e aty aid s et p'
        = Inl (bad_request ''idempotent session event identity collision'')"
      using found that by (simp add: validate_idempotent_event_identity_def guardr_def)
    with found s1 show ?thesis by (simp add: append_event_once_def append_event_with_id_def)
  qed
  ultimately show ?thesis by blast
qed

lemma append_once_idempotent_witness:
  "\<exists>e w1. append_event_once sample_sys 77 ''user'' None 5 ''note'' (JObj []) (empty_world
      \<lparr>sessions := [(5, session_sample)]\<rparr>) = (Inr e, w1)
    \<and> append_event_once sample_sys 77 ''user'' None 5 ''note'' (JObj []) w1 = (Inr e, w1)"
proof -
  have "succeeds (append_event_once sample_sys 77 ''user'' None 5 ''note'' (JObj []) (empty_world
      \<lparr>sessions := [(5, session_sample)]\<rparr>)) (\<lambda>_ _. True)" by code_simp
  then obtain e w1 where r: "append_event_once sample_sys 77 ''user'' None 5 ''note'' (JObj []) (empty_world
      \<lparr>sessions := [(5, session_sample)]\<rparr>) = (Inr e, w1)" by (rule succeedsE)
  from append_once_idempotent [OF r] r show ?thesis by blast
qed

section \<open>Sessions that are over\<close>

text \<open>
  A terminated or failed session is not revived: setting any other status on it fails and
  leaves every session as it was.
\<close>

theorem terminal_session_stays:
  assumes "tget (sessions w) sid = Some s" and "se_status s \<in> {Terminated, Failed}"
    and "status \<in> {Idle, Running, RequiresAction, Rescheduling}"
  shows "\<exists>e w'. set_session_and_primary_thread_status S sid tid status name w = (Inl e, w')
    \<and> err_status e = 400 \<and> sessions w' = sessions w \<and> session_threads w' = session_threads w"
  using assms
  by (auto simp: set_session_and_primary_thread_status_def bindS_def now_utc_def get_session_def
      eff_simps session_terminal_def bad_request_def mk_error_def)

lemma terminal_session_stays_witness:
  "\<exists>e w'. set_session_and_primary_thread_status sample_sys 5 6 Running ''running''
      (empty_world\<lparr>sessions := [(5, session_sample\<lparr>se_status := Terminated\<rparr>)]\<rparr>) = (Inl e, w')"
  using terminal_session_stays [of "empty_world\<lparr>sessions := [(5, session_sample\<lparr>se_status := Terminated\<rparr>)]\<rparr>"
      5 "session_sample\<lparr>se_status := Terminated\<rparr>" Running sample_sys 6 "''running''"] by auto

end
