(* ===== verification/Progress.thy ===== *)
theory Progress
  imports Event_Log Validation "HOL-Library.Multiset"
begin

text \<open>
  The loops of the advancement end: every pass that materialises anything adds a step run for a
  key of the graph that had none, so one pass more than the graph has steps is never needed.
  The argument needs identifiers to be fresh: the supply repeats none, and the step runs there
  are have identifiers drawn from it.
\<close>

section \<open>Operations that leave the step runs alone\<close>

definition same_steps :: "world \<Rightarrow> world \<Rightarrow> bool" where
  "same_steps w w' \<longleftrightarrow> workflow_step_runs w' = workflow_step_runs w \<and> uuids w \<le> uuids w'"

interpretation steps: relation_on_worlds same_steps
  by unfold_locales (auto simp: same_steps_def)

lemma atoms_same_steps:
  "keeps same_steps (now_utc S)" "keeps same_steps (new_v4 S)"
  "keeps same_steps (append_event_with_id S i b aty aid s et p)"
  "keeps same_steps (append_audit_log e)" "keeps same_steps (create_workflow_transition t)"
  "keeps same_steps (modifyS (\<lambda>w. w\<lparr>sessions := f w\<rparr>))"
  "keeps same_steps (create_session_thread th)"
  "keeps same_steps (set_session_and_primary_thread_status S s tid st ts)"
  by (simp_all add: keeps_def same_steps_def now_utc_def new_v4_def append_event_with_id_def
      append_audit_log_def create_workflow_transition_def create_session_thread_def
      set_session_and_primary_thread_status_def get_session_def bindS_def thenS_def eff_simps Let_def
      split: option.splits sum.splits prod.splits)

lemma steps_session_relation:
  assumes "peers_respect same_steps P"
  shows "session_relation same_steps S P"
proof -
  note peers = assms [unfolded peers_respect_def]
  show ?thesis by unfold_locales (simp_all add: atoms_same_steps peers)
qed

interpretation steps_idle: session_relation same_steps S idle_peers for S
  by (intro steps_session_relation idle_peers_respect) unfold_locales

section \<open>Fresh identifiers\<close>

definition step_ids_fresh :: "sys \<Rightarrow> world \<Rightarrow> bool" where
  "step_ids_fresh S w \<longleftrightarrow> inj (uuid_supply S)
     \<and> fst ` set (workflow_step_runs w) \<subseteq> uuid_supply S ` {..<uuids w}"

lemma fresh_same_steps: "same_steps w w' \<Longrightarrow> step_ids_fresh S w \<Longrightarrow> step_ids_fresh S w'"
  unfolding step_ids_fresh_def same_steps_def by force

section \<open>Effects that store one new step run\<close>

text \<open>
  The state after a step run was materialised: one step run more, for the run and the key, with
  the status asked for unless it waits for an approval.
\<close>

definition stored_new :: "sys \<Rightarrow> workflow_run \<Rightarrow> string \<Rightarrow> string \<Rightarrow> world \<Rightarrow> workflow_step_run \<Rightarrow> world \<Rightarrow> bool" where
  "stored_new S run key status w st w' \<longleftrightarrow>
     workflow_step_runs w' = workflow_step_runs w @ [(sr_id st, st)] \<and> step_ids_fresh S w'
     \<and> sr_workflow_run_id st = wr_id run \<and> sr_step_key st = key
     \<and> (sr_status st = status \<or> (sr_status st = ''requires_action'' \<and> \<not> workflow_step_status_terminal status))"

text \<open>
  An effect \<open>stores\<close> a step run when a successful run of it does; the identifier may have been
  drawn before.
\<close>

definition drawn :: "sys \<Rightarrow> uuid option \<Rightarrow> world \<Rightarrow> bool" where
  "drawn S i w \<longleftrightarrow> step_ids_fresh S w
     \<and> (\<forall>x. i = Some x \<longrightarrow> x \<in> uuid_supply S ` {..<uuids w} \<and> x \<notin> fst ` set (workflow_step_runs w))"

definition stores :: "sys \<Rightarrow> uuid option \<Rightarrow> workflow_run \<Rightarrow> string \<Rightarrow> string \<Rightarrow> workflow_step_run eff \<Rightarrow> bool" where
  "stores S i run key status m \<longleftrightarrow>
     (\<forall>w st w'. drawn S i w \<longrightarrow> m w = (Inr st, w') \<longrightarrow> stored_new S run key status w st w')"

lemma drawn_same_steps: "same_steps w w' \<Longrightarrow> drawn S i w \<Longrightarrow> drawn S i w'"
  using fresh_same_steps [of w w' S] unfolding drawn_def same_steps_def by fastforce

lemma stored_new_same_steps:
  "same_steps v w \<Longrightarrow> stored_new S run key status w st w' \<Longrightarrow> stored_new S run key status v st w'"
  "same_steps w' v' \<Longrightarrow> stored_new S run key status w st w' \<Longrightarrow> stored_new S run key status w st v'"
  using fresh_same_steps [of w' v' S] by (simp_all add: stored_new_def same_steps_def)

lemma stores_bind:
  assumes "keeps same_steps m" and "\<And>x. stores S i run key status (f x)"
  shows "stores S i run key status (bindS m f)"
  unfolding stores_def
proof (intro allI impI)
  fix w st w'
  assume d: "drawn S i w" and "bindS m f w = (Inr st, w')"
  then obtain x w1 where m: "m w = (Inr x, w1)" and f: "f x w1 = (Inr st, w')"
    unfolding bindS_eq_Inr by blast
  have k: "same_steps w w1" by (rule keepsD [OF assms(1) m])
  from assms(2) [of x, unfolded stores_def] drawn_same_steps [OF k d] f
  have "stored_new S run key status w1 st w'" by blast
  then show "stored_new S run key status w st w'" by (rule stored_new_same_steps(1) [OF k])
qed

lemma stores_lift:
  "(\<And>x. r = Inr x \<Longrightarrow> stores S i run key status (f x)) \<Longrightarrow> stores S i run key status (bindS (liftS r) f)"
  unfolding stores_def bindS_eq_Inr effects_eq_Inr by blast

lemma stores_guard:
  "(b \<Longrightarrow> stores S i run key status m) \<Longrightarrow> stores S i run key status (thenS (guardS b e) m)"
  unfolding stores_def effects_eq_Inr by blast

lemma stores_new:
  assumes "\<And>x. stores S (Some x) run key status (f x)"
  shows "stores S None run key status (bindS (new_v4 S) f)"
  unfolding stores_def
proof (intro allI impI)
  fix w st w'
  assume d: "drawn S None w" and "bindS (new_v4 S) f w = (Inr st, w')"
  then have f: "f (uuid_supply S (uuids w)) (w\<lparr>uuids := Suc (uuids w)\<rparr>) = (Inr st, w')" (is "f ?x ?v = _")
    by (simp add: bindS_def new_v4_def)
  have k: "same_steps w ?v" by (simp add: same_steps_def)
  have inj: "inj (uuid_supply S)" and old: "fst ` set (workflow_step_runs w) \<subseteq> uuid_supply S ` {..<uuids w}"
    using d by (auto simp: drawn_def step_ids_fresh_def)
  have "?x \<notin> uuid_supply S ` {..<uuids w}" using inj by (auto simp: inj_def)
  with old drawn_same_steps [OF k d] have "drawn S (Some ?x) ?v" by (auto simp: drawn_def)
  with assms [of ?x, unfolded stores_def] f have "stored_new S run key status ?v st w'" by blast
  then show "stored_new S run key status w st w'" by (rule stored_new_same_steps(1) [OF k])
qed

lemma update_absent: "k \<notin> fst ` set t \<Longrightarrow> AList.update k v t = t @ [(k, v)]"
  by (induction t) auto

text \<open>The end of such an effect: the step run is stored, and recorded.\<close>

lemma stored_new_put:
  assumes "drawn S (Some (sr_id st)) w" and "sr_workflow_run_id st = wr_id run" and "sr_step_key st = key"
    and "sr_status st = status \<or> (sr_status st = ''requires_action'' \<and> \<not> workflow_step_status_terminal status)"
    and "workflow_step_runs w' = tput (sr_id st) st (workflow_step_runs w)" and "uuids w' = uuids w"
  shows "stored_new S run key status w st w'"
  using assms by (auto simp: stored_new_def drawn_def step_ids_fresh_def update_absent)

lemma stores_create:
  assumes "\<And>st. keeps same_steps (rec st)"
    and "sr_id st0 = x" "sr_workflow_run_id st0 = wr_id run" "sr_step_key st0 = key"
      "sr_status st0 = status \<or> (sr_status st0 = ''requires_action'' \<and> \<not> workflow_step_status_terminal status)"
  shows "stores S (Some x) run key status
    (bindS (create_workflow_step_run st0) (\<lambda>st. thenS (rec st) (retS st)))"
  unfolding stores_def
proof (intro allI impI)
  fix w st w'
  assume d: "drawn S (Some x) w"
    and "bindS (create_workflow_step_run st0) (\<lambda>st. thenS (rec st) (retS st)) w = (Inr st, w')"
  then obtain w1 u where c: "create_workflow_step_run st0 w = (Inr st, w1)"
    and r: "rec st w1 = (Inr u, w')"
    unfolding bindS_eq_Inr effects_eq_Inr by blast
  from c have "st = st0" "w1 = put_step st0 w"
    by (auto simp: create_workflow_step_run_def split: sum.splits)
  with d assms(2-) have "stored_new S run key status w st w1"
    by (intro stored_new_put) (auto simp: put_step_def)
  then show "stored_new S run key status w st w'"
    by (rule stored_new_same_steps(2) [OF keepsD [OF assms(1) r]])
qed

lemma create_step_with_grant_Inr:
  assumes "create_workflow_step_run_with_task_grant S st0 g w = (Inr (st, g'), w')"
  shows "st = st0\<lparr>sr_task_grant_id := Some (tg_id g)\<rparr>"
    "workflow_step_runs w' = tput (sr_id st) st (workflow_step_runs w)" "uuids w' = uuids w"
proof -
  have admit: "workflow_step_runs v' = workflow_step_runs v \<and> uuids v' = uuids v"
    if "admit_child_grant now g v = (Inr u, v')" for now v u v'
    using that by (auto simp: admit_child_grant_def split: option.splits)
  from assms obtain u v where v: "admit_child_grant (clock S (ticks w)) g (w\<lparr>ticks := Suc (ticks w)\<rparr>) = (Inr u, v)"
    and w': "st = st0\<lparr>sr_task_grant_id := Some (tg_id g)\<rparr>" "w' = put_step st (put_grant g v)"
    by (auto simp: create_workflow_step_run_with_task_grant_def effs_Inr now_utc_def Let_def)
  from admit [OF v] w' show "st = st0\<lparr>sr_task_grant_id := Some (tg_id g)\<rparr>"
    "workflow_step_runs w' = tput (sr_id st) st (workflow_step_runs w)" "uuids w' = uuids w"
    by (simp_all add: put_step_def put_grant_def)
qed

lemma or_fail_session_Inr: "or_fail_session S P s r m w = (Inr x, w') \<Longrightarrow> m w = (Inr x, w')"
  by (auto simp: or_fail_session_def catchS_def effects_eq_Inr split: prod.splits sum.splits)

lemma stores_create_with_grant:
  assumes "\<And>st g. keeps same_steps (rec st g)" "\<And>st. keeps same_steps (rec2 st)"
    and "sr_id st0 = x" "sr_workflow_run_id st0 = wr_id run" "sr_step_key st0 = key" "sr_status st0 = status"
  shows "stores S (Some x) run key status
    (bindS (or_fail_session S P s r (create_workflow_step_run_with_task_grant S st0 g)) (\<lambda>(st, g).
      thenS (rec st g) (thenS (rec2 st) (retS st))))"
  unfolding stores_def
proof (intro allI impI)
  fix w st w'
  assume d: "drawn S (Some x) w" and "bindS (or_fail_session S P s r
      (create_workflow_step_run_with_task_grant S st0 g)) (\<lambda>(st, g).
      thenS (rec st g) (thenS (rec2 st) (retS st))) w = (Inr st, w')"
  then obtain w1 g' u w2 u' where c: "create_workflow_step_run_with_task_grant S st0 g w = (Inr (st, g'), w1)"
    and r: "rec st g' w1 = (Inr u, w2)" "rec2 st w2 = (Inr u', w')"
    by (auto simp: effs_Inr dest!: or_fail_session_Inr)
  note st = create_step_with_grant_Inr [OF c]
  from d assms(3-) st have "stored_new S run key status w st w1"
    by (intro stored_new_put) auto
  moreover have "same_steps w1 w'"
    using keepsD [OF assms(1) r(1)] keepsD [OF assms(2) r(2)] by (rule steps.R_trans)
  ultimately show "stored_new S run key status w st w'" by (rule stored_new_same_steps(2) [rotated])
qed

section \<open>A graph step materialised\<close>

context session_relation
begin

lemma pinned_version_keeps: "keeps R (pinned_version a v)"
  unfolding pinned_version_def by (intro session_ops1)

lemma or_fail_thread_keeps: "keeps R (or_fail_session S P s r (ensure_primary_session_thread S s))"
  by (intro or_fail_keeps session_ops3)

end

lemma stores_case_prod:
  "(\<And>a b. p = (a, b) \<Longrightarrow> stores S i run key status (f a b)) \<Longrightarrow>
   stores S i run key status (case p of (a, b) \<Rightarrow> f a b)"
  by (cases p) simp

lemma stores_if:
  "(b \<Longrightarrow> stores S i run key status m) \<Longrightarrow> (\<not> b \<Longrightarrow> stores S i run key status n) \<Longrightarrow>
   stores S i run key status (if b then m else n)"
  by simp

lemma stores_option:
  "stores S i run key status m \<Longrightarrow> (\<And>x. stores S i run key status (f x)) \<Longrightarrow>
   stores S i run key status (case v of None \<Rightarrow> m | Some x \<Rightarrow> f x)"
  by (cases v) simp_all

lemma stores_known: "r = Inr k \<Longrightarrow> stores S i run key status (f k) \<Longrightarrow> stores S i run key status (bindS (liftS r) f)"
  by (rule stores_lift) simp

context session_relation
begin

lemmas keep_prefix = pinned_version_keeps or_fail_thread_keeps session_ops3

lemma keep_records: "keeps R (record_workflow_step_run_created S run st)" "keeps R (record_task_grant_issued S g s)"
  by (fact records_keep)+

end

lemma without_session_stores:
  assumes "session_relation same_steps S P" and "blocked \<longrightarrow> \<not> workflow_step_status_terminal status"
  shows "stores S None run key status (materialize_without_session S run gs key ty ag ver env risk blocked
    status sched ctx out now)"
  unfolding materialize_without_session_def Let_def
  using assms(2)
  by (intro stores_bind stores_case_prod stores_new stores_create
      session_relation.keep_prefix(1) [OF assms(1)] session_relation.keep_records [OF assms(1)])
    (simp_all add: new_step_run_def)

lemma shared_stores:
  assumes "session_relation same_steps S P"
  shows "stores S None run key status (materialize_shared S run session rg gs key ty ag ver env
    status sched ctx out now)"
  unfolding materialize_shared_def
  by (intro stores_guard stores_new stores_create session_relation.keep_records [OF assms])
    (simp_all add: new_step_run_def)

lemma isolated_stores:
  assumes "session_relation same_steps S P"
  shows "stores S None run key status (materialize_isolated S P run rg gs key ty ag ver env risk
    status sched ctx out now)"
  unfolding materialize_isolated_def Let_def
  by (intro stores_lift stores_new stores_create_with_grant session_relation.keep_records [OF assms]
      stores_bind session_relation.keep_prefix [OF assms]) (simp_all add: new_step_run_def)

lemma materialize_stores:
  assumes "session_relation same_steps S P" and "workflow_graph_step_key gs = Inr key"
  shows "stores S None run key status
    (materialize_workflow_graph_step_with_policy_context S P d run session rg gs status sched ctx out)"
  unfolding materialize_workflow_graph_step_with_policy_context_def Let_def
  by (rule stores_known [OF assms(2)])
    (intro stores_lift stores_guard stores_bind stores_option stores_if
      session_relation.keep_prefix [OF assms(1)] without_session_stores [OF assms(1)]
      shared_stores [OF assms(1)] isolated_stores [OF assms(1)]; simp)

section \<open>The keys of a run's steps\<close>

definition run_steps :: "world \<Rightarrow> uuid \<Rightarrow> workflow_step_run list" where
  "run_steps w i = filter (\<lambda>st. sr_workflow_run_id st = i) (map snd (workflow_step_runs w))"

definition keys_present :: "world \<Rightarrow> uuid \<Rightarrow> string set" where
  "keys_present w i = sr_step_key ` set (run_steps w i)"

definition keys_of :: "json list \<Rightarrow> string set" where
  "keys_of steps = {key. \<exists>s \<in> set steps. workflow_graph_step_key s = Inr key}"

lemma finite_keys_of: "finite (keys_of steps)" and card_keys_of: "card (keys_of steps) \<le> length steps"
proof -
  let ?key = "\<lambda>s. case workflow_graph_step_key s of Inl e \<Rightarrow> [] | Inr k \<Rightarrow> k"
  have sub: "keys_of steps \<subseteq> ?key ` set steps" by (force simp: keys_of_def)
  then show "finite (keys_of steps)" by (rule finite_subset) simp
  have "card (keys_of steps) \<le> card (?key ` set steps)" using sub by (intro card_mono) simp_all
  also have "\<dots> \<le> length steps" by (rule le_trans [OF card_image_le card_length]) simp
  finally show "card (keys_of steps) \<le> length steps" .
qed

lemma list_step_runs_Inr:
  assumes "list_workflow_step_runs S i w = (Inr xs, w')"
  shows "w' = w" "mset xs = mset (run_steps w i)"
  using assms by (auto simp: list_workflow_step_runs_def eff_simps run_steps_def tvalues_def)

lemma run_steps_same: "mset xs = mset (run_steps w i) \<Longrightarrow> set xs = set (run_steps w i)"
  "mset xs = mset (run_steps w i) \<Longrightarrow> length (filter p xs) = length (filter p (run_steps w i))"
  by (metis set_mset_mset) (metis size_mset mset_filter)

lemma keys_present_stored:
  "stored_new S run key status w st w' \<Longrightarrow>
   keys_present w' (wr_id run) = insert key (keys_present w (wr_id run)) \<and> step_ids_fresh S w'"
  by (auto simp: stored_new_def keys_present_def run_steps_def)

lemma keys_present_same: "same_steps w w' \<Longrightarrow> keys_present w' i = keys_present w i"
  by (simp add: same_steps_def keys_present_def run_steps_def)

section \<open>One ready step\<close>

lemma materialize_Inr_key:
  "materialize_workflow_graph_step_with_policy_context S P d run session rg gs status sched ctx out w = (Inr st, w')
   \<Longrightarrow> \<exists>key. workflow_graph_step_key gs = Inr key"
  unfolding materialize_workflow_graph_step_with_policy_context_def effs_Inr by blast

lemma materialize_stored:
  assumes "session_relation same_steps S P" and "step_ids_fresh S w"
    and "materialize_workflow_graph_step_with_policy_context S P d run session rg gs status sched ctx out w
      = (Inr st, w')"
  shows "\<exists>key. workflow_graph_step_key gs = Inr key \<and> stored_new S run key status w st w'"
proof -
  from materialize_Inr_key [OF assms(3)] obtain key where key: "workflow_graph_step_key gs = Inr key" ..
  have "drawn S None w" using assms(2) by (simp add: drawn_def)
  with materialize_stores [OF assms(1) key] assms(3) key show ?thesis unfolding stores_def by blast
qed

lemma ready_step_stored:
  assumes rel: "session_relation same_steps S P" and fresh: "step_ids_fresh S w"
    and run: "start_ready_step S P d run session rg step ready mp active bp w = (Inr u, w')
      \<and> status = ''queued''
      \<or> skip_ready_step S P d run session rg step ready fp e w = (Inr u, w') \<and> status = ''skipped''"
  shows "\<exists>key st. workflow_graph_step_key (rs_graph_step ready) = Inr key \<and> stored_new S run key status w st w'"
proof -
  have rec: "keeps same_steps (record_workflow_transition S run f t ty sta c p)" for f t ty sta c p
    by (rule session_relation.records_keep(3) [OF rel])
  from run obtain st w1 sched ctx out where
    m: "materialize_workflow_graph_step_with_policy_context S P d run session rg (rs_graph_step ready) status
      sched ctx out w = (Inr st, w1)" and k: "same_steps w1 w'"
    unfolding start_ready_step_def skip_ready_step_def Let_def effs_Inr
    by (elim disjE exE conjE) (metis keepsD [OF rec])+
  from materialize_stored [OF rel fresh m] stored_new_same_steps(2) [OF k] show ?thesis by blast
qed

section \<open>A pass over the ready steps\<close>

lemma defer_keeps:
  assumes "session_relation same_steps S P"
  shows "keeps same_steps (defer_ready_step S run step ready m active)"
  unfolding defer_ready_step_def
  by (intro steps.resp_intros session_relation.records_keep [OF assms])

lemma advance_pass:
  assumes rel: "session_relation same_steps S P"
  shows "step_ids_fresh S w \<Longrightarrow>
    advance_ready_steps S P d run session rg step ex mp rs active any w = (Inr b, w') \<Longrightarrow>
    step_ids_fresh S w' \<and> keys_present w (wr_id run) \<subseteq> keys_present w' (wr_id run)
    \<and> (b \<longrightarrow> any \<or> (\<exists>r \<in> set rs. \<exists>key. workflow_graph_step_key (rs_graph_step r) = Inr key
          \<and> key \<in> keys_present w' (wr_id run)))"
proof (induction rs arbitrary: active any w)
  case Nil
  then show ?case by (simp add: effs_Inr)
next
  case (Cons ready rest)
  from Cons.prems(2) consider
      (skip) m u w1 where "defer_ready_step S run step ready m active w = (Inr u, w1)"
        "advance_ready_steps S P d run session rg step ex mp rest active any w1 = (Inr b, w')"
    | (store) status active' st key w1 where "workflow_graph_step_key (rs_graph_step ready) = Inr key"
        "stored_new S run key status w st w1"
        "advance_ready_steps S P d run session rg step ex mp rest active' True w1 = (Inr b, w')"
    using ready_step_stored [OF rel Cons.prems(1)]
    by (auto simp: effs_Inr split: option.splits if_splits) metis+
  then show ?case
  proof cases
    case skip
    have k: "same_steps w w1" by (rule keepsD [OF defer_keeps [OF rel] skip(1)])
    from Cons.IH [OF fresh_same_steps [OF k Cons.prems(1)] skip(2)] keys_present_same [OF k] show ?thesis
      by fastforce
  next
    case store
    from keys_present_stored [OF store(2)] have p: "step_ids_fresh S w1"
      "keys_present w1 (wr_id run) = insert key (keys_present w (wr_id run))" by simp_all
    from Cons.IH [OF p(1) store(3)] p(2) store(1) show ?thesis by auto
  qed
qed

lemma ready_steps_missing:
  assumes "workflow_graph_ready_steps g existing = Inr ready" and "r \<in> set ready"
  shows "\<exists>key. workflow_graph_step_key (rs_graph_step r) = Inr key \<and> key \<notin> sr_step_key ` set existing
    \<and> key \<in> keys_of (unwrap_or (graph_steps g) [])"
  using assms(2) ready_steps_mem [OF assms(1), of r] by (auto simp: keys_of_def)

section \<open>The advancement ends\<close>

definition keys_missing :: "json list \<Rightarrow> world \<Rightarrow> uuid \<Rightarrow> string set" where
  "keys_missing steps w i = keys_of steps - keys_present w i"

lemma fewer_missing:
  assumes "keys_present w i \<subseteq> keys_present w' i" and "key \<in> keys_of steps" "key \<in> keys_present w' i"
    "key \<notin> keys_present w i"
  shows "card (keys_missing steps w' i) < card (keys_missing steps w i)"
proof (rule psubset_card_mono)
  show "finite (keys_missing steps w i)" by (simp add: keys_missing_def finite_keys_of)
  show "keys_missing steps w' i \<subset> keys_missing steps w i" using assms by (auto simp: keys_missing_def)
qed

definition keys_to_go :: "workflow_definition \<Rightarrow> workflow_run \<Rightarrow> world \<Rightarrow> nat" where
  "keys_to_go d run w = card (keys_missing (unwrap_or (graph_steps (wd_step_graph d)) []) w (wr_id run))"

text \<open>
  A loop that ends with the first pass that reports no change, every pass that reports one being
  closer to a bound: fuel above the bound is enough, and how much more does not matter.
\<close>

lemma enough_fuel:
  fixes loop :: "nat \<Rightarrow> unit option eff" and m :: "world \<Rightarrow> nat"
  assumes loop: "\<And>n. loop (Suc n) = bindS pass (\<lambda>b. if b then loop n else retS (Some ()))"
    and less: "\<And>w w'. I w \<Longrightarrow> pass w = (Inr True, w') \<Longrightarrow> I w' \<and> m w' < m w"
  shows "I w \<Longrightarrow> m w < n \<Longrightarrow> fst (loop n w) \<noteq> Inr None \<and> (\<forall>k > m w. loop k w = loop n w)"
proof (induction n arbitrary: w)
  case (Suc n)
  obtain b w' where p: "pass w = (b, w')" by fastforce
  have step: "loop (Suc k) w = loop (Suc n) w \<and> fst (loop (Suc n) w) \<noteq> Inr None" if k: "m w \<le> k" for k
  proof (cases "b = Inr True")
    case True
    with less [OF Suc.prems(1)] p have "I w' \<and> m w' < m w" by simp
    with Suc.prems(2) k have "I w'" "m w' < n" "m w' < k" by auto
    from Suc.IH [OF this(1,2)] this(3) have "loop k w' = loop n w'" "fst (loop n w') \<noteq> Inr None" by blast+
    then show ?thesis by (simp add: loop bindS_def p True)
  qed (auto simp: loop bindS_def p retS_def split: sum.splits)
  show ?case
  proof (intro conjI allI impI)
    show "fst (loop (Suc n) w) \<noteq> Inr None" using step [of n] Suc.prems(2) by simp
    fix k assume "m w < k"
    then obtain k' where "k = Suc k'" "m w \<le> k'" by (cases k) auto
    with step [of k'] show "loop k w = loop (Suc n) w" by simp
  qed
qed simp

definition ready_pass :: "sys \<Rightarrow> peers \<Rightarrow> workflow_definition \<Rightarrow> workflow_run \<Rightarrow> session \<Rightarrow> task_grant \<Rightarrow>
    workflow_step_run \<Rightarrow> bool eff" where
  "ready_pass S P d run session rg step =
     bindS (list_workflow_step_runs S (wr_id run)) (\<lambda>existing.
     bindS (liftS (workflow_graph_ready_steps (wd_step_graph d) existing)) (\<lambda>ready.
     if ready = [] then retS False
     else bindS (liftS (workflow_graph_fan_out_max_parallel (wd_step_graph d))) (\<lambda>max_parallel.
       advance_ready_steps S P d run session rg step existing max_parallel ready
         (workflow_graph_active_parallel_count existing) False)))"

lemma advance_loop_Suc:
  "advance_loop (Suc n) S P d run session rg step =
     bindS (ready_pass S P d run session rg step)
       (\<lambda>b. if b then advance_loop n S P d run session rg step else retS (Some ()))"
  by (rule ext) (simp add: ready_pass_def bindS_def eff_simps split: prod.splits sum.splits)

lemma ready_pass_less:
  assumes rel: "session_relation same_steps S P" and fresh: "step_ids_fresh S w"
    and p: "ready_pass S P d run session rg step w = (Inr True, w')"
  shows "step_ids_fresh S w' \<and> keys_to_go d run w' < keys_to_go d run w"
proof -
  from p obtain existing ready mp where l: "list_workflow_step_runs S (wr_id run) w = (Inr existing, w)"
    and r: "workflow_graph_ready_steps (wd_step_graph d) existing = Inr ready"
    and a: "advance_ready_steps S P d run session rg step existing mp ready
      (workflow_graph_active_parallel_count existing) False w = (Inr True, w')"
    by (auto simp: ready_pass_def effs_Inr dest: list_step_runs_Inr(1) split: if_splits)
  from advance_pass [OF rel fresh a] obtain x key where
    n: "step_ids_fresh S w'" "keys_present w (wr_id run) \<subseteq> keys_present w' (wr_id run)"
      "x \<in> set ready" "workflow_graph_step_key (rs_graph_step x) = Inr key" "key \<in> keys_present w' (wr_id run)"
    by auto
  from ready_steps_missing [OF r n(3)] n(4) run_steps_same(1) [OF list_step_runs_Inr(2) [OF l]]
  have "key \<notin> keys_present w (wr_id run)" "key \<in> keys_of (unwrap_or (graph_steps (wd_step_graph d)) [])"
    by (auto simp: keys_present_def)
  with fewer_missing n show ?thesis unfolding keys_to_go_def by blast
qed

text \<open>The same for the pass after a failure.\<close>

lemma failure_step_effect:
  assumes rel: "session_relation same_steps S P" and fresh: "step_ids_fresh S w"
    and m: "failure_policy_step S P d run session rg failed existing gs w = (Inr b, w')"
  shows "step_ids_fresh S w' \<and> keys_present w (wr_id run) \<subseteq> keys_present w' (wr_id run)
    \<and> (b \<longrightarrow> (\<exists>key. workflow_graph_step_key gs = Inr key \<and> key \<notin> sr_step_key ` set existing
          \<and> key \<in> keys_present w' (wr_id run)))"
proof (cases b)
  case False
  with m have "w' = w" by (auto simp: failure_policy_step_def Let_def effs_Inr split: if_splits)
  with False fresh show ?thesis by simp
next
  case True
  have rec: "keeps same_steps (record_workflow_transition S run f t ty sta c p)" for f t ty sta c p
    by (rule session_relation.records_keep(3) [OF rel])
  from m True obtain key st w1 status sched ctx out where key: "workflow_graph_step_key gs = Inr key"
    and new: "workflow_graph_latest_step existing key = None"
    and mat: "materialize_workflow_graph_step_with_policy_context S P d run session rg gs status sched ctx out w
      = (Inr st, w1)" and k: "same_steps w1 w'"
    by (auto simp: failure_policy_step_def Let_def effs_Inr split: if_splits dest!: keepsD [OF rec])
  from materialize_stored [OF rel fresh mat] key stored_new_same_steps(2) [OF k]
  have "stored_new S run key status w st w'" by auto
  from keys_present_stored [OF this] key new show ?thesis
    by (auto simp: workflow_graph_latest_step_def find_first_eq_None)
qed

lemma any_step_effect:
  assumes rel: "session_relation same_steps S P"
  shows "step_ids_fresh S w \<Longrightarrow>
    any_step (failure_policy_step S P d run session rg failed existing) steps any w = (Inr b, w') \<Longrightarrow>
    step_ids_fresh S w' \<and> keys_present w (wr_id run) \<subseteq> keys_present w' (wr_id run)
    \<and> (b \<longrightarrow> any \<or> (\<exists>s \<in> set steps. \<exists>key. workflow_graph_step_key s = Inr key
          \<and> key \<notin> sr_step_key ` set existing \<and> key \<in> keys_present w' (wr_id run)))"
proof (induction steps arbitrary: any w)
  case (Cons s ss)
  from Cons.prems(2) obtain c w1 where m: "failure_policy_step S P d run session rg failed existing s w = (Inr c, w1)"
    and rest: "any_step (failure_policy_step S P d run session rg failed existing) ss (any \<or> c) w1 = (Inr b, w')"
    by (auto simp: effs_Inr)
  note one = failure_step_effect [OF rel Cons.prems(1) m]
  from Cons.IH [OF conjunct1 [OF one] rest] one show ?case by auto
qed (simp add: effs_Inr)

definition failure_pass :: "sys \<Rightarrow> peers \<Rightarrow> workflow_definition \<Rightarrow> workflow_run \<Rightarrow> session \<Rightarrow> task_grant \<Rightarrow>
    workflow_step_run \<Rightarrow> json list \<Rightarrow> bool eff" where
  "failure_pass S P d run session rg failed steps =
     bindS (list_workflow_step_runs S (wr_id run)) (\<lambda>existing.
       any_step (failure_policy_step S P d run session rg failed existing) steps False)"

lemma failure_policy_loop_Suc:
  "failure_policy_loop (Suc n) S P d run session rg failed steps =
     bindS (failure_pass S P d run session rg failed steps)
       (\<lambda>b. if b then failure_policy_loop n S P d run session rg failed steps else retS (Some ()))"
  by (rule ext) (simp add: failure_pass_def bindS_def eff_simps split: prod.splits sum.splits)

lemma failure_pass_less:
  assumes rel: "session_relation same_steps S P" and fresh: "step_ids_fresh S w"
    and p: "failure_pass S P d run session rg failed steps w = (Inr True, w')"
  shows "step_ids_fresh S w'
    \<and> card (keys_missing steps w' (wr_id run)) < card (keys_missing steps w (wr_id run))"
proof -
  from p obtain existing where l: "list_workflow_step_runs S (wr_id run) w = (Inr existing, w)"
    and a: "any_step (failure_policy_step S P d run session rg failed existing) steps False w = (Inr True, w')"
    by (auto simp: failure_pass_def effs_Inr dest: list_step_runs_Inr(1))
  from any_step_effect [OF rel fresh a] obtain s key where
    n: "step_ids_fresh S w'" "keys_present w (wr_id run) \<subseteq> keys_present w' (wr_id run)"
      "s \<in> set steps" "workflow_graph_step_key s = Inr key" "key \<notin> sr_step_key ` set existing"
      "key \<in> keys_present w' (wr_id run)"
    by auto
  have "key \<notin> keys_present w (wr_id run)" "key \<in> keys_of steps"
    using n(3-5) run_steps_same(1) [OF list_step_runs_Inr(2) [OF l]] by (auto simp: keys_present_def keys_of_def)
  with fewer_missing n show ?thesis by blast
qed

lemma missing_bound:
  "card (keys_missing steps w i) \<le> length steps"
  using card_mono [OF finite_keys_of, of "keys_missing steps w i" steps] card_keys_of [of steps]
  by (auto simp: keys_missing_def)

text \<open>
  C12. The advancement of a run always ends: with the identifiers of step runs fresh, the loop over
  the ready steps and the loop after a failure never run out of one pass more than the graph has
  steps, and any larger number of passes gives the same result in the same state.
\<close>

theorem advancement_ends:
  assumes "peers_respect same_steps P" and "step_ids_fresh S w"
  shows "fst (advance_loop (Suc (graph_size d)) S P d run session rg step w) \<noteq> Inr None
    \<and> (\<forall>n > graph_size d. advance_loop n S P d run session rg step w
          = advance_loop (Suc (graph_size d)) S P d run session rg step w)
    \<and> fst (failure_policy_loop (Suc (length steps)) S P d run session rg failed steps w) \<noteq> Inr None
    \<and> (\<forall>n > length steps. failure_policy_loop n S P d run session rg failed steps w
          = failure_policy_loop (Suc (length steps)) S P d run session rg failed steps w)"
proof -
  note rel = steps_session_relation [OF assms(1), of S]
  have a: "keys_to_go d run w \<le> graph_size d" and f: "card (keys_missing steps w (wr_id run)) \<le> length steps"
    by (simp_all add: keys_to_go_def graph_size_def missing_bound)
  have A: "fst (advance_loop n S P d run session rg step w) \<noteq> Inr None
      \<and> (\<forall>k > keys_to_go d run w. advance_loop k S P d run session rg step w
           = advance_loop n S P d run session rg step w)" if "keys_to_go d run w < n" for n
    by (rule enough_fuel [where loop = "\<lambda>n. advance_loop n S P d run session rg step"
          and I = "step_ids_fresh S", OF advance_loop_Suc ready_pass_less [OF rel] assms(2) that])
  have F: "fst (failure_policy_loop n S P d run session rg failed steps w) \<noteq> Inr None
      \<and> (\<forall>k > card (keys_missing steps w (wr_id run)). failure_policy_loop k S P d run session rg failed steps w
           = failure_policy_loop n S P d run session rg failed steps w)"
    if "card (keys_missing steps w (wr_id run)) < n" for n
    by (rule enough_fuel [where loop = "\<lambda>n. failure_policy_loop n S P d run session rg failed steps"
          and m = "\<lambda>w. card (keys_missing steps w (wr_id run))" and I = "step_ids_fresh S",
          OF failure_policy_loop_Suc failure_pass_less [OF rel] assms(2) that])
  show ?thesis using A [of "Suc (graph_size d)"] F [of "Suc (length steps)"] a f by auto
qed

lemma advancement_ends_witness:
  "\<forall>rg step. fst (advance_loop (Suc (graph_size (sample_definition sample_graph))) sample_sys idle_peers
      (sample_definition sample_graph) run_sample session_sample rg step empty_world) \<noteq> Inr None"
proof -
  have "peers_respect same_steps idle_peers" by (rule idle_peers_respect) unfold_locales
  moreover have "step_ids_fresh sample_sys empty_world"
    by (simp add: step_ids_fresh_def sample_sys_def empty_world_def inj_def)
  ultimately show ?thesis using advancement_ends by blast
qed

end
