(* ===== verification/Scheduler.thy ===== *)
theory Scheduler
  imports Prelude
begin

text \<open>
  The worker process (worker_scheduler.rs): the order in which discovered work is interleaved, and
  the loop that admits pending work, waits for an attempt to end, and looks for new work. The loop
  is a step relation: which attempt ends next, with which result, and what a discovery finds is
  up to the environment.
\<close>

section \<open>Work\<close>

datatype work_kind = SessionLoop | Execution | WorkflowStep string

record work =
  wk_id :: string
  wk_session_id :: "string option"
  wk_kind :: work_kind

definition route :: "work \<Rightarrow> string" where
  "route w = (case wk_kind w of
     SessionLoop \<Rightarrow> ''session-loop-jobs''
   | Execution \<Rightarrow> ''execution-jobs''
   | WorkflowStep agent_id \<Rightarrow> ''workflow-step-runs'')"

definition work_key :: "work \<Rightarrow> string" where
  "work_key w = route w @ ''/'' @ wk_id w"

text \<open>What an attempt reports: whether it ran, or the error it ended with.\<close>

definition work_attempt_result :: "string \<Rightarrow> string + bool" where
  "work_attempt_result status =
     (if status \<in> {''queued'', ''running'', ''executing'', ''finalizing'', ''completed'',
          ''requires_action'', ''cancel_requested'', ''canceled'', ''skipped'', ''scheduled''}
      then Inr True
      else if status \<in> {''failed'', ''outcome_unknown''}
      then Inl (''work ended with status '' @ status)
      else Inl (''unsupported work result status '' @ status))"

text \<open>\<open>str::parse::<usize>\<close>: an optional plus sign and digits, at most 64 bits.\<close>

fun parse_digits :: "nat \<Rightarrow> string \<Rightarrow> string + nat" where
  "parse_digits n [] = Inr n"
| "parse_digits n (c # cs) =
     (if \<not> is_ascii_digit c then Inl ''invalid digit found in string''
      else let m = 10 * n + (byte c - 48)
           in if m < 2 ^ 64 then parse_digits m cs
              else Inl ''number too large to fit in target type'')"

definition parse_usize :: "string \<Rightarrow> string + nat" where
  "parse_usize s =
     (case s of
        [] \<Rightarrow> Inl ''cannot parse integer from empty string''
      | c # cs \<Rightarrow>
          if cs = [] \<and> (c = CHR ''+'' \<or> c = CHR ''-'') then Inl ''invalid digit found in string''
          else parse_digits 0 (if c = CHR ''+'' then cs else s))"

definition concurrency_from_lookup :: "(string \<Rightarrow> string option) \<Rightarrow> string + nat" where
  "concurrency_from_lookup lookup =
     (case parse_usize (unwrap_or (lookup ''WORKER_CONCURRENCY'') ''4'') of
        Inl e \<Rightarrow> Inl e
      | Inr concurrency \<Rightarrow>
          if 1 \<le> concurrency \<and> concurrency \<le> 32 then Inr concurrency
          else Inl ''WORKER_CONCURRENCY must be between 1 and 32'')"

section \<open>Interleaving the lanes\<close>

definition work_free :: "string set \<Rightarrow> work \<Rightarrow> bool" where
  "work_free occupied w = is_none_or (wk_session_id w) (\<lambda>i. i \<notin> occupied)"

lemma tl_lanes_less:
  "\<not> list_all (\<lambda>lane. lane = []) lanes \<Longrightarrow> sum_list (map (length \<circ> tl) lanes) < sum_list (map length lanes)"
proof (induction lanes)
  case (Cons lane lanes)
  have le: "sum_list (map (length \<circ> tl) lanes) \<le> sum_list (map length lanes)"
    by (rule sum_list_mono) simp
  show ?case
  proof (cases lane)
    case Nil
    with Cons show ?thesis by simp
  next
    case (Cons w ws)
    with le show ?thesis by (simp add: o_def)
  qed
qed simp

text \<open>One turn takes the front of every lane; it goes on while a lane has work.\<close>

function interleave_work :: "work list list \<Rightarrow> string set \<Rightarrow> work list" where
  "interleave_work lanes occupied =
     (if list_all (\<lambda>lane. lane = []) lanes then []
      else filter (work_free occupied) (map hd (filter (\<lambda>lane. lane \<noteq> []) lanes))
           @ interleave_work (map tl lanes) occupied)"
  by pat_completeness auto

termination
  by (relation "measure (\<lambda>(lanes, occupied). sum_list (map length lanes))")
    (use tl_lanes_less in \<open>auto simp: o_def\<close>)

declare interleave_work.simps [simp del]

section \<open>The state of the worker\<close>

record worker_config =
  concurrency :: nat
  max_jobs :: nat
  run_once :: bool

record scheduler =
  pending :: "work list"
  active :: "work list"
  active_ids :: "string set"
  active_sessions :: "string set"
  exclusive :: bool
  processed :: nat
  last_failure :: "string option"
  refresh_after_completion :: bool

text \<open>The state at the start of the loop; the first discovery fails the worker only if it runs once.\<close>

definition start_worker :: "worker_config \<Rightarrow> string + work list \<Rightarrow> string + scheduler" where
  "start_worker c discovered =
     (let s = \<lparr>pending = [], active = [], active_ids = {}, active_sessions = {}, exclusive = False,
               processed = 0, last_failure = None, refresh_after_completion = False\<rparr>
      in case discovered of
           Inr found \<Rightarrow> Inr (s\<lparr>pending := found\<rparr>)
         | Inl e \<Rightarrow> if run_once c then Inl e else Inr s)"

section \<open>Admission\<close>

fun position :: "('a \<Rightarrow> bool) \<Rightarrow> 'a list \<Rightarrow> nat option" where
  "position p [] = None"
| "position p (x # xs) = (if p x then Some 0 else map_option Suc (position p xs))"

lemma position_Some:
  "position p xs = Some i \<Longrightarrow> i < length xs \<and> p (xs ! i) \<and> (\<forall>j < i. \<not> p (xs ! j))"
  by (induction xs arbitrary: i) (auto simp: less_Suc_eq_0_disj split: if_splits)

lemma position_None: "position p xs = None \<longleftrightarrow> (\<forall>x \<in> set xs. \<not> p x)"
  by (induction xs) auto

definition room :: "worker_config \<Rightarrow> scheduler \<Rightarrow> bool" where
  "room c s \<longleftrightarrow> length (active s) < concurrency c
     \<and> (max_jobs c = 0 \<or> processed s + length (active s) < max_jobs c) \<and> \<not> exclusive s"

definition admissible :: "scheduler \<Rightarrow> work \<Rightarrow> bool" where
  "admissible s w = (case wk_session_id w of
     Some session \<Rightarrow> session \<notin> active_sessions s
   | None \<Rightarrow> active s = [])"

definition unscoped :: "work \<Rightarrow> bool" where
  "unscoped w \<longleftrightarrow> wk_session_id w = None"

definition start_work :: "work \<Rightarrow> scheduler \<Rightarrow> scheduler" where
  "start_work w s =
     (let s1 = s\<lparr>active_ids := insert (work_key w) (active_ids s)\<rparr>;
          s2 = (case wk_session_id w of
                  Some session \<Rightarrow> s1\<lparr>active_sessions := insert session (active_sessions s1)\<rparr>
                | None \<Rightarrow> s1\<lparr>exclusive := True\<rparr>)
      in s2\<lparr>active := active s2 @ [w]\<rparr>)"

definition remove_at :: "nat \<Rightarrow> 'a list \<Rightarrow> 'a list" where
  "remove_at i xs = take i xs @ drop (Suc i) xs"

text \<open>
  The inner loop: the first pending work whose session is free is started, unless an unscoped one
  waits before it; a second work with the key of an active one is dropped.
\<close>

function admit :: "worker_config \<Rightarrow> scheduler \<Rightarrow> scheduler" where
  "admit c s =
     (if room c s then
        (case position (admissible s) (pending s) of
           None \<Rightarrow> s
         | Some i \<Rightarrow>
             if list_ex unscoped (take i (pending s)) then s
             else let w = pending s ! i; s1 = s\<lparr>pending := remove_at i (pending s)\<rparr>
                  in if work_key w \<in> active_ids s1 then admit c s1 else admit c (start_work w s1))
      else s)"
  by pat_completeness auto
termination
  by (relation "measure (\<lambda>(c, s). length (pending s))")
    (auto simp: remove_at_def start_work_def Let_def dest!: position_Some split: option.splits)

declare admit.simps [simp del]

section \<open>The loop\<close>

text \<open>An iteration admits work, then returns, waits for new work, or waits for an attempt to end.\<close>

datatype turn = Return "string + nat" | Spin | Discover | Select

definition worker_turn :: "worker_config \<Rightarrow> scheduler \<Rightarrow> turn \<times> scheduler" where
  "worker_turn c s0 =
     (let s = admit c s0 in
      if active s = []
      then if (max_jobs c > 0 \<and> processed s \<ge> max_jobs c) \<or> (run_once c \<and> pending s = [])
           then (Return (case last_failure s of Some e \<Rightarrow> Inl e | None \<Rightarrow> Inr (processed s)), s)
           else if pending s \<noteq> [] then (Spin, s) else (Discover, s)
      else (Select, s))"

definition discovered :: "string + work list \<Rightarrow> work list" where
  "discovered r = (case r of Inl _ \<Rightarrow> [] | Inr found \<Rightarrow> found)"

definition rediscover :: "string + work list \<Rightarrow> scheduler \<Rightarrow> scheduler" where
  "rediscover r s = s\<lparr>refresh_after_completion := False, pending := discovered r\<rparr>"

text \<open>The attempt at an index of the active ones ends.\<close>

definition finish_work :: "nat \<Rightarrow> string + bool \<Rightarrow> scheduler \<Rightarrow> scheduler" where
  "finish_work i result s =
     (let w = active s ! i;
          s1 = s\<lparr>active := remove_at i (active s), active_ids := active_ids s - {work_key w}\<rparr>;
          s2 = (if isl result
                then s1\<lparr>pending := filter (\<lambda>p. wk_session_id w \<noteq> None \<and> wk_session_id p \<noteq> wk_session_id w)
                                     (pending s1)\<rparr>
                else s1);
          s3 = (case wk_session_id w of
                  Some session \<Rightarrow> s2\<lparr>active_sessions := active_sessions s2 - {session}\<rparr>
                | None \<Rightarrow> s2\<lparr>exclusive := False\<rparr>)
      in case result of
           Inr True \<Rightarrow> s3\<lparr>processed := processed s3 + 1, refresh_after_completion := True\<rparr>
         | Inr False \<Rightarrow> s3
         | Inl e \<Rightarrow> s3\<lparr>processed := processed s3 + 1, last_failure := Some e\<rparr>)"

text \<open>The first work of every key that is not in the set.\<close>

fun filter_new :: "string set \<Rightarrow> work list \<Rightarrow> work list" where
  "filter_new seen [] = []"
| "filter_new seen (w # ws) =
     (if work_key w \<in> seen then filter_new seen ws
      else w # filter_new (insert (work_key w) seen) ws)"

definition refresh_pending :: "string + work list \<Rightarrow> scheduler \<Rightarrow> scheduler" where
  "refresh_pending r s = s\<lparr>pending := filter_new (active_ids s) (discovered r)\<rparr>"

inductive worker_step :: "worker_config \<Rightarrow> scheduler \<Rightarrow> scheduler \<Rightarrow> bool" for c where
  spin: "worker_turn c s = (Spin, s1) \<Longrightarrow> worker_step c s s1"
| discover: "worker_turn c s = (Discover, s1) \<Longrightarrow> worker_step c s (rediscover r s1)"
| finish: "worker_turn c s = (Select, s1) \<Longrightarrow> i < length (active s1) \<Longrightarrow>
    worker_step c s (finish_work i result s1)"
| refresh: "worker_turn c s = (Select, s1) \<Longrightarrow> \<not> run_once c \<Longrightarrow>
    worker_step c s (refresh_pending r s1)"

inductive_cases worker_stepE: "worker_step c s s'"

definition worker_reaches :: "worker_config \<Rightarrow> scheduler \<Rightarrow> bool" where
  "worker_reaches c s \<longleftrightarrow> (\<exists>found s0. start_worker c found = Inr s0 \<and> (worker_step c)\<^sup>*\<^sup>* s0 s)"

end
