(* ===== verification/Worker.thy ===== *)
theory Worker
  imports Scheduler "HOL-Library.Multiset" "HOL-Library.Sublist"
begin

text \<open>
  What the worker guarantees in every state it reaches: attempts of one session never overlap, an
  attempt without a session runs alone, the limits hold, the loop never spins, and work without a
  session is not overtaken. The order of discovered work is a fair merge of the lanes.
\<close>

section \<open>Lists\<close>

lemma remove_at_props:
  assumes "i < length xs"
  shows "mset xs = add_mset (xs ! i) (mset (remove_at i xs))" "length (remove_at i xs) = length xs - 1"
proof -
  have "xs = take i xs @ xs ! i # drop (Suc i) xs" using assms by (rule id_take_nth_drop)
  then have "mset xs = mset (take i xs @ xs ! i # drop (Suc i) xs)" by simp
  then show "mset xs = add_mset (xs ! i) (mset (remove_at i xs))" by (simp add: remove_at_def)
  show "length (remove_at i xs) = length xs - 1" using assms by (simp add: remove_at_def)
qed

lemma set_remove_at: "i < length xs \<Longrightarrow> set xs = insert (xs ! i) (set (remove_at i xs))"
  using remove_at_props(1) [of i xs] by (metis set_mset_add_mset_insert set_mset_mset)

lemma filter_map_remove_at:
  assumes "i < length xs"
  shows "mset (filter_map f xs) = (case f (xs ! i) of None \<Rightarrow> {#} | Some y \<Rightarrow> {#y#}) + mset (filter_map f (remove_at i xs))"
proof -
  have app: "filter_map f (ys @ zs) = filter_map f ys @ filter_map f zs" for ys zs
    by (induction ys) (auto split: option.splits)
  have "filter_map f xs = filter_map f (take i xs @ xs ! i # drop (Suc i) xs)"
    using id_take_nth_drop [OF assms] by simp
  then show ?thesis by (simp add: app remove_at_def split: option.splits)
qed

section \<open>The invariant\<close>

definition worker_inv :: "worker_config \<Rightarrow> scheduler \<Rightarrow> bool" where
  "worker_inv c s \<longleftrightarrow>
     active_ids s = work_key ` set (active s) \<and> distinct (map work_key (active s))
     \<and> active_sessions s = set (filter_map wk_session_id (active s))
     \<and> distinct (filter_map wk_session_id (active s))
     \<and> exclusive s = list_ex unscoped (active s)
     \<and> (exclusive s \<longrightarrow> length (active s) = 1)
     \<and> length (active s) \<le> concurrency c
     \<and> (max_jobs c > 0 \<longrightarrow> processed s + length (active s) \<le> max_jobs c)"

lemma filter_map_snoc:
  "filter_map f (xs @ [x]) = filter_map f xs @ (case f x of None \<Rightarrow> [] | Some y \<Rightarrow> [y])"
  by (induction xs) (auto split: option.splits)

lemma start_work_inv:
  assumes "worker_inv c s" and "room c s" and "admissible s w" and "work_key w \<notin> active_ids s"
  shows "worker_inv c (start_work w s)"
  using assms
  by (cases "wk_session_id w")
    (auto simp: worker_inv_def room_def admissible_def start_work_def Let_def filter_map_snoc unscoped_def)

lemma pending_inv [simp]: "worker_inv c (s\<lparr>pending := ws\<rparr>) = worker_inv c s"
  by (simp add: worker_inv_def)

lemma room_pending [simp]: "room c (s\<lparr>pending := ws\<rparr>) = room c s"
  by (simp add: room_def)

lemma admissible_pending [simp]: "admissible (s\<lparr>pending := ws\<rparr>) = admissible s"
  by (simp add: admissible_def fun_eq_iff split: option.splits)

text \<open>The admission by induction over the works it takes from the pending ones.\<close>

definition next_admitted :: "worker_config \<Rightarrow> scheduler \<Rightarrow> nat option" where
  "next_admitted c s =
     (if room c s
      then opt_filter (\<lambda>i. \<not> list_ex unscoped (take i (pending s))) (position (admissible s) (pending s))
      else None)"

definition taken :: "nat \<Rightarrow> scheduler \<Rightarrow> scheduler" where
  "taken i s = s\<lparr>pending := remove_at i (pending s)\<rparr>"

lemma next_admitted_Some:
  "next_admitted c s = Some i \<longleftrightarrow> room c s \<and> position (admissible s) (pending s) = Some i
     \<and> \<not> list_ex unscoped (take i (pending s))"
  by (auto simp: next_admitted_def opt_filter_eq_Some)

lemma admit_unfold:
  "admit c s = (case next_admitted c s of None \<Rightarrow> s
     | Some i \<Rightarrow> if work_key (pending s ! i) \<in> active_ids s then admit c (taken i s)
         else admit c (start_work (pending s ! i) (taken i s)))"
  by (cases "position (admissible s) (pending s)")
    (subst admit.simps, simp add: next_admitted_def opt_filter_def taken_def)+

lemma admit_induct [case_names stop skip start]:
  assumes stop: "\<And>s. next_admitted c s = None \<Longrightarrow> P s s"
    and skip: "\<And>s t i. next_admitted c s = Some i \<Longrightarrow> work_key (pending s ! i) \<in> active_ids s \<Longrightarrow>
      P (taken i s) t \<Longrightarrow> P s t"
    and start: "\<And>s t i. next_admitted c s = Some i \<Longrightarrow> work_key (pending s ! i) \<notin> active_ids s \<Longrightarrow>
      P (start_work (pending s ! i) (taken i s)) t \<Longrightarrow> P s t"
  shows "P s (admit c s)"
proof (induction "length (pending s)" arbitrary: s rule: less_induct)
  case less
  show ?case
  proof (cases "next_admitted c s")
    case None
    with stop show ?thesis by (simp add: admit_unfold [of c s])
  next
    case (Some i)
    then have i: "i < length (pending s)" by (auto simp: next_admitted_Some dest: position_Some)
    have p: "pending (start_work w s') = pending s'" for w s'
      by (simp add: start_work_def Let_def split: option.splits)
    have "length (pending (taken i s)) < length (pending s)"
      using i by (simp add: taken_def remove_at_def)
    with less [of "taken i s"] less [of "start_work (pending s ! i) (taken i s)"] skip [OF Some] start [OF Some] Some
    show ?thesis by (subst admit_unfold) (simp add: p)
  qed
qed

lemma taken_simps [simp]:
  "pending (taken i s) = remove_at i (pending s)" "active (taken i s) = active s"
  "active_ids (taken i s) = active_ids s" "worker_inv c (taken i s) = worker_inv c s"
  "room c (taken i s) = room c s" "admissible (taken i s) = admissible s"
  by (simp_all add: taken_def)

lemma start_work_simps [simp]:
  "pending (start_work w s) = pending s" "active (start_work w s) = active s @ [w]"
  by (simp_all add: start_work_def Let_def split: option.splits)

lemma started_inv:
  assumes "next_admitted c s = Some i" and "work_key (pending s ! i) \<notin> active_ids s" and "worker_inv c s"
  shows "worker_inv c (start_work (pending s ! i) (taken i s))"
  using assms position_Some [of "admissible s" "pending s" i]
  by (intro start_work_inv) (simp_all add: next_admitted_Some)

lemma admit_inv: "worker_inv c s \<Longrightarrow> worker_inv c (admit c s)"
  by (induction s rule: admit_induct [of c]) (simp_all add: started_inv)

lemma admit_pending: "set (pending (admit c s)) \<subseteq> set (pending s)"
proof (induction s rule: admit_induct [of c])
  case (skip s t i)
  then show ?case by (auto simp: remove_at_def dest: in_set_takeD in_set_dropD)
next
  case (start s t i)
  then show ?case by (auto simp: remove_at_def dest: in_set_takeD in_set_dropD)
qed simp

lemma finish_work_inv:
  assumes "worker_inv c s" and "i < length (active s)"
  shows "worker_inv c (finish_work i r s)"
proof -
  let ?w = "active s ! i" and ?as = "remove_at i (active s)"
  note inv = assms(1) [unfolded worker_inv_def]
  have keys: "mset (map work_key (active s)) = add_mset (work_key ?w) (mset (map work_key ?as))"
    using remove_at_props(1) [OF assms(2)] by simp
  with inv have "distinct (map work_key ?as)" "work_key ?w \<notin> work_key ` set ?as"
    by (metis distinct.simps(2) mset_eq_imp_distinct_iff mset.simps(2) list.set_map)+
  moreover have "set (active s) = insert ?w (set ?as)" by (rule set_remove_at [OF assms(2)])
  ultimately have ids: "active_ids s - {work_key ?w} = work_key ` set ?as" "distinct (map work_key ?as)"
    using inv by auto
  have len: "length ?as = length (active s) - 1" by (rule remove_at_props(2) [OF assms(2)])
  note fm = filter_map_remove_at [OF assms(2), of wk_session_id]
  show ?thesis
  proof (cases "wk_session_id ?w")
    case None
    with inv assms(2) have one: "length (active s) = 1"
      by (auto simp: list_ex_iff unscoped_def)
    with len have "?as = []" by simp
    with None ids fm inv one show ?thesis
      by (auto simp: worker_inv_def finish_work_def Let_def split: sum.splits bool.splits)
  next
    case (Some session)
    from fm Some have m: "mset (filter_map wk_session_id (active s))
        = mset (session # filter_map wk_session_id ?as)" by simp
    with inv have d: "distinct (session # filter_map wk_session_id ?as)"
      using mset_eq_imp_distinct_iff by blast
    from m have "set (filter_map wk_session_id (active s)) = insert session (set (filter_map wk_session_id ?as))"
      by (metis list.set(2) mset_eq_setD)
    with d inv have ses: "active_sessions s - {session} = set (filter_map wk_session_id ?as)" by auto
    have ex: "exclusive s = list_ex unscoped ?as"
      using inv Some set_remove_at [OF assms(2)] by (auto simp: list_ex_iff unscoped_def)
    have ne: "exclusive s \<longrightarrow> False"
    proof
      assume e: "exclusive s"
      with inv have "length (active s) = 1" by blast
      with len have "?as = []" by simp
      with ex e show False by simp
    qed
    from Some ids d ses ex ne len inv assms(2) show ?thesis
      by (auto simp: worker_inv_def finish_work_def Let_def split: sum.splits bool.splits)
  qed
qed

lemma worker_turn_state: "worker_turn c s = (t, s1) \<Longrightarrow> s1 = admit c s"
  by (auto simp: worker_turn_def Let_def split: if_splits)

lemma worker_step_inv: "worker_step c s s' \<Longrightarrow> worker_inv c s \<Longrightarrow> worker_inv c s'"
proof (induction rule: worker_step.induct)
  case (discover s s1 r)
  from worker_turn_state [OF discover(1)] admit_inv [OF discover(2)] show ?case
    by (simp add: rediscover_def worker_inv_def)
next
  case (finish s s1 i result)
  from worker_turn_state [OF finish(1)] admit_inv [OF finish(3)] finish(2) show ?case
    by (simp add: finish_work_inv)
qed (auto simp: refresh_pending_def dest: worker_turn_state intro: admit_inv)

lemma worker_reaches_inv:
  assumes "worker_reaches c s"
  shows "worker_inv c s"
proof -
  from assms obtain found s0 where s0: "start_worker c found = Inr s0" and r: "(worker_step c)\<^sup>*\<^sup>* s0 s"
    by (auto simp: worker_reaches_def)
  from s0 have "worker_inv c s0"
    by (auto simp: start_worker_def worker_inv_def Let_def split: sum.splits if_splits)
  with r show ?thesis by (induction rule: rtranclp_induct) (auto intro: worker_step_inv)
qed

text \<open>Where the admission stops.\<close>

lemma admit_stuck: "next_admitted c (admit c s) = None"
  by (induction s rule: admit_induct [of c])

lemma idle_admissible:
  assumes "worker_inv c s" and "active s = []"
  shows "admissible s w" "\<not> exclusive s"
  using assms by (auto simp: worker_inv_def admissible_def split: option.splits)

section \<open>The limits of the worker\<close>

definition sample_work :: "string \<Rightarrow> string option \<Rightarrow> work" where
  "sample_work i session = \<lparr>wk_id = i, wk_session_id = session, wk_kind = Execution\<rparr>"

definition sample_config :: worker_config where
  "sample_config = \<lparr>concurrency = 2, max_jobs = 0, run_once = False\<rparr>"

definition sample_worker :: scheduler where
  "sample_worker = projr (start_worker sample_config (Inr
     [sample_work ''a'' (Some ''s''), sample_work ''b'' (Some ''s''), sample_work ''c'' (Some ''t''),
      sample_work ''u'' None]))"

lemma sample_worker_reaches: "worker_reaches sample_config sample_worker"
proof -
  have "start_worker sample_config (Inr
     [sample_work ''a'' (Some ''s''), sample_work ''b'' (Some ''s''), sample_work ''c'' (Some ''t''),
      sample_work ''u'' None]) = Inr sample_worker"
    by (simp add: sample_worker_def start_worker_def Let_def)
  then show ?thesis unfolding worker_reaches_def by blast
qed

lemma sample_turn: "fst (worker_turn sample_config sample_worker) = Select"
  "map wk_id (active (snd (worker_turn sample_config sample_worker))) = [''a'', ''c'']"
  by code_simp+

text \<open>
  C13. In every state of the worker, no two active attempts are for the same session or have the
  same key, an attempt without a session is the only one, at most the configured number of
  attempts is active, and no more attempts are made than the configured limit.
\<close>

theorem worker_exclusive:
  assumes "worker_reaches c s"
  shows "(\<forall>i j. i < length (active s) \<and> j < length (active s) \<and> i \<noteq> j \<longrightarrow>
      work_key (active s ! i) \<noteq> work_key (active s ! j)
      \<and> wk_session_id (active s ! i) \<noteq> wk_session_id (active s ! j))
    \<and> ((\<exists>w \<in> set (active s). wk_session_id w = None) \<longrightarrow> length (active s) = 1)
    \<and> length (active s) \<le> concurrency c
    \<and> (max_jobs c > 0 \<longrightarrow> processed s + length (active s) \<le> max_jobs c)"
proof -
  note inv = worker_reaches_inv [OF assms, unfolded worker_inv_def]
  have sess: "wk_session_id (xs ! i) \<noteq> wk_session_id (xs ! j)"
    if "distinct (filter_map wk_session_id xs)" "\<forall>w \<in> set xs. wk_session_id w \<noteq> None"
      "i < length xs" "j < length xs" "i \<noteq> j" for xs :: "work list" and i j
  proof -
    have "filter_map wk_session_id xs = map (the \<circ> wk_session_id) xs"
      using that(2) by (induction xs) auto
    with that(1) have "distinct (map (the \<circ> wk_session_id) xs)" by simp
    with that(3-5) show ?thesis by (metis comp_apply distinct_conv_nth length_map nth_map)
  qed
  have one: "length (active s) = 1" if "w \<in> set (active s)" "wk_session_id w = None" for w
    using inv that by (auto simp: list_ex_iff unscoped_def)
  have two: "wk_session_id (active s ! i) \<noteq> wk_session_id (active s ! j)"
    if ij: "i < length (active s)" "j < length (active s)" "i \<noteq> j" for i j
  proof (rule sess)
    show "\<forall>w \<in> set (active s). wk_session_id w \<noteq> None" using one ij by force
  qed (use inv ij in auto)
  have "distinct (map work_key (active s))" using inv by blast
  then have "work_key (active s ! i) \<noteq> work_key (active s ! j)"
    if "i < length (active s)" "j < length (active s)" "i \<noteq> j" for i j
    using that by (auto simp: distinct_conv_nth)
  with two one inv show ?thesis by blast
qed

lemma worker_exclusive_witness:
  "let s = finish_work 0 (Inr True) (snd (worker_turn sample_config sample_worker))
   in length (active s) \<le> 2 \<and> length (active s) = 1"
proof -
  obtain s1 where s1: "worker_turn sample_config sample_worker = (Select, s1)"
    using sample_turn(1) by (cases "worker_turn sample_config sample_worker") simp
  then have len: "length (active s1) = 2" using arg_cong [OF sample_turn(2), of length] by simp
  then have "worker_step sample_config sample_worker (finish_work 0 (Inr True) s1)"
    by (intro worker_step.finish [OF s1]) simp
  then have "worker_reaches sample_config (finish_work 0 (Inr True) s1)"
    using sample_worker_reaches unfolding worker_reaches_def by (meson rtranclp.rtrancl_into_rtrancl)
  from worker_exclusive [OF this] s1 len show ?thesis
    by (simp add: Let_def sample_config_def finish_work_def remove_at_props(2) split: option.splits)
qed

text \<open>
  The worker never spins: with a concurrency of at least one, an iteration of its loop waits
  for an attempt, waits for new work, or returns; and while it waits for an attempt it has started
  all work it may: without room for more, every pending work before the first one without a
  session is for a session that is busy.
\<close>

theorem worker_never_spins:
  assumes "worker_reaches c s" and "concurrency c \<ge> 1"
  shows "fst (worker_turn c s) \<noteq> Spin
    \<and> (fst (worker_turn c s) = Select \<longrightarrow>
        (let s1 = snd (worker_turn c s) in
         length (active s1) = concurrency c \<or> exclusive s1
         \<or> (max_jobs c > 0 \<and> processed s1 + length (active s1) = max_jobs c)
         \<or> (\<forall>w \<in> set (takeWhile (\<lambda>w. \<not> unscoped w) (pending s1)).
              \<exists>a \<in> set (active s1). wk_session_id a = wk_session_id w)))"
proof -
  let ?s = "admit c s"
  have inv: "worker_inv c ?s" by (rule admit_inv [OF worker_reaches_inv [OF assms(1)]])
  have stuck: "list_ex unscoped (take i (pending ?s))"
    if "room c ?s" "position (admissible ?s) (pending ?s) = Some i" for i
    using next_admitted_Some [of c ?s i] admit_stuck [of c s] that by simp
  have nospin: "fst (worker_turn c s) \<noteq> Spin"
  proof
    assume "fst (worker_turn c s) = Spin"
    then have a: "active ?s = []" and p: "pending ?s \<noteq> []" and m: "\<not> (max_jobs c > 0 \<and> processed ?s \<ge> max_jobs c)"
      by (auto simp: worker_turn_def Let_def split: if_splits)
    have "room c ?s" using a m assms(2) idle_admissible(2) [OF inv a] by (auto simp: room_def)
    moreover have "position (admissible ?s) (pending ?s) = Some 0"
      using p idle_admissible(1) [OF inv a] by (cases "pending ?s") auto
    ultimately show False using stuck [of 0] by simp
  qed
  have busy: "\<exists>a \<in> set (active ?s). wk_session_id a = wk_session_id w"
    if r: "room c ?s" and w: "w \<in> set (takeWhile (\<lambda>w. \<not> unscoped w) (pending ?s))" for w
  proof -
    have tw: "\<not> unscoped w" "w \<in> set (pending ?s)" using w set_takeWhileD by fastforce+
    have "\<not> admissible ?s w"
    proof (cases "position (admissible ?s) (pending ?s)")
      case None
      with tw(2) show ?thesis by (simp add: position_None)
    next
      case (Some i)
      have ex: "list_ex unscoped (take i (pending ?s))" by (rule stuck [OF r Some])
      from w obtain j where j: "j < length (takeWhile (\<lambda>w. \<not> unscoped w) (pending ?s))"
        "takeWhile (\<lambda>w. \<not> unscoped w) (pending ?s) ! j = w" by (auto simp: in_set_conv_nth)
      have "j < i"
      proof (rule ccontr)
        assume "\<not> j < i"
        then have "take i (pending ?s) = take i (takeWhile (\<lambda>w. \<not> unscoped w) (pending ?s))"
          using j(1) by (metis less_imp_le_nat linorder_not_less order_le_less_trans take_all_iff
              takeWhile_eq_take take_take min.absorb1)
        then have "\<forall>x \<in> set (take i (pending ?s)). \<not> unscoped x"
          by (metis in_set_takeD set_takeWhileD)
        with ex show False by (auto simp: list_ex_iff)
      qed
      with position_Some [OF Some] j show ?thesis by (metis takeWhile_nth)
    qed
    with tw(1) obtain session where "wk_session_id w = Some session" "session \<in> active_sessions ?s"
      by (auto simp: unscoped_def admissible_def)
    with inv show ?thesis by (auto simp: worker_inv_def set_filter_map)
  qed
  have "length (active ?s) = concurrency c \<or> exclusive ?s
      \<or> (max_jobs c > 0 \<and> processed ?s + length (active ?s) = max_jobs c)" if "\<not> room c ?s"
    using that inv by (auto simp: room_def worker_inv_def)
  with busy nospin show ?thesis using worker_turn_state [of c s "fst (worker_turn c s)" "snd (worker_turn c s)"]
    by (auto simp: Let_def)
qed

lemma worker_never_spins_witness: "fst (worker_turn sample_config sample_worker) \<noteq> Spin"
  using worker_never_spins [OF sample_worker_reaches] by (simp add: sample_config_def)

section \<open>Work without a session is not overtaken\<close>

text \<open>The first work without a session in the pending ones, with what is behind it.\<close>

definition waiting :: "work \<Rightarrow> work list \<Rightarrow> scheduler \<Rightarrow> nat \<Rightarrow> bool" where
  "waiting u behind s k \<longleftrightarrow> (\<exists>ahead. pending s = ahead @ u # behind \<and> length ahead = k
     \<and> unscoped u \<and> \<not> list_ex unscoped ahead)"

lemma waiting_next:
  assumes "waiting u behind s k" and "next_admitted c s = Some i"
  shows "i \<le> k" "i = k \<Longrightarrow> pending s ! i = u \<and> active s = []" "i < k \<Longrightarrow> waiting u behind (taken i s) (k - 1)"
proof -
  from assms(1) obtain ahead where p: "pending s = ahead @ u # behind" "length ahead = k"
    "unscoped u" "\<not> list_ex unscoped ahead" by (auto simp: waiting_def)
  note i = assms(2) [unfolded next_admitted_Some]
  show "i \<le> k"
  proof (rule ccontr)
    assume "\<not> i \<le> k"
    then have "u \<in> set (take i (pending s))" using p(1,2) by (cases "i - k") auto
    with i p(3) show False by (auto simp: list_ex_iff)
  qed
  show "pending s ! i = u \<and> active s = []" if "i = k"
    using that p i position_Some [of "admissible s" "pending s" i] by (auto simp: admissible_def unscoped_def)
  show "waiting u behind (taken i s) (k - 1)" if i: "i < k"
    unfolding waiting_def
  proof (intro exI conjI)
    show "pending (taken i s) = remove_at i ahead @ u # behind"
      using i p by (simp add: remove_at_def)
    show "length (remove_at i ahead) = k - 1" using i p(2) by (simp add: remove_at_def)
    show "\<not> list_ex unscoped (remove_at i ahead)"
      using p(4) by (auto simp: list_ex_iff remove_at_def dest: in_set_takeD in_set_dropD)
  qed (rule p(3))
qed

lemma admit_waiting:
  "set (active s) \<subseteq> set (active (admit c s))
   \<and> (\<forall>k. waiting u behind s k \<and> worker_inv c s \<and> u \<notin> set (active (admit c s)) \<longrightarrow>
       (\<exists>k'. waiting u behind (admit c s) k' \<and> k' + length (active (admit c s)) \<le> k + length (active s)))"
  (is "?P s (admit c s)")
proof (induction s rule: admit_induct [of c])
  case (stop s)
  then show ?case by blast
next
  case (skip s t i)
  have "\<exists>k'. waiting u behind t k' \<and> k' + length (active t) \<le> k + length (active s)"
    if k: "waiting u behind s k" "worker_inv c s" "u \<notin> set (active t)" for k
  proof -
    note w = waiting_next [OF k(1) skip(1)]
    have "i \<noteq> k" using w(2) skip(2) k(2) by (auto simp: worker_inv_def)
    with w have w1: "waiting u behind (taken i s) (k - 1)" and "0 < k" by auto
    with skip.IH k(2,3) obtain k' where "waiting u behind t k'" "k' + length (active t) \<le> k - 1 + length (active s)"
      by fastforce
    then show ?thesis by auto
  qed
  with skip.IH show ?case by auto
next
  case (start s t i)
  let ?s = "start_work (pending s ! i) (taken i s)"
  have "\<exists>k'. waiting u behind t k' \<and> k' + length (active t) \<le> k + length (active s)"
    if k: "waiting u behind s k" "worker_inv c s" "u \<notin> set (active t)" for k
  proof -
    note w = waiting_next [OF k(1) start(1)]
    have "i \<noteq> k" using w(2) start.IH k(3) by auto
    with w have w1: "waiting u behind ?s (k - 1)" and "0 < k" by (auto simp: waiting_def)
    with start.IH k(3) started_inv [OF start(1,2) k(2)]
    obtain k' where "waiting u behind t k'" "k' + length (active t) \<le> k - 1 + length (active ?s)"
      by blast
    with \<open>0 < k\<close> show ?thesis by auto
  qed
  with start.IH show ?case by auto
qed

text \<open>A number of attempts end, one after the other, while some work stays pending.\<close>

inductive ends_before :: "worker_config \<Rightarrow> work \<Rightarrow> nat \<Rightarrow> scheduler \<Rightarrow> scheduler \<Rightarrow> bool" for c u where
  none: "ends_before c u 0 s s"
| one_more: "worker_turn c s = (Select, s1) \<Longrightarrow> u \<notin> set (active s1) \<Longrightarrow> u \<in> set (pending s1) \<Longrightarrow>
    i < length (active s1) \<Longrightarrow> ends_before c u n (finish_work i result s1) s' \<Longrightarrow>
    ends_before c u (Suc n) s s'"

lemma finish_waiting:
  assumes "waiting u behind s k" and "worker_inv c s" and "i < length (active s)"
    and "u \<in> set (pending (finish_work i r s))"
  shows "\<exists>k' behind'. waiting u behind' (finish_work i r s) k'
    \<and> k' + length (active (finish_work i r s)) < k + length (active s)"
proof -
  let ?w = "active s ! i"
  have len: "length (active (finish_work i r s)) < length (active s)"
    using assms(3) by (auto simp: finish_work_def Let_def remove_at_def split: sum.splits bool.splits option.splits)
  from assms(1) obtain ahead where p: "pending s = ahead @ u # behind" "length ahead = k"
    "unscoped u" "\<not> list_ex unscoped ahead" by (auto simp: waiting_def)
  show ?thesis
  proof (cases "isl r")
    case False
    then have "pending (finish_work i r s) = pending s"
      by (auto simp: finish_work_def Let_def split: sum.splits bool.splits option.splits)
    with p len show ?thesis by (intro exI [of _ k] exI [of _ behind]) (auto simp: waiting_def)
  next
    case True
    let ?keep = "\<lambda>p. wk_session_id ?w \<noteq> None \<and> wk_session_id p \<noteq> wk_session_id ?w"
    have f: "pending (finish_work i r s) = filter ?keep (pending s)"
      using True by (auto simp: finish_work_def Let_def split: sum.splits bool.splits option.splits)
    with assms(4) have "?keep u" by simp
    with f p have "pending (finish_work i r s) = filter ?keep ahead @ u # filter ?keep behind" by simp
    moreover have "length (filter ?keep ahead) \<le> k" using p(2) by (metis length_filter_le)
    moreover have "\<not> list_ex unscoped (filter ?keep ahead)" using p(4) by (auto simp: list_ex_iff)
    ultimately show ?thesis using len p(3)
      by (intro exI [of _ "length (filter ?keep ahead)"] exI [of _ "filter ?keep behind"])
        (auto simp: waiting_def)
  qed
qed

text \<open>
  C14. Work without a session is not overtaken for ever. Between two discoveries (each refresh of a source
  replaces what is pending), while the worker goes on to wait for attempts and the first pending work without
  a session stays pending, no more attempts end than are active and pending before it. So by then the
  work is started, or is dropped because an attempt without a session failed, or the worker has stopped:
  when the limit of jobs is reached it starts nothing more.
\<close>

theorem unscoped_not_starved:
  assumes "worker_reaches c s" and "pending s = ahead @ u # behind"
    and "wk_session_id u = None" and "\<forall>w \<in> set ahead. wk_session_id w \<noteq> None"
    and "ends_before c u n s s'"
  shows "n \<le> length ahead + length (active s)"
proof -
  have "ends_before c u n s s' \<Longrightarrow> worker_inv c s \<Longrightarrow> waiting u behind s k \<Longrightarrow> n \<le> k + length (active s)"
    for n s k behind
  proof (induction arbitrary: k behind rule: ends_before.induct)
    case (one_more s s1 i n result s')
    note s1 = worker_turn_state [OF one_more(1)]
    have inv: "worker_inv c s1" unfolding s1 by (rule admit_inv [OF one_more.prems(1)])
    from admit_waiting [of s c u behind] one_more.prems one_more(2) obtain k1 where
      k1: "waiting u behind s1 k1" "k1 + length (active s1) \<le> k + length (active s)"
      by (auto simp: s1)
    show ?case
    proof (cases n)
      case 0
      from k1(2) one_more(4) 0 show ?thesis by auto
    next
      case (Suc m)
      have "u \<in> set (pending (finish_work i result s1))"
      proof -
        from one_more(5) Suc have "ends_before c u (Suc m) (finish_work i result s1) s'" by simp
        then obtain v where "worker_turn c (finish_work i result s1) = (Select, v)" "u \<in> set (pending v)"
          by cases auto
        then show ?thesis using worker_turn_state admit_pending by fastforce
      qed
      from finish_waiting [OF k1(1) inv one_more(4) this] obtain k2 behind' where
        "waiting u behind' (finish_work i result s1) k2"
        "k2 + length (active (finish_work i result s1)) < k1 + length (active s1)" by blast
      with one_more.IH [OF finish_work_inv [OF inv one_more(4)] this(1)] k1(2) show ?thesis by simp
    qed
  qed simp
  moreover have "waiting u behind s (length ahead)"
    using assms(2-4) by (auto simp: waiting_def unscoped_def list_ex_iff)
  ultimately show ?thesis using assms(1,5) worker_reaches_inv by blast
qed

lemma unscoped_not_starved_witness:
  "\<exists>s'. ends_before sample_config (sample_work ''u'' None) 1 sample_worker s'
     \<and> (1::nat) \<le> length [sample_work ''a'' (Some ''s''), sample_work ''b'' (Some ''s''), sample_work ''c'' (Some ''t'')]
          + length (active sample_worker)"
proof -
  let ?u = "sample_work ''u'' None" and ?s1 = "snd (worker_turn sample_config sample_worker)"
  have "fst (worker_turn sample_config sample_worker) = Select" "?u \<notin> set (active ?s1)"
    "?u \<in> set (pending ?s1)" "0 < length (active ?s1)" by code_simp+
  then have e: "ends_before sample_config ?u (Suc 0) sample_worker (finish_work 0 (Inr True) ?s1)"
    by (intro one_more [OF _ _ _ _ none, of sample_config _ ?s1 _ 0 "Inr True"]) (simp_all add: prod_eq_iff)
  have p: "pending sample_worker = [sample_work ''a'' (Some ''s''), sample_work ''b'' (Some ''s''),
      sample_work ''c'' (Some ''t'')] @ ?u # []"
    by (simp add: sample_worker_def start_worker_def Let_def)
  from unscoped_not_starved [OF sample_worker_reaches p _ _ e] e show ?thesis
    by (auto simp: sample_work_def)
qed

section \<open>The order of discovered work\<close>

lemma interleave_filter: "interleave_work lanes occupied = filter (work_free occupied) (interleave_work lanes {})"
proof (induction "sum_list (map length lanes)" arbitrary: lanes rule: less_induct)
  case less
  show ?case
  proof (cases "list_all (\<lambda>lane. lane = []) lanes")
    case False
    have "work_free {} = (\<lambda>w. True)" by (auto simp: work_free_def is_none_or_iff fun_eq_iff)
    with False less [of "map tl lanes"] tl_lanes_less [OF False] show ?thesis
      by (subst (1 2) interleave_work.simps) (simp add: o_def)
  qed (simp add: interleave_work.simps)
qed

lemma interleave_all:
  "interleave_work lanes {} =
     (if list_all (\<lambda>lane. lane = []) lanes then []
      else map hd (filter (\<lambda>lane. lane \<noteq> []) lanes) @ interleave_work (map tl lanes) {})"
proof -
  have "work_free {} = (\<lambda>w. True)" by (auto simp: work_free_def is_none_or_iff fun_eq_iff)
  then show ?thesis by (subst interleave_work.simps) simp
qed

lemma heads_mset:
  "mset (map hd (filter (\<lambda>lane. lane \<noteq> []) lanes)) + mset (concat (map tl lanes)) = mset (concat lanes)"
proof (induction lanes)
  case (Cons lane lanes)
  then show ?case by (cases lane) (auto simp: ac_simps)
qed simp

lemma interleave_mset: "mset (interleave_work lanes {}) = mset (concat lanes)"
proof (induction "sum_list (map length lanes)" arbitrary: lanes rule: less_induct)
  case less
  show ?case
  proof (cases "list_all (\<lambda>lane. lane = []) lanes")
    case True
    then have "concat lanes = []" by (simp add: list_all_iff)
    with True show ?thesis by (simp add: interleave_all)
  next
    case False
    with less [of "map tl lanes"] tl_lanes_less [OF False] heads_mset [of lanes] show ?thesis
      by (subst interleave_all) (simp add: o_def)
  qed
qed

lemma heads_nth:
  assumes "j < length lanes" and "lanes ! j \<noteq> []"
  shows "\<exists>k \<le> j. k < length (filter (\<lambda>lane. lane \<noteq> []) lanes)
    \<and> map hd (filter (\<lambda>lane. lane \<noteq> []) lanes) ! k = hd (lanes ! j)"
  using assms
proof (induction lanes arbitrary: j)
  case (Cons lane lanes)
  show ?case
  proof (cases j)
    case 0
    with Cons.prems show ?thesis by auto
  next
    case (Suc m)
    with Cons obtain k where "k \<le> m" "k < length (filter (\<lambda>lane. lane \<noteq> []) lanes)"
      "map hd (filter (\<lambda>lane. lane \<noteq> []) lanes) ! k = hd (lanes ! m)" by fastforce
    with Suc show ?thesis by (cases "lane = []") (auto intro: exI [of _ k] exI [of _ "Suc k"])
  qed
qed simp

lemma interleave_position:
  "j < length lanes \<Longrightarrow> i < length (lanes ! j) \<Longrightarrow>
   \<exists>k \<le> i * length lanes + j. k < length (interleave_work lanes {}) \<and> interleave_work lanes {} ! k = lanes ! j ! i"
proof (induction i arbitrary: lanes)
  case 0
  then have ne: "lanes ! j \<noteq> []" by auto
  with 0 have "\<not> list_all (\<lambda>lane. lane = []) lanes" by (auto simp: list_all_length)
  from heads_nth [OF 0(1) ne] obtain k where "k \<le> j" "k < length (filter (\<lambda>lane. lane \<noteq> []) lanes)"
    "map hd (filter (\<lambda>lane. lane \<noteq> []) lanes) ! k = hd (lanes ! j)" by blast
  with \<open>\<not> list_all (\<lambda>lane. lane = []) lanes\<close> ne show ?case
    by (subst (1 2) interleave_all) (auto simp: nth_append hd_conv_nth intro!: exI [of _ k])
next
  case (Suc i)
  have ne: "\<not> list_all (\<lambda>lane. lane = []) lanes" using Suc.prems by (force simp: list_all_length)
  let ?h = "map hd (filter (\<lambda>lane. lane \<noteq> []) lanes)"
  have "i < length (lanes ! j) - Suc 0" using Suc.prems(2) by arith
  with Suc.IH [of "map tl lanes"] Suc.prems obtain k where k: "k \<le> i * length lanes + j"
    "k < length (interleave_work (map tl lanes) {})"
    "interleave_work (map tl lanes) {} ! k = lanes ! j ! Suc i"
    by (auto simp: nth_tl)
  have "length ?h \<le> length lanes" using length_filter_le [of _ lanes] by simp
  then have "length ?h + k \<le> Suc i * length lanes + j" using k(1) by (simp del: length_map)
  moreover have "interleave_work lanes {} = ?h @ interleave_work (map tl lanes) {}"
    using ne by (subst interleave_all) simp
  ultimately show ?case using k(2,3) by (intro exI [of _ "length ?h + k"]) (simp add: nth_append)
qed

lemma filter_position:
  "k < length xs \<Longrightarrow> p (xs ! k) \<Longrightarrow> \<exists>k' \<le> k. k' < length (filter p xs) \<and> filter p xs ! k' = xs ! k"
proof (induction xs arbitrary: k)
  case (Cons x xs)
  show ?case
  proof (cases k)
    case 0
    with Cons.prems show ?thesis by auto
  next
    case (Suc m)
    with Cons obtain k' where "k' \<le> m" "k' < length (filter p xs)" "filter p xs ! k' = xs ! m" by fastforce
    with Suc show ?thesis by (cases "p x") (auto intro: exI [of _ k'] exI [of _ "Suc k'"])
  qed
qed simp

lemma heads_subseq:
  "lane \<in> set lanes \<Longrightarrow> lane \<noteq> [] \<Longrightarrow> subseq [hd lane] (map hd (filter (\<lambda>lane. lane \<noteq> []) lanes))"
  by (simp add: subseq_singleton_left)

lemma interleave_subseq: "lane \<in> set lanes \<Longrightarrow> subseq lane (interleave_work lanes {})"
proof (induction "sum_list (map length lanes)" arbitrary: lanes lane rule: less_induct)
  case less
  show ?case
  proof (cases lane)
    case (Cons w ws)
    with less.prems have ne: "\<not> list_all (\<lambda>lane. lane = []) lanes" by (auto simp: list_all_iff)
    have "subseq ws (interleave_work (map tl lanes) {})"
      using less.hyps [of "map tl lanes" ws] tl_lanes_less [OF ne] less.prems Cons
      by (force simp: o_def image_iff)
    with list_emb_append_mono [OF heads_subseq [OF less.prems]] Cons ne show ?thesis
      by (subst interleave_all) simp
  qed simp
qed

text \<open>
  Discovered work is merged fairly: every work of the lanes whose session is not occupied is
  in the result exactly once, in the order of its lane, and the one at place \<open>i\<close> of lane \<open>j\<close> has
  at most \<open>i\<close> full turns and \<open>j\<close> other works before it.
\<close>

theorem interleave_fair:
  shows "mset (interleave_work lanes occupied) = filter_mset (work_free occupied) (mset (concat lanes))
    \<and> (\<forall>lane \<in> set lanes. subseq (filter (work_free occupied) lane) (interleave_work lanes occupied))
    \<and> (\<forall>j < length lanes. \<forall>i < length (lanes ! j). work_free occupied (lanes ! j ! i) \<longrightarrow>
        (\<exists>k \<le> i * length lanes + j. k < length (interleave_work lanes occupied)
           \<and> interleave_work lanes occupied ! k = lanes ! j ! i))"
proof (intro conjI ballI allI impI)
  show "mset (interleave_work lanes occupied) = filter_mset (work_free occupied) (mset (concat lanes))"
    by (subst interleave_filter) (simp only: mset_filter interleave_mset)
  show "subseq (filter (work_free occupied) lane) (interleave_work lanes occupied)" if "lane \<in> set lanes" for lane
    using interleave_subseq [OF that] by (subst interleave_filter) (rule subseq_filter)
  fix i j assume ij: "j < length lanes" "i < length (lanes ! j)" and free: "work_free occupied (lanes ! j ! i)"
  from interleave_position [OF ij] obtain k where k: "k \<le> i * length lanes + j"
    "k < length (interleave_work lanes {})" "interleave_work lanes {} ! k = lanes ! j ! i" by blast
  from filter_position [OF k(2), of "work_free occupied"] free k(3) obtain k' where "k' \<le> k"
    "k' < length (filter (work_free occupied) (interleave_work lanes {}))"
    "filter (work_free occupied) (interleave_work lanes {}) ! k' = lanes ! j ! i" by auto
  with k(1) show "\<exists>k \<le> i * length lanes + j. k < length (interleave_work lanes occupied)
       \<and> interleave_work lanes occupied ! k = lanes ! j ! i"
    unfolding interleave_filter [of lanes occupied] by (intro exI [of _ k']) simp
qed

lemma interleave_fair_witness:
  "\<exists>k \<le> 2. interleave_work [[sample_work ''a'' (Some ''s'')], [], [sample_work ''b'' None]] {''s''} ! k
     = sample_work ''b'' None"
proof -
  let ?lanes = "[[sample_work ''a'' (Some ''s'')], [], [sample_work ''b'' None]]"
  have "work_free {''s''} (?lanes ! 2 ! 0)" by (simp add: work_free_def sample_work_def)
  with conjunct2 [OF conjunct2 [OF interleave_fair [of ?lanes "{''s''}"]], rule_format, of 2 0]
  obtain k where "k \<le> 0 * length ?lanes + 2" "interleave_work ?lanes {''s''} ! k = ?lanes ! 2 ! 0" by auto
  then show ?thesis by (intro exI [of _ k]) simp
qed

end
