(* ===== verification/Exec_Safety.thy ===== *)
theory Exec_Safety
  imports Exec_Queue Scheduler
begin

text \<open>
  What the execution queue guarantees: the life cycle of a job as an abstract machine that every
  operation refines, no second execution of a committed job, claims that exclude each other while
  their lease is live, and fencing of claims that were superseded.
\<close>

section \<open>Calls\<close>

text \<open>
  The operations the API and the workers call. \<open>complete\<close>, \<open>fail\<close> and \<open>retry_or_fail\<close> of the
  queue are not among them: the source marks them as unused outside tests.
\<close>

datatype queue_call =
    Enqueue "string option" uuid execution_job_request
  | Start uuid string
  | Begin_Executing uuid string int
  | Outcome_Unknown_Started uuid string int string
  | Begin_Finalizing uuid string int "string option" json
  | Resume_Finalizing uuid string
  | Recover_Executing uuid string "string option" json
  | Finish_Finalizing uuid string int bool
  | Set_Failure uuid string int string json
  | Outcome_Unknown_Finalizing uuid string int string
  | Prepare_Tail uuid string int
  | Mark_Published uuid
  | Renew uuid string int int
  | Cancel uuid
  | Acknowledge_Canceled uuid string int
  | Begin_Cleanup uuid string int
  | Claim_Cancellation uuid string

fun run_call :: "readings \<Rightarrow> queue_call \<Rightarrow> queue_op" where
  "run_call now (Enqueue v i r) = queue_enqueue v i now r"
| "run_call now (Start i w) = queue_start now i w"
| "run_call now (Begin_Executing i w g) = begin_executing_started now i w g"
| "run_call now (Outcome_Unknown_Started i w g e) = mark_outcome_unknown_started now i w g e"
| "run_call now (Begin_Finalizing i w g e d) = begin_finalizing_started now i w g e d"
| "run_call now (Resume_Finalizing i w) = resume_finalizing now i w"
| "run_call now (Recover_Executing i w e d) = recover_expired_executing now i w e d"
| "run_call now (Finish_Finalizing i w g b) = finish_finalizing_started now i w g b"
| "run_call now (Set_Failure i w g e d) = set_finalizing_failure now i w g e d"
| "run_call now (Outcome_Unknown_Finalizing i w g e) = mark_outcome_unknown_finalizing now i w g e"
| "run_call now (Prepare_Tail i w g) = prepare_outcome_tail now i w g"
| "run_call now (Mark_Published i) = mark_outcome_published i"
| "run_call now (Renew i w g n) = renew_started now i w g n"
| "run_call now (Cancel i) = queue_cancel i"
| "run_call now (Acknowledge_Canceled i w g) = acknowledge_canceled now i w g"
| "run_call now (Begin_Cleanup i w g) = begin_cancellation_cleanup now i w g"
| "run_call now (Claim_Cancellation i w) = claim_cancellation now i w"

text \<open>The claim a call is made under, when it is made under one, and the job it is for.\<close>

fun call_claim :: "queue_call \<Rightarrow> (uuid \<times> string \<times> int) option" where
  "call_claim (Begin_Executing i w g) = Some (i, w, g)"
| "call_claim (Outcome_Unknown_Started i w g e) = Some (i, w, g)"
| "call_claim (Begin_Finalizing i w g e d) = Some (i, w, g)"
| "call_claim (Finish_Finalizing i w g b) = Some (i, w, g)"
| "call_claim (Set_Failure i w g e d) = Some (i, w, g)"
| "call_claim (Outcome_Unknown_Finalizing i w g e) = Some (i, w, g)"
| "call_claim (Prepare_Tail i w g) = Some (i, w, g)"
| "call_claim (Renew i w g n) = Some (i, w, g)"
| "call_claim (Acknowledge_Canceled i w g) = Some (i, w, g)"
| "call_claim (Begin_Cleanup i w g) = Some (i, w, g)"
| "call_claim _ = None"

type_synonym calls = "(readings \<times> queue_call) list"

fun run_calls :: "calls \<Rightarrow> exec_queue \<Rightarrow> exec_queue" where
  "run_calls [] q = q"
| "run_calls ((now, c) # cs) q = run_calls cs (snd (run_call now c q))"

lemma run_calls_append: "run_calls (cs @ ds) q = run_calls ds (run_calls cs q)"
  by (induction cs q rule: run_calls.induct) simp_all

section \<open>Every call changes one job\<close>

lemma update_first_Some:
  "update_first p f xs = Some (y, ys) \<Longrightarrow>
   \<exists>i < length xs. p (xs ! i) \<and> y = f (xs ! i) \<and> ys = xs[i := f (xs ! i)] \<and> (\<forall>j < i. \<not> p (xs ! j))"
proof (induction xs arbitrary: ys)
  case (Cons x xs)
  show ?case
  proof (cases "p x")
    case False
    with Cons.prems obtain zs where "update_first p f xs = Some (y, zs)" "ys = x # zs" by auto
    with Cons.IH [of zs] obtain i where "i < length xs" "p (xs ! i)" "y = f (xs ! i)"
      "zs = xs[i := f (xs ! i)]" "\<forall>j < i. \<not> p (xs ! j)" by blast
    with False \<open>ys = x # zs\<close> show ?thesis
      by (intro exI [of _ "Suc i"]) (auto simp: less_Suc_eq_0_disj)
  qed (use Cons.prems in auto)
qed simp

lemma update_first_None: "update_first p f xs = None \<longleftrightarrow> (\<forall>x \<in> set xs. \<not> p x)"
  by (induction xs) auto

text \<open>
  What a call does when its guard holds of a job: the guard and the update, and whether it reports
  success; all calls but the enqueueing are of this form.
\<close>

definition start_job :: "readings \<Rightarrow> string \<Rightarrow> execution_job \<Rightarrow> execution_job" where
  "start_job now w job = apply_status now XRunning (Some w) job"

lemma with_job_cases:
  assumes "with_job p f q = (r, q')"
  obtains (missing) "\<forall>x \<in> set q. \<not> p x" "r = Inl job_missing" "q' = q"
  | (found) i where "i < length q" "p (q ! i)" "r = Inr (f (q ! i))" "q' = q[i := f (q ! i)]"
proof (cases "update_first p f q")
  case None
  with assms update_first_None [of p f q] show ?thesis by (intro missing) (auto simp: with_job_def)
next
  case (Some yq)
  then obtain y ys where "update_first p f q = Some (y, ys)" by (cases yq) auto
  with assms update_first_Some [OF this] found show ?thesis by (auto simp: with_job_def)
qed

lemma find_first_update:
  "find_first p q = Some x \<Longrightarrow> \<exists>i < length q. q ! i = x \<and> p x \<and> update_first p f q = Some (f x, q[i := f x])"
proof (induction q)
  case (Cons y q)
  show ?case
  proof (cases "p y")
    case False
    with Cons obtain i where "i < length q" "q ! i = x" "p x" "update_first p f q = Some (f x, q[i := f x])"
      by auto
    with False show ?thesis by (intro exI [of _ "Suc i"]) simp
  qed (use Cons.prems in auto)
qed simp

lemma start_cases:
  assumes "queue_start now job_id w q = (r, q')"
  obtains (missing) "isl r" "q' = q"
  | (found) i where "i < length q" "xj_id (q ! i) = job_id" "startable (now 0) (q ! i)"
      "r = Inr (start_job now w (q ! i))" "q' = q[i := start_job now w (q ! i)]"
proof (cases "find_first (\<lambda>job. xj_id job = job_id) q")
  case None
  with assms show ?thesis by (intro missing) (auto simp: queue_start_def queue_update_def)
next
  case (Some job)
  show ?thesis
  proof (cases "startable (now 0) job")
    case False
    with assms Some show ?thesis by (intro missing) (auto simp: queue_start_def queue_update_def)
  next
    case True
    from find_first_update [OF Some, of "apply_status now XRunning (Some w)"] obtain i where
      "i < length q" "q ! i = job" "xj_id job = job_id"
      "update_first (\<lambda>job. xj_id job = job_id) (apply_status now XRunning (Some w)) q
        = Some (start_job now w job, q[i := start_job now w job])" by (auto simp: start_job_def)
    with assms Some True show ?thesis
      by (intro found [of i]) (auto simp: queue_start_def queue_update_def with_job_def)
  qed
qed

section \<open>The life cycle of a job\<close>

datatype phase = Ready | Claimed | Committed | Settling | Cancelling | Ended

fun phase_of :: "execution_job_status \<Rightarrow> phase" where
  "phase_of XQueued = Ready"
| "phase_of XRunning = Claimed"
| "phase_of XExecuting = Committed"
| "phase_of XFinalizing = Settling"
| "phase_of XCancelRequested = Cancelling"
| "phase_of XCompleted = Ended"
| "phase_of XFailed = Ended"
| "phase_of XOutcomeUnknown = Ended"
| "phase_of XCanceled = Ended"

abbreviation phase :: "execution_job \<Rightarrow> phase" where
  "phase job \<equiv> phase_of (xj_status job)"

text \<open>The abstract machine, with the event that moves it.\<close>

datatype life_event = Claim | Commit | Settle | Lose | Retry | End | Ask_Cancel | Confirm_Cancel

inductive life_step :: "life_event \<Rightarrow> phase \<Rightarrow> phase \<Rightarrow> bool" where
  claim: "life_step Claim Ready Claimed"
| claim_again: "life_step Claim Claimed Claimed"
| commit: "life_step Commit Claimed Committed"
| give_up: "life_step Settle Claimed Settling"
| settle: "life_step Settle Committed Settling"
| lose: "life_step Lose Committed Ended"
| lose_settling: "life_step Lose Settling Ended"
| retry: "life_step Retry Settling Ready"
| finish: "life_step End Settling Ended"
| ask_queued: "life_step Ask_Cancel Ready Cancelling"
| ask_claimed: "life_step Ask_Cancel Claimed Cancelling"
| confirm: "life_step Confirm_Cancel Cancelling Ended"

inductive_cases life_stepE: "life_step e x y"
inductive_simps life_step_simps: "life_step e x y"

text \<open>The job a call is for.\<close>

fun call_job :: "queue_call \<Rightarrow> uuid" where
  "call_job (Enqueue v i r) = i"
| "call_job (Start i w) = i"
| "call_job (Resume_Finalizing i w) = i"
| "call_job (Recover_Executing i w e d) = i"
| "call_job (Mark_Published i) = i"
| "call_job (Cancel i) = i"
| "call_job (Claim_Cancellation i w) = i"
| "call_job c = fst (the (call_claim c))"

definition same_request :: "execution_job \<Rightarrow> execution_job \<Rightarrow> bool" where
  "same_request x y \<longleftrightarrow> xj_id y = xj_id x \<and> xj_session_id y = xj_session_id x
     \<and> xj_environment_id y = xj_environment_id x \<and> xj_approval_id y = xj_approval_id x
     \<and> xj_tool_call_id y = xj_tool_call_id x \<and> xj_tool_name y = xj_tool_name x
     \<and> xj_enqueued_at y = xj_enqueued_at x \<and> xj_max_attempts y = xj_max_attempts x"

text \<open>No lease outlives the work it is for.\<close>

definition lease_wf :: "execution_job \<Rightarrow> bool" where
  "lease_wf job \<longleftrightarrow> (phase job \<in> {Ready, Ended} \<longrightarrow> xj_lease_expires_at job = None)"

text \<open>What a successful call does to its job.\<close>

definition job_step :: "readings \<Rightarrow> queue_call \<Rightarrow> execution_job \<Rightarrow> execution_job \<Rightarrow> bool" where
  "job_step now c x y \<longleftrightarrow> xj_id x = call_job c \<and> same_request x y
     \<and> (phase y = phase x \<or> (\<exists>e. life_step e (phase x) (phase y)))
     \<and> (case call_claim c of
          Some (i, w, g) \<Rightarrow> claimed_by i w g (now 0) x
        | None \<Rightarrow> c = Cancel (xj_id x) \<or> c = Mark_Published (xj_id x) \<and> phase x = Ended
            \<or> lease_over (now 0) x \<or> phase x = Ready)
     \<and> xj_claim_generation x \<le> xj_claim_generation y
     \<and> (lease_wf x \<longrightarrow> lease_wf y)"

text \<open>After its commitment a job leaves execution only with a retry.\<close>

definition committed :: "execution_job \<Rightarrow> bool" where
  "committed job \<longleftrightarrow> phase job \<in> {Committed, Settling, Ended}"

definition retry_call :: "uuid \<Rightarrow> queue_call \<Rightarrow> bool" where
  "retry_call i c \<longleftrightarrow> (\<exists>w g. c = Finish_Finalizing i w g True)"

definition commit_step :: "queue_call \<Rightarrow> execution_job \<Rightarrow> execution_job \<Rightarrow> bool" where
  "commit_step c x y \<longleftrightarrow> (committed x \<longrightarrow>
     xj_attempt_count y = xj_attempt_count x
     \<and> (committed y \<or> retry_call (xj_id x) c \<and> phase y = Ready \<and> xj_last_error x \<noteq> None
          \<and> xj_attempt_count x < xj_max_attempts x))"

lemmas queue_ops = queue_enqueue_def begin_executing_started_def
  mark_outcome_unknown_started_def begin_finalizing_started_def resume_finalizing_def
  recover_expired_executing_def finish_finalizing_started_def set_finalizing_failure_def
  mark_outcome_unknown_finalizing_def prepare_outcome_tail_def mark_outcome_published_def
  queue_cancel_def acknowledge_canceled_def begin_cancellation_cleanup_def
  claim_cancellation_def

lemmas job_steps = job_step_def commit_step_def committed_def retry_call_def same_request_def
  lease_wf_def life_step_simps claimed_by_def start_job_def startable_def apply_status_def finished_job_def

lemma with_job_step:
  assumes "with_job p f q = (r, q')" and "\<And>x. p x \<Longrightarrow> job_step now c x (f x) \<and> commit_step c x (f x)"
  shows "isl r \<and> q' = q
    \<or> (\<exists>i < length q. job_step now c (q ! i) (q' ! i) \<and> commit_step c (q ! i) (q' ! i)
         \<and> q' = q[i := q' ! i] \<and> r = Inr (q' ! i))"
  using assms(1)
proof (cases rule: with_job_cases)
  case (found i)
  with assms(2) [of "q ! i"] show ?thesis by (intro disjI2 exI [of _ i]) simp
qed simp

lemma run_call_step:
  assumes "run_call now c q = (r, q')" and "\<nexists>v i x. c = Enqueue v i x"
  shows "isl r \<and> q' = q
    \<or> (\<exists>i < length q. job_step now c (q ! i) (q' ! i) \<and> commit_step c (q ! i) (q' ! i)
         \<and> q' = q[i := q' ! i] \<and> r = Inr (q' ! i))"
proof (cases c)
  case (Start i w)
  with assms(1) have "queue_start now i w q = (r, q')" by simp
  then show ?thesis
  proof (cases rule: start_cases)
    case (found k)
    have "job_step now c (q ! k) (start_job now w (q ! k)) \<and> commit_step c (q ! k) (start_job now w (q ! k))"
      using found(2,3) Start by (auto simp: job_steps)
    with found show ?thesis by (intro disjI2 exI [of _ k]) simp
  qed simp
next
  case (Renew i w g n)
  with assms(1) have m: "renew_started now i w g n q = (r, q')" by simp
  show ?thesis
  proof (cases "validate_execution_lease_seconds n")
    case (Inr u)
    from m Inr show ?thesis unfolding Renew renew_started_def
      by simp (rule with_job_step, assumption, auto simp: job_steps)
  qed (use m in \<open>auto simp: renew_started_def\<close>)
next
  case (Begin_Executing i w g)
  from assms(1) [unfolded this run_call.simps begin_executing_started_def] show ?thesis
    unfolding Begin_Executing by (rule with_job_step) (auto simp: job_steps)
next
  case (Outcome_Unknown_Started i w g e)
  from assms(1) [unfolded this run_call.simps mark_outcome_unknown_started_def] show ?thesis
    unfolding Outcome_Unknown_Started by (rule with_job_step) (auto simp: job_steps)
next
  case (Begin_Finalizing i w g e d)
  from assms(1) [unfolded this run_call.simps begin_finalizing_started_def] show ?thesis
    unfolding Begin_Finalizing by (rule with_job_step) (auto simp: job_steps)
next
  case (Resume_Finalizing i w)
  from assms(1) [unfolded this run_call.simps resume_finalizing_def] show ?thesis
    unfolding Resume_Finalizing by (rule with_job_step) (auto simp: job_steps)
next
  case (Recover_Executing i w e d)
  from assms(1) [unfolded this run_call.simps recover_expired_executing_def] show ?thesis
    unfolding Recover_Executing by (rule with_job_step) (auto simp: job_steps)
next
  case (Finish_Finalizing i w g b)
  from assms(1) [unfolded this run_call.simps finish_finalizing_started_def] show ?thesis
    unfolding Finish_Finalizing by (rule with_job_step) (auto simp: job_steps)
next
  case (Set_Failure i w g e d)
  from assms(1) [unfolded this run_call.simps set_finalizing_failure_def] show ?thesis
    unfolding Set_Failure by (rule with_job_step) (auto simp: job_steps)
next
  case (Outcome_Unknown_Finalizing i w g e)
  from assms(1) [unfolded this run_call.simps mark_outcome_unknown_finalizing_def] show ?thesis
    unfolding Outcome_Unknown_Finalizing by (rule with_job_step) (auto simp: job_steps)
next
  case (Prepare_Tail i w g)
  from assms(1) [unfolded this run_call.simps prepare_outcome_tail_def] show ?thesis
    unfolding Prepare_Tail by (rule with_job_step) (auto simp: job_steps)
next
  case (Mark_Published i)
  from assms(1) [unfolded this run_call.simps mark_outcome_published_def] show ?thesis
    unfolding Mark_Published by (rule with_job_step) (auto simp: job_steps)
next
  case (Cancel i)
  from assms(1) [unfolded this run_call.simps queue_cancel_def] show ?thesis
    unfolding Cancel by (rule with_job_step) (auto simp: job_steps)
next
  case (Acknowledge_Canceled i w g)
  from assms(1) [unfolded this run_call.simps acknowledge_canceled_def] show ?thesis
    unfolding Acknowledge_Canceled by (rule with_job_step) (auto simp: job_steps)
next
  case (Begin_Cleanup i w g)
  from assms(1) [unfolded this run_call.simps begin_cancellation_cleanup_def] show ?thesis
    unfolding Begin_Cleanup by (rule with_job_step) (auto simp: job_steps)
next
  case (Claim_Cancellation i w)
  from assms(1) [unfolded this run_call.simps claim_cancellation_def] show ?thesis
    unfolding Claim_Cancellation by (rule with_job_step) (auto simp: job_steps)
qed (use assms(2) in blast)

lemma enqueue_call:
  "run_call now (Enqueue v i x) q = (Inr (new_execution_job v i (now 0) x), q @ [new_execution_job v i (now 0) x])"
  by (simp add: queue_enqueue_def Let_def)

lemma new_job_simps [simp]:
  "xj_status (new_execution_job v i now x) = XQueued" "xj_id (new_execution_job v i now x) = i"
  "xj_claim_generation (new_execution_job v i now x) = 0" "xj_attempt_count (new_execution_job v i now x) = 0"
  "xj_lease_expires_at (new_execution_job v i now x) = None"
  by (simp_all add: new_execution_job_def Let_def)

text \<open>A call seen from one place of the queue.\<close>

lemma run_call_at:
  assumes "run_call now c q = (r, q')" and "i < length q"
  shows "i < length q' \<and> (q' ! i = q ! i
    \<or> job_step now c (q ! i) (q' ! i) \<and> commit_step c (q ! i) (q' ! i) \<and> r = Inr (q' ! i))"
proof (cases "\<exists>v k x. c = Enqueue v k x")
  case True
  with assms show ?thesis by (auto simp: enqueue_call nth_append simp del: run_call.simps)
next
  case False
  from run_call_step [OF assms(1)] False assms(2) show ?thesis by (metis length_list_update nth_list_update_neq)
qed

text \<open>
  C15. Every operation of the execution queue is a step of the life cycle of a job, or changes
  nothing: an enqueueing adds a ready job at the end; any other call that succeeds moves exactly
  one job, the one it is for, along the abstract machine or keeps its phase, and never alters the
  request it was made for; a call that fails leaves the queue as it was.
\<close>

theorem queue_refines_lifecycle:
  shows "case run_call now c q of (r, q') \<Rightarrow>
    (\<exists>v i x. c = Enqueue v i x \<and> q' = q @ [new_execution_job v i (now 0) x] \<and> phase (last q') = Ready)
    \<or> (isl r \<and> q' = q)
    \<or> (\<exists>i < length q. q' = q[i := q' ! i] \<and> r = Inr (q' ! i) \<and> xj_id (q ! i) = call_job c
         \<and> same_request (q ! i) (q' ! i)
         \<and> (phase (q' ! i) = phase (q ! i) \<or> (\<exists>e. life_step e (phase (q ! i)) (phase (q' ! i)))))"
proof (cases "run_call now c q")
  case (Pair r q')
  show ?thesis
  proof (cases "\<exists>v i x. c = Enqueue v i x")
    case True
    with Pair show ?thesis by (auto simp: enqueue_call simp del: run_call.simps)
  next
    case False
    from run_call_step [OF Pair] False have "isl r \<and> q' = q \<or> (\<exists>i < length q. job_step now c (q ! i) (q' ! i)
      \<and> q' = q[i := q' ! i] \<and> r = Inr (q' ! i))" by blast
    then show ?thesis unfolding Pair prod.case job_step_def by blast
  qed
qed

section \<open>A sample queue\<close>

definition sample_request :: execution_job_request where
  "sample_request = \<lparr>xr_session_id = 5, xr_environment_id = None, xr_approval_id = 2, xr_tool_call_id = 3,
     xr_tool_name = ''shell.exec'', xr_max_attempts = Some 1\<rparr>"

abbreviation second :: "int \<Rightarrow> readings" where
  "second n \<equiv> (\<lambda>_. n * 1000000000)"

definition claimed_queue :: exec_queue where
  "claimed_queue = run_calls [(second 0, Enqueue None 1 sample_request), (second 1, Start 1 ''a'')] []"

definition committed_queue :: exec_queue where
  "committed_queue = run_calls [(second 2, Begin_Executing 1 ''a'' 1)] claimed_queue"

lemma sample_queues:
  "length claimed_queue = 1" "lease_live (second 2 0) (claimed_queue ! 0)" "xj_id (claimed_queue ! 0) = 1"
  "xj_claim_generation (claimed_queue ! 0) = 1" "xj_worker_id (claimed_queue ! 0) = Some ''a''"
  "length committed_queue = 1" "xj_status (committed_queue ! 0) = XExecuting" "xj_id (committed_queue ! 0) = 1"
  "xj_attempt_count (committed_queue ! 0) = 1" "lease_over (second 1000 0) (committed_queue ! 0)"
  by code_simp+

section \<open>Committed executions\<close>

lemma run_calls_committed:
  "i < length q \<Longrightarrow> committed (q ! i) \<Longrightarrow> \<forall>(now, c) \<in> set cs. \<not> retry_call (xj_id (q ! i)) c \<Longrightarrow>
   i < length (run_calls cs q) \<and> committed (run_calls cs q ! i)
   \<and> xj_attempt_count (run_calls cs q ! i) = xj_attempt_count (q ! i)"
proof (induction cs q rule: run_calls.induct)
  case (2 now c cs q)
  obtain r q' where r: "run_call now c q = (r, q')" by fastforce
  from run_call_at [OF r "2.prems"(1)] "2.prems"(2,3) have
    n: "i < length q'" "committed (q' ! i)" "xj_attempt_count (q' ! i) = xj_attempt_count (q ! i)"
      "xj_id (q' ! i) = xj_id (q ! i)"
    by (auto simp: commit_step_def job_step_def same_request_def)
  with "2.IH" "2.prems"(3) r show ?case by auto
qed simp

text \<open>
  C17. A committed execution is never repeated behind the back of its outcome: from the moment a
  worker commits to run the tool, whatever calls follow, the job stays committed, finalizing or
  ended with the same attempt, until its claim finishes it as a retryable failure.
\<close>

theorem committed_not_replayed:
  assumes "i < length q" and "xj_status (q ! i) \<in> {XExecuting, XFinalizing}"
    and "\<forall>(now, c) \<in> set cs. \<forall>w g. c \<noteq> Finish_Finalizing (xj_id (q ! i)) w g True"
  shows "xj_status (run_calls cs q ! i)
      \<in> {XExecuting, XFinalizing, XCompleted, XFailed, XOutcomeUnknown, XCanceled}
    \<and> xj_attempt_count (run_calls cs q ! i) = xj_attempt_count (q ! i)"
proof -
  have "committed (q ! i)" using assms(2) by (auto simp: committed_def)
  moreover have "\<forall>(now, c) \<in> set cs. \<not> retry_call (xj_id (q ! i)) c"
    using assms(3) by (auto simp: retry_call_def)
  ultimately have "committed (run_calls cs q ! i)
      \<and> xj_attempt_count (run_calls cs q ! i) = xj_attempt_count (q ! i)"
    using run_calls_committed [OF assms(1)] by blast
  then show ?thesis by (cases "xj_status (run_calls cs q ! i)") (auto simp: committed_def)
qed

lemma committed_not_replayed_witness:
  "xj_attempt_count (run_calls [(second 3, Cancel 1), (second 1000, Start 1 ''b'')] committed_queue ! 0) = 1"
  using committed_not_replayed [of 0 committed_queue "[(second 3, Cancel 1), (second 1000, Start 1 ''b'')]"]
  by (simp add: sample_queues)

section \<open>Superseded claims\<close>

lemma run_calls_generation:
  "\<forall>j \<in> set q. xj_id j = k \<longrightarrow> g < xj_claim_generation j \<Longrightarrow>
   \<forall>(now, c) \<in> set cs. \<forall>v x. c \<noteq> Enqueue v k x \<Longrightarrow>
   \<forall>j \<in> set (run_calls cs q). xj_id j = k \<longrightarrow> g < xj_claim_generation j"
proof (induction cs q rule: run_calls.induct)
  case (2 now c cs q)
  obtain r q' where r: "run_call now c q = (r, q')" by fastforce
  have "\<forall>j \<in> set q'. xj_id j = k \<longrightarrow> g < xj_claim_generation j"
  proof (cases "\<exists>v i x. c = Enqueue v i x")
    case True
    with r "2.prems" show ?thesis by (auto simp: enqueue_call simp del: run_call.simps)
  next
    case False
    from run_call_step [OF r False] show ?thesis
    proof (elim disjE exE conjE)
      fix i assume i: "i < length q" "job_step now c (q ! i) (q' ! i)" "q' = q[i := q' ! i]"
      have "xj_id (q' ! i) = k \<longrightarrow> g < xj_claim_generation (q' ! i)"
        using i(1,2) "2.prems"(1) nth_mem [OF i(1)] by (fastforce simp: job_step_def same_request_def)
      with "2.prems"(1) show ?thesis
        by (subst i(3)) (auto dest!: set_update_subset_insert [THEN subsetD])
    qed (use "2.prems"(1) in simp)
  qed
  with "2.IH" "2.prems"(2) r show ?case by auto
qed simp

text \<open>
  C21. A claim that was superseded is fenced for ever: once every job with the identifier has a
  later claim generation, whatever calls follow, any call made under the old generation fails and
  leaves the queue as it is, also when the worker's name is the same.
\<close>

theorem stale_claim_fenced:
  assumes "\<forall>j \<in> set q. xj_id j = k \<longrightarrow> g < xj_claim_generation j"
    and "\<forall>(now, c) \<in> set cs. \<forall>v x. c \<noteq> Enqueue v k x"
    and "call_claim c = Some (k, w, g)"
  shows "\<exists>e. run_call now c (run_calls cs q) = (Inl e, run_calls cs q)"
proof -
  let ?q = "run_calls cs q"
  obtain r q' where r: "run_call now c ?q = (r, q')" by fastforce
  from assms(3) have "\<nexists>v i x. c = Enqueue v i x" by auto
  from run_call_step [OF r this] have "isl r \<and> q' = ?q"
  proof (elim disjE exE conjE)
    fix i assume i: "i < length ?q" "job_step now c (?q ! i) (q' ! i)"
    with assms(3) have "xj_id (?q ! i) = k" "xj_claim_generation (?q ! i) = g"
      by (auto simp: job_step_def claimed_by_def)
    with run_calls_generation [OF assms(1,2)] nth_mem [OF i(1)] show ?thesis by fastforce
  qed simp
  with r show ?thesis by (cases r) auto
qed

lemma stale_claim_fenced_witness:
  "\<exists>e q'. run_call (second 2) (Begin_Executing 1 ''a'' 0) (run_calls [(second 2, Renew 1 ''a'' 1 60)] claimed_queue)
     = (Inl e, q')"
proof -
  have "\<forall>j \<in> set claimed_queue. xj_id j = 1 \<longrightarrow> 0 < xj_claim_generation j" by code_simp
  from stale_claim_fenced [OF this, of "[(second 2, Renew 1 ''a'' 1 60)]" "Begin_Executing 1 ''a'' 0" "''a''" "second 2"]
  show ?thesis by (simp del: run_call.simps) blast
qed

section \<open>Live claims\<close>

lemma reachable_lease_wf: "\<forall>job \<in> set q. lease_wf job \<Longrightarrow> \<forall>job \<in> set (run_calls cs q). lease_wf job"
proof (induction cs q rule: run_calls.induct)
  case (2 now c cs q)
  obtain r q' where r: "run_call now c q = (r, q')" by fastforce
  have "\<forall>job \<in> set q'. lease_wf job"
  proof (cases "\<exists>v i x. c = Enqueue v i x")
    case True
    with r "2.prems" show ?thesis by (auto simp: enqueue_call lease_wf_def simp del: run_call.simps)
  next
    case False
    from run_call_step [OF r False] show ?thesis
    proof (elim disjE exE conjE)
      fix i assume i: "i < length q" "job_step now c (q ! i) (q' ! i)" "q' = q[i := q' ! i]"
      have "lease_wf (q' ! i)" using i(1,2) "2.prems" nth_mem [OF i(1)] by (auto simp: job_step_def)
      with "2.prems" show ?thesis
        by (subst i(3)) (auto dest!: set_update_subset_insert [THEN subsetD])
    qed (use "2.prems" in simp)
  qed
  with "2.IH" r show ?case by auto
qed simp

text \<open>
  Claims exclude each other: while the lease of a job is live, no call but those of its claim
  changes the job, except a request to cancel it, which leaves claim and lease untouched.
\<close>

theorem live_claim_exclusive:
  assumes "q = run_calls cs []" and "run_call now c q = (r, q')" and "i < length q"
    and "lease_live (now 0) (q ! i)"
    and "\<forall>w. call_claim c = Some (xj_id (q ! i), w, xj_claim_generation (q ! i)) \<longrightarrow> xj_worker_id (q ! i) \<noteq> Some w"
  shows "q' ! i = q ! i
    \<or> c = Cancel (xj_id (q ! i)) \<and> xj_status (q' ! i) = XCancelRequested
      \<and> xj_worker_id (q' ! i) = xj_worker_id (q ! i)
      \<and> xj_claim_generation (q' ! i) = xj_claim_generation (q ! i)
      \<and> xj_lease_expires_at (q' ! i) = xj_lease_expires_at (q ! i)"
proof -
  have wf: "lease_wf (q ! i)" using reachable_lease_wf [of "[]" cs] assms(1,3) by simp
  with assms(4) have ph: "phase (q ! i) \<notin> {Ready, Ended}" by (auto simp: lease_wf_def lease_live_def)
  have live: "\<not> lease_over (now 0) (q ! i)"
    using assms(4) by (auto simp: lease_live_def lease_over_def is_some_and_iff is_none_or_iff)
  show ?thesis
  proof (cases "c = Cancel (xj_id (q ! i))")
    case True
    with assms(2) have "with_job (\<lambda>job. xj_id job = xj_id (q ! i))
       (\<lambda>job. if xj_status job \<in> {XQueued, XRunning}
              then job\<lparr>xj_status := XCancelRequested,
                       xj_finalization_details := at_stage ''cancellation_pending''\<rparr>
              else job) q = (r, q')" by (simp add: queue_cancel_def)
    then show ?thesis
    proof (cases rule: with_job_cases)
      case (found k)
      then show ?thesis using True assms(3) by (cases "k = i") auto
    qed simp
  next
    case False
    from run_call_at [OF assms(2,3)] have "q' ! i = q ! i \<or> job_step now c (q ! i) (q' ! i)" by blast
    then show ?thesis
    proof
      assume j: "job_step now c (q ! i) (q' ! i)"
      show ?thesis
      proof (cases "call_claim c")
        case None
        with j False ph live show ?thesis by (auto simp: job_step_def)
      next
        case (Some k)
        with j assms(5) show ?thesis by (cases k) (auto simp: job_step_def claimed_by_def)
      qed
    qed simp
  qed
qed

lemma live_claim_exclusive_witness:
  "snd (run_call (second 2) (Start 1 ''b'') claimed_queue) ! 0 = claimed_queue ! 0"
proof -
  obtain r q' where r: "run_call (second 2) (Start 1 ''b'') claimed_queue = (r, q')" by fastforce
  from live_claim_exclusive [OF claimed_queue_def r, of 0] show ?thesis
    using r sample_queues(2) by (simp add: sample_queues(1,3-5) del: run_call.simps)
qed

section \<open>Every job can be brought to an end\<close>

text \<open>What one worker can do with a job whose lease is over, by its status.\<close>

definition recovery :: "string \<Rightarrow> execution_job \<Rightarrow> queue_call list" where
  "recovery w job =
     (let i = xj_id job; g = xj_claim_generation job + 1 in
      case phase job of
        Ready \<Rightarrow> [Start i w, Begin_Finalizing i w g (Some ''lost'') (mk_obj []), Finish_Finalizing i w g False]
      | Claimed \<Rightarrow> [Start i w, Begin_Finalizing i w g (Some ''lost'') (mk_obj []), Finish_Finalizing i w g False]
      | Committed \<Rightarrow> [Recover_Executing i w None (at_stage ''outcome_reconciliation''),
          Outcome_Unknown_Finalizing i w g ''lost'']
      | Settling \<Rightarrow> [Resume_Finalizing i w, Finish_Finalizing i w g False]
      | Cancelling \<Rightarrow> [Claim_Cancellation i w, Begin_Cleanup i w g, Acknowledge_Canceled i w (g + 1)]
      | Ended \<Rightarrow> [])"

lemma with_job_at:
  assumes "distinct (map xj_id q)" and "i < length q" and "p (q ! i)" and "\<And>x. p x \<Longrightarrow> xj_id x = xj_id (q ! i)"
  shows "with_job p f q = (Inr (f (q ! i)), q[i := f (q ! i)])"
proof -
  obtain r q' where m: "with_job p f q = (r, q')" by fastforce
  then show ?thesis
  proof (cases rule: with_job_cases)
    case (found k)
    then have "xj_id (q ! k) = xj_id (q ! i)" using assms(4) by blast
    with found(1) assms(1,2) have "k = i" by (auto simp: distinct_conv_nth)
    with found m show ?thesis by simp
  qed (use assms(2,3) in auto)
qed

lemma start_at:
  assumes "distinct (map xj_id q)" and "i < length q" and "startable (now 0) (q ! i)"
  shows "queue_start now (xj_id (q ! i)) w q = (Inr (start_job now w (q ! i)), q[i := start_job now w (q ! i)])"
proof -
  obtain r q' where m: "queue_start now (xj_id (q ! i)) w q = (r, q')" by fastforce
  have f: "find_first (\<lambda>job. xj_id job = xj_id (q ! i)) q = Some (q ! i)"
  proof (cases "find_first (\<lambda>job. xj_id job = xj_id (q ! i)) q")
    case (Some x)
    from find_first_SomeD [OF Some] obtain k where "k < length q" "q ! k = x" "xj_id x = xj_id (q ! i)"
      by (auto simp: in_set_conv_nth)
    with assms(1,2) Some show ?thesis by (auto simp: distinct_conv_nth)
  qed (use assms(2) in \<open>auto simp: find_first_eq_None\<close>)
  with assms with_job_at [OF assms(1,2), of "\<lambda>job. xj_id job = xj_id (q ! i)" "apply_status now XRunning (Some w)"]
  show ?thesis by (simp add: queue_start_def queue_update_def start_job_def)
qed

lemma update_distinct:
  "distinct (map xj_id q) \<Longrightarrow> i < length q \<Longrightarrow> xj_id y = xj_id (q ! i) \<Longrightarrow> distinct (map xj_id (q[i := y]))"
  by (metis list_update_id map_update nth_map length_map)

text \<open>One call at a place of the queue, and the calls after it.\<close>

lemma calls_at:
  assumes "distinct (map xj_id q)" and "i < length q"
    and "run_call now c q = (Inr y, q[i := y])" and "xj_id y = xj_id (q ! i)"
    and "\<And>q'. distinct (map xj_id q') \<Longrightarrow> i < length q' \<Longrightarrow> q' ! i = y \<Longrightarrow> phase (run_calls cs q' ! i) = Ended"
  shows "phase (run_calls ((now, c) # cs) q ! i) = Ended"
  using assms(3) assms(5) [of "q[i := y]"] update_distinct [OF assms(1,2,4)] assms(2) by simp

lemma job_calls_at:
  assumes "distinct (map xj_id q)" and "i < length q" and "run_call now c q = with_job p f q"
    and "p (q ! i) \<and> (\<forall>x. p x \<longrightarrow> xj_id x = xj_id (q ! i)) \<and> xj_id (f (q ! i)) = xj_id (q ! i)"
    and "\<And>q'. distinct (map xj_id q') \<Longrightarrow> i < length q' \<Longrightarrow> q' ! i = f (q ! i) \<Longrightarrow>
      phase (run_calls cs q' ! i) = Ended"
  shows "phase (run_calls ((now, c) # cs) q ! i) = Ended"
proof (rule calls_at [OF assms(1,2)])
  show "run_call now c q = (Inr (f (q ! i)), q[i := f (q ! i)])"
    unfolding assms(3) using assms(4) by (intro with_job_at [OF assms(1,2)]) blast+
qed (use assms(4,5) in blast)+

lemma last_call_at: "phase (q ! i) = Ended \<Longrightarrow> phase (run_calls [] q ! i) = Ended"
  by simp

lemma stage_at_stage [simp]: "as_str (jindex (at_stage s) ''stage'') = Some s"
  by (simp add: at_stage_def mk_obj_def jindex_def)

lemmas call_forms =
  trans [OF run_call.simps(5) begin_finalizing_started_def, THEN fun_cong]
  trans [OF run_call.simps(6) resume_finalizing_def, THEN fun_cong]
  trans [OF run_call.simps(7) recover_expired_executing_def, THEN fun_cong]
  trans [OF run_call.simps(8) finish_finalizing_started_def, THEN fun_cong]
  trans [OF run_call.simps(10) mark_outcome_unknown_finalizing_def, THEN fun_cong]
  trans [OF run_call.simps(15) acknowledge_canceled_def, THEN fun_cong]
  trans [OF run_call.simps(16) begin_cancellation_cleanup_def, THEN fun_cong]
  trans [OF run_call.simps(17) claim_cancellation_def, THEN fun_cong]

lemmas recovery_simps = claimed_by_def lease_live_def plus_seconds_def stage_def start_job_def
  apply_status_def finished_job_def

lemma fails_claim:
  assumes "distinct (map xj_id q)" and "i < length q" and "q ! i = start_job (\<lambda>_. t) w job"
  shows "phase (run_calls [((\<lambda>_. t), Begin_Finalizing (xj_id job) w (xj_claim_generation job + 1) (Some e) d),
    ((\<lambda>_. t), Finish_Finalizing (xj_id job) w (xj_claim_generation job + 1) False)] q ! i) = Ended"
  by (rule job_calls_at [OF assms(1,2) call_forms(1)], simp add: assms(3) recovery_simps,
      rule job_calls_at [OF _ _ call_forms(4)], assumption, assumption, simp add: assms(3) recovery_simps,
      rule last_call_at, simp add: assms(3) recovery_simps)

lemma start_ends:
  assumes "distinct (map xj_id q)" and "i < length q" and "startable t (q ! i)"
  shows "phase (run_calls [((\<lambda>_. t), Start (xj_id (q ! i)) w),
    ((\<lambda>_. t), Begin_Finalizing (xj_id (q ! i)) w (xj_claim_generation (q ! i) + 1) (Some e) d),
    ((\<lambda>_. t), Finish_Finalizing (xj_id (q ! i)) w (xj_claim_generation (q ! i) + 1) False)] q ! i) = Ended"
proof (rule calls_at [OF assms(1,2)])
  show "run_call (\<lambda>_. t) (Start (xj_id (q ! i)) w) q
      = (Inr (start_job (\<lambda>_. t) w (q ! i)), q[i := start_job (\<lambda>_. t) w (q ! i)])"
    using start_at [OF assms(1,2), of "\<lambda>_. t"] assms(3) by simp
qed (simp add: start_job_def apply_status_def, rule fails_claim)

text \<open>
  C22. No job is stuck: in a queue whose identifiers are distinct, once the lease of a job is over,
  some calls of a single worker, made at that time, bring the job to its end; the outcome of a
  committed execution is then recorded as unknown.
\<close>

theorem job_can_end:
  assumes "distinct (map xj_id q)" and "i < length q" and "lease_over t (q ! i)"
  shows "phase (run_calls (map (\<lambda>c. (\<lambda>_. t, c)) (recovery w (q ! i))) q ! i) = Ended"
proof (cases "xj_status (q ! i)")
  case XQueued
  with start_ends [OF assms(1,2)] show ?thesis by (simp add: recovery_def Let_def startable_def)
next
  case XRunning
  with start_ends [OF assms(1,2)] assms(3) show ?thesis by (simp add: recovery_def Let_def startable_def)
next
  case XExecuting
  then show ?thesis
    by (simp only: recovery_def Let_def phase_of.simps phase.case list.map)
      (rule job_calls_at [OF assms(1,2) call_forms(3)], simp add: assms(3) XExecuting,
       rule job_calls_at [OF _ _ call_forms(5)], assumption, assumption, simp add: recovery_simps,
       rule last_call_at, simp)
next
  case XFinalizing
  then show ?thesis
    by (simp only: recovery_def Let_def phase_of.simps phase.case list.map)
      (rule job_calls_at [OF assms(1,2) call_forms(2)], simp add: assms(3) XFinalizing,
       rule job_calls_at [OF _ _ call_forms(4)], assumption, assumption, simp add: recovery_simps XFinalizing,
       rule last_call_at, simp add: recovery_simps)
next
  case XCancelRequested
  then show ?thesis
    by (simp only: recovery_def Let_def phase_of.simps phase.case list.map)
      (rule job_calls_at [OF assms(1,2) call_forms(8)], simp add: assms(3) XCancelRequested,
       rule job_calls_at [OF _ _ call_forms(7)], assumption, assumption, simp add: recovery_simps XCancelRequested,
       rule job_calls_at [OF _ _ call_forms(6)], assumption, assumption, simp add: recovery_simps XCancelRequested,
       rule last_call_at, simp)
qed (simp_all add: recovery_def Let_def)

lemma job_can_end_witness:
  "phase (run_calls (map (\<lambda>c. (second 1000, c)) (recovery ''b'' (committed_queue ! 0))) committed_queue ! 0) = Ended"
proof -
  have "distinct (map xj_id committed_queue)" by code_simp
  from job_can_end [OF this, of 0 "second 1000 0" "''b''"] sample_queues show ?thesis by simp
qed

section \<open>Statuses as text\<close>

text \<open>
  C23. The texts of the statuses agree: parsing the text of a status gives it back, a text that
  parses is that of its status or the British spelling of canceled, and the worker knows the text
  of every status, taking exactly failed and unknown outcomes as errors.
\<close>

theorem execution_status_texts:
  shows "execution_job_status_from_str (execution_job_status_as_str s) = Inr s
    \<and> (execution_job_status_from_str v = Inr s \<longrightarrow>
         v = execution_job_status_as_str s \<or> v = ''cancelled'' \<and> s = XCanceled)
    \<and> work_attempt_result (execution_job_status_as_str s) =
        (if s \<in> {XFailed, XOutcomeUnknown}
         then Inl (''work ended with status '' @ execution_job_status_as_str s) else Inr True)"
  by (cases s) (auto simp: execution_job_status_from_str_def work_attempt_result_def split: if_splits)

lemma execution_status_texts_witness:
  "execution_job_status_from_str ''cancelled'' = Inr XCanceled
   \<and> execution_job_status_from_str (execution_job_status_as_str XCanceled) = Inr XCanceled"
  using execution_status_texts [of XCanceled "''cancelled''"] by (simp add: execution_job_status_from_str_def)

section \<open>The attempt limit\<close>

text \<open>
  The attempt limit does not hold for claims whose lease ran out: a job that may be attempted
  once is claimed a second time, and a third time, when the worker before did not come back.
\<close>

theorem reclaim_ignores_limit:
  "let q = run_calls [(second 0, Enqueue None 1 sample_request), (second 1, Start 1 ''a''),
     (second 1000, Start 1 ''b''), (second 2000, Start 1 ''c'')] []
   in xj_status (q ! 0) = XRunning \<and> xj_max_attempts (q ! 0) = 1 \<and> xj_attempt_count (q ! 0) = 3"
  by code_simp

end
