(* ===== verification/Loop_Jobs.thy ===== *)
theory Loop_Jobs
  imports Sessions Exec_Queue
begin

text \<open>
  The jobs that run the loop of a session (store_session_loop_jobs.rs, memory backend): a session
  has at most one queued job, into which later requests are merged, and at most one running one,
  claimed by a worker under a lease. The range of event numbers of a job says which events its
  run is to take in, and the high watermark of a session which events its jobs account for.
\<close>

section \<open>Numbers of events\<close>

definition max_optional_i64 :: "int option \<Rightarrow> int option \<Rightarrow> int option" where
  "max_optional_i64 left right =
     (case (left, right) of
        (Some l, Some r) \<Rightarrow> Some (max l r)
      | (Some l, None) \<Rightarrow> Some l
      | (None, r) \<Rightarrow> r)"

fun max_of :: "int list \<Rightarrow> int option" where
  "max_of [] = None"
| "max_of (x # xs) = max_optional_i64 (Some x) (max_of xs)"

definition saturating_pred :: "int \<Rightarrow> int" where
  "saturating_pred x = max (- (2 ^ 63)) (x - 1)"

definition saturating_succ :: "int \<Rightarrow> int" where
  "saturating_succ x = min (2 ^ 63 - 1) (x + 1)"

definition session_event_seq :: "uuid \<Rightarrow> uuid \<Rightarrow> world \<Rightarrow> int option" where
  "session_event_seq session_id event_id w =
     map_option ev_seq (find_first (\<lambda>e. ev_id e = event_id) (session_events w session_id))"

definition latest_session_event_seq :: "uuid \<Rightarrow> world \<Rightarrow> int option" where
  "latest_session_event_seq session_id w = max_of (map ev_seq (session_events w session_id))"

definition session_event_seq_before :: "uuid \<Rightarrow> int \<Rightarrow> world \<Rightarrow> int option" where
  "session_event_seq_before session_id seq w =
     max_of (filter (\<lambda>n. n < seq) (map ev_seq (session_events w session_id)))"

definition session_loop_trigger_event_seq :: "uuid \<Rightarrow> uuid option \<Rightarrow> world \<Rightarrow> int option" where
  "session_loop_trigger_event_seq session_id trigger_event_id w =
     opt_or (Option.bind trigger_event_id (\<lambda>i. session_event_seq session_id i w))
       (latest_session_event_seq session_id w)"

definition job_cursor :: "session_loop_job \<Rightarrow> int option" where
  "job_cursor job = max_optional_i64 (lj_processed_event_seq job)
     (if lj_status job \<in> {JobQueued, JobRunning} then lj_pending_event_seq_end job else None)"

definition session_loop_cursor_high_watermark :: "uuid \<Rightarrow> world \<Rightarrow> int option" where
  "session_loop_cursor_high_watermark session_id w =
     max_of (filter_map job_cursor
       (filter (\<lambda>job. lj_session_id job = session_id) (map snd (session_loop_jobs w))))"

section \<open>Enqueueing\<close>

text \<open>The cursor a new job starts from, and the range of events it is to take in.\<close>

definition enqueue_cursor :: "uuid \<Rightarrow> int option \<Rightarrow> int option \<Rightarrow> world \<Rightarrow> int option" where
  "enqueue_cursor session_id seq_floor seq_end w =
     (let cursor = (case session_loop_cursor_high_watermark session_id w of
            Some seq \<Rightarrow> Some seq
          | None \<Rightarrow> (case (seq_floor, seq_end) of
              (Some seq_start, _) \<Rightarrow> Some (saturating_pred seq_start)
            | (None, Some e) \<Rightarrow> session_event_seq_before session_id e w
            | (None, None) \<Rightarrow> None))
      in case seq_floor of
           Some seq_start \<Rightarrow>
             if is_some_and cursor (\<lambda>high_watermark. high_watermark \<ge> seq_start)
             then Some (saturating_pred seq_start) else cursor
         | None \<Rightarrow> cursor)"

definition enqueue_start :: "int option \<Rightarrow> int option \<Rightarrow> int option \<Rightarrow> int option" where
  "enqueue_start seq_floor cursor seq_end =
     Option.bind seq_end (\<lambda>e.
       let seq_start = unwrap_or seq_floor (unwrap_or cursor 0 + 1)
       in if seq_start \<le> e then Some seq_start else None)"

definition merge_job :: "uuid option \<Rightarrow> int option \<Rightarrow> int option \<Rightarrow> string \<Rightarrow> session_loop_job \<Rightarrow> session_loop_job" where
  "merge_job trigger_event_id seq_start seq_end reason existing =
     (let e1 = existing\<lparr>lj_trigger_event_id := trigger_event_id\<rparr>;
          e2 = (case seq_start of
                  Some s \<Rightarrow>
                    if is_none_or (lj_pending_event_seq_start e1) (\<lambda>old. s < old)
                    then e1\<lparr>lj_pending_event_seq_start := Some s,
                            lj_processed_event_seq := Some (saturating_pred s)\<rparr>
                    else e1
                | None \<Rightarrow> e1)
      in e2\<lparr>lj_pending_event_seq_end := max_optional_i64 (lj_pending_event_seq_end e2) seq_end,
            lj_reason := reason\<rparr>)"

definition queued_for :: "uuid \<Rightarrow> session_loop_job \<Rightarrow> bool" where
  "queued_for session_id job \<longleftrightarrow> lj_session_id job = session_id \<and> lj_status job = JobQueued"

definition put_loop_job :: "session_loop_job \<Rightarrow> world \<Rightarrow> world" where
  "put_loop_job job w = w\<lparr>session_loop_jobs := tput (lj_id job) job (session_loop_jobs w)\<rparr>"

definition enqueue_session_loop_job_from
    :: "sys \<Rightarrow> uuid \<Rightarrow> uuid option \<Rightarrow> string \<Rightarrow> int option \<Rightarrow> session_loop_job eff" where
  "enqueue_session_loop_job_from S session_id trigger_event_id reason seq_floor =
     bindS (get_session session_id) (\<lambda>session.
     bindS (asks (session_loop_trigger_event_seq session_id trigger_event_id)) (\<lambda>seq_end.
     bindS (asks (enqueue_cursor session_id seq_floor seq_end)) (\<lambda>cursor.
     let seq_start = enqueue_start seq_floor cursor seq_end in
     bindS (now_utc S) (\<lambda>now. bindS (new_v4 S) (\<lambda>i.
     let job = \<lparr>lj_id = i, lj_session_id = session_id, lj_environment_id = se_environment_id session,
           lj_status = JobQueued, lj_trigger_event_id = trigger_event_id,
           lj_pending_event_seq_start = seq_start, lj_pending_event_seq_end = seq_end,
           lj_processed_event_seq = cursor, lj_reason = reason, lj_enqueued_at = now,
           lj_started_at = None, lj_completed_at = None, lj_worker_id = None,
           lj_lease_expires_at = None, lj_attempt_count = 0, lj_max_attempts = 3,
           lj_last_error = None\<rparr> in
     (\<lambda>w. case find_first (queued_for session_id) (tvalues S w (session_loop_jobs w)) of
        Some existing \<Rightarrow>
          (let merged = merge_job trigger_event_id seq_start seq_end reason existing
           in (Inr merged, put_loop_job merged w))
      | None \<Rightarrow> (Inr job, put_loop_job job w)))))))"

definition enqueue_session_loop_job :: "sys \<Rightarrow> uuid \<Rightarrow> uuid option \<Rightarrow> string \<Rightarrow> session_loop_job eff" where
  "enqueue_session_loop_job S session_id trigger_event_id reason =
     enqueue_session_loop_job_from S session_id trigger_event_id reason None"

section \<open>Reading\<close>

definition list_session_loop_jobs :: "sys \<Rightarrow> session_loop_job list eff" where
  "list_session_loop_jobs S = asks (\<lambda>w. sort_key lj_enqueued_at (tvalues S w (session_loop_jobs w)))"

definition get_session_loop_job :: "uuid \<Rightarrow> session_loop_job eff" where
  "get_session_loop_job i = asksr (\<lambda>w.
     ok_or (not_found ''session loop job not found'') (tget (session_loop_jobs w) i))"

definition session_loop_projection_covers :: "uuid \<Rightarrow> int \<Rightarrow> bool eff" where
  "session_loop_projection_covers session_id event_seq = asks (\<lambda>w.
     is_some_and (session_loop_cursor_high_watermark session_id w) (\<lambda>high. high \<ge> event_seq))"

text \<open>The range a job accounts for, and whether ranges in order leave no number out.\<close>

definition job_range :: "session_loop_job \<Rightarrow> (int \<times> int) option" where
  "job_range job =
     Option.bind (lj_pending_event_seq_start job) (\<lambda>range_start.
     Option.bind (if lj_status job \<in> {JobQueued, JobRunning}
                  then max_optional_i64 (lj_processed_event_seq job) (lj_pending_event_seq_end job)
                  else lj_processed_event_seq job) (\<lambda>range_end.
       if range_end \<ge> range_start then Some (range_start, range_end) else None))"

fun ranges_cover :: "int \<Rightarrow> int \<Rightarrow> (int \<times> int) list \<Rightarrow> bool" where
  "ranges_cover next_seq seq_end [] = False"
| "ranges_cover next_seq seq_end ((range_start, range_end) # ranges) =
     (if range_end < next_seq then ranges_cover next_seq seq_end ranges
      else if range_start > next_seq then False
      else if range_end \<ge> seq_end then True
      else ranges_cover (saturating_succ range_end) seq_end ranges)"

text \<open>\<open>sort_unstable\<close> on pairs is the lexicographic order.\<close>

definition session_loop_projection_covers_range :: "sys \<Rightarrow> uuid \<Rightarrow> int \<Rightarrow> int \<Rightarrow> bool eff" where
  "session_loop_projection_covers_range S session_id seq_start seq_end =
     (if seq_start > seq_end then retS True
      else bindS (list_session_loop_jobs S) (\<lambda>jobs.
        let ranges = filter_map job_range (filter (\<lambda>job. lj_session_id job = session_id) jobs)
        in retS (ranges_cover seq_start seq_end (sort_key fst (sort_key snd ranges)))))"

section \<open>Claims\<close>

definition apply_session_loop_job_status
    :: "timestamp \<Rightarrow> session_loop_job_status \<Rightarrow> string option \<Rightarrow> string option \<Rightarrow> session_loop_job \<Rightarrow> session_loop_job" where
  "apply_session_loop_job_status now status worker_id last_error job =
     (case status of
        JobQueued \<Rightarrow> job\<lparr>lj_status := JobQueued, lj_started_at := None, lj_completed_at := None,
          lj_worker_id := None, lj_lease_expires_at := None, lj_last_error := None\<rparr>
      | JobRunning \<Rightarrow> job\<lparr>lj_status := JobRunning, lj_started_at := Some now, lj_completed_at := None,
          lj_worker_id := worker_id, lj_lease_expires_at := Some (plus_seconds now five_minutes),
          lj_attempt_count := lj_attempt_count job + 1\<rparr>
      | JobCompleted \<Rightarrow> job\<lparr>lj_status := JobCompleted, lj_completed_at := Some now,
          lj_lease_expires_at := None,
          lj_processed_event_seq := opt_or (lj_pending_event_seq_end job) (lj_processed_event_seq job),
          lj_last_error := opt_or last_error (lj_last_error job)\<rparr>
      | JobFailed \<Rightarrow> job\<lparr>lj_status := JobFailed, lj_completed_at := Some now,
          lj_lease_expires_at := None, lj_last_error := opt_or last_error (lj_last_error job)\<rparr>)"

definition foreign_step :: "world \<Rightarrow> uuid \<Rightarrow> string option \<Rightarrow> timestamp \<Rightarrow> bool" where
  "foreign_step w session_id worker_id now \<longleftrightarrow>
     list_ex (\<lambda>(i, step). step_session w step = Some session_id \<and> sr_status step = ''running''
         \<and> sr_claimed_by_worker step \<noteq> worker_id
         \<and> is_some_and (sr_lease_expires_at step) (\<lambda>deadline. deadline > now)) (workflow_step_runs w)"

definition other_running_job :: "world \<Rightarrow> session_loop_job \<Rightarrow> bool" where
  "other_running_job w job \<longleftrightarrow>
     list_ex (\<lambda>(i, existing). lj_id existing \<noteq> lj_id job
         \<and> lj_session_id existing = lj_session_id job \<and> lj_status existing = JobRunning)
       (session_loop_jobs w)"

text \<open>
  The guards of a start, in their order; \<open>q\<close> is the execution queue and \<open>now\<close> the time, which the
  source reads at several places of the same locked section.
\<close>

definition start_guard :: "exec_queue \<Rightarrow> timestamp \<Rightarrow> string option \<Rightarrow> session_loop_job \<Rightarrow> world \<Rightarrow> unit res" where
  "start_guard q now worker_id job w =
     (let pending_execution =
            list_ex execution_pending_for_model (queue_list_for_session (lj_session_id job) q);
          terminal = is_some_and (tget (sessions w) (lj_session_id job))
            (\<lambda>session. session_terminal (se_status session));
          lease_expired = (lj_status job = JobRunning
            \<and> is_none_or (lj_lease_expires_at job) (\<lambda>expires_at. expires_at \<le> now))
      in if \<not> terminal \<and> (pending_execution \<or> memory_session_has_pending_actions w (lj_session_id job))
         then Inl (not_found ''session is waiting for a tool action or approval'')
         else if foreign_step w (lj_session_id job) worker_id now
         then Inl (not_found ''session has a live workflow step owner'')
         else guardr (case lj_status job of
               JobQueued \<Rightarrow> \<not> other_running_job w job
             | JobRunning \<Rightarrow> lease_expired
             | _ \<Rightarrow> False) (not_found ''session loop job not found''))"

definition update_session_loop_job_status
    :: "sys \<Rightarrow> exec_queue \<Rightarrow> uuid \<Rightarrow> session_loop_job_status \<Rightarrow> string option \<Rightarrow> string option \<Rightarrow> session_loop_job eff" where
  "update_session_loop_job_status S q i status worker_id last_error =
     bindS (now_utc S) (\<lambda>now.
     bindS (get_session_loop_job i) (\<lambda>job.
     bindS (asksr (\<lambda>w.
       case status of
         JobRunning \<Rightarrow> start_guard q now worker_id job w
       | JobQueued \<Rightarrow> Inr ()
       | _ \<Rightarrow> guardr (lj_status job = JobRunning \<and> lj_worker_id job = worker_id)
                (not_found ''session loop job not found''))) (\<lambda>_ w.
     (let updated = apply_session_loop_job_status now status worker_id last_error job
      in (Inr updated, w\<lparr>session_loop_jobs := tput i updated (session_loop_jobs w)\<rparr>)))))"

definition start_session_loop_job :: "sys \<Rightarrow> exec_queue \<Rightarrow> uuid \<Rightarrow> string \<Rightarrow> session_loop_job eff" where
  "start_session_loop_job S q i worker_id = update_session_loop_job_status S q i JobRunning (Some worker_id) None"

definition complete_session_loop_job :: "sys \<Rightarrow> exec_queue \<Rightarrow> uuid \<Rightarrow> string \<Rightarrow> session_loop_job eff" where
  "complete_session_loop_job S q i worker_id = update_session_loop_job_status S q i JobCompleted (Some worker_id) None"

definition fail_session_loop_job :: "sys \<Rightarrow> exec_queue \<Rightarrow> uuid \<Rightarrow> string \<Rightarrow> string \<Rightarrow> session_loop_job eff" where
  "fail_session_loop_job S q i worker_id error =
     update_session_loop_job_status S q i JobFailed (Some worker_id) (Some error)"

definition renew_session_loop_job_lease :: "sys \<Rightarrow> uuid \<Rightarrow> string \<Rightarrow> int \<Rightarrow> session_loop_job eff" where
  "renew_session_loop_job_lease S i worker_id lease_seconds =
     (if \<not> (1 \<le> lease_seconds \<and> lease_seconds \<le> 86400)
      then failS (bad_request ''session loop lease_seconds must be between 1 and 86400'')
      else bindS (asksr (\<lambda>w. ok_or (not_found ''session loop job not found'')
             (opt_filter (\<lambda>job. lj_status job = JobRunning \<and> lj_worker_id job = Some worker_id)
               (tget (session_loop_jobs w) i)))) (\<lambda>job.
        bindS (now_utc S) (\<lambda>now w.
          let updated = job\<lparr>lj_lease_expires_at := Some (plus_seconds now lease_seconds)\<rparr>
          in (Inr updated, w\<lparr>session_loop_jobs := tput i updated (session_loop_jobs w)\<rparr>))))"

end
