(* ===== verification/Loop_Claims.thy ===== *)
theory Loop_Claims
  imports Loop_Jobs Claiming
begin

text \<open>
  What the jobs of session loops guarantee: one queued and one running job per session, claims
  that are fenced and exclude workflow steps of the session, requests that lose no event, and the
  meaning of the coverage check.
\<close>

section \<open>Coverage\<close>

lemma ranges_cover_iff:
  "sorted (map fst rs) \<Longrightarrow> next_seq \<le> seq_end \<Longrightarrow> seq_end < 2 ^ 63 \<Longrightarrow>
   ranges_cover next_seq seq_end rs \<longleftrightarrow>
     (\<forall>s. next_seq \<le> s \<and> s \<le> seq_end \<longrightarrow> (\<exists>(a, b) \<in> set rs. a \<le> s \<and> s \<le> b))"
proof (induction rs arbitrary: next_seq)
  case Nil
  then show ?case by auto
next
  case (Cons r rs)
  obtain a b where r: "r = (a, b)" by fastforce
  have later: "a \<le> fst x" if "x \<in> set rs" for x using Cons.prems(1) that by (auto simp: r)
  consider "b < next_seq" | "next_seq \<le> b" "next_seq < a" | "next_seq \<le> b" "a \<le> next_seq" "seq_end \<le> b"
    | "next_seq \<le> b" "a \<le> next_seq" "b < seq_end" by linarith
  then show ?case
  proof cases
    case 1
    with Cons.IH [of next_seq] Cons.prems show ?thesis by (auto simp: r)
  next
    case 2
    then have "\<not> (\<exists>(x, y) \<in> set (r # rs). x \<le> next_seq \<and> next_seq \<le> y)"
      using later by (force simp: r)
    with 2 Cons.prems(2) show ?thesis by (auto simp: r)
  next
    case 3
    then show ?thesis by (auto simp: r)
  next
    case 4
    then have s: "saturating_succ b = b + 1" using Cons.prems(3) by (simp add: saturating_succ_def)
    have "ranges_cover (b + 1) seq_end rs \<longleftrightarrow>
        (\<forall>s. b + 1 \<le> s \<and> s \<le> seq_end \<longrightarrow> (\<exists>(x, y) \<in> set rs. x \<le> s \<and> s \<le> y))"
      using Cons.IH [of "b + 1"] Cons.prems 4 by (auto simp: r)
    also have "\<dots> \<longleftrightarrow> (\<forall>s. next_seq \<le> s \<and> s \<le> seq_end \<longrightarrow> (\<exists>(x, y) \<in> set (r # rs). x \<le> s \<and> s \<le> y))"
      (is "?rest \<longleftrightarrow> ?all")
    proof
      assume rest: ?rest
      have "\<exists>(x, y) \<in> set (r # rs). x \<le> s \<and> s \<le> y" if "next_seq \<le> s" "s \<le> seq_end" for s
        using that rest 4 by (cases "s \<le> b") (auto simp: r)
      then show ?all by blast
    next
      assume all: ?all
      have "\<exists>(x, y) \<in> set rs. x \<le> s \<and> s \<le> y" if "b + 1 \<le> s" "s \<le> seq_end" for s
      proof -
        have "\<exists>(x, y) \<in> set (r # rs). x \<le> s \<and> s \<le> y" using all that 4 by auto
        with that(1) show ?thesis by (auto simp: r)
      qed
      then show ?rest by blast
    qed
    finally show ?thesis using 4 s by (simp add: r)
  qed
qed

lemma sorted_by_start: "sorted (map fst (sort_key fst (sort_key snd (rs :: (int \<times> int) list))))"
  by simp

lemma covers_range:
  assumes "seq_end < 2 ^ 63"
  shows "session_loop_projection_covers_range S sid seq_start seq_end w =
    (Inr (\<forall>s. seq_start \<le> s \<and> s \<le> seq_end \<longrightarrow>
       (\<exists>job \<in> snd ` set (session_loop_jobs w). lj_session_id job = sid
          \<and> is_some_and (job_range job) (\<lambda>(a, b). a \<le> s \<and> s \<le> b))), w)"
proof (cases "seq_start > seq_end")
  case True
  then show ?thesis by (auto simp: session_loop_projection_covers_range_def eff_simps)
next
  case False
  let ?jobs = "sort_key lj_enqueued_at (tvalues S w (session_loop_jobs w))"
  let ?ranges = "filter_map job_range (filter (\<lambda>job. lj_session_id job = sid) ?jobs)"
  have "ranges_cover seq_start seq_end (sort_key fst (sort_key snd ?ranges))
      = (\<forall>s. seq_start \<le> s \<and> s \<le> seq_end \<longrightarrow> (\<exists>(a, b) \<in> set ?ranges. a \<le> s \<and> s \<le> b))"
    using ranges_cover_iff [OF sorted_by_start _ assms, of seq_start ?ranges] False by simp
  also have "\<dots> = (\<forall>s. seq_start \<le> s \<and> s \<le> seq_end \<longrightarrow>
       (\<exists>job \<in> snd ` set (session_loop_jobs w). lj_session_id job = sid
          \<and> is_some_and (job_range job) (\<lambda>(a, b). a \<le> s \<and> s \<le> b)))"
    by (auto simp: set_filter_map set_tvalues is_some_and_iff) blast+
  finally show ?thesis using False
    by (simp add: session_loop_projection_covers_range_def list_session_loop_jobs_def bindS_def eff_simps Let_def)
qed

text \<open>
  The coverage check of a range of event numbers decides what it claims: it answers true
  exactly if every number of the range lies in the range of some job of the session (for numbers
  an \<open>i64\<close> can hold).
\<close>

theorem covers_range_iff:
  assumes "seq_end < 2 ^ 63"
  shows "session_loop_projection_covers_range S sid seq_start seq_end w =
    (Inr (\<forall>s. seq_start \<le> s \<and> s \<le> seq_end \<longrightarrow>
       (\<exists>job \<in> snd ` set (session_loop_jobs w). lj_session_id job = sid
          \<and> is_some_and (job_range job) (\<lambda>(a, b). a \<le> s \<and> s \<le> b))), w)"
  by (rule covers_range [OF assms])

section \<open>One queued and one running job\<close>

definition loop_jobs_ok :: "world \<Rightarrow> bool" where
  "loop_jobs_ok w \<longleftrightarrow> distinct (map fst (session_loop_jobs w))
     \<and> (\<forall>i job. tget (session_loop_jobs w) i = Some job \<longrightarrow> lj_id job = i)
     \<and> (\<forall>i j a b. tget (session_loop_jobs w) i = Some a \<and> tget (session_loop_jobs w) j = Some b
          \<and> lj_session_id a = lj_session_id b \<and> lj_status a = lj_status b
          \<and> lj_status a \<in> {JobQueued, JobRunning} \<longrightarrow> i = j)"

inductive loop_step :: "sys \<Rightarrow> world \<Rightarrow> world \<Rightarrow> bool" for S where
  enqueue: "loop_step S w (snd (enqueue_session_loop_job_from S s t r f w))"
| start: "loop_step S w (snd (start_session_loop_job S q i k w))"
| complete: "loop_step S w (snd (complete_session_loop_job S q i k w))"
| fail: "loop_step S w (snd (fail_session_loop_job S q i k e w))"
| renew: "loop_step S w (snd (renew_session_loop_job_lease S i k n w))"
| elsewhere: "session_loop_jobs w' = session_loop_jobs w \<Longrightarrow> loop_step S w w'"

lemma job_entries:
  assumes "distinct (map fst (session_loop_jobs w))"
  shows "(i, job) \<in> set (session_loop_jobs w) \<longleftrightarrow> tget (session_loop_jobs w) i = Some job"
  using map_of_eq_Some_iff [OF assms] by simp

lemma loop_jobs_okD:
  assumes "loop_jobs_ok w"
  shows "distinct (map fst (session_loop_jobs w))"
    and "tget (session_loop_jobs w) i = Some job \<Longrightarrow> lj_id job = i"
  using assms by (simp_all add: loop_jobs_ok_def)

lemma put_job_ok:
  assumes ok: "loop_jobs_ok w" and jobs: "session_loop_jobs w' = tput i job (session_loop_jobs w)"
    and id: "lj_id job = i"
    and free: "\<And>j b. lj_status job \<in> {JobQueued, JobRunning} \<Longrightarrow> j \<noteq> i \<Longrightarrow> tget (session_loop_jobs w) j = Some b \<Longrightarrow>
      lj_session_id b = lj_session_id job \<Longrightarrow> lj_status b \<noteq> lj_status job"
  shows "loop_jobs_ok w'"
proof -
  note o = ok [unfolded loop_jobs_ok_def]
  have "distinct (map fst (session_loop_jobs w'))" unfolding jobs using o by (simp add: distinct_update)
  moreover have "lj_id a = j" if "tget (session_loop_jobs w') j = Some a" for j a
    using that o id by (auto simp: jobs store_table.get_put split: if_splits)
  moreover have "j = k" if h: "tget (session_loop_jobs w') j = Some a" "tget (session_loop_jobs w') k = Some b"
      "lj_session_id a = lj_session_id b" "lj_status a = lj_status b" "lj_status a \<in> {JobQueued, JobRunning}" for j k a b
  proof (cases "j = i \<or> k = i")
    case False
    with h(1,2) have "tget (session_loop_jobs w) j = Some a" "tget (session_loop_jobs w) k = Some b"
      by (simp_all add: jobs store_table.get_put)
    with o h(3-5) show ?thesis by blast
  next
    case True
    show ?thesis
    proof (rule ccontr)
      assume ne: "j \<noteq> k"
      from True show False
      proof
        assume ji: "j = i"
        with h ne have "a = job" "tget (session_loop_jobs w) k = Some b" by (simp_all add: jobs store_table.get_put)
        with free [of k b] h ne ji show False by metis
      next
        assume ki: "k = i"
        with h ne have "b = job" "tget (session_loop_jobs w) j = Some a" by (simp_all add: jobs store_table.get_put)
        with free [of j a] h ne ki show False by metis
      qed
    qed
  qed
  ultimately show ?thesis unfolding loop_jobs_ok_def by blast
qed

text \<open>What the operations do to the jobs, when they succeed; a failure leaves them alone.\<close>

lemma enqueue_effect:
  assumes e: "enqueue_session_loop_job_from S sid trigger reason seq_floor w = (r, w')"
  obtains (refused) "isl r" "w' = w"
  | (opened) v cursor seq_end job where "r = Inr job"
      "seq_end = session_loop_trigger_event_seq sid trigger w"
      "find_first (queued_for sid) (tvalues S v (session_loop_jobs w)) = None" "queued_for sid job"
      "lj_pending_event_seq_end job = seq_end"
      "lj_pending_event_seq_start job = enqueue_start seq_floor cursor seq_end"
      "session_loop_jobs w' = tput (lj_id job) job (session_loop_jobs w)"
  | (joined) v cursor seq_end job existing where "r = Inr job"
      "seq_end = session_loop_trigger_event_seq sid trigger w"
      "find_first (queued_for sid) (tvalues S v (session_loop_jobs w)) = Some existing" "queued_for sid existing"
      "job = merge_job trigger (enqueue_start seq_floor cursor seq_end) seq_end reason existing"
      "session_loop_jobs w' = tput (lj_id job) job (session_loop_jobs w)"
proof (cases "tget (sessions w) sid")
  case None
  with e refused show thesis
    by (auto simp: enqueue_session_loop_job_from_def get_session_def bindS_def eff_simps)
next
  case (Some session)
  let ?v = "w\<lparr>ticks := Suc (ticks w), uuids := Suc (uuids w)\<rparr>"
  let ?last = "session_loop_trigger_event_seq sid trigger w"
  let ?cursor = "enqueue_cursor sid seq_floor ?last w"
  let ?job = "\<lparr>lj_id = uuid_supply S (uuids w), lj_session_id = sid, lj_environment_id = se_environment_id session,
      lj_status = JobQueued, lj_trigger_event_id = trigger,
      lj_pending_event_seq_start = enqueue_start seq_floor ?cursor ?last, lj_pending_event_seq_end = ?last,
      lj_processed_event_seq = ?cursor, lj_reason = reason, lj_enqueued_at = clock S (ticks w),
      lj_started_at = None, lj_completed_at = None, lj_worker_id = None, lj_lease_expires_at = None,
      lj_attempt_count = 0, lj_max_attempts = 3, lj_last_error = None\<rparr>"
  have eq: "enqueue_session_loop_job_from S sid trigger reason seq_floor w =
      (case find_first (queued_for sid) (tvalues S ?v (session_loop_jobs w)) of
         Some x \<Rightarrow> (let merged = merge_job trigger (enqueue_start seq_floor ?cursor ?last) ?last reason x
                    in (Inr merged, put_loop_job merged ?v))
       | None \<Rightarrow> (Inr ?job, put_loop_job ?job ?v))"
    by (simp add: enqueue_session_loop_job_from_def get_session_def bindS_def now_utc_def new_v4_def eff_simps
        Some Let_def split: option.split)
  show thesis
  proof (cases "find_first (queued_for sid) (tvalues S ?v (session_loop_jobs w))")
    case None
    with e eq have "r = Inr ?job" "w' = put_loop_job ?job ?v" by simp_all
    then show thesis by (intro opened [OF _ refl None, of ?job ?cursor]) (simp_all add: queued_for_def put_loop_job_def)
  next
    case x: (Some existing)
    let ?merged = "merge_job trigger (enqueue_start seq_floor ?cursor ?last) ?last reason existing"
    from e eq x have "r = Inr ?merged" "w' = put_loop_job ?merged ?v" by (simp_all add: Let_def)
    then show thesis using find_first_SomeD [OF x]
      by (intro joined [OF _ refl x _ refl, of ?cursor]) (simp_all add: put_loop_job_def)
  qed
qed

lemma update_eq:
  "update_session_loop_job_status S q i status k e w =
     (let now = clock S (ticks w); v = w\<lparr>ticks := Suc (ticks w)\<rparr> in
      case tget (session_loop_jobs w) i of
        None \<Rightarrow> (Inl (not_found ''session loop job not found''), v)
      | Some job \<Rightarrow>
          (case (case status of
                   JobRunning \<Rightarrow> start_guard q now k job v
                 | JobQueued \<Rightarrow> Inr ()
                 | _ \<Rightarrow> guardr (lj_status job = JobRunning \<and> lj_worker_id job = k)
                          (not_found ''session loop job not found'')) of
             Inl err \<Rightarrow> (Inl err, v)
           | Inr u \<Rightarrow> (Inr (apply_session_loop_job_status now status k e job),
               v\<lparr>session_loop_jobs := tput i (apply_session_loop_job_status now status k e job)
                   (session_loop_jobs w)\<rparr>)))"
  by (simp add: update_session_loop_job_status_def get_session_loop_job_def bindS_def eff_simps now_utc_def Let_def
    split: option.split sum.split)

lemma update_effect:
  assumes u: "update_session_loop_job_status S q i status k e w = (r, w')"
  obtains (refused) "isl r" "w' = w\<lparr>ticks := Suc (ticks w)\<rparr>"
  | (stored) now job where "now = clock S (ticks w)" "tget (session_loop_jobs w) i = Some job"
      "r = Inr (apply_session_loop_job_status now status k e job)"
      "w' = w\<lparr>ticks := Suc (ticks w), session_loop_jobs :=
         tput i (apply_session_loop_job_status now status k e job) (session_loop_jobs w)\<rparr>"
      "status = JobRunning \<Longrightarrow> start_guard q now k job (w\<lparr>ticks := Suc (ticks w)\<rparr>) = Inr ()"
      "status \<in> {JobCompleted, JobFailed} \<Longrightarrow> lj_status job = JobRunning \<and> lj_worker_id job = k"
proof (cases "tget (session_loop_jobs w) i")
  case None
  with u refused show thesis by (auto simp: update_eq Let_def)
next
  case (Some job)
  let ?now = "clock S (ticks w)" and ?v = "w\<lparr>ticks := Suc (ticks w)\<rparr>"
  let ?g = "case status of
                   JobRunning \<Rightarrow> start_guard q ?now k job ?v
                 | JobQueued \<Rightarrow> Inr ()
                 | _ \<Rightarrow> guardr (lj_status job = JobRunning \<and> lj_worker_id job = k)
                          (not_found ''session loop job not found'')"
  show thesis
  proof (cases ?g)
    case (Inl err)
    with u Some refused show thesis by (auto simp: update_eq Let_def)
  next
    case (Inr x)
    have r: "r = Inr (apply_session_loop_job_status ?now status k e job)"
        "w' = ?v\<lparr>session_loop_jobs := tput i (apply_session_loop_job_status ?now status k e job) (session_loop_jobs w)\<rparr>"
      using u by (simp_all add: update_eq Let_def Some Inr)
    show thesis
    proof (rule stored [OF refl Some r(1)])
      show "w' = w\<lparr>ticks := Suc (ticks w), session_loop_jobs :=
         tput i (apply_session_loop_job_status ?now status k e job) (session_loop_jobs w)\<rparr>" using r(2) by simp
      show "start_guard q ?now k job ?v = Inr ()" if "status = JobRunning" using Inr that by simp
      show "lj_status job = JobRunning \<and> lj_worker_id job = k" if "status \<in> {JobCompleted, JobFailed}"
        using Inr that by (auto simp: guardr_def split: if_splits)
    qed
  qed
qed

lemma start_guard_Inr:
  "start_guard q now k job w = Inr u \<longleftrightarrow>
     (is_some_and (tget (sessions w) (lj_session_id job)) (\<lambda>s. session_terminal (se_status s))
      \<or> \<not> list_ex execution_pending_for_model (queue_list_for_session (lj_session_id job) q)
        \<and> \<not> memory_session_has_pending_actions w (lj_session_id job))
     \<and> \<not> foreign_step w (lj_session_id job) k now
     \<and> (lj_status job = JobQueued \<and> \<not> other_running_job w job
        \<or> lj_status job = JobRunning \<and> is_none_or (lj_lease_expires_at job) (\<lambda>t. t \<le> now))"
  by (cases "lj_status job") (auto simp: start_guard_def Let_def guardr_def)

lemma apply_status_simps [simp]:
  "lj_id (apply_session_loop_job_status now status k e job) = lj_id job"
  "lj_session_id (apply_session_loop_job_status now status k e job) = lj_session_id job"
  "lj_status (apply_session_loop_job_status now status k e job) = status"
  by (cases status; simp add: apply_session_loop_job_status_def)+

lemma loop_jobs_ok_cong: "session_loop_jobs w' = session_loop_jobs w \<Longrightarrow> loop_jobs_ok w' = loop_jobs_ok w"
  by (simp add: loop_jobs_ok_def)

lemma merge_job_id: "lj_id (merge_job t a b r x) = lj_id x"
  by (simp add: merge_job_def Let_def split: option.splits)

lemma queued_found:
  assumes "loop_jobs_ok w" and "find_first (queued_for sid) (tvalues S v (session_loop_jobs w)) = Some x"
  shows "tget (session_loop_jobs w) (lj_id x) = Some x" "queued_for sid x"
proof -
  from find_first_SomeD [OF assms(2)] obtain i where "(i, x) \<in> set (session_loop_jobs w)" and q: "queued_for sid x"
    by (auto simp: set_tvalues)
  then have "tget (session_loop_jobs w) i = Some x" using job_entries [OF loop_jobs_okD(1) [OF assms(1)]] by blast
  with loop_jobs_okD(2) [OF assms(1) this] show "tget (session_loop_jobs w) (lj_id x) = Some x" by simp
  show "queued_for sid x" by (rule q)
qed

lemma merge_job_queued: "queued_for sid (merge_job t a b r x) = queued_for sid x"
  by (auto simp: merge_job_def queued_for_def Let_def split: option.splits)

lemma enqueue_ok:
  assumes ok: "loop_jobs_ok w" and e: "enqueue_session_loop_job_from S sid trigger reason seq_floor w = (r, w')"
  shows "loop_jobs_ok w'"
  using e
proof (cases rule: enqueue_effect)
  case refused
  with ok show ?thesis by simp
next
  case (opened v cursor seq_end job)
  show ?thesis
  proof (rule put_job_ok [OF ok opened(7) refl])
    fix k b
    assume k: "tget (session_loop_jobs w) k = Some b" "lj_session_id b = lj_session_id job"
    have "b \<in> snd ` set (session_loop_jobs w)" using map_of_SomeD [OF k(1)] by force
    then have "\<not> queued_for sid b" using opened(3) by (auto simp: find_first_eq_None set_tvalues)
    with k(2) opened(4) show "lj_status b \<noteq> lj_status job" by (auto simp: queued_for_def)
  qed
next
  case (joined v cursor seq_end job existing)
  note x = queued_found [OF ok joined(3)]
  have id: "lj_id job = lj_id existing" and q: "queued_for sid job"
    using x(2) by (simp_all add: joined(5) merge_job_id merge_job_queued)
  show ?thesis
  proof (rule put_job_ok [OF ok joined(6) refl])
    fix k b
    assume k: "k \<noteq> lj_id job" "tget (session_loop_jobs w) k = Some b" "lj_session_id b = lj_session_id job"
    show "lj_status b \<noteq> lj_status job"
    proof
      assume "lj_status b = lj_status job"
      with k(3) q x(2) have "lj_session_id b = lj_session_id existing" "lj_status b = lj_status existing"
        "lj_status b \<in> {JobQueued, JobRunning}" by (simp_all add: queued_for_def)
      with ok k(2) x(1) have "k = lj_id existing" unfolding loop_jobs_ok_def by blast
      with k(1) id show False by simp
    qed
  qed
qed

lemma update_ok:
  assumes ok: "loop_jobs_ok w" and status: "status \<noteq> JobQueued"
    and u: "update_session_loop_job_status S q i status k e w = (r, w')"
  shows "loop_jobs_ok w'"
  using u
proof (cases rule: update_effect)
  case refused
  from loop_jobs_ok_cong [of w' w] refused(2) ok show ?thesis by simp
next
  case (stored now job)
  note job = stored(2) and w' = stored(4) and g = stored(5)
  note o = ok [unfolded loop_jobs_ok_def]
  have id: "lj_id job = i" using o job by blast
  show ?thesis
  proof (rule put_job_ok [OF ok])
    show "session_loop_jobs w' = tput i (apply_session_loop_job_status now status k e job) (session_loop_jobs w)"
      by (simp add: w')
    show "lj_id (apply_session_loop_job_status now status k e job) = i" by (simp add: id)
    fix j b
    assume st: "lj_status (apply_session_loop_job_status now status k e job) \<in> {JobQueued, JobRunning}"
      and j: "j \<noteq> i" "tget (session_loop_jobs w) j = Some b"
        "lj_session_id b = lj_session_id (apply_session_loop_job_status now status k e job)"
    from st status have run: "status = JobRunning" by simp
    have "lj_status b \<noteq> JobRunning"
    proof
      assume b: "lj_status b = JobRunning"
      from g [OF run] have "lj_status job = JobQueued \<and> \<not> other_running_job w job \<or> lj_status job = JobRunning"
        by (auto simp: start_guard_Inr other_running_job_def)
      then show False
      proof
        assume "lj_status job = JobQueued \<and> \<not> other_running_job w job"
        moreover have "(j, b) \<in> set (session_loop_jobs w)" by (rule map_of_SomeD [OF j(2)])
        moreover have "lj_id b \<noteq> lj_id job" using o j(1,2) id by auto
        ultimately show False using b j(3) by (force simp: other_running_job_def list_ex_iff)
      next
        assume "lj_status job = JobRunning"
        with o j job b show False by (metis apply_status_simps(2) insertCI)
      qed
    qed
    with run show "lj_status b \<noteq> lj_status (apply_session_loop_job_status now status k e job)" by simp
  qed
qed

lemma renew_ok:
  assumes ok: "loop_jobs_ok w" and u: "renew_session_loop_job_lease S i k n w = (r, w')"
  shows "loop_jobs_ok w'"
proof (cases "1 \<le> n \<and> n \<le> 86400 \<and> (\<exists>job. tget (session_loop_jobs w) i = Some job
    \<and> lj_status job = JobRunning \<and> lj_worker_id job = Some k)")
  case True
  then obtain job where job: "tget (session_loop_jobs w) i = Some job" "lj_status job = JobRunning"
    "lj_worker_id job = Some k" by blast
  note o = ok [unfolded loop_jobs_ok_def]
  obtain t where w': "session_loop_jobs w' = tput i (job\<lparr>lj_lease_expires_at := t\<rparr>) (session_loop_jobs w)"
    using u True job by (auto simp: renew_session_loop_job_lease_def bindS_def eff_simps now_utc_def Let_def)
  show ?thesis
  proof (rule put_job_ok [OF ok w'])
    show "lj_id (job\<lparr>lj_lease_expires_at := t\<rparr>) = i" using o job(1) by auto
    fix j b
    assume j: "j \<noteq> i" "tget (session_loop_jobs w) j = Some b" "lj_session_id b = lj_session_id (job\<lparr>lj_lease_expires_at := t\<rparr>)"
    have "j = i" if "lj_status b = lj_status job"
    proof -
      have "lj_session_id b = lj_session_id job" using j(3) by simp
      moreover have "lj_status b \<in> {JobQueued, JobRunning}" using that job(2) by simp
      ultimately show ?thesis using o j(2) job(1) that by blast
    qed
    with j(1) show "lj_status b \<noteq> lj_status (job\<lparr>lj_lease_expires_at := t\<rparr>)" by auto
  qed
next
  case False
  then have "session_loop_jobs w' = session_loop_jobs w"
    using u by (cases "tget (session_loop_jobs w) i")
      (auto simp: renew_session_loop_job_lease_def bindS_def eff_simps opt_filter_def split: if_splits)
  from loop_jobs_ok_cong [OF this] ok show ?thesis by blast
qed

lemma loop_step_ok: "loop_step S w w' \<Longrightarrow> loop_jobs_ok w \<Longrightarrow> loop_jobs_ok w'"
proof (induction rule: loop_step.induct)
  case (enqueue w s t r f)
  then show ?case by (cases "enqueue_session_loop_job_from S s t r f w") (simp add: enqueue_ok)
next
  case (start w q i k)
  then show ?case unfolding start_session_loop_job_def
    by (rule update_ok [OF _ _ prod.collapse [symmetric]]) simp
next
  case (complete w q i k)
  then show ?case unfolding complete_session_loop_job_def
    by (rule update_ok [OF _ _ prod.collapse [symmetric]]) simp
next
  case (fail w q i k e)
  then show ?case unfolding fail_session_loop_job_def
    by (rule update_ok [OF _ _ prod.collapse [symmetric]]) simp
next
  case (renew w i k n)
  then show ?case by (cases "renew_session_loop_job_lease S i k n w") (simp add: renew_ok)
next
  case (elsewhere w' w)
  from loop_jobs_ok_cong [OF this(1)] this(2) show ?case by blast
qed

text \<open>
  C24. Whatever the store does, in any order and for any workers, a session never has two queued
  jobs or two running ones: requests coalesce into the queued job, and a start waits for the
  running one.
\<close>

theorem session_single_runner:
  assumes "(loop_step S)\<^sup>*\<^sup>* w w'" and "session_loop_jobs w = []"
    and "tget (session_loop_jobs w') i = Some a" and "tget (session_loop_jobs w') j = Some b"
    and "lj_session_id a = lj_session_id b" and "lj_status a = lj_status b"
    and "lj_status a = JobQueued \<or> lj_status a = JobRunning"
  shows "i = j"
proof -
  have "loop_jobs_ok w" using assms(2) by (simp add: loop_jobs_ok_def)
  with assms(1) have "loop_jobs_ok w'" by (induction rule: rtranclp_induct) (simp_all add: loop_step_ok)
  with assms(3-7) show ?thesis unfolding loop_jobs_ok_def by blast
qed

definition loop_world :: world where
  "loop_world = installed sample_graph \<lparr>sessions := [(5, session_sample)]\<rparr>"

text \<open>A request, its start, and another request while the first job runs.\<close>

definition loop_first :: world where
  "loop_first = snd (enqueue_session_loop_job_from sample_sys 5 None ''first'' None loop_world)"

definition loop_started :: world where
  "loop_started = snd (start_session_loop_job sample_sys [] 10 ''w1'' loop_first)"

definition loop_second :: world where
  "loop_second = snd (enqueue_session_loop_job_from sample_sys 5 None ''second'' None loop_started)"

definition greeted :: world where
  "greeted = snd (append_event sample_sys ''user'' None 5 ''user.message'' (JObj []) loop_first)"

definition loop_first_two :: world where
  "loop_first_two = loop_first
     \<lparr>workflow_runs := workflow_runs two_steps, workflow_step_runs := workflow_step_runs two_steps\<rparr>"

definition loop_started_two :: world where
  "loop_started_two = snd (start_session_loop_job sample_sys [] 10 ''w1'' loop_first_two)"

lemma loop_trace: "(loop_step sample_sys)\<^sup>*\<^sup>* loop_world loop_second"
proof -
  have "loop_step sample_sys loop_world loop_first" unfolding loop_first_def by (rule enqueue)
  moreover have "loop_step sample_sys loop_first loop_started" unfolding loop_started_def by (rule start)
  moreover have "loop_step sample_sys loop_started loop_second" unfolding loop_second_def by (rule enqueue)
  ultimately show ?thesis by (meson rtranclp.rtrancl_refl rtranclp.rtrancl_into_rtrancl)
qed

lemma covers_range_iff_witness:
  "session_loop_projection_covers_range sample_sys 5 1 2 loop_first = (Inr False, loop_first)"
proof -
  have "\<not> (\<exists>job \<in> snd ` set (session_loop_jobs loop_first). is_some_and (job_range job) (\<lambda>(a, b). a \<le> 1 \<and> 1 \<le> b))"
    by code_simp
  then show ?thesis by (subst covers_range_iff) auto
qed

lemma session_single_runner_witness:
  "\<exists>a b. tget (session_loop_jobs loop_second) 10 = Some a \<and> lj_status a = JobRunning
    \<and> tget (session_loop_jobs loop_second) 11 = Some b \<and> lj_status b = JobQueued
    \<and> (\<forall>i x. tget (session_loop_jobs loop_second) i = Some x \<longrightarrow> lj_session_id x = 5 \<longrightarrow>
         lj_status x = JobRunning \<longrightarrow> i = 10)"
proof -
  have "map_option (\<lambda>j. (lj_status j, lj_session_id j)) (tget (session_loop_jobs loop_second) 10) = Some (JobRunning, 5)"
    "map_option lj_status (tget (session_loop_jobs loop_second) 11) = Some JobQueued"
    and start: "session_loop_jobs loop_world = []" by code_simp+
  then obtain a b where ab: "tget (session_loop_jobs loop_second) 10 = Some a" "lj_status a = JobRunning"
      "lj_session_id a = 5" "tget (session_loop_jobs loop_second) 11 = Some b" "lj_status b = JobQueued"
    by auto
  moreover have "i = 10" if "tget (session_loop_jobs loop_second) i = Some x" "lj_session_id x = 5"
      "lj_status x = JobRunning" for i x
    by (rule session_single_runner [OF loop_trace start that(1) ab(1)]) (simp_all add: that ab)
  ultimately show ?thesis by blast
qed

section \<open>No request is lost\<close>

lemma max_optional_ge: "max_optional_i64 a (Some n) = Some m \<Longrightarrow> n \<le> m"
  by (auto simp: max_optional_i64_def split: option.splits)

lemma max_optional_some: "\<exists>m. max_optional_i64 a (Some n) = Some m \<and> n \<le> m"
  by (auto simp: max_optional_i64_def split: option.splits)

lemma max_of_ge: "x \<in> set xs \<Longrightarrow> \<exists>m. max_of xs = Some m \<and> x \<le> m"
proof (induction xs)
  case (Cons y ys)
  show ?case
  proof (cases "x = y")
    case True
    then show ?thesis by (cases "max_of ys") (auto simp: max_optional_i64_def)
  next
    case False
    with Cons obtain m where "max_of ys = Some m" "x \<le> m" by auto
    then show ?thesis by (auto simp: max_optional_i64_def)
  qed
qed simp

lemma watermark_ge:
  assumes "(i, job) \<in> set (session_loop_jobs w)" and "lj_session_id job = sid" and "job_cursor job = Some c"
  shows "\<exists>m. session_loop_cursor_high_watermark sid w = Some m \<and> c \<le> m"
  unfolding session_loop_cursor_high_watermark_def
  by (rule max_of_ge) (use assms in \<open>force simp: set_filter_map\<close>)

lemma merge_job_end:
  "lj_pending_event_seq_end (merge_job t a b r x) = max_optional_i64 (lj_pending_event_seq_end x) b"
  by (simp add: merge_job_def Let_def split: option.split)

lemma request_covered:
  assumes put: "session_loop_jobs w' = tput (lj_id job) job jobs"
    and q: "queued_for sid job" and e: "\<exists>e. lj_pending_event_seq_end job = Some e \<and> n \<le> e" and n: "n < 2 ^ 63"
    and s: "\<And>f. seq_floor = Some f \<Longrightarrow> f \<le> n \<Longrightarrow> \<exists>a. lj_pending_event_seq_start job = Some a \<and> a \<le> f"
  shows "session_loop_projection_covers sid n w' = (Inr True, w')
    \<and> (\<forall>f. seq_floor = Some f \<longrightarrow> session_loop_projection_covers_range S sid f n w' = (Inr True, w'))"
proof
  have "tget (session_loop_jobs w') (lj_id job) = Some job" by (simp add: put store_table.get_put)
  then have mem: "(lj_id job, job) \<in> set (session_loop_jobs w')" by (rule map_of_SomeD)
  obtain e where en: "lj_pending_event_seq_end job = Some e" "n \<le> e" using e by blast
  have active: "lj_session_id job = sid" "lj_status job = JobQueued" using q by (simp_all add: queued_for_def)
  obtain c where c: "job_cursor job = Some c" "n \<le> c"
    using max_optional_some [of "lj_processed_event_seq job" e] en by (auto simp: job_cursor_def active)
  from watermark_ge [OF mem active(1) c(1)] c(2)
  show "session_loop_projection_covers sid n w' = (Inr True, w')"
    by (auto simp: session_loop_projection_covers_def eff_simps)
  show "\<forall>f. seq_floor = Some f \<longrightarrow> session_loop_projection_covers_range S sid f n w' = (Inr True, w')"
  proof (intro allI impI)
    fix f
    assume f: "seq_floor = Some f"
    show "session_loop_projection_covers_range S sid f n w' = (Inr True, w')"
    proof (cases "f \<le> n")
      case False
      then show ?thesis by (simp add: session_loop_projection_covers_range_def eff_simps)
    next
      case True
      from s [OF f True] obtain a where a: "lj_pending_event_seq_start job = Some a" "a \<le> f" by blast
      have "job_range job = Some (a, c)"
        using a c en True by (simp add: job_range_def job_cursor_def active)
      then have "is_some_and (job_range job) (\<lambda>(x, y). x \<le> m \<and> m \<le> y)" if "f \<le> m" "m \<le> n" for m
        using that a c by simp
      with mem active(1) show ?thesis by (simp add: covers_range [OF n]) force
    qed
  qed
qed

text \<open>
  A request is accounted for as soon as it is made, whether it opens a job or joins the
  queued one: the session's watermark reaches the event that triggered it, and a request from a
  given event on is covered from there to the trigger, so that recovery does not ask twice.
\<close>

theorem enqueue_covers:
  assumes "enqueue_session_loop_job_from S sid trigger reason seq_floor w = (Inr job, w')"
    and "session_loop_trigger_event_seq sid trigger w = Some n" and "n < 2 ^ 63"
  shows "session_loop_projection_covers sid n w' = (Inr True, w')
    \<and> (\<forall>f. seq_floor = Some f \<longrightarrow> session_loop_projection_covers_range S sid f n w' = (Inr True, w'))"
  using assms(1)
proof (cases rule: enqueue_effect)
  case refused
  then show ?thesis by simp
next
  case (opened v cursor seq_end j)
  have n: "seq_end = Some n" using opened(2) assms(2) by simp
  show ?thesis
    by (rule request_covered [OF opened(7,4) _ assms(3)])
      (simp_all add: opened(5,6) n enqueue_start_def)
next
  case (joined v cursor seq_end j existing)
  have n: "seq_end = Some n" using joined(2) assms(2) by simp
  show ?thesis
  proof (rule request_covered [OF joined(6) _ _ assms(3)])
    show "queued_for sid j" using joined(4) by (simp add: joined(5) merge_job_queued)
    show "\<exists>e. lj_pending_event_seq_end j = Some e \<and> n \<le> e"
      by (simp add: joined(5) n merge_job_end max_optional_some)
    show "\<exists>a. lj_pending_event_seq_start j = Some a \<and> a \<le> f" if "seq_floor = Some f" "f \<le> n" for f
      using that by (auto simp: joined(5) n merge_job_def enqueue_start_def Let_def is_none_or_iff)
  qed
qed

lemma enqueue_covers_witness:
  "session_loop_projection_covers 5 1 (snd (enqueue_session_loop_job_from sample_sys 5 None ''again'' (Some 1) greeted))
     = (Inr True, snd (enqueue_session_loop_job_from sample_sys 5 None ''again'' (Some 1) greeted))"
proof -
  have "succeeds (enqueue_session_loop_job_from sample_sys 5 None ''again'' (Some 1) greeted) (\<lambda>_ _. True)"
    and n: "session_loop_trigger_event_seq 5 None greeted = Some 1" by code_simp+
  then obtain job w' where e: "enqueue_session_loop_job_from sample_sys 5 None ''again'' (Some 1) greeted = (Inr job, w')"
    by (blast elim: succeedsE)
  from enqueue_covers [OF this n] e show ?thesis by simp
qed

section \<open>Loops and steps of a session exclude each other\<close>

text \<open>
  A session is worked on from one side at a time. Once a loop job has started, no step of its
  session can be claimed; and once a worker has claimed a step of a session, no other worker can
  start a loop job of it before the claim's lease is over.
\<close>

theorem loop_excludes_steps:
  assumes "start_session_loop_job S q i worker w = (Inr job, w')"
  shows "(step_session w' step = Some (lj_session_id job) \<longrightarrow>
      (\<exists>e. claim_workflow_step_run_if_available step now w' = (Inl e, w')))
    \<and> (\<forall>u v s deadline. claim_workflow_step_run_if_available s now u = (Inr s, w)
         \<and> step_session w s = Some (lj_session_id job) \<and> sr_status s = ''running''
         \<and> sr_lease_expires_at s = Some deadline \<and> clock S (ticks w) < deadline
         \<longrightarrow> sr_claimed_by_worker s = Some worker)"
  using assms [unfolded start_session_loop_job_def]
proof (cases rule: update_effect)
  case (stored now' cur)
  have job: "job = apply_session_loop_job_status now' JobRunning (Some worker) None cur" using stored(3) by simp
  have "tget (session_loop_jobs w') i = Some job" by (simp add: stored(4) job store_table.get_put)
  then have mem: "(i, job) \<in> set (session_loop_jobs w')" by (rule map_of_SomeD)
  have "\<exists>e. claim_workflow_step_run_if_available step now w' = (Inl e, w')"
    if "step_session w' step = Some (lj_session_id job)"
  proof -
    have "session_occupied w' step"
      using mem that job by (force simp: session_occupied_def Let_def list_ex_iff)
    then show ?thesis by (auto simp: claim_workflow_step_run_if_available_def)
  qed
  moreover have "sr_claimed_by_worker s = Some worker"
    if c: "claim_workflow_step_run_if_available s now u = (Inr s, w)"
      and s: "step_session w s = Some (lj_session_id job)" "sr_status s = ''running''"
        "sr_lease_expires_at s = Some deadline" "clock S (ticks w) < deadline" for u s deadline
  proof -
    let ?w = "w\<lparr>ticks := Suc (ticks w)\<rparr>"
    have "tget (workflow_step_runs w) (sr_id s) = Some s"
      using c by (simp add: claim_Inr store_table.get_put)
    then have mem: "(sr_id s, s) \<in> set (workflow_step_runs w)" by (rule map_of_SomeD)
    have "\<not> foreign_step ?w (lj_session_id cur) (Some worker) now'"
      using stored(5) by (simp add: start_guard_Inr)
    then have "\<not> (step_session ?w s = Some (lj_session_id cur) \<and> sr_status s = ''running''
         \<and> sr_claimed_by_worker s \<noteq> Some worker \<and> now' < deadline)"
      using mem s(3) by (force simp: foreign_step_def list_ex_iff)
    with s stored(1) job show ?thesis by (simp add: step_session_def)
  qed
  ultimately show ?thesis by blast
qed simp

lemma loop_excludes_steps_witness:
  "\<exists>e. claim_workflow_step_run_if_available (claimed_sample 30 ''draft'') 0 loop_started_two = (Inl e, loop_started_two)"
proof -
  have "succeeds (start_session_loop_job sample_sys [] 10 ''w1'' loop_first_two)
      (\<lambda>job w. lj_session_id job = 5 \<and> w = loop_started_two)"
    by code_simp
  then obtain job w' where "start_session_loop_job sample_sys [] 10 ''w1'' loop_first_two = (Inr job, w')"
    "lj_session_id job = 5" "w' = loop_started_two" by (blast elim: succeedsE)
  moreover have "step_session loop_started_two (claimed_sample 30 ''draft'') = Some 5" by code_simp
  ultimately show ?thesis
    using loop_excludes_steps [of sample_sys "[]" 10 "''w1''" loop_first_two job w' "claimed_sample 30 ''draft''" 0]
    by simp
qed

text \<open>
  A worker that does not hold the claim of a running job can neither complete nor fail it nor
  renew its lease; it can only take it over, and that only when the lease is over.
\<close>

theorem loop_claim_fenced:
  assumes "tget (session_loop_jobs w) i = Some job" and "lj_status job = JobRunning"
    and "lj_worker_id job \<noteq> Some worker" and "lj_lease_expires_at job = Some deadline"
  shows "session_loop_jobs (snd (complete_session_loop_job S q i worker w)) = session_loop_jobs w
    \<and> isl (fst (complete_session_loop_job S q i worker w))
    \<and> session_loop_jobs (snd (fail_session_loop_job S q i worker e w)) = session_loop_jobs w
    \<and> isl (fst (fail_session_loop_job S q i worker e w))
    \<and> session_loop_jobs (snd (renew_session_loop_job_lease S i worker n w)) = session_loop_jobs w
    \<and> isl (fst (renew_session_loop_job_lease S i worker n w))
    \<and> (\<not> isl (fst (start_session_loop_job S q i worker w)) \<longrightarrow> deadline \<le> clock S (ticks w))"
proof -
  have "session_loop_jobs (snd (update_session_loop_job_status S q i st (Some worker) e' w)) = session_loop_jobs w
      \<and> isl (fst (update_session_loop_job_status S q i st (Some worker) e' w))"
    if "st \<in> {JobCompleted, JobFailed}" for st e'
    using that assms by (auto simp: update_eq Let_def guardr_def)
  moreover have "session_loop_jobs (snd (renew_session_loop_job_lease S i worker n w)) = session_loop_jobs w
      \<and> isl (fst (renew_session_loop_job_lease S i worker n w))"
    using assms by (simp add: renew_session_loop_job_lease_def bindS_def eff_simps opt_filter_def)
  moreover have "deadline \<le> clock S (ticks w)" if "\<not> isl (fst (start_session_loop_job S q i worker w))"
  proof -
    obtain r w' where u: "update_session_loop_job_status S q i JobRunning (Some worker) None w = (r, w')"
      by fastforce
    with that have "\<not> isl r" by (simp add: start_session_loop_job_def)
    with u show ?thesis
      by (cases rule: update_effect) (use assms in \<open>auto simp: start_guard_Inr is_none_or_iff\<close>)
  qed
  ultimately show ?thesis by (simp add: complete_session_loop_job_def fail_session_loop_job_def)
qed

lemma loop_claim_fenced_witness:
  "isl (fst (complete_session_loop_job sample_sys [] 10 ''w2'' loop_started))
   \<and> isl (fst (start_session_loop_job sample_sys [] 10 ''w2'' loop_started))"
proof -
  have "is_some_and (tget (session_loop_jobs loop_started) 10) (\<lambda>j. lj_status j = JobRunning
      \<and> lj_worker_id j = Some ''w1'' \<and> lj_lease_expires_at j = Some 301000000000)"
    and now: "clock sample_sys (ticks loop_started) = 2000000000" by code_simp+
  then obtain j where "tget (session_loop_jobs loop_started) 10 = Some j" "lj_status j = JobRunning"
      "lj_worker_id j \<noteq> Some ''w2''" "lj_lease_expires_at j = Some 301000000000"
    by (auto simp: is_some_and_iff)
  from loop_claim_fenced [OF this, of sample_sys "[]"] now show ?thesis by auto
qed

end
