(* ===== verification/Call_Log.thy ===== *)
theory Call_Log
  imports Event_Log
begin

text \<open>
  The event logs under invocations of tools and decisions on approvals: whatever runs, the log of a
  session only grows and stays numbered without a gap.
\<close>

section \<open>Tool calls and approvals\<close>

text \<open>
  An entry of the audit log that goes with a tool call is stored under a fresh identifier without a look
  at what is there, so of these operations only the event logs are claimed to grow.
\<close>

definition events_grow :: "world \<Rightarrow> world \<Rightarrow> bool" where
  "events_grow w w' \<longleftrightarrow>
     (\<forall>s. \<exists>new. session_events w' s = session_events w s @ new) \<and> (log_ok w \<longrightarrow> log_ok w')"

interpretation grow: relation_on_worlds events_grow
proof
  show "events_grow w w" for w by (simp add: events_grow_def)
  show "events_grow u w" if "events_grow u v" "events_grow v w" for u v w
    using that unfolding events_grow_def by (metis append.assoc)
qed

lemma logs_grow_events: "keeps logs_grow m \<Longrightarrow> keeps events_grow m"
  by (simp add: keeps_def logs_grow_def events_grow_def)

lemma keeps_same_events: "(\<And>w. events (snd (m w)) = events w) \<Longrightarrow> keeps events_grow m"
  by (simp add: keeps_def events_grow_def log_ok_def session_events_def)

lemma appended_grow:
  assumes "events w' = tput s (session_events w s @ new) (events w)"
    and "map ev_seq new = map int [Suc (length (session_events w s))..<Suc (length (session_events w s) + length new)]"
    and "\<forall>e \<in> set new. ev_session_id e = s"
  shows "events_grow w w'"
proof -
  note es = session_events_put [OF assms(1)]
  let ?n = "length (session_events w s)"
  have range: "[1..<Suc (?n + length new)] = [1..<Suc ?n] @ [Suc ?n..<Suc (?n + length new)]"
    by (metis le_add1 plus_1_eq_Suc upt_add_eq_append add_Suc)
  have "log_ok w'" if "log_ok w"
    unfolding log_ok_def
  proof
    fix t
    show "map ev_seq (session_events w' t) = map int [1..<Suc (length (session_events w' t))]
        \<and> (\<forall>e \<in> set (session_events w' t). ev_session_id e = t)"
    proof (cases "t = s")
      case True
      have "map ev_seq (session_events w s @ new) = map int [1..<Suc (?n + length new)]"
        using that assms(2) unfolding range log_ok_def by simp
      with True that assms(3) show ?thesis by (auto simp: es log_ok_def)
    qed (use that in \<open>simp add: es log_ok_def\<close>)
  qed
  moreover have "\<exists>new. session_events w' t = session_events w t @ new" for t by (simp add: es)
  ultimately show ?thesis by (simp add: events_grow_def)
qed

lemma numbered_appends:
  "map ev_seq (numbered (int n + 1) es) = map int [Suc n..<Suc (n + length es)]"
  "e \<in> set (numbered k es) \<Longrightarrow> \<forall>x \<in> set es. ev_session_id x = s \<Longrightarrow> ev_session_id e = s"
  "length (numbered k es) = length es"
proof -
  show len: "length (numbered k es) = length es" for k by (induction es arbitrary: k) auto
  show "map ev_seq (numbered (int n + 1) es) = map int [Suc n..<Suc (n + length es)]"
  proof (induction es arbitrary: n)
    case (Cons x es)
    have "map ev_seq (numbered (int n + 1) (x # es)) = (int n + 1) # map ev_seq (numbered (int (Suc n) + 1) es)"
      by (simp add: ac_simps)
    also have "\<dots> = map int (Suc n # [Suc (Suc n)..<Suc (Suc n + length es)])"
      using Cons.IH [of "Suc n"] by simp
    also have "Suc n # [Suc (Suc n)..<Suc (Suc n + length es)] = [Suc n..<Suc (n + length (x # es))]"
      by (simp add: upt_conv_Cons del: upt_Suc)
    finally show ?case .
  qed simp
  show "e \<in> set (numbered k es) \<Longrightarrow> \<forall>x \<in> set es. ev_session_id x = s \<Longrightarrow> ev_session_id e = s"
    by (induction es arbitrary: k) auto
qed

lemma push_grows: "\<forall>e \<in> set es. ev_session_id e = s \<Longrightarrow> keeps events_grow (push_events s es)"
  unfolding keeps_def
proof
  fix w
  assume es: "\<forall>e \<in> set es. ev_session_id e = s"
  let ?new = "numbered (int (length (session_events w s)) + 1) es"
  show "events_grow w (snd (push_events s es w))"
    by (rule appended_grow [of _ s w ?new])
      (use es numbered_appends(2) in \<open>auto simp: push_events_def Let_def numbered_appends(1,3)\<close>)
qed

text \<open>Of a decline, what is new is appended, what is there is not.\<close>

lemma put_events_appends:
  assumes "put_events xs persisted = (committed, persisted')"
  shows "\<exists>new. persisted' = persisted @ new
    \<and> map ev_seq new = map int [Suc (length persisted)..<Suc (length persisted + length new)]
    \<and> (\<forall>e \<in> set new. \<exists>x \<in> fst ` set xs. ev_session_id e = ev_session_id x)"
  using assms
proof (induction xs arbitrary: persisted committed)
  case (Cons x xs)
  obtain event existing where x: "x = (event, existing)" by (cases x)
  show ?case
  proof (cases existing)
    case (Some e)
    then obtain c where "put_events xs persisted = (c, persisted')"
      using Cons.prems by (auto simp: x split: prod.splits)
    from Cons.IH [OF this] show ?thesis by fastforce
  next
    case None
    let ?e = "event\<lparr>ev_seq := int (length persisted) + 1\<rparr>"
    obtain c where "put_events xs (persisted @ [?e]) = (c, persisted')"
      using Cons.prems None by (auto simp: x Let_def split: prod.splits)
    from Cons.IH [OF this] obtain new where new: "persisted' = (persisted @ [?e]) @ new"
      "map ev_seq new = map int [Suc (length (persisted @ [?e]))..<Suc (length (persisted @ [?e]) + length new)]"
      "\<forall>e \<in> set new. \<exists>x \<in> fst ` set xs. ev_session_id e = ev_session_id x" by blast
    have "map ev_seq (?e # new) = map int [Suc (length persisted)..<Suc (length persisted + length (?e # new))]"
      using new(2) by (simp add: upt_conv_Cons del: upt_Suc)
    with new(1,3) show ?thesis by (intro exI [of _ "?e # new"]) (auto simp: x)
  qed
qed simp

lemma commit_decline_grows:
  assumes "\<forall>x \<in> fst ` set es. ev_session_id x = ap_session_id current"
  shows "keeps events_grow (commit_decline S i current v es as)"
  unfolding keeps_def
proof
  fix w
  let ?s = "ap_session_id current"
  let ?w = "snd (commit_decline S i current v es as w)"
  obtain c p where put: "put_events es (session_events w ?s) = (c, p)" by fastforce
  have events: "events ?w = tput ?s p (events w)"
    using put by (simp add: commit_decline_def bindS_def now_utc_def eff_simps Let_def session_events_def
        split: prod.splits)
  from put_events_appends [OF put] obtain new where "p = session_events w ?s @ new"
    "map ev_seq new = map int [Suc (length (session_events w ?s))..<Suc (length (session_events w ?s) + length new)]"
    "\<forall>e \<in> set new. \<exists>x \<in> fst ` set es. ev_session_id e = ev_session_id x" by blast
  with events assms show "events_grow w ?w" by (intro appended_grow [of _ ?s w new]) auto
qed

lemma same_events:
  "keeps events_grow (now_utc S)" "keeps events_grow (new_v4 S)"
  "keeps events_grow (modifyS (put_tool_call c))" "keeps events_grow (modifyS (put_audit e))"
  "keeps events_grow (insert_approval a)" "keeps events_grow (create_approval_commit_token t)"
  "keeps events_grow (\<lambda>w. (Inr x1, w\<lparr>approvals := f1 w\<rparr>))"
  "keeps events_grow (\<lambda>w. (Inr x2, w\<lparr>approval_commit_tokens := f2 w\<rparr>))"
  "keeps events_grow (\<lambda>w. (Inr x3, w\<lparr>tool_calls := f3 w\<rparr>))"
  "keeps events_grow (modify_tool_call_args S i v)"
  "keeps events_grow (tool_call_admission n g)" "keeps events_grow (charge_tool_call n g)"
  by (rule keeps_same_events;
      simp add: now_utc_def new_v4_def put_tool_call_def put_audit_def eff_simps insert_approval_def
        create_approval_commit_token_def modify_tool_call_args_def tool_call_admission_def
        charge_tool_call_def thenS_def bindS_def whenS_def expire_grant_def Let_def
        split: option.splits sum.splits prod.splits)+

lemmas grow_ops = grow.resp_intros same_events

lemma records_grow:
  "keeps events_grow (tool_invocation_records S c g i n)"
  "keeps events_grow (tool_invocation_result_records S c st r og)"
  "keeps events_grow (declined_approval_records S a v aty call)"
  "keeps events_grow (reserve_invocation S j)"
  unfolding tool_invocation_records_def tool_invocation_result_records_def invocation_event_def
    new_audit_log_def declined_approval_records_def declined_tool_records_def
    declined_approval_event_def reserve_invocation_def task_grant_lineage_def Let_def
  by (intro grow_ops)+

lemma records_session:
  "tool_invocation_records S c g i n w = (Inr (es, tr), w') \<Longrightarrow> \<forall>e \<in> set es. ev_session_id e = tc_session_id c"
  "tool_invocation_result_records S c st r og w = (Inr (es', a'), w') \<Longrightarrow>
     \<forall>e \<in> set es'. ev_session_id e = tc_session_id c"
  by (auto simp: tool_invocation_records_def tool_invocation_result_records_def invocation_event_def
      new_audit_log_def Let_def effs_Inr now_utc_def new_v4_def split: option.splits)

lemma declined_session:
  assumes "declined_approval_records S a v aty call w = (Inr (es, as), w')"
  shows "\<forall>e \<in> set es. ev_session_id e = ap_session_id a"
  using assms
  by (auto simp: declined_approval_records_def declined_tool_records_def declined_approval_event_def
      new_audit_log_def Let_def effs_Inr now_utc_def new_v4_def split: option.splits)

lemma calls_grow:
  "keeps events_grow (commit_tool_invocation_start S c i n)"
  "keeps events_grow (commit_tool_invocation_result S i' st r og)"
  "keeps events_grow (update_tool_call_status S i'' st' res err)"
proof -
  show "keeps events_grow (commit_tool_invocation_start S c i n)"
    unfolding commit_tool_invocation_start_def get_session_def
    by (intro grow_ops records_grow grow.resp_bind_result [OF records_grow(1)])
      (auto intro!: grow_ops push_grows dest: records_session(1))
  show "keeps events_grow (commit_tool_invocation_result S i' st r og)"
    unfolding commit_tool_invocation_result_def get_tool_call_def Let_def
    by (intro grow_ops grow.resp_bind_result [OF records_grow(2)])
      (auto intro!: grow_ops push_grows dest: records_session(2))
  show "keeps events_grow (update_tool_call_status S i'' st' res err)"
    unfolding update_tool_call_status_def get_tool_call_def Let_def by (intro grow_ops)
qed

lemma approvals_grow:
  "keeps events_grow (consume_approval_commit_token S i)"
  "keeps events_grow (store_decide_approval S i st)" "keeps events_grow (update_approval_evidence i e)"
  "keeps events_grow (store_modify_approval S i args c)"
  unfolding consume_approval_commit_token_def store_decide_approval_def update_approval_evidence_def
    store_modify_approval_def get_approval_def Let_def
  by (intro grow_ops)+

text \<open>The part of a decline before its writes looks only.\<close>

lemma decline_grows: "keeps events_grow (decline_approval_and_tool_call S i v aty)"
proof -
  have sel: "\<forall>x \<in> fst ` set (zip es ys). P x" if "\<forall>x \<in> set es. P x"
    for P :: "session_event \<Rightarrow> bool" and es and ys :: "session_event option list"
    using that by (auto dest: set_zip_leftD)
  show ?thesis
    unfolding decline_approval_and_tool_call_def get_approval_def Let_def
    by (intro grow_ops grow.resp_bind_result [OF records_grow(3)])
      (auto intro!: grow_ops commit_decline_grows sel dest: declined_session)
qed

section \<open>All operations\<close>

lemma events_store_relation:
  assumes "peers_respect events_grow P"
  shows "store_relation events_grow S P"
proof -
  note peers = assms [unfolded peers_respect_def]
  have idle: "store_relation logs_grow S idle_peers"
    by (intro logs_store_relation idle_peers_respect) unfold_locales
  note prims = store_relation.run_keeps [OF idle] store_relation.step_keeps [OF idle]
    store_relation.grant_keeps [OF idle]
  show ?thesis
    by unfold_locales
      (simp_all add: logs_grow_events append_event_grows audit_grows store_same_logs
        composed_same_logs grant_same_logs peers)
qed

lemma events_tool_relation:
  assumes "neighbours_respect events_grow P A T H"
  shows "tool_relation events_grow S P A T"
  using assms unfolding neighbours_respect_def
  by (intro tool_relation.intro tool_relation_axioms.intro approval_relation.intro approval_relation_axioms.intro events_store_relation
      calls_grow approvals_grow same_events grow.resp_bind decline_grows) blast+

lemma events_handoff_relation:
  assumes "neighbours_respect events_grow P A T H"
  shows "handoff_relation events_grow S P A H"
proof (rule handoff_relation_of)
  show "store_relation events_grow S P" and "handoff_neighbours_respect events_grow A H"
    using assms by (simp_all add: neighbours_respect_def events_store_relation)
  show "events_grow w w'" if "beside_handoffs w w'" for w w'
    using beside_handoffs_other(2) [OF that] by (simp add: events_grow_def log_ok_def session_events_def)
qed

interpretation grow_idle: tool_relation events_grow S idle_peers idle_approvals idle_tools for S
  by (rule events_tool_relation [OF idle_all_respect]) unfold_locales

text \<open>
  C29. Whatever operations of the workflow runtime, invocations of tools, decisions on approvals and
  handoffs run, in whatever order and whether they succeed or fail: what the event log of a session holds stays,
  in its order; and if the events of every session are numbered 1, 2, 3 and so on, they still are.
\<close>

theorem event_logs_append_only:
  assumes "neighbours_respect events_grow P A T H"
    and "(\<lambda>u v. operation S P u v \<or> tool_operation S P A T u v \<or> handoff_operation S P A H u v)\<^sup>*\<^sup>* w w'"
  shows "(\<forall>s. \<exists>new. session_events w' s = session_events w s @ new)
    \<and> ((\<forall>s. map ev_seq (session_events w s) = map int [1..<Suc (length (session_events w s))]
           \<and> (\<forall>e \<in> set (session_events w s). ev_session_id e = s))
       \<longrightarrow> (\<forall>s. map ev_seq (session_events w' s) = map int [1..<Suc (length (session_events w' s))]))"
proof -
  note T = events_tool_relation [OF assms(1)] and H = events_handoff_relation [OF assms(1)]
  have P: "store_relation events_grow S P"
    using assms(1) by (simp add: neighbours_respect_def events_store_relation)
  have "events_grow w w'"
    using assms(2)
  proof (induction rule: rtranclp_induct)
    case base
    show ?case by (rule grow.R_refl)
  next
    case (step u v)
    from step.hyps(2) have "events_grow u v"
      using operation_keeps [OF P] tool_operation_keeps [OF T] handoff_operation_keeps [OF H] by blast
    with step.IH show ?case by (rule grow.R_trans)
  qed
  then show ?thesis unfolding events_grow_def log_ok_def by blast
qed

text \<open>A session whose agent may read files, and a call that does.\<close>

definition calling_version :: agent_version where
  "calling_version = sample_version\<lparr>av_tools := [''file.read''], av_tool_names := [''file.read'']\<rparr>"

definition calling_world :: world where
  "calling_world = empty_world
     \<lparr>agents := [(1, sample_agent)], agent_versions := [(1, [calling_version])],
      sessions := [(5, session_sample)]\<rparr>"

definition reading :: execute_tool where
  "reading = \<lparr>xt_session_id = 5, xt_task_grant_id = None, xt_args = JObj []\<rparr>"

definition read_file :: "world \<Rightarrow> json res \<times> world" where
  "read_file = execute_tool_invocation sample_sys idle_peers idle_approvals idle_tools
     (runtime_policy default_policy_config) ''file.read'' reading ManualRoute"

lemma event_logs_append_only_witness:
  "\<exists>new. session_events (snd (read_file calling_world)) 5 = session_events calling_world 5 @ new
     \<and> length new = 5"
proof -
  have "(\<lambda>u v. operation sample_sys idle_peers u v
      \<or> tool_operation sample_sys idle_peers idle_approvals idle_tools u v
      \<or> handoff_operation sample_sys idle_peers idle_approvals idle_handoffs u v)\<^sup>*\<^sup>*
      calling_world (snd (read_file calling_world))"
    unfolding read_file_def by (rule r_into_rtranclp) (blast intro: tool_operation.invoke)
  moreover have "neighbours_respect events_grow idle_peers idle_approvals idle_tools idle_handoffs"
    by (rule idle_all_respect) unfold_locales
  ultimately obtain new where
    "session_events (snd (read_file calling_world)) 5 = session_events calling_world 5 @ new"
    using event_logs_append_only by blast
  moreover have "length (session_events (snd (read_file calling_world)) 5) = 5"
    "length (session_events calling_world 5) = 0" by code_simp+
  ultimately show ?thesis by auto
qed

end
