(* ===== verification/Footprint.thy ===== *)
theory Footprint
  imports Grant_Invariants
begin

text \<open>
  The footprint of the workflow runtime. A relation between states that holds whenever the tables of
  other components stay as they are is kept by every operation of the runtime.
\<close>

text \<open>What the workflow runtime's operations on the store leave as it is: the tables of other components.\<close>

definition runtime_writes :: "world \<Rightarrow> world \<Rightarrow> bool" where
  "runtime_writes w w' \<longleftrightarrow> uuids w \<le> uuids w' \<and> agents w' = agents w \<and> agent_versions w' = agent_versions w
     \<and> approvals w' = approvals w \<and> approval_commit_tokens w' = approval_commit_tokens w
     \<and> approval_groups w' = approval_groups w \<and> approval_escalation_rules w' = approval_escalation_rules w
     \<and> tool_calls w' = tool_calls w \<and> manager_agent_plans w' = manager_agent_plans w
     \<and> agent_handoff_events w' = agent_handoff_events w
     \<and> agent_handoff_assignments w' = agent_handoff_assignments w \<and> execution_jobs w' = execution_jobs w
     \<and> semantic_sources w' = semantic_sources w \<and> semantic_objects w' = semantic_objects w
     \<and> semantic_links w' = semantic_links w
     \<and> ontology_onboarding_runs w' = ontology_onboarding_runs w \<and> context_packets w' = context_packets w"

interpretation footprint: relation_on_worlds runtime_writes
  by unfold_locales (auto simp: runtime_writes_def)

lemma footprint_mono: "keeps runtime_writes m \<Longrightarrow> runtime_writes \<le> R \<Longrightarrow> keeps R m"
  by (auto simp: keeps_def le_fun_def)

lemma footprint_atoms:
  "keeps runtime_writes (now_utc S)" "keeps runtime_writes (new_v4 S)"
  "keeps runtime_writes (append_event_with_id S i b aty aid s et p)"
  "keeps runtime_writes (append_audit_log entry)" "keeps runtime_writes (create_workflow_transition t)"
  "keeps runtime_writes (modifyS (\<lambda>w. w\<lparr>sessions := f w\<rparr>))" "keeps runtime_writes (create_session_thread th)"
  "keeps runtime_writes (create_workflow_run r)" "keeps runtime_writes (create_workflow_step_run st)"
  "keeps runtime_writes (store_existing_step st)"
  "keeps runtime_writes (claim_workflow_step_run_if_available st n)"
  "keeps runtime_writes (store_claimed_step st k n)" "keeps runtime_writes (activate_scheduled_workflow_step_run i n)"
  "keeps runtime_writes (admit_child_grant n g)" "keeps runtime_writes (update_grant_entry h i)"
  "keeps runtime_writes (modifyS (expire_grant n i))"
  "keeps runtime_writes (\<lambda>w. (Inr x, put_grant g w))"
  "keeps runtime_writes (\<lambda>w. (Inr y, put_step st (put_grant g w)))"
  "keeps runtime_writes (\<lambda>w. (Inr z, w\<lparr>task_grants := tg w\<rparr>))"
  by (simp_all add: keeps_def runtime_writes_def now_utc_def new_v4_def create_workflow_transition_def
      modifyS_def append_event_with_id_def append_audit_log_def put_grant_def
      create_session_thread_def create_workflow_run_def create_workflow_step_run_def
      store_existing_step_def claim_workflow_step_run_if_available_def store_claimed_step_def
      activate_scheduled_workflow_step_run_def admit_child_grant_def update_grant_entry_def
      expire_grant_def put_step_def Let_def split: option.splits sum.splits)

lemmas footprint_ops = footprint.resp_intros footprint_atoms

lemma composed_footprint:
  "keeps runtime_writes (modify_run S i f)"
  "keeps runtime_writes (set_session_and_primary_thread_status S s t st ts)"
  "keeps runtime_writes (adopt_workflow_step_for_loop S i j k)"
  "keeps runtime_writes (renew_workflow_step_run_lease S i k n)"
  by (simp_all add: keeps_def runtime_writes_def modify_run_def get_workflow_run_def
      set_session_and_primary_thread_status_def adopt_workflow_step_for_loop_def
      renew_workflow_step_run_lease_def get_workflow_step_run_def get_session_def bindS_def thenS_def
      now_utc_def eff_simps Let_def put_step_def split: option.splits sum.splits prod.splits)

lemma grant_footprint:
  "keeps runtime_writes (create_task_grant S g)"
  "keeps runtime_writes (create_workflow_step_run_with_task_grant S st g)"
  "keeps runtime_writes (update_task_grant_status S i s)"
  "keeps runtime_writes (update_task_grant_context_packet S i c)"
  "keeps runtime_writes (reserve_task_grant_usage S i k)"
  "keeps runtime_writes (add_task_grant_cost S i amount)"
  unfolding create_task_grant_def create_workflow_step_run_with_task_grant_def
    update_task_grant_status_def update_task_grant_context_packet_def get_task_grant_def
    reserve_task_grant_usage_def task_grant_lineage_def add_task_grant_cost_def Let_def
  by (intro footprint_ops)+

lemma footprint_store_relation:
  assumes "relation_on_worlds R" and "runtime_writes \<le> R" and "peers_respect R P"
  shows "store_relation R S P"
proof -
  note peers = assms(3) [unfolded peers_respect_def]
  have mono: "keeps runtime_writes m \<Longrightarrow> keeps R m" for m :: "'a eff"
    using assms(2) by (rule footprint_mono [rotated])
  show ?thesis
    by (intro store_relation.intro session_relation.intro assms(1))
      (simp_all add: session_relation_axioms_def store_relation_axioms_def peers mono footprint_atoms
        composed_footprint grant_footprint)
qed

end
