(* ===== verification/Approval_Safety.thy ===== *)
theory Approval_Safety
  imports Call_Log Delegation Footprint "HOL-Library.Code_Target_Nat"
begin

text \<open>
  What approvals guarantee: a decision is made once, by someone who may make it; a decline settles the
  tool call with it; a commit token stands for one call with the arguments that were approved.
\<close>

section \<open>Decided once\<close>

text \<open>Of an approval that is no longer pending only the evidence may still change.\<close>

definition decided_stay :: "world \<Rightarrow> world \<Rightarrow> bool" where
  "decided_stay w w' \<longleftrightarrow>
     (\<forall>i a. tget (approvals w) i = Some a \<and> ap_status a \<noteq> ''pending'' \<longrightarrow>
        (\<exists>e. tget (approvals w') i = Some (a\<lparr>ap_evidence := e\<rparr>)))"

interpretation decided: relation_on_worlds decided_stay
proof
  show "decided_stay w w" for w
  proof -
    have "a = a\<lparr>ap_evidence := ap_evidence a\<rparr>" for a :: approval by simp
    then show ?thesis unfolding decided_stay_def by metis
  qed
  show "decided_stay u w" if uv: "decided_stay u v" and vw: "decided_stay v w" for u v w
    unfolding decided_stay_def
  proof (intro allI impI)
    fix i a assume a: "tget (approvals u) i = Some a \<and> ap_status a \<noteq> ''pending''"
    then obtain e where "tget (approvals v) i = Some (a\<lparr>ap_evidence := e\<rparr>)"
      using uv unfolding decided_stay_def by blast
    moreover have "ap_status (a\<lparr>ap_evidence := e\<rparr>) \<noteq> ''pending''" using a by simp
    ultimately obtain d where "tget (approvals w) i = Some (a\<lparr>ap_evidence := e\<rparr>\<lparr>ap_evidence := d\<rparr>)"
      using vw unfolding decided_stay_def by blast
    then show "\<exists>e. tget (approvals w) i = Some (a\<lparr>ap_evidence := e\<rparr>)" by auto
  qed
qed

text \<open>The workflow runtime leaves the tables of approvals and tool calls alone.\<close>

definition approval_tables :: "world \<Rightarrow> world \<Rightarrow> bool" where
  "approval_tables w w' \<longleftrightarrow> approvals w' = approvals w \<and> tool_calls w' = tool_calls w
     \<and> approval_commit_tokens w' = approval_commit_tokens w \<and> approval_groups w' = approval_groups w"

interpretation tables: relation_on_worlds approval_tables
  by unfold_locales (simp_all add: approval_tables_def)

lemma runtime_writes_tables: "runtime_writes \<le> approval_tables"
  by (auto simp: runtime_writes_def approval_tables_def)

lemmas table_ops = tables.resp_intros footprint_atoms [THEN footprint_mono, OF runtime_writes_tables]

lemma tables_decided: "approval_tables w w' \<Longrightarrow> decided_stay w w'"
  using decided.R_refl [of w] by (simp add: approval_tables_def decided_stay_def)

lemma runtime_writes_decided: "runtime_writes \<le> decided_stay"
  using runtime_writes_tables tables_decided by (auto simp: le_fun_def)

section \<open>Writes to approvals\<close>

text \<open>On a pending approval, or of the evidence alone.\<close>

lemma put_pending:
  assumes "tget (approvals w) i = Some a" and "ap_status a = ''pending''"
    and "approvals w' = tput i b (approvals w)"
  shows "decided_stay w w'"
  using assms decided.R_refl [of w] by (auto simp: decided_stay_def store_table.get_put)

lemma put_evidence:
  assumes "tget (approvals w) i = Some a" and "approvals w' = tput i (a\<lparr>ap_evidence := e\<rparr>) (approvals w)"
  shows "decided_stay w w'"
  using assms decided.R_refl [of w] unfolding decided_stay_def by (auto simp: store_table.get_put)

lemma same_approvals: "approvals w' = approvals w \<Longrightarrow> decided_stay w w'"
  using decided.R_refl [of w] by (simp add: decided_stay_def)

lemma decide_writes:
  "keeps decided_stay (create_approval_commit_token t)"
  "keeps decided_stay (consume_approval_commit_token S i)"
  "keeps decided_stay (store_decide_approval S i st)"
  "keeps decided_stay (update_approval_evidence i e)"
  unfolding keeps_def
  by (auto simp: create_approval_commit_token_def consume_approval_commit_token_def
      store_decide_approval_def update_approval_evidence_def get_approval_def bindS_def eff_simps
      now_utc_def Let_def ok_or_def intro: put_pending put_evidence same_approvals split: option.splits)

lemma modify_call_approvals: "approvals (snd (modify_tool_call_args S i args w)) = approvals w"
  by (simp add: modify_tool_call_args_def split: option.splits sum.splits prod.splits)

lemma store_modify_stays: "keeps decided_stay (store_modify_approval S i args c)"
  unfolding keeps_def
proof
  fix w
  show "decided_stay w (snd (store_modify_approval S i args c w))"
  proof (cases "tget (approvals w) i")
    case None
    then show ?thesis
      by (simp add: store_modify_approval_def get_approval_def bindS_def eff_simps ok_or_def decided.R_refl)
  next
    case (Some a)
    let ?w = "w\<lparr>ticks := Suc (ticks w)\<rparr>"
    let ?part = "case ap_tool_call_id a of None \<Rightarrow> retS () | Some j \<Rightarrow> modify_tool_call_args S j args"
    have part: "approvals (snd (?part v)) = approvals v" for v
      by (simp add: eff_simps modify_call_approvals split: option.splits)
    have shape: "store_modify_approval S i args c w =
        (if ap_status a \<noteq> ''pending'' then (Inl (bad_request ''only pending approvals can be modified''), w)
         else if is_some_and (ap_expires_at a) (\<lambda>t. t \<le> clock S (ticks w))
         then (Inl (bad_request ''approval expired''), ?w)
         else thenS ?part (\<lambda>w. let approval' = a\<lparr>ap_decision_payload := mk_obj
                    [(''modified_args'', args), (''comment'', jstr_opt c)]\<rparr>
            in (Inr approval', w\<lparr>approvals := tput i approval' (approvals w)\<rparr>)) ?w)"
      using Some by (simp add: store_modify_approval_def get_approval_def bindS_def eff_simps ok_or_def now_utc_def)
    obtain r w2 where r: "?part ?w = (r, w2)" by fastforce
    then have "approvals w2 = approvals w" using part [of ?w] by simp
    with r show ?thesis unfolding shape
      by (cases r) (auto simp: thenS_def bindS_def Let_def intro: same_approvals put_pending [OF Some])
  qed
qed

lemma commit_decline_stays:
  assumes "tget (approvals w) i = Some a"
  shows "decided_stay w (snd (commit_decline S i a v es as w))"
proof (cases "ap_status a = ''pending''")
  case True
  have "\<exists>b. approvals (snd (commit_decline S i a v es as w)) = tput i b (approvals w)"
    using True by (simp add: commit_decline_def bindS_def now_utc_def eff_simps Let_def split: prod.splits) blast
  with assms True show ?thesis by (blast intro: put_pending)
next
  case False
  then have "approvals (snd (commit_decline S i a v es as w)) = tput i (a\<lparr>ap_evidence := ap_evidence a\<rparr>) (approvals w)"
    by (simp add: commit_decline_def bindS_def now_utc_def eff_simps Let_def split: prod.splits)
  with assms show ?thesis by (rule put_evidence)
qed

lemma declined_records_tables: "keeps approval_tables (declined_approval_records S a v aty call)"
  unfolding declined_approval_records_def declined_tool_records_def declined_approval_event_def
    new_audit_log_def Let_def
  by (intro table_ops)

text \<open>What a decline does, up to its writes: it reads, and draws times and identifiers.\<close>

lemma decline_reaches_commit:
  assumes "decline_approval_and_tool_call S i v aty w = (r, w')"
  shows "approval_tables w w' \<and> (\<exists>e. r = Inl e)
   \<or> (\<exists>a. w' = w \<and> r = Inr (a, None, []) \<and> tget (approvals w) i = Some a
        \<and> ap_status a \<notin> {''pending'', ''expired''} \<and> v = ''expired'')
   \<or> (\<exists>a es as w1. approval_tables w w1 \<and> tget (approvals w) i = Some a
        \<and> (ap_status a = ''pending'' \<or> ap_status a = v) \<and> v \<in> {''rejected'', ''expired''}
        \<and> (\<forall>j. ap_tool_call_id a = Some j \<longrightarrow> tget (tool_calls w) j \<noteq> None)
        \<and> (\<forall>x \<in> fst ` set es. ev_session_id x = ap_session_id a)
        \<and> commit_decline S i a v es as w1 = (r, w'))"
proof (cases "tget (approvals w) i")
  case None
  with assms show ?thesis
    by (auto simp: decline_approval_and_tool_call_def get_approval_def bindS_def eff_simps ok_or_def
        tables.R_refl split: if_splits)
next
  case (Some a)
  let ?call = "case ap_tool_call_id a of None \<Rightarrow> Inr None
    | Some j \<Rightarrow> bindr (ok_or (not_found ''tool call not found'') (tget (tool_calls w) j)) (\<lambda>call. Inr (Some call))"
  let ?rep = "ap_status a = ''expired'' \<and> v = ''expired''"
  have get: "get_approval i w = (Inr a, w)" using Some by (simp add: get_approval_def eff_simps ok_or_def)
  show ?thesis
  proof (cases "v \<in> {''rejected'', ''expired''}")
    case False
    with assms show ?thesis
      by (auto simp: decline_approval_and_tool_call_def eff_simps tables.R_refl)
  next
    case v: True
    show ?thesis
    proof (cases "ap_status a \<noteq> ''pending'' \<and> ap_status a \<noteq> v")
      case True
      with assms v get Some show ?thesis
        by (auto simp: decline_approval_and_tool_call_def bindS_def eff_simps tables.R_refl split: if_splits)
    next
      case False
      have tail: "decline_approval_and_tool_call S i v aty w =
          bindS (liftS ?call) (\<lambda>call. bindS (declined_approval_records S a v aty call) (\<lambda>(events, audits).
            bindS (asksr (\<lambda>w. mapr (existing_event S w ?rep) events)) (\<lambda>existing_events.
            bindS (asksr (\<lambda>w. mapr (existing_audit S w ?rep) audits)) (\<lambda>existing_audits.
              commit_decline S i a v (zip events existing_events) (zip audits existing_audits))))) w"
      proof -
        from False have going: "(ap_status a \<noteq> ''pending'' \<and> ap_status a \<noteq> v) = False" by blast
        from v have verdict: "(v \<notin> {''rejected'', ''expired''}) = False" by blast
        show ?thesis
          unfolding decline_approval_and_tool_call_def Let_def verdict if_False
          by (simp only: bindS_def get going if_False sum.case prod.case asksr_def liftS_def)
      qed
      show ?thesis
      proof (cases ?call)
        case (Inl e)
        with assms tail have "r = Inl e \<and> approval_tables w w'"
          by (simp add: bindS_def eff_simps) (metis prod.inject tables.R_refl)
        then show ?thesis by blast
      next
        case call: (Inr call)
        have found: "\<forall>j. ap_tool_call_id a = Some j \<longrightarrow> tget (tool_calls w) j \<noteq> None"
          
        proof (intro allI impI notI)
          fix j assume "ap_tool_call_id a = Some j" and "tget (tool_calls w) j = None"
          with call show False by (simp add: bindr_def ok_or_def)
        qed
        obtain q w1 where rec: "declined_approval_records S a v aty call w = (q, w1)" by fastforce
        have t: "approval_tables w w1" using declined_records_tables rec by (rule keepsD)
        show ?thesis
        proof (cases q)
          case (Inl e)
          with assms tail call rec t have "r = Inl e \<and> approval_tables w w'"
            by (auto simp: bindS_def eff_simps)
          then show ?thesis by blast
        next
          case (Inr p)
          obtain es as where p: "p = (es, as)" by (cases p)
          note ses = declined_session [OF rec [unfolded Inr p]]
          have "fst ` set (zip es ys) \<subseteq> set es" for ys :: "session_event option list"
            by (auto dest: set_zip_leftD)
          with ses have ses': "\<forall>x \<in> fst ` set (zip es ys). ev_session_id x = ap_session_id a"
            for ys :: "session_event option list" by blast
          show ?thesis
          proof (cases "mapr (existing_event S w1 ?rep) es")
            case (Inl e)
            with assms tail call rec t \<open>q = Inr p\<close> p have "r = Inl e \<and> approval_tables w w'"
              by (auto simp: bindS_def eff_simps)
            then show ?thesis by blast
          next
            case ees: (Inr ees)
            show ?thesis
            proof (cases "mapr (existing_audit S w1 ?rep) as")
              case (Inl e)
              with assms tail call rec t \<open>q = Inr p\<close> p ees have "r = Inl e \<and> approval_tables w w'"
                by (auto simp: bindS_def eff_simps)
              then show ?thesis by blast
            next
              case (Inr eas)
              with assms tail call rec \<open>q = Inr p\<close> p ees
              have "commit_decline S i a v (zip es ees) (zip as eas) w1 = (r, w')"
                by (simp add: bindS_def eff_simps)
              with t Some False v found ses' show ?thesis by blast
            qed
          qed
        qed
      qed
    qed
  qed
qed

lemma decline_stays: "keeps decided_stay (decline_approval_and_tool_call S i v aty)"
  unfolding keeps_def
proof
  fix w
  obtain r w' where r: "decline_approval_and_tool_call S i v aty w = (r, w')" by fastforce
  have "decided_stay w w'"
    if *: "approval_tables w w1" "tget (approvals w) i = Some a" "commit_decline S i a v es as w1 = (r, w')"
    for a es as w1
  proof -
    from * have "tget (approvals w1) i = Some a" by (simp add: approval_tables_def)
    from commit_decline_stays [OF this, of S v es as] *(1,3) show ?thesis
      by (metis decided.R_trans tables_decided snd_conv)
  qed
  with decline_reaches_commit [OF r] tables_decided decided.R_refl have "decided_stay w w'" by blast
  with r show "decided_stay w (snd (decline_approval_and_tool_call S i v aty w))" by simp
qed

section \<open>Identifiers\<close>

text \<open>
  A new approval is inserted under an identifier drawn for it. What is decided stays whatever is inserted, as long
  as none of the identifiers drawn on the way is its own.
\<close>

definition decisions_stay :: "sys \<Rightarrow> world \<Rightarrow> world \<Rightarrow> bool" where
  "decisions_stay S w w' \<longleftrightarrow> uuids w \<le> uuids w'
     \<and> (\<forall>i a. tget (approvals w) i = Some a \<and> ap_status a \<noteq> ''pending''
          \<and> i \<notin> uuid_supply S ` {uuids w..<uuids w'} \<longrightarrow>
        (\<exists>e. tget (approvals w') i = Some (a\<lparr>ap_evidence := e\<rparr>)))"

interpretation decisions: relation_on_worlds "decisions_stay S" for S
proof
  show "decisions_stay S w w" for w
    using decided.R_refl [of w] by (simp add: decisions_stay_def decided_stay_def)
  show "decisions_stay S u w" if uv: "decisions_stay S u v" and vw: "decisions_stay S v w" for u v w
    unfolding decisions_stay_def
  proof (intro conjI allI impI)
    show "uuids u \<le> uuids w" using uv vw by (simp add: decisions_stay_def)
    fix i a assume a: "tget (approvals u) i = Some a \<and> ap_status a \<noteq> ''pending''
      \<and> i \<notin> uuid_supply S ` {uuids u..<uuids w}"
    moreover have "{uuids u..<uuids w} = {uuids u..<uuids v} \<union> {uuids v..<uuids w}"
      using uv vw by (auto simp: decisions_stay_def)
    ultimately obtain e where e: "tget (approvals v) i = Some (a\<lparr>ap_evidence := e\<rparr>)"
      and later: "i \<notin> uuid_supply S ` {uuids v..<uuids w}"
      using uv unfolding decisions_stay_def by blast
    from a have "ap_status (a\<lparr>ap_evidence := e\<rparr>) \<noteq> ''pending''" by simp
    with e later obtain d where "tget (approvals w) i = Some (a\<lparr>ap_evidence := e\<rparr>\<lparr>ap_evidence := d\<rparr>)"
      using vw unfolding decisions_stay_def by blast
    then show "\<exists>e. tget (approvals w) i = Some (a\<lparr>ap_evidence := e\<rparr>)" by auto
  qed
qed

text \<open>Identifiers are drawn in order.\<close>

definition ids_drawn :: "world \<Rightarrow> world \<Rightarrow> bool" where
  "ids_drawn w w' \<longleftrightarrow> uuids w \<le> uuids w'"

interpretation ids: relation_on_worlds ids_drawn
  by unfold_locales (simp_all add: ids_drawn_def)

lemma same_ids: "(\<And>w. uuids (snd (m w)) = uuids w) \<Longrightarrow> keeps ids_drawn m"
  by (simp add: keeps_def ids_drawn_def)

lemma tool_tables_same_ids:
  "keeps ids_drawn (now_utc S)" "keeps ids_drawn (push_events s es)" "keeps ids_drawn (modifyS (put_tool_call c))"
  "keeps ids_drawn (modifyS (put_audit e))" "keeps ids_drawn (create_approval_commit_token t)"
  "keeps ids_drawn (\<lambda>w. (Inr x1, w\<lparr>approvals := f1 w\<rparr>))"
  "keeps ids_drawn (\<lambda>w. (Inr x2, w\<lparr>approval_commit_tokens := f2 w\<rparr>))"
  "keeps ids_drawn (\<lambda>w. (Inr x3, w\<lparr>tool_calls := f3 w\<rparr>))"
  "keeps ids_drawn (modify_tool_call_args S i v)"
  by (rule same_ids;
      simp add: now_utc_def push_events_def put_tool_call_def put_audit_def eff_simps
        create_approval_commit_token_def modify_tool_call_args_def Let_def
        split: option.splits sum.splits prod.splits)+

lemma new_id_drawn: "keeps ids_drawn (new_v4 S)"
  by (simp add: keeps_def new_v4_def ids_drawn_def)

lemma commit_decline_ids: "keeps ids_drawn (commit_decline S i a v es as)"
  by (rule same_ids) (simp add: commit_decline_def bindS_def now_utc_def eff_simps Let_def split: prod.splits sum.splits)

lemmas id_ops = ids.resp_intros tool_tables_same_ids new_id_drawn commit_decline_ids

lemma approvals_draw_ids:
  "keeps ids_drawn (create_approval_commit_token t)"
  "keeps ids_drawn (consume_approval_commit_token S i)"
  "keeps ids_drawn (store_decide_approval S i s)" "keeps ids_drawn (update_approval_evidence i e)"
  "keeps ids_drawn (store_modify_approval S i args c)"
  "keeps ids_drawn (decline_approval_and_tool_call S i v aty)"
  unfolding consume_approval_commit_token_def store_decide_approval_def update_approval_evidence_def
    store_modify_approval_def decline_approval_and_tool_call_def get_approval_def
    declined_approval_records_def declined_tool_records_def declined_approval_event_def new_audit_log_def Let_def
  by (intro id_ops)+

lemma decided_and_drawn: "keeps decided_stay m \<Longrightarrow> keeps ids_drawn m \<Longrightarrow> keeps (decisions_stay S) m"
  by (simp add: keeps_def decided_stay_def ids_drawn_def decisions_stay_def)

text \<open>The start, the result and the status of a tool call leave the approvals as they are.\<close>

definition beside_approvals :: "world \<Rightarrow> world \<Rightarrow> bool" where
  "beside_approvals w w' \<longleftrightarrow> approvals w' = approvals w \<and> uuids w \<le> uuids w'"

interpretation beside: relation_on_worlds beside_approvals
  by unfold_locales (auto simp: beside_approvals_def)

lemma beside_decisions: "beside_approvals \<le> decisions_stay S"
proof (intro le_funI le_boolI)
  fix w w' assume "beside_approvals w w'"
  then show "decisions_stay S w w'"
    using decided.R_refl [of w] by (auto simp: beside_approvals_def decisions_stay_def decided_stay_def)
qed

lemma beside_keeps: "keeps beside_approvals m \<Longrightarrow> keeps (decisions_stay S) m"
  using beside_decisions by (simp add: keeps_def le_fun_def)

lemma call_atoms_beside:
  "keeps beside_approvals (now_utc S)" "keeps beside_approvals (new_v4 S)"
  "keeps beside_approvals (push_events s es)" "keeps beside_approvals (modifyS (put_tool_call c))"
  "keeps beside_approvals (modifyS (put_audit e))"
  "keeps beside_approvals (\<lambda>w. (Inr x3, w\<lparr>tool_calls := f3 w\<rparr>))"
  "keeps beside_approvals (tool_call_admission n g)" "keeps beside_approvals (charge_tool_call n g)"
  by (simp_all add: keeps_def beside_approvals_def now_utc_def new_v4_def push_events_def put_tool_call_def put_audit_def
      eff_simps tool_call_admission_def charge_tool_call_def thenS_def bindS_def whenS_def expire_grant_def Let_def
      split: option.splits sum.splits prod.splits)

lemmas beside_ops = beside.resp_intros call_atoms_beside

lemma calls_beside:
  "keeps beside_approvals (commit_tool_invocation_start S c i n)"
  "keeps beside_approvals (commit_tool_invocation_result S i s r og)"
  "keeps beside_approvals (update_tool_call_status S i s res err)"
  unfolding commit_tool_invocation_start_def commit_tool_invocation_result_def
    update_tool_call_status_def get_tool_call_def get_session_def tool_invocation_records_def
    tool_invocation_result_records_def invocation_event_def new_audit_log_def reserve_invocation_def
    task_grant_lineage_def Let_def
  by (intro beside_ops)+

lemma issue_stays:
  assumes "\<And>i. ap_id (f i) = i \<and> ap_status (f i) = ''pending''"
  shows "keeps (decisions_stay S) (bindS (new_v4 S) (\<lambda>i. insert_approval (f i)))"
  unfolding keeps_def
proof
  fix w :: world
  let ?i = "uuid_supply S (uuids w)"
  let ?w = "snd (bindS (new_v4 S) (\<lambda>i. insert_approval (f i)) w)"
  have "approvals ?w = tput ?i (f ?i) (approvals w)" and "uuids ?w = Suc (uuids w)"
    using assms by (simp_all add: bindS_def new_v4_def insert_approval_def)
  with decided.R_refl [of w] show "decisions_stay S w ?w"
    by (auto simp add: decisions_stay_def decided_stay_def store_table.get_put atLeastLessThanSuc)
qed

section \<open>All operations\<close>

lemma decisions_relations:
  assumes "neighbours_respect (decisions_stay S) P A T H"
  shows "store_relation (decisions_stay S) S P" "tool_relation (decisions_stay S) S P A T"
    "handoff_relation (decisions_stay S) S P A H"
proof -
  have "runtime_writes \<le> beside_approvals"
    by (auto simp: runtime_writes_def beside_approvals_def)
  then have writes: "runtime_writes \<le> decisions_stay S" using beside_decisions by (rule order_trans)
  note N = assms [unfolded neighbours_respect_def]
  show store: "store_relation (decisions_stay S) S P"
    using N by (intro footprint_store_relation decisions.relation_on_worlds_axioms writes) blast
  show "tool_relation (decisions_stay S) S P A T"
    using N
    by (intro tool_relation.intro tool_relation_axioms.intro approval_relation.intro approval_relation_axioms.intro store
        issue_stays decided_and_drawn decide_writes store_modify_stays decline_stays approvals_draw_ids
        calls_beside [THEN beside_keeps]) blast+
  show "handoff_relation (decisions_stay S) S P A H"
  proof (rule handoff_relation_of [OF store])
    show "handoff_neighbours_respect (decisions_stay S) A H" using N by blast
    fix w w' assume beside: "beside_handoffs w w'"
    then have "approvals w' = approvals w" by (subst beside [unfolded beside_handoffs_def]) simp
    with beside_handoffs_other(3) [OF beside] have "beside_approvals w w'" by (simp add: beside_approvals_def)
    with beside_decisions show "decisions_stay S w w'" by (simp add: le_fun_def)
  qed
qed

interpretation decided_idle: tool_relation "decisions_stay S" S idle_peers idle_approvals idle_tools for S
  by (rule decisions_relations(2) [OF idle_all_respect]) unfold_locales

text \<open>
  C30. A decision is made once. Whatever operations of the workflow runtime, invocations of tools, handlers of
  approvals (the due run included) and handoffs run, in whatever order and whether they succeed or fail, an
  approval that is approved, rejected or expired keeps its status, the time of its decision and everything else but
  its evidence, as long as none of the identifiers drawn on the way equals its own: an invocation inserts its
  approval under a drawn identifier without asking whether there is one.
\<close>

theorem decided_once:
  assumes "neighbours_respect (decisions_stay S) P A T H"
    and "(\<lambda>u v. operation S P u v \<or> tool_operation S P A T u v \<or> handoff_operation S P A H u v)\<^sup>*\<^sup>* w w'"
    and "tget (approvals w) i = Some a" and "ap_status a \<noteq> ''pending''"
    and "i \<notin> uuid_supply S ` {uuids w..<uuids w'}"
  shows "\<exists>e. tget (approvals w') i = Some (a\<lparr>ap_evidence := e\<rparr>)"
proof -
  note rels = decisions_relations [OF assms(1)]
  have "decisions_stay S w w'"
    using assms(2)
  proof (induction rule: rtranclp_induct)
    case base
    show ?case by (rule decisions.R_refl)
  next
    case (step u v)
    from step.hyps(2) have "decisions_stay S u v"
      using operation_keeps [OF rels(1)] tool_operation_keeps [OF rels(2)] handoff_operation_keeps [OF rels(3)] by blast
    with step.IH show ?case by (rule decisions.R_trans)
  qed
  with assms(3-5) show ?thesis unfolding decisions_stay_def by blast
qed

text \<open>An approval of the call that reads a file, and someone who may decide.\<close>

definition pending_approval :: approval where
  "pending_approval =
     \<lparr>ap_id = 30, ap_session_id = 5, ap_tool_call_id = Some 9, ap_action = ''file.read'',
      ap_risk_level = ''low'', ap_reason = ''r'', ap_evidence = JObj [], ap_decision_payload = JObj [],
      ap_status = ''pending'', ap_expires_at = Some (86400 * 1000000000), ap_created_at = 0,
      ap_decided_at = None\<rparr>"

definition waiting_call :: tool_call where
  "waiting_call =
     \<lparr>tc_id = 9, tc_session_id = 5, tc_event_id = Some 8, tc_tool_name = ''file.read'',
      tc_args = JObj [], tc_task_grant_id = None, tc_normalized_args_hash = None,
      tc_target_binding = JObj [], tc_status = ''waiting_approval'', tc_risk_level = ''low'',
      tc_policy_decision = JObj [], tc_result = None, tc_error = None, tc_started_at = None,
      tc_completed_at = None, tc_created_at = 0\<rparr>"

definition asking_world :: world where
  "asking_world = calling_world\<lparr>approvals := [(30, pending_approval)], tool_calls := [(9, waiting_call)]\<rparr>"

definition approver :: principal where
  "approver = \<lparr>pr_tenant_id = 0, pr_subject_id = ''ann'', pr_roles = [RoleApprover]\<rparr>"

definition turn_down :: "world \<Rightarrow> approval res \<times> world" where
  "turn_down = reject sample_sys idle_peers idle_approvals approver 30"

definition give_leave :: "world \<Rightarrow> approval res \<times> world" where
  "give_leave = approve sample_sys idle_peers idle_approvals approver 30"

lemma decided_once_witness:
  "\<exists>a e. tget (approvals (snd (turn_down asking_world))) 30 = Some a \<and> ap_status a = ''rejected''
     \<and> tget (approvals (snd (give_leave (snd (turn_down asking_world))))) 30 = Some (a\<lparr>ap_evidence := e\<rparr>)"
proof -
  have "succeeds (turn_down asking_world) (\<lambda>a w. tget (approvals w) 30 = Some a \<and> ap_status a = ''rejected''
      \<and> uuids (snd (give_leave w)) = 2)"
    by code_simp
  then obtain a w where down: "turn_down asking_world = (Inr a, w)"
      "tget (approvals w) 30 = Some a" "ap_status a = ''rejected''" "uuids (snd (give_leave w)) = 2"
    by (rule succeedsE) blast
  have steps: "(\<lambda>u v. operation sample_sys idle_peers u v
      \<or> tool_operation sample_sys idle_peers idle_approvals idle_tools u v
      \<or> handoff_operation sample_sys idle_peers idle_approvals idle_handoffs u v)\<^sup>*\<^sup>* w (snd (give_leave w))"
    unfolding give_leave_def
    by (intro r_into_rtranclp disjI2 disjI1 tool_operation.decide approval_operation.approved)
  have idle: "neighbours_respect (decisions_stay sample_sys) idle_peers idle_approvals idle_tools idle_handoffs"
    by (rule idle_all_respect) unfold_locales
  have fresh: "30 \<notin> uuid_supply sample_sys ` {uuids w..<uuids (snd (give_leave w))}"
    using down(4) by (auto simp: sample_sys_def)
  have "ap_status a \<noteq> ''pending''" using down(3) by simp
  from decided_once [OF idle steps down(2) this fresh] obtain e where
    e: "tget (approvals (snd (give_leave w))) 30 = Some (a\<lparr>ap_evidence := e\<rparr>)" ..
  show ?thesis
    unfolding down(1) snd_conv by (intro exI conjI) (fact down(2,3) e)+
qed

section \<open>A decline and its tool call\<close>

text \<open>What a decline of a pending approval leaves of the tool call it asked for.\<close>

definition declined_call :: "sys \<Rightarrow> approval \<Rightarrow> string \<Rightarrow> timestamp \<Rightarrow> tool_call \<Rightarrow> tool_call" where
  "declined_call S a v t call =
     call\<lparr>tc_status := ''denied'', tc_completed_at := Some t, tc_result := Some (declined_result (lib S) a v),
          tc_error := None\<rparr>"

definition settled_together :: "sys \<Rightarrow> uuid \<Rightarrow> string \<Rightarrow> approval \<Rightarrow> world \<Rightarrow> world \<Rightarrow> bool" where
  "settled_together S i v a w w' \<longleftrightarrow>
     (\<exists>decided. tget (approvals w') i = Some (a\<lparr>ap_status := v, ap_decided_at := Some decided\<rparr>))
     \<and> (\<forall>k. k \<noteq> i \<longrightarrow> tget (approvals w') k = tget (approvals w) k)
     \<and> (\<forall>k call. tget (tool_calls w) k = Some call \<longrightarrow>
          (if ap_tool_call_id a = Some k \<and> tc_status call = ''waiting_approval''
           then (\<exists>t. tget (tool_calls w') k = Some (declined_call S a v t call))
           else tget (tool_calls w') k = Some call))"

text \<open>The writes of a decline, spelled out.\<close>

lemma commit_decline_pending:
  assumes "ap_status a = ''pending''" and "commit_decline S i a v es as w = (r, w')"
  shows "\<exists>x t now. r = Inr x \<and> approvals w' = tput i (a\<lparr>ap_status := v, ap_decided_at := Some now\<rparr>) (approvals w)
    \<and> tool_calls w' = (case Option.bind (ap_tool_call_id a) (tget (tool_calls w)) of
         None \<Rightarrow> tool_calls w
       | Some call \<Rightarrow> tput (the (ap_tool_call_id a))
           (decline_tool_call t (declined_result (lib S) a v) call) (tool_calls w))"
  using assms(2) unfolding commit_decline_def assms(1)
  by (cases "ap_tool_call_id a")
    (auto simp: bindS_def now_utc_def eff_simps Let_def split: prod.splits option.splits)

lemma commit_decline_settles:
  assumes "tget (approvals w) i = Some a" and "ap_status a = ''pending''"
    and "commit_decline S i a v es as w = (r, w')"
  shows "(\<exists>x. r = Inr x) \<and> settled_together S i v a w w'"
proof -
  obtain x t now where
    r: "r = Inr x" and
    as: "approvals w' = tput i (a\<lparr>ap_status := v, ap_decided_at := Some now\<rparr>) (approvals w)" and
    calls: "tool_calls w' = (case Option.bind (ap_tool_call_id a) (tget (tool_calls w)) of
         None \<Rightarrow> tool_calls w
       | Some call \<Rightarrow> tput (the (ap_tool_call_id a))
           (decline_tool_call t (declined_result (lib S) a v) call) (tool_calls w))"
    using commit_decline_pending [OF assms(2,3)] by blast
  have "if ap_tool_call_id a = Some k \<and> tc_status call = ''waiting_approval''
        then (\<exists>t. tget (tool_calls w') k = Some (declined_call S a v t call))
        else tget (tool_calls w') k = Some call"
    if call: "tget (tool_calls w) k = Some call" for k call
    using call unfolding calls
    by (cases "ap_tool_call_id a")
      (auto simp: store_table.get_put decline_tool_call_def declined_call_def split: option.split)
  moreover from as have "tget (approvals w') i = Some (a\<lparr>ap_status := v, ap_decided_at := Some now\<rparr>)"
    "\<And>k. k \<noteq> i \<Longrightarrow> tget (approvals w') k = tget (approvals w) k"
    by (simp_all add: store_table.get_put)
  ultimately show ?thesis using r unfolding settled_together_def by blast
qed

text \<open>
  A pending approval is declined together with the tool call it was asked for, or not at all: when
  rejecting or expiring it fails, no approval and no tool call has changed; when it succeeds the approval
  carries the verdict, its waiting call is denied with the decline as its result, and every other
  approval and call is as it was.
\<close>

theorem decline_settles:
  assumes "decline_approval_and_tool_call S i v aty w = (r, w')"
    and "tget (approvals w) i = Some a" and "ap_status a = ''pending''"
  shows "case r of
      Inl e \<Rightarrow> approvals w' = approvals w \<and> tool_calls w' = tool_calls w
    | Inr (b, c, es) \<Rightarrow> v \<in> {''rejected'', ''expired''} \<and> settled_together S i v a w w'"
proof -
  have "settled_together S i v a w w' \<and> (\<exists>x. r = Inr x)"
    if *: "approval_tables w w1" "commit_decline S i a v es as w1 = (r, w')" for es as w1
  proof -
    from *(1) have same: "approvals w1 = approvals w" "tool_calls w1 = tool_calls w"
      by (simp_all add: approval_tables_def)
    from commit_decline_settles [OF _ assms(3) *(2)] same assms(2)
    have "(\<exists>x. r = Inr x) \<and> settled_together S i v a w1 w'" by simp
    with same show ?thesis by (simp add: settled_together_def)
  qed
  note reached = this
  from decline_reaches_commit [OF assms(1)] consider
      e where "approval_tables w w'" "r = Inl e"
    | b where "tget (approvals w) i = Some b" "ap_status b \<notin> {''pending'', ''expired''}"
    | b es as w1 where "approval_tables w w1" "tget (approvals w) i = Some b"
        "v \<in> {''rejected'', ''expired''}" "commit_decline S i b v es as w1 = (r, w')" by blast
  then show ?thesis
  proof cases
    case 1
    then show ?thesis by (simp add: approval_tables_def)
  next
    case 2
    with assms(2,3) show ?thesis by simp
  next
    case 3
    with assms(2) have "b = a" by simp
    from reached [OF 3(1) 3(4) [unfolded this]] 3(3) show ?thesis by (auto split: prod.split)
  qed
qed

lemma decline_settles_witness:
  "\<exists>w'. snd (decline_approval_and_tool_call sample_sys 30 ''rejected'' ''user'' asking_world) = w'
     \<and> settled_together sample_sys 30 ''rejected'' pending_approval asking_world w'"
proof -
  have "succeeds (decline_approval_and_tool_call sample_sys 30 ''rejected'' ''user'' asking_world) (\<lambda>x w. True)"
    by code_simp
  then obtain x w' where d: "decline_approval_and_tool_call sample_sys 30 ''rejected'' ''user'' asking_world = (Inr x, w')"
    by (rule succeedsE)
  have pending: "tget (approvals asking_world) 30 = Some pending_approval" "ap_status pending_approval = ''pending''"
    by (simp add: asking_world_def, simp add: pending_approval_def)
  from decline_settles [OF d pending]
  have "settled_together sample_sys 30 ''rejected'' pending_approval asking_world w'"
    by (cases x) (simp only: sum.case prod.case)
  then show ?thesis unfolding d snd_conv by blast
qed

section \<open>Commit tokens\<close>

text \<open>What is asked of a token before a call is made with it.\<close>

definition token_binds :: "sys \<Rightarrow> world \<Rightarrow> approval \<Rightarrow> tool_call \<Rightarrow> approval_commit_token \<Rightarrow> bool" where
  "token_binds S w approval call t \<longleftrightarrow>
     ct_approval_id t = ap_id approval \<and> ct_status t = ''issued'' \<and> clock S (ticks w) < ct_expires_at t
     \<and> ct_tool_call_id t = tc_id call \<and> ct_session_id t = ap_session_id approval
     \<and> ct_tool_name t = tc_tool_name call
     \<and> (\<exists>grant. tc_task_grant_id call = Some (ct_task_grant_id t)
          \<and> tget (task_grants w) (ct_task_grant_id t) = Some grant
          \<and> tg_status grant = ''active'' \<and> task_grant_requires_approval_commit_token grant (tc_tool_name call)
          \<and> task_grant_connector_invocation_denial grant (tc_tool_name call) (tc_args call) = Inr None)
     \<and> approval_commit_binding_for_args (lib S) (tc_tool_name call) (tc_args call) =
         Inr \<lparr>cb_normalized_args_hash = ct_normalized_args_hash t, cb_target_binding = ct_target_binding t\<rparr>"

lemma not_denied_eq_Inr: "not_denied d w = (Inr u, w') \<longleftrightarrow> d = None \<and> w' = w"
  by (auto simp: not_denied_def eff_simps split: option.splits)

lemma validated_token:
  assumes "validate_approval_commit_token_for_tool_call S approval call w = (Inr t, w')"
  shows "token_binds S w approval call t \<and> t \<in> snd ` set (approval_commit_tokens w)
    \<and> approval_commit_tokens w' = approval_commit_tokens w"
  using assms
  by (auto simp: validate_approval_commit_token_for_tool_call_def effs_Inr now_utc_def not_denied_eq_Inr
      approval_commit_token_for_approval_def get_task_grant_def ok_or_eq_Inr token_binds_def set_tvalues
      dest!: find_first_SomeD)

text \<open>The table of tokens: each under its id, and one for an approval.\<close>

definition tokens_ok :: "approval_commit_token table \<Rightarrow> bool" where
  "tokens_ok ts \<longleftrightarrow> distinct (map fst ts) \<and> (\<forall>(k, t) \<in> set ts. ct_id t = k)
     \<and> distinct (map (ct_approval_id \<circ> snd) ts)"

lemma tokens_ok_get:
  assumes "tokens_ok ts" and "t \<in> snd ` set ts"
  shows "tget ts (ct_id t) = Some t"
  using assms by (auto simp: tokens_ok_def)

lemma update_known:
  assumes "distinct (map fst ts)" and "map_of ts k = Some t" and "f u = f t"
  shows "map (f \<circ> snd) (AList.update k u ts) = map (f \<circ> snd) ts"
  using assms by (induction ts) (auto split: if_splits)

lemma tokens_ok_put:
  assumes "tokens_ok ts" and "tget ts k = Some t" and "ct_id u = ct_id t" and "ct_approval_id u = ct_approval_id t"
  shows "tokens_ok (tput k u ts)"
proof -
  from assms(1,2) have k: "ct_id t = k" by (auto simp: tokens_ok_def dest: map_of_SomeD)
  have "set (AList.update k u ts) \<subseteq> insert (k, u) (set ts)" by (induction ts) auto
  with assms k have "\<forall>(j, t) \<in> set (tput k u ts). ct_id t = j" unfolding tokens_ok_def by fastforce
  moreover have "distinct (map fst (tput k u ts))"
    using assms(1) by (simp add: tokens_ok_def distinct_update)
  ultimately show ?thesis
    using assms by (simp add: tokens_ok_def update_known)
qed

lemma one_token:
  assumes "tokens_ok ts" and "s \<in> snd ` set ts" and "t \<in> snd ` set ts" and "ct_approval_id s = ct_approval_id t"
  shows "s = t"
proof -
  from assms(1) have "inj_on (ct_approval_id \<circ> snd) (set ts)" by (simp add: tokens_ok_def distinct_map)
  moreover from assms(2,3) obtain i j where "(i, s) \<in> set ts" and "(j, t) \<in> set ts" by auto
  ultimately have "(i, s) = (j, t)" using assms(4) by (auto dest: inj_onD [of _ _ "(i, s)" "(j, t)"])
  then show ?thesis by simp
qed

lemma logs_keep_tokens:
  "keeps approval_tables (append_event S aty ai s et p)"
  "keeps approval_tables (audit S sess aty ai act rt rid pl)"
  unfolding append_event_def audit_def new_audit_log_def Let_def by (intro table_ops)+

text \<open>The token was found, and is marked in its place.\<close>

lemma consumed_token:
  assumes "consume_valid_approval_commit_token_for_tool_call S approval call w = (Inr c, w')"
    and "tokens_ok (approval_commit_tokens w)"
  shows "\<exists>t now. token_binds S w approval call t \<and> t \<in> snd ` set (approval_commit_tokens w)
    \<and> c = t\<lparr>ct_status := ''consumed'', ct_consumed_at := Some now\<rparr>
    \<and> approval_commit_tokens w' = tput (ct_id t) c (approval_commit_tokens w)"
proof -
  from assms(1) obtain t w1 w2 where
    v: "validate_approval_commit_token_for_tool_call S approval call w = (Inr t, w1)" and
    c: "consume_approval_commit_token S (ct_id t) w1 = (Inr c, w2)" and
    tail: "approval_commit_tokens w' = approval_commit_tokens w2"
    by (auto simp: consume_valid_approval_commit_token_for_tool_call_def Let_def effs_Inr
        approval_tables_def dest!: keepsD [OF logs_keep_tokens(1)] keepsD [OF logs_keep_tokens(2)])
  from validated_token [OF v] tokens_ok_get [OF assms(2)] c tail show ?thesis
    by (auto simp: consume_approval_commit_token_def effs_Inr now_utc_def ok_or_eq_Inr Let_def)
qed

text \<open>
  C31. What a commit token guards, and what it does not. When a tool call uses the token of its
  approval (the validation and the consumption as one), the token was issued for that call, in its session, for its
  tool and its task grant, was not consumed or expired, the grant was active and still admits the call, and the
  digest and the target that were approved are those of the arguments the call has now. The token is marked as
  consumed, and as long as it is stored so and is the only one of its approval, every later use as a
  whole fails. The consumption alone asks for no status: whoever validated a token before it was consumed
  consumes it again.
\<close>

theorem commit_token_binds_call:
  assumes "consume_valid_approval_commit_token_for_tool_call S approval call w = (Inr c, w')"
    and "tokens_ok (approval_commit_tokens w)"
  shows "(\<exists>t now. token_binds S w approval call t \<and> tget (approval_commit_tokens w) (ct_id t) = Some t
      \<and> c = t\<lparr>ct_status := ''consumed'', ct_consumed_at := Some now\<rparr>)
    \<and> tget (approval_commit_tokens w') (ct_id c) = Some c
    \<and> tokens_ok (approval_commit_tokens w')
    \<and> (\<forall>S' again call' v. ap_id again = ap_id approval \<and> tokens_ok (approval_commit_tokens v)
         \<and> tget (approval_commit_tokens v) (ct_id c) = Some c \<longrightarrow>
         (\<exists>e v'. consume_valid_approval_commit_token_for_tool_call S' again call' v = (Inl e, v')))
    \<and> (\<forall>S' v d. tget (approval_commit_tokens v) (ct_id c) = Some d \<longrightarrow>
         (\<exists>d' v'. consume_approval_commit_token S' (ct_id c) v = (Inr d', v')))"
proof -
  obtain t now where
    t: "token_binds S w approval call t" "t \<in> snd ` set (approval_commit_tokens w)" and
    c: "c = t\<lparr>ct_status := ''consumed'', ct_consumed_at := Some now\<rparr>" and
    w': "approval_commit_tokens w' = tput (ct_id t) c (approval_commit_tokens w)"
    using consumed_token [OF assms] by blast
  note get = tokens_ok_get [OF assms(2) t(2)]
  have put: "tget (approval_commit_tokens w') (ct_id c) = Some c" by (simp add: w' c store_table.get_put)
  have ok: "tokens_ok (approval_commit_tokens w')"
    unfolding w' using assms(2) get by (rule tokens_ok_put) (simp_all add: c)
  have "\<exists>e v'. consume_valid_approval_commit_token_for_tool_call S' again call' v = (Inl e, v')"
    if again: "ap_id again = ap_id approval" "tokens_ok (approval_commit_tokens v)"
      "tget (approval_commit_tokens v) (ct_id c) = Some c" for S' again call' v
  proof (rule ccontr)
    assume "\<not> ?thesis"
    then obtain d v' where "consume_valid_approval_commit_token_for_tool_call S' again call' v = (Inr d, v')"
      by (metis surj_pair sum.exhaust)
    from consumed_token [OF this again(2)] obtain u where
      u: "token_binds S' v again call' u" "u \<in> snd ` set (approval_commit_tokens v)" by blast
    have "ct_approval_id u = ct_approval_id c" using u(1) t(1) again(1) by (simp add: token_binds_def c)
    moreover from again(3) have "c \<in> snd ` set (approval_commit_tokens v)" by (force dest: map_of_SomeD)
    ultimately have "u = c" using one_token [OF again(2) u(2)] by blast
    with u(1) show False by (simp add: token_binds_def c)
  qed
  moreover have "\<exists>d' v'. consume_approval_commit_token S' (ct_id c) v = (Inr d', v')"
    if "tget (approval_commit_tokens v) (ct_id c) = Some d" for S' v d
    using that by (simp add: consume_approval_commit_token_def bindS_def eff_simps now_utc_def ok_or_def Let_def)
  ultimately show ?thesis using t(1) get put ok c by blast
qed

text \<open>A call that writes outside, the grant that lets it, and the token of its approval.\<close>

definition posting_args :: json where
  "posting_args = mk_obj [(''connector_id'', JStr ''crm''), (''operation'', JStr ''drop''),
     (''side_effect_class'', JStr ''write'')]"

definition posting_grant :: task_grant where
  "posting_grant =
     (scoped_grant 40 None (JObj []) (mk_obj
        [(''mode'', JStr ''commit_write''), (''allowed_connector_ids'', JArr [JStr ''crm'']),
         (''allowed_tool_names'', JArr [JStr ''drop'']), (''side_effect_classes'', JArr [JStr ''write''])]))
       \<lparr>tg_external_effects := mk_obj [(''write'', JBool True)]\<rparr>"

definition posting_call :: tool_call where
  "posting_call = waiting_call\<lparr>tc_tool_name := ''native.connector.call'', tc_args := posting_args,
     tc_task_grant_id := Some 40\<rparr>"

definition posting_binding :: approval_commit_binding where
  "posting_binding = (case approval_commit_binding_for_args sample_lib ''native.connector.call'' posting_args of
     Inr b \<Rightarrow> b | Inl e \<Rightarrow> \<lparr>cb_normalized_args_hash = [], cb_target_binding = JNull\<rparr>)"

definition posting_token :: approval_commit_token where
  "posting_token =
     \<lparr>ct_id = 41, ct_approval_id = 30, ct_tool_call_id = 9, ct_task_grant_id = 40, ct_session_id = 5,
      ct_tool_name = ''native.connector.call'',
      ct_normalized_args_hash = cb_normalized_args_hash posting_binding,
      ct_target_binding = cb_target_binding posting_binding, ct_approver_subject = ''ann'',
      ct_status = ''issued'', ct_expires_at = 900 * 1000000000, ct_consumed_at = None, ct_created_at = 0\<rparr>"

definition posting_world :: world where
  "posting_world = asking_world\<lparr>task_grants := [(40, posting_grant)],
     approval_commit_tokens := [(41, posting_token)], tool_calls := [(9, posting_call)]\<rparr>"

definition use_token :: "world \<Rightarrow> approval_commit_token res \<times> world" where
  "use_token = consume_valid_approval_commit_token_for_tool_call sample_sys pending_approval posting_call"

lemma commit_token_binds_call_witness:
  "\<exists>c e d. fst (use_token posting_world) = Inr c \<and> fst (use_token (snd (use_token posting_world))) = Inl e
     \<and> fst (consume_approval_commit_token sample_sys (ct_id c) (snd (use_token posting_world))) = Inr d"
proof -
  have "succeeds (use_token posting_world) (\<lambda>c w. True)" by code_simp
  then obtain c w where used: "use_token posting_world = (Inr c, w)" by (rule succeedsE)
  have "tokens_ok (approval_commit_tokens posting_world)"
    by (simp add: tokens_ok_def posting_world_def posting_token_def)
  note use = commit_token_binds_call [OF used [unfolded use_token_def] this]
  from use obtain e v where "use_token w = (Inl e, v)" unfolding use_token_def by blast
  moreover from use obtain d u where "consume_approval_commit_token sample_sys (ct_id c) w = (Inr d, u)" by blast
  ultimately show ?thesis using used by simp
qed

section \<open>Who may decide\<close>

text \<open>
  C32. An approval is decided by someone who may: of the tenant the process serves, with a role that
  decides approvals and access to the session of the approval, and an administrator, or else the
  subject the approval is delegated to, or, when it names none, a member of the group it is delegated to,
  or, when it names neither, anyone of those while its risk is not high.
\<close>

theorem decided_by_authority:
  assumes "approve S P A who i w = (Inr a, w') \<or> reject S P A who i w = (Inr a, w')
      \<or> modify_approval S A who i args comment w = (Inr a, w')"
  shows "pr_tenant_id who = current_tenant_id A
    \<and> (\<exists>role \<in> set (pr_roles who). role_allows_permission role ApprovalsDecide)
    \<and> (\<exists>b. tget (approvals w) i = Some b
        \<and> fst (enforce_resource_scope A who \<lparr>ar_tenant_id = current_tenant_id A, ar_permission = SessionsRead,
            ar_resource_type = ''session'', ar_resource_id = Some (ap_session_id b)\<rparr> w) = Inr ()
        \<and> (RoleAdmin \<in> set (pr_roles who)
           \<or> (case delegated_approver_subject b of
                Some subject \<Rightarrow> pr_subject_id who = subject
              | None \<Rightarrow>
                  (case delegated_approver_group_id (lib S) b of
                     Some g \<Rightarrow> \<exists>v gr. enforce_resource_scope A who
                         \<lparr>ar_tenant_id = current_tenant_id A, ar_permission = SessionsRead,
                          ar_resource_type = ''session'', ar_resource_id = Some (ap_session_id b)\<rparr> w = (Inr (), v)
                       \<and> tget (approval_groups v) g = Some gr \<and> pr_subject_id who \<in> set (gp_subjects gr)
                   | None \<Rightarrow> ap_risk_level b \<noteq> ''high''))))"
proof -
  from assms obtain v where *: "authorize_approval_decision S A who i w = (Inr (), v)"
    by (auto simp: approve_def reject_def modify_approval_def Let_def effs_Inr)
  then show ?thesis
    by (auto simp: authorize_approval_decision_def effs_Inr authorize_def get_approval_def ok_or_eq_Inr
        enforce_delegated_approver_def get_approval_group_def list_ex_iff
        split: option.splits if_splits)
qed

lemma decided_by_authority_witness:
  "fst (reject sample_sys idle_peers idle_approvals approver 30 asking_world) \<noteq> Inl (bad_request ''approval expired'')
     \<and> pr_tenant_id approver = current_tenant_id idle_approvals
     \<and> (\<exists>role \<in> set (pr_roles approver). role_allows_permission role ApprovalsDecide)"
proof -
  have "succeeds (turn_down asking_world) (\<lambda>a w. True)" by code_simp
  then obtain a w where down: "turn_down asking_world = (Inr a, w)" by (rule succeedsE)
  from decided_by_authority [OF disjI2 [OF disjI1 [OF down [unfolded turn_down_def]]]]
  have "pr_tenant_id approver = current_tenant_id idle_approvals
     \<and> (\<exists>role \<in> set (pr_roles approver). role_allows_permission role ApprovalsDecide)" by (elim conjE) (intro conjI)
  with down show ?thesis unfolding turn_down_def by (simp only: fst_conv sum.distinct not_False_eq_True simp_thms)
qed

text \<open>A critical approval that names neither a subject nor a group is open to anyone who decides.\<close>

definition critical_world :: world where
  "critical_world = asking_world\<lparr>approvals := [(30, pending_approval\<lparr>ap_risk_level := ''critical''\<rparr>)]\<rparr>"

definition high_world :: world where
  "high_world = asking_world\<lparr>approvals := [(30, pending_approval\<lparr>ap_risk_level := ''high''\<rparr>)]\<rparr>"

text \<open>
  Only the risk level high asks for an explicit approver: an approval of a high risk that names
  neither a subject nor a group is refused to someone who is no administrator, an approval of a critical
  risk in the same state is decided.
\<close>

theorem critical_needs_no_approver:
  "succeeds (approve sample_sys idle_peers idle_approvals approver 30 critical_world)
       (\<lambda>a w. ap_risk_level a = ''critical'' \<and> ap_status a = ''approved'')
   \<and> fails (approve sample_sys idle_peers idle_approvals approver 30 high_world)
       (\<lambda>e w. tget (approvals w) 30 = tget (approvals high_world) 30)"
  by (intro conjI; code_simp)

end
