(* ===== verification/Policy_Rules.thy ===== *)
theory Policy_Rules
  imports Policy
begin

text \<open>
  What the policy decides and what the SQL check accepts, stated without the order in which the
  code asks.
\<close>

section \<open>Tools\<close>

definition version_admits :: "policy_config \<Rightarrow> agent_version \<Rightarrow> string \<Rightarrow> bool" where
  "version_admits c v name \<longleftrightarrow>
     name \<notin> set (pc_blocked_tools c)
     \<and> name \<in> set (av_tool_names v) \<union> set (av_tools v)
     \<and> \<not> policy_array_contains (jget (av_approval_policy v) ''blocked_tools'') name
     \<and> (jget (av_approval_policy v) ''allowed_tools'' \<noteq> None
         \<longrightarrow> policy_array_contains (jget (av_approval_policy v) ''allowed_tools'') name)"

lemma decision_fields [simp]:
  "td_decision (policy_says d r m) = d" "td_risk_level (policy_says d r m) = r" "td_reason (policy_says d r m) = m"
  by (simp_all add: policy_says_def)

lemma config_decides:
  "td_decision (evaluate_tool_with_args c name args) =
     (if name \<in> set (pc_blocked_tools c) then ''denied''
      else if name \<in> ar_tool ` set (pc_approval_required c) then ''requires_approval''
      else if \<exists>(agent, tools) \<in> set (pc_allowed_tools c). name \<in> set tools then ''allowed''
      else ''denied'')"
proof (cases "find_first (\<lambda>rule. ar_tool rule = name) (pc_approval_required c)")
  case None
  then have "name \<notin> ar_tool ` set (pc_approval_required c)" by (auto simp: find_first_eq_None)
  with None show ?thesis by (auto simp: evaluate_tool_with_args_def list_ex_iff)
next
  case (Some rule)
  from find_first_SomeD [OF this] have "name \<in> ar_tool ` set (pc_approval_required c)" by auto
  with Some show ?thesis by (simp add: evaluate_tool_with_args_def)
qed

lemma version_decides:
  "td_decision (evaluate_tool_for_agent_version_with_args c name args v) =
     (if \<not> version_admits c v name then ''denied''
      else if approval_required_risk (jget (av_approval_policy v) ''approval_required'') name \<noteq> None
      then ''requires_approval''
      else td_decision (evaluate_tool_with_args c name args))"
  by (cases "jget (av_approval_policy v) ''allowed_tools''";
      cases "approval_required_risk (jget (av_approval_policy v) ''approval_required'') name";
      simp add: evaluate_tool_for_agent_version_with_args_def version_admits_def Let_def
        agent_version_tool_enabled_def evaluate_agent_version_policy_def)

lemma decision_three:
  "td_decision (evaluate_tool_for_agent_version_with_args c name args v)
     \<in> {''denied'', ''requires_approval'', ''allowed''}"
  by (simp add: version_decides config_decides)

text \<open>
  The decision on a tool is one of three. It is \<open>allowed\<close> only for a tool that no policy blocks,
  that the agent version has, that its list of allowed tools (if it has one) and a list of the
  installation name, and for which neither policy asks for an approval; it is \<open>requires_approval\<close>
  exactly if nothing blocks the tool for the version and one of the policies asks.
\<close>

theorem policy_decides:
  shows "td_decision (evaluate_tool_for_agent_version_with_args c name args v)
      \<in> {''denied'', ''requires_approval'', ''allowed''}
    \<and> (td_decision (evaluate_tool_for_agent_version_with_args c name args v) = ''requires_approval''
        \<longleftrightarrow> version_admits c v name
            \<and> (approval_required_risk (jget (av_approval_policy v) ''approval_required'') name \<noteq> None
               \<or> name \<in> ar_tool ` set (pc_approval_required c)))
    \<and> (td_decision (evaluate_tool_for_agent_version_with_args c name args v) = ''allowed''
        \<longleftrightarrow> version_admits c v name
            \<and> approval_required_risk (jget (av_approval_policy v) ''approval_required'') name = None
            \<and> name \<notin> ar_tool ` set (pc_approval_required c)
            \<and> (\<exists>(agent, tools) \<in> set (pc_allowed_tools c). name \<in> set tools))"
  by (simp add: version_decides config_decides) (auto simp: version_admits_def)

definition shell_version :: agent_version where
  "shell_version =
     \<lparr>av_id = 2, av_agent_id = 1, av_version = 1, av_provider = [], av_model = [],
      av_system_prompt = [], av_tools = [''file.read'', ''shell.exec'', ''secret.read'', ''mcp.call''],
      av_tool_names = [], av_runtime_config = JNull,
      av_approval_policy = mk_obj [(''approval_required'', JArr [JStr ''mcp.call''])],
      av_runtime_profile_id = None, av_runtime_profile_snapshot = JNull, av_mcp_server_ids = [],
      av_skill_ids = [], av_workflow_pack_ids = [], av_remote_computer_profile = JNull,
      av_semantic_scopes = JNull, av_created_at = 0\<rparr>"

lemma policy_decides_witness:
  "version_admits default_policy_config shell_version ''file.read''
   \<and> \<not> version_admits default_policy_config shell_version ''secret.read''
   \<and> td_decision (evaluate_tool_for_agent_version_with_args default_policy_config ''mcp.call'' JNull shell_version)
      = ''requires_approval''"
proof -
  have "td_decision (evaluate_tool_for_agent_version_with_args default_policy_config ''file.read'' JNull shell_version)
      = ''allowed''" by code_simp
  moreover have "\<not> version_admits default_policy_config shell_version ''secret.read''" by code_simp
  moreover have "td_decision (evaluate_tool_for_agent_version_with_args default_policy_config ''mcp.call'' JNull shell_version)
      = ''requires_approval''" by code_simp
  ultimately show ?thesis
    using policy_decides [of default_policy_config "''file.read''" JNull shell_version] by blast
qed

section \<open>SQL\<close>

text \<open>
  The parts of a query that the check visits, and those it refuses: it goes into common table expressions,
  bodies, queries in parentheses and both sides of a set operation.
\<close>

inductive visited :: "sql_query + set_expr \<Rightarrow> sql_query + set_expr \<Rightarrow> bool" where
  self: "visited x x"
| cte: "visited x (Inl q) \<Longrightarrow> q \<in> set ctes \<Longrightarrow> visited x (Inl (SqlQuery locks ctes body ol))"
| body: "visited x (Inr body) \<Longrightarrow> visited x (Inl (SqlQuery locks ctes body ol))"
| parentheses: "visited x (Inl q) \<Longrightarrow> visited x (Inr (SetQuery q))"
| left: "visited x (Inr l) \<Longrightarrow> visited x (Inr (SetOperation l r))"
| right: "visited x (Inr r) \<Longrightarrow> visited x (Inr (SetOperation l r))"

inductive_simps visited_simps:
  "visited x (Inl (SqlQuery locks ctes body ol))" "visited x (Inr (SetSelect into qs))" "visited x (Inr (SetValues qs))"
  "visited x (Inr SetTable)" "visited x (Inr (SetQuery q))" "visited x (Inr (SetOperation l r))"
  "visited x (Inr SetInsert)" "visited x (Inr SetUpdate)"

fun refused :: "sql_query + set_expr \<Rightarrow> bool" where
  "refused (Inl (SqlQuery locks ctes body ol)) = (locks \<noteq> 0)"
| "refused (Inr e) = (e = SetInsert \<or> e = SetUpdate)"

text \<open>All parts of a query, however nested, and those of them that write or lock.\<close>

inductive part_of :: "sql_query + set_expr \<Rightarrow> sql_query + set_expr \<Rightarrow> bool" where
  "part_of x x"
| "part_of x (Inl q) \<Longrightarrow> q \<in> set (ctes @ ol) \<Longrightarrow> part_of x (Inl (SqlQuery locks ctes body ol))"
| "part_of x (Inr body) \<Longrightarrow> part_of x (Inl (SqlQuery locks ctes body ol))"
| "part_of x (Inl q) \<Longrightarrow> part_of x (Inr (SetQuery q))"
| "part_of x (Inr e) \<Longrightarrow> e \<in> {l, r} \<Longrightarrow> part_of x (Inr (SetOperation l r))"
| "part_of x (Inl q) \<Longrightarrow> q \<in> set qs \<Longrightarrow> part_of x (Inr (SetSelect into qs))"
| "part_of x (Inl q) \<Longrightarrow> q \<in> set qs \<Longrightarrow> part_of x (Inr (SetValues qs))"

fun writes_or_locks :: "sql_query + set_expr \<Rightarrow> bool" where
  "writes_or_locks (Inl (SqlQuery locks ctes body ol)) = (locks \<noteq> 0)"
| "writes_or_locks (Inr (SetSelect into qs)) = into"
| "writes_or_locks (Inr e) = (e = SetInsert \<or> e = SetUpdate)"

text \<open>A part that nests nothing the check does not visit, and writes nothing it does not refuse.\<close>

fun plain :: "sql_query + set_expr \<Rightarrow> bool" where
  "plain (Inl (SqlQuery locks ctes body ol)) = (ol = [])"
| "plain (Inr (SetSelect into qs)) = (\<not> into \<and> qs = [])"
| "plain (Inr (SetValues qs)) = (qs = [])"
| "plain (Inr e) = True"

lemma plain_visited: "part_of x y \<Longrightarrow> (\<And>z. visited z y \<Longrightarrow> plain z) \<Longrightarrow> visited x y"
proof (induction rule: part_of.induct)
  case (2 x q ctes ol locks body)
  from 2(4) [OF self] have "ol = []" by simp
  with 2 show ?case by (auto intro: visited.intros)
next
  case (6 x q qs into)
  from 6(4) [OF self] 6(2) show ?case by simp
next
  case (7 x q qs)
  from 7(4) [OF self] 7(2) show ?case by simp
qed (auto intro: visited.intros)

lemma plain_writes: "plain x \<Longrightarrow> writes_or_locks x \<Longrightarrow> refused x"
  by (induction x rule: writes_or_locks.induct) auto

lemma query_read_only:
  "ensure_query_is_read_only q = Inr () \<longleftrightarrow> (\<forall>x. visited x (Inl q) \<longrightarrow> \<not> refused x)"
  "ensure_set_expr_is_read_only e = Inr () \<longleftrightarrow> (\<forall>x. visited x (Inr e) \<longrightarrow> \<not> refused x)"
proof (induction q and e rule: ensure_query_is_read_only_ensure_set_expr_is_read_only.induct)
  case (1 locks ctes body ol)
  let ?q = "SqlQuery locks ctes body ol"
  have "(\<forall>x. visited x (Inl ?q) \<longrightarrow> \<not> refused x) \<longleftrightarrow>
      locks = 0 \<and> (\<forall>q \<in> set ctes. \<forall>x. visited x (Inl q) \<longrightarrow> \<not> refused x)
      \<and> (\<forall>x. visited x (Inr body) \<longrightarrow> \<not> refused x)"
    by (subst visited_simps) (auto simp del: refused.simps(2))
  with 1 show ?case by (auto simp: bindr_eq_Inr foreachr_eq_Inr)
qed (auto simp: visited_simps bindr_eq_Inr)

lemma statement_read_only:
  "ensure_statement_is_read_only s = Inr () \<longleftrightarrow>
     (\<exists>n q. s = (StatementExplain False ^^ n) (StatementQuery q) \<and> ensure_query_is_read_only q = Inr ())"
proof (induction s)
  case (StatementQuery q)
  have "StatementQuery q = (StatementExplain False ^^ n) (StatementQuery q') \<longleftrightarrow> n = 0 \<and> q' = q" for n q'
    by (cases n) auto
  then show ?case by auto
next
  case (StatementExplain analyze s)
  have "StatementExplain analyze s = (StatementExplain False ^^ n) (StatementQuery q) \<longleftrightarrow>
      \<not> analyze \<and> (\<exists>m. n = Suc m \<and> s = (StatementExplain False ^^ m) (StatementQuery q))" for n q
    by (cases n) auto
  with StatementExplain show ?case by auto
next
  case StatementOther
  have "StatementOther \<noteq> (StatementExplain False ^^ n) (StatementQuery q)" for n q
    by (cases n) auto
  then show ?case by simp
qed

lemma ascii_lower_upper [simp]: "ascii_lower (ascii_upper c) = ascii_lower c"
proof -
  have "of_char (char_of n :: char) = n" if "n < 256" for n :: nat using that by (simp add: of_char_of)
  then show ?thesis
    by (auto simp: ascii_upper_def ascii_lower_def is_ascii_lower_def is_ascii_upper_def)
qed

lemma keyword_case [simp]: "eq_ignore_ascii_case word (to_ascii_uppercase k) = eq_ignore_ascii_case word k"
  by (simp add: eq_ignore_ascii_case_def to_ascii_uppercase_def to_ascii_lowercase_def comp_def)

text \<open>
  C25. What the SQL check accepts, and what it does not see. It accepts a text exactly if it parses as one
  statement that is a query, perhaps under plain \<open>EXPLAIN\<close>s, of which no part that it visits locks rows,
  inserts or updates, and no unquoted word of the text is a blocked keyword in any spelling of case. If no
  visited \<open>SELECT\<close> has an \<open>INTO\<close> and no visited part nests a query elsewhere (in a derived table, a subquery,
  \<open>VALUES\<close>, \<open>ORDER BY\<close> or a limit), then no part of the query at all writes or locks. Otherwise it may: a
  \<open>SELECT\<close> passes whatever it holds, an \<open>INTO\<close> and derived tables that lock included.
\<close>

theorem sql_check_iff:
  shows "(ensure_read_only_sql_with_policy X sql policy = Inr () \<longleftrightarrow>
    (\<exists>n q tokens. parse_sql X sql = Some [(StatementExplain False ^^ n) (StatementQuery q)]
       \<and> (\<forall>x. visited x (Inl q) \<longrightarrow> \<not> refused x)
       \<and> tokenize_sql X sql = Some tokens
       \<and> (\<forall>word keyword. TokenWord word False \<in> set tokens \<and> keyword \<in> set (sp_blocked_keywords policy)
            \<longrightarrow> to_ascii_lowercase word \<noteq> to_ascii_lowercase keyword)))
    \<and> (\<forall>q. ensure_query_is_read_only q = Inr () \<and> (\<forall>x. visited x (Inl q) \<longrightarrow> plain x)
         \<longrightarrow> (\<forall>x. part_of x (Inl q) \<longrightarrow> \<not> writes_or_locks x))
    \<and> (\<forall>into nested order_and_limits.
         ensure_query_is_read_only (SqlQuery 0 [] (SetSelect into nested) order_and_limits) = Inr ())"
proof -
  have tokens: "\<not> list_ex (blocked_token (map to_ascii_uppercase ks)) ts \<longleftrightarrow>
      (\<forall>word keyword. TokenWord word False \<in> set ts \<and> keyword \<in> set ks
         \<longrightarrow> to_ascii_lowercase word \<noteq> to_ascii_lowercase keyword)" for ks ts
  proof -
    have "blocked_token (map to_ascii_uppercase ks) t \<longleftrightarrow>
        (\<exists>word keyword. t = TokenWord word False \<and> keyword \<in> set ks
           \<and> to_ascii_lowercase word = to_ascii_lowercase keyword)" for t
      by (cases t) (auto simp: list_ex_iff eq_ignore_ascii_case_def [symmetric])
    then show ?thesis by (auto simp: list_ex_iff)
  qed
  have single: "(case sts of [s] \<Rightarrow> f s | _ \<Rightarrow> Inl e) = Inr () \<longleftrightarrow> (\<exists>s. sts = [s] \<and> f s = Inr ())"
    for sts :: "sql_statement list" and f and e :: app_error
    by (auto split: list.split)
  have unit: "(\<exists>x. P x) = P ()" for P :: "unit \<Rightarrow> bool" by auto
  have accepted: "ensure_read_only_sql_with_policy X sql policy = Inr () \<longleftrightarrow>
    (\<exists>n q tokens. parse_sql X sql = Some [(StatementExplain False ^^ n) (StatementQuery q)]
       \<and> (\<forall>x. visited x (Inl q) \<longrightarrow> \<not> refused x) \<and> tokenize_sql X sql = Some tokens
       \<and> (\<forall>word keyword. TokenWord word False \<in> set tokens \<and> keyword \<in> set (sp_blocked_keywords policy)
            \<longrightarrow> to_ascii_lowercase word \<noteq> to_ascii_lowercase keyword))"
    unfolding ensure_read_only_sql_with_policy_def bindr_eq_Inr ok_or_eq_Inr single Let_def guardr_eq_Inr tokens
      unit statement_read_only query_read_only(1)
    by blast
  have "\<not> writes_or_locks x" if "ensure_query_is_read_only q = Inr ()" "\<forall>x. visited x (Inl q) \<longrightarrow> plain x"
      "part_of x (Inl q)" for q x
    using that plain_visited plain_writes query_read_only(1) by blast
  with accepted show ?thesis by auto
qed

definition toy_parser :: sql_parser where
  "toy_parser =
     \<lparr>parse_sql = (\<lambda>s. if s = [] then None else
        Some [StatementExplain False (StatementQuery (SqlQuery 0 [SqlQuery 0 [] (SetValues []) []]
          (SetOperation (SetSelect False []) (if s = ''i'' then SetInsert else SetTable)) []))]),
      tokenize_sql = (\<lambda>s. Some [TokenWord s False])\<rparr>"

text \<open>A locking derived table is a part of the query it is in, though not one the check visits.\<close>

definition hidden_lock :: sql_query where
  "hidden_lock = SqlQuery 0 [] (SetSelect False [SqlQuery 1 [] (SetSelect False []) []]) []"

lemma sql_check_iff_witness:
  "ensure_read_only_sql_with_policy toy_parser ''q'' (pc_sql_policy default_policy_config) = Inr ()
   \<and> ensure_read_only_sql_with_policy toy_parser ''Drop'' (pc_sql_policy default_policy_config) \<noteq> Inr ()
   \<and> ensure_query_is_read_only hidden_lock = Inr () \<and> (\<exists>x. part_of x (Inl hidden_lock) \<and> writes_or_locks x)"
proof -
  let ?policy = "pc_sql_policy default_policy_config"
  have accepted: "ensure_read_only_sql_with_policy toy_parser ''q'' ?policy = Inr ()" by code_simp
  have words: "tokenize_sql toy_parser ''Drop'' = Some [TokenWord ''Drop'' False]" by (simp add: toy_parser_def)
  have keyword: "''DROP'' \<in> set (sp_blocked_keywords ?policy)" by code_simp
  have spelling: "to_ascii_lowercase ''Drop'' = to_ascii_lowercase ''DROP''" by code_simp
  have refused: "ensure_read_only_sql_with_policy toy_parser ''Drop'' ?policy \<noteq> Inr ()"
  proof
    assume "ensure_read_only_sql_with_policy toy_parser ''Drop'' ?policy = Inr ()"
    then obtain tokens where "tokenize_sql toy_parser ''Drop'' = Some tokens"
      and apart: "\<And>word keyword. TokenWord word False \<in> set tokens \<Longrightarrow>
        keyword \<in> set (sp_blocked_keywords ?policy) \<Longrightarrow> to_ascii_lowercase word \<noteq> to_ascii_lowercase keyword"
      unfolding sql_check_iff [of toy_parser "''Drop''" ?policy, THEN conjunct1] by blast
    with words have "TokenWord ''Drop'' False \<in> set tokens" by simp
    from apart [OF this keyword] spelling show False by contradiction
  qed
  have "part_of (Inl (SqlQuery 1 [] (SetSelect False []) [])) (Inl hidden_lock)"
    unfolding hidden_lock_def by (auto intro!: part_of.intros)
  moreover have "writes_or_locks (Inl (SqlQuery 1 [] (SetSelect False []) []))" by simp
  ultimately have "\<exists>x. part_of x (Inl hidden_lock) \<and> writes_or_locks x" by blast
  moreover have "ensure_query_is_read_only hidden_lock = Inr ()"
    unfolding hidden_lock_def using sql_check_iff by blast
  ultimately show ?thesis using accepted refused by blast
qed

end
