(* ===== verification/Tool_Safety.thy ===== *)
theory Tool_Safety
  imports Call_Log Policy_Rules
begin

text \<open>
  What the invocation of a tool guarantees: an executor runs only for a call that every check admits,
  the start of a call is recorded and charged as a whole, its result is committed once, and the semantic
  gate lets pass what it should.
\<close>

section \<open>When a tool runs\<close>

text \<open>Everything that has to hold before an executor is called.\<close>

definition admitted
    :: "sys \<Rightarrow> tool_peers \<Rightarrow> policy_runtime \<Rightarrow> string \<Rightarrow> execute_tool \<Rightarrow> world \<Rightarrow> bool" where
  "admitted S T R name input w \<longleftrightarrow>
     (\<exists>session grant version agent gate w1 w2.
        tget (sessions w) (xt_session_id input) = Some session \<and> \<not> session_terminal (se_status session)
        \<and> preview_task_grant_for_tool_invocation S name input w = (Inr grant, w1)
        \<and> agent_version_for_session S (xt_session_id input) w1 = (Inr version, w1)
        \<and> td_decision (evaluate_tool_for_agent_version_with_args (policy_for_session R (xt_session_id input))
             name (xt_args input) version) = ''allowed''
        \<and> is_none_or grant (\<lambda>g. \<not> task_grant_requires_approval_commit_token g name)
        \<and> name \<in> set tool_registry
        \<and> get_agent S (se_agent_id session) w1 = (Inr agent, w1)
        \<and> evaluate_semantic_context_gate S agent grant input
             (td_risk_level (evaluate_tool_for_agent_version_with_args
                (policy_for_session R (xt_session_id input)) name (xt_args input) version)) ''allowed'' w1
           = (Inr gate, w2)
        \<and> \<not> gate_blocks gate)"

lemma bindS_cong_Inr:
  assumes "\<And>x v. m w = (Inr x, v) \<Longrightarrow> f x v = g x v"
  shows "bindS m f w = bindS m g w"
  using assms by (auto simp: bindS_def split: prod.splits sum.splits)

lemma no_binding:
  assumes "approval_commit_binding_for_invocation X name args grant = Inr b"
  shows "b = None \<longleftrightarrow> is_none_or grant (\<lambda>g. \<not> task_grant_requires_approval_commit_token g name)"
  using assms
  by (cases grant) (auto simp: approval_commit_binding_for_invocation_def is_none_or_def bindr_eq_Inr
      split: if_splits)

lemma decision_allowed:
  assumes "td_decision (invocation_decision R name input version b) \<notin> {''denied'', ''requires_approval''}"
  shows "b = None" "invocation_decision R name input version b
      = evaluate_tool_for_agent_version_with_args (policy_for_session R (xt_session_id input)) name
          (xt_args input) version"
    "td_decision (evaluate_tool_for_agent_version_with_args (policy_for_session R (xt_session_id input)) name
          (xt_args input) version) = ''allowed''"
proof -
  let ?v = "evaluate_tool_for_agent_version_with_args (policy_for_session R (xt_session_id input)) name
      (xt_args input) version"
  show "b = None" "invocation_decision R name input version b = ?v"
    using assms by (auto simp: invocation_decision_def Let_def split: if_splits)
  with assms decision_three [of "policy_for_session R (xt_session_id input)" name "xt_args input" version]
  show "td_decision ?v = ''allowed''" by auto
qed

lemma blocked_gate:
  "opt_filter (\<lambda>g. jget_str g ''status'' = Some ''blocked'') gate = None \<longleftrightarrow> \<not> gate_blocks gate"
  unfolding opt_filter_def gate_blocks_def by (cases gate) (simp_all split: if_splits)

lemma run_unregistered:
  "tc_tool_name call \<notin> set tool_registry \<Longrightarrow>
   run_tool_call S A T call input verdict origin = run_tool_call S A T' call input verdict origin"
  by (simp add: run_tool_call_def Let_def)

lemma new_call_name:
  "new_tool_call S name input grant version verdict b gate w = (Inr call, w1) \<Longrightarrow> tc_tool_name call = name"
  by (auto simp: new_tool_call_def Let_def effs_Inr)

lemma start_returns_call:
  assumes "commit_tool_invocation_start S call i n w = (Inr (call', g), w')"
  shows "call' = call"
proof -
  have "commit_tool_invocation_start S call i n w = (Inr (call', g), w') \<Longrightarrow> call' = call"
    unfolding commit_tool_invocation_start_def
    by (auto simp: effs_Inr split: if_splits prod.splits)
  with assms show ?thesis by blast
qed

lemma started_call:
  "start_invocation S call version grant w = (Inr (call', g), w') \<Longrightarrow> call' = call"
  by (auto simp: start_invocation_def catchS_def thenS_def bindS_def eff_simps dest: start_returns_call
      split: prod.splits sum.splits option.splits if_splits)

lemma settle_other_executor:
  assumes "gate_blocks gate \<or> td_decision verdict \<in> {''denied'', ''requires_approval''}
    \<or> tc_tool_name call \<notin> set tool_registry"
  shows "settle_invocation S P A T input origin verdict b gate call g
    = settle_invocation S P A T' input origin verdict b gate call g"
proof (cases "tc_tool_name call \<in> set tool_registry")
  case True
  with assms blocked_gate [of gate] show ?thesis
    unfolding settle_invocation_def by (auto split: option.splits)
next
  case False
  then show ?thesis unfolding settle_invocation_def by (metis run_unregistered)
qed

lemma if_at: "(\<not> b \<Longrightarrow> f v = g v) \<Longrightarrow> (if b then h else f) v = (if b then h else g) v"
  by simp

lemma prod_at: "(\<And>a b. p = (a, b) \<Longrightarrow> f a b v = g a b v) \<Longrightarrow>
    (case p of (a, b) \<Rightarrow> f a b) v = (case p of (a, b) \<Rightarrow> g a b) v"
  by (cases p) simp

lemma not_admitted_runs_nothing:
  assumes "\<not> admitted S T R name input w"
  shows "execute_tool_invocation S P A T R name input origin w
    = execute_tool_invocation S P A (T\<lparr>executor := x\<rparr>) R name input origin w"
  unfolding execute_tool_invocation_def Let_def
proof (intro bindS_cong_Inr if_at prod_at, goal_cases)
  case (1 session v grant w1 version w2 b w3 agent w4 gate w5 call w6 p w7 call' g)
  let ?d = "invocation_decision R name input version b"
  have s: "tget (sessions w) (xt_session_id input) = Some session" and v: "v = w"
    using 1(1) by (auto simp: get_session_def effs_Inr ok_or_eq_Inr)
  have w2: "w2 = w1" using 1(4) by (auto simp: agent_version_for_session_def get_session_def effs_Inr)
  have w3: "w3 = w2" using 1(5) by (simp add: effs_Inr)
  have w4: "w4 = w3" using 1(6) by (simp add: get_agent_def effs_Inr)
  have "gate_blocks gate \<or> td_decision ?d \<in> {''denied'', ''requires_approval''} \<or> name \<notin> set tool_registry"
  proof (rule ccontr)
    assume *: "\<not> ?thesis"
    then have dec: "td_decision ?d \<notin> {''denied'', ''requires_approval''}" by blast
    note allowed = decision_allowed [OF dec]
    have "is_none_or grant (\<lambda>g. \<not> task_grant_requires_approval_commit_token g name)"
      using no_binding [of "lib S" name "xt_args input" grant b] 1(5) allowed(1) by (simp add: effs_Inr)
    with * s 1(2-4,6,7) allowed(2,3) have "admitted S T R name input w"
      unfolding admitted_def w4 w3 w2 v by (metis (no_types, lifting))
    with assms show False by contradiction
  qed
  moreover have "tc_tool_name call' = name"
    using new_call_name [OF 1(8)] started_call 1(9) unfolding 1(10) by metis
  ultimately show ?case by (intro fun_cong [OF settle_other_executor]) simp
qed

text \<open>
  C26. Whether a tool's executor runs: what an invocation comes to depends on the executors only if the
  session is open, the grant of the call (if the session needs one) passes every check, the policy in
  force allows the tool to the session's agent version, the grant does not ask for a commit token, the
  tool is registered, and the semantic gate does not block the call.
\<close>

theorem tools_run_only_if_admitted:
  assumes "execute_tool_invocation S P A T R name input origin w
    \<noteq> execute_tool_invocation S P A (T\<lparr>executor := x\<rparr>) R name input origin w"
  shows "\<exists>session grant version agent gate w1 w2.
    tget (sessions w) (xt_session_id input) = Some session \<and> \<not> session_terminal (se_status session)
    \<and> preview_task_grant_for_tool_invocation S name input w = (Inr grant, w1)
    \<and> agent_version_for_session S (xt_session_id input) w1 = (Inr version, w1)
    \<and> td_decision (evaluate_tool_for_agent_version_with_args (policy_for_session R (xt_session_id input))
         name (xt_args input) version) = ''allowed''
    \<and> is_none_or grant (\<lambda>g. \<not> task_grant_requires_approval_commit_token g name)
    \<and> name \<in> set tool_registry
    \<and> get_agent S (se_agent_id session) w1 = (Inr agent, w1)
    \<and> evaluate_semantic_context_gate S agent grant input
         (td_risk_level (evaluate_tool_for_agent_version_with_args
            (policy_for_session R (xt_session_id input)) name (xt_args input) version)) ''allowed'' w1
       = (Inr gate, w2)
    \<and> \<not> gate_blocks gate"
  using assms not_admitted_runs_nothing [of S T R name input w P A origin x]
  unfolding admitted_def by blast

text \<open>The call that reads a file comes to what its executor does.\<close>

lemma tools_run_only_if_admitted_witness:
  "policy_for_session (runtime_policy default_policy_config) 5 = default_policy_config
   \<and> (\<exists>version. td_decision (evaluate_tool_for_agent_version_with_args default_policy_config
        ''file.read'' (JObj []) version) = ''allowed'')"
proof -
  let ?T = "idle_tools\<lparr>executor := \<lambda>n i c. failS (forbidden [])\<rparr>"
  have "succeeds (read_file calling_world) (\<lambda>r w. True)" by code_simp
  moreover have "\<not> succeeds (execute_tool_invocation sample_sys idle_peers idle_approvals ?T
      (runtime_policy default_policy_config) ''file.read'' reading ManualRoute calling_world) (\<lambda>r w. True)"
    by code_simp
  ultimately have "execute_tool_invocation sample_sys idle_peers idle_approvals idle_tools
      (runtime_policy default_policy_config) ''file.read'' reading ManualRoute calling_world
    \<noteq> execute_tool_invocation sample_sys idle_peers idle_approvals ?T
      (runtime_policy default_policy_config) ''file.read'' reading ManualRoute calling_world"
    unfolding read_file_def by metis
  from tools_run_only_if_admitted [OF this] show ?thesis
    by (auto simp: policy_for_session_def runtime_policy_def reading_def)
qed

section \<open>The start of a call\<close>

lemma charges_succeed:
  assumes "\<And>g. g \<in> set ls \<Longrightarrow> tget (task_grants w) (tg_id g) \<noteq> None"
  shows "\<exists>w'. foreachS (charge_tool_call now) ls w = (Inr (), w')
    \<and> (\<forall>k. tget (task_grants w) k \<noteq> None \<longrightarrow> tget (task_grants w') k \<noteq> None)"
  using assms
proof (induction ls arbitrary: w)
  case (Cons g ls)
  then obtain h where h: "tget (task_grants w) (tg_id g) = Some h" by fastforce
  let ?w = "w\<lparr>task_grants := tput (tg_id g)
      (h\<lparr>tg_tool_calls_used := tg_tool_calls_used h + 1, tg_updated_at := now\<rparr>) (task_grants w)\<rparr>"
  have grows: "tget (task_grants w) k \<noteq> None \<Longrightarrow> tget (task_grants ?w) k \<noteq> None" for k
    by (simp add: store_table.get_put)
  have "charge_tool_call now g w = (Inr (), ?w)" using h by (simp add: charge_tool_call_def)
  moreover have "\<exists>w'. foreachS (charge_tool_call now) ls ?w = (Inr (), w')
      \<and> (\<forall>k. tget (task_grants ?w) k \<noteq> None \<longrightarrow> tget (task_grants w') k \<noteq> None)"
    using Cons.prems grows by (intro Cons.IH) (meson list.set_intros(2))
  ultimately show ?case using grows by (auto simp: thenS_def bindS_def)
qed (simp add: eff_simps)

definition only_expired :: "world \<Rightarrow> world \<Rightarrow> bool" where
  "only_expired w w' \<longleftrightarrow>
     tool_calls w' = tool_calls w \<and> events w' = events w \<and> audit_logs w' = audit_logs w
     \<and> (task_grants w' = task_grants w
        \<or> (\<exists>g now. task_grants w' = task_grants (expire_grant now g w)))"

lemma expire_only_expired: "only_expired w (expire_grant now i (w\<lparr>ticks := t\<rparr>))"
proof -
  have "task_grants (expire_grant now i (w\<lparr>ticks := t\<rparr>)) = task_grants (expire_grant now i w)"
    by (simp add: expire_grant_def split: option.splits)
  then have "\<exists>g n. task_grants (expire_grant now i (w\<lparr>ticks := t\<rparr>)) = task_grants (expire_grant n g w)"
    by blast
  moreover have "tool_calls (expire_grant now i (w\<lparr>ticks := t\<rparr>)) = tool_calls w"
    "events (expire_grant now i (w\<lparr>ticks := t\<rparr>)) = events w"
    "audit_logs (expire_grant now i (w\<lparr>ticks := t\<rparr>)) = audit_logs w"
    by (simp_all add: expire_grant_def split: option.splits)
  ultimately show ?thesis unfolding only_expired_def by simp
qed

lemma reserve_invocation_fails:
  assumes "reserve_invocation S j w = (Inl e, w')" and "keyed (task_grants w)"
  shows "only_expired w w'"
proof (cases j)
  case None
  with assms(1) show ?thesis by (simp add: reserve_invocation_def eff_simps)
next
  case (Some i)
  let ?now = "clock S (ticks w)" and ?w = "w\<lparr>ticks := Suc (ticks w)\<rparr>"
  show ?thesis
  proof (cases "lineage_from (task_grants w) [] i")
    case (Inl d)
    with assms(1) Some have "w' = ?w"
      by (simp add: reserve_invocation_def bindS_def now_utc_def task_grant_lineage_def eff_simps)
    then show ?thesis by (simp add: only_expired_def)
  next
    case (Inr ls)
    have lin: "task_grant_lineage i ?w = (Inr ls, ?w)"
      using Inr by (simp add: task_grant_lineage_def eff_simps)
    obtain r w1 where adm: "foreachS (tool_call_admission ?now) ls ?w = (r, w1)" by fastforce
    show ?thesis
    proof (cases r)
      case (Inl d)
      with assms(1) Some lin adm have "w' = w1"
        by (simp add: reserve_invocation_def bindS_def thenS_def now_utc_def)
      moreover have "w1 = ?w \<or> (\<exists>g \<in> set ls. w1 = expire_grant ?now (tg_id g) ?w)"
        using adm Inl by (intro admissions_Inl) simp
      ultimately show ?thesis
        using expire_only_expired [of w ?now _ "Suc (ticks w)"] by (auto simp: only_expired_def)
    next
      case (Inr u)
      from admissions_Inr [of ?now ls ?w u w1] adm Inr have w1: "w1 = ?w" by simp
      note entries = lineage_entries [OF \<open>lineage_from _ _ _ = Inr ls\<close> assms(2)]
      from charges_succeed [of ls ?w ?now] entries obtain w2
        where chg: "foreachS (charge_tool_call ?now) ls ?w = (Inr (), w2)"
          and kept: "\<forall>k. tget (task_grants w) k \<noteq> None \<longrightarrow> tget (task_grants w2) k \<noteq> None" by auto
      have "tget (task_grants w) i \<noteq> None"
        using lineage_from_ancestry [OF \<open>lineage_from _ _ _ = Inr ls\<close>] by (auto elim: ancestryE)
      with kept obtain g where "tget (task_grants w2) i = Some g" by fastforce
      with assms(1) Some lin adm Inr w1 chg show ?thesis
        by (simp add: reserve_invocation_def bindS_def thenS_def now_utc_def asksr_def ok_or_def)
    qed
  qed
qed

text \<open>The charge and the records made for a call touch no table but that of the grants.\<close>

definition same_calls :: "world \<Rightarrow> world \<Rightarrow> bool" where
  "same_calls w w' \<longleftrightarrow> sessions w' = sessions w \<and> events w' = events w \<and> tool_calls w' = tool_calls w
     \<and> audit_logs w' = audit_logs w"

interpretation same_calls: relation_on_worlds same_calls
  by unfold_locales (simp_all add: same_calls_def)

lemma start_parts_same:
  "keeps same_calls (now_utc S)" "keeps same_calls (new_v4 S)" "keeps same_calls (tool_call_admission n g)"
  "keeps same_calls (charge_tool_call n g)"
  by (simp_all add: keeps_def same_calls_def now_utc_def new_v4_def tool_call_admission_def
      charge_tool_call_def thenS_def bindS_def whenS_def eff_simps expire_grant_def
      split: option.splits prod.splits)

lemma reserve_same_calls: "keeps same_calls (reserve_invocation S j)"
  unfolding reserve_invocation_def task_grant_lineage_def by (intro same_calls.resp_intros start_parts_same)

definition same_but_clock :: "world \<Rightarrow> world \<Rightarrow> bool" where
  "same_but_clock w w' \<longleftrightarrow> w' = w\<lparr>ticks := ticks w', uuids := uuids w'\<rparr>"

interpretation same_but_clock: relation_on_worlds same_but_clock
proof
  show "same_but_clock w w" for w by (simp add: same_but_clock_def)
  show "same_but_clock u w" if "same_but_clock u v" "same_but_clock v w" for u v w
  proof -
    from that have "w = (u\<lparr>ticks := ticks v, uuids := uuids v\<rparr>)\<lparr>ticks := ticks w, uuids := uuids w\<rparr>"
      unfolding same_but_clock_def by metis
    then show ?thesis by (simp add: same_but_clock_def)
  qed
qed

lemma same_but_clockD:
  assumes "same_but_clock w w'"
  shows "tool_calls w' = tool_calls w" "events w' = events w" "task_grants w' = task_grants w"
  using arg_cong [OF assms [unfolded same_but_clock_def], of tool_calls]
    arg_cong [OF assms [unfolded same_but_clock_def], of events]
    arg_cong [OF assms [unfolded same_but_clock_def], of task_grants] by simp_all

lemma records_same_but_clock:
  "keeps same_but_clock (tool_invocation_records S call g i n)"
  "keeps same_but_clock (tool_invocation_result_records S call st r og)"
proof -
  have clock: "keeps same_but_clock (now_utc S)" "keeps same_but_clock (new_v4 S)"
    by (simp_all add: keeps_def same_but_clock_def now_utc_def new_v4_def)
  show "keeps same_but_clock (tool_invocation_records S call g i n)"
    "keeps same_but_clock (tool_invocation_result_records S call st r og)"
    unfolding tool_invocation_records_def tool_invocation_result_records_def invocation_event_def
      new_audit_log_def Let_def
    by (intro same_but_clock.resp_intros clock)+
qed

lemma records_events:
  assumes "tool_invocation_records S call g i n w = (Inr (es, trail), w')"
  shows "map ev_event_type es
    = (if g = None then [] else [''task_grant.checked'']) @ [''tool.call'', ''agent.tool_use'']"
  using assms
  by (auto simp: tool_invocation_records_def Let_def invocation_event_def new_audit_log_def effs_Inr
      split: option.splits)

lemma numbered_types: "map ev_event_type (numbered k es) = map ev_event_type es"
  by (induction es arbitrary: k) auto

lemma records_succeed:
  assumes "tc_event_id call \<noteq> None"
  shows "\<exists>es trail w'. tool_invocation_records S call g i n w = (Inr (es, trail), w')"
  using assms
  by (cases g) (auto simp: tool_invocation_records_def Let_def invocation_event_def new_audit_log_def
      bindS_def now_utc_def new_v4_def eff_simps ok_or_def)

lemma start_writes:
  assumes "commit_tool_invocation_start S call i n w = (r, w')"
    and "tget (sessions w) (tc_session_id call) = Some s" "\<not> session_terminal (se_status s)"
    and "reserve_invocation S (tc_task_grant_id call) w = (Inr g, w1)"
    and "tool_invocation_records S call g i n w1 = (Inr (es, trail), w2)"
  shows "r = Inr (call, g)" "tool_calls w' = tput (tc_id call) call (tool_calls w)"
    "\<exists>k. session_events w' (tc_session_id call) = session_events w (tc_session_id call) @ numbered k es"
    "task_grants w' = task_grants w1"
proof -
  have same: "events w2 = events w" "tool_calls w2 = tool_calls w" "task_grants w2 = task_grants w1"
    using keepsD [OF reserve_same_calls assms(4)]
      same_but_clockD [OF keepsD [OF records_same_but_clock(1) assms(5)]]
    by (simp_all add: same_calls_def)
  let ?es = "numbered (int (length (session_events w (tc_session_id call))) + 1) es"
  have "push_events (tc_session_id call) es w2
      = (Inr ?es, w2\<lparr>events := tput (tc_session_id call) (session_events w (tc_session_id call) @ ?es) (events w)\<rparr>)"
    using same(1) by (simp add: push_events_def session_events_def Let_def)
  with assms have all: "r = Inr (call, g)
      \<and> events w' = tput (tc_session_id call) (session_events w (tc_session_id call) @ ?es) (events w)
      \<and> tool_calls w' = tput (tc_id call) call (tool_calls w2) \<and> task_grants w' = task_grants w2"
    by (cases trail) (auto simp: commit_tool_invocation_start_def get_session_def bindS_def thenS_def
        eff_simps ok_or_def put_tool_call_def put_audit_def)
  with same show "r = Inr (call, g)" "tool_calls w' = tput (tc_id call) call (tool_calls w)"
    "task_grants w' = task_grants w1" by simp_all
  have "session_events w' (tc_session_id call) = session_events w (tc_session_id call) @ ?es"
    using all by (simp add: session_events_def store_table.get_put)
  then show "\<exists>k. session_events w' (tc_session_id call) = session_events w (tc_session_id call) @ numbered k es"
    by blast
qed

lemma reserve_charges:
  assumes "reserve_invocation S j w = (Inr g, w')" and "keyed (task_grants w)"
  shows "g = None \<longleftrightarrow> j = None"
    "case j of
       None \<Rightarrow> task_grants w' = task_grants w
     | Some k \<Rightarrow> \<exists>ls now. task_grant_lineage k w = (Inr ls, w)
         \<and> (\<forall>h \<in> set ls. task_grant_reservation_denial h ToolCall now = None
              \<and> validate_memory_task_grant_workflow w h = Inr ()
              \<and> tget (task_grants w') (tg_id h)
                = Some (h\<lparr>tg_tool_calls_used := tg_tool_calls_used h + 1, tg_updated_at := now\<rparr>))
         \<and> (\<forall>j. j \<notin> tg_id ` set ls \<longrightarrow> tget (task_grants w') j = tget (task_grants w) j)"
proof -
  show "g = None \<longleftrightarrow> j = None"
  proof (cases j)
    case (Some k)
    from reserve_invocation_reserves [OF assms(1) [unfolded Some] assms(2)] obtain h where "g = Some h" .
    with Some show ?thesis by simp
  qed (use assms(1) in \<open>simp add: reserve_invocation_def eff_simps\<close>)
  show "case j of
       None \<Rightarrow> task_grants w' = task_grants w
     | Some k \<Rightarrow> \<exists>ls now. task_grant_lineage k w = (Inr ls, w)
         \<and> (\<forall>h \<in> set ls. task_grant_reservation_denial h ToolCall now = None
              \<and> validate_memory_task_grant_workflow w h = Inr ()
              \<and> tget (task_grants w') (tg_id h)
                = Some (h\<lparr>tg_tool_calls_used := tg_tool_calls_used h + 1, tg_updated_at := now\<rparr>))
         \<and> (\<forall>j. j \<notin> tg_id ` set ls \<longrightarrow> tget (task_grants w') j = tget (task_grants w) j)"
  proof (cases j)
    case None
    with assms(1) show ?thesis by (simp add: reserve_invocation_def eff_simps)
  next
    case (Some k)
    from reserve_invocation_reserves [OF assms(1) [unfolded Some] assms(2)]
    obtain h where "g = Some h" and res: "reserve_task_grant_usage S k ToolCall w = (Inr h, w')"
      and "\<exists>ls. task_grant_lineage k w = (Inr ls, w) \<and> (\<forall>h \<in> set ls. validate_memory_task_grant_workflow w h = Inr ())" .
    then obtain ls where ls: "task_grant_lineage k w = (Inr ls, w)"
      "\<forall>h \<in> set ls. validate_memory_task_grant_workflow w h = Inr ()" by blast
    from reserve_Inr [OF res assms(2)] obtain ls' now where ls': "ancestry (task_grants w) k ls'"
      "\<forall>h \<in> set ls'. task_grant_reservation_denial h ToolCall now = None"
      "\<forall>h \<in> set ls'. tget (task_grants w') (tg_id h) = Some (counted ToolCall now h)"
      "\<forall>j. j \<notin> tg_id ` set ls' \<longrightarrow> tget (task_grants w') j = tget (task_grants w) j" .
    have "ls' = ls"
      using ls(1) ls'(1) assms(2) by (simp add: task_grant_lineage_def eff_simps flip: lineage_iff_ancestry)
    with ls ls'(2-4) Some show ?thesis
      unfolding counted_def by (simp, intro exI [of _ now]) blast
  qed
qed

text \<open>
  C28. The start of a call is recorded as a whole or not at all. If it fails, no call, no event and no
  audit entry was written and no grant was charged: at most one grant found out of time is marked
  expired. If it succeeds, the session is open, the call is stored, its two events (after the note of
  the check, for a call under a grant) are appended to the session's log, and every grant of the
  lineage was within its limits, belongs to a run and a step that may execute, and was charged one call.
\<close>

theorem start_all_or_nothing:
  assumes "commit_tool_invocation_start S call i n w = (r, w')" and "keyed (task_grants w)"
    and "tc_event_id call \<noteq> None"
  shows "case r of
      Inl e \<Rightarrow>
        tool_calls w' = tool_calls w \<and> events w' = events w \<and> audit_logs w' = audit_logs w
        \<and> (task_grants w' = task_grants w
           \<or> (\<exists>g now. task_grants w' = task_grants (expire_grant now g w)))
    | Inr (call', grant) \<Rightarrow>
        call' = call \<and> tool_calls w' = tput (tc_id call) call (tool_calls w)
        \<and> (\<exists>s. tget (sessions w) (tc_session_id call) = Some s \<and> \<not> session_terminal (se_status s))
        \<and> (\<exists>new. session_events w' (tc_session_id call) = session_events w (tc_session_id call) @ new
             \<and> map ev_event_type new = (if tc_task_grant_id call = None then [] else [''task_grant.checked''])
                 @ [''tool.call'', ''agent.tool_use''])
        \<and> (case tc_task_grant_id call of
             None \<Rightarrow> task_grants w' = task_grants w
           | Some k \<Rightarrow> \<exists>ls now. task_grant_lineage k w = (Inr ls, w)
               \<and> (\<forall>h \<in> set ls. task_grant_reservation_denial h ToolCall now = None
                    \<and> validate_memory_task_grant_workflow w h = Inr ()
                    \<and> tget (task_grants w') (tg_id h)
                      = Some (h\<lparr>tg_tool_calls_used := tg_tool_calls_used h + 1, tg_updated_at := now\<rparr>))
               \<and> (\<forall>j. j \<notin> tg_id ` set ls \<longrightarrow> tget (task_grants w') j = tget (task_grants w) j))"
proof (cases "\<exists>s. tget (sessions w) (tc_session_id call) = Some s \<and> \<not> session_terminal (se_status s)")
  case False
  with assms(1) have "w' = w \<and> (\<exists>e. r = Inl e)"
    by (cases "tget (sessions w) (tc_session_id call)")
      (auto simp: commit_tool_invocation_start_def get_session_def bindS_def eff_simps ok_or_def)
  then show ?thesis by auto
next
  case True
  then obtain s where s: "tget (sessions w) (tc_session_id call) = Some s" "\<not> session_terminal (se_status s)"
    by blast
  obtain r1 w1 where res: "reserve_invocation S (tc_task_grant_id call) w = (r1, w1)" by fastforce
  show ?thesis
  proof (cases r1)
    case (Inl e)
    with assms(1) s res have "w' = w1 \<and> r = Inl e"
      by (simp add: commit_tool_invocation_start_def get_session_def bindS_def eff_simps ok_or_def)
    with reserve_invocation_fails [OF _ assms(2)] res Inl show ?thesis by (auto simp: only_expired_def)
  next
    case (Inr g)
    obtain es trail w2 where rec: "tool_invocation_records S call g i n w1 = (Inr (es, trail), w2)"
      using records_succeed [OF assms(3)] by blast
    note fin = start_writes [OF assms(1) s res [unfolded Inr] rec]
    note charged = reserve_charges [OF res [unfolded Inr] assms(2)]
    have g: "(g = None) = (tc_task_grant_id call = None)" by (rule charged(1))
    from fin(3) obtain k where k: "session_events w' (tc_session_id call)
        = session_events w (tc_session_id call) @ numbered k es" by blast
    have new: "\<exists>new. session_events w' (tc_session_id call)
          = session_events w (tc_session_id call) @ new
        \<and> map ev_event_type new = (if tc_task_grant_id call = None then [] else [''task_grant.checked''])
            @ [''tool.call'', ''agent.tool_use'']"
      using records_events [OF rec] k unfolding g by (intro exI [of _ "numbered k es"]) (simp only: numbered_types)
    from s have live: "\<exists>s. tget (sessions w) (tc_session_id call) = Some s \<and> \<not> session_terminal (se_status s)"
      by blast
    show ?thesis
      unfolding fin(1) sum.case prod.case
      by (intro conjI refl fin(2) live new charged(2) [folded fin(4)])
  qed
qed

definition read_call :: tool_call where
  "read_call = \<lparr>tc_id = 9, tc_session_id = 5, tc_event_id = Some 8, tc_tool_name = ''file.read'',
     tc_args = JObj [], tc_task_grant_id = None, tc_normalized_args_hash = None,
     tc_target_binding = JObj [], tc_status = ''running'', tc_risk_level = ''low'',
     tc_policy_decision = JObj [], tc_result = None, tc_error = None, tc_started_at = Some 0,
     tc_completed_at = None, tc_created_at = 0\<rparr>"

lemma start_all_or_nothing_witness:
  "\<exists>w'. commit_tool_invocation_start sample_sys read_call 2 1 calling_world = (Inr (read_call, None), w')
     \<and> tool_calls w' = [(9, read_call)]"
proof -
  have "succeeds (commit_tool_invocation_start sample_sys read_call 2 1 calling_world)
      (\<lambda>r w. snd r = None)" by code_simp
  then obtain r w' where r: "commit_tool_invocation_start sample_sys read_call 2 1 calling_world = (Inr r, w')"
    "snd r = None" by (rule succeedsE)
  have "keyed (task_grants calling_world)" by (simp add: keyed_def calling_world_def empty_world_def)
  from start_all_or_nothing [OF r(1) this] r show ?thesis
    by (cases r) (simp add: read_call_def calling_world_def empty_world_def)
qed

section \<open>The result of a call\<close>

lemma result_Inr:
  assumes "commit_tool_invocation_result S i status res og w = (Inr e, w')"
  shows "\<exists>call now. tget (tool_calls w) i = Some call \<and> tc_status call = ''running''
    \<and> status \<in> {''completed'', ''waiting_approval''}
    \<and> tool_calls w' = tput (tc_id call) (call\<lparr>tc_status := status, tc_result := Some res, tc_error := None,
         tc_completed_at := Some now\<rparr>) (tool_calls w)"
proof -
  obtain call w1 now w2 es entry w3 es' w4 where
    call: "tget (tool_calls w) i = Some call" "tc_status call = ''running''" "status \<in> {''completed'', ''waiting_approval''}"
    and now: "now_utc S w = (Inr now, w1)"
    and rec: "tool_invocation_result_records S (call\<lparr>tc_status := status, tc_result := Some res,
        tc_error := None, tc_completed_at := Some now\<rparr>) status res og w1 = (Inr (es, entry), w2)"
    and push: "push_events (tc_session_id call) es w2 = (Inr es', w3)"
    and w': "w' = put_audit entry (put_tool_call (call\<lparr>tc_status := status, tc_result := Some res,
        tc_error := None, tc_completed_at := Some now\<rparr>) w3)"
    using assms
    by (auto simp: commit_tool_invocation_result_def get_tool_call_def Let_def effs_Inr ok_or_eq_Inr
        modifyS_def split: if_splits)
  have "tool_calls w3 = tool_calls w"
    using now push same_but_clockD(1) [OF keepsD [OF records_same_but_clock(2) rec]]
    by (auto simp: now_utc_def push_events_def Let_def)
  with call w' show ?thesis by (auto simp: put_audit_def put_tool_call_def)
qed

text \<open>
  The result of a call is committed once: it is accepted only for a call that is running, and a second
  result, whatever it is, is refused and changes nothing.
\<close>

theorem result_committed_once:
  assumes "commit_tool_invocation_result S i status res og w = (Inr e, w')"
    and "\<forall>i c. tget (tool_calls w) i = Some c \<longrightarrow> tc_id c = i"
  shows "(\<exists>call. tget (tool_calls w) i = Some call \<and> tc_status call = ''running'')
    \<and> (\<exists>call'. tget (tool_calls w') i = Some call' \<and> tc_status call' = status \<and> tc_result call' = Some res)
    \<and> (\<exists>d. commit_tool_invocation_result S' i status' res' og' w' = (Inl d, w') \<and> err_status d = 400)"
proof -
  from result_Inr [OF assms(1)] obtain call now where call: "tget (tool_calls w) i = Some call"
    "tc_status call = ''running''" "status \<in> {''completed'', ''waiting_approval''}"
    and w': "tool_calls w' = tput (tc_id call) (call\<lparr>tc_status := status, tc_result := Some res, tc_error := None,
         tc_completed_at := Some now\<rparr>) (tool_calls w)" by blast
  have "tc_id call = i" using assms(2) call(1) by blast
  with w' have after: "tget (tool_calls w') i = Some (call\<lparr>tc_status := status, tc_result := Some res,
      tc_error := None, tc_completed_at := Some now\<rparr>)" by (simp add: store_table.get_put)
  moreover have "status \<noteq> ''running''" using call(3) by auto
  ultimately have "\<exists>d. commit_tool_invocation_result S' i status' res' og' w' = (Inl d, w') \<and> err_status d = 400"
    by (simp add: commit_tool_invocation_result_def get_tool_call_def bindS_def eff_simps ok_or_def
        bad_request_def mk_error_def)
  with call after show ?thesis by simp
qed

lemma result_committed_once_witness:
  "\<exists>e w'. commit_tool_invocation_result sample_sys 9 ''completed'' JNull ''manual''
      (calling_world\<lparr>tool_calls := [(9, read_call)]\<rparr>) = (Inr e, w')
    \<and> (\<exists>d. commit_tool_invocation_result sample_sys 9 ''completed'' (JBool True) ''manual'' w' = (Inl d, w'))"
proof -
  let ?w = "calling_world\<lparr>tool_calls := [(9, read_call)]\<rparr>"
  have "succeeds (commit_tool_invocation_result sample_sys 9 ''completed'' JNull ''manual'' ?w) (\<lambda>r w. True)"
    by code_simp
  then obtain e w' where r: "commit_tool_invocation_result sample_sys 9 ''completed'' JNull ''manual'' ?w
      = (Inr e, w')" by (rule succeedsE)
  have "\<forall>i c. tget (tool_calls ?w) i = Some c \<longrightarrow> tc_id c = i"
    by (simp add: read_call_def)
  from result_committed_once [OF r this] r show ?thesis by blast
qed

end
