(* ===== verification/Gate_Rules.thy ===== *)
theory Gate_Rules
  imports Tool_Safety Delegation
begin

text \<open>
  What the gate on semantic context asks of a tool call of high risk, and of which calls it asks
  nothing.
\<close>

definition fit_for_use :: "'a gate_object_scheme \<Rightarrow> bool" where
  "fit_for_use ob \<longleftrightarrow> go_freshness ob = ''current'' \<and> go_trust_level ob \<noteq> ''unverified''"

lemma blocker_iff: "semantic_context_gate_blocker X ob = None \<longleftrightarrow> fit_for_use ob"
  by (auto simp: semantic_context_gate_blocker_def fit_for_use_def Let_def)

lemma filter_map_empty: "filter_map f xs = [] \<longleftrightarrow> (\<forall>x \<in> set xs. f x = None)"
  by (induction xs) (auto split: option.splits)

lemma find_first_rev:
  "find_first p (rev xs) = (if filter p xs = [] then None else Some (last (filter p xs)))"
proof (induction xs rule: rev_induct)
  case (snoc x xs)
  then show ?case by auto
qed simp

lemma referenced_ids: "set (semantic_object_ref_ids_from_tool_args X args) = set (collect_semantic_object_ref_ids X None args)"
  by (simp add: semantic_object_ref_ids_from_tool_args_def)

lemma gate_report_blocks:
  assumes "''status'' \<notin> fst ` set place"
  shows "gate_blocks (Some (gate_report place rl r e blockers)) \<longleftrightarrow> blockers \<noteq> []"
proof -
  from assms have "map_of (rev place) ''status'' = None" by (simp add: map_of_eq_None_iff)
  then show ?thesis
    by (simp add: gate_blocks_def gate_report_def jget_mk_obj map_add_def)
qed

definition named_object :: "'a gate_object_scheme list \<Rightarrow> uuid \<Rightarrow> 'a gate_object_scheme option" where
  "named_object obs i = map_of (rev (map (\<lambda>ob. (go_id ob, ob)) obs)) i"

lemma find_first_named: "find_first (\<lambda>ob. go_id ob = i) (rev obs) = named_object obs i"
proof -
  have "find_first (\<lambda>ob. go_id ob = i) xs = map_of (map (\<lambda>ob. (go_id ob, ob)) xs) i" for xs :: "'a gate_object_scheme list"
    by (induction xs) auto
  from this [of "rev obs"] show ?thesis by (simp add: named_object_def rev_map)
qed

lemma packet_gate_passes:
  "\<not> gate_blocks (Some (packet_gate X packet refs rl)) \<longleftrightarrow>
     (if refs = [] then \<forall>ob \<in> set (cp_retrieved_objects packet). fit_for_use ob
      else \<forall>i \<in> set refs. is_some_and (named_object (cp_retrieved_objects packet) i) fit_for_use)"
  by (auto simp: packet_gate_def Let_def gate_report_blocks filter_map_empty set_filter_map
      blocker_iff find_first_named is_some_and_def split: option.splits if_splits)

text \<open>
  C33. A call of high risk under a task grant, unless the policy denies it anyway, runs on current context
  that is not unverified. If the grant names a stored context packet, the gate passes the call exactly when
  every semantic object the arguments name anywhere is in the packet, current and not unverified, or, when they
  name none, every object of the packet is current and not unverified. If the grant names no packet the call is
  blocked; if it names one that is not stored the gate fails.
\<close>

theorem high_risk_gate:
  assumes "verdict \<noteq> ''denied''"
  shows "case tg_context_packet_id g of
      None \<Rightarrow> \<exists>gate. evaluate_semantic_context_gate S agent (Some g) input ''high'' verdict w = (Inr (Some gate), w)
        \<and> gate_blocks (Some gate)
    | Some p \<Rightarrow> (case tget (context_packets w) p of
        None \<Rightarrow> \<exists>e. evaluate_semantic_context_gate S agent (Some g) input ''high'' verdict w = (Inl e, w)
      | Some packet \<Rightarrow>
        (\<exists>gate. evaluate_semantic_context_gate S agent (Some g) input ''high'' verdict w = (Inr (Some gate), w)
          \<and> (gate_blocks (Some gate) \<longleftrightarrow>
              \<not> (let named = set (collect_semantic_object_ref_ids (lib S) None (xt_args input)) in
                 if named = {} then \<forall>ob \<in> set (cp_retrieved_objects packet). fit_for_use ob
                 else \<forall>i \<in> named. is_some_and (named_object (cp_retrieved_objects packet) i) fit_for_use))))"
proof (cases "tg_context_packet_id g")
  case None
  then show ?thesis
    using assms by (simp add: evaluate_semantic_context_gate_def Let_def eff_simps gate_report_blocks)
next
  case (Some p)
  note packet = Some
  let ?refs = "semantic_object_ref_ids_from_tool_args (lib S) (xt_args input)"
  show ?thesis
  proof (cases "tget (context_packets w) p")
    case None
    then show ?thesis
      using assms packet
      by (simp add: evaluate_semantic_context_gate_def Let_def eff_simps bindS_def get_context_packet_def ok_or_def)
  next
    case (Some found)
    have eval: "evaluate_semantic_context_gate S agent (Some g) input ''high'' verdict w
        = (Inr (Some (packet_gate (lib S) found ?refs ''high'')), w)"
      using assms packet Some
      by (simp add: evaluate_semantic_context_gate_def Let_def eff_simps bindS_def get_context_packet_def ok_or_def)
    have "set (collect_semantic_object_ref_ids (lib S) None (xt_args input)) = {} \<longleftrightarrow> ?refs = []"
      by (simp only: referenced_ids [symmetric] set_empty)
    note passes = packet_gate_passes [of "lib S" _ ?refs "''high''", unfolded referenced_ids, folded this]
    show ?thesis
      unfolding packet Some option.case Let_def
      by (rule exI, rule conjI, rule eval, subst passes [symmetric], rule not_not [symmetric])
  qed
qed

text \<open>A packet with one object, and calls that name it or another.\<close>

definition fresh_object :: context_packet_semantic_object where
  "fresh_object = \<lparr>go_id = 3, go_object_type = ''t'', go_object_key = ''k'', go_title = ''x'',
     go_trust_level = ''verified'', go_freshness = ''current'', po_summary = ''s'', po_source_id = None,
     po_source_uri = None, po_semantic_scopes = JObj [], po_provenance = JObj []\<rparr>"

definition packet_sample :: context_packet where
  "packet_sample =
     \<lparr>cp_id = 60, cp_session_id = 5, cp_agent_id = 1, cp_agent_version_id = None, cp_version = 1,
      cp_generated_at = 0, cp_task = JObj [],
      cp_agent = \<lparr>pa_id = 1, pa_name = [], pa_kind = [], pa_agent_role = ''r'', pa_release_state = [],
        pa_tools = [], pa_mcp_server_ids = [], pa_skill_ids = [], pa_workflow_pack_ids = [],
        pa_remote_computer_profile = JNull\<rparr>,
      cp_runtime_profile = None, cp_semantic_scopes = JObj [], cp_tool_policy = JObj [],
      cp_policy_reminders = [], cp_freshness_warnings = [], cp_source_refs = [],
      cp_retrieved_objects = [fresh_object], cp_replay_summary = JObj [], cp_audit_trace_id = None,
      cp_created_at = 0\<rparr>"

definition packet_world :: world where
  "packet_world = empty_world\<lparr>context_packets := [(60, packet_sample)]\<rparr>"

definition naming :: "string \<Rightarrow> execute_tool" where
  "naming ref = \<lparr>xt_session_id = 5, xt_task_grant_id = None,
     xt_args = mk_obj [(''nested'', JArr [mk_obj [(''object_id'', JStr ref)]])]\<rparr>"

definition packet_grant :: task_grant where
  "packet_grant = root_sample\<lparr>tg_context_packet_id := Some 60\<rparr>"

lemma high_risk_gate_witness:
  "\<exists>inside outside.
     fst (evaluate_semantic_context_gate sample_sys sample_agent (Some packet_grant)
       (naming ''abc'') ''high'' ''allowed'' packet_world) = Inr (Some inside)
   \<and> fst (evaluate_semantic_context_gate sample_sys sample_agent (Some packet_grant)
       (naming ''abcd'') ''high'' ''allowed'' packet_world) = Inr (Some outside)
   \<and> \<not> gate_blocks (Some inside) \<and> gate_blocks (Some outside)"
proof -
  have allowed: "''allowed'' \<noteq> ''denied''" by simp
  have p: "tg_context_packet_id packet_grant = Some 60" by (simp add: packet_grant_def)
  have got: "tget (context_packets packet_world) 60 = Some packet_sample" by (simp add: packet_world_def)
  note gate = high_risk_gate [OF allowed, where g = packet_grant and S = sample_sys and agent = sample_agent and w = packet_world,
      unfolded p option.case Let_def got]
  have named: "collect_semantic_object_ref_ids (lib sample_sys) None (xt_args (naming ''abc'')) = [3]"
    "collect_semantic_object_ref_ids (lib sample_sys) None (xt_args (naming ''abcd'')) = [4]"
    by code_simp+
  from gate [of "naming ''abc''"] gate [of "naming ''abcd''"] show ?thesis
    unfolding named
    by (auto simp: named_object_def packet_sample_def fresh_object_def fit_for_use_def is_some_and_def)
qed

end
