(* ===== verification/Handoff_Safety.thy ===== *)
theory Handoff_Safety
  imports Runtime Samples Footprint "HOL-Library.Code_Target_Nat"
begin

text \<open>
  What handoffs guarantee: their payload conforms to the schema of the rule that allows them, their
  status moves forward only, and each is assigned at most once, after it was accepted.
\<close>

section \<open>Payload schemas\<close>

text \<open>Numbers are compared by their value, whatever their form; everything else as it is.\<close>

fun number_value :: "json \<Rightarrow> rat option" where
  "number_value (JInt i) = Some (of_int i)"
| "number_value (JFloat r) = Some r"
| "number_value _ = None"

definition same_value :: "json \<Rightarrow> json \<Rightarrow> bool" where
  "same_value u v \<longleftrightarrow> (if is_number u \<and> is_number v then number_value u = number_value v else u = v)"

lemma float_integer_iff:
  assumes "checked_i64 i \<noteq> None \<or> in_u64 i"
  shows "json_schema_integer_equals_float i r \<longleftrightarrow> of_int i = r"
proof
  assume "json_schema_integer_equals_float i r"
  then show "of_int i = r" by (simp add: json_schema_integer_equals_float_def)
next
  assume r: "of_int i = r"
  have i64: "checked_i64 i \<noteq> None \<longleftrightarrow> - (2 ^ 63) \<le> i \<and> i < 2 ^ 63"
    by (auto simp: checked_i64_def in_i64_def)
  have u64: "in_u64 i \<longleftrightarrow> 0 \<le> i \<and> i < 2 ^ 64" by (auto simp: in_u64_def)
  have "(of_int (- 9223372036854775808) :: rat) \<le> of_int i \<and> (of_int i :: rat) < of_int 9223372036854775808"
    if "checked_i64 i \<noteq> None"
    using that i64 unfolding of_int_le_iff of_int_less_iff by simp
  moreover have "(of_int 0 :: rat) \<le> of_int i \<and> (of_int i :: rat) < of_int 18446744073709551616"
    if "in_u64 i"
    using that u64 unfolding of_int_le_iff of_int_less_iff by simp
  ultimately show "json_schema_integer_equals_float i r"
    using assms unfolding json_schema_integer_equals_float_def r [symmetric] by auto
qed

lemma values_equal_iff:
  assumes "wf_json u" and "wf_json v"
  shows "json_schema_values_equal u v \<longleftrightarrow> same_value u v"
  using assms
  by (cases u; cases v)
    (auto simp: same_value_def float_integer_iff checked_i64_def in_u64_def in_i64_def)

text \<open>The meaning of a type name.\<close>

definition has_type :: "string \<Rightarrow> json \<Rightarrow> bool" where
  "has_type t v \<longleftrightarrow>
     (t = ''string'' \<and> (\<exists>s. v = JStr s)) \<or> (t = ''number'' \<and> number_value v \<noteq> None)
     \<or> (t = ''integer'' \<and> (\<exists>i. v = JInt i)) \<or> (t = ''boolean'' \<and> (\<exists>b. v = JBool b))
     \<or> (t = ''object'' \<and> (\<exists>m. v = JObj m)) \<or> (t = ''array'' \<and> (\<exists>xs. v = JArr xs))"

definition property_conforms :: "json \<Rightarrow> json \<Rightarrow> bool" where
  "property_conforms property v \<longleftrightarrow>
     (\<forall>allowed. jget property ''enum'' = Some allowed \<longrightarrow> (\<exists>xs. allowed = JArr xs \<and> (\<exists>x \<in> set xs. same_value x v)))
     \<and> (\<forall>t. jget property ''type'' = Some (JStr t) \<longrightarrow> has_type t v)"

definition conforms :: "json \<Rightarrow> json \<Rightarrow> bool" where
  "conforms schema payload \<longleftrightarrow>
     jget schema ''type'' = Some (JStr ''object'') \<and> (\<exists>m. payload = JObj m)
     \<and> (\<forall>keys k. jget schema ''required'' = Some (JArr keys) \<and> JStr k \<in> set keys \<longrightarrow> jget payload k \<noteq> None)
     \<and> (\<forall>ps k property v. jget schema ''properties'' = Some (JObj ps) \<and> (k, property) \<in> set ps
          \<and> jget payload k = Some v \<longrightarrow> property_conforms property v)"

lemma type_matches_iff: "wf_json v \<Longrightarrow> payload_type_matches t v = Inr True \<longleftrightarrow> has_type t v"
  by (cases v) (auto simp: payload_type_matches_def has_type_def is_string_def is_boolean_def
      is_object_def is_array_def checked_i64_def in_u64_def in_i64_def)

lemma Inr_True: "(\<exists>x. m = Inr x \<and> x) \<longleftrightarrow> m = Inr True"
  by auto

lemma wf_member: "wf_json (JObj m) \<Longrightarrow> map_of m k = Some v \<Longrightarrow> wf_json v"
  by (force simp: list_all_iff dest: map_of_SomeD)

lemma reads_None:
  "jget_str v k = None \<longleftrightarrow> (\<forall>s. jget v k \<noteq> Some (JStr s))"
  "jget_array v k = None \<longleftrightarrow> (\<forall>xs. jget v k \<noteq> Some (JArr xs))"
  "Option.bind (jget v k) as_object = None \<longleftrightarrow> (\<forall>m. jget v k \<noteq> Some (JObj m))"
  "Option.bind (jget v k) as_object = Some m \<longleftrightarrow> jget v k = Some (JObj m)"
  using jget_str_eq_Some [of v k] jget_array_eq_Some [of v k]
  by (metis not_Some_eq, metis not_Some_eq, simp_all add: bind_eq_None_conv bind_eq_Some_conv)
    (metis as_eq_Some(4) not_Some_eq option.sel)

lemma wf_jget: "wf_json u \<Longrightarrow> jget u k = Some v \<Longrightarrow> wf_json v"
  by (cases u) (auto intro: wf_member)

lemma enum_contains_iff:
  assumes "wf_json v" and "\<forall>x \<in> set xs. wf_json x"
  shows "json_schema_enum_contains xs v \<longleftrightarrow> (\<exists>x \<in> set xs. same_value x v)"
  using assms by (auto simp: json_schema_enum_contains_def list_ex_iff values_equal_iff)

lemma property_iff:
  assumes "wf_json (JObj m)" and "wf_json property"
  shows "validate_payload_property m (k, property) = Inr () \<longleftrightarrow>
    (\<forall>v. map_of m k = Some v \<longrightarrow> property_conforms property v)"
proof (cases "map_of m k")
  case None
  then show ?thesis by (simp add: validate_payload_property_def)
next
  case (Some v)
  have v: "wf_json v" using assms(1) Some by (rule wf_member)
  have enum: "wf_json x" if "jget property ''enum'' = Some (JArr xs)" "x \<in> set xs" for xs x
    using wf_jget [OF assms(2) that(1)] that(2) by (simp add: list_all_iff)
  show ?thesis
    using Some
    by (auto simp: validate_payload_property_def property_conforms_def bindr_eq_Inr enum_contains_iff [OF v]
        enum Inr_True type_matches_iff [OF v] reads_None split: option.splits)
qed

text \<open>
  C40. The validation of a handoff's payload is the meaning of its schema: the payload is an object with
  every required field, and each field that has a property schema has, if it is present, a value of the
  type and among the values listed, where numbers are compared by value across integers and floats.
\<close>

theorem payload_schema_iff:
  assumes "wf_json payload" and "wf_json schema"
  shows "validate_handoff_payload_schema payload (Some schema) = Inr () \<longleftrightarrow> conforms schema payload"
proof (cases payload)
  case (JObj m)
  have props: "wf_json property" if "jget schema ''properties'' = Some (JObj ps)" "(k, property) \<in> set ps"
    for ps k property using wf_jget [OF assms(2) that(1)] that(2) by (auto simp: list_all_iff)
  have "(\<forall>kp \<in> set ps. validate_payload_property m kp = Inr ()) \<longleftrightarrow>
      (\<forall>k property v. (k, property) \<in> set ps \<and> map_of m k = Some v \<longrightarrow> property_conforms property v)"
    if "jget schema ''properties'' = Some (JObj ps)" for ps
  proof -
    have "validate_payload_property m (k, property) = Inr () \<longleftrightarrow>
        (\<forall>v. map_of m k = Some v \<longrightarrow> property_conforms property v)" if "(k, property) \<in> set ps" for k property
      using property_iff assms(1) props [OF \<open>jget schema ''properties'' = Some (JObj ps)\<close> that]
      unfolding JObj by blast
    then show ?thesis by fast
  qed
  then show ?thesis
    by (auto simp: JObj validate_handoff_payload_schema_def conforms_def bindr_eq_Inr obj_contains_def
        set_filter_map reads_None split: option.splits)
qed (auto simp: validate_handoff_payload_schema_def conforms_def bindr_eq_Inr)

section \<open>The life of a handoff\<close>

text \<open>What is asked stays as it was; the status moves along the transitions the code allows.\<close>

definition handoff_moves :: "agent_handoff_event \<Rightarrow> agent_handoff_event \<Rightarrow> bool" where
  "handoff_moves h h' \<longleftrightarrow>
     h' = h\<lparr>he_status := he_status h', he_review_status := he_review_status h',
            he_human_escalation_status := he_human_escalation_status h',
            he_audit_trace_id := he_audit_trace_id h', he_updated_at := he_updated_at h'\<rparr>
     \<and> (\<lambda>s t. ensure_agent_handoff_transition s t = Inr ())\<^sup>*\<^sup>* (he_status h) (he_status h')"

lemma handoff_moves_refl: "handoff_moves h h"
  by (simp add: handoff_moves_def)

lemma handoff_moves_trans:
  assumes "handoff_moves h1 h2" and "handoff_moves h2 h3"
  shows "handoff_moves h1 h3"
proof -
  from assms have "(\<lambda>s t. ensure_agent_handoff_transition s t = Inr ())\<^sup>*\<^sup>* (he_status h1) (he_status h3)"
    unfolding handoff_moves_def by (blast intro: rtranclp_trans)
  moreover from assms have "h3 = h1\<lparr>he_status := he_status h3, he_review_status := he_review_status h3,
            he_human_escalation_status := he_human_escalation_status h3,
            he_audit_trace_id := he_audit_trace_id h3, he_updated_at := he_updated_at h3\<rparr>"
    unfolding handoff_moves_def by (cases h1, cases h2, cases h3) simp
  ultimately show ?thesis unfolding handoff_moves_def by blast
qed

text \<open>Handoffs are kept under identifiers that were issued.\<close>

definition issued :: "sys \<Rightarrow> world \<Rightarrow> uuid \<Rightarrow> bool" where
  "issued S w i \<longleftrightarrow> (\<exists>n < uuids w. i = uuid_supply S n)"

lemma issued_mono: "issued S w i \<Longrightarrow> uuids w \<le> uuids w' \<Longrightarrow> issued S w' i"
  unfolding issued_def by (blast intro: less_le_trans)

definition handoffs_ok :: "sys \<Rightarrow> world \<Rightarrow> bool" where
  "handoffs_ok S w \<longleftrightarrow> (\<forall>i h. tget (agent_handoff_events w) i = Some h \<longrightarrow>
     he_id h = i \<and> issued S w i)"

definition handoffs_move :: "sys \<Rightarrow> world \<Rightarrow> world \<Rightarrow> bool" where
  "handoffs_move S w w' \<longleftrightarrow> (handoffs_ok S w \<longrightarrow> uuids w \<le> uuids w' \<and> handoffs_ok S w'
     \<and> (\<forall>i h. tget (agent_handoff_events w) i = Some h \<longrightarrow>
          (\<exists>h'. tget (agent_handoff_events w') i = Some h' \<and> handoff_moves h h')))"

definition same_handoffs :: "world \<Rightarrow> world \<Rightarrow> bool" where
  "same_handoffs w w' \<longleftrightarrow> agent_handoff_events w' = agent_handoff_events w \<and> uuids w \<le> uuids w'"

interpretation moves: relation_on_worlds "handoffs_move S" for S
proof
  show "handoffs_move S w w" for w
    unfolding handoffs_move_def using handoff_moves_refl by blast
  show "handoffs_move S u w" if uv: "handoffs_move S u v" and vw: "handoffs_move S v w" for u v w
  proof -
    have "\<exists>h'. tget (agent_handoff_events w) i = Some h' \<and> handoff_moves h h'"
      if u: "handoffs_ok S u" "tget (agent_handoff_events u) i = Some h" for i h
    proof -
      from uv u obtain h1 where "tget (agent_handoff_events v) i = Some h1" "handoff_moves h h1" "handoffs_ok S v"
        unfolding handoffs_move_def by blast
      moreover from this vw obtain h2 where "tget (agent_handoff_events w) i = Some h2" "handoff_moves h1 h2"
        unfolding handoffs_move_def by blast
      ultimately show ?thesis using handoff_moves_trans by blast
    qed
    moreover from uv vw have "handoffs_ok S u \<longrightarrow> uuids u \<le> uuids w \<and> handoffs_ok S w"
      unfolding handoffs_move_def by (auto intro: order_trans)
    ultimately show ?thesis unfolding handoffs_move_def by blast
  qed
qed

interpretation same: relation_on_worlds same_handoffs
  by unfold_locales (auto simp: same_handoffs_def)

lemma same_move: "same_handoffs w w' \<Longrightarrow> handoffs_move S w w'"
  unfolding same_handoffs_def handoffs_move_def handoffs_ok_def
  using handoff_moves_refl by (auto intro: issued_mono)

lemma same_keeps_move: "keeps same_handoffs m \<Longrightarrow> keeps (handoffs_move S) m"
  by (simp add: keeps_def same_move)

lemma runtime_writes_same: "runtime_writes \<le> same_handoffs"
  by (auto simp: runtime_writes_def same_handoffs_def)

lemma same_assignment_relation:
  assumes "peers_respect same_handoffs P" and "handoff_neighbours_respect same_handoffs A H"
  shows "assignment_relation same_handoffs S P A H"
proof -
  have store: "store_relation same_handoffs S P"
    using same.relation_on_worlds_axioms runtime_writes_same assms(1) by (rule footprint_store_relation)
  have keeps:
    "keeps same_handoffs (insert_manager_agent_plan p)"
    "keeps same_handoffs (update_manager_agent_plan_review S i v s au)"
    "keeps same_handoffs (create_agent_handoff_assignment a)"
    "keeps same_handoffs (update_agent_handoff_assignment_audit_trace S i j)"
    "keeps same_handoffs (attach_assignment_remote_computer_job S i j m)"
    "keeps same_handoffs (update_session_thread_status S i s)" for p i v s au a j m
    by (simp_all add: keeps_def same_handoffs_def insert_manager_agent_plan_def
        update_manager_agent_plan_review_def get_manager_agent_plan_def create_agent_handoff_assignment_def
        update_agent_handoff_assignment_audit_trace_def get_agent_handoff_assignment_def
        attach_assignment_remote_computer_job_def update_session_thread_status_def bindS_def now_utc_def
        eff_simps ok_or_def Let_def split: option.split)
  show ?thesis
    using assms(2) unfolding handoff_neighbours_respect_def
    by (intro assignment_relation.intro planning_relation.intro store)
      (simp_all add: planning_relation_axioms_def assignment_relation_axioms_def keeps)
qed

lemma same_planning_relation:
  assumes "peers_respect same_handoffs P" and "handoff_neighbours_respect same_handoffs A H"
  shows "planning_relation same_handoffs S P A H"
  using same_assignment_relation [OF assms] by (simp add: assignment_relation_def)

section \<open>Writes to handoffs\<close>

lemma put_handoff:
  assumes "tget (agent_handoff_events w) i = Some h" and "handoff_moves h h'"
    and "agent_handoff_events w' = tput i h' (agent_handoff_events w)" and "uuids w \<le> uuids w'"
  shows "handoffs_move S w w'"
proof -
  have "he_id h' = he_id h"
    using arg_cong [where f = he_id, OF conjunct1 [OF assms(2) [unfolded handoff_moves_def]]] by simp
  with assms show ?thesis
    unfolding handoffs_move_def handoffs_ok_def store_table.get_put
    by (auto simp: store_table.get_put handoff_moves_refl intro: issued_mono)
qed

lemma update_status_moves:
  assumes "tget (agent_handoff_events w) i = Some h"
    and "he_status h = st \<or> ensure_agent_handoff_transition (he_status h) st = Inr ()"
  shows "handoffs_move S' w (snd (update_agent_handoff_event_status S i st a w))"
proof -
  obtain h' where h': "agent_handoff_events (snd (update_agent_handoff_event_status S i st a w))
      = tput i h' (agent_handoff_events w)" and "he_status h' = st" and
    "h' = h\<lparr>he_status := he_status h', he_review_status := he_review_status h',
            he_human_escalation_status := he_human_escalation_status h',
            he_audit_trace_id := he_audit_trace_id h', he_updated_at := he_updated_at h'\<rparr>"
    using assms(1) by (simp add: update_agent_handoff_event_status_def get_agent_handoff_event_def
        bindS_def now_utc_def eff_simps ok_or_def Let_def)
  with assms(2) have "handoff_moves h h'" unfolding handoff_moves_def by (auto intro: r_into_rtranclp)
  moreover have "uuids w \<le> uuids (snd (update_agent_handoff_event_status S i st a w))"
    using assms(1) by (simp add: update_agent_handoff_event_status_def get_agent_handoff_event_def
        bindS_def now_utc_def eff_simps ok_or_def Let_def)
  ultimately show ?thesis using put_handoff [OF assms(1) _ h'] by blast
qed

lemma escalation_moves: "keeps (handoffs_move S') (update_agent_handoff_event_escalation S i st a)"
  unfolding keeps_def
proof
  fix w
  show "handoffs_move S' w (snd (update_agent_handoff_event_escalation S i st a w))"
  proof (cases "tget (agent_handoff_events w) i")
    case None
    then have "same_handoffs w (snd (update_agent_handoff_event_escalation S i st a w))"
      by (simp add: update_agent_handoff_event_escalation_def get_agent_handoff_event_def bindS_def
          now_utc_def eff_simps ok_or_def same_handoffs_def)
    then show ?thesis by (rule same_move)
  next
    case (Some h)
    then show ?thesis
      by (intro put_handoff [OF Some])
        (simp_all add: update_agent_handoff_event_escalation_def get_agent_handoff_event_def bindS_def
          now_utc_def eff_simps ok_or_def Let_def handoff_moves_def)
  qed
qed

lemma record_same: "keeps same_handoffs (record_agent_handoff_audit_and_event S h act re)"
proof -
  have "planning_relation same_handoffs S idle_peers idle_approvals idle_handoffs"
    by (intro same_planning_relation idle_peers_respect idle_scope_check) unfold_locales
  then show ?thesis by (rule planning_relation.handoff_records_keep)
qed

lemma bindS_retS: "bindS m retS = m"
  by (rule ext) (simp add: bindS_def retS_def split: prod.split sum.split)

text \<open>A record of a handoff, and the change of its status that follows.\<close>

lemma record_and_update_moves:
  assumes "tget (agent_handoff_events w) (he_id h) = Some h"
    and "he_status h = st \<or> ensure_agent_handoff_transition (he_status h) st = Inr ()"
    and "\<And>x. keeps (handoffs_move S') (rest x)"
  shows "handoffs_move S' w (snd (bindS (record_agent_handoff_audit_and_event S h act re) (\<lambda>entry.
      bindS (update_agent_handoff_event_status S (he_id h) st (Some (al_id entry))) rest) w))"
proof -
  obtain r w1 where r: "record_agent_handoff_audit_and_event S h act re w = (r, w1)" by fastforce
  have same: "same_handoffs w w1" using record_same r by (rule keepsD)
  show ?thesis
  proof (cases r)
    case (Inl e)
    with r same show ?thesis by (simp add: bindS_def same_move)
  next
    case (Inr entry)
    obtain r2 w2 where u: "update_agent_handoff_event_status S (he_id h) st (Some (al_id entry)) w1 = (r2, w2)"
      by fastforce
    have "tget (agent_handoff_events w1) (he_id h) = Some h" using same assms(1) by (simp add: same_handoffs_def)
    from update_status_moves [OF this assms(2), of S' S "Some (al_id entry)"] u
    have "handoffs_move S' w1 w2" by simp
    then have move: "handoffs_move S' w w2" by (rule moves.R_trans [OF same_move [OF same]])
    have "handoffs_move S' w2 (snd (rest x w2))" for x using assms(3) by (simp add: keeps_def)
    then have "handoffs_move S' w (snd (rest x w2))" for x by (rule moves.R_trans [OF move])
    with move have "handoffs_move S' w (case r2 of Inl e \<Rightarrow> w2 | Inr x \<Rightarrow> snd (rest x w2))"
      by (simp split: sum.split)
    moreover have "snd (bindS (record_agent_handoff_audit_and_event S h act re) (\<lambda>entry.
        bindS (update_agent_handoff_event_status S (he_id h) st (Some (al_id entry))) rest) w)
        = (case r2 of Inl e \<Rightarrow> w2 | Inr x \<Rightarrow> snd (rest x w2))"
      using r u Inr by (simp add: bindS_def split: sum.split)
    ultimately show ?thesis by simp
  qed
qed

lemma submit_moves:
  assumes "inj (uuid_supply S)" and "\<And>i now. he_id (f i now) = i \<and> he_status (f i now) = ''requested''"
  shows "keeps (handoffs_move S) (submit_agent_handoff S f)"
  unfolding keeps_def
proof
  fix w :: world
  define now i where "now = clock S (ticks w)" and "i = uuid_supply S (uuids w)"
  define w1 where "w1 = w\<lparr>ticks := Suc (ticks w), uuids := Suc (uuids w),
    agent_handoff_events := tput i (f i now) (agent_handoff_events w)\<rparr>"
  have fresh: "tget (agent_handoff_events w) i = None" if ok: "handoffs_ok S w"
  proof (rule ccontr)
    assume "tget (agent_handoff_events w) i \<noteq> None"
    with ok obtain n where "n < uuids w" "i = uuid_supply S n" unfolding handoffs_ok_def issued_def by blast
    with assms(1) show False by (simp add: i_def inj_eq)
  qed
  have new: "handoffs_move S w w1"
    unfolding handoffs_move_def
  proof (intro conjI impI allI)
    assume ok: "handoffs_ok S w"
    have "issued S w1 i" unfolding issued_def w1_def i_def by auto
    moreover have "issued S w1 j" if "issued S w j" for j
      using that by (rule issued_mono) (simp add: w1_def)
    ultimately show "handoffs_ok S w1"
      using ok assms(2) unfolding handoffs_ok_def by (simp add: w1_def store_table.get_put)
    show "\<exists>h'. tget (agent_handoff_events w1) j = Some h' \<and> handoff_moves h h'"
      if "tget (agent_handoff_events w) j = Some h" for j h
      using that fresh [OF ok] by (auto simp: w1_def store_table.get_put handoff_moves_refl)
  qed (simp add: w1_def)
  have "tget (agent_handoff_events w1) (he_id (f i now)) = Some (f i now)"
    using assms(2) by (simp add: w1_def store_table.get_put)
  from record_and_update_moves [OF this, of "''requested''" S retS S] assms(2)
  have rest: "handoffs_move S w1 (snd (bindS (record_agent_handoff_audit_and_event S (f i now)
      ''agent_handoff.requested'' None) (\<lambda>entry. bindS (update_agent_handoff_event_status S (he_id (f i now))
      ''requested'' (Some (al_id entry))) retS) w1))"
    by (simp add: moves.resp_pure)
  have "submit_agent_handoff S f w = bindS (record_agent_handoff_audit_and_event S (f i now)
      ''agent_handoff.requested'' None) (\<lambda>entry. bindS (update_agent_handoff_event_status S (he_id (f i now))
      ''requested'' (Some (al_id entry))) retS) w1"
    by (simp add: submit_agent_handoff_def bindS_def [of "now_utc S"] bindS_def [of "new_v4 S"]
        bindS_def [of "create_agent_handoff_event e" for e] now_utc_def new_v4_def
        create_agent_handoff_event_def assms(2) w1_def now_def i_def bindS_retS)
  with new rest show "handoffs_move S w (snd (submit_agent_handoff S f w))"
    using moves.R_trans by metis
qed

section \<open>All handlers\<close>

lemma transition_moves:
  assumes "peers_respect same_handoffs P" and "handoff_neighbours_respect same_handoffs A H"
  shows "keeps (handoffs_move S) (transition_agent_handoff_event S P A H who i re st)"
proof -
  note rel = same_planning_relation [OF assms, of S]
  have check: "keeps same_handoffs (check_handoff_transition S A H who c st)" for c
    using rel by (rule planning_relation.transition_parts_keep)
  let ?finish = "\<lambda>c updated. thenS (if st = ''completed'' \<or> st = ''failed''
      then thenS (close_workflow_handoff_step S P c st) (close_handoff_thread S c st) else retS ()) (retS updated)"
  have close: "keeps (handoffs_move S) (?finish c u)" for c u
    by (intro same_keeps_move same.resp_intros planning_relation.close_handoff_keeps [OF rel]
        planning_relation.transition_parts_keep [OF rel])
  show ?thesis
    unfolding keeps_def
  proof
    fix w
    show "handoffs_move S w (snd (transition_agent_handoff_event S P A H who i re st w))"
    proof (cases "tget (agent_handoff_events w) i")
      case None
      then show ?thesis
        by (simp add: transition_agent_handoff_event_def get_agent_handoff_event_def bindS_def eff_simps
            ok_or_def moves.R_refl)
    next
      case (Some c)
      obtain r w1 where r: "check_handoff_transition S A H who c st w = (r, w1)" by fastforce
      have same: "same_handoffs w w1" using check r by (rule keepsD)
      let ?tail = "bindS (record_agent_handoff_audit_and_event S c (''agent_handoff.'' @ st) re) (\<lambda>entry.
        bindS (update_agent_handoff_event_status S (he_id c) st (Some (al_id entry))) (?finish c))"
      have run: "snd (transition_agent_handoff_event S P A H who i re st w)
          = (case r of Inl e \<Rightarrow> w1 | Inr _ \<Rightarrow> snd (?tail w1))"
        using Some r by (simp add: transition_agent_handoff_event_def get_agent_handoff_event_def thenS_def
            bindS_def [of "asksr f" for f] bindS_def [of "check_handoff_transition S A H who c st"]
            eff_simps ok_or_def split: sum.split)
      show ?thesis
      proof (cases r)
        case (Inl e)
        with run same show ?thesis by (simp add: same_move)
      next
        case (Inr u)
        have allowed: "ensure_agent_handoff_transition (he_status c) st = Inr ()"
          using r Inr by (auto simp: check_handoff_transition_def Let_def effs_Inr)
        have "tget (agent_handoff_events w1) (he_id c) = Some c" if "he_id c = i"
          using same Some that by (simp add: same_handoffs_def)
        then have "handoffs_move S w1 (snd (?tail w1))" if "he_id c = i"
          using that by (intro record_and_update_moves [OF _ disjI2 [OF allowed] close]) blast
        then have "he_id c = i \<longrightarrow> handoffs_move S w (snd (?tail w1))"
          using moves.R_trans [OF same_move [OF same]] by blast
        moreover have "handoffs_ok S w \<longrightarrow> he_id c = i" using Some by (simp add: handoffs_ok_def)
        ultimately show ?thesis using run Inr unfolding handoffs_move_def by auto
      qed
    qed
  qed
qed

lemma handoff_operation_moves:
  assumes "peers_respect same_handoffs P" and "handoff_neighbours_respect same_handoffs A H"
    and "inj (uuid_supply S)" and "handoff_operation S P A H w w'"
  shows "handoffs_move S w w'"
proof -
  note rel = same_planning_relation [OF assms(1,2), of S]
  note ops = planning_relation.handoff_ops1 [OF rel]
  note planning = planning_relation.planning_keeps [OF rel, THEN same_keeps_move]
    planning_relation.preparing_keeps [OF rel, THEN same_keeps_move]
    assignment_relation.assigning_keeps [OF same_assignment_relation [OF assms(1,2)], THEN same_keeps_move]
  have request: "keeps (handoffs_move S) (create_agent_handoff S P A H who i x)" for who i x
    unfolding create_agent_handoff_def create_agent_handoff_event_for_session_def Let_def
    by (intro moves.resp_intros submit_moves assms(3) ops [THEN same_keeps_move]) simp
  have escalate: "keeps (handoffs_move S) (escalate_agent_handoff_event S A who i re es)" for who i re es
    unfolding escalate_agent_handoff_event_def
    by (intro moves.resp_intros escalation_moves ops [THEN same_keeps_move])
  note all = planning request escalate transition_moves [OF assms(1,2)]
  from assms(4) show ?thesis by cases (use all in \<open>simp_all add: keeps_def\<close>)
qed

text \<open>
  C38. A handoff only moves forward. Whatever the handlers of plans and handoffs and the operations of the
  workflow runtime do, a handoff stays in the store with the agents, the payload, the risk and the scopes it
  was requested with, and its status moves along the transitions the code allows: from requested to accepted,
  rejected or failed, and from accepted to completed or failed. So a handoff that is completed, rejected or
  failed stays so.
\<close>

theorem handoff_lifecycle:
  assumes "peers_respect same_handoffs P" and "handoff_neighbours_respect same_handoffs A H"
    and "inj (uuid_supply S)" and "handoffs_ok S w"
    and "(\<lambda>u v. operation S P u v \<or> handoff_operation S P A H u v)\<^sup>*\<^sup>* w w'"
    and "tget (agent_handoff_events w) i = Some h"
  shows "\<exists>h'. tget (agent_handoff_events w') i = Some h' \<and> handoff_moves h h'
    \<and> (he_status h \<in> {''completed'', ''rejected'', ''failed''} \<longrightarrow> he_status h' = he_status h)"
proof -
  have store: "store_relation same_handoffs S P"
    using same_planning_relation [OF assms(1,2)] by (simp add: planning_relation_def)
  have "handoffs_move S w w'"
    using assms(5)
  proof (induction rule: rtranclp_induct)
    case base
    show ?case by (rule moves.R_refl)
  next
    case (step u v)
    from step.hyps(2) have "handoffs_move S u v"
      using operation_keeps [OF store] same_move handoff_operation_moves [OF assms(1-3)] by blast
    with step.IH show ?case by (rule moves.R_trans)
  qed
  with assms(4,6) obtain h' where h': "tget (agent_handoff_events w') i = Some h'" "handoff_moves h h'"
    unfolding handoffs_move_def by blast
  have "ensure_agent_handoff_transition s t \<noteq> Inr ()" if "s \<in> {''completed'', ''rejected'', ''failed''}" for s t
    using that by (auto simp: ensure_agent_handoff_transition_def)
  then have "he_status h' = he_status h" if "he_status h \<in> {''completed'', ''rejected'', ''failed''}"
    using h'(2) that unfolding handoff_moves_def by (auto elim: converse_rtranclpE)
  with h' show ?thesis by blast
qed

text \<open>A manager's session under a grant, a specialist, and a handoff to it.\<close>

definition manager_agent :: agent where
  "manager_agent = sample_agent\<lparr>ag_agent_role := ''manager''\<rparr>"

definition specialist_agent :: agent where
  "specialist_agent = sample_agent\<lparr>ag_id := 2, ag_name := ''s'', ag_agent_role := ''specialist''\<rparr>"

definition specialist_version :: agent_version where
  "specialist_version = sample_version\<lparr>av_id := 4, av_agent_id := 2\<rparr>"

definition specialist_session :: session where
  "specialist_session = session_sample\<lparr>se_id := 6, se_agent_id := 2, se_agent_version_id := Some 4\<rparr>"

definition plan_sample :: manager_agent_plan where
  "plan_sample =
     \<lparr>mp_id = 9, mp_session_id = 5, mp_manager_agent_id = 1, mp_work_item_id = None,
      mp_specialist_agent_id = Some 2, mp_task_intake = JObj [], mp_decomposition = JObj [],
      mp_specialist_selection = JObj [], mp_risk_classification = ''low'', mp_review = JObj [],
      mp_status = ''approved'', mp_audit_trace_id = None, mp_created_at = 0, mp_updated_at = 0\<rparr>"

definition handoff_sample :: "string \<Rightarrow> json \<Rightarrow> agent_handoff_event" where
  "handoff_sample status scopes =
     \<lparr>he_id = 15, he_source_session_id = 5, he_source_agent_id = 1, he_target_agent_id = 2,
      he_manager_plan_id = Some 9, he_intent = ''review'', he_payload = JObj [],
      he_schema_version = ''v1'', he_risk_level = ''low'', he_approval_required = False,
      he_semantic_scopes = scopes, he_runtime_profile_id = None, he_remote_computer_required = False,
      he_review_status = ''approved'', he_human_escalation_status = ''none'', he_status = status,
      he_audit_trace_id = None, he_created_at = 0, he_updated_at = 0\<rparr>"

definition manager_grant :: task_grant where
  "manager_grant =
     \<lparr>tg_id = 8, tg_workflow_run_id = 7, tg_workflow_step_run_id = None, tg_session_id = Some 5,
      tg_parent_grant_id = None, tg_source_event_id = None, tg_source_handoff_id = None,
      tg_issuer_subject = ''system'', tg_grantee_agent_id = None, tg_grantee_session_id = Some 5,
      tg_agent_class = None, tg_objective = ''o'', tg_risk_level = ''low'', tg_status = ''active'',
      tg_expires_at = None, tg_max_turns = Some 3, tg_max_tool_calls = Some 2,
      tg_max_runtime_seconds = None, tg_max_cost_usd_micros = None,
      tg_turns_used = 0, tg_tool_calls_used = 0, tg_cost_usd_micros_used = 0,
      tg_semantic_scopes = JObj [(''org'', JStr ''a'')], tg_memory_scope = JObj [],
      tg_tool_scope = mk_obj [(''external_write'', JArr []), (''read'', JArr [JStr ''*'']), (''write'', JArr [])],
      tg_connector_scope = JObj [], tg_approval_policy = JObj [], tg_external_effects = JObj [],
      tg_context_packet_id = None, tg_policy_revision_id = None, tg_immutable_args_hash = None,
      tg_audit_trace_id = None, tg_created_at = 0, tg_updated_at = 0\<rparr>"

definition handoff_world :: "string \<Rightarrow> json \<Rightarrow> world" where
  "handoff_world status scopes = empty_world
     \<lparr>uuids := 6, agents := [(1, manager_agent), (2, specialist_agent)],
      agent_versions := [(1, [sample_version]), (2, [specialist_version])],
      sessions := [(5, session_sample), (6, specialist_session)],
      workflow_runs := [(7, run_sample\<lparr>wr_root_task_grant_id := Some 8\<rparr>)],
      task_grants := [(8, manager_grant)], manager_agent_plans := [(9, plan_sample)],
      agent_handoff_events := [(15, handoff_sample status scopes)]\<rparr>"

definition operator :: principal where
  "operator = \<lparr>pr_tenant_id = 0, pr_subject_id = ''op'', pr_roles = [RoleOperator]\<rparr>"

definition assign_sample :: "world \<Rightarrow> agent_handoff_assignment res \<times> world" where
  "assign_sample = assign_agent_handoff_event sample_sys idle_peers idle_approvals idle_handoffs operator 15
     \<lparr>ca_specialist_session_id = Some 6, ca_title = None, ca_message = None,
      ca_remote_computer_job_assignment_id = None, ca_assigned_by = None, ca_metadata = JObj []\<rparr>"

definition settle_sample :: "string \<Rightarrow> world \<Rightarrow> agent_handoff_event res \<times> world" where
  "settle_sample = transition_agent_handoff_event sample_sys idle_peers idle_approvals idle_handoffs operator 15 None"

definition level_schema :: json where
  "level_schema = mk_obj
     [(''type'', JStr ''object''), (''required'', JArr [JStr ''level'']),
      (''properties'', mk_obj [(''level'', mk_obj [(''enum'', JArr [JInt 1, JInt 2]), (''type'', JStr ''number'')])])]"

lemma payload_schema_iff_witness:
  "conforms level_schema (JObj [(''level'', JFloat 1)]) \<and> \<not> conforms level_schema (JObj [(''level'', JFloat (3 / 2))])"
proof -
  have wf: "wf_json (JObj [(''level'', JFloat 1)])" "wf_json (JObj [(''level'', JFloat (3 / 2))])" "wf_json level_schema"
    by code_simp+
  have "validate_handoff_payload_schema (JObj [(''level'', JFloat 1)]) (Some level_schema) = Inr ()"
    "validate_handoff_payload_schema (JObj [(''level'', JFloat (3 / 2))]) (Some level_schema) \<noteq> Inr ()"
    by code_simp+
  with payload_schema_iff [OF wf(1,3)] payload_schema_iff [OF wf(2,3)] show ?thesis by blast
qed

lemma handoff_world_ok: "handoffs_ok sample_sys (handoff_world st sc)"
  by (auto simp: handoffs_ok_def issued_def handoff_world_def handoff_sample_def sample_sys_def
      intro!: exI [where x = 5])

lemma sample_ids: "inj (uuid_supply sample_sys)"
  by (simp add: sample_sys_def)

lemma handoff_lifecycle_witness:
  "\<exists>h w1 h'. settle_sample ''completed'' (handoff_world ''accepted'' (JObj [])) = (Inr h, w1)
     \<and> tget (agent_handoff_events (snd (settle_sample ''failed'' w1))) 15 = Some h'
     \<and> he_status h' = ''completed'' \<and> handoff_moves h h'"
proof -
  have "succeeds (settle_sample ''completed'' (handoff_world ''accepted'' (JObj []))) (\<lambda>h w.
      tget (agent_handoff_events w) 15 = Some h \<and> he_status h = ''completed'')"
    by code_simp
  then obtain h w1 where settled: "settle_sample ''completed'' (handoff_world ''accepted'' (JObj [])) = (Inr h, w1)"
      "tget (agent_handoff_events w1) 15 = Some h" "he_status h = ''completed''"
    by (rule succeedsE) blast
  have idle: "peers_respect same_handoffs idle_peers" "handoff_neighbours_respect same_handoffs idle_approvals idle_handoffs"
    by (intro idle_peers_respect idle_scope_check; unfold_locales)+
  have op: "handoff_operation sample_sys idle_peers idle_approvals idle_handoffs
      (handoff_world ''accepted'' (JObj [])) (snd (settle_sample ''completed'' (handoff_world ''accepted'' (JObj []))))"
    unfolding settle_sample_def by (rule handoff_operation.complete)
  then have "handoffs_move sample_sys (handoff_world ''accepted'' (JObj [])) w1"
    using handoff_operation_moves [OF idle sample_ids op] settled(1) by simp
  then have ok: "handoffs_ok sample_sys w1"
    using handoff_world_ok unfolding handoffs_move_def by blast
  have steps: "(\<lambda>u v. operation sample_sys idle_peers u v
      \<or> handoff_operation sample_sys idle_peers idle_approvals idle_handoffs u v)\<^sup>*\<^sup>* w1
        (snd (settle_sample ''failed'' w1))"
    unfolding settle_sample_def by (intro r_into_rtranclp disjI2 handoff_operation.fail)
  from handoff_lifecycle [OF idle sample_ids ok steps settled(2)] settled(3) obtain h' where
    "tget (agent_handoff_events (snd (settle_sample ''failed'' w1))) 15 = Some h'" "handoff_moves h h'"
    "he_status h' = ''completed''" by auto
  with settled(1) show ?thesis by blast
qed

end
