(* ===== verification/Assignments.thy ===== *)
theory Assignments
  imports Handoff_Safety
begin

text \<open>
  The assignment of handoffs to specialists: every assignment belongs to a handoff that was accepted,
  carries its agents, scopes and plan, and is the only one of that handoff.
\<close>

text \<open>What an assignment says of its handoff never changes; its status, job and metadata do.\<close>

definition core :: "agent_handoff_assignment \<Rightarrow> uuid \<times> uuid \<times> uuid \<times> uuid \<times> uuid \<times> uuid \<times> json" where
  "core a = (ha_id a, ha_agent_handoff_event_id a, ha_manager_plan_id a, ha_source_session_id a,
     ha_source_agent_id a, ha_target_agent_id a, ha_semantic_scopes a)"

definition cores :: "world \<Rightarrow> uuid \<Rightarrow> (uuid \<times> uuid \<times> uuid \<times> uuid \<times> uuid \<times> uuid \<times> json) option" where
  "cores w = (\<lambda>i. map_option core (tget (agent_handoff_assignments w) i))"

definition same_cores :: "world \<Rightarrow> world \<Rightarrow> bool" where
  "same_cores w w' \<longleftrightarrow> cores w' = cores w"

interpretation cores: relation_on_worlds same_cores
  by unfold_locales (auto simp: same_cores_def)

lemma assignment_updates_keep:
  "keeps same_cores (update_agent_handoff_assignment_audit_trace S i au)"
  "keeps same_cores (attach_assignment_remote_computer_job S i j m)"
  by (simp_all add: keeps_def same_cores_def cores_def core_def update_agent_handoff_assignment_audit_trace_def
      attach_assignment_remote_computer_job_def get_agent_handoff_assignment_def bindS_def now_utc_def
      eff_simps ok_or_def Let_def fun_eq_iff store_table.get_put split: option.split)

lemma runtime_writes_cores: "runtime_writes \<le> same_cores"
  by (auto simp: runtime_writes_def same_cores_def cores_def)

lemma cores_event_relation:
  assumes "peers_respect same_cores P" and "handoff_neighbours_respect same_cores A H"
  shows "event_relation same_cores S P A H"
proof -
  have store: "store_relation same_cores S P"
    using cores.relation_on_worlds_axioms runtime_writes_cores assms(1) by (rule footprint_store_relation)
  have keeps:
    "keeps same_cores (insert_manager_agent_plan p)"
    "keeps same_cores (update_manager_agent_plan_review S i v s au)"
    "keeps same_cores (create_agent_handoff_event e)"
    "keeps same_cores (update_agent_handoff_event_status S i s ao)"
    "keeps same_cores (update_agent_handoff_event_escalation S i s ao)"
    "keeps same_cores (update_session_thread_status S i s)" for p i v s au ao e
    by (simp_all add: keeps_def same_cores_def cores_def insert_manager_agent_plan_def
        update_manager_agent_plan_review_def get_manager_agent_plan_def create_agent_handoff_event_def
        update_agent_handoff_event_status_def get_agent_handoff_event_def
        update_agent_handoff_event_escalation_def update_session_thread_status_def bindS_def now_utc_def
        eff_simps ok_or_def Let_def split: option.split)
  show ?thesis
    using assms(2) unfolding handoff_neighbours_respect_def
    by (intro event_relation.intro planning_relation.intro store)
      (simp_all add: planning_relation_axioms_def event_relation_axioms_def keeps assignment_updates_keep)
qed

section \<open>One assignment for each accepted handoff\<close>

definition of_handoff :: "agent_handoff_assignment \<Rightarrow> agent_handoff_event \<Rightarrow> bool" where
  "of_handoff a h \<longleftrightarrow>
     ha_agent_handoff_event_id a = he_id h \<and> he_manager_plan_id h = Some (ha_manager_plan_id a)
     \<and> ha_source_session_id a = he_source_session_id h \<and> ha_source_agent_id a = he_source_agent_id h
     \<and> ha_target_agent_id a = he_target_agent_id h \<and> ha_semantic_scopes a = he_semantic_scopes h
     \<and> he_status h \<in> {''accepted'', ''completed'', ''failed''}"

definition assignments_ok :: "world \<Rightarrow> bool" where
  "assignments_ok w \<longleftrightarrow> (\<forall>i a. tget (agent_handoff_assignments w) i = Some a \<longrightarrow>
     (\<exists>h. tget (agent_handoff_events w) (ha_agent_handoff_event_id a) = Some h \<and> of_handoff a h)
     \<and> (\<forall>j b. tget (agent_handoff_assignments w) j = Some b \<longrightarrow>
          ha_agent_handoff_event_id b = ha_agent_handoff_event_id a \<longrightarrow> j = i))"

lemma accepted_stays:
  assumes "(\<lambda>s t. ensure_agent_handoff_transition s t = Inr ())\<^sup>*\<^sup>* s t"
    and "s \<in> {''accepted'', ''completed'', ''failed''}"
  shows "t \<in> {''accepted'', ''completed'', ''failed''}"
  using assms
proof (induction rule: rtranclp_induct)
  case (step t u)
  then show ?case by (auto simp: ensure_agent_handoff_transition_def split: if_splits)
qed simp

lemma of_handoff_moves:
  assumes "of_handoff a h" and "handoff_moves h h'" and "core b = core a"
  shows "of_handoff b h'"
proof -
  have same: "he_id h' = he_id h" "he_manager_plan_id h' = he_manager_plan_id h"
    "he_source_session_id h' = he_source_session_id h" "he_source_agent_id h' = he_source_agent_id h"
    "he_target_agent_id h' = he_target_agent_id h" "he_semantic_scopes h' = he_semantic_scopes h"
    by (subst conjunct1 [OF assms(2) [unfolded handoff_moves_def]], simp)+
  have "he_status h' \<in> {''accepted'', ''completed'', ''failed''}"
    using conjunct2 [OF assms(2) [unfolded handoff_moves_def]]
    by (rule accepted_stays) (use assms(1) in \<open>simp add: of_handoff_def\<close>)
  with same assms(1,3) show ?thesis by (simp add: of_handoff_def core_def)
qed

lemma assignments_ok_step:
  assumes "assignments_ok w" and "handoffs_ok S w" and "handoffs_move S w w'" and "same_cores w w'"
  shows "assignments_ok w'"
proof -
  have old: "\<exists>a. tget (agent_handoff_assignments w) i = Some a \<and> core b = core a"
    if "tget (agent_handoff_assignments w') i = Some b" for i b
    using that fun_cong [OF assms(4) [unfolded same_cores_def], of i]
    by (cases "tget (agent_handoff_assignments w) i") (auto simp: cores_def)
  show ?thesis
    unfolding assignments_ok_def
  proof (intro allI impI conjI)
    fix i b assume b: "tget (agent_handoff_assignments w') i = Some b"
    then obtain a where a: "tget (agent_handoff_assignments w) i = Some a" "core b = core a" using old by blast
    then obtain h where "tget (agent_handoff_events w) (ha_agent_handoff_event_id a) = Some h" "of_handoff a h"
      using assms(1) unfolding assignments_ok_def by blast
    with assms(2,3) obtain h' where h': "tget (agent_handoff_events w') (ha_agent_handoff_event_id a) = Some h'"
        "handoff_moves h h'" unfolding handoffs_move_def by blast
    have "of_handoff b h'" using \<open>of_handoff a h\<close> h'(2) a(2) by (rule of_handoff_moves)
    with h'(1) a(2) show "\<exists>h. tget (agent_handoff_events w')
        (ha_agent_handoff_event_id b) = Some h \<and> of_handoff b h" by (auto simp: core_def)
    fix j c assume c: "tget (agent_handoff_assignments w') j = Some c"
      and same: "ha_agent_handoff_event_id c = ha_agent_handoff_event_id b"
    obtain d where d: "tget (agent_handoff_assignments w) j = Some d" "core c = core d" using old c by blast
    have "ha_agent_handoff_event_id d = ha_agent_handoff_event_id a"
      using a(2) d(2) same by (simp add: core_def)
    with assms(1) a(1) d(1) show "j = i" unfolding assignments_ok_def by blast
  qed
qed

section \<open>The handler\<close>

definition same_records :: "world \<Rightarrow> world \<Rightarrow> bool" where
  "same_records w w' \<longleftrightarrow> same_handoffs w w' \<and> agent_handoff_assignments w' = agent_handoff_assignments w"

lemma same_records_keeps:
  assumes "keeps same_records m"
  shows "keeps same_handoffs m" "keeps same_cores m"
  using assms by (auto simp: keeps_def same_records_def same_cores_def cores_def)

lemma same_records_neighbours:
  assumes "peers_respect same_records P" and "handoff_neighbours_respect same_records A H"
  shows "peers_respect same_handoffs P" "handoff_neighbours_respect same_handoffs A H"
    "peers_respect same_cores P" "handoff_neighbours_respect same_cores A H"
  using assms
  by (simp_all add: peers_respect_def handoff_neighbours_respect_def handoff_peers_respect_def same_records_keeps)

lemma prepared_handoff:
  assumes "prepare_handoff_assignment S P A H who i y w = (Inr (h, p, mp, g, pt, ss), w1)"
  shows "tget (agent_handoff_events w) i = Some h \<and> he_status h = ''accepted'' \<and> he_manager_plan_id h = Some p"
  using assms
  by (auto simp: prepare_handoff_assignment_def assignable_handoff_def get_agent_handoff_event_def Let_def
      effs_Inr ok_or_eq_Inr)

lemma create_assignment_ok:
  assumes "assignments_ok w" and "handoffs_ok S w"
    and h: "tget (agent_handoff_events w) i = Some h" "he_status h = ''accepted''" "he_manager_plan_id h = Some p"
  shows "assignments_ok (snd (create_agent_handoff_assignment (new_handoff_assignment S h p si y j now) w))"
proof (cases "list_ex (\<lambda>(i, existing). ha_agent_handoff_event_id existing = he_id h) (agent_handoff_assignments w)")
  case True
  then show ?thesis using assms(1) by (simp add: create_agent_handoff_assignment_def new_handoff_assignment_def)
next
  case False
  let ?a = "new_handoff_assignment S h p si y j now"
  let ?w = "w\<lparr>agent_handoff_assignments := tput j ?a (agent_handoff_assignments w)\<rparr>"
  have new: "of_handoff ?a h" "ha_agent_handoff_event_id ?a = he_id h" and he: "he_id h = i"
    using h assms(2) by (auto simp: of_handoff_def new_handoff_assignment_def handoffs_ok_def)
  have other: "ha_agent_handoff_event_id b \<noteq> he_id h"
    if "tget (agent_handoff_assignments w) k = Some b" for k b
    using False map_of_SomeD [OF that] by (auto simp: list_ex_iff)
  have "assignments_ok ?w"
    unfolding assignments_ok_def
  proof (intro allI impI)
    fix k b assume "tget (agent_handoff_assignments ?w) k = Some b"
    then consider "k = j" "b = ?a" | "k \<noteq> j" "tget (agent_handoff_assignments w) k = Some b"
      by (auto simp: store_table.get_put split: if_splits)
    then show "(\<exists>h. tget (agent_handoff_events ?w) (ha_agent_handoff_event_id b) = Some h \<and> of_handoff b h)
      \<and> (\<forall>l c. tget (agent_handoff_assignments ?w) l = Some c \<longrightarrow>
           ha_agent_handoff_event_id c = ha_agent_handoff_event_id b \<longrightarrow> l = k)"
    proof cases
      case 1
      with new h(1) other he show ?thesis by (auto simp: store_table.get_put)
    next
      case 2
      with assms(1) other new(2) show ?thesis
        unfolding assignments_ok_def by (simp add: store_table.get_put) metis
    qed
  qed
  moreover have "snd (create_agent_handoff_assignment ?a w) = ?w"
    using False new(2) by (simp add: create_agent_handoff_assignment_def new_handoff_assignment_def)
  ultimately show ?thesis by simp
qed

lemma assign_ok:
  assumes "peers_respect same_records P" and "handoff_neighbours_respect same_records A H"
    and "assignments_ok w" and "handoffs_ok S w"
  shows "assignments_ok (snd (assign_agent_handoff_event S P A H who i y w))"
proof -
  note N = same_records_neighbours [OF assms(1,2)]
  have "planning_relation same_cores S P A H"
    using cores_event_relation [OF N(3,4)] by (simp add: event_relation_def)
  note cores = planning_relation.preparing_keeps [OF this]
  note same = planning_relation.preparing_keeps [OF same_planning_relation [OF N(1,2)]]
  obtain r w1 where prep: "prepare_handoff_assignment S P A H who i y w = (r, w1)" by fastforce
  have "assignments_ok w1"
    using assms(3,4) same_move [OF keepsD [OF same(1) prep]] keepsD [OF cores(1) prep]
    by (rule assignments_ok_step)
  show ?thesis
  proof (cases r)
    case (Inl e)
    with prep \<open>assignments_ok w1\<close> show ?thesis by (simp add: assign_agent_handoff_event_def bindS_def)
  next
    case (Inr t)
    obtain h p mp g pt ss where t: "t = (h, p, mp, g, pt, ss)" by (cases t)
    define w2 where "w2 = w1\<lparr>ticks := Suc (ticks w1), uuids := Suc (uuids w1)\<rparr>"
    define a where "a = new_handoff_assignment S h p (se_id ss) y (uuid_supply S (uuids w1)) (clock S (ticks w1))"
    obtain r3 w3 where create: "create_agent_handoff_assignment a w2 = (r3, w3)" by fastforce
    have read: "tget (agent_handoff_events w) i = Some h" "he_status h = ''accepted''" "he_manager_plan_id h = Some p"
      using prepared_handoff prep unfolding Inr t by blast+
    have h1: "same_handoffs w w1" using same(1) prep by (rule keepsD)
    then have ok1: "handoffs_ok S w1"
      using assms(4) same_move unfolding handoffs_move_def by blast
    have "assignments_ok w2" using \<open>assignments_ok w1\<close> by (simp add: assignments_ok_def w2_def)
    moreover have ok2: "handoffs_ok S w2" using ok1 issued_mono [of S w1 _ w2] by (auto simp: handoffs_ok_def w2_def)
    moreover have "tget (agent_handoff_events w2) i = Some h"
      using h1 read(1) by (simp add: same_handoffs_def w2_def)
    ultimately have "assignments_ok (snd (create_agent_handoff_assignment a w2))"
      unfolding a_def using read(2,3) by (rule create_assignment_ok)
    then have ok3: "assignments_ok w3" "handoffs_ok S w3"
      using create ok2 by (auto simp: create_agent_handoff_assignment_def handoffs_ok_def issued_def split: if_splits)
    have run: "assign_agent_handoff_event S P A H who i y w
        = (case r3 of Inl e \<Rightarrow> (Inl e, w3) | Inr b \<Rightarrow> start_handoff_assignment S h mp g pt ss b w3)"
      using prep create unfolding Inr t
      by (simp add: assign_agent_handoff_event_def bindS_def [of "prepare_handoff_assignment S P A H who i y"]
          bindS_def [of "now_utc S"] bindS_def [of "new_v4 S"] bindS_def [of "create_agent_handoff_assignment b" for b]
          now_utc_def new_v4_def a_def w2_def split: sum.split)
    have "assignments_ok (snd (start_handoff_assignment S h mp g pt ss b w3))" for b
      using ok3 same_move cores(2) same(2) unfolding keeps_def by (blast intro: assignments_ok_step)
    with run ok3 show ?thesis by (simp split: sum.split)
  qed
qed

lemma handoff_operation_assignments:
  assumes "peers_respect same_records P" and "handoff_neighbours_respect same_records A H"
    and "inj (uuid_supply S)" and "handoffs_ok S w" and "assignments_ok w" and "handoff_operation S P A H w w'"
  shows "assignments_ok w'"
proof -
  note N = same_records_neighbours [OF assms(1,2)]
  have e: "event_relation same_cores S P A H" using N(3,4) by (rule cores_event_relation)
  then have p: "planning_relation same_cores S P A H" by (simp add: event_relation_def)
  note step = assignments_ok_step [OF assms(5,4) handoff_operation_moves [OF N(1,2) assms(3,6)]]
  note keep = planning_relation.planning_keeps [OF p] planning_relation.preparing_keeps [OF p]
    event_relation.request_keeps [OF e] event_relation.handoff_handlers_keep [OF e]
  from assms(6) show ?thesis
  proof cases
    case (assign who i y)
    then show ?thesis using assign_ok assms(1,2,4,5) by simp
  qed (rule step, use keep in \<open>simp add: keeps_def\<close>)+
qed

text \<open>
  C39. A handoff is assigned at most once, and only after it was accepted. Whatever the handlers of plans and
  handoffs and the operations of the workflow runtime do, every assignment belongs to a handoff in the store
  that is accepted, completed or failed, carries its manager's session, its agents, its plan and its scopes,
  and no other assignment belongs to that handoff.
\<close>

theorem assigned_once:
  assumes "peers_respect same_records P" and "handoff_neighbours_respect same_records A H"
    and "inj (uuid_supply S)" and "handoffs_ok S w" and "assignments_ok w"
    and "(\<lambda>u v. operation S P u v \<or> handoff_operation S P A H u v)\<^sup>*\<^sup>* w w'"
    and "tget (agent_handoff_assignments w') i = Some a"
  shows "(\<exists>h. tget (agent_handoff_events w') (ha_agent_handoff_event_id a) = Some h \<and> of_handoff a h)
    \<and> (\<forall>j b. tget (agent_handoff_assignments w') j = Some b \<and>
          ha_agent_handoff_event_id b = ha_agent_handoff_event_id a \<longrightarrow> j = i)"
proof -
  note N = same_records_neighbours [OF assms(1,2)]
  have store: "store_relation same_handoffs S P" "store_relation same_cores S P"
    using same_planning_relation [OF N(1,2)] cores_event_relation [OF N(3,4)]
    by (simp_all add: planning_relation_def event_relation_def)
  have "handoffs_ok S w' \<and> assignments_ok w'"
    using assms(6)
  proof (induction rule: rtranclp_induct)
    case base
    show ?case using assms(4,5) by blast
  next
    case (step u v)
    have move: "handoffs_move S u v"
      using step.hyps(2) operation_keeps [OF store(1)] same_move
        handoff_operation_moves [OF N(1,2) assms(3)] by blast
    moreover have "assignments_ok v"
      using step.hyps(2)
    proof
      assume "operation S P u v"
      then have "same_cores u v" by (rule operation_keeps [OF store(2)])
      with step.IH move show ?thesis by (blast intro: assignments_ok_step)
    next
      assume "handoff_operation S P A H u v"
      with step.IH show ?thesis using handoff_operation_assignments [OF assms(1-3)] by blast
    qed
    ultimately show ?case using step.IH unfolding handoffs_move_def by blast
  qed
  with assms(7) show ?thesis unfolding assignments_ok_def by blast
qed

text \<open>An accepted handoff is assigned, and its assignment is the only one.\<close>

lemma assigned_once_witness:
  "\<exists>a w. assign_sample (handoff_world ''accepted'' (JObj [(''org'', JStr ''a'')])) = (Inr a, w)
     \<and> (\<exists>h. tget (agent_handoff_events w) 15 = Some h \<and> of_handoff a h)
     \<and> (\<forall>j b. tget (agent_handoff_assignments w) j = Some b \<and> ha_agent_handoff_event_id b = 15 \<longrightarrow> j = ha_id a)"
proof -
  let ?w = "handoff_world ''accepted'' (JObj [(''org'', JStr ''a'')])"
  have "succeeds (assign_sample ?w) (\<lambda>a w. tget (agent_handoff_assignments w) (ha_id a) = Some a
      \<and> ha_agent_handoff_event_id a = 15)"
    by code_simp
  then obtain a w where run: "assign_sample ?w = (Inr a, w)"
      "tget (agent_handoff_assignments w) (ha_id a) = Some a" "ha_agent_handoff_event_id a = 15"
    by (rule succeedsE) blast
  have idle: "peers_respect same_records idle_peers"
    "handoff_neighbours_respect same_records idle_approvals idle_handoffs"
    by (intro idle_peers_respect idle_scope_check; unfold_locales; auto simp: same_records_def same_handoffs_def)+
  have ok: "assignments_ok ?w" by (simp add: assignments_ok_def handoff_world_def empty_world_def)
  have "(\<lambda>u v. operation sample_sys idle_peers u v
      \<or> handoff_operation sample_sys idle_peers idle_approvals idle_handoffs u v)\<^sup>*\<^sup>* ?w (snd (assign_sample ?w))"
    unfolding assign_sample_def by (intro r_into_rtranclp disjI2 handoff_operation.assign)
  then have steps: "(\<lambda>u v. operation sample_sys idle_peers u v
      \<or> handoff_operation sample_sys idle_peers idle_approvals idle_handoffs u v)\<^sup>*\<^sup>* ?w w"
    by (simp add: run(1))
  note once = assigned_once [OF idle sample_ids handoff_world_ok ok steps run(2)]
  show ?thesis using run(1) once unfolding run(3) by blast
qed

end
