(* ===== verification/Exec_Types.thy ===== *)
theory Exec_Types
  imports Exec_Safety
begin

text \<open>
  The shape of the jobs in the execution queue: which fields a job has in which status, and the
  ranges of its counters.
\<close>

definition held :: "execution_job \<Rightarrow> bool" where
  "held job \<longleftrightarrow> xj_worker_id job \<noteq> None \<and> xj_lease_expires_at job \<noteq> None \<and> xj_started_at job \<noteq> None
     \<and> 1 \<le> xj_attempt_count job"

definition over :: "execution_job \<Rightarrow> bool" where
  "over job \<longleftrightarrow> xj_completed_at job \<noteq> None \<and> xj_lease_expires_at job = None"

definition well_formed_job :: "execution_job \<Rightarrow> bool" where
  "well_formed_job job \<longleftrightarrow>
     1 \<le> xj_max_attempts job \<and> xj_max_attempts job \<le> 10
     \<and> 0 \<le> xj_attempt_count job \<and> xj_attempt_count job \<le> xj_claim_generation job
     \<and> (case xj_status job of
          XQueued \<Rightarrow> xj_worker_id job = None \<and> xj_lease_expires_at job = None \<and> xj_started_at job = None
            \<and> xj_completed_at job = None
        | XRunning \<Rightarrow> held job \<and> xj_completed_at job = None \<and> xj_last_error job = None
        | XExecuting \<Rightarrow> held job \<and> xj_completed_at job = None \<and> xj_last_error job = None
        | XFinalizing \<Rightarrow> held job \<and> xj_completed_at job = None
        | XCancelRequested \<Rightarrow> (xj_worker_id job = None \<longleftrightarrow> xj_lease_expires_at job = None) \<and> xj_completed_at job = None
            \<and> stage job \<in> {Some ''cancellation_pending'', Some ''cancellation_cleanup''}
        | XCompleted \<Rightarrow> over job \<and> xj_last_error job = None
        | XFailed \<Rightarrow> over job \<and> xj_last_error job \<noteq> None
        | XOutcomeUnknown \<Rightarrow> over job \<and> xj_last_error job \<noteq> None
        | XCanceled \<Rightarrow> over job)"

lemma with_job_all:
  assumes "with_job p f q = (r, q')" and "\<forall>x \<in> set q. P x" and "\<And>x. p x \<Longrightarrow> P x \<Longrightarrow> P (f x)"
  shows "\<forall>x \<in> set q'. P x"
  using assms(1)
proof (cases rule: with_job_cases)
  case (found i)
  with assms(2,3) have "P (f (q ! i))" by simp
  with found(4) assms(2) show ?thesis by (auto dest!: set_update_subset_insert [THEN subsetD])
qed (use assms(2) in simp)

lemmas job_shapes = well_formed_job_def held_def over_def claimed_by_def finished_job_def stage_def

lemmas queue_calls = begin_executing_started_def mark_outcome_unknown_started_def begin_finalizing_started_def
  resume_finalizing_def recover_expired_executing_def finish_finalizing_started_def set_finalizing_failure_def
  mark_outcome_unknown_finalizing_def prepare_outcome_tail_def mark_outcome_published_def queue_cancel_def
  acknowledge_canceled_def begin_cancellation_cleanup_def claim_cancellation_def

lemma call_well_formed:
  assumes "run_call now c q = (r, q')" and wf: "\<forall>job \<in> set q. well_formed_job job"
  shows "\<forall>job \<in> set q'. well_formed_job job"
proof (cases c)
  case (Enqueue v i x)
  then show ?thesis
    using assms by (auto simp: queue_enqueue_def new_execution_job_def Let_def job_shapes)
next
  case (Start i w)
  with assms(1) have "queue_start now i w q = (r, q')" by simp
  then show ?thesis
  proof (cases rule: start_cases)
    case (found k)
    then have "well_formed_job (q ! k)" using wf by simp
    then have "well_formed_job (start_job now w (q ! k))"
      using found(3) by (auto simp: start_job_def apply_status_def startable_def job_shapes)
    with found wf show ?thesis by (auto dest!: set_update_subset_insert [THEN subsetD])
  qed (use wf in simp)
next
  case (Renew i w g n)
  with assms(1) have "r = Inl (bad_request ''execution job lease_seconds must be between 1 and 86400'') \<and> q' = q
    \<or> with_job (\<lambda>job. claimed_by i w g (now 0) job
              \<and> xj_status job \<in> {XRunning, XExecuting, XFinalizing, XCancelRequested})
            (\<lambda>job. job\<lparr>xj_lease_expires_at := Some (plus_seconds (now 1) n)\<rparr>) q = (r, q')"
    by (auto simp: renew_started_def validate_execution_lease_seconds_def guardr_def split: if_splits)
  then show ?thesis
    using wf by (elim disjE conjE) (simp, erule with_job_all, assumption, auto simp: job_shapes)
qed (insert assms, (simp only: run_call.simps queue_calls, erule with_job_all, assumption,
    (auto simp: job_shapes)[1])+)

text \<open>Identifiers come from the requests.\<close>

definition enqueued_id :: "readings \<times> queue_call \<Rightarrow> uuid option" where
  "enqueued_id call = (case snd call of Enqueue v i x \<Rightarrow> Some i | _ \<Rightarrow> None)"

lemma call_ids:
  assumes "run_call now c q = (r, q')"
  shows "map xj_id q' = map xj_id q @ (case enqueued_id (now, c) of None \<Rightarrow> [] | Some i \<Rightarrow> [i])"
proof (cases "\<exists>v i x. c = Enqueue v i x")
  case True
  with assms show ?thesis by (auto simp: enqueue_call enqueued_id_def simp del: run_call.simps)
next
  case False
  then have none: "enqueued_id (now, c) = None" by (cases c) (auto simp: enqueued_id_def)
  from run_call_step [OF assms False] show ?thesis
  proof (elim disjE exE conjE)
    fix i assume i: "i < length q" "job_step now c (q ! i) (q' ! i)" "q' = q[i := q' ! i]"
    then have "xj_id (q' ! i) = xj_id (q ! i)" by (simp add: job_step_def same_request_def)
    then have "map xj_id (q[i := q' ! i]) = map xj_id q" by (metis list_update_id map_update)
    with i(3) none show ?thesis by simp
  qed (simp add: none)
qed

lemma calls_well_formed:
  "\<forall>job \<in> set q. well_formed_job job \<Longrightarrow> \<forall>job \<in> set (run_calls cs q). well_formed_job job"
proof (induction cs q rule: run_calls.induct)
  case (2 now c cs q)
  then show ?case using call_well_formed [of now c q] by (cases "run_call now c q") simp
qed simp

lemma calls_ids: "map xj_id (run_calls cs q) = map xj_id q @ filter_map enqueued_id cs"
proof (induction cs q rule: run_calls.induct)
  case (2 now c cs q)
  then show ?case using call_ids [of now c q]
    by (cases "run_call now c q") (simp split: option.splits)
qed simp

text \<open>
  C16. Jobs keep their shape. In every queue that calls lead to from the empty one, each job may be attempted
  one to ten times, has been attempted no more often than it was claimed, and has the fields its status
  calls for: a queued job has no worker, lease or start; one that is run, executed or finalized has all three;
  one that is over has an end and no lease; a completed one has no error, a failed one or one of unknown
  outcome has one. If identifiers are given to one request each, every job has its own.
\<close>

theorem queue_well_formed:
  assumes "q = run_calls cs []"
  shows "(\<forall>job \<in> set q. well_formed_job job)
    \<and> (distinct (filter_map enqueued_id cs) \<longrightarrow> distinct (map xj_id q))"
  using calls_well_formed [of "[]" cs] calls_ids [of cs "[]"] assms by simp

lemma queue_well_formed_witness:
  "well_formed_job (claimed_queue ! 0) \<and> xj_status (claimed_queue ! 0) = XRunning
   \<and> distinct (map xj_id claimed_queue)"
proof -
  have "xj_status (claimed_queue ! 0) = XRunning" by code_simp
  with queue_well_formed [OF claimed_queue_def] sample_queues(1) show ?thesis by (simp add: enqueued_id_def)
qed

end
