(* ===== verification/Outcomes.thy ===== *)
theory Outcomes
  imports Approvals Loop_Jobs
begin

text \<open>
  The outcomes of approved tool executions and their way back to the session's loop
  (session_loop_runtime.rs, session_handoff_runtime.rs, execution.rs, store_events.rs): which events
  of a session are its durable outcomes, which of them are accounted for, and which event starts the
  loop of the session.
\<close>

section \<open>The execution queue as part of the state\<close>

text \<open>Every operation of the queue holds its lock; it reads the clock at most three times.\<close>

definition queueS :: "sys \<Rightarrow> (readings \<Rightarrow> queue_op) \<Rightarrow> execution_job eff" where
  "queueS S call w =
     (case call (\<lambda>k. clock S (ticks w + k)) (execution_jobs w) of
        (r, q) \<Rightarrow> (r, w\<lparr>ticks := ticks w + 3, execution_jobs := q\<rparr>))"

definition queue_list :: "execution_job list eff" where
  "queue_list = asks execution_jobs"

fun show_nat :: "nat \<Rightarrow> string" where
  "show_nat n = (if n < 10 then [char_of (48 + n)] else show_nat (n div 10) @ [char_of (48 + n mod 10)])"

declare show_nat.simps [simp del]

definition show_int :: "int \<Rightarrow> string" where
  "show_int i = (if i < 0 then CHR ''-'' # show_nat (nat (- i)) else show_nat (nat i))"

section \<open>Events that start the loop of a session (session_handoff_runtime.rs)\<close>

definition is_session_goal_event :: "string \<Rightarrow> bool" where
  "is_session_goal_event event_type \<longleftrightarrow>
     event_type \<in> {''session.goal.created'', ''session.goal.updated'', ''session.goal.completed'',
                   ''session.goal.blocked''}"

definition session_loop_reason_for_event :: "string \<Rightarrow> string option" where
  "session_loop_reason_for_event event_type =
     (if is_session_goal_event event_type
         \<or> event_type \<in> {''user.message'', ''user.custom_tool_result'', ''tool.result''}
      then Some event_type
      else if event_type = ''approval.approved'' then Some ''approval approved''
      else if event_type = ''approval.rejected'' then Some ''approval rejected''
      else if event_type = ''execution.completed'' then Some ''approved execution completed''
      else if event_type = ''execution.failed'' then Some ''approved execution failed''
      else None)"

section \<open>Outcome events\<close>

text \<open>An event that ends a job: written by the worker for this attempt under this claim.\<close>

definition outcome_event_matches
    :: "ext \<Rightarrow> string \<Rightarrow> string \<Rightarrow> execution_job_status \<Rightarrow> session_event \<Rightarrow> execution_job \<Rightarrow> bool" where
  "outcome_event_matches X event_type status job_status event job \<longleftrightarrow>
     ev_actor_type event = ''worker'' \<and> ev_actor_id event = Some (xj_id job)
     \<and> ev_session_id event = xj_session_id job \<and> ev_event_type event = event_type
     \<and> jindex (ev_payload event) ''status'' = JStr status \<and> xj_status job = job_status
     \<and> jindex (ev_payload event) ''execution_job_id'' = jid X (xj_id job)
     \<and> jindex (ev_payload event) ''tool_call_id'' = jid X (xj_tool_call_id job)
     \<and> jindex (ev_payload event) ''attempt_count'' = JInt (xj_attempt_count job)
     \<and> jindex (ev_payload event) ''claim_generation'' = JInt (xj_claim_generation job)"

definition execution_completion_event_matches_job :: "ext \<Rightarrow> session_event \<Rightarrow> execution_job \<Rightarrow> bool" where
  "execution_completion_event_matches_job X event job \<longleftrightarrow>
     outcome_event_matches X ''execution.completed'' ''completed'' XCompleted event job"

definition execution_failure_event_matches_job :: "ext \<Rightarrow> session_event \<Rightarrow> execution_job \<Rightarrow> bool" where
  "execution_failure_event_matches_job X event job \<longleftrightarrow>
     outcome_event_matches X ''execution.failed'' ''failed'' XFailed event job"

definition trusted_execution_completion_event :: "ext \<Rightarrow> session_event \<Rightarrow> bool eff" where
  "trusted_execution_completion_event X event =
     (case ev_actor_id event of
        None \<Rightarrow> retS False
      | Some job_id \<Rightarrow>
          bindS queue_list (\<lambda>jobs. retS (list_ex (\<lambda>job. xj_id job = job_id
            \<and> execution_completion_event_matches_job X event job) jobs)))"

definition trusted_execution_failure_event :: "ext \<Rightarrow> session_event \<Rightarrow> bool eff" where
  "trusted_execution_failure_event X event =
     (case ev_actor_id event of
        None \<Rightarrow> retS False
      | Some job_id \<Rightarrow>
          bindS queue_list (\<lambda>jobs. retS (list_ex (\<lambda>job. xj_id job = job_id
            \<and> execution_failure_event_matches_job X event job) jobs)))"

text \<open>
  The outcome of a tool, as its events of this attempt say it; an error counts only if it is known
  what came of the call.
\<close>

definition durable_tool_outcome :: "ext \<Rightarrow> execution_job \<Rightarrow> session_event \<Rightarrow> bool" where
  "durable_tool_outcome X job event \<longleftrightarrow>
     ev_actor_type event = ''tool'' \<and> ev_actor_id event = Some (xj_tool_call_id job)
     \<and> jindex (ev_payload event) ''execution_job_id'' = jid X (xj_id job)
     \<and> jindex (ev_payload event) ''tool_call_id'' = jid X (xj_tool_call_id job)
     \<and> jindex (ev_payload event) ''attempt_count'' = JInt (xj_attempt_count job)
     \<and> is_some_and (as_i64 (jindex (ev_payload event) ''claim_generation''))
         (\<lambda>generation. generation \<le> xj_claim_generation job)
     \<and> ev_event_type event \<in> {''tool.result'', ''tool.error''}
     \<and> (ev_event_type event = ''tool.result''
         \<or> as_bool (jindex (ev_payload event) ''execution_outcome_known'') = Some True)"

definition latest_durable_tool_outcome_event :: "ext \<Rightarrow> execution_job \<Rightarrow> session_event option eff" where
  "latest_durable_tool_outcome_event X job =
     bindS (list_events (xj_session_id job)) (\<lambda>es. retS (find_first (durable_tool_outcome X job) (rev es)))"

definition latest_tool_result_for_execution_job :: "ext \<Rightarrow> execution_job \<Rightarrow> session_event option eff" where
  "latest_tool_result_for_execution_job X job =
     bindS (latest_durable_tool_outcome_event X job) (\<lambda>event.
       retS (opt_filter (\<lambda>e. ev_event_type e = ''tool.result'') event))"

text \<open>The first result of a completed job that the session's loop has not been started for.\<close>

fun earliest_uncovered :: "sys \<Rightarrow> uuid \<Rightarrow> execution_job list \<Rightarrow> int option \<Rightarrow> int option eff" where
  "earliest_uncovered S session_id [] earliest = retS earliest"
| "earliest_uncovered S session_id (pending_job # jobs) earliest =
     bindS (latest_tool_result_for_execution_job (lib S) pending_job) (\<lambda>result.
     bindS (liftS (ok_or (internal_error ''completed execution is missing its durable tool result'') result)) (\<lambda>result.
     bindS (session_loop_projection_covers_range S session_id (ev_seq result) (ev_seq result)) (\<lambda>covered.
       earliest_uncovered S session_id jobs
         (if covered then earliest
          else Some (case earliest of None \<Rightarrow> ev_seq result | Some seq \<Rightarrow> min seq (ev_seq result))))))"

definition earliest_uncovered_pending_tool_result_seq :: "sys \<Rightarrow> uuid \<Rightarrow> int option eff" where
  "earliest_uncovered_pending_tool_result_seq S session_id =
     bindS queue_list (\<lambda>jobs.
       earliest_uncovered S session_id
         (filter (\<lambda>job. xj_session_id job = session_id \<and> xj_status job = XCompleted
                    \<and> stage job = Some ''completion_pending'') jobs) None)"

text \<open>A result whose job is not completed, or whose completion is not in the log yet.\<close>

definition has_unresolved_execution_result_at_or_before :: "ext \<Rightarrow> uuid \<Rightarrow> int \<Rightarrow> bool eff" where
  "has_unresolved_execution_result_at_or_before X session_id event_seq = asks (\<lambda>w.
     case tget (events w) session_id of
       None \<Rightarrow> False
     | Some es \<Rightarrow>
         (let hidden_tool_call_ids = map xj_tool_call_id (filter (\<lambda>job. xj_session_id job = session_id
                \<and> \<not> list_ex (\<lambda>event. execution_completion_event_matches_job X event job) es)
                (queue_list_for_session session_id (execution_jobs w)))
          in list_ex (\<lambda>event. ev_seq event \<le> event_seq \<and> ev_event_type event = ''tool.result''
               \<and> is_some_and (ev_actor_id event) (\<lambda>actor_id. actor_id \<in> set hidden_tool_call_ids)) es))"

section \<open>From an event to the loop of its session (session_loop_runtime.rs)\<close>

definition enqueue_session_loop_from
    :: "sys \<Rightarrow> uuid \<Rightarrow> uuid option \<Rightarrow> string \<Rightarrow> int option \<Rightarrow> session_loop_job eff" where
  "enqueue_session_loop_from S i trigger_event_id reason seq_floor =
     bindS (session_accepts_worker_execution i) (\<lambda>accepts.
     thenS (guardS accepts (bad_request ''session is terminal and cannot enqueue session loop work''))
     (bindS (case seq_floor of
          Some seq_start \<Rightarrow> enqueue_session_loop_job_from S i trigger_event_id reason (Some seq_start)
        | None \<Rightarrow> enqueue_session_loop_job S i trigger_event_id reason) (\<lambda>job.
      bindS (append_event S ''system'' (Some (lj_id job)) i ''session.loop.queued''
        (mk_obj [(''session_loop_job_id'', jid (lib S) (lj_id job)),
                 (''environment_id'', jid_opt (lib S) (lj_environment_id job)),
                 (''reason'', JStr (lj_reason job)),
                 (''status'', JStr (session_loop_job_status_as_str (lj_status job)))])) (\<lambda>_.
        retS job))))"

definition enqueue_session_loop :: "sys \<Rightarrow> uuid \<Rightarrow> uuid option \<Rightarrow> string \<Rightarrow> session_loop_job eff" where
  "enqueue_session_loop S i trigger_event_id reason = enqueue_session_loop_from S i trigger_event_id reason None"

text \<open>Events that claim to end an execution are taken only from the worker that ended it.\<close>

definition event_is_trusted :: "ext \<Rightarrow> session_event \<Rightarrow> bool eff" where
  "event_is_trusted X event =
     (if ev_event_type event = ''execution.completed'' then trusted_execution_completion_event X event
      else if ev_event_type event = ''execution.failed'' then trusted_execution_failure_event X event
      else retS True)"

definition earlier_of :: "int option \<Rightarrow> int option \<Rightarrow> int option" where
  "earlier_of requested pending =
     (case (requested, pending) of
        (Some r, Some p) \<Rightarrow> Some (min r p)
      | (Some seq, None) \<Rightarrow> Some seq
      | (None, seq) \<Rightarrow> seq)"

text \<open>What remains once an event is known to concern the loop: what it has to take in, if anything.\<close>

definition project_uncovered
    :: "sys \<Rightarrow> session_event \<Rightarrow> string \<Rightarrow> int option \<Rightarrow> session_loop_job option eff" where
  "project_uncovered S event reason seq_floor =
     bindS (has_unresolved_execution_result_at_or_before (lib S) (ev_session_id event) (ev_seq event)) (\<lambda>unresolved.
     if unresolved then retS None
     else bindS (earliest_uncovered_pending_tool_result_seq S (ev_session_id event)) (\<lambda>pending.
     let seq_floor' = earlier_of seq_floor pending in
     bindS (case seq_floor' of
         Some seq_start \<Rightarrow> session_loop_projection_covers_range S (ev_session_id event) seq_start (ev_seq event)
       | None \<Rightarrow> session_loop_projection_covers (ev_session_id event) (ev_seq event)) (\<lambda>covered.
     if covered then retS None
     else bindS (enqueue_session_loop_from S (ev_session_id event) (Some (ev_id event)) reason seq_floor') (\<lambda>job.
       retS (Some job)))))"

definition project_session_event_to_loop_from
    :: "sys \<Rightarrow> peers \<Rightarrow> session_event \<Rightarrow> int option \<Rightarrow> session_loop_job option eff" where
  "project_session_event_to_loop_from S P event seq_floor =
     (case session_loop_reason_for_event (ev_event_type event) of
        None \<Rightarrow> retS None
      | Some reason \<Rightarrow>
          bindS (event_is_trusted (lib S) event) (\<lambda>trusted.
          if \<not> trusted then retS None
          else if ev_event_type event
              \<in> {''approval.approved'', ''approval.rejected'', ''execution.completed'', ''execution.failed''}
          then bindS (session_accepts_worker_execution (ev_session_id event)) (\<lambda>accepts.
               if \<not> accepts then retS None
               else bindS (set_managed_session_status S P (ev_session_id event) Idle
                      ''durable event projected to session loop'') (\<lambda>_.
                    project_uncovered S event reason seq_floor))
          else project_uncovered S event reason seq_floor))"

definition project_event_to_loop :: "sys \<Rightarrow> peers \<Rightarrow> session_event \<Rightarrow> session_loop_job option eff" where
  "project_event_to_loop S P event = project_session_event_to_loop_from S P event None"

end
