(* ===== verification/Execution.thy ===== *)
theory Execution
  imports Outcomes Handoffs
begin

text \<open>
  The execution of approved tool calls by a worker (execution.rs): a claimed job is checked again,
  committed to execution, executed, and its outcome is recorded under the claim and finalized; what
  came of an execution that was cut off is read from its durable events.

  Of other subsystems, \<open>execution_peers\<close> has the remote computers a job may run on, the calls that reach
  outside (connectors, MCP, the shell, files, the Codex and agent command lines, actions of the ontology)
  and the settings read from the environment. The queue is the memory backend's.
\<close>

text \<open>
  An executor is handed the commit point (\<open>ExecutionCommit::begin\<close>), which it passes at most once: its
  result comes with the job as it was committed, if it was.
\<close>

type_synonym 'a committing = "execution_job eff \<Rightarrow> world \<Rightarrow> ('a res \<times> execution_job option) \<times> world"

definition committing :: "'b eff \<Rightarrow> ('b \<Rightarrow> execution_job \<Rightarrow> 'a eff) \<Rightarrow> 'a committing" where
  "committing prepare run begin_commit w =
     (case bindS prepare (\<lambda>x. bindS begin_commit (\<lambda>job. retS (x, job))) w of
        (Inl e, w') \<Rightarrow> ((Inl e, None), w')
      | (Inr (x, job), w') \<Rightarrow> (case run x job w' of (r, w'') \<Rightarrow> ((r, Some job), w'')))"

record remote_contract =
  rc_environment_id :: uuid
  rc_evidence :: json

record shell_output =
  so_success :: bool
  so_exit_code :: "int option"
  so_stdout :: string
  so_stderr :: string

record artifact =
  af_id :: uuid
  af_session_id :: uuid
  af_artifact_type :: string
  af_name :: string
  af_path :: "string option"
  af_content :: json
  af_created_at :: timestamp

record execution_peers =
  remote_contract_for_job :: "execution_job \<Rightarrow> remote_contract option eff"
  active_assignment_for_job :: "execution_job \<Rightarrow> remote_computer_job_assignment option eff"
  assignment_for_job :: "execution_job \<Rightarrow> remote_computer_job_assignment option eff"
  validate_active_assignment
    :: "execution_job \<Rightarrow> remote_computer_job_assignment \<Rightarrow> remote_contract option \<Rightarrow> unit eff"
  auto_assign_remote_computer
    :: "execution_job \<Rightarrow> string \<Rightarrow> remote_contract option \<Rightarrow> remote_computer_job_assignment option eff"
  append_transport_plan :: "execution_job \<Rightarrow> string \<Rightarrow> remote_computer_job_assignment \<Rightarrow> unit eff"
  finalize_assignment
    :: "execution_job \<Rightarrow> remote_computer_job_assignment \<Rightarrow> string \<Rightarrow> string \<Rightarrow> json \<Rightarrow> unit eff"
  pod_execution_requested :: bool
  remote_executor :: "string \<Rightarrow> approval \<Rightarrow> tool_call \<Rightarrow> remote_computer_job_assignment \<Rightarrow> unit committing"
  ecommerce_connector_call :: "json \<Rightarrow> json eff"
  github_connector_call :: "json \<Rightarrow> json eff"
  mcp_configured :: bool
  mcp_request_of :: "json \<Rightarrow> (string \<times> string) res"
  resolve_mcp_secrets :: "uuid \<Rightarrow> string \<Rightarrow> string \<Rightarrow> nat eff"
  mcp_call :: "json \<Rightarrow> json eff"
  ontology_proposal :: "execute_tool \<Rightarrow> tool_call \<Rightarrow> uuid \<Rightarrow> (execution_job \<Rightarrow> unit eff) eff"
  run_codex :: "uuid \<Rightarrow> json \<Rightarrow> json committing"
  run_agent_cli :: "uuid \<Rightarrow> json \<Rightarrow> json committing"
  host_shell_execution_allowed :: bool
  shell_runner :: string
  session_workspace :: "uuid \<Rightarrow> string eff"
  run_shell_command :: "string \<Rightarrow> string \<Rightarrow> string \<Rightarrow> (string + shell_output option) eff"
  execution_output_limit_bytes :: nat
  write_workspace_file :: "string \<Rightarrow> string \<Rightarrow> string \<Rightarrow> unit eff"
  insert_artifact :: "artifact \<Rightarrow> artifact eff"

section \<open>Writes under a claim (store_events.rs, store_audit.rs)\<close>

text \<open>The claim is looked up in the queue, under its lock, before anything is written.\<close>

definition owned_claim :: "sys \<Rightarrow> execution_job \<Rightarrow> execution_job_status \<Rightarrow> unit eff" where
  "owned_claim S job status =
     bindS (liftS (ok_or (not_found ''execution job claim has no worker'') (xj_worker_id job))) (\<lambda>worker_id.
     bindS (now_utc S) (\<lambda>now.
     asksr (\<lambda>w. lock_owned_claim now (xj_id job) worker_id (xj_claim_generation job) status (execution_jobs w))))"

definition append_event_once_for_execution_claim
    :: "sys \<Rightarrow> execution_job \<Rightarrow> execution_job_status \<Rightarrow> uuid \<Rightarrow> string \<Rightarrow> uuid option \<Rightarrow> uuid \<Rightarrow> string \<Rightarrow>
        json \<Rightarrow> session_event eff" where
  "append_event_once_for_execution_claim S job status event_id actor_type actor_id session_id event_type payload =
     thenS (owned_claim S job status)
       (append_event_once S event_id actor_type actor_id session_id event_type payload)"

definition append_audit_log_for_execution_claim
    :: "sys \<Rightarrow> execution_job \<Rightarrow> execution_job_status \<Rightarrow> audit_log \<Rightarrow> audit_log eff" where
  "append_audit_log_for_execution_claim S job status entry =
     thenS (owned_claim S job status) (append_audit_log entry)"

section \<open>Identifiers and details\<close>

definition execution_attempt_event_id :: "ext \<Rightarrow> execution_job \<Rightarrow> string \<Rightarrow> uuid" where
  "execution_attempt_event_id X job event_type =
     deterministic_record_id X (xj_id job) ''execution-attempt-event''
       [show_int (xj_attempt_count job), event_type]"

definition execution_failure_event_id :: "ext \<Rightarrow> execution_job \<Rightarrow> uuid" where
  "execution_failure_event_id X job =
     deterministic_record_id X (xj_id job) ''execution-failure-event''
       [show_int (xj_attempt_count job), show_int (xj_claim_generation job)]"

definition execution_completion_event_id :: "ext \<Rightarrow> execution_job \<Rightarrow> uuid" where
  "execution_completion_event_id X job =
     deterministic_record_id X (xj_id job) ''execution-completion-event''
       [show_int (xj_attempt_count job), show_int (xj_claim_generation job)]"

definition merge_json_object :: "json \<Rightarrow> json \<Rightarrow> json" where
  "merge_json_object base extra =
     (case (base, extra) of
        (JObj old, JObj new) \<Rightarrow> JObj (foldl (\<lambda>m (key, v). obj_insert key v m) old new)
      | _ \<Rightarrow> base)"

definition jtext_opt :: "string option \<Rightarrow> json" where
  "jtext_opt s = (case s of None \<Rightarrow> JNull | Some t \<Rightarrow> JStr t)"

section \<open>The durable outcome of a tool\<close>

datatype durable_tool_outcome_kind = OutcomeSuccess | OutcomeFailure | OutcomeMissing

definition outcome_of_event :: "session_event \<Rightarrow> durable_tool_outcome_kind" where
  "outcome_of_event event = (if ev_event_type event = ''tool.result'' then OutcomeSuccess else OutcomeFailure)"

definition outcome_of_status :: "string \<Rightarrow> durable_tool_outcome_kind option" where
  "outcome_of_status status =
     (if status = ''completed'' then Some OutcomeSuccess
      else if status = ''failed'' then Some OutcomeFailure
      else None)"

text \<open>What the last outcome event says; the tool call is brought in line with it.\<close>

definition reconcile_durable_tool_outcome :: "sys \<Rightarrow> execution_job \<Rightarrow> durable_tool_outcome_kind eff" where
  "reconcile_durable_tool_outcome S job =
     bindS (get_tool_call (xj_tool_call_id job)) (\<lambda>call.
     let status_outcome = outcome_of_status (tc_status call) in
     bindS (latest_durable_tool_outcome_event (lib S) job) (\<lambda>found.
     case found of
       None \<Rightarrow> retS OutcomeMissing
     | Some event \<Rightarrow>
         thenS (guardS (is_none_or status_outcome (\<lambda>status. status = outcome_of_event event))
           (internal_error ''tool status conflicts with its durable terminal event''))
         (let content = unwrap_or (jget (ev_payload event) ''content'') JNull in
          thenS (if status_outcome = Some (outcome_of_event event) then retS ()
                 else bindS (if outcome_of_event event = OutcomeSuccess
                      then update_tool_call_status S (xj_tool_call_id job) ''completed'' (Some content) None
                      else update_tool_call_status S (xj_tool_call_id job) ''failed'' None (Some content)) (\<lambda>_. retS ()))
            (retS (outcome_of_event event)))))"

text \<open>The outcome event of a tool, under the claim of the committed job.\<close>

definition append_tool_outcome
    :: "sys \<Rightarrow> execution_job \<Rightarrow> uuid \<Rightarrow> string \<Rightarrow> string \<Rightarrow> json \<Rightarrow> bool \<Rightarrow> session_event eff" where
  "append_tool_outcome S job tool_call_id tool event_type content outcome_known =
     append_event_once_for_execution_claim S job XExecuting
       (execution_attempt_event_id (lib S) job event_type) ''tool'' (Some tool_call_id) (xj_session_id job) event_type
       (mk_obj [(''execution_job_id'', jid (lib S) (xj_id job)), (''tool_call_id'', jid (lib S) tool_call_id),
                (''tool'', JStr tool), (''content'', content), (''execution_outcome_known'', JBool outcome_known),
                (''attempt_count'', JInt (xj_attempt_count job)),
                (''claim_generation'', JInt (xj_claim_generation job))])"

definition record_known_tool_failure_if_missing
    :: "sys \<Rightarrow> execution_job \<Rightarrow> app_error \<Rightarrow> durable_tool_outcome_kind eff" where
  "record_known_tool_failure_if_missing S job error =
     (let X = lib S;
          error_payload = mk_obj [(''error'', JStr (err_message error)), (''execution_outcome_known'', JBool True)] in
      bindS (reconcile_durable_tool_outcome S job) (\<lambda>current.
      if current \<noteq> OutcomeMissing then retS current
      else bindS (append_tool_outcome S job (xj_tool_call_id job) (xj_tool_name job) ''tool.error''
             error_payload True) (\<lambda>_.
      bindS (update_tool_call_status S (xj_tool_call_id job) ''failed'' None (Some error_payload)) (\<lambda>_.
      bindS (new_audit_log S (Some (xj_session_id job)) ''worker'' (Some (xj_id job)) ''tool.failed'' ''tool_call''
        (Some (xj_tool_call_id job))
        (mk_obj [(''tool'', JStr (xj_tool_name job)), (''error'', error_payload),
                 (''execution_job_id'', jid X (xj_id job)), (''attempt_count'', JInt (xj_attempt_count job))])) (\<lambda>entry.
      bindS (append_audit_log_for_execution_claim S job XExecuting
        (entry\<lparr>al_id := deterministic_record_id X (execution_attempt_event_id X job ''tool.error'') ''audit''
          [''tool.failed'']\<rparr>)) (\<lambda>_.
        retS OutcomeFailure))))))"

section \<open>The tail of a finalized job\<close>

text \<open>A published outcome starts the session's loop; a job is marked once the loop accounts for it.\<close>

definition publish_execution_outcome_event :: "sys \<Rightarrow> peers \<Rightarrow> execution_job \<Rightarrow> session_event \<Rightarrow> unit eff" where
  "publish_execution_outcome_event S P job event =
     (let publish = bindS (queueS S (\<lambda>_. mark_outcome_published (xj_id job))) (\<lambda>_. retS ()) in
      bindS (session_accepts_worker_execution (xj_session_id job)) (\<lambda>accepts.
      if \<not> accepts then publish
      else bindS (earliest_uncovered_pending_tool_result_seq S (xj_session_id job)) (\<lambda>earliest.
      let pending_start = unwrap_or earliest (ev_seq event) in
      bindS (project_session_event_to_loop_from S P event (Some pending_start)) (\<lambda>projected.
      bindS (if projected = None
             then session_loop_projection_covers_range S (xj_session_id job) pending_start (ev_seq event)
             else retS True) (\<lambda>covered.
        if covered then publish else retS ())))))"

definition execution_completed_payload :: "ext \<Rightarrow> execution_job \<Rightarrow> json" where
  "execution_completed_payload X job = mk_obj
     [(''execution_job_id'', jid X (xj_id job)), (''approval_id'', jid X (xj_approval_id job)),
      (''tool_call_id'', jid X (xj_tool_call_id job)), (''tool'', JStr (xj_tool_name job)),
      (''status'', JStr ''completed''), (''worker_id'', jtext_opt (xj_worker_id job)),
      (''attempt_count'', JInt (xj_attempt_count job)), (''claim_generation'', JInt (xj_claim_generation job)),
      (''reason'', JStr ''approved execution completed'')]"

definition publish_execution_completion_tail :: "sys \<Rightarrow> peers \<Rightarrow> execution_job \<Rightarrow> unit eff" where
  "publish_execution_completion_tail S P job =
     thenS (guardS (xj_status job = XCompleted
               \<and> stage job \<in> {Some ''completion_pending'', Some ''completion_published''})
       (not_found ''execution completion is not pending publication''))
     (bindS (append_event_once S (execution_completion_event_id (lib S) job) ''worker'' (Some (xj_id job))
        (xj_session_id job) ''execution.completed'' (execution_completed_payload (lib S) job))
       (publish_execution_outcome_event S P job))"

definition publish_execution_failure_tail :: "sys \<Rightarrow> peers \<Rightarrow> execution_job \<Rightarrow> unit eff" where
  "publish_execution_failure_tail S P job =
     thenS (guardS (xj_status job = XFailed
               \<and> stage job \<in> {Some ''failure_pending'', Some ''failure_published''})
       (not_found ''execution failure is not pending publication''))
     (bindS (list_events (xj_session_id job)) (\<lambda>es.
      bindS (liftS (ok_or (internal_error ''execution failure event was not committed'')
        (find_first (\<lambda>event. execution_failure_event_matches_job (lib S) event job) (rev es))))
       (publish_execution_outcome_event S P job)))"

definition finalize_assignment_for_job
    :: "execution_peers \<Rightarrow> execution_job \<Rightarrow> remote_computer_job_assignment option \<Rightarrow> string \<Rightarrow> string \<Rightarrow>
        json \<Rightarrow> unit eff" where
  "finalize_assignment_for_job E job assignment status event_type metadata =
     (case assignment of
        None \<Rightarrow> retS ()
      | Some a \<Rightarrow> finalize_assignment E job a status event_type metadata)"

definition record_execution_failure_tail
    :: "sys \<Rightarrow> execution_peers \<Rightarrow> execution_job \<Rightarrow> remote_computer_job_assignment option \<Rightarrow> bool \<Rightarrow>
        json \<Rightarrow> unit eff" where
  "record_execution_failure_tail S E job assignment retryable_failure details =
     (let X = lib S;
          error_message = unwrap_or (xj_last_error job) [];
          queued = (retryable_failure \<and> xj_attempt_count job < xj_max_attempts job);
          status = (if queued then ''queued'' else ''failed'') in
      thenS (finalize_assignment_for_job E job assignment (if queued then ''released'' else ''failed'')
        (if queued then ''remote_computer.execution_handoff_released''
         else ''remote_computer.execution_handoff_failed'')
        (merge_json_object
          (mk_obj [(''execution_job_status'', JStr status), (''attempt_count'', JInt (xj_attempt_count job)),
                   (''max_attempts'', JInt (xj_max_attempts job)), (''last_error'', JStr error_message)]) details))
      (let event_type = (if queued then ''execution.retry_queued'' else ''execution.failed'') in
       bindS (append_event_once_for_execution_claim S job XFinalizing
         (if queued then execution_attempt_event_id X job event_type else execution_failure_event_id X job)
         ''worker'' (Some (xj_id job)) (xj_session_id job) event_type
         (merge_json_object details
           (mk_obj [(''execution_job_id'', jid X (xj_id job)), (''approval_id'', jid X (xj_approval_id job)),
                    (''tool_call_id'', jid X (xj_tool_call_id job)), (''tool'', JStr (xj_tool_name job)),
                    (''assignment_id'', jid_opt X (map_option rj_id assignment)),
                    (''remote_computer_id'', jid_opt X (map_option rj_remote_computer_id assignment)),
                    (''lease_id'', jid_opt X (map_option rj_lease_id assignment)), (''status'', JStr status),
                    (''worker_id'', jtext_opt (xj_worker_id job)), (''attempt_count'', JInt (xj_attempt_count job)),
                    (''claim_generation'', JInt (xj_claim_generation job)),
                    (''max_attempts'', JInt (xj_max_attempts job)), (''last_error'', JStr error_message),
                    (''reason'', JStr (if queued then ''execution retry queued'' else ''approved execution failed''))])))
         (\<lambda>_.
       if queued then retS ()
       else bindS (get_tool_call (xj_tool_call_id job)) (\<lambda>call.
         if tc_status call = ''failed'' then retS ()
         else bindS (update_tool_call_status S (xj_tool_call_id job) ''failed'' None
                (Some (mk_obj [(''error'', JStr error_message)]))) (\<lambda>_. retS ())))))"

text \<open>What is left once it is settled whether a failure may be retried.\<close>

definition finish_settled_job
    :: "sys \<Rightarrow> peers \<Rightarrow> execution_peers \<Rightarrow> execution_job \<Rightarrow> remote_computer_job_assignment option \<Rightarrow> string \<Rightarrow>
        bool \<Rightarrow> execution_job eff" where
  "finish_settled_job S P E job assignment worker_id retryable_failure =
     (let failed = xj_last_error job \<noteq> None;
          terminal_failure = (failed \<and> (\<not> retryable_failure \<or> xj_attempt_count job \<ge> xj_max_attempts job)) in
      thenS (if failed then record_execution_failure_tail S E job assignment retryable_failure
                              (xj_finalization_details job)
             else finalize_assignment_for_job E job assignment ''completed''
                    ''remote_computer.execution_handoff_completed''
                    (mk_obj [(''execution_job_status'', JStr ''completed'')]))
      (bindS (if \<not> failed \<or> terminal_failure
              then queueS S (\<lambda>now. prepare_outcome_tail now (xj_id job) worker_id (xj_claim_generation job))
              else retS job) (\<lambda>finalizing.
       bindS (queueS S (\<lambda>now. finish_finalizing_started now (xj_id finalizing) worker_id
                (xj_claim_generation finalizing) retryable_failure)) (\<lambda>finished.
       thenS (if xj_status finished = XCompleted then publish_execution_completion_tail S P finished
              else if xj_status finished = XFailed then publish_execution_failure_tail S P finished
              else retS ())
         (retS finished)))))"

definition finish_finalizing_execution_job
    :: "sys \<Rightarrow> peers \<Rightarrow> execution_peers \<Rightarrow> execution_job \<Rightarrow> remote_computer_job_assignment option \<Rightarrow> string \<Rightarrow>
        execution_job eff" where
  "finish_finalizing_execution_job S P E job assignment worker_id =
     bindS (if stage job = Some ''tool_known_failure''
            then bindS (reconcile_durable_tool_outcome S job) (\<lambda>outcome. retS (outcome = OutcomeFailure))
            else retS False) (\<lambda>committed_known_failure.
       finish_settled_job S P E job assignment worker_id
         (xj_last_error job \<noteq> None \<and> \<not> committed_known_failure))"

section \<open>Ends of an attempt\<close>

definition complete_started_execution_job
    :: "sys \<Rightarrow> peers \<Rightarrow> execution_peers \<Rightarrow> execution_job \<Rightarrow> remote_computer_job_assignment option \<Rightarrow> string \<Rightarrow>
        execution_job eff" where
  "complete_started_execution_job S P E job assignment worker_id =
     bindS (queueS S (\<lambda>now. begin_finalizing_started now (xj_id job) worker_id (xj_claim_generation job) None
              (at_stage ''tool_execution''))) (\<lambda>finalizing.
       finish_finalizing_execution_job S P E finalizing assignment worker_id)"

definition retry_or_fail_started_execution_job
    :: "sys \<Rightarrow> peers \<Rightarrow> execution_peers \<Rightarrow> execution_job \<Rightarrow> remote_computer_job_assignment option \<Rightarrow> app_error \<Rightarrow>
        json \<Rightarrow> execution_job eff" where
  "retry_or_fail_started_execution_job S P E job assignment error details =
     bindS (queueS S (\<lambda>now. begin_finalizing_started now (xj_id job) (unwrap_or (xj_worker_id job) [])
              (xj_claim_generation job) (Some (err_message error)) details)) (\<lambda>finalizing.
     bindS (finish_finalizing_execution_job S P E finalizing assignment (unwrap_or (xj_worker_id finalizing) []))
       (\<lambda>updated. if xj_status updated = XQueued then retS updated else failS error))"

definition append_execution_outcome_unknown_evidence :: "sys \<Rightarrow> execution_job \<Rightarrow> execution_job_status \<Rightarrow> unit eff" where
  "append_execution_outcome_unknown_evidence S job status =
     (let X = lib S; event_type = ''execution.outcome_unknown'';
          event_id = execution_attempt_event_id X job event_type;
          payload = mk_obj
            [(''execution_job_id'', jid X (xj_id job)), (''approval_id'', jid X (xj_approval_id job)),
             (''tool_call_id'', jid X (xj_tool_call_id job)), (''tool'', JStr (xj_tool_name job)),
             (''attempt_count'', JInt (xj_attempt_count job)),
             (''reason'', JStr ''execution outcome after side-effect commit requires reconciliation''),
             (''requires_reconciliation'', JBool True)] in
      bindS (append_event_once_for_execution_claim S job status event_id ''worker'' (Some (xj_id job))
        (xj_session_id job) event_type payload) (\<lambda>_.
      bindS (new_audit_log S (Some (xj_session_id job)) ''worker'' (Some (xj_id job)) event_type ''execution_job''
        (Some (xj_id job)) payload) (\<lambda>entry.
      bindS (append_audit_log_for_execution_claim S job status
        (entry\<lparr>al_id := deterministic_record_id X event_id ''audit'' [event_type]\<rparr>)) (\<lambda>_. retS ()))))"

definition record_execution_outcome_unknown_started
    :: "sys \<Rightarrow> execution_job \<Rightarrow> string \<Rightarrow> app_error \<Rightarrow> execution_job eff" where
  "record_execution_outcome_unknown_started S job worker_id error =
     thenS (append_execution_outcome_unknown_evidence S job XExecuting)
       (queueS S (\<lambda>now. mark_outcome_unknown_started now (xj_id job) worker_id (xj_claim_generation job)
         (err_message error)))"

definition record_execution_outcome_unknown_finalizing :: "sys \<Rightarrow> execution_job \<Rightarrow> string \<Rightarrow> execution_job eff" where
  "record_execution_outcome_unknown_finalizing S job worker_id =
     thenS (append_execution_outcome_unknown_evidence S job XFinalizing)
       (queueS S (\<lambda>now. mark_outcome_unknown_finalizing now (xj_id job) worker_id (xj_claim_generation job)
         ''execution outcome after side-effect commit requires reconciliation''))"

section \<open>Recovery of an execution that was cut off\<close>

text \<open>What the error event says, as text.\<close>

definition durable_error_text :: "session_event \<Rightarrow> string" where
  "durable_error_text event =
     (let content = jindex (ev_payload event) ''content'' in
      unwrap_or (opt_or (as_str (jindex content ''error'')) (as_str content))
        ''tool execution failed after durable commit'')"

definition finish_outcome_reconciliation
    :: "sys \<Rightarrow> peers \<Rightarrow> execution_peers \<Rightarrow> execution_job \<Rightarrow> string \<Rightarrow> execution_job eff" where
  "finish_outcome_reconciliation S P E job worker_id =
     bindS (latest_durable_tool_outcome_event (lib S) job) (\<lambda>found.
     case found of
       None \<Rightarrow> record_execution_outcome_unknown_finalizing S job worker_id
     | Some event \<Rightarrow>
         bindS (reconcile_durable_tool_outcome S job) (\<lambda>outcome.
         bindS (if outcome = OutcomeSuccess \<and> ev_event_type event = ''tool.result'' then retS job
                else if outcome = OutcomeFailure \<and> ev_event_type event = ''tool.error''
                then queueS S (\<lambda>now. set_finalizing_failure now (xj_id job) worker_id (xj_claim_generation job)
                       (durable_error_text event)
                       (mk_obj [(''stage'', JStr ''tool_known_failure''), (''recovery'', JStr ''durable_tool_error'')]))
                else failS (internal_error ''durable tool outcome conflicts with its terminal event'')) (\<lambda>finalizing.
         bindS (assignment_for_job E finalizing) (\<lambda>assignment.
           finish_finalizing_execution_job S P E finalizing assignment worker_id))))"

definition recover_expired_execution_with_durable_outcome
    :: "sys \<Rightarrow> peers \<Rightarrow> execution_peers \<Rightarrow> execution_job \<Rightarrow> string \<Rightarrow> execution_job eff" where
  "recover_expired_execution_with_durable_outcome S P E job worker_id =
     bindS (queueS S (\<lambda>now. recover_expired_executing now (xj_id job) worker_id None
              (at_stage ''outcome_reconciliation''))) (\<lambda>finalizing.
       finish_outcome_reconciliation S P E finalizing worker_id)"

end
