(* ===== verification/Approved_Tools.thy ===== *)
theory Approved_Tools
  imports Execution
begin

text \<open>
  The executors of approved tools and the run of a claimed job (execution.rs): what is checked again
  before a job is committed, which executor it is handed to, and how the attempt ends.
\<close>

section \<open>What an executor records\<close>

definition record_tool_result
    :: "sys \<Rightarrow> execution_job \<Rightarrow> approval \<Rightarrow> tool_call \<Rightarrow> string \<Rightarrow> json \<Rightarrow> json \<Rightarrow> unit eff" where
  "record_tool_result S job approval call actor result details =
     bindS (append_tool_outcome S job (tc_id call) (tc_tool_name call) ''tool.result'' result True) (\<lambda>_.
     bindS (update_tool_call_status S (tc_id call) ''completed'' (Some result) None) (\<lambda>_.
       audit S (Some (ap_session_id approval)) actor (Some (tc_id call)) ''tool.completed'' ''tool_call''
         (Some (tc_id call)) details))"

definition record_tool_error
    :: "sys \<Rightarrow> execution_job \<Rightarrow> approval \<Rightarrow> tool_call \<Rightarrow> json \<Rightarrow> json \<Rightarrow> unit eff" where
  "record_tool_error S job approval call error_payload details =
     bindS (append_tool_outcome S job (tc_id call) (tc_tool_name call) ''tool.error'' error_payload True) (\<lambda>_.
     bindS (update_tool_call_status S (tc_id call) ''failed'' None (Some error_payload)) (\<lambda>_.
       audit S (Some (ap_session_id approval)) ''tool'' (Some (tc_id call)) ''tool.failed'' ''tool_call''
         (Some (tc_id call)) details))"

section \<open>Connectors and MCP\<close>

text \<open>The commit token is consumed after the commit point and before the call outside.\<close>

definition connector_result :: "ext \<Rightarrow> approval_commit_token \<Rightarrow> json \<Rightarrow> json" where
  "connector_result X token adapter_result = mk_obj
     [(''approval'', JStr ''approved''), (''status'', JStr ''native_connector_committed''),
      (''approval_commit_token_id'', jid X (ct_id token)),
      (''normalized_args_hash'', JStr (ct_normalized_args_hash token)),
      (''target_binding'', ct_target_binding token), (''adapter_result'', adapter_result)]"

definition connector_executor
    :: "sys \<Rightarrow> (json \<Rightarrow> json eff) \<Rightarrow> approval \<Rightarrow> tool_call \<Rightarrow> unit committing" where
  "connector_executor S call_connector approval call =
     (let X = lib S in
      committing (retS ()) (\<lambda>_ job.
        bindS (consume_valid_approval_commit_token_for_tool_call S approval call) (\<lambda>token.
        bindS (call_connector (tc_args call)) (\<lambda>adapter_result.
          record_tool_result S job approval call ''worker'' (connector_result X token adapter_result)
            (mk_obj [(''tool'', JStr (tc_tool_name call)), (''approval_id'', jid X (ap_id approval)),
                     (''approval_commit_token_id'', jid X (ct_id token)),
                     (''normalized_args_hash'', JStr (ct_normalized_args_hash token)),
                     (''connector_id'', jindex (tc_args call) ''connector_id''),
                     (''operation'', jindex (tc_args call) ''operation''),
                     (''adapter_status'', jindex adapter_result ''status''),
                     (''resumed_after_approval'', JBool True)])))))"

definition is_supported_ecommerce_connector :: "string \<Rightarrow> bool" where
  "is_supported_ecommerce_connector connector_id \<longleftrightarrow>
     connector_id \<in> {''tmall-top'', ''taobao-open-platform'', ''tiktok-shop-open-api'', ''xiaohongshu-shop'',
                     ''xianyu-goofish'', ''amazon-selling-partner-api''}"

definition is_supported_github_connector :: "string \<Rightarrow> bool" where
  "is_supported_github_connector connector_id \<longleftrightarrow> connector_id = ''github-connector''"

definition execute_approved_native_connector
    :: "sys \<Rightarrow> execution_peers \<Rightarrow> approval \<Rightarrow> tool_call \<Rightarrow> unit committing" where
  "execute_approved_native_connector S E approval call =
     (let connector_id = unwrap_or (jget_str (tc_args call) ''connector_id'') [];
          refused = (\<lambda>message. committing (failS (bad_request message) :: unit eff) (\<lambda>u job. retS ())) in
      if tc_tool_name call \<noteq> ''native.connector.call''
      then refused (''approved tool has no registered executor: '' @ tc_tool_name call)
      else if is_supported_ecommerce_connector connector_id
      then connector_executor S (ecommerce_connector_call E) approval call
      else if is_supported_github_connector connector_id
      then connector_executor S (github_connector_call E) approval call
      else refused (''native connector has no registered executor: '' @ connector_id))"

definition execute_approved_mcp_call
    :: "sys \<Rightarrow> execution_peers \<Rightarrow> approval \<Rightarrow> tool_call \<Rightarrow> unit committing" where
  "execute_approved_mcp_call S E approval call =
     (let X = lib S in
      committing
        (thenS (guardS (mcp_configured E) (bad_request ''MCP gateway is not configured''))
         (bindS (liftS (mcp_request_of E (tc_args call))) (\<lambda>(server, tool).
            resolve_mcp_secrets E (ap_session_id approval) server tool)))
        (\<lambda>secret_refs_resolved job.
          bindS (consume_valid_approval_commit_token_for_tool_call S approval call) (\<lambda>token.
          bindS (mcp_call E (tc_args call)) (\<lambda>response.
            record_tool_result S job approval call ''worker''
              (mk_obj [(''approval'', JStr ''approved''), (''status'', JStr ''called''),
                       (''approval_commit_token_id'', jid X (ct_id token)),
                       (''normalized_args_hash'', JStr (ct_normalized_args_hash token)),
                       (''target_binding'', ct_target_binding token),
                       (''secret_refs_resolved_count'', JInt (int secret_refs_resolved)),
                       (''result'', response)])
              (mk_obj [(''tool'', JStr (tc_tool_name call)), (''approval_id'', jid X (ap_id approval)),
                       (''approval_commit_token_id'', jid X (ct_id token)),
                       (''normalized_args_hash'', JStr (ct_normalized_args_hash token)),
                       (''resumed_after_approval'', JBool True)])))))"

section \<open>Actions of the ontology\<close>

text \<open>A proposal that is refused is a known outcome: the job is committed, then it fails.\<close>

definition execute_approved_ontology_action
    :: "execution_peers \<Rightarrow> approval \<Rightarrow> tool_call \<Rightarrow> unit committing" where
  "execute_approved_ontology_action E approval call =
     committing
       (catchS (ontology_proposal E
           \<lparr>xt_session_id = ap_session_id approval, xt_task_grant_id = tc_task_grant_id call,
            xt_args = tc_args call\<rparr> call (ap_id approval))
          (\<lambda>error. if err_status error \<in> {400, 403, 404}
             then retS (\<lambda>job. failS (with_known_execution_outcome error)) else failS error))
       (\<lambda>execute job. execute job)"

section \<open>Files and the shell\<close>

text \<open>The path of a file stays in the workspace: it is relative and no component of it is \<open>..\<close>.\<close>

definition path_components :: "string \<Rightarrow> string list" where
  "path_components path = filter (\<lambda>c. c \<noteq> [] \<and> c \<noteq> ''.'') (split_on CHR ''/'' path)"

definition validate_workspace_relative_path :: "string \<Rightarrow> unit res" where
  "validate_workspace_relative_path path =
     guardr (take 1 path \<noteq> ''/'' \<and> ''..'' \<notin> set (path_components path))
       (bad_request ''file.write path must stay inside the session workspace'')"

definition path_file_name :: "string \<Rightarrow> string option" where
  "path_file_name path = (case path_components path of [] \<Rightarrow> None | cs \<Rightarrow> Some (last cs))"

definition execute_approved_file_write
    :: "sys \<Rightarrow> execution_peers \<Rightarrow> approval \<Rightarrow> tool_call \<Rightarrow> unit committing" where
  "execute_approved_file_write S E approval call =
     (let X = lib S; session_id = ap_session_id approval;
          path = unwrap_or (jget_str (tc_args call) ''path'') ''diagnostics.md'';
          content = unwrap_or (Option.bind (jget_any (tc_args call) [''content'', ''markdown'']) as_str) [] in
      committing
        (bindS (session_workspace E session_id) (\<lambda>workspace.
         bindS (liftS (validate_workspace_relative_path path)) (\<lambda>_. retS workspace)))
        (\<lambda>workspace job.
          bindS (write_workspace_file E workspace path content) (\<lambda>_.
          let result = mk_obj [(''approval'', JStr ''approved''), (''path'', JStr path),
                (''bytes'', JInt (int (length content)))] in
          bindS (append_tool_outcome S job (tc_id call) (tc_tool_name call) ''tool.result'' result True) (\<lambda>_.
          bindS (update_tool_call_status S (tc_id call) ''completed'' (Some result) None) (\<lambda>_.
          bindS (new_v4 S) (\<lambda>artifact_id. bindS (now_utc S) (\<lambda>now.
          bindS (insert_artifact E
            \<lparr>af_id = artifact_id, af_session_id = session_id, af_artifact_type = ''file'',
             af_name = unwrap_or (path_file_name path) path, af_path = Some path,
             af_content = mk_obj [(''text'', JStr content)], af_created_at = now\<rparr>) (\<lambda>artifact.
          let facts = [(''name'', JStr (af_name artifact)), (''path'', jtext_opt (af_path artifact)),
                (''artifact_type'', JStr (af_artifact_type artifact))] in
          bindS (append_event S ''system'' (Some (af_id artifact)) session_id ''artifact.created''
            (mk_obj ((''artifact_id'', jid X (af_id artifact)) # facts))) (\<lambda>_.
          thenS (audit S (Some session_id) ''tool'' (Some (tc_id call)) ''artifact.created'' ''artifact''
            (Some (af_id artifact))
            (mk_obj (facts @ [(''tool'', JStr (tc_tool_name call)), (''resumed_after_approval'', JBool True)])))
          (audit S (Some session_id) ''tool'' (Some (tc_id call)) ''tool.completed'' ''tool_call''
            (Some (tc_id call))
            (mk_obj [(''tool'', JStr (tc_tool_name call)), (''path'', JStr path),
                     (''resumed_after_approval'', JBool True)])))))))))))"

text \<open>A text cut at the last character boundary that is not behind the limit.\<close>

definition char_boundary :: "string \<Rightarrow> nat \<Rightarrow> bool" where
  "char_boundary s i \<longleftrightarrow> i < length s \<and> \<not> (128 \<le> byte (s ! i) \<and> byte (s ! i) < 192)"

definition truncate_output :: "string \<Rightarrow> nat \<Rightarrow> string \<times> nat \<times> bool" where
  "truncate_output s max_bytes =
     (if length s \<le> max_bytes then (s, length s, False)
      else (take (unwrap_or (find_first (char_boundary s) (rev [0..<Suc max_bytes])) 0) s, length s, True))"

definition execute_approved_shell
    :: "sys \<Rightarrow> execution_peers \<Rightarrow> approval \<Rightarrow> tool_call \<Rightarrow> unit committing" where
  "execute_approved_shell S E approval call =
     committing
       (thenS (guardS (host_shell_execution_allowed E)
          (bad_request (''host shell.exec is disabled; use Remote Computer execution or set ''
             @ ''MANDOFORGE_ALLOW_HOST_SHELL_EXEC=1'')))
        (bindS (liftS (ok_or (bad_request ''shell.exec requires command'')
            (jget_str (tc_args call) ''command''))) (\<lambda>command.
         bindS (session_workspace E (ap_session_id approval)) (\<lambda>workspace. retS (command, workspace)))))
       (\<lambda>(command, workspace) job.
         bindS (run_shell_command E (shell_runner E) workspace command) (\<lambda>ran.
         bindS (liftS (case ran of Inr out \<Rightarrow> Inr out
             | Inl error \<Rightarrow> Inl (bad_request (''failed to execute shell.exec: '' @ error)))) (\<lambda>finished.
         bindS (liftS (ok_or (bad_request ''shell.exec timed out'') finished)) (\<lambda>out.
         let (stdout_text, stdout_bytes, stdout_cut) = truncate_output (so_stdout out) (execution_output_limit_bytes E);
             (stderr_text, stderr_bytes, stderr_cut) = truncate_output (so_stderr out) (execution_output_limit_bytes E);
             exit_code = (case so_exit_code out of None \<Rightarrow> JNull | Some c \<Rightarrow> JInt c);
             result = mk_obj
               [(''approval'', JStr ''approved''), (''command'', JStr command), (''runner'', JStr (shell_runner E)),
                (''workspace'', JStr workspace), (''exit_code'', exit_code), (''stdout'', JStr stdout_text),
                (''stdout_bytes'', JInt (int stdout_bytes)), (''stdout_truncated'', JBool stdout_cut),
                (''stderr'', JStr stderr_text), (''stderr_bytes'', JInt (int stderr_bytes)),
                (''stderr_truncated'', JBool stderr_cut)];
             details = mk_obj
               [(''tool'', JStr (tc_tool_name call)), (''command'', JStr command), (''runner'', JStr (shell_runner E)),
                (''exit_code'', exit_code), (''resumed_after_approval'', JBool True)] in
         if \<not> so_success out
         then thenS (record_tool_error S job approval call
                (mk_obj [(''error'', JStr ''shell.exec exited unsuccessfully''), (''content'', result)]) details)
              (failS (with_known_execution_outcome (bad_request (''shell.exec exited unsuccessfully: ''
                @ (case so_exit_code out of None \<Rightarrow> ''None'' | Some c \<Rightarrow> ''Some('' @ show_int c @ '')'')))))
         else record_tool_result S job approval call ''tool'' result details))))"

section \<open>Command lines\<close>

text \<open>
  The Codex and agent command lines commit on their own. A result or a known error is recorded under
  the job they committed.
\<close>

definition uncommitted_outcome :: app_error where
  "uncommitted_outcome = internal_error ''tool outcome was recorded before the durable commit point''"

definition command_line_executor
    :: "sys \<Rightarrow> json committing \<Rightarrow> approval \<Rightarrow> tool_call \<Rightarrow> (json \<Rightarrow> json) \<Rightarrow> unit committing" where
  "command_line_executor S run_tool approval call completed_details begin_commit w =
     (let (outcome, w') = run_tool begin_commit w;
          (result, started) = outcome;
          recorded = (\<lambda>record_outcome. case started of
             None \<Rightarrow> (Inl uncommitted_outcome, w') | Some job \<Rightarrow> record_outcome job w') in
      case result of
        Inr output \<Rightarrow>
          (let (r, v) = recorded (\<lambda>job. record_tool_result S job approval call ''tool'' output
                (completed_details output)) in ((r, started), v))
      | Inl error \<Rightarrow>
          if \<not> execution_outcome_known error then ((Inl error, started), w')
          else (let error_payload = mk_obj [(''error'', JStr (err_message error))];
                    (r, v) = recorded (\<lambda>job. thenS (record_tool_error S job approval call error_payload
                      (mk_obj [(''tool'', JStr (tc_tool_name call)), (''error'', error_payload),
                               (''resumed_after_approval'', JBool True)])) (failS error))
                in ((r, started), v)))"

definition execute_approved_codex
    :: "sys \<Rightarrow> execution_peers \<Rightarrow> approval \<Rightarrow> tool_call \<Rightarrow> unit committing" where
  "execute_approved_codex S E approval call =
     command_line_executor S (run_codex E (ap_session_id approval) (tc_args call)) approval call
       (\<lambda>result. mk_obj [(''tool'', JStr (tc_tool_name call)), (''resumed_after_approval'', JBool True)])"

definition execute_approved_agent_cli
    :: "sys \<Rightarrow> execution_peers \<Rightarrow> approval \<Rightarrow> tool_call \<Rightarrow> unit committing" where
  "execute_approved_agent_cli S E approval call =
     command_line_executor S (run_agent_cli E (ap_session_id approval) (tc_args call)) approval call
       (\<lambda>result. mk_obj ((''tool'', JStr (tc_tool_name call))
          # map (\<lambda>key. (key, jindex result key))
              [''profile'', ''profile_source'', ''runtime_type'', ''runner'', ''runtime_adapter_event_count'',
               ''runtime_turn_event_count'', ''runtime_final_artifact_count'']
          @ [(''resumed_after_approval'', JBool True)]))"

definition approved_executor
    :: "sys \<Rightarrow> execution_peers \<Rightarrow> approval \<Rightarrow> tool_call \<Rightarrow> remote_computer_job_assignment option \<Rightarrow>
        unit committing" where
  "approved_executor S E approval call assignment =
     (let tool = tc_tool_name call;
          local_executor =
            (if tool = ''file.write'' then execute_approved_file_write S E approval call
             else if tool = ''shell.exec'' then execute_approved_shell S E approval call
             else if tool = ''codex.exec'' then execute_approved_codex S E approval call
             else if tool = ''agent_cli.exec'' then execute_approved_agent_cli S E approval call
             else if tool = ''mcp.call'' then execute_approved_mcp_call S E approval call
             else if tool = ''ontology.action.execute'' then execute_approved_ontology_action E approval call
             else execute_approved_native_connector S E approval call) in
      case assignment of
        Some a \<Rightarrow>
          if pod_execution_requested E \<and> tool \<in> {''file.write'', ''shell.exec'', ''codex.exec'', ''agent_cli.exec''}
          then remote_executor E tool approval call a else local_executor
      | None \<Rightarrow> local_executor)"

end
