(* ===== verification/Job_Runner.thy ===== *)
theory Job_Runner
  imports Approved_Tools
begin

text \<open>
  The run of a claimed execution job (execution.rs): what is asked again before the job is committed,
  the handing over to its executor, and how the attempt ends. A job that is refused before it is
  committed is retried or fails; one that was committed ends by what is known of its outcome.
\<close>

section \<open>Admission\<close>

datatype admission =
    Refused app_error "remote_computer_job_assignment option" json
  | Already_Committed
  | Admitted approval tool_call "remote_computer_job_assignment option"

text \<open>A step whose error refuses the job.\<close>

definition or_refuse
    :: "remote_computer_job_assignment option \<Rightarrow> json \<Rightarrow> 'a eff \<Rightarrow> ('a \<Rightarrow> admission eff) \<Rightarrow> admission eff" where
  "or_refuse assignment details m k w =
     (case m w of (Inl e, w') \<Rightarrow> (Inr (Refused e assignment details), w') | (Inr x, w') \<Rightarrow> k x w')"

definition refuse :: "app_error \<Rightarrow> json \<Rightarrow> admission eff" where
  "refuse e details = retS (Refused e None details)"

definition contract_stage :: "ext \<Rightarrow> string \<Rightarrow> remote_contract option \<Rightarrow> json" where
  "contract_stage X s contract = mk_obj
     [(''stage'', JStr s), (''environment_id'', jid_opt X (map_option rc_environment_id contract)),
      (''environment_contract'', case contract of None \<Rightarrow> JNull | Some c \<Rightarrow> rc_evidence c)]"

definition record_remote_computer_execution_handoff_acknowledged
    :: "sys \<Rightarrow> execution_peers \<Rightarrow> execution_job \<Rightarrow> string \<Rightarrow> remote_computer_job_assignment \<Rightarrow> unit eff" where
  "record_remote_computer_execution_handoff_acknowledged S E job worker_id a =
     (let X = lib S; execution_enabled = pod_execution_requested E;
          details = mk_obj
            [(''assignment_id'', jid X (rj_id a)), (''execution_job_id'', jid X (xj_id job)),
             (''approval_id'', jid X (xj_approval_id job)), (''tool_call_id'', jid X (xj_tool_call_id job)),
             (''tool'', JStr (xj_tool_name job)), (''remote_computer_id'', jid X (rj_remote_computer_id a)),
             (''lease_id'', jid X (rj_lease_id a)), (''worker_id'', JStr worker_id),
             (''execution_enabled'', JBool execution_enabled),
             (''handoff_mode'', JStr (if execution_enabled then ''assigned-pod-execution''
                                     else ''control-plane-only''))] in
      bindS (append_event S ''worker'' (Some (xj_id job)) (xj_session_id job)
        ''remote_computer.execution_handoff_acknowledged'' details) (\<lambda>_.
        audit S (Some (xj_session_id job)) ''worker'' (Some (xj_id job))
          ''remote_computer.execution_handoff_acknowledged'' ''remote_computer_job_assignment''
          (Some (rj_id a)) details))"

text \<open>The computer the job runs on, if it runs on one.\<close>

definition remote_assignment
    :: "execution_peers \<Rightarrow> execution_job \<Rightarrow> string \<Rightarrow> ext \<Rightarrow> remote_contract option \<Rightarrow>
        (remote_computer_job_assignment option \<Rightarrow> admission eff) \<Rightarrow> admission eff" where
  "remote_assignment E job worker_id X contract k =
     or_refuse None (at_stage ''remote_computer_assignment_load'') (active_assignment_for_job E job) (\<lambda>active.
     case active of
       Some a \<Rightarrow> or_refuse (Some a) (contract_stage X ''remote_computer_assignment_validation'' contract)
         (validate_active_assignment E job a contract) (\<lambda>_. k (Some a))
     | None \<Rightarrow> or_refuse None (contract_stage X ''remote_computer_auto_assignment'' contract)
         (auto_assign_remote_computer E job worker_id contract) k)"

definition admit_remote
    :: "sys \<Rightarrow> execution_peers \<Rightarrow> execution_job \<Rightarrow> string \<Rightarrow> remote_contract option \<Rightarrow> approval \<Rightarrow> tool_call \<Rightarrow>
        admission eff" where
  "admit_remote S E job worker_id contract approval call =
     (let X = lib S in
      remote_assignment E job worker_id X contract (\<lambda>assignment.
      if contract \<noteq> None \<and> assignment = None
      then refuse (bad_request (''remote_computer environment has no claimable Remote Computer ''
             @ ''lease or warm-pool resource''))
           (contract_stage X ''remote_computer_assignment_missing'' contract)
      else
        (let proceed =
           (if contract \<noteq> None \<and> \<not> pod_execution_requested E
            then retS (Refused (bad_request (''remote_computer environment requires enabled ''
                     @ ''Remote Computer execution transport'')) assignment
                   (contract_stage X ''remote_computer_execution_transport_disabled'' contract))
            else retS (Admitted approval call assignment)) in
         case assignment of
           None \<Rightarrow> proceed
         | Some a \<Rightarrow>
             or_refuse (Some a) (at_stage ''remote_computer_handoff_acknowledge'')
               (record_remote_computer_execution_handoff_acknowledged S E job worker_id a) (\<lambda>_.
             or_refuse (Some a) (at_stage ''remote_computer_execution_transport_plan'')
               (append_transport_plan E job worker_id a) (\<lambda>_. proceed)))))"

text \<open>A bound call needs its commit token, which is not used yet.\<close>

definition admit_token
    :: "sys \<Rightarrow> approval \<Rightarrow> tool_call \<Rightarrow> admission eff \<Rightarrow> admission eff" where
  "admit_token S approval call k =
     (if tc_normalized_args_hash call = None then k
      else or_refuse None (at_stage ''approval_commit_token_lookup'')
        (approval_commit_token_for_approval S (ap_id approval)) (\<lambda>token.
      if is_some_and token (\<lambda>t. ct_status t = ''consumed'') then retS Already_Committed
      else or_refuse None (at_stage ''approval_commit_token_revalidation'')
        (validate_approval_commit_token_for_tool_call S approval call) (\<lambda>_. k)))"

text \<open>What is asked of approval, tool call, session and grant.\<close>

definition admit_call
    :: "sys \<Rightarrow> handoff_peers \<Rightarrow> execution_job \<Rightarrow> (approval \<Rightarrow> tool_call \<Rightarrow> admission eff) \<Rightarrow> admission eff" where
  "admit_call S H job k =
     or_refuse None (at_stage ''approval_load'') (get_approval (xj_approval_id job)) (\<lambda>approval.
     if ap_status approval \<noteq> ''approved''
     then refuse (bad_request ''execution job approval is not approved'')
       (mk_obj [(''stage'', JStr ''approval_status''), (''approval_status'', JStr (ap_status approval))])
     else or_refuse None (at_stage ''tool_call_load'') (get_tool_call (xj_tool_call_id job)) (\<lambda>call.
     or_refuse None (at_stage ''session_governance_revalidation'')
       (ensure_session_runnable S H (xj_session_id job)) (\<lambda>_.
     or_refuse None (at_stage ''task_grant_revalidation'')
       (revalidate_task_grant_for_tool_invocation S (tc_tool_name call)
          \<lparr>xt_session_id = xj_session_id job, xt_task_grant_id = tc_task_grant_id call,
           xt_args = tc_args call\<rparr>) (\<lambda>_.
     admit_token S approval call (k approval call)))))"

definition admit_execution_job
    :: "sys \<Rightarrow> handoff_peers \<Rightarrow> execution_peers \<Rightarrow> execution_job \<Rightarrow> string \<Rightarrow> admission eff" where
  "admit_execution_job S H E job worker_id =
     (let X = lib S in
      bindS (session_accepts_worker_execution (xj_session_id job)) (\<lambda>accepts.
      if \<not> accepts
      then refuse (bad_request ''execution job session is no longer active'') (at_stage ''session_status'')
      else bindS (tryS (remote_contract_for_job E job)) (\<lambda>contract.
      case contract of
        Inl error \<Rightarrow>
          bindS (append_event S ''worker'' (Some (xj_id job)) (xj_session_id job)
            ''environment.remote_computer_contract_invalid''
            (mk_obj [(''execution_job_id'', jid X (xj_id job)), (''approval_id'', jid X (xj_approval_id job)),
                     (''tool_call_id'', jid X (xj_tool_call_id job)), (''tool'', JStr (xj_tool_name job)),
                     (''error'', JStr (err_message error))])) (\<lambda>_.
            refuse error (at_stage ''environment_contract''))
      | Inr c \<Rightarrow> admit_call S H job (admit_remote S E job worker_id c))))"

section \<open>The attempt\<close>

text \<open>How an attempt ends whose executor failed after the job was committed.\<close>

definition settle_failed_execution
    :: "sys \<Rightarrow> peers \<Rightarrow> execution_peers \<Rightarrow> execution_job \<Rightarrow> remote_computer_job_assignment option \<Rightarrow> string \<Rightarrow>
        app_error \<Rightarrow> execution_job eff" where
  "settle_failed_execution S P E executing assignment worker_id error =
     (if execution_retry_safe error
      then retry_or_fail_started_execution_job S P E executing assignment error (at_stage ''tool_precommit_retry'')
      else bindS (if execution_outcome_known error then record_known_tool_failure_if_missing S executing error
                  else reconcile_durable_tool_outcome S executing) (\<lambda>outcome.
        case outcome of
          OutcomeSuccess \<Rightarrow> complete_started_execution_job S P E executing assignment worker_id
        | OutcomeFailure \<Rightarrow>
            if execution_outcome_known error
            then retry_or_fail_started_execution_job S P E executing assignment error
                   (at_stage ''tool_known_failure'')
            else record_execution_outcome_unknown_started S executing worker_id error
        | OutcomeMissing \<Rightarrow> record_execution_outcome_unknown_started S executing worker_id error))"

definition commit_point :: "sys \<Rightarrow> execution_job \<Rightarrow> string \<Rightarrow> execution_job eff" where
  "commit_point S job worker_id =
     queueS S (\<lambda>now. begin_executing_started now (xj_id job) worker_id (xj_claim_generation job))"

definition run_admitted_job
    :: "sys \<Rightarrow> peers \<Rightarrow> execution_peers \<Rightarrow> execution_job \<Rightarrow> string \<Rightarrow> approval \<Rightarrow> tool_call \<Rightarrow>
        remote_computer_job_assignment option \<Rightarrow> execution_job eff" where
  "run_admitted_job S P E job worker_id approval call assignment w =
     (case approved_executor S E approval call assignment (commit_point S job worker_id) w of
        ((result, started), w') \<Rightarrow>
          (case (result, started) of
             (Inr _, Some executing) \<Rightarrow> complete_started_execution_job S P E executing assignment worker_id
           | (Inr _, None) \<Rightarrow> failS (internal_error ''tool execution completed without a durable commit point'')
           | (Inl error, Some executing) \<Rightarrow>
               settle_failed_execution S P E executing assignment worker_id error
           | (Inl error, None) \<Rightarrow>
               retry_or_fail_started_execution_job S P E job assignment error
                 (at_stage ''tool_precommit_validation'')) w')"

definition token_already_consumed :: app_error where
  "token_already_consumed = forbidden
     ''approval commit token was already consumed; execution outcome requires reconciliation''"

definition run_claimed_execution_job
    :: "sys \<Rightarrow> peers \<Rightarrow> handoff_peers \<Rightarrow> execution_peers \<Rightarrow> execution_job \<Rightarrow> string \<Rightarrow> execution_job eff" where
  "run_claimed_execution_job S P H E job worker_id =
     (if xj_status job = XFinalizing
      then (if stage job = Some ''outcome_reconciliation'' then finish_outcome_reconciliation S P E job worker_id
            else bindS (assignment_for_job E job) (\<lambda>assignment.
                   finish_finalizing_execution_job S P E job assignment worker_id))
      else bindS (admit_execution_job S H E job worker_id) (\<lambda>admission.
        case admission of
          Refused error assignment details \<Rightarrow>
            retry_or_fail_started_execution_job S P E job assignment error details
        | Already_Committed \<Rightarrow>
            bindS (commit_point S job worker_id) (\<lambda>executing.
              record_execution_outcome_unknown_started S executing worker_id token_already_consumed)
        | Admitted approval call assignment \<Rightarrow>
            run_admitted_job S P E job worker_id approval call assignment))"

definition claim_execution_job :: "sys \<Rightarrow> uuid \<Rightarrow> string \<Rightarrow> execution_job eff" where
  "claim_execution_job S job_id worker_id =
     bindS (asksr (\<lambda>w. queue_get job_id (execution_jobs w))) (\<lambda>current.
     if xj_status current = XFinalizing
     then queueS S (\<lambda>now. resume_finalizing now job_id worker_id)
     else queueS S (\<lambda>now. queue_start now job_id worker_id))"

definition run_execution_job
    :: "sys \<Rightarrow> peers \<Rightarrow> handoff_peers \<Rightarrow> execution_peers \<Rightarrow> uuid \<Rightarrow> string \<Rightarrow> execution_job eff" where
  "run_execution_job S P H E job_id worker_id =
     bindS (claim_execution_job S job_id worker_id) (\<lambda>job.
       run_claimed_execution_job S P H E job worker_id)"

section \<open>From an approval to a job\<close>

definition enqueue_approved_job :: "sys \<Rightarrow> string option \<Rightarrow> approval \<Rightarrow> execution_job option eff" where
  "enqueue_approved_job S max_attempts_variable approval =
     (case ap_tool_call_id approval of
        None \<Rightarrow> retS None
      | Some tool_call_id \<Rightarrow>
          bindS (get_tool_call tool_call_id) (\<lambda>call.
          bindS (get_session (ap_session_id approval)) (\<lambda>session.
          bindS (new_v4 S) (\<lambda>i.
          bindS (queueS S (\<lambda>now. queue_enqueue max_attempts_variable i now
            \<lparr>xr_session_id = ap_session_id approval, xr_environment_id = se_environment_id session,
             xr_approval_id = ap_id approval, xr_tool_call_id = tool_call_id,
             xr_tool_name = tc_tool_name call, xr_max_attempts = None\<rparr>)) (\<lambda>job.
            retS (Some job))))))"

definition inline_execute_approved_tool
    :: "sys \<Rightarrow> peers \<Rightarrow> handoff_peers \<Rightarrow> execution_peers \<Rightarrow> string option \<Rightarrow> approval \<Rightarrow>
        execution_worker_outcome eff" where
  "inline_execute_approved_tool S P H E max_attempts_variable approval =
     bindS (enqueue_approved_job S max_attempts_variable approval) (\<lambda>enqueued.
     case enqueued of
       None \<Rightarrow> retS (WorkerCompleted None)
     | Some job \<Rightarrow>
         bindS (run_execution_job S P H E (xj_id job) ''inline'') (\<lambda>completed.
           retS (WorkerCompleted (Some (xj_id completed)))))"

definition queue_backed_execute_approved_tool
    :: "sys \<Rightarrow> string option \<Rightarrow> approval \<Rightarrow> execution_worker_outcome eff" where
  "queue_backed_execute_approved_tool S max_attempts_variable approval =
     bindS (enqueue_approved_job S max_attempts_variable approval) (\<lambda>enqueued.
     case enqueued of
       None \<Rightarrow> retS (WorkerCompleted None)
     | Some job \<Rightarrow>
         bindS (append_event S ''system'' (Some (xj_id job)) (ap_session_id approval) ''execution.queued''
           (mk_obj [(''execution_job_id'', jid (lib S) (xj_id job)), (''approval_id'', jid (lib S) (ap_id approval)),
                    (''tool_call_id'', jid (lib S) (xj_tool_call_id job)), (''tool'', JStr (xj_tool_name job))]))
           (\<lambda>_. retS WorkerQueued))"

end
