(* ===== verification/Execution_Preservation.thy ===== *)
theory Execution_Preservation
  imports Job_Runner Footprint
begin

text \<open>
  A relation between states that the atomic operations of the queue, the loop jobs and the tool calls
  keep is kept by the ends of an attempt, by the recovery of an execution and by every executor. For
  the committing executors there is more to say: what they ran before and after the commit point.
\<close>

section \<open>Executors and the commit point\<close>

text \<open>
  An executor that commits: it relates the states before and after, and if it reports a committed job,
  it passed the commit point in between.
\<close>

definition commits_in :: "(world \<Rightarrow> world \<Rightarrow> bool) \<Rightarrow> 'a committing \<Rightarrow> bool" where
  "commits_in R f \<longleftrightarrow> (\<forall>begin_commit w r started w'. keeps R begin_commit \<longrightarrow>
     f begin_commit w = ((r, started), w') \<longrightarrow> R w w' \<and>
     (\<forall>job. started = Some job \<longrightarrow> (\<exists>v v'. R w v \<and> begin_commit v = (Inr job, v') \<and> R v' w')))"

definition execution_peers_respect :: "(world \<Rightarrow> world \<Rightarrow> bool) \<Rightarrow> execution_peers \<Rightarrow> bool" where
  "execution_peers_respect R E \<longleftrightarrow>
     (\<forall>j. keeps R (remote_contract_for_job E j)) \<and> (\<forall>j. keeps R (active_assignment_for_job E j))
     \<and> (\<forall>j. keeps R (assignment_for_job E j)) \<and> (\<forall>j a c. keeps R (validate_active_assignment E j a c))
     \<and> (\<forall>j i c. keeps R (auto_assign_remote_computer E j i c))
     \<and> (\<forall>j i a. keeps R (append_transport_plan E j i a))
     \<and> (\<forall>j a s t d. keeps R (finalize_assignment E j a s t d))
     \<and> (\<forall>t a c g. commits_in R (remote_executor E t a c g))
     \<and> (\<forall>v. keeps R (ecommerce_connector_call E v)) \<and> (\<forall>v. keeps R (github_connector_call E v))
     \<and> (\<forall>i s t. keeps R (resolve_mcp_secrets E i s t)) \<and> (\<forall>v. keeps R (mcp_call E v))
     \<and> (\<forall>x c i. keeps R (ontology_proposal E x c i)
          \<and> (\<forall>w execute w' j. ontology_proposal E x c i w = (Inr execute, w') \<longrightarrow> keeps R (execute j)))
     \<and> (\<forall>i v. commits_in R (run_codex E i v)) \<and> (\<forall>i v. commits_in R (run_agent_cli E i v))
     \<and> (\<forall>i. keeps R (session_workspace E i)) \<and> (\<forall>r p c. keeps R (run_shell_command E r p c))
     \<and> (\<forall>d p c. keeps R (write_workspace_file E d p c)) \<and> (\<forall>a. keeps R (insert_artifact E a))"

context relation_on_worlds begin

lemma committing_commits:
  assumes "keeps R prepare" and "\<And>w x w' job. prepare w = (Inr x, w') \<Longrightarrow> keeps R (run x job)"
  shows "commits_in R (committing prepare run)"
  unfolding commits_in_def
proof (intro allI impI)
  fix b w r started w'
  assume b: "keeps R b" and f: "committing prepare run b w = ((r, started), w')"
  obtain p v where p: "prepare w = (p, v)" by fastforce
  have wv: "R w v" using assms(1) p by (rule keepsD)
  show "R w w' \<and> (\<forall>job. started = Some job \<longrightarrow> (\<exists>v v'. R w v \<and> b v = (Inr job, v') \<and> R v' w'))"
  proof (cases p)
    case (Inl e)
    with f p wv show ?thesis by (simp add: committing_def bindS_def)
  next
    case (Inr x)
    obtain q v' where q: "b v = (q, v')" by fastforce
    have vv': "R v v'" using b q by (rule keepsD)
    show ?thesis
    proof (cases q)
      case (Inl e)
      with f p q Inr R_trans [OF wv vv'] show ?thesis by (simp add: committing_def bindS_def)
    next
      case (Inr job)
      obtain u v'' where u: "run x job v' = (u, v'')" by fastforce
      have "R v' v''" using assms(2) p \<open>p = Inr x\<close> u by (blast intro: keepsD)
      with f p q u \<open>p = Inr x\<close> Inr wv vv' show ?thesis
        by (auto simp: committing_def bindS_def eff_simps intro: R_trans)
    qed
  qed
qed

end

section \<open>Composed operations\<close>

locale execution_relation = session_relation R S P
  for R :: "world \<Rightarrow> world \<Rightarrow> bool" and S :: sys and P :: peers +
  fixes E :: execution_peers
  assumes queue_keeps:
      "\<And>i w g. keeps R (queueS S (\<lambda>now. begin_executing_started now i w g))"
      "\<And>i w g e d. keeps R (queueS S (\<lambda>now. begin_finalizing_started now i w g e d))"
      "\<And>i w e d. keeps R (queueS S (\<lambda>now. recover_expired_executing now i w e d))"
      "\<And>i w g e d. keeps R (queueS S (\<lambda>now. set_finalizing_failure now i w g e d))"
      "\<And>i w g e. keeps R (queueS S (\<lambda>now. mark_outcome_unknown_started now i w g e))"
      "\<And>i w g e. keeps R (queueS S (\<lambda>now. mark_outcome_unknown_finalizing now i w g e))"
      "\<And>i w g. keeps R (queueS S (\<lambda>now. prepare_outcome_tail now i w g))"
      "\<And>i. keeps R (queueS S (\<lambda>now. mark_outcome_published i))"
      "\<And>i w g. keeps R (queueS S (\<lambda>now. finish_finalizing_started now i w g False))"
    and loop_keeps: "\<And>s t r f. keeps R (enqueue_session_loop_job_from S s t r f)"
    and call_keeps: "\<And>i s r e. keeps R (update_tool_call_status S i s r e)"
    and token_keeps: "\<And>i. keeps R (consume_approval_commit_token S i)"
    and execution_neighbours: "execution_peers_respect R E"
begin

lemma execution_neighbour_ops:
  "keeps R (remote_contract_for_job E j)" "keeps R (active_assignment_for_job E j)"
  "keeps R (assignment_for_job E j)" "keeps R (validate_active_assignment E j a c)"
  "keeps R (auto_assign_remote_computer E j i c)" "keeps R (append_transport_plan E j i a)"
  "keeps R (finalize_assignment E j a s t d)" "keeps R (ecommerce_connector_call E v)"
  "keeps R (github_connector_call E v)" "keeps R (resolve_mcp_secrets E k s t)" "keeps R (mcp_call E v)"
  "keeps R (ontology_proposal E x tc k)" "keeps R (session_workspace E k)"
  "keeps R (run_shell_command E s t d')" "keeps R (write_workspace_file E s t d')" "keeps R (insert_artifact E f)"
  using execution_neighbours by (simp_all add: execution_peers_respect_def)

lemma execution_readers_keep:
  "keeps R queue_list" "keeps R (list_events i)" "keeps R (owned_claim S j st)"
  "keeps R (latest_durable_tool_outcome_event X j)" "keeps R (session_accepts_worker_execution i)"
  "keeps R (session_loop_projection_covers_range S i a b)" "keeps R (session_loop_projection_covers i a)"
  "keeps R (has_unresolved_execution_result_at_or_before X i a)" "keeps R (not_denied d)"
  "keeps R (approval_commit_token_for_approval S i)"
  unfolding queue_list_def list_events_def owned_claim_def latest_durable_tool_outcome_event_def
    session_accepts_worker_execution_def session_loop_projection_covers_range_def list_session_loop_jobs_def
    session_loop_projection_covers_def has_unresolved_execution_result_at_or_before_def Let_def
    not_denied_def approval_commit_token_for_approval_def
  by (intro session_ops3)+

lemmas execution_ops0 = session_ops3 queue_keeps loop_keeps call_keeps token_keeps execution_neighbour_ops
  execution_readers_keep

lemma earliest_uncovered_keeps: "keeps R (earliest_uncovered S i jobs n)"
  by (induction jobs arbitrary: n)
    (simp_all only: earliest_uncovered.simps latest_tool_result_for_execution_job_def, (intro execution_ops0 | assumption)+)

lemma projection_keeps:
  "keeps R (earliest_uncovered_pending_tool_result_seq S i)"
  "keeps R (enqueue_session_loop_from S i t r f)"
  unfolding earliest_uncovered_pending_tool_result_seq_def enqueue_session_loop_from_def
    enqueue_session_loop_job_def
  by (intro execution_ops0 earliest_uncovered_keeps)+

lemma project_keeps: "keeps R (project_session_event_to_loop_from S P e f)"
  unfolding project_session_event_to_loop_from_def project_uncovered_def event_is_trusted_def
    trusted_execution_completion_event_def trusted_execution_failure_event_def Let_def
  by (intro execution_ops0 projection_keeps)

lemma claimed_writes_keep:
  "keeps R (append_event_once S i aty aid s et p)"
  "keeps R (append_event_once_for_execution_claim S j st i aty aid s et p)"
  "keeps R (append_audit_log_for_execution_claim S j st e)" "keeps R (new_audit_log S os aty aid ac rt ri d)"
  unfolding append_event_once_for_execution_claim_def append_audit_log_for_execution_claim_def
    append_event_once_def new_audit_log_def
  by (intro execution_ops0)+

lemmas execution_ops1 = execution_ops0 project_keeps projection_keeps claimed_writes_keep

lemma outcome_keeps:
  "keeps R (append_tool_outcome S j i n et c b)" "keeps R (reconcile_durable_tool_outcome S j)"
  "keeps R (publish_execution_outcome_event S P j e)"
  unfolding append_tool_outcome_def reconcile_durable_tool_outcome_def publish_execution_outcome_event_def Let_def
  by (intro execution_ops1)+

lemmas execution_ops2 = execution_ops1 outcome_keeps

lemma tails_keep:
  "keeps R (publish_execution_completion_tail S P j)" "keeps R (publish_execution_failure_tail S P j)"
  "keeps R (finalize_assignment_for_job E j a s t d)" "keeps R (record_known_tool_failure_if_missing S j er)"
  "keeps R (append_execution_outcome_unknown_evidence S j st)"
  unfolding publish_execution_completion_tail_def publish_execution_failure_tail_def
    finalize_assignment_for_job_def record_known_tool_failure_if_missing_def
    append_execution_outcome_unknown_evidence_def Let_def
  by (intro execution_ops2)+

lemma failure_tail_keeps: "keeps R (record_execution_failure_tail S E j a b d)"
  unfolding record_execution_failure_tail_def Let_def by (intro execution_ops2 tails_keep)

lemma unknown_keeps:
  "keeps R (record_execution_outcome_unknown_started S j w er)"
  "keeps R (record_execution_outcome_unknown_finalizing S j w)"
  unfolding record_execution_outcome_unknown_started_def record_execution_outcome_unknown_finalizing_def
  by (intro execution_ops2 tails_keep)+

lemmas execution_ops3 = execution_ops2 tails_keep failure_tail_keeps unknown_keeps

text \<open>The finalization of a job that is not retried.\<close>

lemma settled_keeps: "keeps R (finish_settled_job S P E job a w False)"
  unfolding finish_settled_job_def Let_def by (intro execution_ops3)

section \<open>Executors\<close>

lemma recorded_keeps:
  "keeps R (record_tool_result S j ap c act res d)" "keeps R (record_tool_error S j ap c er d)"
  unfolding record_tool_result_def record_tool_error_def by (intro execution_ops3)+

lemma consumed_keeps: "keeps R (consume_valid_approval_commit_token_for_tool_call S ap c)"
  unfolding consume_valid_approval_commit_token_for_tool_call_def
    validate_approval_commit_token_for_tool_call_def Let_def
  by (intro execution_ops3)

lemmas execution_ops4 = execution_ops3 recorded_keeps consumed_keeps

lemma connector_commits:
  "(\<And>v. keeps R (call v)) \<Longrightarrow> commits_in R (connector_executor S call ap c)"
  unfolding connector_executor_def Let_def by (intro committing_commits execution_ops4)

lemma commits_if: "commits_in R f \<Longrightarrow> commits_in R g \<Longrightarrow> commits_in R (if b then f else g)"
  by simp

lemma native_commits: "commits_in R (execute_approved_native_connector S E ap c)"
  unfolding execute_approved_native_connector_def Let_def
  by (intro commits_if connector_commits committing_commits execution_ops4)

lemma mcp_commits: "commits_in R (execute_approved_mcp_call S E ap c)"
  unfolding execute_approved_mcp_call_def Let_def
  by (intro committing_commits execution_ops4)

lemma file_commits: "commits_in R (execute_approved_file_write S E ap c)"
  unfolding execute_approved_file_write_def Let_def
  by (intro committing_commits execution_ops4)

lemma shell_commits: "commits_in R (execute_approved_shell S E ap c)"
proof -
  have pair: "(\<And>a b. keeps R (f a b job)) \<Longrightarrow> keeps R ((case x of (a, b) \<Rightarrow> f a b) job)" for f x and job :: execution_job
    by (cases x) simp
  show ?thesis unfolding execute_approved_shell_def Let_def
    by (intro committing_commits execution_ops4 pair)
qed

lemma ontology_commits: "commits_in R (execute_approved_ontology_action E ap c)"
proof -
  let ?h = "\<lambda>error. if err_status error \<in> {400, 403, 404}
      then retS (\<lambda>job. failS (with_known_execution_outcome error)) else failS error"
  let ?m = "ontology_proposal E \<lparr>xt_session_id = ap_session_id ap, xt_task_grant_id = tc_task_grant_id c,
      xt_args = tc_args c\<rparr> c (ap_id ap)"
  have "keeps R (execute job)" if "catchS ?m ?h w = (Inr execute, w')" for w w' execute job
  proof (cases "?m w")
    case (Pair r v)
    show ?thesis
    proof (cases r)
      case (Inl e)
      with that Pair have "execute = (\<lambda>job. failS (with_known_execution_outcome e))"
        by (simp add: catchS_def eff_simps split: if_splits)
      then show ?thesis by (simp add: resp_pure)
    next
      case (Inr f)
      with that Pair have "execute = f" by (simp add: catchS_def)
      with Pair Inr execution_neighbours show ?thesis unfolding execution_peers_respect_def by blast
    qed
  qed
  then show ?thesis unfolding execute_approved_ontology_action_def
    by (intro committing_commits execution_ops4)
qed

text \<open>A command line commits on its own, then its outcome is recorded.\<close>

lemma command_line_commits:
  assumes "commits_in R run_tool"
  shows "commits_in R (command_line_executor S run_tool ap c d)"
  unfolding commits_in_def
proof (intro allI impI)
  fix b w r started w'
  assume b: "keeps R b" and f: "command_line_executor S run_tool ap c d b w = ((r, started), w')"
  obtain q st v where q: "run_tool b w = ((q, st), v)" by (metis surj_pair)
  have wv: "R w v" "\<And>job. st = Some job \<Longrightarrow> \<exists>u u'. R w u \<and> b u = (Inr job, u') \<and> R u' v"
    using assms b q unfolding commits_in_def by blast+
  have tail: "record_tool_result S j ap c a o' e v = (x, u) \<Longrightarrow> R v u"
    "thenS (record_tool_error S j ap c o' e) (failS er) v = (x, u) \<Longrightarrow> R v u" for j a o' e er x u
    by (rule keepsD [rotated], assumption, intro execution_ops4)+
  have "started = st \<and> R v w'"
    using f q by (auto simp: command_line_executor_def Let_def R_refl split: sum.splits option.splits
        prod.splits if_splits dest: tail)
  then show "R w w' \<and> (\<forall>job. started = Some job \<longrightarrow> (\<exists>v v'. R w v \<and> b v = (Inr job, v') \<and> R v' w'))"
    using wv R_trans by blast
qed

lemma executor_commits: "commits_in R (approved_executor S E ap c a)"
proof -
  have "commits_in R (run_codex E i v)" "commits_in R (run_agent_cli E i v)" "commits_in R (remote_executor E t ap c g)"
    for i v t g using execution_neighbours by (simp_all add: execution_peers_respect_def)
  note executors = this native_commits mcp_commits file_commits shell_commits ontology_commits
    command_line_commits
  have local_executor: "commits_in R (approved_executor S E ap c None)"
    unfolding approved_executor_def execute_approved_codex_def execute_approved_agent_cli_def Let_def option.case
    by (intro commits_if executors)
  show ?thesis
  proof (cases a)
    case (Some g)
    have "approved_executor S E ap c a =
        (if pod_execution_requested E \<and> tc_tool_name c \<in> {''file.write'', ''shell.exec'', ''codex.exec'', ''agent_cli.exec''}
         then remote_executor E (tc_tool_name c) ap c g else approved_executor S E ap c None)"
      by (simp only: Some approved_executor_def Let_def option.case)
    then show ?thesis using local_executor executors(3) by (simp only: commits_if)
  qed (simp only: local_executor)
qed

end

end
