(* ===== verification/Execution_Safety.thy ===== *)
theory Execution_Safety
  imports Execution_Preservation Exec_Safety Tool_Checks Approval_Safety Event_Log "HOL-Library.Code_Target_Nat"
begin

text \<open>
  What the execution of approved tool calls guarantees: an executor runs only for a call that is
  still approved, granted and bound by its token; a job that passed the commit point is not run again,
  neither by the end of its attempt nor by its recovery; files stay in the workspace; and the
  order of two writes in the finalization that breaks the second of these.
\<close>

section \<open>Jobs past their commit\<close>

definition past_commit :: "uuid \<Rightarrow> world \<Rightarrow> bool" where
  "past_commit k w \<longleftrightarrow> (\<forall>job \<in> set (execution_jobs w). xj_id job = k \<longrightarrow> xj_status job \<notin> {XQueued, XRunning})"

definition job_core :: "execution_job \<Rightarrow> uuid \<times> uuid \<times> uuid \<times> int" where
  "job_core job = (xj_id job, xj_session_id job, xj_tool_call_id job, xj_attempt_count job)"

text \<open>
  No job comes or goes or is started again, a job past its commit stays so, and logs stay numbered.
\<close>

definition logs_sound :: "world \<Rightarrow> bool" where
  "logs_sound w \<longleftrightarrow> log_ok w \<and> distinct (map fst (events w))"

definition committed_stay :: "uuid \<Rightarrow> world \<Rightarrow> world \<Rightarrow> bool" where
  "committed_stay k w w' \<longleftrightarrow> map job_core (execution_jobs w') = map job_core (execution_jobs w)
     \<and> (past_commit k w \<longrightarrow> past_commit k w') \<and> (logs_sound w \<longrightarrow> logs_sound w')"

interpretation stay: relation_on_worlds "committed_stay k" for k
  by unfold_locales (auto simp: committed_stay_def)

lemma same_queue_stays:
  "execution_jobs w' = execution_jobs w \<Longrightarrow> logs_sound w \<longrightarrow> logs_sound w' \<Longrightarrow> committed_stay k w w'"
  by (simp add: committed_stay_def past_commit_def)

lemma same_events_sound: "events w' = events w \<Longrightarrow> logs_sound w' = logs_sound w"
  by (simp add: logs_sound_def log_ok_def session_events_def)

lemma untouched_stays:
  "execution_jobs w' = execution_jobs w \<Longrightarrow> events w' = events w \<Longrightarrow> committed_stay k w w'"
  by (rule same_queue_stays, assumption) (simp add: same_events_sound [of w' w])

lemma with_job_stays:
  assumes "\<And>now job. p now job \<Longrightarrow> job_core (f now job) = job_core job
    \<and> (xj_status (f now job) \<notin> {XQueued, XRunning} \<or> xj_status (f now job) = xj_status job)"
  shows "keeps (committed_stay k) (queueS S (\<lambda>now. with_job (p now) (f now)))"
  unfolding keeps_def
proof
  fix w :: world
  let ?now = "\<lambda>n. clock S (ticks w + n)" and ?q = "execution_jobs w"
  obtain r q' where q': "with_job (p ?now) (f ?now) ?q = (r, q')" by fastforce
  then have w': "execution_jobs (snd (queueS S (\<lambda>now. with_job (p now) (f now)) w)) = q'"
    and sound: "logs_sound (snd (queueS S (\<lambda>now. with_job (p now) (f now)) w)) = logs_sound w"
    by (simp add: queueS_def, intro same_events_sound) (simp add: queueS_def)
  from q' show "committed_stay k w (snd (queueS S (\<lambda>now. with_job (p now) (f now)) w))"
  proof (cases rule: with_job_cases)
    case missing
    then show ?thesis using w' sound by (simp add: same_queue_stays)
  next
    case (found i)
    note core = assms [OF found(2)]
    have id: "xj_id (f ?now (?q ! i)) = xj_id (?q ! i)" using core by (simp add: job_core_def)
    have "map job_core q' = map job_core ?q"
      using core found(1) by (simp add: found(4) map_update list_update_same_conv)
    moreover have "past_commit k (snd (queueS S (\<lambda>now. with_job (p now) (f now)) w))" if "past_commit k w"
      unfolding past_commit_def w' found(4)
    proof (intro ballI impI)
      fix job
      assume "job \<in> set (?q[i := f ?now (?q ! i)])" and k: "xj_id job = k"
      then consider "job \<in> set ?q" | "job = f ?now (?q ! i)" using set_update_subset_insert by fastforce
      then show "xj_status job \<notin> {XQueued, XRunning}"
      proof cases
        case 2
        with core id k that nth_mem [OF found(1)] show ?thesis by (auto simp: past_commit_def)
      qed (use that k in \<open>auto simp: past_commit_def\<close>)
    qed
    ultimately show ?thesis unfolding committed_stay_def w' sound by blast
  qed
qed

lemma queue_stays:
  "keeps (committed_stay k) (queueS S (\<lambda>now. begin_executing_started now i w g))"
  "keeps (committed_stay k) (queueS S (\<lambda>now. begin_finalizing_started now i w g e d))"
  "keeps (committed_stay k) (queueS S (\<lambda>now. recover_expired_executing now i w e d))"
  "keeps (committed_stay k) (queueS S (\<lambda>now. set_finalizing_failure now i w g m d))"
  "keeps (committed_stay k) (queueS S (\<lambda>now. mark_outcome_unknown_started now i w g m))"
  "keeps (committed_stay k) (queueS S (\<lambda>now. mark_outcome_unknown_finalizing now i w g m))"
  "keeps (committed_stay k) (queueS S (\<lambda>now. prepare_outcome_tail now i w g))"
  "keeps (committed_stay k) (queueS S (\<lambda>now. mark_outcome_published i))"
  "keeps (committed_stay k) (queueS S (\<lambda>now. finish_finalizing_started now i w g False))"
  unfolding begin_executing_started_def begin_finalizing_started_def recover_expired_executing_def
    set_finalizing_failure_def mark_outcome_unknown_started_def mark_outcome_unknown_finalizing_def
    prepare_outcome_tail_def mark_outcome_published_def finish_finalizing_started_def
  by (rule with_job_stays, simp add: job_core_def finished_job_def)+

lemma runtime_stays:
  assumes "keeps runtime_writes m" and "keeps logs_grow m"
    and "\<And>w. distinct (map fst (events w)) \<Longrightarrow> distinct (map fst (events (snd (m w))))"
  shows "keeps (committed_stay k) m"
  unfolding keeps_def
proof
  fix w :: world
  show "committed_stay k w (snd (m w))"
    using assms by (intro same_queue_stays) (auto simp: keeps_def runtime_writes_def logs_grow_def logs_sound_def)
qed

lemma events_stay_distinct:
  "distinct (map fst (events w)) \<Longrightarrow> distinct (map fst (events (snd (append_event_with_id S i b aty aid s et p w))))"
  by (auto simp: append_event_with_id_def Let_def distinct_update split: option.splits)

lemma events_unchanged:
  "events (snd (now_utc S w)) = events w" "events (snd (new_v4 S w)) = events w"
  "events (snd (append_audit_log e w)) = events w" "events (snd (create_workflow_transition t w)) = events w"
  "events (snd (modifyS (\<lambda>w. w\<lparr>sessions := f w\<rparr>) w)) = events w"
  "events (snd (create_session_thread th w)) = events w"
  "events (snd (set_session_and_primary_thread_status S s h st ts w)) = events w"
  by (simp_all add: now_utc_def new_v4_def append_audit_log_def create_workflow_transition_def modifyS_def
      create_session_thread_def set_session_and_primary_thread_status_def get_session_def bindS_def thenS_def
      eff_simps Let_def split: option.splits sum.splits prod.splits)

lemma session_prims_stay:
  "keeps (committed_stay k) (now_utc S)" "keeps (committed_stay k) (new_v4 S)"
  "keeps (committed_stay k) (append_event_with_id S i b aty aid s et p)"
  "keeps (committed_stay k) (append_audit_log e)" "keeps (committed_stay k) (create_workflow_transition t)"
  "keeps (committed_stay k) (modifyS (\<lambda>w. w\<lparr>sessions := f w\<rparr>))"
  "keeps (committed_stay k) (create_session_thread th)"
  "keeps (committed_stay k) (set_session_and_primary_thread_status S s' h st ts)"
  by ((rule runtime_stays, rule footprint_atoms composed_footprint,
      rule append_event_grows audit_grows store_same_logs composed_same_logs,
      simp only: events_unchanged events_stay_distinct))+

lemma other_writes_stay:
  "keeps (committed_stay k) (enqueue_session_loop_job_from S s t r f)"
  "keeps (committed_stay k) (update_tool_call_status S i st res er)"
  "keeps (committed_stay k) (consume_approval_commit_token S i)"
  unfolding keeps_def enqueue_session_loop_job_from_def update_tool_call_status_def
    consume_approval_commit_token_def get_session_def get_tool_call_def put_loop_job_def
  by (auto intro!: untouched_stays
      simp: bindS_def eff_simps now_utc_def new_v4_def Let_def
      split: prod.splits sum.splits option.splits)

lemma committed_relation:
  assumes "peers_respect (committed_stay k) P" and "execution_peers_respect (committed_stay k) E"
  shows "execution_relation (committed_stay k) S P E"
proof -
  note peers = assms(1) [unfolded peers_respect_def]
  show ?thesis
    by (intro execution_relation.intro execution_relation_axioms.intro queue_stays other_writes_stay assms(2)
        session_relation.intro stay.relation_on_worlds_axioms)
      (simp add: session_relation_axioms_def session_prims_stay peers)
qed

section \<open>What is known of an outcome stays known\<close>

text \<open>The outcome of a job is read from its events by what identifies the attempt.\<close>

definition same_attempt :: "execution_job \<Rightarrow> execution_job \<Rightarrow> bool" where
  "same_attempt job job' \<longleftrightarrow> job_core job' = job_core job \<and> xj_claim_generation job' = xj_claim_generation job"

lemma same_attempt_outcome:
  "same_attempt job job' \<Longrightarrow> durable_tool_outcome X job' = durable_tool_outcome X job"
  "same_attempt job job' \<Longrightarrow> xj_session_id job' = xj_session_id job \<and> xj_tool_call_id job' = xj_tool_call_id job"
  by (auto simp: same_attempt_def job_core_def durable_tool_outcome_def fun_eq_iff)

lemma outcome_of_status_eq:
  "outcome_of_status status = Some OutcomeFailure \<longleftrightarrow> status = ''failed''"
  "outcome_of_status ''failed'' = Some OutcomeFailure"
  by (auto simp: outcome_of_status_def)

text \<open>The events say that the tool failed, and the tool call says so too.\<close>

definition failure_on_record :: "sys \<Rightarrow> execution_job \<Rightarrow> world \<Rightarrow> bool" where
  "failure_on_record S job w \<longleftrightarrow>
     (\<exists>call event. tget (tool_calls w) (xj_tool_call_id job) = Some call \<and> tc_status call = ''failed''
        \<and> latest_durable_tool_outcome_event (lib S) job w = (Inr (Some event), w)
        \<and> ev_event_type event \<noteq> ''tool.result'')"

lemma latest_outcome:
  "latest_durable_tool_outcome_event X job w =
     (Inr (find_first (durable_tool_outcome X job) (rev (filter (\<lambda>e. ev_seq e > 0) (session_events w (xj_session_id job))))), w)"
  by (simp add: latest_durable_tool_outcome_event_def list_events_def list_events_after_def bindS_def eff_simps)

lemma failure_on_record_cong:
  assumes "events w' = events w" and "tool_calls w' = tool_calls w" and "same_attempt job job'"
  shows "failure_on_record S job' w' = failure_on_record S job w"
  using assms same_attempt_outcome
  by (simp add: failure_on_record_def latest_outcome session_events_def)

lemma update_status_Inr:
  assumes "update_tool_call_status S i status r e w = (Inr c, w')"
  shows "events w' = events w \<and> tget (tool_calls w') i = Some c \<and> tc_status c = status"
  using assms
  by (auto simp: update_tool_call_status_def get_tool_call_def now_utc_def effs_Inr ok_or_eq_Inr Let_def
      store_table.get_put)

lemma latest_outcome_cong:
  "events w' = events w \<Longrightarrow> latest_durable_tool_outcome_event X job w = (Inr r, w) \<Longrightarrow>
   latest_durable_tool_outcome_event X job w' = (Inr r, w')"
  by (simp add: latest_outcome session_events_def)

text \<open>The reconciliation, once the call and its last outcome are found.\<close>

definition settle_call :: "sys \<Rightarrow> execution_job \<Rightarrow> session_event \<Rightarrow> string \<Rightarrow> unit eff" where
  "settle_call S job event status =
     (let content = unwrap_or (jget (ev_payload event) ''content'') JNull in
      if outcome_of_status status = Some (outcome_of_event event) then retS ()
      else bindS (if outcome_of_event event = OutcomeSuccess
        then update_tool_call_status S (xj_tool_call_id job) ''completed'' (Some content) None
        else update_tool_call_status S (xj_tool_call_id job) ''failed'' None (Some content)) (\<lambda>_. retS ()))"

lemma reconcile_found:
  assumes "tget (tool_calls w) (xj_tool_call_id job) = Some call"
    and "latest_durable_tool_outcome_event (lib S) job w = (Inr (Some event), w)"
  shows "reconcile_durable_tool_outcome S job w =
    thenS (guardS (is_none_or (outcome_of_status (tc_status call)) (\<lambda>status. status = outcome_of_event event))
           (internal_error ''tool status conflicts with its durable terminal event''))
      (thenS (settle_call S job event (tc_status call)) (retS (outcome_of_event event))) w"
  by (simp add: reconcile_durable_tool_outcome_def get_tool_call_def bindS_def [of "asksr h" for h]
      bindS_def [of "latest_durable_tool_outcome_event X j" for X j] eff_simps assms settle_call_def Let_def)

lemma recorded_failure:
  assumes "failure_on_record S job w"
  shows "reconcile_durable_tool_outcome S job w = (Inr OutcomeFailure, w)"
proof -
  from assms obtain call event where call: "tget (tool_calls w) (xj_tool_call_id job) = Some call"
    "tc_status call = ''failed''" and event: "latest_durable_tool_outcome_event (lib S) job w = (Inr (Some event), w)"
    "outcome_of_event event = OutcomeFailure" by (auto simp: failure_on_record_def outcome_of_event_def)
  from reconcile_found [OF call(1) event(1)] call(2) event(2) show ?thesis
    by (simp add: settle_call_def thenS_def bindS_def eff_simps outcome_of_status_eq is_none_or_def)
qed

lemma reconciled_cases:
  assumes "reconcile_durable_tool_outcome S job w = (Inr outcome, w')"
  obtains (missing) call where "tget (tool_calls w) (xj_tool_call_id job) = Some call" "outcome = OutcomeMissing"
      "latest_durable_tool_outcome_event (lib S) job w = (Inr None, w)" "w' = w"
  | (found) call event where "tget (tool_calls w) (xj_tool_call_id job) = Some call"
      "latest_durable_tool_outcome_event (lib S) job w = (Inr (Some event), w)" "outcome = outcome_of_event event"
      "settle_call S job event (tc_status call) w = (Inr (), w')"
proof -
  obtain call where call: "tget (tool_calls w) (xj_tool_call_id job) = Some call"
    using assms by (auto simp: reconcile_durable_tool_outcome_def get_tool_call_def bindS_eq_Inr effects_eq_Inr ok_or_eq_Inr)
  obtain found where found: "latest_durable_tool_outcome_event (lib S) job w = (Inr found, w)"
    by (simp add: latest_outcome)
  show thesis
  proof (cases found)
    case None
    note none = found [unfolded None]
    have "reconcile_durable_tool_outcome S job w = (Inr OutcomeMissing, w)"
      by (simp add: reconcile_durable_tool_outcome_def get_tool_call_def bindS_def eff_simps Let_def call none)
    with assms have "outcome = OutcomeMissing" "w' = w" by simp_all
    with call none show thesis using that(1) by blast
  next
    case (Some event)
    note event = found [unfolded Some]
    have "outcome = outcome_of_event event" and "settle_call S job event (tc_status call) w = (Inr (), w')"
      using assms [unfolded reconcile_found [OF call event]] by (auto simp: effects_eq_Inr)
    with call event show thesis by (rule that(2))
  qed
qed

lemma reconciled_failure:
  assumes "reconcile_durable_tool_outcome S job w = (Inr OutcomeFailure, w')"
  shows "failure_on_record S job w'"
  using assms
proof (cases rule: reconciled_cases)
  case (found call event)
  show ?thesis
  proof (cases "tc_status call = ''failed''")
    case True
    then have "w' = w" using found(3,4) by (auto simp: settle_call_def effects_eq_Inr outcome_of_status_eq Let_def)
    with True found show ?thesis by (auto simp: failure_on_record_def outcome_of_event_def)
  next
    case False
    then obtain c content where "update_tool_call_status S (xj_tool_call_id job) ''failed'' None (Some content) w = (Inr c, w')"
      using found(3,4) by (auto simp: settle_call_def Let_def bindS_eq_Inr effects_eq_Inr outcome_of_status_eq split: if_splits)
    from update_status_Inr [OF this] latest_outcome_cong [OF _ found(2), of w'] found(3) show ?thesis
      by (auto simp: failure_on_record_def outcome_of_event_def)
  qed
qed simp

text \<open>A known failure that is recorded is on record.\<close>

lemma appended_once:
  assumes "append_event_once S i aty aid s et p w = (Inr e, w')"
  shows "ev_actor_type e = aty \<and> ev_actor_id e = aid \<and> ev_session_id e = s \<and> ev_event_type e = et
    \<and> ev_payload e = p \<and> tool_calls w' = tool_calls w \<and>
    (w' = w \<and> (\<exists>es \<in> snd ` set (events w). e \<in> set es)
     \<or> session_events w' s = session_events w s @ [e] \<and> ev_seq e > 0)"
proof (cases "find_first (\<lambda>e. ev_id e = i) (all_events S w)")
  case None
  with assms show ?thesis
    by (auto simp: append_event_once_def append_event_with_id_def Let_def session_events_def store_table.get_put
        split: if_splits)
next
  case (Some x)
  from find_first_SomeD [OF Some] have "\<exists>es \<in> snd ` set (events w). x \<in> set es"
    by (auto simp: all_events_def set_tvalues)
  with Some assms show ?thesis
    by (auto simp: append_event_once_def append_event_with_id_def bindr_eq_Inr
        validate_idempotent_event_identity_def split: if_splits)
qed

lemma owned_claim_Inr:
  "owned_claim S job st w = (Inr u, w') \<Longrightarrow> events w' = events w \<and> tool_calls w' = tool_calls w"
  by (auto simp: owned_claim_def effs_Inr now_utc_def)

lemma new_outcome:
  assumes "append_tool_outcome S job (xj_tool_call_id job) tool ''tool.error'' content True w = (Inr e, w')"
    and "in_i64 (xj_claim_generation job)"
  shows "durable_tool_outcome (lib S) job e \<and> ev_event_type e = ''tool.error''
    \<and> ev_session_id e = xj_session_id job \<and> tool_calls w' = tool_calls w
    \<and> (events w' = events w \<and> (\<exists>es \<in> snd ` set (events w). e \<in> set es)
       \<or> session_events w' (xj_session_id job) = session_events w (xj_session_id job) @ [e] \<and> ev_seq e > 0)"
proof -
  obtain v p where v: "owned_claim S job XExecuting w = (Inr (), v)"
    and once: "append_event_once S (execution_attempt_event_id (lib S) job ''tool.error'') ''tool''
      (Some (xj_tool_call_id job)) (xj_session_id job) ''tool.error'' p v = (Inr e, w')"
    and p: "jindex p ''execution_job_id'' = jid (lib S) (xj_id job)"
      "jindex p ''tool_call_id'' = jid (lib S) (xj_tool_call_id job)"
      "jindex p ''attempt_count'' = JInt (xj_attempt_count job)"
      "jindex p ''claim_generation'' = JInt (xj_claim_generation job)"
      "jindex p ''execution_outcome_known'' = JBool True"
    using assms(1) by (auto simp: append_tool_outcome_def append_event_once_for_execution_claim_def effects_eq_Inr
        Let_def jindex_def jget_mk_obj)
  from owned_claim_Inr [OF v] have "events v = events w" "tool_calls v = tool_calls w" by simp_all
  with appended_once [OF once] p assms(2) show ?thesis
    by (auto simp: durable_tool_outcome_def session_events_def checked_i64_def is_some_and_def)
qed

text \<open>Whatever log holds the event, it is the session's.\<close>

lemma sound_event:
  assumes "logs_sound w" and "es \<in> snd ` set (events w)" and "e \<in> set es"
  shows "e \<in> set (session_events w (ev_session_id e)) \<and> ev_seq e > 0"
proof -
  from assms(2) obtain s where "(s, es) \<in> set (events w)" by auto
  with assms(1) have es: "session_events w s = es" by (simp add: logs_sound_def session_events_def)
  have s: "\<forall>e \<in> set es. ev_session_id e = s" and n: "map ev_seq es = map int [1..<Suc (length es)]"
    using assms(1) es unfolding logs_sound_def log_ok_def by (metis, metis)
  have "ev_seq e \<in> set (map int [1..<Suc (length es)])" using assms(3) n by (metis image_eqI list.set_map)
  with s es assms(3) show ?thesis by auto
qed

lemma known_failure_recorded:
  assumes record_failure: "record_known_tool_failure_if_missing S job error w = (Inr OutcomeFailure, w')"
    and sound: "logs_sound w" and "in_i64 (xj_claim_generation job)"
  shows "failure_on_record S job w'"
proof -
  obtain current w1 where current: "reconcile_durable_tool_outcome S job w = (Inr current, w1)"
    using record_failure by (auto simp: record_known_tool_failure_if_missing_def Let_def bindS_eq_Inr)
  show ?thesis
  proof (cases "current = OutcomeMissing")
    case False
    with record_failure current have "current = OutcomeFailure" "w' = w1"
      by (auto simp: record_known_tool_failure_if_missing_def Let_def bindS_def eff_simps)
    with current show ?thesis using reconciled_failure by blast
  next
    case True
    have missing: "w1 = w" "latest_durable_tool_outcome_event (lib S) job w = (Inr None, w)"
      using current True by (cases rule: reconciled_cases; simp add: outcome_of_event_def split: if_splits)+
    obtain content e w2 w3 c where
      event: "append_tool_outcome S job (xj_tool_call_id job) (xj_tool_name job) ''tool.error'' content True w = (Inr e, w2)" and
      status: "update_tool_call_status S (xj_tool_call_id job) ''failed'' None (Some content) w2 = (Inr c, w3)" and
      rest: "events w' = events w3" "tool_calls w' = tool_calls w3"
      using record_failure current True missing(1)
      by (auto simp: record_known_tool_failure_if_missing_def Let_def bindS_eq_Inr effects_eq_Inr new_audit_log_def
          append_audit_log_for_execution_claim_def new_v4_def now_utc_def append_audit_log_def
          dest!: owned_claim_Inr split: option.splits)
    let ?s = "xj_session_id job" and ?p = "durable_tool_outcome (lib S) job"
    have none: "\<not> ?p x" if "x \<in> set (session_events w ?s)" "ev_seq x > 0" for x
      using missing(2) that by (auto simp: latest_outcome find_first_eq_None)
    note new = new_outcome [OF event assms(3)]
    moreover have "\<not> (\<exists>es \<in> snd ` set (events w). e \<in> set es)"
    proof
      assume "\<exists>es \<in> snd ` set (events w). e \<in> set es"
      then obtain es where "es \<in> snd ` set (events w)" "e \<in> set es" by blast
      from sound_event [OF sound this] new none show False by simp
    qed
    ultimately have "session_events w2 ?s = session_events w ?s @ [e]" "ev_seq e > 0" by blast+
    then have "latest_durable_tool_outcome_event (lib S) job w' = (Inr (Some e), w')"
      using new rest(1) update_status_Inr [OF status] by (simp add: latest_outcome session_events_def)
    with update_status_Inr [OF status] rest(2) new show ?thesis by (auto simp: failure_on_record_def)
  qed
qed

section \<open>A committed job is not run again\<close>

text \<open>A call on the queue that found its job.\<close>

lemma with_job_Inr:
  assumes "with_job p f q = (Inr y, q')"
  obtains x where "x \<in> set q" "p x" "y = f x" "y \<in> set q'" "set q' \<subseteq> insert y (set q)"
    "\<exists>i < length q. x = q ! i \<and> q' = q[i := y]"
  using assms
proof (cases rule: with_job_cases)
  case (found i)
  then show thesis using set_update_subset_insert [of q i y]
    by (intro that [of "q ! i"]) (auto simp: set_update_memI)
qed simp

lemma queueS_with_job:
  assumes "queueS S (\<lambda>now. with_job (p now) (f now)) w = (Inr y, w')"
  obtains x now where "x \<in> set (execution_jobs w)" "p now x" "y = f now x" "y \<in> set (execution_jobs w')"
    "\<exists>i < length (execution_jobs w). x = execution_jobs w ! i \<and> execution_jobs w' = (execution_jobs w)[i := y]"
    "events w' = events w" "tool_calls w' = tool_calls w"
proof -
  let ?now = "\<lambda>n. clock S (ticks w + n)"
  obtain q' where q': "with_job (p ?now) (f ?now) (execution_jobs w) = (Inr y, q')" "execution_jobs w' = q'"
    "events w' = events w" "tool_calls w' = tool_calls w"
    using assms by (auto simp: queueS_def split: prod.splits)
  from with_job_Inr [OF q'(1)] q'(2-4) that show thesis by metis
qed

text \<open>With distinct identifiers, what identifies a job in the queue stays what it was.\<close>

lemma core_unique:
  assumes "map job_core (execution_jobs w') = map job_core (execution_jobs w)"
    and "distinct (map xj_id (execution_jobs w))" and "x \<in> set (execution_jobs w)"
    and "y \<in> set (execution_jobs w')" and "xj_id y = xj_id x"
  shows "job_core y = job_core x"
proof -
  from assms(1,4) have "job_core y \<in> job_core ` set (execution_jobs w)" by (metis image_eqI list.set_map)
  then obtain z where z: "z \<in> set (execution_jobs w)" "job_core y = job_core z" by auto
  with assms(5) have "xj_id z = xj_id x" by (simp add: job_core_def)
  with assms(2,3) z show ?thesis by (metis distinct_map inj_onD)
qed

lemma stay_distinct:
  "committed_stay k w w' \<Longrightarrow> distinct (map xj_id (execution_jobs w)) \<Longrightarrow> distinct (map xj_id (execution_jobs w'))"
proof -
  assume "committed_stay k w w'" and d: "distinct (map xj_id (execution_jobs w))"
  then have "map fst (map job_core (execution_jobs w')) = map fst (map job_core (execution_jobs w))"
    by (simp add: committed_stay_def)
  then have "map xj_id (execution_jobs w') = map xj_id (execution_jobs w)" by (simp add: job_core_def comp_def)
  with d show ?thesis by simp
qed

text \<open>The end of a finalization that retries nothing.\<close>

context execution_relation begin

lemma finish_keeps:
  assumes "xj_last_error job = None \<or> stage job = Some ''tool_known_failure'' \<and> failure_on_record S job w"
  shows "R w (snd (finish_finalizing_execution_job S P E job a worker_id w))"
proof (cases "xj_last_error job = None")
  case True
  then have "keeps R (finish_finalizing_execution_job S P E job a worker_id)"
    unfolding finish_finalizing_execution_job_def
    by (simp split del: if_split) (intro execution_ops3 settled_keeps)
  then show ?thesis by (simp add: keeps_def)
next
  case False
  with assms have known: "stage job = Some ''tool_known_failure''" "failure_on_record S job w" by blast+
  have "finish_finalizing_execution_job S P E job a worker_id w = finish_settled_job S P E job a worker_id False w"
    by (simp add: finish_finalizing_execution_job_def bindS_def eff_simps known(1) recorded_failure [OF known(2)])
  with settled_keeps show ?thesis by (simp add: keeps_def)
qed

lemma finished_unfailed_keeps:
  "xj_last_error job = None \<Longrightarrow> keeps R (finish_finalizing_execution_job S P E job a worker_id)"
  using finish_keeps unfolding keeps_def by blast

lemma complete_keeps: "keeps R (complete_started_execution_job S P E job a worker_id)"
  unfolding complete_started_execution_job_def
proof (rule resp_bind_result [OF queue_keeps(2)])
  fix x w w'
  assume "queueS S (\<lambda>now. begin_finalizing_started now (xj_id job) worker_id (xj_claim_generation job) None
      (at_stage ''tool_execution'')) w = (Inr x, w')"
  then have "xj_last_error x = None"
    unfolding begin_finalizing_started_def by (auto elim!: queueS_with_job)
  then show "keeps R (finish_finalizing_execution_job S P E x a worker_id)" by (rule finished_unfailed_keeps)
qed

end

lemma committed_job:
  assumes "commit_point S job worker_id v = (Inr executing, v')" and "distinct (map xj_id (execution_jobs v))"
  shows "past_commit (xj_id job) v'" "xj_id executing = xj_id job"
    "xj_claim_generation executing = xj_claim_generation job" "executing \<in> set (execution_jobs v')"
proof -
  let ?k = "xj_id job"
  have keeps: "committed_stay ?k v v'"
    using keepsD [OF queue_stays(1) assms(1) [unfolded commit_point_def]] .
  from assms(1) obtain x now where
    x: "claimed_by ?k worker_id (xj_claim_generation job) (now (0::nat)) x" "executing = x\<lparr>xj_status := XExecuting\<rparr>"
      "executing \<in> set (execution_jobs v')"
    unfolding commit_point_def begin_executing_started_def by (elim queueS_with_job) blast
  then show id: "xj_id executing = ?k" "xj_claim_generation executing = xj_claim_generation job"
      "executing \<in> set (execution_jobs v')" by (simp_all add: claimed_by_def)
  have "distinct (map xj_id (execution_jobs v'))" using stay_distinct [OF keeps assms(2)] .
  then have "y = executing" if "y \<in> set (execution_jobs v')" "xj_id y = ?k" for y
    using that id by (metis distinct_map inj_onD)
  moreover have "xj_status executing \<notin> {XQueued, XRunning}" by (simp add: x(2))
  ultimately show "past_commit ?k v'" unfolding past_commit_def by blast
qed

text \<open>A failure that is recorded as known ends the job.\<close>

lemma known_failure_ends:
  assumes rel: "execution_relation (committed_stay k) S P E"
    and recorded: "failure_on_record S executing w" and "distinct (map xj_id (execution_jobs w))"
    and "y \<in> set (execution_jobs w)" and "xj_id y = xj_id executing" and "job_core y = job_core executing"
  shows "committed_stay k w (snd (retry_or_fail_started_execution_job S P E executing a error
    (at_stage ''tool_known_failure'') w))"
proof -
  let ?finalize = "queueS S (\<lambda>now. begin_finalizing_started now (xj_id executing) (unwrap_or (xj_worker_id executing) [])
      (xj_claim_generation executing) (Some (err_message error)) (at_stage ''tool_known_failure''))"
  obtain r w1 where r: "?finalize w = (r, w1)" by fastforce
  have w1: "committed_stay k w w1" using queue_stays(2) r by (rule keepsD)
  show ?thesis
  proof (cases r)
    case (Inl e)
    with r w1 show ?thesis by (simp add: retry_or_fail_started_execution_job_def bindS_def)
  next
    case (Inr finalizing)
    from r [unfolded Inr] obtain x now where x: "x \<in> set (execution_jobs w)"
      "claimed_by (xj_id executing) (unwrap_or (xj_worker_id executing) []) (xj_claim_generation executing) (now (0::nat)) x"
      "finalizing = x\<lparr>xj_status := XFinalizing, xj_last_error := Some (err_message error),
         xj_finalization_details := at_stage ''tool_known_failure''\<rparr>"
      "events w1 = events w" "tool_calls w1 = tool_calls w"
      unfolding begin_finalizing_started_def by (elim queueS_with_job) blast
    have "job_core x = job_core y" using core_unique [OF refl assms(3,4) x(1)] x(2) assms(5) by (simp add: claimed_by_def)
    then have "same_attempt executing finalizing"
      using x(2,3) assms(6) by (simp add: same_attempt_def job_core_def claimed_by_def)
    then have "failure_on_record S finalizing w1"
      using recorded x(4,5) failure_on_record_cong by blast
    then have fin: "committed_stay k w1 (snd (finish_finalizing_execution_job S P E finalizing a
        (unwrap_or (xj_worker_id finalizing) []) w1))"
      using x(3) by (intro execution_relation.finish_keeps [OF rel]) (simp add: stage_def)
    have "snd (retry_or_fail_started_execution_job S P E executing a error (at_stage ''tool_known_failure'') w)
        = snd (finish_finalizing_execution_job S P E finalizing a (unwrap_or (xj_worker_id finalizing) []) w1)"
      using r Inr by (auto simp: retry_or_fail_started_execution_job_def bindS_def [of ?finalize] bindS_def eff_simps
          split: prod.splits sum.splits)
    with w1 fin stay.R_trans show ?thesis by metis
  qed
qed

section \<open>A sample\<close>

text \<open>Neighbours that do little: commands fail, everything else succeeds.\<close>

definition failed_command :: shell_output where
  "failed_command = \<lparr>so_success = False, so_exit_code = Some 1, so_stdout = [], so_stderr = ''e''\<rparr>"

definition idle_execution :: execution_peers where
  "idle_execution =
     \<lparr>remote_contract_for_job = (\<lambda>j. retS None), active_assignment_for_job = (\<lambda>j. retS None),
      assignment_for_job = (\<lambda>j. retS None), validate_active_assignment = (\<lambda>j a c. retS ()),
      auto_assign_remote_computer = (\<lambda>j i c. retS None), append_transport_plan = (\<lambda>j i a. retS ()),
      finalize_assignment = (\<lambda>j a s t d. retS ()), pod_execution_requested = False,
      remote_executor = (\<lambda>t a c g. committing (retS ()) (\<lambda>_ _. retS ())),
      ecommerce_connector_call = (\<lambda>v. retS JNull), github_connector_call = (\<lambda>v. retS JNull),
      mcp_configured = False, mcp_request_of = (\<lambda>v. Inr ([], [])), resolve_mcp_secrets = (\<lambda>i s t. retS 0),
      mcp_call = (\<lambda>v. retS JNull), ontology_proposal = (\<lambda>x c i. retS (\<lambda>job. retS ())),
      run_codex = (\<lambda>i v. committing (retS ()) (\<lambda>_ _. retS JNull)),
      run_agent_cli = (\<lambda>i v. committing (retS ()) (\<lambda>_ _. retS JNull)),
      host_shell_execution_allowed = True, shell_runner = ''sh'', session_workspace = (\<lambda>i. retS ''/w''),
      run_shell_command = (\<lambda>r d c. retS (Inr (Some failed_command))), execution_output_limit_bytes = 10,
      write_workspace_file = (\<lambda>d p c. retS ()), insert_artifact = retS\<rparr>"

lemma idle_execution_respects:
  assumes "relation_on_worlds R"
  shows "execution_peers_respect R idle_execution"
  by (auto simp: execution_peers_respect_def idle_execution_def eff_simps
      intro!: relation_on_worlds.committing_commits [OF assms] relation_on_worlds.resp_pure [OF assms])

interpretation committed_idle: execution_relation "committed_stay k" S idle_peers idle_execution for S k
  by (intro committed_relation idle_peers_respect idle_execution_respects stay.relation_on_worlds_axioms)

text \<open>Identifiers of events that differ with what they identify.\<close>

definition numbering_sys :: sys where
  "numbering_sys = sample_sys\<lparr>lib := sample_lib\<lparr>sha256 := (\<lambda>bs.
     replicate 14 0 @ [sum_list bs div 256 mod 256, sum_list bs mod 256] @ replicate 16 0)\<rparr>\<rparr>"

definition running_job :: execution_job where
  "running_job =
     \<lparr>xj_id = 1, xj_session_id = 5, xj_environment_id = None, xj_approval_id = 2, xj_tool_call_id = 3,
      xj_tool_name = ''shell.exec'', xj_status = XRunning, xj_enqueued_at = 0, xj_started_at = Some 0,
      xj_completed_at = None, xj_worker_id = Some ''a'', xj_lease_expires_at = Some 300000000000,
      xj_claim_generation = 1, xj_finalization_details = JObj [], xj_attempt_count = 1,
      xj_max_attempts = 3, xj_last_error = None\<rparr>"

definition approved_call :: tool_call where
  "approved_call =
     \<lparr>tc_id = 3, tc_session_id = 5, tc_event_id = None, tc_tool_name = ''shell.exec'',
      tc_args = JObj [(''command'', JStr ''c'')], tc_task_grant_id = None, tc_normalized_args_hash = None,
      tc_target_binding = JObj [], tc_status = ''running'', tc_risk_level = ''high'',
      tc_policy_decision = JObj [], tc_result = None, tc_error = None, tc_started_at = None,
      tc_completed_at = None, tc_created_at = 0\<rparr>"

definition approved_approval :: approval where
  "approved_approval = pending_approval\<lparr>ap_id := 2, ap_session_id := 5, ap_tool_call_id := Some 3, ap_status := ''approved''\<rparr>"

definition running_world :: world where
  "running_world = empty_world\<lparr>agents := [(1, sample_agent)], sessions := [(5, session_sample)],
     approvals := [(2, approved_approval)], tool_calls := [(3, approved_call)], execution_jobs := [running_job]\<rparr>"

text \<open>The worker was cut off after the tool returned.\<close>

definition cut_off_world :: world where
  "cut_off_world = snd (execute_approved_shell numbering_sys
     (idle_execution\<lparr>run_shell_command := (\<lambda>r d c. retS (Inr (Some (failed_command\<lparr>so_success := True\<rparr>))))\<rparr>)
     approved_approval approved_call (commit_point numbering_sys running_job ''a'') running_world)
       \<lparr>ticks := 1000\<rparr>"

lemma idle_respects: "peers_respect (committed_stay k) idle_peers" "execution_peers_respect (committed_stay k) idle_execution"
  by (intro idle_peers_respect idle_execution_respects stay.relation_on_worlds_axioms)+

lemma running_world_ok: "distinct (map xj_id (execution_jobs running_world))" "logs_sound running_world"
  by (simp_all add: running_world_def empty_world_def logs_sound_def log_ok_def session_events_def)

text \<open>How a run ends whose executor was through the commit point.\<close>

lemma settled_stays:
  assumes rel: "execution_relation (committed_stay k) S P E"
    and "\<not> execution_retry_safe error" and "logs_sound w" and "in_i64 (xj_claim_generation executing)"
    and "distinct (map xj_id (execution_jobs w))"
    and "y \<in> set (execution_jobs w)" and "xj_id y = xj_id executing" and "job_core y = job_core executing"
  shows "committed_stay k w (snd (settle_failed_execution S P E executing a worker_id error w))"
proof -
  note complete = execution_relation.complete_keeps [OF rel] and unknown = execution_relation.unknown_keeps [OF rel]
  let ?reconcile = "if execution_outcome_known error then record_known_tool_failure_if_missing S executing error
      else reconcile_durable_tool_outcome S executing"
  have "keeps (committed_stay k) ?reconcile"
    using execution_relation.tails_keep(4) [OF rel] execution_relation.outcome_keeps(2) [OF rel] by simp
  moreover obtain r w1 where r: "?reconcile w = (r, w1)" by fastforce
  ultimately have w1: "committed_stay k w w1" by (rule keepsD)
  have "committed_stay k w1 (snd (settle_failed_execution S P E executing a worker_id error w))"
  proof (cases r)
    case (Inl e)
    with r assms(2) show ?thesis by (simp add: settle_failed_execution_def bindS_def stay.R_refl)
  next
    case (Inr outcome)
    show ?thesis
    proof (cases "outcome = OutcomeFailure \<and> execution_outcome_known error")
      case True
      with r Inr have "failure_on_record S executing w1"
        using known_failure_recorded [OF _ assms(3,4)] by simp
      moreover have d: "distinct (map xj_id (execution_jobs w1))" using stay_distinct [OF w1 assms(5)] .
      moreover obtain z where "z \<in> set (execution_jobs w1)" "job_core z = job_core y"
      proof -
        have "job_core y \<in> set (map job_core (execution_jobs w1))" using w1 assms(6) by (auto simp: committed_stay_def)
        then show thesis using that by auto
      qed
      moreover from this(2) assms(7,8) have "xj_id z = xj_id executing" "job_core z = job_core executing"
        by (simp_all add: job_core_def)
      ultimately show ?thesis
        using known_failure_ends [OF rel] r Inr True assms(2)
        by (simp add: settle_failed_execution_def bindS_def)
    next
      case False
      with r Inr assms(2) complete unknown show ?thesis
        by (cases outcome) (simp_all add: settle_failed_execution_def bindS_def keeps_def)
    qed
  qed
  with w1 show ?thesis by (rule stay.R_trans)
qed

text \<open>
  C18. A job whose executor was through the commit point is not run again. When the run of an admitted job
  ends, whatever its executor returned, unless the executor itself said that nothing was committed outside
  and a retry is safe, no job of its identifier is queued or waiting to be executed: it is completed,
  failed, of unknown outcome, or still in the hands of its worker.
\<close>

theorem committed_run_not_requeued:
  assumes "peers_respect (committed_stay (xj_id job)) P" and "execution_peers_respect (committed_stay (xj_id job)) E"
    and "distinct (map xj_id (execution_jobs w))" and "logs_sound w" and "in_i64 (xj_claim_generation job)"
    and "approved_executor S E approval call a (commit_point S job worker_id) w = ((result, Some executing), w1)"
    and "\<forall>error. result = Inl error \<longrightarrow> \<not> execution_retry_safe error"
    and "run_admitted_job S P E job worker_id approval call a w = (r, w')"
  shows "\<forall>job' \<in> set (execution_jobs w'). xj_id job' = xj_id job \<longrightarrow> xj_status job' \<notin> {XQueued, XRunning}"
proof -
  let ?k = "xj_id job"
  note rel = committed_relation [OF assms(1,2)]
  obtain v v' where v: "committed_stay ?k w v" "commit_point S job worker_id v = (Inr executing, v')"
      "committed_stay ?k v' w1"
    using execution_relation.executor_commits [OF rel, unfolded commits_in_def] assms(6) queue_stays(1)
    unfolding commit_point_def by blast
  have "distinct (map xj_id (execution_jobs v))" using stay_distinct [OF v(1) assms(3)] .
  note committed = committed_job [OF v(2) this]
  have w1: "committed_stay ?k w w1"
    using v(1,3) keepsD [OF queue_stays(1) v(2) [unfolded commit_point_def]] stay.R_trans by blast
  have "job_core executing \<in> set (map job_core (execution_jobs w1))"
    using v(3) committed(4) by (auto simp: committed_stay_def)
  then obtain y where y: "y \<in> set (execution_jobs w1)" "job_core y = job_core executing" by auto
  have "committed_stay ?k w1 w'"
  proof (cases result)
    case (Inl error)
    then have "snd (settle_failed_execution S P E executing a worker_id error w1) = w'"
      using assms(6,8) by (simp add: run_admitted_job_def)
    moreover have "committed_stay ?k w1 (snd (settle_failed_execution S P E executing a worker_id error w1))"
      using assms(4,5,7) Inl w1 committed(3) y stay_distinct [OF w1 assms(3)]
      by (intro settled_stays [OF rel]) (auto simp: committed_stay_def job_core_def)
    ultimately show ?thesis by simp
  next
    case (Inr u)
    with assms(6,8) have "complete_started_execution_job S P E executing a worker_id w1 = (r, w')"
      by (simp add: run_admitted_job_def)
    with execution_relation.complete_keeps [OF rel] show ?thesis by (rule keepsD)
  qed
  with v(3) committed(1) have "past_commit ?k w'" by (simp add: committed_stay_def)
  then show ?thesis by (simp only: past_commit_def)
qed

text \<open>The command that fails: a known outcome, and attempts are left, but the job fails for good.\<close>

lemma committed_run_not_requeued_witness:
  "succeeds (Inr (), snd (run_admitted_job numbering_sys idle_peers idle_execution running_job ''a''
      approved_approval approved_call None running_world))
    (\<lambda>_ w'. \<forall>job' \<in> set (execution_jobs w'). xj_id job' = 1 \<longrightarrow> xj_status job' \<notin> {XQueued, XRunning})"
proof -
  let ?commit = "commit_point numbering_sys running_job ''a''"
  have "case approved_executor numbering_sys idle_execution approved_approval approved_call None ?commit running_world of
      ((Inl e, Some x), w1) \<Rightarrow> \<not> execution_retry_safe e | _ \<Rightarrow> False" by code_simp
  then obtain e x w1 where run: "approved_executor numbering_sys idle_execution approved_approval approved_call None
      ?commit running_world = ((Inl e, Some x), w1)" "\<not> execution_retry_safe e"
    by (auto split: prod.splits sum.splits option.splits)
  obtain r w' where r: "run_admitted_job numbering_sys idle_peers idle_execution running_job ''a''
      approved_approval approved_call None running_world = (r, w')" by fastforce
  from committed_run_not_requeued [OF idle_respects running_world_ok _ run(1) _ r] run(2) r show ?thesis
    by (simp add: succeeds_def running_job_def in_i64_def)
qed

section \<open>Recovery\<close>

text \<open>The assignment of a job is only read.\<close>

lemma finish_with_assignment:
  assumes rel: "execution_relation (committed_stay k) S P E" and "\<And>job v. snd (assignment_for_job E job v) = v"
    and "xj_last_error job = None \<or> stage job = Some ''tool_known_failure'' \<and> failure_on_record S job w"
  shows "committed_stay k w (snd (bindS (assignment_for_job E job) (\<lambda>a.
    finish_finalizing_execution_job S P E job a worker_id) w))"
  using execution_relation.finish_keeps [OF rel assms(3)] assms(2) [of job w]
  by (auto simp: bindS_def stay.R_refl split: prod.splits sum.splits)

text \<open>A failure that is found is set as the job's error, and found again when the job is finished.\<close>

lemma found_failure_ends:
  assumes rel: "execution_relation (committed_stay k) S P E" and "\<And>job v. snd (assignment_for_job E job v) = v"
    and "distinct (map xj_id (execution_jobs w))" and "failure_on_record S job w"
    and "y \<in> set (execution_jobs w)" and "xj_id y = xj_id job" and "job_core y = job_core job"
    and details: "as_str (jindex details ''stage'') = Some ''tool_known_failure''"
  shows "committed_stay k w (snd (bindS
    (queueS S (\<lambda>now. set_finalizing_failure now (xj_id job) worker_id (xj_claim_generation job) message details))
    (\<lambda>finalizing. bindS (assignment_for_job E finalizing) (\<lambda>a.
      finish_finalizing_execution_job S P E finalizing a worker_id)) w))"
    (is "committed_stay k w (snd (bindS ?fail ?finish w))")
proof -
  obtain q w2 where q: "?fail w = (q, w2)" by fastforce
  have w2: "committed_stay k w w2" using queue_stays(4) q by (rule keepsD)
  show ?thesis
  proof (cases q)
    case (Inl e)
    with q w2 show ?thesis by (simp add: bindS_def)
  next
    case (Inr finalizing)
    from q [unfolded Inr] obtain x now where x: "x \<in> set (execution_jobs w)"
      "claimed_by (xj_id job) worker_id (xj_claim_generation job) (now (0::nat)) x"
      "finalizing = x\<lparr>xj_last_error := Some message, xj_finalization_details := details\<rparr>"
      "events w2 = events w" "tool_calls w2 = tool_calls w"
      unfolding set_finalizing_failure_def by (elim queueS_with_job) blast
    have "job_core x = job_core y" using core_unique [OF refl assms(3,5) x(1)] x(2) assms(6) by (simp add: claimed_by_def)
    then have "same_attempt job finalizing" using x(2,3) assms(7) by (simp add: same_attempt_def job_core_def claimed_by_def)
    then have "failure_on_record S finalizing w2" using assms(4) x(4,5) failure_on_record_cong by blast
    moreover have "stage finalizing = Some ''tool_known_failure''" by (simp add: x(3) stage_def details)
    ultimately have "committed_stay k w2 (snd (?finish finalizing w2))"
      by (intro finish_with_assignment [OF rel assms(2)]) blast
    with q Inr stay.R_trans [OF w2] show ?thesis by (simp add: bindS_def [of ?fail])
  qed
qed

text \<open>What is found of an execution that was cut off decides how it ends.\<close>

lemma reconciliation_stays:
  assumes rel: "execution_relation (committed_stay k) S P E"
    and reads: "\<And>job v. snd (assignment_for_job E job v) = v"
    and "xj_last_error job = None" and "distinct (map xj_id (execution_jobs w))" and "job \<in> set (execution_jobs w)"
  shows "committed_stay k w (snd (finish_outcome_reconciliation S P E job worker_id w))"
proof -
  obtain found where found: "latest_durable_tool_outcome_event (lib S) job w = (Inr found, w)"
    by (simp add: latest_outcome)
  note run = finish_outcome_reconciliation_def bindS_def [of "latest_durable_tool_outcome_event X j" for X j] found
  obtain r w1 where r: "reconcile_durable_tool_outcome S job w = (r, w1)" by fastforce
  have w1: "committed_stay k w w1" using execution_relation.outcome_keeps(2) [OF rel] r by (rule keepsD)
  show ?thesis
  proof (cases found)
    case None
    with execution_relation.unknown_keeps(2) [OF rel] show ?thesis by (simp add: run keeps_def)
  next
    case (Some event)
    note run = run [unfolded Some option.case] bindS_def [of "reconcile_durable_tool_outcome S j" for j] r
    obtain y where y: "y \<in> set (execution_jobs w1)" "job_core y = job_core job"
    proof -
      have "job_core job \<in> set (map job_core (execution_jobs w1))" using w1 assms(5) by (auto simp: committed_stay_def)
      then show thesis using that by auto
    qed
    consider (lost) e where "r = Inl e"
      | (success) "r = Inr OutcomeSuccess" "ev_event_type event = ''tool.result''"
      | (failure) "r = Inr OutcomeFailure" "ev_event_type event = ''tool.error''"
      | (conflict) outcome where "r = Inr outcome" "\<not> (outcome = OutcomeSuccess \<and> ev_event_type event = ''tool.result'')"
          "\<not> (outcome = OutcomeFailure \<and> ev_event_type event = ''tool.error'')" by (cases r) auto
    then have "committed_stay k w1 (snd (finish_outcome_reconciliation S P E job worker_id w))"
    proof cases
      case success
      with finish_with_assignment [OF rel reads, of job w1] assms(3) show ?thesis
        by (simp add: run bindS_def [of "retS job"] eff_simps)
    next
      case failure
      then have "failure_on_record S job w1" using r reconciled_failure by blast
      from found_failure_ends [OF rel reads stay_distinct [OF w1 assms(4)] this y(1) _ y(2)] y(2) failure show ?thesis
        by (simp add: run job_core_def jindex_def jget_mk_obj)
    next
      case conflict
      then show ?thesis
        by (simp add: run if_not_P [OF conflict(2)] if_not_P [OF conflict(3)] bindS_def [of "failS x" for x]
          eff_simps stay.R_refl split del: if_split)
    qed (simp add: run stay.R_refl)
    with w1 show ?thesis by (rule stay.R_trans)
  qed
qed

text \<open>
  C19. The recovery of an execution that was cut off never runs it again: when the lease of a job that was
  being executed is over and a worker recovers it, the job is not queued or started afterwards, whether
  the recovery succeeds or fails on its way. (Where it is settled, it is completed if its events say that
  the tool returned, failed if they say it failed, of unknown outcome otherwise.)
\<close>

theorem recovery_never_replays:
  assumes "peers_respect (committed_stay (xj_id job)) P" and "execution_peers_respect (committed_stay (xj_id job)) E"
    and "\<And>j v. snd (assignment_for_job E j v) = v"
    and "distinct (map xj_id (execution_jobs w))"
    and "job \<in> set (execution_jobs w)" and "xj_status job = XExecuting"
    and "recover_expired_execution_with_durable_outcome S P E job worker_id w = (r, w')"
  shows "\<forall>job' \<in> set (execution_jobs w'). xj_id job' = xj_id job \<longrightarrow> xj_status job' \<notin> {XQueued, XRunning}"
proof -
  let ?k = "xj_id job"
  note rel = committed_relation [OF assms(1,2), of S]
  let ?recover = "queueS S (\<lambda>now. recover_expired_executing now ?k worker_id None (at_stage ''outcome_reconciliation''))"
  obtain q w1 where q: "?recover w = (q, w1)" by fastforce
  have w1: "committed_stay ?k w w1" using queue_stays(3) q by (rule keepsD)
  have "committed_stay ?k w1 w'"
  proof (cases q)
    case (Inl e)
    with q assms(7) show ?thesis
      by (simp add: recover_expired_execution_with_durable_outcome_def bindS_def stay.R_refl)
  next
    case (Inr finalizing)
    from q [unfolded Inr] have "xj_last_error finalizing = None" "finalizing \<in> set (execution_jobs w1)"
      unfolding recover_expired_executing_def by (auto elim!: queueS_with_job)
    from reconciliation_stays [OF rel assms(3) this(1) stay_distinct [OF w1 assms(4)] this(2)] q Inr assms(7)
    show ?thesis by (simp add: recover_expired_execution_with_durable_outcome_def bindS_def [of ?recover])
      (metis snd_conv)
  qed
  moreover have "past_commit ?k w"
    using assms(4,5,6) by (auto simp: past_commit_def) (metis distinct_map inj_onD execution_job_status.distinct)+
  ultimately have "past_commit ?k w'" using w1 by (simp add: committed_stay_def)
  then show ?thesis by (simp only: past_commit_def)
qed

text \<open>The tool had returned: the job is completed.\<close>

lemma recovery_never_replays_witness:
  "succeeds (Inr (), snd (recover_expired_execution_with_durable_outcome numbering_sys idle_peers idle_execution
      (hd (execution_jobs cut_off_world)) ''b'' cut_off_world))
    (\<lambda>_ w'. \<forall>job' \<in> set (execution_jobs w'). xj_id job' = 1 \<longrightarrow> xj_status job' \<notin> {XQueued, XRunning})"
proof -
  have ok: "distinct (map xj_id (execution_jobs cut_off_world)) \<and> hd (execution_jobs cut_off_world) \<in> set (execution_jobs cut_off_world)
      \<and> xj_status (hd (execution_jobs cut_off_world)) = XExecuting \<and> xj_id (hd (execution_jobs cut_off_world)) = 1"
    by code_simp
  have reads: "snd (assignment_for_job idle_execution j v) = v" for j v by (simp add: idle_execution_def eff_simps)
  obtain r w' where r: "recover_expired_execution_with_durable_outcome numbering_sys idle_peers idle_execution
      (hd (execution_jobs cut_off_world)) ''b'' cut_off_world = (r, w')" by fastforce
  from recovery_never_replays [OF idle_respects reads _ _ _ r] ok r show ?thesis by (simp add: succeeds_def)
qed

end
