(* ===== verification/Execution_Checks.thy ===== *)
theory Execution_Checks
  imports Execution_Safety "HOL-Library.Sublist"
begin

text \<open>
  When an executor runs, where it writes, which events of its outcome are believed, and how a failure that is
  known can be lost between two writes of the queue.
\<close>

section \<open>When an executor runs\<close>

text \<open>Two sets of neighbours that agree on all but the executors.\<close>

definition same_surroundings :: "execution_peers \<Rightarrow> execution_peers \<Rightarrow> bool" where
  "same_surroundings E E' \<longleftrightarrow>
     remote_contract_for_job E' = remote_contract_for_job E \<and> active_assignment_for_job E' = active_assignment_for_job E
     \<and> assignment_for_job E' = assignment_for_job E \<and> validate_active_assignment E' = validate_active_assignment E
     \<and> auto_assign_remote_computer E' = auto_assign_remote_computer E
     \<and> append_transport_plan E' = append_transport_plan E \<and> finalize_assignment E' = finalize_assignment E
     \<and> pod_execution_requested E' = pod_execution_requested E"

lemma same_admission:
  assumes "same_surroundings E E'"
  shows "admit_execution_job S H E' job worker_id = admit_execution_job S H E job worker_id"
proof -
  note same = assms [unfolded same_surroundings_def]
  have "record_remote_computer_execution_handoff_acknowledged S E' job worker_id a =
      record_remote_computer_execution_handoff_acknowledged S E job worker_id a" for a
    by (simp add: record_remote_computer_execution_handoff_acknowledged_def same)
  then have "admit_remote S E' job worker_id c = admit_remote S E job worker_id c" for c
    by (intro ext) (simp add: admit_remote_def remote_assignment_def Let_def same cong: if_cong option.case_cong)
  then show ?thesis by (simp add: admit_execution_job_def same cong: if_cong sum.case_cong)
qed

lemma same_finish:
  assumes "same_surroundings E E'"
  shows "finish_finalizing_execution_job S P E' job a worker_id = finish_finalizing_execution_job S P E job a worker_id"
    "finish_outcome_reconciliation S P E' job worker_id = finish_outcome_reconciliation S P E job worker_id"
    "retry_or_fail_started_execution_job S P E' job a error details = retry_or_fail_started_execution_job S P E job a error details"
proof -
  note same = assms [unfolded same_surroundings_def]
  have "finalize_assignment_for_job E' = finalize_assignment_for_job E"
    by (intro ext) (simp add: finalize_assignment_for_job_def same cong: option.case_cong)
  then have "finish_settled_job S P E' = finish_settled_job S P E"
    by (intro ext) (simp add: finish_settled_job_def record_execution_failure_tail_def Let_def cong: if_cong)
  then have finish: "finish_finalizing_execution_job S P E' = finish_finalizing_execution_job S P E"
    by (intro ext) (simp add: finish_finalizing_execution_job_def)
  then show "finish_finalizing_execution_job S P E' job a worker_id = finish_finalizing_execution_job S P E job a worker_id"
    "finish_outcome_reconciliation S P E' job worker_id = finish_outcome_reconciliation S P E job worker_id"
    "retry_or_fail_started_execution_job S P E' job a error details = retry_or_fail_started_execution_job S P E job a error details"
    by (simp_all add: finish_outcome_reconciliation_def retry_or_fail_started_execution_job_def same cong: option.case_cong)
qed

lemma or_refuse_Admitted:
  "or_refuse a d m k w = (Inr (Admitted ap call g), w') \<longleftrightarrow>
     (\<exists>x v. m w = (Inr x, v) \<and> k x v = (Inr (Admitted ap call g), w'))"
  by (auto simp: or_refuse_def split: prod.splits sum.splits)

lemma refuse_Admitted: "refuse e d w \<noteq> (Inr (Admitted ap call g), w')"
  by (simp add: refuse_def eff_simps)

lemma remote_Admitted:
  assumes "admit_remote S E job worker_id c ap call w = (Inr (Admitted ap' call' g), w')"
  shows "ap' = ap \<and> call' = call"
  using assms
  by (auto simp: admit_remote_def remote_assignment_def or_refuse_Admitted refuse_Admitted effects_eq_Inr Let_def
      split: if_splits option.splits)

text \<open>Everything that was asked of a job that is admitted.\<close>

lemma admitted_job:
  assumes "admit_execution_job S H E job worker_id w = (Inr (Admitted approval call a), w')"
    and reads: "\<And>v. snd (remote_contract_for_job E job v) = v"
  shows "\<exists>session grant w1 w2. tget (sessions w) (xj_session_id job) = Some session
    \<and> se_status session \<in> {Idle, Running, RequiresAction, Rescheduling}
    \<and> tget (approvals w) (xj_approval_id job) = Some approval \<and> ap_status approval = ''approved''
    \<and> tget (tool_calls w) (xj_tool_call_id job) = Some call
    \<and> ensure_session_runnable S H (xj_session_id job) w = (Inr (), w1)
    \<and> revalidate_task_grant_for_tool_invocation S (tc_tool_name call)
        \<lparr>xt_session_id = xj_session_id job, xt_task_grant_id = tc_task_grant_id call, xt_args = tc_args call\<rparr> w1
      = (Inr grant, w2)
    \<and> (tc_normalized_args_hash call \<noteq> None \<longrightarrow>
         (\<exists>t \<in> snd ` set (approval_commit_tokens w2). token_binds S w2 approval call t))"
proof -
  obtain session where session: "tget (sessions w) (xj_session_id job) = Some session"
      "se_status session \<in> {Idle, Running, RequiresAction, Rescheduling}"
    and rest: "bindS (tryS (remote_contract_for_job E job)) (\<lambda>contract. case contract of
        Inl error \<Rightarrow> bindS (append_event S ''worker'' (Some (xj_id job)) (xj_session_id job)
            ''environment.remote_computer_contract_invalid''
            (mk_obj [(''execution_job_id'', jid (lib S) (xj_id job)), (''approval_id'', jid (lib S) (xj_approval_id job)),
                     (''tool_call_id'', jid (lib S) (xj_tool_call_id job)), (''tool'', JStr (xj_tool_name job)),
                     (''error'', JStr (err_message error))])) (\<lambda>_.
            refuse error (at_stage ''environment_contract''))
      | Inr c \<Rightarrow> admit_call S H job (admit_remote S E job worker_id c)) w = (Inr (Admitted approval call a), w')"
    using assms(1)
    by (auto simp: admit_execution_job_def session_accepts_worker_execution_def get_session_def bindS_eq_Inr
        effects_eq_Inr ok_or_eq_Inr refuse_Admitted Let_def split: if_splits)
  obtain c where c: "admit_call S H job (admit_remote S E job worker_id c) w = (Inr (Admitted approval call a), w')"
    using rest reads [of w]
    by (cases "remote_contract_for_job E job w")
      (auto simp: tryS_def bindS_eq_Inr refuse_Admitted split: sum.splits)
  then obtain ap tc grant w1 w2 where
    admitted: "tget (approvals w) (xj_approval_id job) = Some ap" "ap_status ap = ''approved''"
      "tget (tool_calls w) (xj_tool_call_id job) = Some tc"
      "ensure_session_runnable S H (xj_session_id job) w = (Inr (), w1)"
      "revalidate_task_grant_for_tool_invocation S (tc_tool_name tc)
        \<lparr>xt_session_id = xj_session_id job, xt_task_grant_id = tc_task_grant_id tc, xt_args = tc_args tc\<rparr> w1
      = (Inr grant, w2)"
    and token: "admit_token S ap tc (admit_remote S E job worker_id c ap tc) w2 = (Inr (Admitted approval call a), w')"
    by (auto simp: admit_call_def or_refuse_Admitted refuse_Admitted get_approval_def get_tool_call_def
        effects_eq_Inr ok_or_eq_Inr split: if_splits)
  have "(tc_normalized_args_hash tc \<noteq> None \<longrightarrow> (\<exists>t \<in> snd ` set (approval_commit_tokens w2). token_binds S w2 ap tc t))
      \<and> approval = ap \<and> call = tc"
    using token
    by (auto simp: admit_token_def or_refuse_Admitted effects_eq_Inr approval_commit_token_for_approval_def
        dest!: remote_Admitted validated_token split: if_splits)
  with session admitted show ?thesis by blast
qed

text \<open>
  C10. Whether an executor runs: what the run of a claimed job comes to depends on the executors only if the
  job is not being finalized, its session is open and runnable, its approval is approved, its tool call is
  stored and passes the check of its task grant again, and, if the call was bound when it was approved, the
  token of the approval is issued, unexpired and bound to the call as it is now. (The remote computer's
  contract is only looked up.)
\<close>

theorem executor_only_if_admitted:
  assumes "run_claimed_execution_job S P H E job worker_id w \<noteq> run_claimed_execution_job S P H E' job worker_id w"
    and "same_surroundings E E'" and "\<And>v. snd (remote_contract_for_job E job v) = v"
  shows "xj_status job \<noteq> XFinalizing \<and> (\<exists>session approval call grant w1 w2.
    tget (sessions w) (xj_session_id job) = Some session
    \<and> se_status session \<in> {Idle, Running, RequiresAction, Rescheduling}
    \<and> tget (approvals w) (xj_approval_id job) = Some approval \<and> ap_status approval = ''approved''
    \<and> tget (tool_calls w) (xj_tool_call_id job) = Some call
    \<and> ensure_session_runnable S H (xj_session_id job) w = (Inr (), w1)
    \<and> revalidate_task_grant_for_tool_invocation S (tc_tool_name call)
        \<lparr>xt_session_id = xj_session_id job, xt_task_grant_id = tc_task_grant_id call, xt_args = tc_args call\<rparr> w1
      = (Inr grant, w2)
    \<and> (tc_normalized_args_hash call \<noteq> None \<longrightarrow>
         (\<exists>t \<in> snd ` set (approval_commit_tokens w2). token_binds S w2 approval call t)))"
proof -
  note same = same_admission [OF assms(2)] same_finish [OF assms(2)]
  have assignment: "assignment_for_job E' = assignment_for_job E" using assms(2) by (simp add: same_surroundings_def)
  have running: "xj_status job \<noteq> XFinalizing"
    using assms(1) by (auto simp: run_claimed_execution_job_def same assignment cong: if_cong)
  obtain approval call a w' where admitted: "admit_execution_job S H E job worker_id w = (Inr (Admitted approval call a), w')"
  proof (cases "admit_execution_job S H E job worker_id w")
    case (Pair r v)
    then show thesis
      using assms(1) running that
      by (cases r; cases "projr r") (auto simp: run_claimed_execution_job_def same bindS_def)
  qed
  from admitted_job [OF admitted assms(3)] show ?thesis
    by (elim exE) (rule conjI [OF running], (rule exI)+, assumption)
qed

text \<open>The worker has lost its lease; that an executor was asked is seen from the trace it leaves.\<close>

lemma executor_only_if_admitted_witness:
  "xj_status running_job \<noteq> XFinalizing
   \<and> (\<exists>approval. tget (approvals running_world) 2 = Some approval \<and> ap_status approval = ''approved'')"
proof -
  let ?E = "idle_execution\<lparr>session_workspace := (\<lambda>i w. (Inr ''/w'', w\<lparr>uuids := 99\<rparr>))\<rparr>"
  let ?run = "\<lambda>E. run_claimed_execution_job sample_sys idle_peers idle_handoffs E running_job ''a''
      (running_world\<lparr>ticks := 1000\<rparr>)"
  have "fails (?run ?E) (\<lambda>e w. uuids w = 99)" by code_simp
  moreover have "\<not> fails (?run idle_execution) (\<lambda>e w. uuids w = 99)" by code_simp
  ultimately have "?run idle_execution \<noteq> ?run ?E" by metis
  from executor_only_if_admitted [OF this] show ?thesis
    by (auto simp: same_surroundings_def idle_execution_def eff_simps running_job_def running_world_def)
qed

section \<open>A known failure that is forgotten\<close>

interpretation jobs: relation_on_worlds "\<lambda>w w'. execution_jobs w' = execution_jobs w"
  by unfold_locales simp_all

lemma failure_tail_leaves_jobs:
  assumes "\<And>j a s t d. keeps (\<lambda>w w'. execution_jobs w' = execution_jobs w) (finalize_assignment E j a s t d)"
  shows "keeps (\<lambda>w w'. execution_jobs w' = execution_jobs w) (record_execution_failure_tail S E job a retryable d)"
proof -
  have "keeps (\<lambda>w w'. execution_jobs w' = execution_jobs w) (append_event_with_id S i b aty aid s et p)" for i b aty aid s et p
    by (rule footprint_mono [OF footprint_atoms(3)]) (auto simp: runtime_writes_def)
  moreover have "keeps (\<lambda>w w'. execution_jobs w' = execution_jobs w) (update_tool_call_status S i st r e)"
    "keeps (\<lambda>w w'. execution_jobs w' = execution_jobs w) (get_tool_call i)"
    "keeps (\<lambda>w w'. execution_jobs w' = execution_jobs w) (owned_claim S j XFinalizing)" for i st r e j
    by (auto simp: keeps_def update_tool_call_status_def get_tool_call_def owned_claim_def now_utc_def bindS_def
        eff_simps Let_def split: sum.splits prod.splits)
  ultimately show ?thesis
    unfolding record_execution_failure_tail_def finalize_assignment_for_job_def Let_def
      append_event_once_for_execution_claim_def append_event_once_def
    by (intro jobs.resp_intros assms)
qed

text \<open>
  C20. A known failure can be forgotten. The tail of a job that failed for good is prepared by a write that
  replaces the stage \<open>tool_known_failure\<close>. If the lease is lost between this write and the one that ends
  the job, the worker that resumes the finalization reads a failure of unknown kind: if attempts are left and its
  write that ends the job succeeds, the job is queued again, although the tool ran and its failure is in the
  log.
\<close>

theorem prepared_failure_is_retried:
  assumes "queueS S (\<lambda>now. prepare_outcome_tail now k worker g) u = (Inr prepared, u')"
    and "xj_last_error prepared \<noteq> None" and "xj_attempt_count prepared < xj_max_attempts prepared"
    and "execution_jobs v = execution_jobs u'" and "distinct (map xj_id (execution_jobs v))"
    and "queueS S (\<lambda>now. resume_finalizing now k worker') v = (Inr job, w)"
    and "finish_finalizing_execution_job S P E job a worker' w = (Inr finished, w')"
    and "\<And>j a s t d. keeps (\<lambda>w w'. execution_jobs w' = execution_jobs w) (finalize_assignment E j a s t d)"
  shows "xj_id finished = k \<and> xj_status finished = XQueued"
proof -
  obtain x where x: "prepared = x\<lparr>xj_finalization_details := at_stage ''failure_pending''\<rparr>" "xj_id prepared = k"
      "prepared \<in> set (execution_jobs v)"
    using assms(1,2,4) unfolding prepare_outcome_tail_def
    by (elim queueS_with_job) (auto simp: claimed_by_def split: if_splits)
  have "keeps (committed_stay k) (queueS S (\<lambda>now. resume_finalizing now k worker'))"
    unfolding resume_finalizing_def by (rule with_job_stays) (simp add: job_core_def)
  then have "committed_stay k v w" using assms(6) by (rule keepsD)
  then have ids: "distinct (map xj_id (execution_jobs w))" using assms(5) by (rule stay_distinct)
  obtain y now where y: "y \<in> set (execution_jobs v)" "xj_id y = k" "job \<in> set (execution_jobs w)"
      "job = y\<lparr>xj_worker_id := Some worker', xj_lease_expires_at := Some (plus_seconds (now (0::nat)) five_minutes),
                xj_claim_generation := xj_claim_generation y + 1\<rparr>"
    using assms(6) unfolding resume_finalizing_def by (elim queueS_with_job) blast
  have "y = prepared" using assms(5) x(2,3) y(1,2) by (metis distinct_map inj_onD)
  then have job: "stage job = Some ''failure_pending''" "xj_last_error job \<noteq> None"
      "xj_attempt_count job < xj_max_attempts job" "xj_id job = k"
    using x(1,2) y(4) assms(2,3) by (simp_all add: stage_def)
  have "finish_settled_job S P E job a worker' True w = (Inr finished, w')"
    using assms(7) job(1,2) by (simp add: finish_finalizing_execution_job_def bindS_def eff_simps)
  then obtain w1 w2 where tail: "record_execution_failure_tail S E job a True (xj_finalization_details job) w = (Inr (), w1)"
    and ended: "queueS S (\<lambda>now. finish_finalizing_started now k worker' (xj_claim_generation job) True) w1 = (Inr finished, w2)"
    using job by (auto simp: finish_settled_job_def effects_eq_Inr bindS_eq_Inr Let_def)
  have jobs: "execution_jobs w1 = execution_jobs w"
    using keepsD [OF failure_tail_leaves_jobs [OF assms(8)] tail] .
  obtain z now where z: "z \<in> set (execution_jobs w)" "xj_id z = k" "finished = finished_job now True z"
    using ended unfolding finish_finalizing_started_def jobs [symmetric]
    by (elim queueS_with_job) (auto simp: claimed_by_def)
  have "z = job" using ids y(3) job(4) z(1,2) by (metis distinct_map inj_onD)
  with z(3) job show ?thesis by (auto simp: finished_job_def)
qed

text \<open>The command failed, its tail was prepared, the lease ran out, and another worker resumes.\<close>

definition failing_job :: execution_job where
  "failing_job = running_job\<lparr>xj_status := XFinalizing, xj_last_error := Some ''e'',
     xj_finalization_details := at_stage ''tool_known_failure''\<rparr>"

definition failing_world :: world where
  "failing_world = running_world\<lparr>execution_jobs := [failing_job],
     tool_calls := [(3, approved_call\<lparr>tc_status := ''failed''\<rparr>)]\<rparr>"

lemma prepared_failure_is_retried_witness:
  "\<exists>finished w w'. finish_finalizing_execution_job sample_sys idle_peers idle_execution
       (failing_job\<lparr>xj_finalization_details := at_stage ''failure_pending'', xj_worker_id := Some ''b'',
          xj_lease_expires_at := Some 1300000000000, xj_claim_generation := 2\<rparr>) None ''b'' w = (Inr finished, w')
     \<and> xj_id finished = 1 \<and> xj_status finished = XQueued"
proof -
  let ?prepare = "queueS sample_sys (\<lambda>now. prepare_outcome_tail now 1 ''a'' 1) failing_world"
  let ?v = "(snd ?prepare)\<lparr>ticks := 1000\<rparr>"
  let ?resume = "queueS sample_sys (\<lambda>now. resume_finalizing now 1 ''b'') ?v"
  let ?prepared = "failing_job\<lparr>xj_finalization_details := at_stage ''failure_pending''\<rparr>"
  let ?job = "?prepared\<lparr>xj_worker_id := Some ''b'', xj_lease_expires_at := Some 1300000000000, xj_claim_generation := 2\<rparr>"
  let ?w = "snd ?resume"
  let ?finish = "finish_finalizing_execution_job sample_sys idle_peers idle_execution ?job None ''b'' ?w"
  have "fst ?prepare = Inr ?prepared" by code_simp
  then have prepare: "?prepare = (Inr ?prepared, snd ?prepare)" by (simp only: prod_eq_iff fst_conv snd_conv)
  have "fst ?resume = Inr ?job" by code_simp
  then have resume: "?resume = (Inr ?job, ?w)" by (simp only: prod_eq_iff fst_conv snd_conv)
  have ids: "distinct (map xj_id (execution_jobs ?v))" by code_simp
  have "succeeds ?finish (\<lambda>_ _. True)" by code_simp
  then obtain finished w' where finish: "?finish = (Inr finished, w')" by (auto elim: succeedsE)
  have rest: "xj_last_error ?prepared \<noteq> None" "xj_attempt_count ?prepared < xj_max_attempts ?prepared"
      "execution_jobs ?v = execution_jobs (snd ?prepare)" by (simp_all add: failing_job_def running_job_def)
  have leaves: "keeps (\<lambda>w w'. execution_jobs w' = execution_jobs w) (finalize_assignment idle_execution j a s t d)"
    for j a s t d by (simp add: idle_execution_def keeps_def eff_simps)
  from prepared_failure_is_retried [OF prepare rest ids resume finish leaves] finish show ?thesis
    by blast
qed

section \<open>Where files are written\<close>

text \<open>The place a path names below a directory, with \<open>..\<close> for the directory above.\<close>

fun resolve :: "string list \<Rightarrow> string list \<Rightarrow> string list" where
  "resolve base [] = base"
| "resolve base (c # cs) = resolve (if c = ''..'' then butlast base else base @ [c]) cs"

lemma resolve_below: "''..'' \<notin> set cs \<Longrightarrow> resolve base cs = base @ cs"
  by (induction base cs rule: resolve.induct) auto

definition written_path :: "tool_call \<Rightarrow> string" where
  "written_path call = unwrap_or (jget_str (tc_args call) ''path'') ''diagnostics.md''"

text \<open>
  C27. An approved file.write writes inside the workspace of its session: the file is written, and the job
  committed to write it, only if the path of the call is relative and, followed component by component from the
  workspace, stays in it; otherwise the call fails with nothing done but the lookup of the workspace.
\<close>

theorem files_stay_in_workspace:
  assumes "execute_approved_file_write S E approval call begin_commit w
    \<noteq> execute_approved_file_write S (E\<lparr>write_workspace_file := f\<rparr>) approval call begin_commit' w"
  shows "take 1 (written_path call) \<noteq> ''/''
    \<and> prefix base (resolve base (path_components (written_path call)))
    \<and> (\<forall>n. prefix base (resolve base (take n (path_components (written_path call)))))"
proof -
  have "validate_workspace_relative_path (written_path call) = Inr ()"
  proof (cases "validate_workspace_relative_path (written_path call)")
    case (Inl e)
    have "bindS (session_workspace E (ap_session_id approval)) (\<lambda>workspace.
        bindS (liftS (validate_workspace_relative_path (written_path call))) (\<lambda>_. retS workspace)) w \<noteq> (Inr x, v)" for x v
      by (auto simp: Inl bindS_eq_Inr eff_simps)
    then show ?thesis
      using assms
      by (auto simp: execute_approved_file_write_def Let_def committing_def written_path_def bindS_def [of "bindS m g" for m g]
          split: prod.splits sum.splits)
  qed simp
  then have "''..'' \<notin> set (path_components (written_path call))" and relative: "take 1 (written_path call) \<noteq> ''/''"
    by (auto simp: validate_workspace_relative_path_def)
  then have "resolve base (take n (path_components (written_path call))) = base @ take n (path_components (written_path call))" for n
    by (intro resolve_below) (meson in_set_takeD)
  from this this [of "length (path_components (written_path call))"] relative show ?thesis by simp
qed

definition notes_call :: tool_call where
  "notes_call = approved_call\<lparr>tc_tool_name := ''file.write'', tc_args := JObj [(''path'', JStr ''d/./f'')]\<rparr>"

lemma files_stay_in_workspace_witness:
  "prefix [''w''] (resolve [''w''] (path_components (written_path notes_call)))
   \<and> resolve [''w''] (path_components (written_path notes_call)) = [''w'', ''d'', ''f'']"
proof -
  let ?f = "\<lambda>d p c. failS (forbidden [])" and ?commit = "commit_point sample_sys running_job ''a''"
  let ?run = "\<lambda>E. execute_approved_file_write sample_sys E approved_approval notes_call ?commit running_world"
  have "succeeds (fst (fst (?run idle_execution)), running_world) (\<lambda>_ _. True)" by code_simp
  moreover have "\<not> succeeds (fst (fst (?run (idle_execution\<lparr>write_workspace_file := ?f\<rparr>))), running_world) (\<lambda>_ _. True)"
    by code_simp
  ultimately have "?run idle_execution \<noteq> ?run (idle_execution\<lparr>write_workspace_file := ?f\<rparr>)" by metis
  note inside = files_stay_in_workspace [OF this, of "[''w'']", THEN conjunct2, THEN conjunct1]
  have "resolve [''w''] (path_components (written_path notes_call)) = [''w'', ''d'', ''f'']" by code_simp
  with inside show ?thesis by blast
qed

end
