(* ===== verification/Onboarding_Store.thy ===== *)
theory Onboarding_Store
  imports Semantic_Store
begin

text \<open>
  The runs of ontology onboarding in the store (store_ontology_onboarding.rs), in the memory backend. A run
  inserts its proposals into semantic memory with a check for duplicates of its own; the check and
  all inserts are made under one lock. The proposals are prepared before it; the two are composed here as one
  step.
\<close>

section \<open>Reading\<close>

definition list_ontology_onboarding_run_records :: "sys \<Rightarrow> ontology_onboarding_run_record list eff" where
  "list_ontology_onboarding_run_records S = asks (\<lambda>w.
     sort_key or_created_at (tvalues S w (ontology_onboarding_runs w)))"

definition find_ontology_onboarding_run_record :: "uuid \<Rightarrow> ontology_onboarding_run_record option eff" where
  "find_ontology_onboarding_run_record i = asks (\<lambda>w. tget (ontology_onboarding_runs w) i)"

section \<open>The counters and the status of a run\<close>

definition onboarding_run_status :: "nat \<Rightarrow> nat \<Rightarrow> string" where
  "onboarding_run_status approved_count materialized_count =
     (if materialized_count > 0 then ''materialized''
      else if approved_count > 0 then ''reviewing''
      else ''pending_review'')"

text \<open>A count as \<open>i32\<close>.\<close>

definition onboarding_run_count :: "nat \<Rightarrow> int res" where
  "onboarding_run_count n =
     ok_or (bad_request ''ontology onboarding count exceeds integer range'') (checked_i32 (int n))"

definition names_onboarding_run :: "ext \<Rightarrow> uuid \<Rightarrow> semantic_object \<Rightarrow> bool" where
  "names_onboarding_run X run_id ob \<longleftrightarrow>
     Option.bind (jget_str (so_content ob) ''run_id'') (parse_uuid X) = Some run_id"

section \<open>Creating a run\<close>

definition onboarding_counters_check
    :: "ontology_onboarding_run_record \<Rightarrow> nat \<Rightarrow> nat \<Rightarrow> nat \<Rightarrow> unit res" where
  "onboarding_counters_check record dataset_count profile_count proposal_count =
     (let invalid = bad_request ''ontology onboarding initial counters or status are invalid'' in
      bindr (guardr (or_status record = ''pending_review'') invalid) (\<lambda>_.
      bindr (onboarding_run_count dataset_count) (\<lambda>n. bindr (guardr (or_dataset_count record = n) invalid) (\<lambda>_.
      bindr (onboarding_run_count profile_count) (\<lambda>n. bindr (guardr (or_profile_count record = n) invalid) (\<lambda>_.
      bindr (onboarding_run_count proposal_count) (\<lambda>n. bindr (guardr (or_proposal_count record = n) invalid) (\<lambda>_.
      guardr (or_approved_count record = 0 \<and> or_materialized_count record = 0) invalid))))))))"

definition validate_ontology_onboarding_create
    :: "ext \<Rightarrow> ontology_onboarding_run_record \<Rightarrow> semantic_object list \<Rightarrow> audit_log \<Rightarrow> unit res" where
  "validate_ontology_onboarding_create X record proposals entry =
     bindr (ok_or (bad_request ''ontology onboarding source dataset manifest is required'')
       (or_source_dataset_manifest record)) (\<lambda>datasets.
     bindr (ok_or (bad_request ''ontology onboarding source profiles are required'')
       (or_source_profiles record)) (\<lambda>profiles.
     bindr (guardr (\<not> list_ex (\<lambda>dataset. od_rows dataset \<noteq> []
           \<or> list_ex (\<lambda>field. of_sample_values field \<noteq> []) (od_fields dataset)) datasets)
       (bad_request ''ontology onboarding source manifest cannot retain sample values or rows'')) (\<lambda>_.
     bindr (onboarding_counters_check record (length datasets) (length profiles) (length proposals)) (\<lambda>_.
     bindr (guardr (al_action entry
             \<in> {''ontology_onboarding.demo_run_created'', ''ontology_onboarding.adapter_run_created''}
           \<and> al_resource_type entry = ''ontology_onboarding_run'' \<and> al_resource_id entry = Some (or_id record))
       (bad_request ''ontology onboarding creation audit binding is invalid'')) (\<lambda>_.
     guardr (\<not> list_ex (\<lambda>proposal. go_object_type proposal \<noteq> ''ontology_onboarding_proposal''
           \<or> so_status proposal \<noteq> ''active'' \<or> so_archived_at proposal \<noteq> None
           \<or> \<not> names_onboarding_run X (or_id record) proposal) proposals)
       (bad_request ''ontology onboarding proposal binding is invalid''))))))"

text \<open>The check for duplicates, among the proposals themselves and against what is stored.\<close>

fun onboarding_duplicates_check
    :: "world \<Rightarrow> string set \<Rightarrow> uuid set \<Rightarrow> semantic_object list \<Rightarrow> unit res" where
  "onboarding_duplicates_check w object_keys object_ids [] = Inr ()"
| "onboarding_duplicates_check w object_keys object_ids (proposal # proposals) =
     (let object_key = to_ascii_lowercase (go_object_key proposal) in
      if object_key \<in> object_keys \<or> go_id proposal \<in> object_ids
         \<or> tget (semantic_objects w) (go_id proposal) \<noteq> None
         \<or> list_ex (\<lambda>(i, existing). so_archived_at existing = None
               \<and> eq_ignore_ascii_case (go_object_key existing) object_key) (semantic_objects w)
      then Inl (bad_request (''semantic object already exists: '' @ go_object_key proposal))
      else onboarding_duplicates_check w (insert object_key object_keys) (insert (go_id proposal) object_ids)
             proposals)"

definition insert_onboarding_run
    :: "ontology_onboarding_run_record \<Rightarrow> semantic_object list \<Rightarrow> audit_log
        \<Rightarrow> ontology_onboarding_run_record eff" where
  "insert_onboarding_run record proposals entry w =
     (if tget (ontology_onboarding_runs w) (or_id record) \<noteq> None
      then (Inl (bad_request ''ontology onboarding run already exists''), w)
      else if tget (audit_logs w) (al_id entry) \<noteq> None
      then (Inl (bad_request ''ontology onboarding audit log already exists''), w)
      else case onboarding_duplicates_check w {} {} proposals of
        Inl e \<Rightarrow> (Inl e, w)
      | Inr _ \<Rightarrow>
          (Inr record, w\<lparr>semantic_objects := fold (\<lambda>proposal. tput (go_id proposal) proposal) proposals (semantic_objects w),
             ontology_onboarding_runs := tput (or_id record) record (ontology_onboarding_runs w),
             audit_logs := tput (al_id entry) entry (audit_logs w)\<rparr>))"

definition create_ontology_onboarding_run
    :: "sys \<Rightarrow> ontology_onboarding_run_record \<Rightarrow> create_semantic_object list \<Rightarrow> audit_log
        \<Rightarrow> ontology_onboarding_run_record eff" where
  "create_ontology_onboarding_run S record proposal_inputs entry =
     bindS (mapS (prepare_semantic_object S) proposal_inputs) (\<lambda>proposals.
     bindS (liftS (validate_ontology_onboarding_create (lib S) record proposals entry)) (\<lambda>_.
       insert_onboarding_run record proposals entry))"

section \<open>Refreshing a run\<close>

text \<open>The record is changed field by field: a count that does not fit leaves the fields before it changed.\<close>

definition put_onboarding_run :: "uuid \<Rightarrow> ontology_onboarding_run_record \<Rightarrow> unit eff" where
  "put_onboarding_run i record =
     modifyS (\<lambda>w. w\<lparr>ontology_onboarding_runs := tput i record (ontology_onboarding_runs w)\<rparr>)"

definition refresh_ontology_onboarding_run_record
    :: "sys \<Rightarrow> uuid \<Rightarrow> ontology_onboarding_run_record option eff" where
  "refresh_ontology_onboarding_run_record S i =
     bindS (asks (\<lambda>w. filter (\<lambda>ob. go_object_type ob = ''ontology_onboarding_proposal'' \<and> so_status ob = ''active''
         \<and> names_onboarding_run (lib S) i ob) (tvalues S w (semantic_objects w)))) (\<lambda>objects.
     let proposal_count = length objects;
         approved_count = length (filter (\<lambda>ob. jget_str (so_content ob) ''review_status'' = Some ''approved'') objects);
         materialized_count = length (filter (\<lambda>ob. jget_bool (so_content ob) ''materialized'' = Some True) objects) in
     bindS (find_ontology_onboarding_run_record i) (\<lambda>found.
     case found of
       None \<Rightarrow> retS None
     | Some record \<Rightarrow>
         let record = record\<lparr>or_status := onboarding_run_status approved_count materialized_count\<rparr> in
         thenS (put_onboarding_run i record)
         (bindS (liftS (onboarding_run_count proposal_count)) (\<lambda>n.
         let record = record\<lparr>or_proposal_count := n\<rparr> in
         thenS (put_onboarding_run i record)
         (bindS (liftS (onboarding_run_count approved_count)) (\<lambda>n.
         let record = record\<lparr>or_approved_count := n\<rparr> in
         thenS (put_onboarding_run i record)
         (bindS (liftS (onboarding_run_count materialized_count)) (\<lambda>n. bindS (now_utc S) (\<lambda>now.
         let record = record\<lparr>or_materialized_count := n, or_updated_at := now\<rparr> in
         thenS (put_onboarding_run i record) (retS (Some record)))))))))))"

end
