(* ===== verification/Semantic_Memory.thy ===== *)
theory Semantic_Memory
  imports Onboarding_Store Samples
begin

text \<open>
  What the semantic memory is at every moment: an invariant of its three tables that each operation of
  store_semantic_kernel.rs keeps, and the creation of an onboarding run, which inserts objects too. The tables are keyed in the same way, so the argument for a record that is
  admitted or changed is made once, in a locale that sources, objects and links interpret.
\<close>

section \<open>Keyed tables without live duplicates\<close>

text \<open>
  Each record is under its own id and well formed, and no two live records are the same in the sense of the
  check for duplicates.
\<close>

definition table_ok
    :: "('r \<Rightarrow> uuid) \<Rightarrow> ('r \<Rightarrow> timestamp option) \<Rightarrow> ('r \<Rightarrow> 'r \<Rightarrow> bool) \<Rightarrow> ('r \<Rightarrow> bool) \<Rightarrow> 'r table \<Rightarrow> bool" where
  "table_ok idf archived same good t \<longleftrightarrow>
     distinct (map fst t) \<and> (\<forall>(i, x) \<in> set t. idf x = i \<and> good x)
     \<and> (\<forall>(i, x) \<in> set t. \<forall>(j, y) \<in> set t. archived x = None \<and> archived y = None \<and> same x y \<longrightarrow> i = j)"

lemma set_of_put:
  "distinct (map fst t) \<Longrightarrow> set (tput k v t) = insert (k, v) {kv \<in> set t. fst kv \<noteq> k}"
  by (induction t) (auto simp: image_iff)

locale keyed_records =
  fixes idf :: "'r \<Rightarrow> uuid" and archived :: "'r \<Rightarrow> timestamp option"
    and same :: "'r \<Rightarrow> 'r \<Rightarrow> bool" and good :: "'r \<Rightarrow> bool"
  assumes same_sym: "same x y \<Longrightarrow> same y x"
begin

lemma empty_ok: "table_ok idf archived same good []"
  by (simp add: table_ok_def)

lemma stored_good: "table_ok idf archived same good t \<Longrightarrow> tget t i = Some x \<Longrightarrow> idf x = i \<and> good x"
  unfolding table_ok_def by (blast dest: map_of_SomeD)

lemma put_ok:
  assumes "table_ok idf archived same good t" and "idf x = i" and "good x"
    and "\<And>j y. (j, y) \<in> set t \<Longrightarrow> j \<noteq> i \<Longrightarrow> archived x = None \<Longrightarrow> archived y = None \<Longrightarrow> \<not> same y x"
  shows "table_ok idf archived same good (tput i x t)"
proof -
  have "distinct (map fst t)" using assms(1) by (simp add: table_ok_def)
  note set_of_put [OF this, of i x]
  moreover have "distinct (map fst (tput i x t))" by (simp add: \<open>distinct (map fst t)\<close> distinct_update)
  ultimately show ?thesis
    using assms unfolding table_ok_def by (auto dest: same_sym)
qed

text \<open>A record that is admitted: no live record is the same.\<close>

lemma admitted_ok:
  assumes "table_ok idf archived same good t" and "good x"
    and "\<not> list_ex (\<lambda>(i, y). archived y = None \<and> same y x) t"
  shows "table_ok idf archived same good (tput (idf x) x t)"
  using assms by (intro put_ok) (auto simp: list_ex_iff)

text \<open>A live record that is changed and stays the same to others, or is archived.\<close>

lemma changed_ok:
  assumes "table_ok idf archived same good t" and "tget t i = Some x" and "archived x = None"
    and "idf y = idf x" and "good y" and "\<And>z. archived y = None \<Longrightarrow> same z y \<Longrightarrow> same z x"
  shows "table_ok idf archived same good (tput (idf y) y t)"
proof (rule put_ok)
  have x: "idf x = i" "(i, x) \<in> set t" using stored_good [OF assms(1,2)] assms(2) by (auto dest: map_of_SomeD)
  fix j u assume "(j, u) \<in> set t" "j \<noteq> idf y" "archived y = None" "archived u = None"
  with x assms(1,3,4) have "\<not> same u x" unfolding table_ok_def by fastforce
  with assms(6) [OF \<open>archived y = None\<close>] show "\<not> same u y" by blast
qed (use assms in simp_all)

end

section \<open>Fields as their normalizers give them\<close>

definition token_char :: "char \<Rightarrow> char" where
  "token_char c = (if ascii_lower c = CHR ''-'' then CHR ''_'' else ascii_lower c)"

lemma ontology_token: "normalized_ontology_token v = map token_char (trim v)"
  by (simp add: normalized_ontology_token_def to_ascii_lowercase_def token_char_def)

lemma token_char_cases:
  obtains "token_char c = c"
  | "45 \<le> byte c" "byte c \<le> 90" "95 \<le> byte (token_char c)" "byte (token_char c) \<le> 122"
proof (cases "is_ascii_upper c")
  case True
  then have b: "byte (ascii_lower c) = byte c + 32"
    by (auto simp: ascii_lower_def is_ascii_upper_def of_char_of)
  with True have "ascii_lower c \<noteq> CHR ''-''" by (auto simp: is_ascii_upper_def)
  with b have "byte (token_char c) = byte c + 32" by (simp add: token_char_def)
  with True that(2) show thesis by (auto simp: is_ascii_upper_def)
next
  case False
  with that show thesis by (cases "c = CHR ''-''") (simp_all add: token_char_def ascii_lower_def)
qed

lemma token_char_idem: "token_char (token_char c) = token_char c"
  by (auto simp: token_char_def ascii_lower_def is_ascii_upper_def of_char_of split: if_splits)

text \<open>The bytes that change are neither white space nor part of it.\<close>

lemma token_ws:
  "ws1 (byte (token_char a)) = ws1 (byte a)"
  "ws2 (byte (token_char a)) (byte (token_char b)) = ws2 (byte a) (byte b)"
  "ws3 (byte (token_char a)) (byte (token_char b)) (byte (token_char d)) = ws3 (byte a) (byte b) (byte d)"
  by (rule token_char_cases [of a]; rule token_char_cases [of b]; rule token_char_cases [of d];
      simp add: ws1_def ws2_def ws3_def)+

lemma token_ws_len: "ws_len (map byte (map token_char s)) = ws_len (map byte s)"
  by (cases "map byte s" rule: ws_len.cases) (auto simp: map_eq_Cons_conv token_ws)

lemma ontology_token_idem [simp]:
  "normalized_ontology_token (normalized_ontology_token v) = normalized_ontology_token v"
proof -
  let ?s = "trim v"
  have "ws_prefix (map token_char ?s) = 0"
    using ws_prefix_trim [of v] by (simp add: ws_prefix_def take_map token_ws_len del: map_map)
  moreover have "ws_suffix (map token_char ?s) = ws_suffix ?s"
    by (simp add: ws_suffix_def Let_def drop_map token_ws_len del: map_map)
  moreover have "ws_suffix ?s = 0" by (simp add: trim_def)
  ultimately have "trim (map token_char ?s) = map token_char ?s" by (simp add: trim_fixpoint)
  then show ?thesis by (simp add: ontology_token token_char_idem)
qed

lemma token_among_stable: "token_among tokens message v = Inr n \<Longrightarrow> token_among tokens message n = Inr n"
  by (auto simp: token_among_def Let_def split: if_splits)

lemma tokens_stable:
  "normalize_semantic_source_type v = Inr n \<Longrightarrow> normalize_semantic_source_type n = Inr n"
  "normalize_semantic_source_status v = Inr n \<Longrightarrow> normalize_semantic_source_status n = Inr n"
  "normalize_semantic_object_type v = Inr n \<Longrightarrow> normalize_semantic_object_type n = Inr n"
  "normalize_semantic_entity_type v = Inr n \<Longrightarrow> normalize_semantic_entity_type n = Inr n"
  "normalize_semantic_trust_level v = Inr n \<Longrightarrow> normalize_semantic_trust_level n = Inr n"
  "normalize_semantic_freshness v = Inr n \<Longrightarrow> normalize_semantic_freshness n = Inr n"
  "normalize_semantic_record_status v = Inr n \<Longrightarrow> normalize_semantic_record_status n = Inr n"
  unfolding normalize_semantic_source_type_def normalize_semantic_source_status_def
    normalize_semantic_object_type_def normalize_semantic_entity_type_def normalize_semantic_trust_level_def
    normalize_semantic_freshness_def normalize_semantic_record_status_def
  by (erule token_among_stable)+

lemma relation_token_stable:
  "normalize_semantic_relation_type v = Inr n \<Longrightarrow> normalize_semantic_relation_type n = Inr n"
  by (auto simp: normalize_semantic_relation_type_def Let_def split: if_splits)

lemma optional_token_stable:
  assumes "map_option normalized_ontology_token (Option.bind v normalize_optional_text) = Some n" and "n \<noteq> []"
  shows "map_option normalized_ontology_token (Option.bind (Some n) normalize_optional_text) = Some n"
proof -
  from assms(1) obtain u where u: "n = normalized_ontology_token u" by auto
  then have "normalized_ontology_token n = n" by simp
  then have "map token_char (trim n) = n" by (simp add: ontology_token)
  moreover from this assms(2) have "trim n \<noteq> []" by auto
  ultimately show ?thesis
    by (simp add: normalize_optional_text_def Let_def ontology_token)
qed

lemma owner_stable:
  assumes "normalize_semantic_source_owner t i = Inr (t', i')"
  shows "normalize_semantic_source_owner t' i' = Inr (t', i')"
proof (cases t')
  case None
  with assms have "i' = None" by (auto simp: normalize_semantic_source_owner_def split: option.splits if_splits)
  with None show ?thesis by (simp add: normalize_semantic_source_owner_def)
next
  case (Some n)
  let ?owners = "{''project'', ''team'', ''agent'', ''session'', ''work_item'', ''workflow_pack_installation''}"
  from assms Some obtain j where "i' = Some j" "n \<in> ?owners"
    and n: "map_option normalized_ontology_token (Option.bind t normalize_optional_text) = Some n"
    unfolding normalize_semantic_source_owner_def by (auto split: option.splits if_splits)
  moreover from \<open>n \<in> ?owners\<close> have "n \<noteq> []" by auto
  note optional_token_stable [OF n this]
  ultimately show ?thesis unfolding normalize_semantic_source_owner_def Some
    by (simp only: option.case prod.case simp_thms if_True)
qed

lemma archived_is_status:
  "normalize_semantic_source_status ''archived'' = Inr ''archived''"
  "normalize_semantic_record_status ''archived'' = Inr ''archived''"
  by code_simp+

definition text_ok :: "string \<Rightarrow> bool" where
  "text_ok s \<longleftrightarrow> s \<noteq> [] \<and> trim s = s"

lemma required_text: "normalize_required_text v label = Inr s \<Longrightarrow> text_ok s"
  by (auto simp: normalize_required_text_def text_ok_def split: if_splits)

lemma optional_text: "normalize_optional_text v = Some s \<Longrightarrow> text_ok s"
  by (auto simp: normalize_optional_text_def Let_def text_ok_def split: if_splits)

lemma object_value: "validate_json_object v label = Inr u \<Longrightarrow> u = v \<and> is_object u"
  by (auto simp: validate_json_object_def split: if_splits)

lemma updated_eq_Inr:
  "updated given check old = Inr y \<longleftrightarrow> (given = None \<and> y = old \<or> (\<exists>x. given = Some x \<and> check x = Inr y))"
  by (auto simp: updated_def split: option.splits)

text \<open>A field stays well formed if what the check accepts is.\<close>

lemma updated_ok: "updated given check old = Inr y \<Longrightarrow> P old \<Longrightarrow> (\<And>x z. check x = Inr z \<Longrightarrow> P z) \<Longrightarrow> P y"
  by (auto simp: updated_eq_Inr)

section \<open>Well-formed records\<close>

definition good_source :: "semantic_source \<Rightarrow> bool" where
  "good_source s \<longleftrightarrow>
     normalize_semantic_source_type (sc_source_type s) = Inr (sc_source_type s)
     \<and> text_ok (sc_source_uri s) \<and> text_ok (sc_display_name s)
     \<and> normalize_semantic_source_owner (sc_owner_type s) (sc_owner_id s) = Inr (sc_owner_type s, sc_owner_id s)
     \<and> is_object (sc_metadata s) \<and> is_object (sc_provenance s) \<and> is_object (sc_freshness s)
     \<and> normalize_semantic_source_status (sc_status s) = Inr (sc_status s)
     \<and> (sc_archived_at s = None \<or> sc_status s = ''archived'')"

definition good_object :: "semantic_object \<Rightarrow> bool" where
  "good_object ob \<longleftrightarrow>
     normalize_semantic_object_type (go_object_type ob) = Inr (go_object_type ob)
     \<and> text_ok (go_object_key ob) \<and> text_ok (go_title ob) \<and> text_ok (so_summary ob)
     \<and> is_object (so_content ob) \<and> is_object (so_semantic_scopes ob) \<and> is_object (so_provenance ob)
     \<and> pred_option text_ok (so_source_uri ob)
     \<and> normalize_semantic_trust_level (go_trust_level ob) = Inr (go_trust_level ob)
     \<and> normalize_semantic_freshness (go_freshness ob) = Inr (go_freshness ob)
     \<and> normalize_semantic_record_status (so_status ob) = Inr (so_status ob)
     \<and> (so_archived_at ob = None \<or> so_status ob = ''archived'')"

definition good_link :: "semantic_link \<Rightarrow> bool" where
  "good_link l \<longleftrightarrow>
     normalize_semantic_entity_type (sl_from_entity_type l) = Inr (sl_from_entity_type l)
     \<and> normalize_semantic_entity_type (sl_to_entity_type l) = Inr (sl_to_entity_type l)
     \<and> text_ok (sl_from_entity_id l) \<and> text_ok (sl_to_entity_id l) \<and> normalize_semantic_relation_type (sl_relation_type l) = Inr (sl_relation_type l)
     \<and> is_object (sl_metadata l) \<and> is_object (sl_provenance l)
     \<and> 0 \<le> sl_confidence l \<and> sl_confidence l \<le> 1
     \<and> normalize_semantic_record_status (sl_status l) = Inr (sl_status l)
     \<and> (sl_archived_at l = None \<or> sl_status l = ''archived'')"

abbreviation same_source :: "semantic_source \<Rightarrow> semantic_source \<Rightarrow> bool" where
  "same_source s s' \<equiv> eq_ignore_ascii_case (sc_source_uri s) (sc_source_uri s')"

abbreviation same_object :: "semantic_object \<Rightarrow> semantic_object \<Rightarrow> bool" where
  "same_object ob ob' \<equiv> eq_ignore_ascii_case (go_object_key ob) (go_object_key ob')"

interpretation sources: keyed_records sc_id sc_archived_at same_source good_source
  by unfold_locales (simp add: eq_ignore_ascii_case_def)

interpretation objects_kept: keyed_records go_id so_archived_at same_object good_object
  by unfold_locales (simp add: eq_ignore_ascii_case_def)

interpretation links: keyed_records sl_id sl_archived_at same_link good_link
  by unfold_locales (auto simp: same_link_def eq_ignore_ascii_case_def)

section \<open>The memory\<close>

text \<open>
  The tables are well formed, and an object that names a source names one there is. An archived source stays
  in its table, so a reference never dangles.
\<close>

definition source_kept :: "semantic_source table \<Rightarrow> semantic_object \<Rightarrow> bool" where
  "source_kept t ob \<longleftrightarrow> (case so_source_id ob of None \<Rightarrow> True | Some source_id \<Rightarrow> source_id \<in> fst ` set t)"

lemma source_kept_put: "source_kept t ob \<Longrightarrow> source_kept (tput i s t) ob"
  by (auto simp: source_kept_def dom_update split: option.splits)

definition memory_ok :: "world \<Rightarrow> bool" where
  "memory_ok w \<longleftrightarrow>
     table_ok sc_id sc_archived_at same_source good_source (semantic_sources w)
     \<and> table_ok go_id so_archived_at same_object good_object (semantic_objects w)
     \<and> table_ok sl_id sl_archived_at same_link good_link (semantic_links w)
     \<and> (\<forall>(i, ob) \<in> set (semantic_objects w). source_kept (semantic_sources w) ob)"

definition same_memory :: "world \<Rightarrow> world \<Rightarrow> bool" where
  "same_memory w w' \<longleftrightarrow> semantic_sources w' = semantic_sources w \<and> semantic_objects w' = semantic_objects w
     \<and> semantic_links w' = semantic_links w"

lemma same_memory_ok: "same_memory w w' \<Longrightarrow> memory_ok w \<Longrightarrow> memory_ok w'"
  by (simp add: same_memory_def memory_ok_def)

lemma memory_parts:
  assumes "memory_ok w"
  shows "table_ok sc_id sc_archived_at same_source good_source (semantic_sources w)"
    "table_ok go_id so_archived_at same_object good_object (semantic_objects w)"
    "table_ok sl_id sl_archived_at same_link good_link (semantic_links w)"
  using assms by (simp_all add: memory_ok_def)

text \<open>One table changes.\<close>

lemma sources_change:
  assumes "memory_ok w" and "table_ok sc_id sc_archived_at same_source good_source (tput i s (semantic_sources w))"
    and "semantic_sources w' = tput i s (semantic_sources w)" "semantic_objects w' = semantic_objects w"
      "semantic_links w' = semantic_links w"
  shows "memory_ok w'"
  using assms unfolding memory_ok_def by (auto intro: source_kept_put)

lemma objects_change:
  assumes "memory_ok w" and "table_ok go_id so_archived_at same_object good_object (tput i ob (semantic_objects w))"
    and "semantic_objects w' = tput i ob (semantic_objects w)" "semantic_sources w' = semantic_sources w"
      "semantic_links w' = semantic_links w"
    and "source_kept (semantic_sources w) ob"
  shows "memory_ok w'"
proof -
  have "distinct (map fst (semantic_objects w))" using assms(1) by (simp add: memory_ok_def table_ok_def)
  with assms show ?thesis unfolding memory_ok_def by (simp add: set_of_put)
qed

lemma links_change:
  assumes "memory_ok w" and "table_ok sl_id sl_archived_at same_link good_link (tput i l (semantic_links w))"
    and "semantic_links w' = tput i l (semantic_links w)" "semantic_sources w' = semantic_sources w"
      "semantic_objects w' = semantic_objects w"
  shows "memory_ok w'"
  using assms unfolding memory_ok_def by simp

lemma memory_after:
  assumes "memory_ok w" and "\<And>e w'. m w = (Inl e, w') \<Longrightarrow> same_memory w w'"
    and "\<And>x w'. m w = (Inr x, w') \<Longrightarrow> memory_ok w'"
  shows "memory_ok (snd (m w))"
proof (cases "m w")
  case (Pair r w')
  with assms same_memory_ok show ?thesis by (cases r) auto
qed

text \<open>An operation that fails leaves the memory as it was.\<close>

lemmas memory_steps = bindS_eq_Inl bindS_eq_Inr eff_simps now_utc_def new_v4_def

lemma failures_change_nothing:
  "update_semantic_source S i b w = (Inl e, w') \<Longrightarrow> same_memory w w'"
  "archive_semantic_source S i w = (Inl e, w') \<Longrightarrow> same_memory w w'"
  "update_semantic_object S i d w = (Inl e, w') \<Longrightarrow> same_memory w w'"
  "archive_semantic_object S i w = (Inl e, w') \<Longrightarrow> same_memory w w'"
  "update_semantic_link S i g w = (Inl e, w') \<Longrightarrow> same_memory w w'"
  "archive_semantic_link S i w = (Inl e, w') \<Longrightarrow> same_memory w w'"
  unfolding create_semantic_source_def update_semantic_source_def archive_semantic_source_def
    create_semantic_object_def update_semantic_object_def archive_semantic_object_def
    create_semantic_link_def update_semantic_link_def archive_semantic_link_def
    get_semantic_source_def get_semantic_object_def get_semantic_link_def prepare_semantic_object_def
    source_uri_of_object_def same_memory_def
  by (auto simp: memory_steps admit_semantic_source_def insert_semantic_source_def admit_semantic_object_def
      insert_semantic_object_def admit_semantic_link_def insert_semantic_link_def
      split: if_splits option.splits prod.splits)

section \<open>Records made and changed\<close>

lemma updated_fields:
  "updated given (\<lambda>t. normalize_required_text t label) old = Inr s \<Longrightarrow> text_ok old \<Longrightarrow> text_ok s"
  "updated value (\<lambda>v. validate_json_object v label) was = Inr u \<Longrightarrow> is_object was \<Longrightarrow> is_object u"
  "updated given normalize_semantic_source_status old = Inr s \<Longrightarrow>
     normalize_semantic_source_status old = Inr old \<Longrightarrow> normalize_semantic_source_status s = Inr s"
  "updated given normalize_semantic_trust_level old = Inr s \<Longrightarrow>
     normalize_semantic_trust_level old = Inr old \<Longrightarrow> normalize_semantic_trust_level s = Inr s"
  "updated given normalize_semantic_freshness old = Inr s \<Longrightarrow>
     normalize_semantic_freshness old = Inr old \<Longrightarrow> normalize_semantic_freshness s = Inr s"
  "updated given normalize_semantic_record_status old = Inr s \<Longrightarrow>
     normalize_semantic_record_status old = Inr old \<Longrightarrow> normalize_semantic_record_status s = Inr s"
  by (auto simp: updated_eq_Inr intro: required_text tokens_stable dest: object_value)

lemma updated_confidence:
  "updated given validate_semantic_confidence old = Inr c \<Longrightarrow> 0 \<le> old \<and> old \<le> 1 \<Longrightarrow> 0 \<le> c \<and> c \<le> 1"
  by (auto simp: updated_eq_Inr validate_semantic_confidence_def split: if_splits)

lemma updated_uri:
  "updated given (\<lambda>uri. transposer (map_option (\<lambda>t. normalize_required_text t label) uri)) old = Inr uri \<Longrightarrow>
     pred_option text_ok old \<Longrightarrow> pred_option text_ok uri"
  by (auto simp: updated_eq_Inr transposer_def bindr_eq_Inr split: option.splits; erule required_text)

lemma changed_source:
  assumes "changed_semantic_source input s = Inr s'" and "good_source s" and "sc_archived_at s = None"
  shows "good_source s' \<and> sc_id s' = sc_id s \<and> sc_archived_at s' = None \<and> sc_source_uri s' = sc_source_uri s"
proof -
  obtain d ot oi m p f st where made: "s' = s\<lparr>sc_display_name := d, sc_owner_type := ot, sc_owner_id := oi,
       sc_metadata := m, sc_provenance := p, sc_freshness := f, sc_status := st,
       sc_last_ingested_at := unwrap_or (uc_last_ingested_at input) (sc_last_ingested_at s)\<rparr>"
    and u: "updated (uc_display_name input) (\<lambda>t. normalize_required_text t ''semantic display_name'')
        (sc_display_name s) = Inr d"
      "updated (uc_metadata input) (\<lambda>v. validate_json_object v ''semantic source metadata'') (sc_metadata s) = Inr m"
      "updated (uc_provenance input) (\<lambda>v. validate_json_object v ''semantic source provenance'')
        (sc_provenance s) = Inr p"
      "updated (uc_freshness input) (\<lambda>v. validate_json_object v ''semantic source freshness'')
        (sc_freshness s) = Inr f"
      "updated (uc_status input) normalize_semantic_source_status (sc_status s) = Inr st"
    and owner: "\<exists>t i. normalize_semantic_source_owner t i = Inr (ot, oi)"
    using assms(1) unfolding changed_semantic_source_def
    by (simp only: bindr_eq_Inr split_paired_Ex prod.case sum.inject; elim exE conjE; blast)
  from owner have owner: "normalize_semantic_source_owner ot oi = Inr (ot, oi)" by (auto intro: owner_stable)
  note old = assms(2) [unfolded good_source_def]
  have "text_ok d" "is_object m" "is_object p" "is_object f" "normalize_semantic_source_status st = Inr st"
    using u(1) [THEN updated_fields(1)] u(2-4) [THEN updated_fields(2)] u(5) [THEN updated_fields(3)] old by blast+
  with made owner old assms(3) show ?thesis by (simp add: good_source_def)
qed

lemma changed_object:
  assumes "changed_semantic_object input ob = Inr ob'" and "good_object ob" and "so_archived_at ob = None"
  shows "good_object ob' \<and> go_id ob' = go_id ob \<and> so_archived_at ob' = None \<and> go_object_key ob' = go_object_key ob
    \<and> so_source_id ob' = so_source_id ob"
  using assms(1) [unfolded changed_semantic_object_def bindr_eq_Inr] assms(2) [unfolded good_object_def] assms(3)
  by (elim exE conjE) (drule updated_fields updated_uri, assumption,
      (drule updated_fields updated_uri, assumption)+, auto simp: good_object_def)

lemma changed_link:
  assumes "changed_semantic_link input l = Inr l'" and "good_link l" and "sl_archived_at l = None"
  shows "good_link l' \<and> sl_id l' = sl_id l \<and> sl_archived_at l' = None \<and> same_link k l' = same_link k l"
  using assms(1) [unfolded changed_semantic_link_def bindr_eq_Inr] assms(2) [unfolded good_link_def] assms(3)
  by (elim exE conjE) (drule updated_fields, assumption, drule updated_fields, assumption,
      drule updated_confidence, simp, drule updated_fields, assumption, auto simp: good_link_def same_link_def)

section \<open>Operations keep the memory\<close>

lemma touched_good [simp]:
  "good_source (s\<lparr>sc_updated_at := n\<rparr>) = good_source s"
  "good_object (ob\<lparr>so_updated_at := n\<rparr>) = good_object ob"
  "good_link (l\<lparr>sl_updated_at := n\<rparr>) = good_link l"
  by (simp_all add: good_source_def good_object_def good_link_def)

lemma live_source: "get_semantic_source i w = (Inr s, w') \<longleftrightarrow>
    w' = w \<and> tget (semantic_sources w) i = Some s \<and> sc_archived_at s = None"
  by (auto simp: get_semantic_source_def eff_simps opt_filter_eq_Some)

lemma live_object: "get_semantic_object i w = (Inr ob, w') \<longleftrightarrow>
    w' = w \<and> tget (semantic_objects w) i = Some ob \<and> so_archived_at ob = None"
  by (auto simp: get_semantic_object_def eff_simps opt_filter_eq_Some)

lemma live_link: "get_semantic_link i w = (Inr l, w') \<longleftrightarrow>
    w' = w \<and> tget (semantic_links w) i = Some l \<and> sl_archived_at l = None"
  by (auto simp: get_semantic_link_def eff_simps opt_filter_eq_Some)

lemma admit_source_ok:
  assumes "memory_ok w" and "good_source s"
  shows "memory_ok (snd (admit_semantic_source s w))"
  using assms sources.admitted_ok [OF memory_parts(1) [OF assms(1)] assms(2)]
  by (auto simp: admit_semantic_source_def insert_semantic_source_def intro: sources_change)

lemma admit_object_ok:
  assumes "memory_ok w" and "good_object ob" and "source_kept (semantic_sources w) ob"
  shows "memory_ok (snd (admit_semantic_object ob w))"
  using assms objects_kept.admitted_ok [OF memory_parts(2) [OF assms(1)] assms(2)]
  by (auto simp: admit_semantic_object_def insert_semantic_object_def intro: objects_change)

lemma admit_link_ok:
  assumes "memory_ok w" and "good_link l"
  shows "memory_ok (snd (admit_semantic_link l w))"
  using assms links.admitted_ok [OF memory_parts(3) [OF assms(1)] assms(2)]
  by (auto simp: admit_semantic_link_def insert_semantic_link_def intro: links_change)

text \<open>A live record is replaced by one that is well formed and has its id and its key, or is archived.\<close>

lemma replace_source_ok:
  assumes "memory_ok w" and "tget (semantic_sources w) i = Some s" and "sc_archived_at s = None"
    and "sc_id s' = sc_id s" "good_source s'" "sc_source_uri s' = sc_source_uri s"
  shows "memory_ok (w\<lparr>ticks := n, semantic_sources := tput (sc_id s') s' (semantic_sources w)\<rparr>)"
  by (rule sources_change [OF assms(1)], rule sources.changed_ok [OF memory_parts(1) [OF assms(1)] assms(2-5)])
    (simp_all add: assms(6))

lemma replace_object_ok:
  assumes "memory_ok w" and "tget (semantic_objects w) i = Some ob" and "so_archived_at ob = None"
    and "go_id ob' = go_id ob" "good_object ob'" "go_object_key ob' = go_object_key ob" "so_source_id ob' = so_source_id ob"
  shows "memory_ok (w\<lparr>ticks := n, semantic_objects := tput (go_id ob') ob' (semantic_objects w)\<rparr>)"
proof (rule objects_change [OF assms(1)])
  show "table_ok go_id so_archived_at same_object good_object (tput (go_id ob') ob' (semantic_objects w))"
    by (rule objects_kept.changed_ok [OF memory_parts(2) [OF assms(1)] assms(2-5)]) (simp add: assms(6))
  have "source_kept (semantic_sources w) ob"
    using assms(1,2) unfolding memory_ok_def by (auto dest!: map_of_SomeD)
  then show "source_kept (semantic_sources w) ob'" by (simp add: source_kept_def assms(7))
qed simp_all

lemma replace_link_ok:
  assumes "memory_ok w" and "tget (semantic_links w) i = Some l" and "sl_archived_at l = None"
    and "sl_id l' = sl_id l" "good_link l'" "\<And>k. same_link k l' = same_link k l"
  shows "memory_ok (w\<lparr>ticks := n, semantic_links := tput (sl_id l') l' (semantic_links w)\<rparr>)"
  by (rule links_change [OF assms(1)], rule links.changed_ok [OF memory_parts(3) [OF assms(1)] assms(2-5)])
    (simp_all add: assms(6))

lemma update_source_ok: "memory_ok w \<Longrightarrow> memory_ok (snd (update_semantic_source S i b w))"
proof (rule memory_after, assumption, erule failures_change_nothing)
  fix x w' assume ok: "memory_ok w" and "update_semantic_source S i b w = (Inr x, w')"
  then obtain s s' now where s: "tget (semantic_sources w) i = Some s" "sc_archived_at s = None"
    and c: "changed_semantic_source b s = Inr s'"
    and w': "w' = w\<lparr>ticks := Suc (ticks w), semantic_sources := tput (sc_id s') (s'\<lparr>sc_updated_at := now\<rparr>) (semantic_sources w)\<rparr>"
    by (auto simp: update_semantic_source_def effs_Inr live_source now_utc_def insert_semantic_source_def)
  have "good_source s" using sources.stored_good [OF memory_parts(1) [OF ok] s(1)] by simp
  note c = changed_source [OF c this s(2)]
  show "memory_ok w'"
    using replace_source_ok [OF ok s, of "s'\<lparr>sc_updated_at := now\<rparr>"] c by (simp add: w')
qed

lemma archive_source_ok: "memory_ok w \<Longrightarrow> memory_ok (snd (archive_semantic_source S i w))"
proof (rule memory_after, assumption, erule failures_change_nothing)
  fix x w' assume ok: "memory_ok w" and "archive_semantic_source S i w = (Inr x, w')"
  then obtain s now where s: "tget (semantic_sources w) i = Some s" "sc_archived_at s = None"
    and w': "w' = w\<lparr>ticks := Suc (ticks w), semantic_sources := tput (sc_id s)
      (s\<lparr>sc_status := ''archived'', sc_updated_at := now, sc_archived_at := Some now\<rparr>) (semantic_sources w)\<rparr>"
    by (auto simp: archive_semantic_source_def effs_Inr live_source now_utc_def insert_semantic_source_def)
  have "good_source s" using sources.stored_good [OF memory_parts(1) [OF ok] s(1)] by simp
  then show "memory_ok w'"
    using replace_source_ok [OF ok s, of "s\<lparr>sc_status := ''archived'', sc_updated_at := now, sc_archived_at := Some now\<rparr>"]
    by (simp add: w' good_source_def archived_is_status)
qed

lemma update_object_ok: "memory_ok w \<Longrightarrow> memory_ok (snd (update_semantic_object S i b w))"
proof (rule memory_after, assumption, erule failures_change_nothing)
  fix x w' assume ok: "memory_ok w" and "update_semantic_object S i b w = (Inr x, w')"
  then obtain ob ob' now where ob: "tget (semantic_objects w) i = Some ob" "so_archived_at ob = None"
    and c: "changed_semantic_object b ob = Inr ob'"
    and w': "w' = w\<lparr>ticks := Suc (ticks w), semantic_objects := tput (go_id ob') (ob'\<lparr>so_updated_at := now\<rparr>) (semantic_objects w)\<rparr>"
    by (auto simp: update_semantic_object_def effs_Inr live_object now_utc_def insert_semantic_object_def)
  have "good_object ob" using objects_kept.stored_good [OF memory_parts(2) [OF ok] ob(1)] by simp
  note c = changed_object [OF c this ob(2)]
  show "memory_ok w'"
    using replace_object_ok [OF ok ob, of "ob'\<lparr>so_updated_at := now\<rparr>"] c by (simp add: w')
qed

lemma archive_object_ok: "memory_ok w \<Longrightarrow> memory_ok (snd (archive_semantic_object S i w))"
proof (rule memory_after, assumption, erule failures_change_nothing)
  fix x w' assume ok: "memory_ok w" and "archive_semantic_object S i w = (Inr x, w')"
  then obtain ob now where ob: "tget (semantic_objects w) i = Some ob" "so_archived_at ob = None"
    and w': "w' = w\<lparr>ticks := Suc (ticks w), semantic_objects := tput (go_id ob)
      (ob\<lparr>so_status := ''archived'', so_updated_at := now, so_archived_at := Some now\<rparr>) (semantic_objects w)\<rparr>"
    by (auto simp: archive_semantic_object_def effs_Inr live_object now_utc_def insert_semantic_object_def)
  have "good_object ob" using objects_kept.stored_good [OF memory_parts(2) [OF ok] ob(1)] by simp
  then show "memory_ok w'"
    using replace_object_ok [OF ok ob, of "ob\<lparr>so_status := ''archived'', so_updated_at := now, so_archived_at := Some now\<rparr>"]
    by (simp add: w' good_object_def archived_is_status)
qed

lemma update_link_ok: "memory_ok w \<Longrightarrow> memory_ok (snd (update_semantic_link S i b w))"
proof (rule memory_after, assumption, erule failures_change_nothing)
  fix x w' assume ok: "memory_ok w" and "update_semantic_link S i b w = (Inr x, w')"
  then obtain l l' now where l: "tget (semantic_links w) i = Some l" "sl_archived_at l = None"
    and c: "changed_semantic_link b l = Inr l'"
    and w': "w' = w\<lparr>ticks := Suc (ticks w), semantic_links := tput (sl_id l') (l'\<lparr>sl_updated_at := now\<rparr>) (semantic_links w)\<rparr>"
    by (auto simp: update_semantic_link_def effs_Inr live_link now_utc_def insert_semantic_link_def)
  have "good_link l" using links.stored_good [OF memory_parts(3) [OF ok] l(1)] by simp
  note c = changed_link [OF c this l(2)]
  show "memory_ok w'"
    using replace_link_ok [OF ok l, of "l'\<lparr>sl_updated_at := now\<rparr>"] c by (simp add: w' same_link_def)
qed

lemma archive_link_ok: "memory_ok w \<Longrightarrow> memory_ok (snd (archive_semantic_link S i w))"
proof (rule memory_after, assumption, erule failures_change_nothing)
  fix x w' assume ok: "memory_ok w" and "archive_semantic_link S i w = (Inr x, w')"
  then obtain l now where l: "tget (semantic_links w) i = Some l" "sl_archived_at l = None"
    and w': "w' = w\<lparr>ticks := Suc (ticks w), semantic_links := tput (sl_id l)
      (l\<lparr>sl_status := ''archived'', sl_updated_at := now, sl_archived_at := Some now\<rparr>) (semantic_links w)\<rparr>"
    by (auto simp: archive_semantic_link_def effs_Inr live_link now_utc_def insert_semantic_link_def)
  have "good_link l" using links.stored_good [OF memory_parts(3) [OF ok] l(1)] by simp
  then show "memory_ok w'"
    using replace_link_ok [OF ok l, of "l\<lparr>sl_status := ''archived'', sl_updated_at := now, sl_archived_at := Some now\<rparr>"]
    by (simp add: w' good_link_def archived_is_status same_link_def)
qed

text \<open>Creating: the checks make a well-formed record, which is then admitted.\<close>

lemma after_bind:
  assumes "memory_ok (snd (m w))" and "\<And>x w'. m w = (Inr x, w') \<Longrightarrow> memory_ok (snd (f x w'))"
  shows "memory_ok (snd (bindS m f w))"
  using assms by (auto simp: bindS_def split: prod.splits sum.splits)

lemma ticked_ok [simp]: "memory_ok (w\<lparr>ticks := n\<rparr>) = memory_ok w" "memory_ok (w\<lparr>uuids := n\<rparr>) = memory_ok w"
  by (simp_all add: memory_ok_def)

lemma after_now: "(\<And>x n. memory_ok (snd (f x (w\<lparr>ticks := n\<rparr>)))) \<Longrightarrow> memory_ok (snd (bindS (now_utc S) f w))"
  by (simp add: bindS_def now_utc_def)

lemma after_id: "(\<And>x n. memory_ok (snd (f x (w\<lparr>uuids := n\<rparr>)))) \<Longrightarrow> memory_ok (snd (bindS (new_v4 S) f w))"
  by (simp add: bindS_def new_v4_def)

lemma after_check:
  "memory_ok w \<Longrightarrow> (\<And>x. r = Inr x \<Longrightarrow> memory_ok (snd (f x w))) \<Longrightarrow> memory_ok (snd (bindS (liftS r) f w))"
  by (auto simp: bindS_def liftS_def split: sum.splits)

lemmas after_ticking = after_now after_id after_check

lemmas checked_fields = required_text tokens_stable relation_token_stable owner_stable object_value [THEN conjunct2]


lemma create_link_ok: "memory_ok w \<Longrightarrow> memory_ok (snd (create_semantic_link S f w))"
  unfolding create_semantic_link_def
  by ((rule after_ticking)+, simp, simp only: bindr_eq_Inr, elim exE conjE, rule admit_link_ok, simp,
      clarsimp simp: good_link_def validate_semantic_confidence_def split: if_splits, intro conjI)
    (erule checked_fields)+

lemma create_source_ok: "memory_ok w \<Longrightarrow> memory_ok (snd (create_semantic_source S a w))"
  unfolding create_semantic_source_def
  by ((rule after_ticking)+, simp, simp only: split_paired_all prod.case, (rule after_ticking)+, simp,
      simp only: bindr_eq_Inr, elim exE conjE, rule admit_source_ok, simp, clarsimp simp: good_source_def,
      intro conjI) (erule checked_fields)+

lemma source_of_object:
  assumes "memory_ok w"
  shows "snd (source_uri_of_object input w) = w"
    "fst (source_uri_of_object input w) = Inr uri \<Longrightarrow> pred_option text_ok uri
       \<and> (case no_source_id input of None \<Rightarrow> True | Some i \<Rightarrow> i \<in> fst ` set (semantic_sources w))"
proof -
  show "snd (source_uri_of_object input w) = w"
    by (auto simp: source_uri_of_object_def get_semantic_source_def bindS_def eff_simps split: option.splits sum.splits)
  assume uri: "fst (source_uri_of_object input w) = Inr uri"
  show "pred_option text_ok uri
       \<and> (case no_source_id input of None \<Rightarrow> True | Some i \<Rightarrow> i \<in> fst ` set (semantic_sources w))"
  proof (cases "no_source_id input")
    case None
    with uri obtain u v l where "uri = Some u" "normalize_required_text v l = Inr u"
      by (auto simp: source_uri_of_object_def eff_simps bindr_eq_Inr split: option.splits)
    with None show ?thesis by (simp add: required_text)
  next
    case (Some i)
    with uri obtain s where s: "tget (semantic_sources w) i = Some s"
      and u: "uri = Some (unwrap_or (Option.bind (no_source_uri input) normalize_optional_text) (sc_source_uri s))"
      by (auto simp: source_uri_of_object_def get_semantic_source_def bindS_def eff_simps
          opt_filter_def ok_or_def split: option.splits sum.splits if_splits)
    have "text_ok (sc_source_uri s)"
      using sources.stored_good [OF memory_parts(1) [OF assms] s] by (simp add: good_source_def)
    then have "pred_option text_ok uri"
      by (cases "Option.bind (no_source_uri input) normalize_optional_text")
        (auto simp: u unwrap_or_def bind_eq_Some_conv dest: optional_text)
    with Some s show ?thesis by (force dest: map_of_SomeD)
  qed
qed

lemma prepared_object:
  assumes "memory_ok w" and "prepare_semantic_object S a w = (Inr ob, w')"
  shows "memory_ok w' \<and> good_object ob \<and> source_kept (semantic_sources w') ob"
proof -
  from assms(2) obtain uri w1 where uri: "source_uri_of_object a w = (Inr uri, w1)"
    unfolding prepare_semantic_object_def by (auto simp: effs_Inr)
  note known = source_of_object [OF assms(1), of a, unfolded uri fst_conv snd_conv]
  have w1: "w1 = w" by (rule known)
  have fields: "pred_option text_ok uri"
    "case no_source_id a of None \<Rightarrow> True | Some i \<Rightarrow> i \<in> fst ` set (semantic_sources w)"
    using known(2) by simp_all
  from assms(2) show ?thesis
    unfolding prepare_semantic_object_def
    by (simp only: effs_Inr uri w1 prod.inject sum.inject ex_simps simp_thms bindr_eq_Inr now_utc_def new_v4_def)
      (clarsimp simp: good_object_def source_kept_def fields assms(1), intro conjI; erule checked_fields)
qed

lemma create_object_ok:
  assumes "memory_ok w"
  shows "memory_ok (snd (create_semantic_object S a w))"
  unfolding create_semantic_object_def
proof (rule after_bind)
  show "memory_ok (snd (prepare_semantic_object S a w))"
    unfolding prepare_semantic_object_def
  proof (rule after_bind)
    show "memory_ok (snd (source_uri_of_object a w))" by (simp add: source_of_object [OF assms] assms)
    fix uri w' assume "source_uri_of_object a w = (Inr uri, w')"
    with source_of_object(1) [OF assms, of a] have "w' = w" by simp
    with assms have "memory_ok w'" by simp
    then show "memory_ok (snd (bindS (now_utc S) (\<lambda>now. bindS (new_v4 S) (\<lambda>i. liftS (r now i))) w'))" for r
      by (intro after_now) (simp add: bindS_def new_v4_def eff_simps)
  qed
  fix ob w' assume "prepare_semantic_object S a w = (Inr ob, w')"
  with prepared_object [OF assms] show "memory_ok (snd (admit_semantic_object ob w'))"
    by (blast intro: admit_object_ok)
qed

section \<open>The proposals of an onboarding run\<close>

text \<open>Objects of different keys, none of them the key of a live object, are admitted together.\<close>

lemma all_admitted_ok:
  assumes "table_ok go_id so_archived_at same_object good_object t"
    and "\<forall>ob \<in> set obs. good_object ob" and "distinct (map (\<lambda>ob. to_ascii_lowercase (go_object_key ob)) obs)"
    and "\<forall>ob \<in> set obs. \<not> list_ex (\<lambda>(i, y). so_archived_at y = None \<and> same_object y ob) t"
  shows "table_ok go_id so_archived_at same_object good_object (fold (\<lambda>ob. tput (go_id ob) ob) obs t)"
  using assms
proof (induction obs arbitrary: t)
  case (Cons ob obs)
  let ?t = "tput (go_id ob) ob t"
  have ok: "table_ok go_id so_archived_at same_object good_object ?t"
    using Cons.prems by (intro objects_kept.admitted_ok) simp_all
  have set: "set ?t \<subseteq> insert (go_id ob, ob) (set t)"
    using set_of_put [of t "go_id ob" ob] Cons.prems(1) by (auto simp: table_ok_def)
  have "\<not> same_object ob ob'" if "ob' \<in> set obs" for ob'
    using that Cons.prems(3) by (force simp: eq_ignore_ascii_case_def)
  then have "\<forall>ob' \<in> set obs. \<not> list_ex (\<lambda>(i, y). so_archived_at y = None \<and> same_object y ob') ?t"
    using set Cons.prems(4) by (fastforce simp: list_ex_iff)
  with Cons.IH [OF ok] Cons.prems show ?case by simp
qed simp

lemma lowered_key [simp]: "eq_ignore_ascii_case k (to_ascii_lowercase l) = eq_ignore_ascii_case k l"
  by (auto simp: eq_ignore_ascii_case_def to_ascii_lowercase_def ascii_lower_def is_ascii_upper_def of_char_of)

lemma no_duplicates:
  "onboarding_duplicates_check w keys ids obs = Inr () \<Longrightarrow>
     distinct (map (\<lambda>ob. to_ascii_lowercase (go_object_key ob)) obs)
     \<and> (\<forall>ob \<in> set obs. to_ascii_lowercase (go_object_key ob) \<notin> keys
          \<and> \<not> list_ex (\<lambda>(i, y). so_archived_at y = None \<and> same_object y ob) (semantic_objects w))"
proof (induction obs arbitrary: keys ids)
  case (Cons ob obs)
  let ?key = "to_ascii_lowercase (go_object_key ob)"
  from Cons.prems have "?key \<notin> keys"
    and "\<not> list_ex (\<lambda>(i, y). so_archived_at y = None \<and> same_object y ob) (semantic_objects w)"
    and "onboarding_duplicates_check w (insert ?key keys) (insert (go_id ob) ids) obs = Inr ()"
    by (auto simp: Let_def split: if_splits)
  with Cons.IH [OF this(3)] show ?case by auto
qed simp

lemma put_objects:
  fixes t :: "semantic_object table"
  shows "snd ` set (fold (\<lambda>ob. tput (go_id ob) ob) obs t) \<subseteq> set obs \<union> snd ` set t"
proof (induction obs arbitrary: t)
  case (Cons ob obs)
  have "snd ` set (AList.update k v t) \<subseteq> insert v (snd ` set t)" for k :: uuid and v and t :: "semantic_object table"
    by (induction t) auto
  from this [of "go_id ob" ob t] Cons.IH [of "tput (go_id ob) ob t"] show ?case by simp blast
qed simp

lemma insert_run_ok:
  assumes "memory_ok w" and "\<forall>ob \<in> set obs. good_object ob \<and> source_kept (semantic_sources w) ob"
  shows "memory_ok (snd (insert_onboarding_run record obs entry w))"
proof (cases "onboarding_duplicates_check w {} {} obs")
  case (Inl e)
  with assms(1) show ?thesis by (simp add: insert_onboarding_run_def)
next
  case (Inr u)
  let ?t = "fold (\<lambda>ob. tput (go_id ob) ob) obs (semantic_objects w)"
  have apart: "distinct (map (\<lambda>ob. to_ascii_lowercase (go_object_key ob)) obs)"
    "\<forall>ob \<in> set obs. \<not> list_ex (\<lambda>(i, y). so_archived_at y = None \<and> same_object y ob) (semantic_objects w)"
    using no_duplicates [of w "{}" "{}" obs] Inr by auto
  have ok: "table_ok go_id so_archived_at same_object good_object ?t"
    using all_admitted_ok [OF memory_parts(2) [OF assms(1)] _ apart] assms(2) by blast
  have "source_kept (semantic_sources w) ob" if "(i, ob) \<in> set ?t" for i ob
  proof -
    from that put_objects [of obs "semantic_objects w"] have "ob \<in> set obs \<or> ob \<in> snd ` set (semantic_objects w)" by force
    with assms show ?thesis unfolding memory_ok_def by auto
  qed
  with ok assms(1) show ?thesis by (auto simp: insert_onboarding_run_def Inr memory_ok_def)
qed

lemma prepared_memory: "same_memory w (snd (prepare_semantic_object S a w))"
proof -
  have "snd (source_uri_of_object a w) = w"
    by (auto simp: source_uri_of_object_def get_semantic_source_def bindS_def eff_simps split: option.splits sum.splits)
  then show ?thesis
    unfolding prepare_semantic_object_def same_memory_def
    by (cases "source_uri_of_object a w") (auto simp: bindS_def now_utc_def new_v4_def eff_simps split: sum.splits)
qed

lemma prepared_objects:
  assumes "memory_ok w"
  shows "same_memory w (snd (mapS (prepare_semantic_object S) inputs w))
    \<and> (\<forall>obs w'. mapS (prepare_semantic_object S) inputs w = (Inr obs, w') \<longrightarrow>
        (\<forall>ob \<in> set obs. good_object ob \<and> source_kept (semantic_sources w) ob))"
  using assms
proof (induction inputs arbitrary: w)
  case Nil
  show ?case by (simp add: eff_simps same_memory_def)
next
  case (Cons a inputs)
  obtain r w1 where p: "prepare_semantic_object S a w = (r, w1)" by fastforce
  with prepared_memory [of w S a] have same: "same_memory w w1" by simp
  with Cons.prems have "memory_ok w1" by (rule same_memory_ok [rotated])
  note rest = Cons.IH [OF this]
  show ?case
  proof (cases r)
    case (Inl e)
    with p same show ?thesis by (simp add: bindS_def)
  next
    case (Inr ob)
    obtain q w2 where m: "mapS (prepare_semantic_object S) inputs w1 = (q, w2)" by fastforce
    note first = prepared_object [OF Cons.prems p [unfolded Inr]]
    from rest m same have "same_memory w w2" by (simp add: same_memory_def)
    with rest m p Inr same first show ?thesis
      by (cases q) (auto simp: bindS_def eff_simps same_memory_def)
  qed
qed

lemma create_run_ok:
  assumes "memory_ok w"
  shows "memory_ok (snd (create_ontology_onboarding_run S record inputs entry w))"
  unfolding create_ontology_onboarding_run_def
proof (rule after_bind)
  note P = prepared_objects [OF assms, of S inputs]
  show after: "memory_ok (snd (mapS (prepare_semantic_object S) inputs w))"
    using P assms by (blast intro: same_memory_ok)
  fix obs w' assume obs: "mapS (prepare_semantic_object S) inputs w = (Inr obs, w')"
  with P have "\<forall>ob \<in> set obs. good_object ob \<and> source_kept (semantic_sources w') ob"
    by (simp add: same_memory_def)
  moreover have "memory_ok w'" using after obs by simp
  ultimately show "memory_ok (snd (bindS (liftS (validate_ontology_onboarding_create (lib S) record obs entry))
      (\<lambda>_. insert_onboarding_run record obs entry) w'))"
    by (intro after_check insert_run_ok)
qed

text \<open>A refresh reads the memory and writes the run only.\<close>

lemma refresh_memory: "same_memory w (snd (refresh_ontology_onboarding_run_record S i w))"
  by (simp add: refresh_ontology_onboarding_run_record_def find_ontology_onboarding_run_record_def
      put_onboarding_run_def same_memory_def bindS_def thenS_def eff_simps now_utc_def Let_def
      split: option.split sum.split)

section \<open>The operations in any order\<close>

datatype memory_operation =
  Create_Source create_semantic_source | Update_Source uuid update_semantic_source | Archive_Source uuid
| Create_Object create_semantic_object | Update_Object uuid update_semantic_object | Archive_Object uuid
| Create_Link create_semantic_link | Update_Link uuid update_semantic_link | Archive_Link uuid
| Create_Run ontology_onboarding_run_record "create_semantic_object list" audit_log | Refresh_Run uuid

text \<open>The state after an operation, whether it succeeds or not.\<close>

fun perform :: "sys \<Rightarrow> memory_operation \<Rightarrow> world \<Rightarrow> world" where
  "perform S (Create_Source a) w = snd (create_semantic_source S a w)"
| "perform S (Update_Source i b) w = snd (update_semantic_source S i b w)"
| "perform S (Archive_Source i) w = snd (archive_semantic_source S i w)"
| "perform S (Create_Object c) w = snd (create_semantic_object S c w)"
| "perform S (Update_Object i d) w = snd (update_semantic_object S i d w)"
| "perform S (Archive_Object i) w = snd (archive_semantic_object S i w)"
| "perform S (Create_Link f) w = snd (create_semantic_link S f w)"
| "perform S (Update_Link i g) w = snd (update_semantic_link S i g w)"
| "perform S (Archive_Link i) w = snd (archive_semantic_link S i w)"
| "perform S (Create_Run record inputs entry) w = snd (create_ontology_onboarding_run S record inputs entry w)"
| "perform S (Refresh_Run i) w = snd (refresh_ontology_onboarding_run_record S i w)"

lemma perform_ok: "memory_ok w \<Longrightarrow> memory_ok (perform S op w)"
  by (cases op) (simp_all add: create_source_ok update_source_ok archive_source_ok create_object_ok
    update_object_ok archive_object_ok create_link_ok update_link_ok archive_link_ok create_run_ok
    same_memory_ok [OF refresh_memory])

text \<open>
  The rest of the program runs in between. It writes the three tables only through the operations above: no
  other function of the memory backend inserts into them or removes from them.
\<close>

inductive memory_step :: "sys \<Rightarrow> world \<Rightarrow> world \<Rightarrow> bool" for S where
  operation: "memory_step S w (perform S op w)"
| elsewhere: "same_memory w w' \<Longrightarrow> memory_step S w w'"

lemma steps_ok:
  assumes "(memory_step S)\<^sup>*\<^sup>* w w'" and "memory_ok w"
  shows "memory_ok w'"
  using assms by (induction rule: rtranclp_induct)
    (auto elim!: memory_step.cases intro: perform_ok same_memory_ok)

context keyed_records
begin

lemma live_values:
  assumes "table_ok idf archived same good t"
    and "xs = sort_key k (filter (\<lambda>x. archived x = None) (tvalues S w t))"
  shows "distinct xs" "x \<in> set xs \<Longrightarrow> good x" "x \<in> set xs \<Longrightarrow> y \<in> set xs \<Longrightarrow> same x y \<Longrightarrow> x = y"
proof -
  have t: "distinct (map fst t)" using assms(1) by (simp add: table_ok_def)
  have "idf x = i" if "(i, x) \<in> set t" for i x using assms(1) that unfolding table_ok_def by blast
  then have "inj_on snd (set t)" unfolding inj_on_def by (metis prod.collapse)
  with t have "distinct (map snd t)" by (simp add: distinct_map)
  then have "distinct (tvalues S w t)" by (simp add: tvalues_def distinct_map)
  then show "distinct xs" by (simp add: assms(2))
  have "snd ` set t \<supseteq> set xs" "\<And>x. x \<in> set xs \<Longrightarrow> archived x = None" by (auto simp: assms(2) set_tvalues)
  then have xs: "\<exists>i. (i, x) \<in> set t \<and> archived x = None" if "x \<in> set xs" for x using that by force
  then show "x \<in> set xs \<Longrightarrow> good x" using assms(1) unfolding table_ok_def by blast
  assume "x \<in> set xs" "y \<in> set xs" "same x y"
  with xs obtain i j where "(i, x) \<in> set t" "(j, y) \<in> set t" "archived x = None" "archived y = None" by blast
  moreover from this \<open>same x y\<close> have "i = j" using assms(1) unfolding table_ok_def by blast
  ultimately show "x = y" using t by (blast dest: eq_key_imp_eq_value)
qed

end

lemma distinct_keys:
  assumes "distinct xs" and "\<And>x y. x \<in> set xs \<Longrightarrow> y \<in> set xs \<Longrightarrow> eq_ignore_ascii_case (f x) (f y) \<Longrightarrow> x = y"
  shows "distinct (map (\<lambda>x. to_ascii_lowercase (f x)) xs)"
  using assms by (auto simp: distinct_map inj_on_def eq_ignore_ascii_case_def)

text \<open>
  C36. Semantic memory stays well formed. From empty tables, after any operations on sources, objects and
  links and any creation or refresh of an onboarding run, in any order, failing or not, with anything in between
  that leaves the three tables alone: no two listed sources have the same
  address and no two listed objects the same key, ignoring case, and no two listed links connect the same
  entities by the same relation; every listed record is well formed, so that each of its fields is one the
  checks would accept unchanged; and an object refers only to a source there is.
\<close>

theorem memory_stays_well_formed:
  assumes "(memory_step S)\<^sup>*\<^sup>* w w'"
    and "semantic_sources w = []" and "semantic_objects w = []" and "semantic_links w = []"
  shows "\<exists>ss obs ls. list_semantic_sources S w' = (Inr ss, w') \<and> list_semantic_objects S w' = (Inr obs, w')
    \<and> list_semantic_links S w' = (Inr ls, w')
    \<and> distinct (map (\<lambda>s. to_ascii_lowercase (sc_source_uri s)) ss)
    \<and> distinct (map (\<lambda>ob. to_ascii_lowercase (go_object_key ob)) obs)
    \<and> (\<forall>l \<in> set ls. \<forall>l' \<in> set ls. same_link l l' \<longrightarrow> l = l')
    \<and> (\<forall>s \<in> set ss. good_source s) \<and> (\<forall>l \<in> set ls. good_link l)
    \<and> (\<forall>ob \<in> set obs. good_object ob
         \<and> (\<forall>i. so_source_id ob = Some i \<longrightarrow> tget (semantic_sources w') i \<noteq> None))"
proof -
  have "memory_ok w" using assms(2-4) by (simp add: memory_ok_def table_ok_def)
  then have ok: "memory_ok w'" by (rule steps_ok [OF assms(1)])
  let ?ss = "sort_key sc_created_at (filter (\<lambda>s. sc_archived_at s = None) (tvalues S w' (semantic_sources w')))"
  let ?obs = "sort_key so_created_at (filter (\<lambda>ob. so_archived_at ob = None) (tvalues S w' (semantic_objects w')))"
  let ?ls = "sort_key sl_created_at (filter (\<lambda>l. sl_archived_at l = None) (tvalues S w' (semantic_links w')))"
  note s = sources.live_values [where k = sc_created_at and S = S and w = w', OF memory_parts(1) [OF ok] refl]
  note ob = objects_kept.live_values [where k = so_created_at and S = S and w = w', OF memory_parts(2) [OF ok] refl]
  note l = links.live_values [where k = sl_created_at and S = S and w = w', OF memory_parts(3) [OF ok] refl]
  have refs: "tget (semantic_sources w') i \<noteq> None" if "ob \<in> set ?obs" "so_source_id ob = Some i" for ob i
  proof -
    from that(1) obtain j where "(j, ob) \<in> set (semantic_objects w')" by (auto simp: set_tvalues)
    with ok have "source_kept (semantic_sources w') ob" unfolding memory_ok_def by blast
    with that(2) show ?thesis by (auto simp: source_kept_def map_of_eq_None_iff)
  qed
  have "list_semantic_sources S w' = (Inr ?ss, w')" "list_semantic_objects S w' = (Inr ?obs, w')"
      "list_semantic_links S w' = (Inr ?ls, w')"
    by (simp_all only: list_semantic_sources_def list_semantic_objects_def list_semantic_links_def eff_simps)
  moreover have "distinct (map (\<lambda>s. to_ascii_lowercase (sc_source_uri s)) ?ss)"
      "distinct (map (\<lambda>ob. to_ascii_lowercase (go_object_key ob)) ?obs)"
    using s(1,3) ob(1,3) by (intro distinct_keys; blast)+
  ultimately show ?thesis using s(2) ob(2) l(2,3) refs by blast
qed

text \<open>
  Of three objects, the second is refused since its key differs in case only; so is the first of two
  onboarding runs, which proposes an object with a key there is.
\<close>

definition new_object :: "string \<Rightarrow> create_semantic_object" where
  "new_object key = \<lparr>no_source_id = None, no_object_type = ''memory'', no_object_key = key, no_title = ''t'',
     no_summary = ''s'', no_content = JObj [], no_semantic_scopes = JObj [], no_source_uri = Some ''u'',
     no_provenance = JObj [], no_trust_level = ''unverified'', no_freshness = ''current'', no_status = ''active''\<rparr>"

definition new_run :: ontology_onboarding_run_record where
  "new_run = \<lparr>or_id = 3, or_industry = [], or_source_mode = [], or_domain_scope = [],
     or_source_dataset_manifest = Some [], or_source_profiles = Some [], or_status = ''pending_review'',
     or_dataset_count = 0, or_profile_count = 0, or_proposal_count = 1, or_approved_count = 0,
     or_materialized_count = 0, or_actor_subject = [], or_created_at = 0, or_updated_at = 0\<rparr>"

definition run_entry :: audit_log where
  "run_entry = \<lparr>al_id = 70, al_session_id = None, al_actor_type = [], al_actor_id = None,
     al_action = ''ontology_onboarding.demo_run_created'', al_resource_type = ''ontology_onboarding_run'',
     al_resource_id = Some 3, al_details = JNull, al_created_at = 0\<rparr>"

definition onboard :: "string \<Rightarrow> memory_operation" where
  "onboard key = Create_Run new_run [(new_object key)\<lparr>no_object_type := ''ontology_onboarding_proposal'',
     no_content := JObj [(''run_id'', JStr ''abc'')]\<rparr>] run_entry"

definition remembered :: world where
  "remembered = fold (perform sample_sys)
     (map (Create_Object \<circ> new_object) [''K'', ''k'', ''x''] @ map onboard [''X'', ''y'']) empty_world"

lemma remembered_keys: "map (\<lambda>(i, ob). go_object_key ob) (semantic_objects remembered) = [''K'', ''x'', ''y'']"
  by code_simp

lemma memory_stays_well_formed_witness:
  "\<exists>obs. list_semantic_objects sample_sys remembered = (Inr obs, remembered)
     \<and> distinct (map (\<lambda>ob. to_ascii_lowercase (go_object_key ob)) obs) \<and> (\<forall>ob \<in> set obs. good_object ob)"
proof -
  have "(memory_step sample_sys)\<^sup>*\<^sup>* w (fold (perform sample_sys) ops w)" for ops w
    by (induction ops arbitrary: w) (auto simp del: perform.simps intro: memory_step.operation converse_rtranclp_into_rtranclp)
  then have "(memory_step sample_sys)\<^sup>*\<^sup>* empty_world remembered" by (simp only: remembered_def)
  from memory_stays_well_formed [OF this] show ?thesis by (auto simp: empty_world_def)
qed

end
