(* ===== verification/Context_Packets.thy ===== *)
theory Context_Packets
  imports Handoffs
begin

text \<open>
  Context packets (context_packet_runtime.rs, semantic_synthesis_runtime.rs): what an agent is told and may
  look up in a session. A packet is built from the session, its agent version, its task grant and the
  semantic objects in scope; an agent then reads the packet, rendered within a budget, or asks for objects
  and links through tools that stay inside it.

  Of other subsystems, \<open>context_peers\<close> has the metadata of the ontology release that is active for a
  domain, the environment variables and the files of the project; profiles and environments come from
  \<open>handoff_peers\<close>.
\<close>

record context_peers =
  active_release_metadata :: "string \<Rightarrow> json option eff"
  env_var :: "string \<Rightarrow> string option"
  project_file_exists :: "string \<Rightarrow> bool"

section \<open>Scopes\<close>

definition merge_semantic_scopes :: "json \<Rightarrow> json \<Rightarrow> json" where
  "merge_semantic_scopes base override_scopes =
     JObj (foldl (\<lambda>m (key, v). obj_insert key v m) (unwrap_or (as_object base) [])
            (unwrap_or (as_object override_scopes) []))"

definition task_grant_effective_tools :: "agent_version \<Rightarrow> task_grant \<Rightarrow> string list" where
  "task_grant_effective_tools version grant =
     remdups_adj (sort (filter (\<lambda>tool. trim tool \<noteq> [] \<and> task_grant_allows_tool grant tool)
       (av_tools version @ av_tool_names version)))"

text \<open>Of the assignments of the session, the latest: \<open>max_by_key\<close> yields the last of the greatest.\<close>

definition effective_handoff_assignment_context :: "sys \<Rightarrow> uuid \<Rightarrow> agent_handoff_assignment option eff" where
  "effective_handoff_assignment_context S session_id =
     bindS (list_agent_handoff_assignments S (Some session_id)) (\<lambda>assignments.
     let found = sort_key ha_created_at (filter (\<lambda>a. ha_specialist_session_id a = session_id) assignments)
     in retS (if found = [] then None else Some (last found)))"

definition active_ontology_release_for_scopes :: "context_peers \<Rightarrow> json \<Rightarrow> json option eff" where
  "active_ontology_release_for_scopes C semantic_scopes =
     (case map_option trim (jget_str semantic_scopes ''domain_scope'') of
        None \<Rightarrow> retS None
      | Some scope \<Rightarrow>
          if scope = [] then retS None
          else bindS (active_release_metadata C scope) (\<lambda>release. retS (Some (unwrap_or release JNull))))"

text \<open>What a grant's memory scope lists under a key, and the trust it asks for.\<close>

definition scope_strings :: "json \<Rightarrow> string \<Rightarrow> string list" where
  "scope_strings memory_scope key = filter_map as_str (unwrap_or (jget_array memory_scope key) [])"

definition minimum_trust_level :: "json \<Rightarrow> string option" where
  "minimum_trust_level memory_scope =
     opt_filter (\<lambda>v. v \<noteq> []) (map_option trim (jget_str memory_scope ''minimum_trust_level''))"

definition memory_trust_rank :: "string \<Rightarrow> nat option" where
  "memory_trust_rank value =
     (let v = to_ascii_lowercase (trim value) in
      if v = ''none'' \<or> v = ''unverified'' then Some 0
      else if v = ''verified'' \<or> v = ''source_attested'' then Some 1
      else if v = ''human_verified'' then Some 2
      else if v = ''system_verified'' then Some 3
      else None)"

definition memory_trust_level_satisfies :: "string \<Rightarrow> string \<Rightarrow> bool" where
  "memory_trust_level_satisfies actual minimum =
     (case (memory_trust_rank actual, memory_trust_rank minimum) of
        (Some a, Some m) \<Rightarrow> m \<le> a
      | _ \<Rightarrow> actual = minimum)"

definition apply_task_grant_memory_scope_to_context_objects
    :: "ext \<Rightarrow> context_packet_semantic_object list \<Rightarrow> json \<Rightarrow> context_packet_semantic_object list" where
  "apply_task_grant_memory_scope_to_context_objects X objects memory_scope =
     (let types = scope_strings memory_scope ''allowed_object_types'';
          ids = scope_strings memory_scope ''allowed_object_ids'';
          filtered =
            filter (\<lambda>ob. is_none_or (minimum_trust_level memory_scope) (memory_trust_level_satisfies (go_trust_level ob)))
           (filter (\<lambda>ob. ids = [] \<or> show_uuid X (go_id ob) \<in> set ids)
           (filter (\<lambda>ob. types = [] \<or> go_object_type ob \<in> set types) objects))
      in case Option.bind (jget memory_scope ''max_objects'') as_u64 of
           Some max_objects \<Rightarrow> take (nat max_objects) filtered
         | None \<Rightarrow> filtered)"

definition task_grant_memory_scope_mode :: "json \<Rightarrow> string" where
  "task_grant_memory_scope_mode memory_scope =
     unwrap_or (opt_filter (\<lambda>v. v \<noteq> []) (map_option trim (jget_str memory_scope ''mode''))) ''snapshot_only''"

definition context_semantic_object_satisfies_memory_scope
    :: "ext \<Rightarrow> 'a context_packet_semantic_object_scheme \<Rightarrow> json \<Rightarrow> bool" where
  "context_semantic_object_satisfies_memory_scope X ob memory_scope \<longleftrightarrow>
     (let types = scope_strings memory_scope ''allowed_object_types'';
          ids = scope_strings memory_scope ''allowed_object_ids''
      in (types = [] \<or> go_object_type ob \<in> set types)
         \<and> (ids = [] \<or> show_uuid X (go_id ob) \<in> set ids)
         \<and> is_none_or (minimum_trust_level memory_scope) (memory_trust_level_satisfies (go_trust_level ob)))"

section \<open>Retrieval\<close>

definition context_packet_semantic_object_from_store_object
    :: "semantic_object \<Rightarrow> context_packet_semantic_object" where
  "context_packet_semantic_object_from_store_object ob =
     \<lparr>go_id = go_id ob, go_object_type = go_object_type ob, go_object_key = go_object_key ob,
      go_title = go_title ob, go_trust_level = go_trust_level ob, go_freshness = go_freshness ob,
      po_summary = so_summary ob, po_source_id = so_source_id ob, po_source_uri = so_source_uri ob,
      po_semantic_scopes = so_semantic_scopes ob, po_provenance = so_provenance ob\<rparr>"

record semantic_retrieval_backend_status =
  rb_backend :: string
  rb_backend_type :: string
  rb_status :: string
  rb_selected :: bool
  rb_effective :: bool
  rb_configured :: bool
  rb_required_env_vars :: "string list"
  rb_missing_env_vars :: "string list"
  rb_object_link_context_packet_required :: bool
  rb_blocking_reasons :: "string list"

record semantic_retrieval_backend_registry =
  rg_selected_backend :: string
  rg_effective_backend :: string
  rg_fail_closed :: bool
  rg_object_model_required :: bool
  rg_backends :: "semantic_retrieval_backend_status list"

definition retrieval_backend_specs :: "(string \<times> string \<times> string list \<times> string) list" where
  "retrieval_backend_specs =
     [(''scope_rank'', ''object_link_context_packet'', [], ''active''),
      (''pgvector'', ''vector'', [''MANDOFORGE_PGVECTOR_DSN''], ''reserved''),
      (''qdrant'', ''vector'', [''MANDOFORGE_QDRANT_URL''], ''reserved''),
      (''weaviate'', ''vector'', [''MANDOFORGE_WEAVIATE_URL''], ''reserved'')]"

definition retrieval_backend_status
    :: "(string \<Rightarrow> string option) \<Rightarrow> string \<Rightarrow> string \<times> string \<times> string list \<times> string \<Rightarrow>
        semantic_retrieval_backend_status" where
  "retrieval_backend_status lookup selected_backend = (\<lambda>(backend, backend_type, required, base_status).
     let missing = filter (\<lambda>key. lookup key = None) required;
         configured = (missing = []);
         selected = (selected_backend = backend)
     in \<lparr>rb_backend = backend, rb_backend_type = backend_type,
         rb_status = (if backend = ''scope_rank'' then ''active''
           else if configured then ''configured_reserved'' else base_status),
         rb_selected = selected, rb_effective = (backend = ''scope_rank''), rb_configured = configured,
         rb_required_env_vars = required, rb_missing_env_vars = missing,
         rb_object_link_context_packet_required = True,
         rb_blocking_reasons =
           (if backend = ''scope_rank'' then []
            else [''optional retrieval backend is reserved; scope_rank remains the executable semantic layer'']
              @ (if configured then [] else [''missing required env vars: '' @ join_with '', '' missing]))
           @ (if selected \<and> backend \<noteq> ''scope_rank''
              then [''selected backend is not enabled for context packet execution''] else [])\<rparr>)"

definition semantic_retrieval_backend_registry_from_lookup
    :: "(string \<Rightarrow> string option) \<Rightarrow> semantic_retrieval_backend_registry" where
  "semantic_retrieval_backend_registry_from_lookup lookup =
     (let selected_backend = unwrap_or (opt_filter (\<lambda>b. b \<noteq> [])
            (map_option (\<lambda>b. to_ascii_lowercase (trim b)) (lookup ''MANDOFORGE_SEMANTIC_RETRIEVAL_BACKEND'')))
            ''scope_rank'';
          known = selected_backend \<in> fst ` set retrieval_backend_specs
      in \<lparr>rg_selected_backend = selected_backend, rg_effective_backend = ''scope_rank'',
          rg_fail_closed = (selected_backend \<noteq> ''scope_rank''), rg_object_model_required = True,
          rg_backends = map (retrieval_backend_status lookup selected_backend) retrieval_backend_specs
            @ (if known then []
               else [\<lparr>rb_backend = selected_backend, rb_backend_type = ''unknown'', rb_status = ''blocked'',
                      rb_selected = True, rb_effective = False, rb_configured = False,
                      rb_required_env_vars = [], rb_missing_env_vars = [],
                      rb_object_link_context_packet_required = True,
                      rb_blocking_reasons =
                        [''unknown semantic retrieval backend selection; falling back to scope_rank'']\<rparr>])\<rparr>)"

definition semantic_object_rank :: "'a gate_object_scheme \<Rightarrow> int" where
  "semantic_object_rank ob =
     (if go_freshness ob = ''current'' then 30 else if go_freshness ob = ''unknown'' then 10
      else if go_freshness ob = ''stale'' then 5 else 0)
     + (if go_trust_level ob = ''system_verified'' then 30 else if go_trust_level ob = ''human_verified'' then 25
        else if go_trust_level ob = ''source_attested'' then 15
        else if go_trust_level ob = ''unverified'' then 5 else 0)"

definition semantic_object_scope_specificity :: "'a context_packet_semantic_object_scheme \<Rightarrow> json \<Rightarrow> int" where
  "semantic_object_scope_specificity ob semantic_scopes =
     (case (as_object (po_semantic_scopes ob), as_object semantic_scopes) of
        (Some object_scopes, Some context_scopes) \<Rightarrow>
          int (length (filter (\<lambda>(key, v). is_some_and (map_option trim (as_str v)) (\<lambda>scope. scope \<noteq> []
            \<and> is_some_and (Option.bind (map_of context_scopes key) as_str) (\<lambda>c. trim c = scope)))
            object_scopes))
      | _ \<Rightarrow> 0)"

text \<open>The highest rank first, then the most specific, then by key. (Sorting is stable.)\<close>

definition ranked_semantic_objects
    :: "json \<Rightarrow> context_packet_semantic_object list \<Rightarrow> context_packet_semantic_object list" where
  "ranked_semantic_objects semantic_scopes objects =
     sort_key (\<lambda>ob. - semantic_object_rank ob)
       (sort_key (\<lambda>ob. - semantic_object_scope_specificity ob semantic_scopes)
         (sort_key go_object_key objects))"

definition objects_in_scope :: "json \<Rightarrow> semantic_object list \<Rightarrow> context_packet_semantic_object list" where
  "objects_in_scope semantic_scopes objects =
     map context_packet_semantic_object_from_store_object
       (filter (\<lambda>ob. semantic_object_matches_scope ob semantic_scopes)
         (filter (\<lambda>ob. so_status ob = ''active'') objects))"

definition retrieve_context_packet_semantic_objects
    :: "sys \<Rightarrow> context_peers \<Rightarrow> json \<Rightarrow> context_packet_semantic_object list eff" where
  "retrieve_context_packet_semantic_objects S C semantic_scopes =
     (let registry = semantic_retrieval_backend_registry_from_lookup (env_var C) in
      if rg_effective_backend registry \<noteq> ''scope_rank''
      then failS (bad_request (''semantic retrieval backend '' @ rg_effective_backend registry
        @ '' is not executable; object/link/context packet scope_rank remains required''))
      else bindS (list_semantic_objects S) (\<lambda>objects.
        retS (take 12 (ranked_semantic_objects semantic_scopes (objects_in_scope semantic_scopes objects)))))"

section \<open>What a packet says about itself\<close>

definition context_source_ref :: "ext \<Rightarrow> string \<Rightarrow> uuid \<Rightarrow> string \<Rightarrow> context_packet_source_ref" where
  "context_source_ref X source_type source_id freshness =
     \<lparr>ps_source_type = source_type, ps_source_id = show_uuid X source_id, ps_freshness = freshness\<rparr>"

definition semantic_scope_keys :: "json \<Rightarrow> string list" where
  "semantic_scope_keys scopes = map fst (unwrap_or (as_object scopes) [])"

definition missing_semantic_scope_keys :: "json \<Rightarrow> string list" where
  "missing_semantic_scope_keys scopes =
     filter (\<lambda>key. is_none_or (jget_str scopes key) (\<lambda>v. trim v = []))
       (if jget scopes ''domain_scope'' \<noteq> None \<or> jget scopes ''share_policy'' \<noteq> None
        then [''domain_scope'', ''workflow_scope'', ''share_policy'']
        else [''project_scope'', ''repo_scope'', ''service_scope'', ''workflow_scope'', ''policy_scope'',
              ''memory_scope''])"

definition value_is_empty_object :: "json \<Rightarrow> bool" where
  "value_is_empty_object v \<longleftrightarrow> unwrap_or (as_object v) [] = []"

definition task_grant_context_authority :: "ext \<Rightarrow> task_grant \<Rightarrow> json" where
  "task_grant_context_authority X grant = mk_obj
     [(''task_grant_id'', jid X (tg_id grant)), (''workflow_run_id'', jid X (tg_workflow_run_id grant)),
      (''workflow_step_run_id'', jid_opt X (tg_workflow_step_run_id grant)),
      (''parent_grant_id'', jid_opt X (tg_parent_grant_id grant)), (''status'', JStr (tg_status grant)),
      (''risk_level'', JStr (tg_risk_level grant)), (''tool_scope'', tg_tool_scope grant),
      (''connector_scope'', tg_connector_scope grant), (''approval_policy'', tg_approval_policy grant),
      (''external_effects'', tg_external_effects grant),
      (''budgets'', mk_obj
        [(''max_turns'', jint_opt (tg_max_turns grant)), (''max_tool_calls'', jint_opt (tg_max_tool_calls grant)),
         (''max_runtime_seconds'', jint_opt (tg_max_runtime_seconds grant)),
         (''max_cost_usd_micros'', jint_opt (tg_max_cost_usd_micros grant)),
         (''turns_used'', JInt (tg_turns_used grant)), (''tool_calls_used'', JInt (tg_tool_calls_used grant)),
         (''cost_usd_micros_used'', JInt (tg_cost_usd_micros_used grant))])]"

definition context_packet_layer_projection
    :: "ext \<Rightarrow> session \<Rightarrow> agent_version \<Rightarrow> context_packet_runtime_profile option \<Rightarrow> workflow_run option \<Rightarrow>
        task_grant option \<Rightarrow> json option \<Rightarrow> json" where
  "context_packet_layer_projection X session version profile run grant release = mk_obj
     [(''work_surfaces'', mk_obj
        [(''source_event_id'', jid_opt X (Option.bind run wr_source_event_id)),
         (''source_schedule_id'', jid_opt X (Option.bind run wr_source_schedule_id))]),
      (''collaboration'', mk_obj
        [(''source_work_item_id'', jid_opt X (Option.bind run wr_source_work_item_id))]),
      (''manager_agent'', mk_obj
        [(''source_handoff_id'', jid_opt X (Option.bind grant tg_source_handoff_id)),
         (''issuer_subject'', jstr_opt (map_option tg_issuer_subject grant)),
         (''grantee_agent_id'', jid_opt X (Option.bind grant tg_grantee_agent_id))]),
      (''managed_runtime'', mk_obj
        [(''session_id'', jid X (se_id session)), (''agent_id'', jid X (se_agent_id session)),
         (''agent_version_id'', jid_opt X (se_agent_version_id session)),
         (''workflow_run_id'', jid_opt X (map_option wr_id run)),
         (''workflow_step_run_id'', jid_opt X (Option.bind grant tg_workflow_step_run_id))]),
      (''governance'', mk_obj
        [(''task_grant_id'', jid_opt X (map_option tg_id grant)),
         (''parent_grant_id'', jid_opt X (Option.bind grant tg_parent_grant_id)),
         (''policy_revision_id'', jid_opt X (Option.bind grant tg_policy_revision_id)),
         (''risk_level'', jstr_opt (map_option tg_risk_level grant))]),
      (''ontology_action_contract'', mk_obj [(''ontology_release'', unwrap_or release JNull)]),
      (''environment_scheduling'', mk_obj [(''environment_id'', jid_opt X (se_environment_id session))]),
      (''execution_substrate'', mk_obj
        [(''runtime_profile_id'', jid_opt X (map_option pp_id profile)),
         (''runtime_type'', jstr_opt (map_option pp_runtime_type profile)),
         (''provider'', JStr (av_provider version)), (''model'', JStr (av_model version)),
         (''tools'', json_strs (av_tools version))])]"

text \<open>The profile, where it comes from, and the result of looking it up.\<close>

definition resolve_context_packet_runtime_profile
    :: "handoff_peers \<Rightarrow> session \<Rightarrow> agent_version \<Rightarrow> agent_handoff_assignment option \<Rightarrow>
        (uuid \<times> string \<times> runtime_profile res) option eff" where
  "resolve_context_packet_runtime_profile H session version assignment =
     (let looked_up = (\<lambda>source profile_id.
            bindS (tryS (get_agent_runtime_profile H profile_id)) (\<lambda>p. retS (Some (profile_id, source, p))));
          of_version =
            (case Option.bind assignment ha_runtime_profile_id of
               Some profile_id \<Rightarrow> looked_up ''handoff'' profile_id
             | None \<Rightarrow>
                 (case av_runtime_profile_id version of
                    None \<Rightarrow> retS None
                  | Some profile_id \<Rightarrow>
                      if is_some_and (as_object (av_runtime_profile_snapshot version)) (\<lambda>m. m \<noteq> [])
                      then retS (Some (profile_id, ''agent_version_snapshot'',
                             (case runtime_profile_from_value H (av_runtime_profile_snapshot version) of
                                Inl error \<Rightarrow> Inl (bad_request
                                  (''agent version runtime profile snapshot is invalid: '' @ err_message error))
                              | Inr profile \<Rightarrow> Inr profile)))
                      else looked_up ''agent_version_profile_fallback'' profile_id))
      in case se_environment_id session of
           None \<Rightarrow> of_version
         | Some environment_id \<Rightarrow>
             bindS (handoff_environment_of H environment_id) (\<lambda>environment.
               case hv_runtime_profile_id environment of
                 Some profile_id \<Rightarrow> looked_up ''environment'' profile_id
               | None \<Rightarrow> of_version))"

definition context_packet_runtime_profile :: "runtime_profile \<Rightarrow> context_packet_runtime_profile" where
  "context_packet_runtime_profile profile =
     \<lparr>pp_id = rp_id profile, pp_name = rp_name profile, pp_runtime_type = rp_runtime_type profile,
      pp_remote_computer_required = rp_remote_computer_required profile, pp_status = rp_status profile\<rparr>"

definition build_context_policy_reminders :: "policy_config \<Rightarrow> agent_version \<Rightarrow> string list" where
  "build_context_policy_reminders policy version =
     (let tools = remdups_adj (sort (filter (\<lambda>tool. trim tool \<noteq> []) (av_tools version @ av_tool_names version)))
      in if tools = []
         then [''agent version '' @ show_int (av_version version)
                @ '' has no enabled tools; runtime actions should stay unavailable'']
         else map (\<lambda>tool. let d = evaluate_tool_for_agent_version policy tool version in
           tool @ '': '' @ td_decision d @ '' ('' @ td_risk_level d @ '') - '' @ td_reason d) tools)"

definition build_context_freshness_warnings
    :: "ext \<Rightarrow> agent \<Rightarrow> agent_version \<Rightarrow> json \<Rightarrow> (uuid \<times> string \<times> runtime_profile res) option \<Rightarrow> string option \<Rightarrow>
        string list" where
  "build_context_freshness_warnings X agent version scopes profile last_user_message =
     (let missing = missing_semantic_scope_keys scopes in
      (if missing = [] then [] else [''semantic_scopes missing required keys: '' @ join_with '', '' missing])
      @ (if value_is_empty_object (av_approval_policy version)
         then [''tool_policy is empty; runtime policy reminders are the only tool governance context''] else [])
      @ (if av_workflow_pack_ids version = []
         then [''no workflow_pack_ids are bound; domain workflow context is generic''] else [])
      @ (case profile of
           None \<Rightarrow> [''no runtime_profile_id is bound; execution may rely on provider or environment fallback'']
         | Some (profile_id, source, Inr p) \<Rightarrow>
             if rp_status p \<noteq> ''enabled''
             then [''runtime profile '' @ rp_name p @ '' is '' @ rp_status p
                    @ ''; execution should fail closed until enabled'']
             else []
         | Some (profile_id, source, Inl error) \<Rightarrow>
             [''runtime profile '' @ show_uuid X profile_id @ '' is unavailable: '' @ err_message error])
      @ (if ag_release_state agent \<noteq> ''active''
         then [''agent release_state is '' @ ag_release_state agent
                @ ''; treat packet as non-production unless promoted'']
         else [])
      @ (if last_user_message = None
         then [''session has no user.message event; task context is based on the session title only''] else []))"

definition object_source_refs :: "ext \<Rightarrow> context_packet_semantic_object \<Rightarrow> context_packet_source_ref list" where
  "object_source_refs X ob =
     \<lparr>ps_source_type = ''semantic_object'', ps_source_id = show_uuid X (go_id ob),
      ps_freshness = go_freshness ob @ '':'' @ go_trust_level ob\<rparr>
     # (case po_source_id ob of None \<Rightarrow> []
        | Some source_id \<Rightarrow> [context_source_ref X ''semantic_source'' source_id (go_freshness ob)])"

definition build_context_packet_source_refs
    :: "ext \<Rightarrow> context_peers \<Rightarrow> session \<Rightarrow> agent \<Rightarrow> agent_version \<Rightarrow> (uuid \<times> string \<times> runtime_profile res) option \<Rightarrow>
        nat \<Rightarrow> context_packet_semantic_object list \<Rightarrow> agent_handoff_assignment option \<Rightarrow> task_grant option \<Rightarrow>
        context_packet_source_ref list" where
  "build_context_packet_source_refs X C session agent version profile event_count objects assignment grant =
     [context_source_ref X ''session'' (se_id session) ''current'',
      context_source_ref X ''agent'' (ag_id agent) (''release_state:'' @ ag_release_state agent),
      context_source_ref X ''agent_version'' (av_id version) (''version:'' @ show_int (av_version version)),
      \<lparr>ps_source_type = ''session_events'',
       ps_source_id = show_uuid X (se_id session) @ '':'' @ show_nat event_count, ps_freshness = ''current_snapshot''\<rparr>,
      \<lparr>ps_source_type = ''policy'', ps_source_id = ''runtime_policy'', ps_freshness = ''current''\<rparr>]
     @ (case profile of
          None \<Rightarrow> []
        | Some (profile_id, source, Inr p) \<Rightarrow>
            [context_source_ref X ''agent_runtime_profile'' (rp_id p)
              (''source:'' @ source @ '':status:'' @ rp_status p)]
        | Some (profile_id, source, Inl error) \<Rightarrow>
            [context_source_ref X ''agent_runtime_profile'' profile_id (''source:'' @ source @ '':unavailable'')])
     @ (case assignment of
          None \<Rightarrow> []
        | Some a \<Rightarrow>
            [context_source_ref X ''agent_handoff_assignment'' (ha_id a) (''status:'' @ ha_status a),
             context_source_ref X ''agent_handoff_event'' (ha_agent_handoff_event_id a) ''assignment_context''])
     @ (case grant of None \<Rightarrow> []
        | Some g \<Rightarrow> [context_source_ref X ''task_grant'' (tg_id g) (''status:'' @ tg_status g)])
     @ map (\<lambda>path. \<lparr>ps_source_type = ''repo_doc'', ps_source_id = path, ps_freshness = ''workspace_current''\<rparr>)
         (filter (project_file_exists C)
           [''AGENTS.md'', ''README.md'', ''docs/mandoforge-roadmap-v2.md'', ''tasks/todo.md''])
     @ concat (map (object_source_refs X) objects)"

end
