(* ===== verification/Context_Lookup.thy ===== *)
theory Context_Lookup
  imports Context_Packets
begin

text \<open>
  The packet of a session, built and stored; its rendering within a budget of tokens; and the tools by
  which an agent fetches and searches semantic objects and expands their links
  (context_packet_runtime.rs, semantic_synthesis_runtime.rs).
\<close>

section \<open>Building a packet\<close>

text \<open>The run and the grant a session works under. A grant that is not active ends the building.\<close>

definition context_grant :: "sys \<Rightarrow> uuid \<Rightarrow> (workflow_run \<times> task_grant) option eff" where
  "context_grant S session_id =
     bindS (active_task_grant_for_session S session_id) (\<lambda>found.
     case found of
       None \<Rightarrow> retS None
     | Some (run, grant) \<Rightarrow>
         if tg_status grant \<noteq> ''active''
         then thenS (record_task_grant_denied S session_id (Some grant) (Some (wr_id run)) ''context_packet''
                ''task grant is not active'')
                (failS (forbidden ''task grant is not active''))
         else retS (Some (run, grant)))"

definition context_scopes :: "json \<Rightarrow> agent_handoff_assignment option \<Rightarrow> task_grant option \<Rightarrow> json" where
  "context_scopes version_scopes assignment grant =
     (let base = (case assignment of None \<Rightarrow> version_scopes | Some a \<Rightarrow> ha_semantic_scopes a)
      in case grant of None \<Rightarrow> base | Some g \<Rightarrow> merge_semantic_scopes base (tg_semantic_scopes g))"

text \<open>The version of the agent as the grant narrows it.\<close>

definition context_agent_version :: "agent_version \<Rightarrow> task_grant option \<Rightarrow> agent_version" where
  "context_agent_version version grant =
     (case grant of None \<Rightarrow> version
      | Some g \<Rightarrow> let tools = task_grant_effective_tools version g
                  in version\<lparr>av_tools := tools, av_tool_names := tools\<rparr>)"

definition context_release
    :: "context_peers \<Rightarrow> workflow_run option \<Rightarrow> json \<Rightarrow> json option eff" where
  "context_release C run scopes =
     (case Option.bind run (\<lambda>r. jget (wr_runtime_envelope r) ''ontology_release'') of
        Some snapshot \<Rightarrow> retS (Some snapshot)
      | None \<Rightarrow> active_ontology_release_for_scopes C scopes)"

definition context_objects
    :: "sys \<Rightarrow> context_peers \<Rightarrow> uuid \<Rightarrow> json \<Rightarrow> task_grant option \<Rightarrow> context_packet_semantic_object list eff" where
  "context_objects S C session_id scopes grant =
     bindS (retrieve_context_packet_semantic_objects S C scopes) (\<lambda>objects.
     case grant of
       None \<Rightarrow> retS objects
     | Some g \<Rightarrow>
         thenS (record_task_grant_checked S g session_id ''context_packet'')
           (retS (apply_task_grant_memory_scope_to_context_objects (lib S) objects (tg_memory_scope g))))"

definition last_user_message :: "session_event list \<Rightarrow> string option" where
  "last_user_message es =
     Option.bind (find_first (\<lambda>e. ev_event_type e = ''user.message'') (rev es))
       (\<lambda>e. jget_str (ev_payload e) ''message'')"

definition pinned_source_refs
    :: "ext \<Rightarrow> workflow_run option \<Rightarrow> task_grant option \<Rightarrow> json option \<Rightarrow> context_packet_source_ref list" where
  "pinned_source_refs X run grant release =
     (case run of None \<Rightarrow> [] | Some r \<Rightarrow> [context_source_ref X ''workflow_run'' (wr_id r) ''pinned_snapshot''])
     @ (case Option.bind grant tg_workflow_step_run_id of None \<Rightarrow> []
        | Some step_id \<Rightarrow> [context_source_ref X ''workflow_step_run'' step_id ''task_grant_bound''])
     @ (case Option.bind release (\<lambda>r. jget_str r ''id'') of None \<Rightarrow> []
        | Some release_id \<Rightarrow>
            [\<lparr>ps_source_type = ''ontology_release'', ps_source_id = release_id, ps_freshness = ''pinned_snapshot''\<rparr>])"

definition context_task
    :: "ext \<Rightarrow> session \<Rightarrow> workflow_run option \<Rightarrow> task_grant option \<Rightarrow> session_event list \<Rightarrow> json" where
  "context_task X session run grant es = mk_obj
     [(''title'', JStr (se_title session)), (''status'', JStr (session_status_as_str (se_status session))),
      (''objective'', jstr_opt (map_option tg_objective grant)),
      (''workflow_run_id'', jid_opt X (map_option wr_id run)),
      (''workflow_step_run_id'', jid_opt X (Option.bind grant tg_workflow_step_run_id)),
      (''last_user_message'', jstr_opt (last_user_message es)), (''event_count'', json_nat (length es)),
      (''created_at'', JStr (show_time X (se_created_at session))),
      (''updated_at'', JStr (show_time X (se_updated_at session)))]"

definition context_tool_policy :: "agent_version \<Rightarrow> task_grant option \<Rightarrow> json" where
  "context_tool_policy version grant =
     (case grant of
        None \<Rightarrow> av_approval_policy version
      | Some g \<Rightarrow> mk_obj
          [(''agent_version_policy'', av_approval_policy version),
           (''task_grant_approval_policy'', tg_approval_policy g),
           (''task_grant_tool_scope'', tg_tool_scope g), (''task_grant_connector_scope'', tg_connector_scope g),
           (''task_grant_external_effects'', tg_external_effects g)])"

definition context_agent :: "agent \<Rightarrow> agent_version \<Rightarrow> task_grant option \<Rightarrow> context_packet_agent" where
  "context_agent agent version grant =
     \<lparr>pa_id = ag_id agent, pa_name = ag_name agent, pa_kind = ag_kind agent, pa_agent_role = ag_agent_role agent,
      pa_release_state = ag_release_state agent, pa_tools = av_tools (context_agent_version version grant),
      pa_mcp_server_ids = av_mcp_server_ids version, pa_skill_ids = av_skill_ids version,
      pa_workflow_pack_ids = av_workflow_pack_ids version,
      pa_remote_computer_profile = av_remote_computer_profile version\<rparr>"

definition context_replay_summary
    :: "ext \<Rightarrow> int \<Rightarrow> nat \<Rightarrow> nat \<Rightarrow> nat \<Rightarrow> nat \<Rightarrow> json \<Rightarrow> agent_handoff_assignment option \<Rightarrow> task_grant option \<Rightarrow>
        string option \<Rightarrow> json \<Rightarrow> json option \<Rightarrow> json" where
  "context_replay_summary X version refs objects reminders warnings scopes assignment grant source layers release =
     mk_obj
       ([(''version'', JInt version), (''source_ref_count'', json_nat refs),
         (''retrieved_object_count'', json_nat objects), (''policy_reminder_count'', json_nat reminders),
         (''freshness_warning_count'', json_nat warnings),
         (''semantic_scope_keys'', json_strs (semantic_scope_keys scopes)),
         (''effective_context_source'', JStr (if grant \<noteq> None then ''task_grant''
            else if assignment \<noteq> None then ''agent_handoff_assignment'' else ''agent_version'')),
         (''runtime_profile_source'', jstr_opt source),
         (''task_grant_authority'', json_opt (task_grant_context_authority X) grant),
         (''context_layers'', layers)]
        @ (case release of None \<Rightarrow> [] | Some r \<Rightarrow> [(''ontology_release'', r)]))"

definition build_context_packet
    :: "sys \<Rightarrow> handoff_peers \<Rightarrow> context_peers \<Rightarrow> policy_runtime \<Rightarrow> uuid \<Rightarrow> context_packet eff" where
  "build_context_packet S H C R session_id =
     (let X = lib S in
      bindS (get_session session_id) (\<lambda>session.
      bindS (context_grant S session_id) (\<lambda>found.
      let run = map_option fst found; grant = map_option snd found in
      bindS (get_agent S (se_agent_id session)) (\<lambda>agent.
      bindS (agent_version_for_session S session_id) (\<lambda>version.
      let narrowed = context_agent_version version grant in
      bindS (effective_handoff_assignment_context S session_id) (\<lambda>assignment.
      let scopes = context_scopes (av_semantic_scopes version) assignment grant in
      bindS (context_release C run scopes) (\<lambda>release.
      bindS (list_events session_id) (\<lambda>es.
      bindS (resolve_context_packet_runtime_profile H session version assignment) (\<lambda>profile.
      bindS (next_context_packet_version S session_id) (\<lambda>number.
      bindS (context_objects S C session_id scopes grant) (\<lambda>objects.
      bindS (now_utc S) (\<lambda>generated_at.
      bindS (new_v4 S) (\<lambda>i.
      let runtime = Option.bind profile (\<lambda>(profile_id, source, p).
            case p of Inl e \<Rightarrow> None | Inr p \<Rightarrow> Some (context_packet_runtime_profile p));
          refs = build_context_packet_source_refs X C session agent version profile (length es) objects assignment grant
                 @ pinned_source_refs X run grant release;
          warnings = build_context_freshness_warnings X agent narrowed scopes profile (last_user_message es);
          reminders = build_context_policy_reminders (policy_for_session R session_id) narrowed
      in retS
        \<lparr>cp_id = i, cp_session_id = session_id, cp_agent_id = ag_id agent,
         cp_agent_version_id = opt_or (se_agent_version_id session) (Some (av_id version)), cp_version = number,
         cp_generated_at = generated_at, cp_task = context_task X session run grant es,
         cp_agent = context_agent agent version grant, cp_runtime_profile = runtime, cp_semantic_scopes = scopes,
         cp_tool_policy = context_tool_policy version grant, cp_policy_reminders = reminders,
         cp_freshness_warnings = warnings, cp_source_refs = refs, cp_retrieved_objects = objects,
         cp_replay_summary = context_replay_summary X number (length refs) (length objects) (length reminders)
           (length warnings) scopes assignment grant (map_option (\<lambda>(_, source, _). source) profile)
           (context_packet_layer_projection X session narrowed runtime run grant release) release,
         cp_audit_trace_id = None, cp_created_at = generated_at\<rparr>)))))))))))))"

definition source_ref_json :: "context_packet_source_ref \<Rightarrow> json" where
  "source_ref_json r = mk_obj
     [(''source_type'', JStr (ps_source_type r)), (''source_id'', JStr (ps_source_id r)),
      (''freshness'', JStr (ps_freshness r))]"

definition context_packet_replay_details :: "ext \<Rightarrow> context_packet \<Rightarrow> json" where
  "context_packet_replay_details X packet = mk_obj
     [(''context_packet_id'', jid X (cp_id packet)), (''version'', JInt (cp_version packet)),
      (''agent_id'', jid X (cp_agent_id packet)), (''agent_version_id'', jid_opt X (cp_agent_version_id packet)),
      (''runtime_profile_id'', jid_opt X (map_option pp_id (cp_runtime_profile packet))),
      (''semantic_scope_keys'', json_strs (semantic_scope_keys (cp_semantic_scopes packet))),
      (''policy_reminder_count'', json_nat (length (cp_policy_reminders packet))),
      (''freshness_warning_count'', json_nat (length (cp_freshness_warnings packet))),
      (''source_ref_count'', json_nat (length (cp_source_refs packet))),
      (''retrieved_object_count'', json_nat (length (cp_retrieved_objects packet))),
      (''source_refs'', JArr (map source_ref_json (cp_source_refs packet))),
      (''retrieved_objects'', JArr (map (\<lambda>ob. mk_obj
         [(''id'', jid X (go_id ob)), (''object_type'', JStr (go_object_type ob)),
          (''object_key'', JStr (go_object_key ob)), (''title'', JStr (go_title ob)),
          (''trust_level'', JStr (go_trust_level ob)), (''freshness'', JStr (go_freshness ob)),
          (''source_id'', jid_opt X (po_source_id ob)), (''source_uri'', jstr_opt (po_source_uri ob))])
         (cp_retrieved_objects packet)))]"

text \<open>The packet as it is stored, recorded in the log of the session and bound to its audit entry.\<close>

definition persist_context_packet :: "sys \<Rightarrow> uuid \<Rightarrow> context_packet \<Rightarrow> context_packet eff" where
  "persist_context_packet S session_id packet =
     (let details = context_packet_replay_details (lib S) packet in
      bindS (create_context_packet packet) (\<lambda>_.
      bindS (append_event S ''system'' (Some (cp_id packet)) session_id ''context_packet.generated'' details) (\<lambda>_.
      bindS (new_audit_log S (Some session_id) ''system'' (Some (cp_id packet)) ''context_packet.generated''
               ''context_packet'' (Some (cp_id packet)) details) (\<lambda>entry.
      bindS (append_audit_log entry) (\<lambda>entry.
        update_context_packet_audit_trace (cp_id packet) (al_id entry))))))"

definition generate_context_packet
    :: "sys \<Rightarrow> handoff_peers \<Rightarrow> context_peers \<Rightarrow> policy_runtime \<Rightarrow> uuid \<Rightarrow> context_packet eff" where
  "generate_context_packet S H C R session_id =
     bindS (build_context_packet S H C R session_id) (persist_context_packet S session_id)"

section \<open>Rendering\<close>

definition bounded_render_budget :: "nat option \<Rightarrow> nat \<Rightarrow> nat \<Rightarrow> nat \<Rightarrow> nat" where
  "bounded_render_budget requested standard minimum maximum = min (max (unwrap_or requested standard) minimum) maximum"

text \<open>Characters of UTF-8 text, which begin at the bytes that do not continue one.\<close>

definition continues_char :: "char \<Rightarrow> bool" where
  "continues_char c \<longleftrightarrow> 128 \<le> byte c \<and> byte c < 192"

definition chars_count :: "string \<Rightarrow> nat" where
  "chars_count s = length (filter (\<lambda>c. \<not> continues_char c) s)"

fun take_chars :: "nat \<Rightarrow> string \<Rightarrow> string" where
  "take_chars n [] = []"
| "take_chars n (c # s) =
     (if continues_char c then c # take_chars n s
      else case n of 0 \<Rightarrow> [] | Suc m \<Rightarrow> c # take_chars m s)"

definition truncate_for_execution_context :: "string \<Rightarrow> nat \<Rightarrow> string" where
  "truncate_for_execution_context value max_chars =
     (if chars_count (trim value) \<le> max_chars then trim value
      else take_chars (max_chars - 3) (trim value) @ ''...'')"

definition estimate_tokens :: "string \<Rightarrow> nat" where
  "estimate_tokens value = max ((chars_count value + 3) div 4) 1"

definition estimate_rendered_context_base_tokens :: "ext \<Rightarrow> context_packet \<Rightarrow> string list \<Rightarrow> nat" where
  "estimate_rendered_context_base_tokens X packet must_follow =
     estimate_tokens (show_uuid X (cp_id packet) @ '' '' @ pa_agent_role (cp_agent packet) @ '' ''
       @ json_to_string X (cp_semantic_scopes packet) @ '' '' @ join_with '' '' must_follow)"

definition render_ontology_scope :: "json \<Rightarrow> json" where
  "render_ontology_scope semantic_scopes =
     JObj (filter (\<lambda>(key, v). drop (length key - 6) key = ''_scope'') (unwrap_or (as_object semantic_scopes) []))"

definition rendered_context_task_projection :: "context_packet \<Rightarrow> nat \<Rightarrow> json" where
  "rendered_context_task_projection packet max_summary_chars = mk_obj
     (filter_map (\<lambda>key. map_option (\<lambda>v. (key, JStr (truncate_for_execution_context v max_summary_chars)))
         (jget_str (cp_task packet) key)) [''title'', ''objective'']
      @ filter_map (\<lambda>key. map_option (Pair key) (opt_filter (\<lambda>v. v \<noteq> JNull) (jget (cp_task packet) key)))
         [''status'', ''workflow_run_id'', ''workflow_step_run_id''])"

fun compact_non_null_json :: "json \<Rightarrow> json option" where
  "compact_non_null_json JNull = None"
| "compact_non_null_json (JObj m) =
     Some (JObj (filter_map (\<lambda>(key, v). map_option (Pair key) v)
       (map (\<lambda>(key, v). (key, compact_non_null_json v)) m)))"
| "compact_non_null_json (JArr vs) = Some (JArr (filter_map (\<lambda>v. v) (map compact_non_null_json vs)))"
| "compact_non_null_json v = Some v"

definition remove_keys :: "string list \<Rightarrow> json \<Rightarrow> json" where
  "remove_keys keys v = (case v of JObj m \<Rightarrow> JObj (filter (\<lambda>(key, _). key \<notin> set keys) m) | _ \<Rightarrow> v)"

definition compact_rendered_context_layers :: "json \<Rightarrow> json" where
  "compact_rendered_context_layers layers =
     JObj (map (\<lambda>(name, layer). (name,
         remove_keys (if name = ''managed_runtime'' then [''session_id'', ''agent_id'']
                      else if name = ''execution_substrate'' then [''tools''] else [])
           (unwrap_or (compact_non_null_json layer) (JObj []))))
       (unwrap_or (as_object layers) []))"

definition rendered_semantic_object :: "nat \<Rightarrow> context_packet_semantic_object \<Rightarrow> rendered_semantic_object" where
  "rendered_semantic_object max_summary_chars ob =
     \<lparr>ro_id = go_id ob, ro_object_type = go_object_type ob, ro_object_key = go_object_key ob,
      ro_title = truncate_for_execution_context (go_title ob) max_summary_chars,
      ro_summary = truncate_for_execution_context (po_summary ob) max_summary_chars,
      ro_trust_level = go_trust_level ob, ro_freshness = go_freshness ob, ro_source_uri = po_source_uri ob\<rparr>"

definition object_tokens :: "rendered_semantic_object \<Rightarrow> nat" where
  "object_tokens r =
     estimate_tokens (ro_object_type r @ '' '' @ ro_object_key r @ '' '' @ ro_title r @ '' '' @ ro_summary r
       @ '' '' @ unwrap_or (ro_source_uri r) [])"

text \<open>The loop over the objects: what is rendered so far, the tokens used, and the objects left out.\<close>

record rendering =
  rd_objects :: "rendered_semantic_object list"
  rd_tokens :: nat
  rd_over_limit :: nat
  rd_over_budget :: nat

definition render_object
    :: "nat \<Rightarrow> nat \<Rightarrow> nat \<Rightarrow> context_packet_semantic_object \<Rightarrow> rendering \<Rightarrow> rendering" where
  "render_object max_tokens max_objects max_chars ob d =
     (if max_objects \<le> length (rd_objects d) then d\<lparr>rd_over_limit := rd_over_limit d + 1\<rparr>
      else let r = rendered_semantic_object max_chars ob in
        if rd_tokens d + object_tokens r > max_tokens then d\<lparr>rd_over_budget := rd_over_budget d + 1\<rparr>
        else d\<lparr>rd_tokens := rd_tokens d + object_tokens r, rd_objects := rd_objects d @ [r]\<rparr>)"

definition render_objects
    :: "nat \<Rightarrow> nat \<Rightarrow> nat \<Rightarrow> nat \<Rightarrow> context_packet_semantic_object list \<Rightarrow> rendering" where
  "render_objects max_tokens max_objects max_chars used objects =
     fold (render_object max_tokens max_objects max_chars) objects
       \<lparr>rd_objects = [], rd_tokens = used, rd_over_limit = 0, rd_over_budget = 0\<rparr>"

definition rendered_must_follow :: "context_packet \<Rightarrow> nat \<Rightarrow> string list" where
  "rendered_must_follow packet max_policy_reminders =
     (let reminders = take max_policy_reminders (cp_policy_reminders packet)
      in reminders @ map (\<lambda>warning. ''Freshness warning: '' @ warning)
           (take (max_policy_reminders - length reminders) (cp_freshness_warnings packet)))"

definition render_execution_context
    :: "ext \<Rightarrow> context_packet \<Rightarrow> render_context_packet_request \<Rightarrow> rendered_execution_context" where
  "render_execution_context X packet input =
     (let max_tokens = bounded_render_budget (rr_max_prompt_tokens input) 1500 256 8000;
          max_objects = bounded_render_budget (rr_max_objects input) 5 1 20;
          max_chars = bounded_render_budget (rr_max_summary_chars input) 280 32 1200;
          max_reminders = bounded_render_budget (rr_max_policy_reminders input) 3 0 12;
          on_demand = unwrap_or (rr_allow_on_demand_fetch input) True;
          task = rendered_context_task_projection packet max_chars;
          layers = (case jget (cp_replay_summary packet) ''context_layers'' of
             None \<Rightarrow> empty_json_object | Some v \<Rightarrow> compact_rendered_context_layers v);
          must_follow = rendered_must_follow packet max_reminders;
          objects = render_objects max_tokens max_objects max_chars
            (estimate_rendered_context_base_tokens X packet must_follow
             + estimate_tokens (json_to_string X task) + estimate_tokens (json_to_string X layers))
            (cp_retrieved_objects packet)
      in \<lparr>rx_context_packet_id = cp_id packet, rx_session_id = cp_session_id packet,
          rx_agent_id = cp_agent_id packet, rx_context_packet_version = cp_version packet, rx_task = task,
          rx_context_layers = layers, rx_ontology_scope = render_ontology_scope (cp_semantic_scopes packet),
          rx_role = pa_agent_role (cp_agent packet), rx_must_follow = must_follow,
          rx_relevant_objects = rd_objects objects,
          rx_fetchable_object_ids = (if on_demand then map go_id (cp_retrieved_objects packet) else []),
          rx_omitted = \<lparr>om_token_budget_exceeded = rd_over_budget objects,
            om_object_limit_exceeded = rd_over_limit objects,
            om_policy_reminders_omitted = length (cp_policy_reminders packet) - max_reminders,
            om_source_refs_not_rendered = length (cp_source_refs packet),
            om_full_content_not_rendered = length (cp_retrieved_objects packet)\<rparr>,
          rx_budget = \<lparr>bg_max_prompt_tokens = max_tokens, bg_estimated_tokens_used = rd_tokens objects,
            bg_max_objects = max_objects, bg_max_summary_chars = max_chars,
            bg_max_policy_reminders = max_reminders\<rparr>,
          rx_available_tools =
            (if on_demand then [''semantic_object.fetch'', ''semantic_object.search'', ''semantic_link.expand'',
               ''ontology_type.lookup''] else [])
            @ (if ''ontology.action.execute'' \<in> set (pa_tools (cp_agent packet))
               then [''ontology.action.execute''] else []),
          rx_full_content_included = False\<rparr>)"

definition render_execution_context_for_packet
    :: "sys \<Rightarrow> context_peers \<Rightarrow> context_packet \<Rightarrow> render_context_packet_request \<Rightarrow> rendered_execution_context eff" where
  "render_execution_context_for_packet S C packet input =
     (let rendered = render_execution_context (lib S) packet input in
      bindS (case jget (cp_replay_summary packet) ''ontology_release'' of
               Some snapshot \<Rightarrow> retS (Some snapshot)
             | None \<Rightarrow> active_ontology_release_for_scopes C (cp_semantic_scopes packet)) (\<lambda>release.
      retS (case release of
          None \<Rightarrow> rendered
        | Some metadata \<Rightarrow> rendered\<lparr>rx_ontology_scope :=
            JObj (obj_insert ''ontology_release'' metadata (unwrap_or (as_object (rx_ontology_scope rendered)) []))\<rparr>)))"

end
