(* ===== verification/Semantic_Tools.thy ===== *)
theory Semantic_Tools
  imports Context_Lookup
begin

text \<open>
  The tools by which an agent looks beyond its rendered packet (context_packet_runtime.rs): fetching an
  object, searching objects, expanding the links of an object. Each begins by finding the packet its
  arguments name, which must be one of the session and the one its task grant is bound to. The fourth,
  ontology_type.lookup, reads the registry of types that is compiled in and is not modelled.
\<close>

definition record_semantic_use :: "sys \<Rightarrow> context_packet \<Rightarrow> uuid \<Rightarrow> string \<Rightarrow> string \<Rightarrow> json \<Rightarrow> unit eff" where
  "record_semantic_use S packet resource_id event_type resource_type details =
     bindS (append_event S ''tool'' (Some resource_id) (cp_session_id packet) event_type details) (\<lambda>_.
       audit S (Some (cp_session_id packet)) ''tool'' (Some resource_id) event_type resource_type
         (Some resource_id) details)"

section \<open>Fetching\<close>

definition ensure_context_packet_allows_semantic_object :: "context_packet \<Rightarrow> uuid \<Rightarrow> unit res" where
  "ensure_context_packet_allows_semantic_object packet object_id =
     guardr (object_id \<in> go_id ` set (cp_retrieved_objects packet))
       (forbidden ''semantic object is not available in this context packet'')"

definition fetchable_object :: "bool \<Rightarrow> semantic_object \<Rightarrow> fetchable_semantic_object" where
  "fetchable_object include_content ob =
     \<lparr>go_id = go_id ob, go_object_type = go_object_type ob, go_object_key = go_object_key ob,
      go_title = go_title ob, go_trust_level = go_trust_level ob, go_freshness = go_freshness ob,
      fo_summary = so_summary ob, fo_content = (if include_content then Some (so_content ob) else None),
      fo_semantic_scopes = so_semantic_scopes ob, fo_source_uri = so_source_uri ob\<rparr>"

definition fetch_semantic_object_for_context
    :: "sys \<Rightarrow> context_packet \<Rightarrow> uuid \<Rightarrow> bool \<Rightarrow> fetch_semantic_object_response eff" where
  "fetch_semantic_object_for_context S packet object_id include_content =
     (let X = lib S in
      thenS (liftS (ensure_context_packet_allows_semantic_object packet object_id))
      (bindS (get_semantic_object object_id) (\<lambda>ob.
      let response = \<lparr>fr_context_packet_id = cp_id packet, fr_object = fetchable_object include_content ob,
            fr_content_included = include_content,
            fr_fetch_policy = mk_obj
              [(''boundary'', JStr ''context_packet''), (''context_packet_id'', jid X (cp_id packet)),
               (''allowed_by_retrieved_objects'', JBool True),
               (''full_content_requires_explicit_request'', JBool True)]\<rparr> in
      thenS (record_semantic_use S packet (go_id ob) ''semantic_object.fetched'' ''semantic_object''
        (mk_obj [(''context_packet_id'', jid X (cp_id packet)), (''context_packet_version'', JInt (cp_version packet)),
                 (''semantic_object_id'', jid X (go_id ob)), (''object_key'', JStr (go_object_key ob)),
                 (''content_included'', JBool include_content)]))
        (retS response))))"

section \<open>Searching\<close>

text \<open>What is searched: the packet, or with \<open>scoped_lookup\<close> what the grant's memory scope admits.\<close>

definition scoped_lookup_allowed :: "task_grant option \<Rightarrow> bool" where
  "scoped_lookup_allowed grant \<longleftrightarrow>
     is_some_and grant (\<lambda>g. task_grant_memory_scope_mode (tg_memory_scope g) = ''scoped_lookup'')"

definition search_candidates
    :: "sys \<Rightarrow> context_packet \<Rightarrow> task_grant option \<Rightarrow> context_packet_semantic_object list eff" where
  "search_candidates S packet grant =
     (if scoped_lookup_allowed grant
      then case grant of
          None \<Rightarrow> failS (forbidden ''semantic scoped lookup requires an active TaskGrant'')
        | Some g \<Rightarrow> bindS (list_semantic_objects S) (\<lambda>objects. retS
            (ranked_semantic_objects (cp_semantic_scopes packet)
              (filter (\<lambda>ob. context_semantic_object_satisfies_memory_scope (lib S) ob (tg_memory_scope g))
                (objects_in_scope (cp_semantic_scopes packet) objects))))
      else retS (cp_retrieved_objects packet))"

definition given_text :: "string option \<Rightarrow> string option" where
  "given_text t = opt_filter (\<lambda>v. v \<noteq> []) (map_option trim t)"

definition object_matches_query :: "string \<Rightarrow> context_packet_semantic_object \<Rightarrow> bool" where
  "object_matches_query query ob =
     list_ex (\<lambda>v. contains_text (to_ascii_lowercase query) (to_ascii_lowercase v))
       [go_object_type ob, go_object_key ob, go_title ob, po_summary ob]"

text \<open>A found object; unlike a rendered one it keeps its title whole.\<close>

definition found_object :: "context_packet_semantic_object \<Rightarrow> rendered_semantic_object" where
  "found_object ob =
     \<lparr>ro_id = go_id ob, ro_object_type = go_object_type ob, ro_object_key = go_object_key ob,
      ro_title = go_title ob, ro_summary = truncate_for_execution_context (po_summary ob) 280,
      ro_trust_level = go_trust_level ob, ro_freshness = go_freshness ob, ro_source_uri = po_source_uri ob\<rparr>"

definition search_semantic_objects_for_context
    :: "sys \<Rightarrow> context_packet \<Rightarrow> task_grant option \<Rightarrow> search_semantic_objects_request \<Rightarrow>
        search_semantic_objects_response eff" where
  "search_semantic_objects_for_context S packet grant input =
     (let X = lib S; max_results = min (max (unwrap_or (sq_max_results input) 10) 1) 25;
          query = given_text (sq_query input); object_type = given_text (sq_object_type input);
          boundary = (if scoped_lookup_allowed grant then ''task_grant_memory_scope'' else ''context_packet'') in
      thenS (guardS (sq_context_packet_id input = cp_id packet)
        (forbidden ''semantic search context_packet_id does not match the verified context packet''))
      (bindS (search_candidates S packet grant) (\<lambda>candidates.
      let matching = filter (\<lambda>ob. is_none_or query (\<lambda>q. object_matches_query q ob))
            (filter (\<lambda>ob. is_none_or object_type (\<lambda>t. go_object_type ob = t)) candidates);
          results = map found_object (take max_results matching);
          omitted = mk_obj
            [(''before_filter_count'', json_nat (length candidates)),
             (''matched_before_limit'', json_nat (length matching)), (''max_results'', json_nat max_results),
             (''scoped_lookup_allowed'', JBool (scoped_lookup_allowed grant))] in
      thenS (record_semantic_use S packet (cp_id packet) ''semantic_objects.searched'' ''context_packet''
        (mk_obj [(''context_packet_id'', jid X (cp_id packet)), (''context_packet_version'', JInt (cp_version packet)),
                 (''boundary'', JStr boundary), (''query'', jstr_opt query), (''object_type'', jstr_opt object_type),
                 (''result_count'', json_nat (length results)), (''result_ids'', jids X (map ro_id results)),
                 (''omitted'', omitted)]))
        (retS \<lparr>sp_context_packet_id = cp_id packet, sp_boundary = boundary, sp_query = query,
               sp_object_type = object_type, sp_results = results, sp_omitted = omitted\<rparr>))))"

section \<open>Links\<close>

definition link_touches :: "string \<Rightarrow> semantic_link \<Rightarrow> bool" where
  "link_touches object_id l \<longleftrightarrow>
     sl_from_entity_type l = ''semantic_object'' \<and> sl_from_entity_id l = object_id
     \<or> sl_to_entity_type l = ''semantic_object'' \<and> sl_to_entity_id l = object_id"

definition endpoints_allowed :: "ext \<Rightarrow> context_packet \<Rightarrow> semantic_link \<Rightarrow> bool" where
  "endpoints_allowed X packet l =
     list_all (\<lambda>i. i \<in> go_id ` set (cp_retrieved_objects packet))
       (filter_map (parse_uuid X) [sl_from_entity_id l, sl_to_entity_id l])"

definition touching_links :: "string \<Rightarrow> semantic_link list \<Rightarrow> semantic_link list" where
  "touching_links object_id links = filter (link_touches object_id) (filter (\<lambda>l. sl_status l = ''active'') links)"

definition related_links :: "string option \<Rightarrow> semantic_link list \<Rightarrow> semantic_link list" where
  "related_links relation_type links =
     filter (\<lambda>l. is_none_or relation_type (\<lambda>t. normalized_ontology_token (sl_relation_type l) = t)) links"

definition expand_semantic_links_for_context
    :: "sys \<Rightarrow> context_packet \<Rightarrow> expand_semantic_links_request \<Rightarrow> expand_semantic_links_response eff" where
  "expand_semantic_links_for_context S packet input =
     (let X = lib S; max_links = min (max (unwrap_or (lq_max_links input) 10) 1) 50;
          relation_type = opt_filter (\<lambda>v. v \<noteq> []) (map_option normalized_ontology_token (lq_relation_type input)) in
      thenS (liftS (ensure_context_packet_allows_semantic_object packet (lq_object_id input)))
      (bindS (list_semantic_links S) (\<lambda>links.
      let touching = touching_links (show_uuid X (lq_object_id input)) links;
          related = related_links relation_type touching;
          inside = filter (endpoints_allowed X packet) related;
          shown = take max_links inside;
          omitted = mk_obj
            [(''outside_context_packet'', json_nat (length related - length inside)),
             (''relation_type_filtered'', json_nat (length touching - length related)),
             (''max_links'', json_nat max_links)] in
      thenS (record_semantic_use S packet (lq_object_id input) ''semantic_links.expanded'' ''semantic_object''
        (mk_obj [(''context_packet_id'', jid X (cp_id packet)), (''context_packet_version'', JInt (cp_version packet)),
                 (''semantic_object_id'', jid X (lq_object_id input)), (''link_count'', json_nat (length shown)),
                 (''link_ids'', jids X (map sl_id shown)), (''omitted'', omitted)]))
        (retS \<lparr>lp_context_packet_id = cp_id packet, lp_object_id = lq_object_id input, lp_links = shown,
               lp_omitted = omitted\<rparr>))))"

section \<open>The tools\<close>

fun uuid_tool_arg :: "ext \<Rightarrow> json \<Rightarrow> string list \<Rightarrow> string \<Rightarrow> uuid res" where
  "uuid_tool_arg X args [] missing_message = Inl (bad_request missing_message)"
| "uuid_tool_arg X args (key # keys) missing_message =
     (case jget_str args key of
        Some v \<Rightarrow> ok_or (bad_request (key @ '' must be a UUID'')) (parse_uuid X v)
      | None \<Rightarrow> uuid_tool_arg X args keys missing_message)"

definition context_packet_and_grant_for_tool_invocation
    :: "sys \<Rightarrow> execute_tool \<Rightarrow> (context_packet \<times> task_grant option) eff" where
  "context_packet_and_grant_for_tool_invocation S input =
     bindS (liftS (uuid_tool_arg (lib S) (xt_args input) [''context_packet_id'']
              ''ontology tools require context_packet_id'')) (\<lambda>packet_id.
     bindS (get_context_packet packet_id) (\<lambda>packet.
     thenS (guardS (cp_session_id packet = xt_session_id input)
       (forbidden ''context_packet_id does not belong to this session''))
     (case xt_task_grant_id input of
        None \<Rightarrow> retS (packet, None)
      | Some grant_id \<Rightarrow>
          bindS (get_task_grant grant_id) (\<lambda>grant.
          case tg_context_packet_id grant of
            Some bound \<Rightarrow>
              if bound = cp_id packet then retS (packet, Some grant)
              else failS (forbidden ''context_packet_id is outside the active TaskGrant boundary'')
          | None \<Rightarrow> failS (forbidden ''ontology tools require a TaskGrant-bound context_packet_id'')))))"

definition context_packet_for_tool_invocation :: "sys \<Rightarrow> execute_tool \<Rightarrow> context_packet eff" where
  "context_packet_for_tool_invocation S input =
     bindS (context_packet_and_grant_for_tool_invocation S input) (\<lambda>(packet, _). retS packet)"

definition arg_nat :: "json \<Rightarrow> string \<Rightarrow> nat option" where
  "arg_nat args key = map_option nat (Option.bind (jget args key) as_u64)"

definition fetch_response_json :: "ext \<Rightarrow> fetch_semantic_object_response \<Rightarrow> json" where
  "fetch_response_json X response =
     (let ob = fr_object response in mk_obj
       [(''context_packet_id'', jid X (fr_context_packet_id response)),
        (''object'', mk_obj
          [(''id'', jid X (go_id ob)), (''object_type'', JStr (go_object_type ob)),
           (''object_key'', JStr (go_object_key ob)), (''title'', JStr (go_title ob)),
           (''summary'', JStr (fo_summary ob)), (''content'', unwrap_or (fo_content ob) JNull),
           (''semantic_scopes'', fo_semantic_scopes ob), (''source_uri'', jstr_opt (fo_source_uri ob)),
           (''trust_level'', JStr (go_trust_level ob)), (''freshness'', JStr (go_freshness ob))]),
        (''content_included'', JBool (fr_content_included response)),
        (''fetch_policy'', fr_fetch_policy response)])"

definition rendered_object_json :: "ext \<Rightarrow> rendered_semantic_object \<Rightarrow> json" where
  "rendered_object_json X r = mk_obj
     [(''id'', jid X (ro_id r)), (''object_type'', JStr (ro_object_type r)), (''object_key'', JStr (ro_object_key r)),
      (''title'', JStr (ro_title r)), (''summary'', JStr (ro_summary r)), (''trust_level'', JStr (ro_trust_level r)),
      (''freshness'', JStr (ro_freshness r)), (''source_uri'', jstr_opt (ro_source_uri r))]"

definition search_response_json :: "ext \<Rightarrow> search_semantic_objects_response \<Rightarrow> json" where
  "search_response_json X response = mk_obj
     [(''context_packet_id'', jid X (sp_context_packet_id response)), (''boundary'', JStr (sp_boundary response)),
      (''query'', jstr_opt (sp_query response)), (''object_type'', jstr_opt (sp_object_type response)),
      (''results'', JArr (map (rendered_object_json X) (sp_results response))), (''omitted'', sp_omitted response)]"

definition semantic_link_json :: "ext \<Rightarrow> semantic_link \<Rightarrow> json" where
  "semantic_link_json X l = mk_obj
     [(''id'', jid X (sl_id l)), (''from_entity_type'', JStr (sl_from_entity_type l)),
      (''from_entity_id'', JStr (sl_from_entity_id l)), (''relation_type'', JStr (sl_relation_type l)),
      (''to_entity_type'', JStr (sl_to_entity_type l)), (''to_entity_id'', JStr (sl_to_entity_id l)),
      (''metadata'', sl_metadata l), (''provenance'', sl_provenance l), (''confidence'', JFloat (sl_confidence l)),
      (''status'', JStr (sl_status l)), (''created_at'', JStr (show_time X (sl_created_at l))),
      (''updated_at'', JStr (show_time X (sl_updated_at l))), (''archived_at'', jtime_opt X (sl_archived_at l))]"

definition expand_response_json :: "ext \<Rightarrow> expand_semantic_links_response \<Rightarrow> json" where
  "expand_response_json X response = mk_obj
     [(''context_packet_id'', jid X (lp_context_packet_id response)), (''object_id'', jid X (lp_object_id response)),
      (''links'', JArr (map (semantic_link_json X) (lp_links response))), (''omitted'', lp_omitted response)]"

definition semantic_object_fetch_tool :: "sys \<Rightarrow> execute_tool \<Rightarrow> json eff" where
  "semantic_object_fetch_tool S input =
     bindS (context_packet_for_tool_invocation S input) (\<lambda>packet.
     bindS (liftS (uuid_tool_arg (lib S) (xt_args input) [''object_id'', ''semantic_object_id'', ''id'']
              ''semantic_object.fetch requires object_id'')) (\<lambda>object_id.
     bindS (fetch_semantic_object_for_context S packet object_id
              (unwrap_or (jget_bool (xt_args input) ''include_content'') False)) (\<lambda>response.
       retS (fetch_response_json (lib S) response))))"

definition semantic_object_search_tool :: "sys \<Rightarrow> execute_tool \<Rightarrow> json eff" where
  "semantic_object_search_tool S input =
     bindS (context_packet_and_grant_for_tool_invocation S input) (\<lambda>(packet, grant).
     bindS (search_semantic_objects_for_context S packet grant
        \<lparr>sq_context_packet_id = cp_id packet, sq_query = jget_str (xt_args input) ''query'',
         sq_object_type = jget_str (xt_args input) ''object_type'',
         sq_max_results = arg_nat (xt_args input) ''max_results''\<rparr>) (\<lambda>response.
       retS (search_response_json (lib S) response)))"

definition semantic_link_expand_tool :: "sys \<Rightarrow> execute_tool \<Rightarrow> json eff" where
  "semantic_link_expand_tool S input =
     bindS (context_packet_for_tool_invocation S input) (\<lambda>packet.
     bindS (liftS (uuid_tool_arg (lib S) (xt_args input) [''object_id'', ''semantic_object_id'', ''id'']
              ''semantic_link.expand requires object_id'')) (\<lambda>object_id.
     bindS (expand_semantic_links_for_context S packet
        \<lparr>lq_context_packet_id = cp_id packet, lq_object_id = object_id,
         lq_relation_type = jget_str (xt_args input) ''relation_type'',
         lq_max_links = arg_nat (xt_args input) ''max_links''\<rparr>) (\<lambda>response.
       retS (expand_response_json (lib S) response))))"

end
