(* ===== verification/Context_Preservation.thy ===== *)
theory Context_Preservation
  imports Semantic_Tools Handoff_Preservation Footprint
begin

text \<open>
  A relation between states that the atomic operations keep is kept by the building, recording and
  rendering of context packets and by the semantic tools. With it, the packets of the code's model take the
  place of the parameter \<open>generate_and_persist_context_packet\<close> of the workflow runtime.
\<close>

definition context_peers_respect :: "(world \<Rightarrow> world \<Rightarrow> bool) \<Rightarrow> context_peers \<Rightarrow> bool" where
  "context_peers_respect R C \<longleftrightarrow> (\<forall>d. keeps R (active_release_metadata C d))"

locale context_relation = store_relation R S P
  for R :: "world \<Rightarrow> world \<Rightarrow> bool" and S :: sys and P :: peers +
  fixes H :: handoff_peers and C :: context_peers
  assumes packet_keeps:
      "\<And>p. keeps R (create_context_packet p)"
      "\<And>i a. keeps R (update_context_packet_audit_trace i a)"
    and context_neighbours: "handoff_peers_respect R H" "context_peers_respect R C"
begin

lemma context_readers:
  "keeps R (list_semantic_objects S)" "keeps R (get_semantic_object i)" "keeps R (list_semantic_links S)"
  "keeps R (get_context_packet i)" "keeps R (next_context_packet_version S i)"
  "keeps R (list_agent_handoff_assignments S si)" "keeps R (list_events i)"
  "keeps R (agent_version_for_session S i)"
  unfolding list_semantic_objects_def get_semantic_object_def list_semantic_links_def get_context_packet_def
    next_context_packet_version_def list_agent_handoff_assignments_def list_events_def
    agent_version_for_session_def
  by (intro ops4)+

lemma context_neighbour_ops:
  "keeps R (get_agent_runtime_profile H i)" "keeps R (handoff_environment_of H i)"
  "keeps R (active_release_metadata C d)"
  using context_neighbours by (simp_all add: handoff_peers_respect_def context_peers_respect_def)

lemma try_keeps: "keeps R m \<Longrightarrow> keeps R (tryS m)"
  by (simp add: keeps_def tryS_def split: prod.splits) (metis snd_conv)

lemmas context_ops = ops4 active_grant_keeps context_readers context_neighbour_ops packet_keeps try_keeps

lemma context_grant_keeps: "keeps R (context_grant S i)"
  unfolding context_grant_def by (intro context_ops)

lemma context_parts_keep:
  "keeps R (effective_handoff_assignment_context S i)" "keeps R (active_ontology_release_for_scopes C v)"
  "keeps R (retrieve_context_packet_semantic_objects S C v)"
  "keeps R (resolve_context_packet_runtime_profile H se av a)"
  unfolding effective_handoff_assignment_context_def active_ontology_release_for_scopes_def
    retrieve_context_packet_semantic_objects_def resolve_context_packet_runtime_profile_def Let_def
  by (intro context_ops)+

lemmas context_ops2 = context_ops context_grant_keeps context_parts_keep

lemma context_release_keeps: "keeps R (context_release C run v)"
  unfolding context_release_def by (intro context_ops2)

lemma context_objects_keep: "keeps R (context_objects S C i v g)"
  unfolding context_objects_def by (intro context_ops2)

lemma build_keeps: "keeps R (build_context_packet S H C p i)"
  unfolding build_context_packet_def Let_def
  by (intro context_ops2 context_release_keeps context_objects_keep)

lemma generate_keeps: "keeps R (generate_context_packet S H C p i)"
  unfolding generate_context_packet_def persist_context_packet_def new_audit_log_def Let_def
  by (intro context_ops2 build_keeps)

lemma generated_id_keeps:
  "keeps R (bindS (generate_context_packet S H C p i) (\<lambda>packet. retS (cp_id packet)))"
  by (intro context_ops2 generate_keeps)

lemma render_keeps: "keeps R (render_execution_context_for_packet S C p x)"
  unfolding render_execution_context_for_packet_def Let_def by (intro context_ops2)

lemma use_keeps:
  "keeps R (fetch_semantic_object_for_context S p i b)" "keeps R (search_semantic_objects_for_context S p g x)"
  "keeps R (expand_semantic_links_for_context S p y)"
  unfolding fetch_semantic_object_for_context_def search_semantic_objects_for_context_def search_candidates_def
    expand_semantic_links_for_context_def record_semantic_use_def Let_def
  by (intro context_ops2)+

lemma tools_keep:
  "keeps R (semantic_object_fetch_tool S x)" "keeps R (semantic_object_search_tool S x)"
  "keeps R (semantic_link_expand_tool S x)"
  unfolding semantic_object_fetch_tool_def semantic_object_search_tool_def semantic_link_expand_tool_def
    context_packet_for_tool_invocation_def context_packet_and_grant_for_tool_invocation_def
  by (intro context_ops2 use_keeps)+

end

section \<open>The runtime with its packets\<close>

definition with_context_packets
    :: "sys \<Rightarrow> handoff_peers \<Rightarrow> context_peers \<Rightarrow> policy_runtime \<Rightarrow> peers \<Rightarrow> peers" where
  "with_context_packets S H C p P = P\<lparr>generate_and_persist_context_packet :=
     (\<lambda>i. bindS (generate_context_packet S H C p i) (\<lambda>packet. retS (cp_id packet)))\<rparr>"

lemma with_context_packets_respects:
  assumes "peers_respect R P" and "context_relation R S P H C"
  shows "peers_respect R (with_context_packets S H C p P)"
proof -
  have "keeps R (bindS (generate_context_packet S H C p i) (\<lambda>packet. retS (cp_id packet)))" for i
    by (rule context_relation.generated_id_keeps [OF assms(2)])
  with assms(1) show ?thesis by (simp add: peers_respect_def with_context_packets_def)
qed

end
