(* ===== verification/Context_Rules.thy ===== *)
theory Context_Rules
  imports Context_Preservation Gate_Rules Tool_Checks "HOL-Library.Sublist"
begin

text \<open>
  What an agent can come to know: which semantic objects enter the packet of a session, what the tools show
  beyond it, and how much of it is rendered.
\<close>

section \<open>Memory scopes\<close>

text \<open>The two ways the code filters by a memory scope are one.\<close>

lemma memory_scope_filter:
  "apply_task_grant_memory_scope_to_context_objects X objects scope =
     (let allowed = filter (\<lambda>ob. context_semantic_object_satisfies_memory_scope X ob scope) objects
      in case Option.bind (jget scope ''max_objects'') as_u64 of Some n \<Rightarrow> take (nat n) allowed | None \<Rightarrow> allowed)"
  unfolding apply_task_grant_memory_scope_to_context_objects_def context_semantic_object_satisfies_memory_scope_def
    Let_def filter_filter
  by (rule arg_cong2 [where f = "\<lambda>xs. case_option xs (\<lambda>n. take (nat n) xs)"])
    (auto intro: filter_cong)

lemma allowed_objects:
  assumes "ob \<in> set (apply_task_grant_memory_scope_to_context_objects X objects scope)"
  shows "ob \<in> set objects" "context_semantic_object_satisfies_memory_scope X ob scope"
  using assms by (auto simp: memory_scope_filter Let_def dest!: in_set_takeD split: option.splits)

lemma allowed_count:
  "length (apply_task_grant_memory_scope_to_context_objects X objects scope) \<le> length objects"
  "Option.bind (jget scope ''max_objects'') as_u64 = Some n \<Longrightarrow>
     int (length (apply_task_grant_memory_scope_to_context_objects X objects scope)) \<le> n"
proof -
  show "length (apply_task_grant_memory_scope_to_context_objects X objects scope) \<le> length objects"
    by (auto simp: memory_scope_filter Let_def min_le_iff_disj split: option.splits)
  assume n: "Option.bind (jget scope ''max_objects'') as_u64 = Some n"
  then have "0 \<le> n" by (cases "jget scope ''max_objects''"; cases "the (jget scope ''max_objects'')")
    (auto simp: in_u64_def split: if_splits)
  with n show "int (length (apply_task_grant_memory_scope_to_context_objects X objects scope)) \<le> n"
    by (simp add: memory_scope_filter Let_def min_def le_nat_iff)
qed

section \<open>The objects of a packet\<close>

definition same_objects :: "world \<Rightarrow> world \<Rightarrow> bool" where
  "same_objects w w' \<longleftrightarrow> semantic_objects w' = semantic_objects w"

interpretation objects: relation_on_worlds same_objects
  by unfold_locales (simp_all add: same_objects_def)

text \<open>
  An object that a packet of the given scopes may show under the given grant: one of the store that is not
  archived and is active, lies in the scopes, and is admitted by the grant's memory scope.
\<close>

definition in_memory
    :: "ext \<Rightarrow> world \<Rightarrow> json \<Rightarrow> task_grant option \<Rightarrow> context_packet_semantic_object \<Rightarrow> bool" where
  "in_memory X w scopes grant ob \<longleftrightarrow>
     (\<exists>stored \<in> snd ` set (semantic_objects w). ob = context_packet_semantic_object_from_store_object stored
        \<and> so_archived_at stored = None \<and> so_status stored = ''active''
        \<and> semantic_object_matches_scope stored scopes)
     \<and> (\<forall>g. grant = Some g \<longrightarrow> context_semantic_object_satisfies_memory_scope X ob (tg_memory_scope g))"

lemma listed_objects:
  "list_semantic_objects S w = (Inr objects, w') \<Longrightarrow>
     w' = w \<and> set objects = {ob \<in> snd ` set (semantic_objects w). so_archived_at ob = None}"
  by (auto simp: list_semantic_objects_def effs_Inr set_tvalues)

lemma ranked_set [simp]: "set (ranked_semantic_objects scopes objects) = set objects"
  by (simp add: ranked_semantic_objects_def)

lemma scoped_objects:
  "set (objects_in_scope scopes objects) = context_packet_semantic_object_from_store_object `
     {ob \<in> set objects. so_status ob = ''active'' \<and> semantic_object_matches_scope ob scopes}"
  by (auto simp: objects_in_scope_def)

lemma retrieved_objects:
  assumes "retrieve_context_packet_semantic_objects S C scopes w = (Inr objects, w')"
  shows "w' = w" "length objects \<le> 12" "ob \<in> set objects \<Longrightarrow> in_memory X w scopes None ob"
  using assms
  by (auto simp: retrieve_context_packet_semantic_objects_def Let_def effs_Inr in_memory_def scoped_objects
      dest!: listed_objects in_set_takeD split: if_splits)

lemma context_object_set:
  assumes "context_objects S C i scopes grant w = (Inr objects, w')"
  shows "length objects \<le> 12" "ob \<in> set objects \<Longrightarrow> in_memory (lib S) w scopes grant ob"
    "grant = Some g \<Longrightarrow> Option.bind (jget (tg_memory_scope g) ''max_objects'') as_u64 = Some n \<Longrightarrow>
       int (length objects) \<le> n"
proof -
  obtain found w1 where found: "retrieve_context_packet_semantic_objects S C scopes w = (Inr found, w1)"
    and objects: "objects = (case grant of None \<Rightarrow> found
      | Some g \<Rightarrow> apply_task_grant_memory_scope_to_context_objects (lib S) found (tg_memory_scope g))"
    using assms by (cases grant) (auto simp: context_objects_def effs_Inr)
  note r = retrieved_objects [OF found]
  show "length objects \<le> 12"
    using r(2) allowed_count(1) [of "lib S" found] by (auto simp: objects split: option.splits intro: order_trans)
  show "in_memory (lib S) w scopes grant ob" if "ob \<in> set objects"
    using that r(3) by (auto simp: objects in_memory_def dest: allowed_objects split: option.splits)
  show "int (length objects) \<le> n"
    if "grant = Some g" "Option.bind (jget (tg_memory_scope g) ''max_objects'') as_u64 = Some n"
    using that allowed_count(2) by (simp add: objects)
qed

lemma objects_relation:
  assumes "handoff_peers_respect same_objects H" and "context_peers_respect same_objects C"
  shows "context_relation same_objects S idle_peers H C"
proof -
  have "store_relation same_objects S idle_peers"
    by (intro footprint_store_relation idle_peers_respect objects.relation_on_worlds_axioms)
      (auto simp: runtime_writes_def same_objects_def)
  moreover have "context_relation_axioms same_objects H C"
    using assms
    by unfold_locales (auto simp: keeps_def same_objects_def create_context_packet_def
        update_context_packet_audit_trace_def Let_def split: option.splits)
  ultimately show ?thesis by (rule context_relation.intro)
qed


text \<open>What a packet is built from, and the state in which its objects are read.\<close>

lemma built_packet:
  assumes "build_context_packet S H C p i w = (Inr packet, w')"
    and "handoff_peers_respect same_objects H" and "context_peers_respect same_objects C"
  obtains found w1 agent version objects v v' where
    "context_grant S i w = (Inr found, w1)" "semantic_objects v = semantic_objects w"
    "context_objects S C i (cp_semantic_scopes packet) (map_option snd found) v = (Inr objects, v')"
    "cp_retrieved_objects packet = objects" "cp_session_id packet = i"
    "agent_version_for_session S i w1 = (Inr version, w1)"
    "cp_agent packet = context_agent agent version (map_option snd found)"
proof -
  note rel = objects_relation [OF assms(2,3), of S]
  note kept = context_relation.context_grant_keeps [OF rel] context_relation.context_parts_keep [OF rel]
    context_relation.context_release_keeps [OF rel] context_relation.context_readers [OF rel]
  have same: "keeps same_objects m \<Longrightarrow> m u = (r, u') \<Longrightarrow> semantic_objects u' = semantic_objects u"
    for m :: "'a eff" and r u u' by (auto simp: same_objects_def dest: keepsD)
  note chain = assms(1) [unfolded build_context_packet_def Let_def bindS_eq_Inr]
  obtain session where "get_session i w = (Inr session, w)"
    using chain by (auto simp: get_session_def effects_eq_Inr)
  with chain obtain found w1 agent w2 version w3 assignment w4 release w5 es w6 profile w7 number w8 objects w9
      generated_at w10 k where
    grant: "context_grant S i w = (Inr found, w1)"
    and agent: "get_agent S (se_agent_id session) w1 = (Inr agent, w2)"
    and version: "agent_version_for_session S i w2 = (Inr version, w3)"
    and assignment: "effective_handoff_assignment_context S i w3 = (Inr assignment, w4)"
    and release: "context_release C (map_option fst found)
        (context_scopes (av_semantic_scopes version) assignment (map_option snd found)) w4 = (Inr release, w5)"
    and es: "list_events i w5 = (Inr es, w6)"
    and profile: "resolve_context_packet_runtime_profile H session version assignment w6 = (Inr profile, w7)"
    and number: "next_context_packet_version S i w7 = (Inr number, w8)"
    and objects: "context_objects S C i (context_scopes (av_semantic_scopes version) assignment (map_option snd found))
        (map_option snd found) w8 = (Inr objects, w9)"
    and packet: "cp_retrieved_objects packet = objects" "cp_session_id packet = i"
      "cp_semantic_scopes packet = context_scopes (av_semantic_scopes version) assignment (map_option snd found)"
      "cp_agent packet = context_agent agent version (map_option snd found)"
    by (elim exE conjE) (simp add: effects_eq_Inr)
  have pure: "w2 = w1" "w3 = w2"
    using agent version
    by (auto simp: get_agent_def agent_version_for_session_def get_session_def effs_Inr)
  have "semantic_objects w8 = semantic_objects w"
    using pure same [OF kept(1) grant] same [OF kept(2) assignment] same [OF kept(6) release]
      same [OF kept(13) es] same [OF kept(5) profile] same [OF kept(11) number]
    by simp
  with grant objects packet version pure that show thesis by simp
qed


text \<open>
  C34. A packet shows only what its session may know. Each object in a packet that is built is an
  active, unarchived object of the store in the scopes of the packet; under a task grant, which is then
  active, it is also admitted by the grant's memory scope, in its types, its objects and its trust. There are
  never more than twelve, nor more than the grant's limit, and the tools of the packet are tools of the agent
  version that the grant allows.
\<close>

theorem packet_within_scope:
  assumes "build_context_packet S H C p i w = (Inr packet, w')"
    and "handoff_peers_respect same_objects H" and "context_peers_respect same_objects C"
  shows "\<exists>found w1 version. context_grant S i w = (Inr found, w1)
    \<and> agent_version_for_session S i w1 = (Inr version, w1)
    \<and> length (cp_retrieved_objects packet) \<le> 12
    \<and> (\<forall>ob \<in> set (cp_retrieved_objects packet).
         in_memory (lib S) w (cp_semantic_scopes packet) (map_option snd found) ob)
    \<and> (\<forall>run g. found = Some (run, g) \<longrightarrow> tg_status g = ''active''
         \<and> (\<forall>n. Option.bind (jget (tg_memory_scope g) ''max_objects'') as_u64 = Some n
               \<longrightarrow> int (length (cp_retrieved_objects packet)) \<le> n)
         \<and> (\<forall>tool \<in> set (pa_tools (cp_agent packet)). task_grant_allows_tool g tool
               \<and> tool \<in> set (av_tools version @ av_tool_names version)))"
proof -
  from assms obtain found w1 agent version objects v v' where
    b: "context_grant S i w = (Inr found, w1)" "semantic_objects v = semantic_objects w"
      "context_objects S C i (cp_semantic_scopes packet) (map_option snd found) v = (Inr objects, v')"
      "cp_retrieved_objects packet = objects" "cp_session_id packet = i"
      "agent_version_for_session S i w1 = (Inr version, w1)"
      "cp_agent packet = context_agent agent version (map_option snd found)"
    by (rule built_packet)
  note object_set = context_object_set [OF b(3)]
  have "in_memory (lib S) v scopes g = in_memory (lib S) w scopes g" for scopes g
    by (simp add: in_memory_def b(2) fun_eq_iff)
  with object_set(2) have objects: "\<forall>ob \<in> set objects. in_memory (lib S) w (cp_semantic_scopes packet) (map_option snd found) ob"
    by auto
  have "tg_status g = ''active''" if "found = Some (run, g)" for run g
    using b(1) that by (auto simp: context_grant_def effs_Inr split: option.splits if_splits)
  moreover have "\<forall>tool \<in> set (pa_tools (cp_agent packet)). task_grant_allows_tool g tool
      \<and> tool \<in> set (av_tools version @ av_tool_names version)" if "found = Some (run, g)" for run g
    using that by (auto simp: b(7) context_agent_def context_agent_version_def task_grant_effective_tools_def Let_def)
  moreover have "int (length objects) \<le> n"
    if "found = Some (run, g)" "Option.bind (jget (tg_memory_scope g) ''max_objects'') as_u64 = Some n" for run g n
    using object_set(3) that by simp
  ultimately show ?thesis
    using b(1,6) object_set(1) objects unfolding b(4) by blast
qed


text \<open>Two objects in scope, one of which the grant's memory scope admits.\<close>

definition stored_sample :: "uuid \<Rightarrow> string \<Rightarrow> string \<Rightarrow> semantic_object" where
  "stored_sample i key trust =
     \<lparr>go_id = i, go_object_type = ''memory'', go_object_key = key, go_title = ''t'', go_trust_level = trust,
      go_freshness = ''current'', so_source_id = None, so_summary = ''s'', so_content = JObj [],
      so_semantic_scopes = JObj [(''d'', JStr ''x'')], so_source_uri = None, so_provenance = JObj [],
      so_status = ''active'', so_created_at = 0, so_updated_at = 0, so_archived_at = None\<rparr>"

definition idle_context :: context_peers where
  "idle_context = \<lparr>active_release_metadata = (\<lambda>d. retS None), env_var = (\<lambda>v. None),
     project_file_exists = (\<lambda>f. False)\<rparr>"

lemma idle_context_respects: "context_peers_respect same_objects idle_context"
  by (simp add: context_peers_respect_def idle_context_def objects.resp_pure)

interpretation object_packets: context_relation same_objects S idle_peers idle_handoffs idle_context for S
  by (intro objects_relation idle_handoffs_respect idle_context_respects objects.relation_on_worlds_axioms)

definition remembering_grant :: task_grant where
  "remembering_grant = root_sample\<lparr>tg_memory_scope := JObj [(''minimum_trust_level'', JStr ''verified'')]\<rparr>"

definition remembering_version :: agent_version where
  "remembering_version = sample_version\<lparr>av_semantic_scopes := JObj [(''d'', JStr ''x'')]\<rparr>"

definition remembering_run :: workflow_run where
  "remembering_run = run_sample\<lparr>wr_root_task_grant_id := Some 20\<rparr>"

definition remembering_world :: world where
  "remembering_world = working_world\<lparr>
     workflow_runs := [(7, remembering_run)],
     task_grants := [(20, remembering_grant)], agents := [(1, sample_agent)],
     agent_versions := [(1, [remembering_version])],
     semantic_objects := [(31, stored_sample 31 ''a'' ''unverified''), (32, stored_sample 32 ''b'' ''source_attested'')]\<rparr>"

definition no_policy :: policy_runtime where
  "no_policy = runtime_policy \<lparr>pc_blocked_tools = [], pc_approval_required = [], pc_allowed_tools = [],
     pc_sql_policy = \<lparr>sp_max_rows = 1, sp_blocked_keywords = []\<rparr>\<rparr>"

lemma remembered_parts:
  "context_grant sample_sys 5 remembering_world
     = (Inr (Some (remembering_run, remembering_grant)), remembering_world\<lparr>ticks := 3\<rparr>)"
  "get_session 5 remembering_world = (Inr session_sample, remembering_world)"
  "get_agent sample_sys 1 (remembering_world\<lparr>ticks := 3\<rparr>) = (Inr sample_agent, remembering_world\<lparr>ticks := 3\<rparr>)"
  "agent_version_for_session sample_sys 5 (remembering_world\<lparr>ticks := 3\<rparr>)
     = (Inr remembering_version, remembering_world\<lparr>ticks := 3\<rparr>)"
  "effective_handoff_assignment_context sample_sys 5 (remembering_world\<lparr>ticks := 3\<rparr>)
     = (Inr None, remembering_world\<lparr>ticks := 3\<rparr>)"
  by code_simp+


lemma remembered_objects:
  "succeeds (context_objects sample_sys idle_context 5 (JObj [(''d'', JStr ''x'')]) (Some remembering_grant)
     (remembering_world\<lparr>ticks := 3\<rparr>)) (\<lambda>objects w'. map go_id objects = [32])"
  by code_simp

lemma remembered_rest:
  "context_release idle_context (Some remembering_run) (JObj [(''d'', JStr ''x'')]) w = (Inr None, w)"
  "resolve_context_packet_runtime_profile idle_handoffs session_sample remembering_version None w = (Inr None, w)"
  "context_scopes (av_semantic_scopes remembering_version) None (Some remembering_grant) = JObj [(''d'', JStr ''x'')]"
  by (simp_all add: context_release_def remembering_run_def run_sample_def active_ontology_release_for_scopes_def
      resolve_context_packet_runtime_profile_def session_sample_def remembering_version_def sample_version_def
      context_scopes_def merge_semantic_scopes_def remembering_grant_def root_sample_def scoped_grant_def
      eff_simps jget_str_def unwrap_or_def Let_def)

lemma packet_within_scope_witness:
  "\<exists>packet w'. build_context_packet sample_sys idle_handoffs idle_context no_policy 5 remembering_world = (Inr packet, w')
     \<and> map go_id (cp_retrieved_objects packet) = [32]
     \<and> (\<forall>ob \<in> set (cp_retrieved_objects packet).
          context_semantic_object_satisfies_memory_scope sample_lib ob (tg_memory_scope remembering_grant))"
proof -
  obtain objects v where objects: "context_objects sample_sys idle_context 5 (JObj [(''d'', JStr ''x'')])
      (Some remembering_grant) (remembering_world\<lparr>ticks := 3\<rparr>) = (Inr objects, v)" "map go_id objects = [32]"
    using remembered_objects by (auto elim: succeedsE)
  have agent: "se_agent_id session_sample = 1" by (simp add: session_sample_def)
  obtain packet w' where built:
    "build_context_packet sample_sys idle_handoffs idle_context no_policy 5 remembering_world = (Inr packet, w')"
    "cp_retrieved_objects packet = objects"
    by (simp add: build_context_packet_def Let_def bindS_def remembered_parts agent remembered_rest objects(1)
        next_context_packet_version_def list_events_def list_events_after_def now_utc_def new_v4_def eff_simps del: One_nat_def)
  have "handoff_peers_respect same_objects idle_handoffs" "context_peers_respect same_objects idle_context"
    by (simp_all add: idle_handoffs_respect objects.relation_on_worlds_axioms idle_context_respects)
  from packet_within_scope [OF built(1) this] remembered_parts(1) built objects(2) show ?thesis
    by (auto simp: in_memory_def sample_sys_def)
qed


section \<open>What the tools show\<close>

text \<open>The packet of a tool call: stored, of the session, and the one the call's grant is bound to.\<close>

definition bound_packet :: "world \<Rightarrow> execute_tool \<Rightarrow> context_packet \<Rightarrow> task_grant option \<Rightarrow> bool" where
  "bound_packet w input packet grant \<longleftrightarrow>
     packet \<in> snd ` set (context_packets w) \<and> cp_session_id packet = xt_session_id input
     \<and> (case xt_task_grant_id input of None \<Rightarrow> grant = None
        | Some i \<Rightarrow> \<exists>g. grant = Some g \<and> tget (task_grants w) i = Some g \<and> tg_context_packet_id g = Some (cp_id packet))"

lemma tool_packet:
  assumes "context_packet_and_grant_for_tool_invocation S input w = (Inr (packet, grant), w')"
  shows "w' = w" "bound_packet w input packet grant"
  using assms
  by (auto simp: context_packet_and_grant_for_tool_invocation_def bound_packet_def effs_Inr ok_or_eq_Inr
      get_context_packet_def get_task_grant_def split: option.splits if_splits dest!: map_of_SomeD)
    force+

lemma tool_packet_alone:
  "context_packet_for_tool_invocation S input w = (Inr packet, w') \<longleftrightarrow>
     (\<exists>grant. context_packet_and_grant_for_tool_invocation S input w = (Inr (packet, grant), w'))"
  by (auto simp: context_packet_for_tool_invocation_def effs_Inr)

lemma candidates_inside:
  assumes "search_candidates S packet grant w = (Inr objects, w')"
  shows "w' = w" "\<forall>ob \<in> set objects. if scoped_lookup_allowed grant
      then in_memory (lib S) w (cp_semantic_scopes packet) grant ob else ob \<in> set (cp_retrieved_objects packet)"
  using assms
  by (auto simp: search_candidates_def effs_Inr in_memory_def scoped_objects dest!: listed_objects
      split: if_splits option.splits)

lemma endpoints_allowed_iff:
  "endpoints_allowed X packet l \<longleftrightarrow> (\<forall>e \<in> {sl_from_entity_id l, sl_to_entity_id l}. \<forall>i.
     parse_uuid X e = Some i \<longrightarrow> i \<in> go_id ` set (cp_retrieved_objects packet))"
  by (cases "parse_uuid X (sl_from_entity_id l)"; cases "parse_uuid X (sl_to_entity_id l)")
    (simp_all add: endpoints_allowed_def)

lemma fetch_inside:
  assumes "semantic_object_fetch_tool S input w = (Inr v, w1)"
  shows "\<exists>packet grant response ob. bound_packet w input packet grant \<and> v = fetch_response_json (lib S) response
    \<and> so_archived_at ob = None \<and> fr_object response = fetchable_object (fr_content_included response) ob
    \<and> (\<exists>i \<in> go_id ` set (cp_retrieved_objects packet). tget (semantic_objects w) i = Some ob)"
proof -
  from assms obtain packet grant response object_id b w2 where
    packet: "context_packet_and_grant_for_tool_invocation S input w = (Inr (packet, grant), w2)"
    and response: "fetch_semantic_object_for_context S packet object_id b w2 = (Inr response, w1)"
      "v = fetch_response_json (lib S) response"
    by (auto simp: semantic_object_fetch_tool_def effs_Inr tool_packet_alone)
  note bound = tool_packet [OF packet]
  obtain ob where "so_archived_at ob = None" "fr_object response = fetchable_object (fr_content_included response) ob"
      "object_id \<in> go_id ` set (cp_retrieved_objects packet)" "tget (semantic_objects w) object_id = Some ob"
    using response(1) bound(1)
    by (auto simp: fetch_semantic_object_for_context_def Let_def effs_Inr get_semantic_object_def
        ensure_context_packet_allows_semantic_object_def guardr_eq_Inr ok_or_eq_Inr opt_filter_eq_Some)
  with bound(2) response(2) show ?thesis by blast
qed

lemma search_inside:
  assumes "semantic_object_search_tool S input w = (Inr v, w1)"
  shows "\<exists>packet grant response objects. bound_packet w input packet grant \<and> v = search_response_json (lib S) response
    \<and> sp_results response = map found_object objects \<and> length objects \<le> 25
    \<and> (\<forall>ob \<in> set objects. if scoped_lookup_allowed grant
         then in_memory (lib S) w (cp_semantic_scopes packet) grant ob
         else ob \<in> set (cp_retrieved_objects packet))"
proof -
  from assms obtain packet grant response request w2 where
    packet: "context_packet_and_grant_for_tool_invocation S input w = (Inr (packet, grant), w2)"
    and response: "search_semantic_objects_for_context S packet grant request w2 = (Inr response, w1)"
      "v = search_response_json (lib S) response"
    by (auto simp: semantic_object_search_tool_def effs_Inr)
  note bound = tool_packet [OF packet]
  obtain candidates w3 p n where candidates: "search_candidates S packet grant w2 = (Inr candidates, w3)"
    and results: "sp_results response = map found_object (take n (filter p candidates))" "n \<le> 25"
    using response(1)
    by (auto simp: search_semantic_objects_for_context_def Let_def effs_Inr filter_filter)
  show ?thesis
    using bound response(2) results candidates_inside(2) [OF candidates]
    by (intro exI [of _ packet] exI [of _ grant] exI [of _ response] exI [of _ "take n (filter p candidates)"])
      (auto dest: in_set_takeD)
qed

lemma expansion_inside:
  assumes "semantic_link_expand_tool S input w = (Inr v, w1)"
  shows "\<exists>packet grant response. bound_packet w input packet grant \<and> v = expand_response_json (lib S) response
    \<and> lp_object_id response \<in> go_id ` set (cp_retrieved_objects packet) \<and> length (lp_links response) \<le> 50
    \<and> (\<forall>l \<in> set (lp_links response). l \<in> snd ` set (semantic_links w) \<and> sl_archived_at l = None
         \<and> (\<forall>e \<in> {sl_from_entity_id l, sl_to_entity_id l}. \<forall>i. parse_uuid (lib S) e = Some i
              \<longrightarrow> i \<in> go_id ` set (cp_retrieved_objects packet)))"
proof -
  from assms obtain packet grant response request w2 where
    packet: "context_packet_and_grant_for_tool_invocation S input w = (Inr (packet, grant), w2)"
    and response: "expand_semantic_links_for_context S packet request w2 = (Inr response, w1)"
      "v = expand_response_json (lib S) response"
    by (auto simp: semantic_link_expand_tool_def effs_Inr tool_packet_alone)
  note bound = tool_packet [OF packet]
  note expansion = response(1) [unfolded expand_semantic_links_for_context_def Let_def effs_Inr]
  from expansion have inside: "lp_object_id response \<in> go_id ` set (cp_retrieved_objects packet)"
    by (elim exE conjE) (simp add: guardr_eq_Inr ensure_context_packet_allows_semantic_object_def)
  from expansion have count: "length (lp_links response) \<le> 50" by (elim exE conjE) simp
  from expansion obtain links w3 where read: "list_semantic_links S w2 = (Inr links, w3)"
    and "set (lp_links response) \<subseteq> {l \<in> set links. endpoints_allowed (lib S) packet l}"
    by (elim exE conjE) (force simp: touching_links_def related_links_def dest: in_set_takeD)
  then have links: "set (lp_links response) \<subseteq>
      {l \<in> snd ` set (semantic_links w). sl_archived_at l = None \<and> endpoints_allowed (lib S) packet l}"
    unfolding bound(1) by (auto simp: list_semantic_links_def effs_Inr set_tvalues)
  from links have "\<forall>l \<in> set (lp_links response). l \<in> snd ` set (semantic_links w) \<and> sl_archived_at l = None
      \<and> endpoints_allowed (lib S) packet l" by blast
  with bound(2) response(2) inside count show ?thesis
    by (intro exI [of _ packet] exI [of _ grant] exI [of _ response])
      (simp add: endpoints_allowed_iff)
qed

text \<open>
  C35. The semantic tools show nothing outside the packet of the call. Whatever a tool returns, its packet is
  one of the session, and the one its task grant is bound to. A fetched object is an unarchived object of
  the store that the packet lists. A search returns at most 25 objects of the packet or, only if the grant
  allows scoped lookup, active objects in the packet's scopes that the grant's memory scope admits. Links are
  expanded for an object the packet lists, at most 50, and each of them names no object outside the packet.
\<close>

theorem semantic_tools_stay_inside:
  "(\<forall>v w1. semantic_object_fetch_tool S input w = (Inr v, w1) \<longrightarrow>
      (\<exists>packet grant response ob. bound_packet w input packet grant \<and> v = fetch_response_json (lib S) response
        \<and> so_archived_at ob = None \<and> fr_object response = fetchable_object (fr_content_included response) ob
        \<and> (\<exists>i \<in> go_id ` set (cp_retrieved_objects packet). tget (semantic_objects w) i = Some ob)))
   \<and> (\<forall>v w1. semantic_object_search_tool S input w = (Inr v, w1) \<longrightarrow>
      (\<exists>packet grant response objects. bound_packet w input packet grant \<and> v = search_response_json (lib S) response
        \<and> sp_results response = map found_object objects \<and> length objects \<le> 25
        \<and> (\<forall>ob \<in> set objects. if scoped_lookup_allowed grant
             then in_memory (lib S) w (cp_semantic_scopes packet) grant ob
             else ob \<in> set (cp_retrieved_objects packet))))
   \<and> (\<forall>v w1. semantic_link_expand_tool S input w = (Inr v, w1) \<longrightarrow>
      (\<exists>packet grant response. bound_packet w input packet grant \<and> v = expand_response_json (lib S) response
        \<and> lp_object_id response \<in> go_id ` set (cp_retrieved_objects packet) \<and> length (lp_links response) \<le> 50
        \<and> (\<forall>l \<in> set (lp_links response). l \<in> snd ` set (semantic_links w) \<and> sl_archived_at l = None
             \<and> (\<forall>e \<in> {sl_from_entity_id l, sl_to_entity_id l}. \<forall>i. parse_uuid (lib S) e = Some i
                  \<longrightarrow> i \<in> go_id ` set (cp_retrieved_objects packet)))))"
  using fetch_inside search_inside expansion_inside by (intro conjI allI impI) blast+

text \<open>An object is fetched by a call without a grant.\<close>

definition looking_world :: world where
  "looking_world = packet_world\<lparr>sessions := [(5, session_sample)],
     semantic_objects := [(3, stored_sample 3 ''k'' ''source_attested'')]\<rparr>"

definition look_up :: execute_tool where
  "look_up = \<lparr>xt_session_id = 5, xt_task_grant_id = None,
     xt_args = JObj [(''context_packet_id'', JStr (replicate 60 CHR ''a'')), (''object_id'', JStr ''abc'')]\<rparr>"

lemma semantic_tools_stay_inside_witness:
  "\<exists>v w1 packet grant. semantic_object_fetch_tool sample_sys look_up looking_world = (Inr v, w1)
     \<and> bound_packet looking_world look_up packet grant"
proof -
  have packet: "context_packet_for_tool_invocation sample_sys look_up looking_world = (Inr packet_sample, looking_world)"
    by (simp add: context_packet_for_tool_invocation_def context_packet_and_grant_for_tool_invocation_def look_up_def
        looking_world_def packet_world_def packet_sample_def get_context_packet_def sample_sys_def sample_lib_def
        bindS_def thenS_def eff_simps jget_str_def ok_or_def)
  have id: "uuid_tool_arg (lib sample_sys) (xt_args look_up) [''object_id'', ''semantic_object_id'', ''id'']
      ''semantic_object.fetch requires object_id'' = Inr 3"
    by (simp add: look_up_def sample_sys_def sample_lib_def jget_str_def ok_or_def)
  have "\<exists>response w1. fetch_semantic_object_for_context sample_sys packet_sample 3 b looking_world = (Inr response, w1)" if "\<not> b" for b
    by (simp add: fetch_semantic_object_for_context_def ensure_context_packet_allows_semantic_object_def Let_def
        packet_sample_def fresh_object_def guardr_def get_semantic_object_def looking_world_def stored_sample_def
        opt_filter_def ok_or_def record_semantic_use_def append_event_def append_event_with_id_def audit_def
        new_audit_log_def append_audit_log_def bindS_def new_v4_def now_utc_def eff_simps packet_world_def
        empty_world_def thenS_def)
  then obtain response w1 where
    fetched: "fetch_semantic_object_for_context sample_sys packet_sample 3 False looking_world = (Inr response, w1)" by blast
  have "\<not> unwrap_or (jget_bool (xt_args look_up) ''include_content'') False"
    by (simp add: look_up_def jget_bool_def unwrap_or_def)
  then have "semantic_object_fetch_tool sample_sys look_up looking_world = (Inr (fetch_response_json (lib sample_sys) response), w1)"
    by (simp add: semantic_object_fetch_tool_def bindS_def packet id fetched eff_simps del: uuid_tool_arg.simps)
  with semantic_tools_stay_inside [of sample_sys look_up looking_world] show ?thesis by blast
qed

end
