(* ===== verification/Context_Rendering.thy ===== *)
theory Context_Rendering
  imports Context_Lookup Gate_Rules "HOL-Library.Sublist"
begin

text \<open>
  The rendering of a packet keeps to its budget and accounts for what it leaves out.
\<close>

section \<open>Texts cut to a number of characters\<close>

lemma chars_count_Nil [simp]: "chars_count [] = 0"
  by (simp add: chars_count_def)

lemma chars_count_Cons [simp]:
  "chars_count (c # s) = (if continues_char c then chars_count s else Suc (chars_count s))"
  by (simp add: chars_count_def)

lemma chars_count_append [simp]: "chars_count (s @ t) = chars_count s + chars_count t"
  by (simp add: chars_count_def)

lemma chars_take: "chars_count (take_chars n s) = min n (chars_count s)"
  by (induction n s rule: take_chars.induct) (auto split: nat.splits)

lemma take_chars_prefix: "prefix (take_chars n s) s"
  by (induction n s rule: take_chars.induct) (auto split: nat.splits)

lemma chars_truncated: "3 \<le> n \<Longrightarrow> chars_count (truncate_for_execution_context v n) \<le> n"
  by (auto simp: truncate_for_execution_context_def chars_take continues_char_def)

section \<open>The loop over the objects\<close>

lemma rendered_loop:
  fixes max_tokens max_objects max_chars objects d
  defines "d' \<equiv> fold (render_object max_tokens max_objects max_chars) objects d"
  assumes "length (rd_objects d) \<le> max_objects"
  shows "length (rd_objects d') \<le> max_objects
    \<and> length (rd_objects d') + rd_over_limit d' + rd_over_budget d'
        = length (rd_objects d) + rd_over_limit d + rd_over_budget d + length objects
    \<and> (\<exists>more. rd_objects d' = rd_objects d @ more
          \<and> subseq more (map (rendered_semantic_object max_chars) objects)
          \<and> rd_tokens d' = rd_tokens d + sum_list (map object_tokens more)
          \<and> (more = [] \<or> rd_tokens d' \<le> max_tokens))"
  using assms(2) unfolding d'_def
proof (induction objects arbitrary: d)
  case (Cons ob objects)
  let ?r = "rendered_semantic_object max_chars ob"
  let ?d = "render_object max_tokens max_objects max_chars ob d"
  have "length (rd_objects ?d) \<le> max_objects"
    using Cons.prems by (simp add: render_object_def Let_def)
  note rest = Cons.IH [OF this]
  then obtain more where more: "rd_objects (fold (render_object max_tokens max_objects max_chars) objects ?d)
        = rd_objects ?d @ more"
      "subseq more (map (rendered_semantic_object max_chars) objects)"
      "rd_tokens (fold (render_object max_tokens max_objects max_chars) objects ?d)
        = rd_tokens ?d + sum_list (map object_tokens more)"
      "more = [] \<or> rd_tokens (fold (render_object max_tokens max_objects max_chars) objects ?d) \<le> max_tokens"
    by blast
  show ?case
  proof (cases "rd_objects ?d = rd_objects d")
    case True
    then have "rd_tokens ?d = rd_tokens d" "rd_over_limit ?d + rd_over_budget ?d = Suc (rd_over_limit d + rd_over_budget d)"
      by (auto simp: render_object_def Let_def split: if_splits)
    with rest more True show ?thesis by (auto intro: exI [of _ more])
  next
    case False
    then have added: "rd_objects ?d = rd_objects d @ [?r]" "rd_tokens ?d = rd_tokens d + object_tokens ?r"
        "rd_tokens ?d \<le> max_tokens" "rd_over_limit ?d = rd_over_limit d" "rd_over_budget ?d = rd_over_budget d"
      by (auto simp: render_object_def Let_def split: if_splits)
    with rest more show ?thesis by (auto intro!: exI [of _ "?r # more"])
  qed
qed simp

lemma rendered_objects:
  assumes "d = render_objects max_tokens max_objects max_chars used objects"
  shows "length (rd_objects d) \<le> max_objects"
    "length (rd_objects d) + rd_over_limit d + rd_over_budget d = length objects"
    "subseq (rd_objects d) (map (rendered_semantic_object max_chars) objects)"
    "rd_tokens d = used + sum_list (map object_tokens (rd_objects d))"
    "rd_objects d = [] \<or> rd_tokens d \<le> max_tokens"
  using rendered_loop [of "\<lparr>rd_objects = [], rd_tokens = used, rd_over_limit = 0, rd_over_budget = 0\<rparr>"
      max_objects max_tokens max_chars objects] assms
  by (auto simp: render_objects_def)

lemma shown_of_stored: "subseq xs ys \<Longrightarrow> set xs \<subseteq> set ys"
  by (induction rule: list_emb.induct) auto

lemma bounded_budget:
  "lo \<le> hi \<Longrightarrow> lo \<le> bounded_render_budget r n lo hi \<and> bounded_render_budget r n lo hi \<le> hi"
  by (simp add: bounded_render_budget_def)

text \<open>
  C37. The bounds of a rendered packet. Whatever a request asks for, between 256 and 8000 tokens, 1 and
  20 objects, 32 and 1200 characters of a title or summary and at most 12 reminders are allowed. The rendered
  objects are some of those of the packet, in their order, no more and no longer than allowed; the tokens
  reported are those of the context and of the objects; each object of the packet is rendered or counted among
  those left out. The allowance of tokens bounds the objects only: if any is rendered, the tokens
  reported are within it, but the context alone (the task, its layers and the reminders) may exceed it.
\<close>

theorem render_within_budget:
  "let r = render_execution_context X packet input; b = rx_budget r; out = rx_omitted r;
       shown = rx_relevant_objects r; n = bg_max_summary_chars b in
     256 \<le> bg_max_prompt_tokens b \<and> bg_max_prompt_tokens b \<le> 8000
   \<and> 1 \<le> bg_max_objects b \<and> bg_max_objects b \<le> 20 \<and> 32 \<le> n \<and> n \<le> 1200 \<and> bg_max_policy_reminders b \<le> 12
   \<and> length (rx_must_follow r) \<le> bg_max_policy_reminders b
   \<and> length shown \<le> bg_max_objects b
   \<and> subseq shown (map (rendered_semantic_object n) (cp_retrieved_objects packet))
   \<and> list_all (\<lambda>ob. chars_count (ro_title ob) \<le> n \<and> chars_count (ro_summary ob) \<le> n) shown
   \<and> bg_estimated_tokens_used b = estimate_rendered_context_base_tokens X packet (rx_must_follow r)
       + estimate_tokens (json_to_string X (rx_task r)) + estimate_tokens (json_to_string X (rx_context_layers r))
       + sum_list (map object_tokens shown)
   \<and> (shown = [] \<or> bg_estimated_tokens_used b \<le> bg_max_prompt_tokens b)
   \<and> length shown + om_object_limit_exceeded out + om_token_budget_exceeded out
       = length (cp_retrieved_objects packet)"
proof -
  let ?r = "render_execution_context X packet input"
  let ?n = "bg_max_summary_chars (rx_budget ?r)"
  let ?shown = "rx_relevant_objects ?r"
  obtain d used where d: "d = render_objects (bg_max_prompt_tokens (rx_budget ?r)) (bg_max_objects (rx_budget ?r)) ?n used
        (cp_retrieved_objects packet)"
    and used: "used = estimate_rendered_context_base_tokens X packet (rx_must_follow ?r)
       + estimate_tokens (json_to_string X (rx_task ?r)) + estimate_tokens (json_to_string X (rx_context_layers ?r))"
    and fields: "?shown = rd_objects d" "bg_estimated_tokens_used (rx_budget ?r) = rd_tokens d"
      "om_object_limit_exceeded (rx_omitted ?r) = rd_over_limit d"
      "om_token_budget_exceeded (rx_omitted ?r) = rd_over_budget d"
    by (simp add: render_execution_context_def Let_def)
  note loop = rendered_objects [OF d]
  have bounds: "256 \<le> bg_max_prompt_tokens (rx_budget ?r) \<and> bg_max_prompt_tokens (rx_budget ?r) \<le> 8000"
    "1 \<le> bg_max_objects (rx_budget ?r) \<and> bg_max_objects (rx_budget ?r) \<le> 20" "32 \<le> ?n \<and> ?n \<le> 1200"
    "bg_max_policy_reminders (rx_budget ?r) \<le> 12"
    by (simp_all add: render_execution_context_def Let_def bounded_budget)
  have "length (rx_must_follow ?r) \<le> bg_max_policy_reminders (rx_budget ?r)"
    by (simp add: render_execution_context_def Let_def rendered_must_follow_def)
  moreover have "chars_count (ro_title ob) \<le> ?n \<and> chars_count (ro_summary ob) \<le> ?n" if "ob \<in> set ?shown" for ob
  proof -
    from that have "ob \<in> set (map (rendered_semantic_object ?n) (cp_retrieved_objects packet))"
      using shown_of_stored [OF loop(3)] unfolding fields(1) by blast
    then obtain stored where "ob = rendered_semantic_object ?n stored" by auto
    with bounds(3) show ?thesis by (simp add: rendered_semantic_object_def chars_truncated)
  qed
  ultimately show ?thesis
    using bounds loop fields used by (simp add: Let_def list_all_iff)
qed

text \<open>A packet that is rendered within its allowance, and one whose reminder alone exceeds it.\<close>

definition render_request :: "nat option \<Rightarrow> render_context_packet_request" where
  "render_request tokens =
     \<lparr>rr_max_prompt_tokens = tokens, rr_max_objects = None, rr_max_summary_chars = None,
      rr_max_policy_reminders = None, rr_allow_full_content = None, rr_allow_on_demand_fetch = None\<rparr>"

definition rendered_sample :: rendered_execution_context where
  "rendered_sample = render_execution_context sample_lib packet_sample (render_request None)"

definition rendered_over :: rendered_execution_context where
  "rendered_over = render_execution_context sample_lib
     (packet_sample\<lparr>cp_policy_reminders := [replicate 1100 (CHR ''x'')]\<rparr>) (render_request (Some 1))"

lemma render_within_budget_witness:
  "rx_relevant_objects rendered_sample \<noteq> []
   \<and> bg_estimated_tokens_used (rx_budget rendered_sample) \<le> bg_max_prompt_tokens (rx_budget rendered_sample)
   \<and> bg_max_prompt_tokens (rx_budget rendered_over) < bg_estimated_tokens_used (rx_budget rendered_over)
   \<and> rx_relevant_objects rendered_over = []"
proof -
  have "rx_relevant_objects rendered_sample \<noteq> []" by code_simp
  moreover have "bg_max_prompt_tokens (rx_budget rendered_over) < bg_estimated_tokens_used (rx_budget rendered_over)"
    by code_simp
  moreover have "rx_relevant_objects rendered_sample = []
      \<or> bg_estimated_tokens_used (rx_budget rendered_sample) \<le> bg_max_prompt_tokens (rx_budget rendered_sample)"
    unfolding rendered_sample_def
    using render_within_budget [of sample_lib packet_sample "render_request None", unfolded Let_def] by blast
  moreover have "rx_relevant_objects rendered_over = []
      \<or> bg_estimated_tokens_used (rx_budget rendered_over) \<le> bg_max_prompt_tokens (rx_budget rendered_over)"
    unfolding rendered_over_def
    using render_within_budget [of sample_lib "packet_sample\<lparr>cp_policy_reminders := [replicate 1100 (CHR ''x'')]\<rparr>"
        "render_request (Some 1)", unfolded Let_def] by blast
  ultimately show ?thesis by linarith
qed

end
