(* ===== verification/Spec2Isabelle.thy ===== *)
theory Spec2Isabelle
  imports Delegation Scheduling Claiming Progress Event_Log Worker Exec_Safety Loop_Claims
    Approval_Safety Gate_Rules Assignments Exec_Types Execution_Checks
    Semantic_Memory Context_Rules Context_Rendering
begin

text \<open>
  A model of the workflow runtime of MandoForge, the Rust crate mandoforge-api, with proofs of what
  makes it correct. File names below are those under src/crates/mandoforge-api/src/.

  The program. A workflow definition holds a graph of steps. A run of it opens a session, issues
  a root task grant and materialises the steps that are ready; workers claim steps under a lease,
  run an agent's session for them, and report back; every change of a step advances the run, which
  materialises, skips, retries or compensates further steps until the run completes or fails.
  Every tool call is checked against the task grant of its session and all ancestors of the grant,
  and counted on them. Tool executions go through a queue whose jobs are claimed, committed,
  finalized; the loop of a session is a job of its own; a worker process interleaves the three
  kinds of work. Everything that happens is appended to the event log of its session and to the
  audit log.

  Vocabulary. Prelude has results (\<open>app_error + 'a\<close>), options, machine integers at their
  bounds and strings as UTF-8 bytes; Json has JSON documents (serde_json, objects as sorted entry
  lists); Model has the structs of types/*.rs as records, a field \<open>f\<close> of a struct as \<open>x_f\<close>; World
  has the state (the in-memory MemoryStore of store_backend.rs, each map an association list)
  and effects, functions from a world to a result and a world: an error leaves the changes made
  before it, as a Rust function that returns early does. Clock readings, fresh UUIDs and the iteration order
  of hash tables come from \<open>sys\<close>, third-party functions (parsing of RFC 3339 times, SHA-256,
  printing of JSON) from \<open>ext\<close>, and neighbouring subsystems the runtime calls from \<open>peers\<close>: they
  are parameters, and a theorem that needs something of them says so.

  Steps and graphs (workflow_graph_core.rs): Texts (normalisers), Graph (fields, dependencies,
  retry policies, conditions), Readiness (fan-in, fan-out, ready steps, validation). Validation
  proves that a validated graph never makes them fail; the properties are in Scheduling.

  Task grants (workflow_graph_core.rs, workflow_task_grants.rs, session_handoff_runtime.rs):
  Grants (scopes, budgets, permissions, comparison with the parent), Enforcement (recording, the
  check of a tool call). Attenuation shows the comparison of scopes to be a preorder and every
  permission to be monotone in it, by the locales \<open>scope_order\<close> and \<open>attenuating\<close>;
  Grant_Machine is the abstract machine of the table of grants, Grant_Invariants its invariants;
  the properties are in Delegation and Tool_Checks.

  Store and sessions (store_workflows.rs, store_events.rs, store_audit.rs, store_entities.rs,
  store_session_threads.rs): Store and Sessions have the memory backend's operations, each
  atomic under its lock; the properties of the logs are in Event_Log.

  Runs (workflow_graph_core.rs, workflow_graph_advancement.rs, workflow_step_execution.rs,
  handlers/workflows.rs): Materialize, Advance, Claims. Preservation lifts a relation that the
  atomic operations keep to every composed operation (locales \<open>session_relation\<close> and
  \<open>store_relation\<close>, interpreted for the grant machine, the logs, the step tables); Runtime is the
  transition system of all operations; the properties of claims are in Claiming.
  The source's loops of the advancement run while there is something to do. They are modelled with
  fuel, one more than the number of steps of the graph, and Progress proves that this is enough:
  each pass but the last materialises a step key that had no run (\<open>advancement_ends\<close>).

  Worker and queues (worker_scheduler.rs, execution_queue.rs, store_session_loop_jobs.rs):
  Scheduler is the worker's loop as a step relation, with its properties in Worker; Exec_Queue is
  the memory queue of tool executions, with an abstract life cycle it refines and its properties in
  Exec_Safety, the shape of its jobs in Exec_Types; Loop_Jobs are the jobs of session loops, with their properties in Loop_Claims.

  Tools and approvals (policy.rs, authorization.rs, policy_runtime.rs, context_packet_runtime.rs,
  store_tool_calls.rs, approval_runtime.rs, store_approvals.rs, store_approval_groups.rs): Policy decides on
  tools and on SQL, its rules are in Policy_Rules; Semantic_Gate is what else is asked before a call;
  Approvals has approvals, their decisions and commit tokens; Tool_Invocation is the invocation of a
  tool from the check of its grant to its recorded result. Tool_Preservation extends the locales of
  Preservation to them, Tool_Grants shows that a call charges its grants as the machine of grants allows,
  Call_Log that event logs only grow, Tool_Safety has the properties of invocations, Gate_Rules of the
  semantic gate, Approval_Safety of approvals and commit tokens. An approval is issued under an identifier drawn
  for it: that a decision stays is shown up to a draw of its own identifier. A commit token is checked
  and consumed under separate locks in the source; what two callers in between can do is part of its property.

  Execution of approved calls (execution.rs, session_loop_runtime.rs): a worker claims a job of the
  execution queue, which is part of the world, asks everything again that was asked when the call was
  approved, assigns a remote computer where one is called for, commits the job, and only then lets
  an executor act. Outcomes has the events that record an outcome, their projection to the session
  loop, and what counts as unresolved; Execution the finalization of a job, stage by stage, and its
  recovery; Approved_Tools the executors (a file, a command, a connector, an MCP call, an agent's
  command line); Job_Runner the admission of a claimed job, its run and the two ways of a worker.
  Execution_Preservation extends the locales of Preservation to all of it (\<open>execution_relation\<close>; a relation
  need only be kept up to the commit point and after it), Execution_Safety interprets it with
  \<open>a job past its commit point stays past it\<close>, and Execution_Checks has what must hold for an executor
  to run, where files are written, and how a known failure is lost. The executors' own
  work (running a process, calling a server, writing to the disk) is a parameter, \<open>execution_peers\<close>.

  Semantic memory and context packets (types/semantic.rs, types/context_packet.rs, store_semantic_kernel.rs,
  store_ontology_onboarding.rs, store_context_packets.rs, context_packet_runtime.rs,
  semantic_synthesis_runtime.rs): Semantic_Model has
  the records, Semantic_Store the sources, objects and links with their checks and the packets, Onboarding_Store
  the runs of ontology onboarding, whose proposals are inserted as objects;
  Semantic_Memory shows that the tables stay well formed under every operation (one locale,
  \<open>keyed_records\<close>, for the three of them). Context_Packets has what goes into the packet of a session,
  Context_Lookup its building, recording and rendering, Semantic_Tools the tools that look beyond it.
  Context_Preservation lifts a relation to all of them (\<open>context_relation\<close>), so that the packets take the place of
  a parameter of the runtime (\<open>with_context_packets\<close>); Context_Rules has what a packet and the tools may
  show, Context_Rendering the budget of a rendering. Characters are counted in UTF-8. An update or an
  archiving reads and inserts under separate locks in the source, and the proposals of an onboarding run are
  prepared before the lock that inserts them; here nothing happens in between.

  Handoffs (session_handoff_runtime.rs, store_agent_handoffs.rs, store_manager_plans.rs,
  handlers/agent_handoffs.rs, handlers/manager_plans.rs): a manager agent plans, requests a handoff
  that its rules and their payload schemas allow, and once it is accepted it is assigned to a session
  of the specialist, with a grant below the manager's. Handoff_Preservation extends the locales of
  Preservation to their handlers (\<open>planning_relation\<close> for those that leave handoffs and assignments
  as they are, \<open>assignment_relation\<close>, \<open>event_relation\<close>, and \<open>handoff_relation\<close> for all); Footprint is what
  the workflow runtime leaves alone in the store. Handoff_Safety has the life of a handoff and the
  meaning of payload schemas, Assignments that a handoff is assigned once.

  Samples is the small installation on which the properties are instantiated.

  Bounds. Counters of tool calls and costs are kept at 64 bits, with the overflow error of the
  source; event numbers are integers whose saturation at 64 bits is written out; claim generations
  (64 bits) and attempt counts (32 bits) grow by one per claim and are unbounded integers.

  Not modelled: the PostgreSQL branches of the store and of the queue, which are SQL text; the
  HTTP handlers around most operations; the agent's loop over language model providers, whose effects
  on the runtime are its jobs, events and tool calls; sandboxes, processes and the provisioning of
  remote computers, which are parameters of the execution of approved calls; the ontology engine with its
  releases, ingestion and synthesis, workflow packs, reports and user interfaces.
\<close>

end
